(* ===== verification/Prelude.thy ===== *)
theory Prelude
  imports Main "HOL-Library.AList" "HOL-Library.List_Lexorder" "HOL-Library.Char_ord"
begin

text \<open>
  Shared vocabulary of the development.

  \<^item> \<open>uuid\<close>: an identifier in its canonical text form. The code under
    \<^verbatim>\<open>server/app\<close> only compares identifiers and prints them with \<open>str\<close>, so
    the text form stands for both the \<open>UUID\<close> object and its string.
  \<^item> \<open>datetime\<close>: a timezone-aware instant, as microseconds since the Unix epoch. Python compares
    and subtracts aware datetimes by instant.
  \<^item> \<open>dict\<close>: a Python dict as an association list in insertion order. \<open>AList.update\<close>
    is \<open>d[k] = v\<close>: it overwrites in place or appends.
  \<^item> results of code that raises are sums: \<open>Inl\<close> the exception, \<open>Inr\<close> the value.
\<close>

type_synonym uuid = string
type_synonym datetime = int
type_synonym ('k, 'v) dict = "('k \<times> 'v) list"

named_theorems row_simps \<open>lookups in tables after an insertion or an update\<close>
named_theorems bind_elims \<open>inversion of sequenced computations that may raise\<close>

section \<open>Computations that may raise\<close>

definition raise_if :: "bool \<Rightarrow> 'e \<Rightarrow> 'e + unit" where
  "raise_if b e = (if b then Inl e else Inr ())"

definition rbind :: "'e + 'a \<Rightarrow> ('a \<Rightarrow> 'e + 'b) \<Rightarrow> 'e + 'b" where
  "rbind m f = (case m of Inl e \<Rightarrow> Inl e | Inr x \<Rightarrow> f x)"

definition rmap :: "('a \<Rightarrow> 'b) \<Rightarrow> 'e + 'a \<Rightarrow> 'e + 'b" where
  "rmap f m = (case m of Inl e \<Rightarrow> Inl e | Inr x \<Rightarrow> Inr (f x))"

definition get_or_raise :: "'a option \<Rightarrow> 'e \<Rightarrow> 'e + 'a" where
  "get_or_raise x e = (case x of None \<Rightarrow> Inl e | Some y \<Rightarrow> Inr y)"

definition is_ok :: "'e + 'a \<Rightarrow> bool" where
  "is_ok r = (case r of Inl _ \<Rightarrow> False | Inr _ \<Rightarrow> True)"

lemma is_ok_simps [simp]: "is_ok (Inr x)" "\<not> is_ok (Inl e)"
  by (simp_all add: is_ok_def)

lemma rbind_simps [simp]: "rbind (Inl e) f = Inl e" "rbind (Inr x) f = f x"
  by (simp_all add: rbind_def)

lemma rmap_simps [simp]: "rmap f (Inl e) = Inl e" "rmap f (Inr x) = Inr (f x)"
  by (simp_all add: rmap_def)

lemma raise_if_simps [simp]: "raise_if True e = Inl e" "raise_if False e = Inr ()"
  by (simp_all add: raise_if_def)

lemma get_or_raise_simps [simp]:
  "get_or_raise None e = Inl e" "get_or_raise (Some y) e = Inr y"
  by (simp_all add: get_or_raise_def)

lemma rbind_Inr_iff [simp]: "rbind m f = Inr y \<longleftrightarrow> (\<exists>x. m = Inr x \<and> f x = Inr y)"
  by (cases m) auto

lemma rmap_Inr_iff [simp]: "rmap f m = Inr y \<longleftrightarrow> (\<exists>x. m = Inr x \<and> y = f x)"
  by (cases m) auto

lemma raise_if_Inr_iff [simp]: "raise_if b e = Inr u \<longleftrightarrow> \<not> b"
  by (simp add: raise_if_def)

lemma get_or_raise_Inr_iff [simp]: "get_or_raise x e = Inr y \<longleftrightarrow> x = Some y"
  by (simp add: get_or_raise_def split: option.splits)

section \<open>Tables\<close>

text \<open>
  A table is the list of its rows in insertion order. \<open>db_get\<close> is
  \<^verbatim>\<open>db.get(Model, id)\<close> and, with another column, \<^verbatim>\<open>db.scalar(select(..).where(..))\<close>;
  \<open>db_update\<close> is a change of the attributes of the rows that match.
\<close>

definition db_find :: "('r \<Rightarrow> bool) \<Rightarrow> 'r list \<Rightarrow> 'r option" where
  "db_find P t = List.find P t"

definition db_update :: "('r \<Rightarrow> bool) \<Rightarrow> ('r \<Rightarrow> 'r) \<Rightarrow> 'r list \<Rightarrow> 'r list" where
  "db_update P f t = map (\<lambda>r. if P r then f r else r) t"

lemma db_find_Nil [simp]: "db_find P [] = None"
  by (simp add: db_find_def)

lemma db_find_Cons [simp]: "db_find P (r # t) = (if P r then Some r else db_find P t)"
  by (simp add: db_find_def)

lemma db_find_append [row_simps]:
  "db_find P (xs @ ys) = (case db_find P xs of None \<Rightarrow> db_find P ys | Some r \<Rightarrow> Some r)"
  by (induction xs) auto

lemma db_find_Some: "db_find P t = Some r \<Longrightarrow> r \<in> set t \<and> P r"
  by (auto simp: db_find_def find_Some_iff)

lemma db_find_None_iff: "db_find P t = None \<longleftrightarrow> (\<forall>r \<in> set t. \<not> P r)"
  by (auto simp: db_find_def find_None_iff)

lemma db_find_mem: "r \<in> set t \<Longrightarrow> P r \<Longrightarrow> \<exists>r'. db_find P t = Some r'"
  using db_find_None_iff [of P t] by (cases "db_find P t") auto

lemma db_find_unique:
  assumes "distinct (map k t)" and "r \<in> set t"
  shows "db_find (\<lambda>x. k x = k r) t = Some r"
  using assms by (induction t) auto

lemma db_update_Nil [simp]: "db_update P f [] = []"
  by (simp add: db_update_def)

lemma db_update_Cons [simp]:
  "db_update P f (r # t) = (if P r then f r else r) # db_update P f t"
  by (simp add: db_update_def)

lemma length_db_update [simp]: "length (db_update P f t) = length t"
  by (simp add: db_update_def)

lemma set_db_update: "set (db_update P f t) = (\<lambda>r. if P r then f r else r) ` set t"
  by (simp add: db_update_def)

lemma map_db_update [row_simps]:
  "(\<And>r. k (f r) = k r) \<Longrightarrow> map k (db_update P f t) = map k t"
  by (simp add: db_update_def)

lemma db_update_append [simp]: "db_update P f (xs @ ys) = db_update P f xs @ db_update P f ys"
  by (simp add: db_update_def)

lemma db_find_db_update:
  assumes "\<And>r. Q (if P r then f r else r) = Q r"
  shows "db_find Q (db_update P f t) = map_option (\<lambda>r. if P r then f r else r) (db_find Q t)"
  using assms by (induction t) auto

lemma db_update_id: "(\<And>r. r \<in> set t \<Longrightarrow> P r \<Longrightarrow> f r = r) \<Longrightarrow> db_update P f t = t"
  by (induction t) auto

lemma filter_db_update:
  assumes "\<And>r. Q (if P r then f r else r) = Q r"
  shows "filter Q (db_update P f t) = db_update P f (filter Q t)"
  using assms by (induction t) auto

section \<open>Text\<close>

definition is_space :: "char \<Rightarrow> bool" where
  "is_space c = ((of_char c :: nat) \<in> {9, 10, 11, 12, 13, 28, 29, 30, 31, 32, 133, 160})"

text \<open>\<^verbatim>\<open>not s.strip()\<close>: the text is empty or whitespace only.\<close>

definition is_blank :: "string \<Rightarrow> bool" where
  "is_blank s = list_all is_space s"

lemma is_blank_Nil [simp]: "is_blank []"
  by (simp add: is_blank_def)

text \<open>\<^verbatim>\<open>sep.join(xs)\<close> and \<^verbatim>\<open>s.split(sep)\<close> for a one-character separator.\<close>

fun join :: "string \<Rightarrow> string list \<Rightarrow> string" where
  "join sep [] = []"
| "join sep [x] = x"
| "join sep (x # y # r) = x @ sep @ join sep (y # r)"

fun split_on :: "char \<Rightarrow> string \<Rightarrow> string list" where
  "split_on c [] = [[]]"
| "split_on c (x # xs) =
     (if x = c then [] # split_on c xs
      else (case split_on c xs of [] \<Rightarrow> [[x]] | w # ws \<Rightarrow> (x # w) # ws))"

lemma split_on_not_Nil [simp]: "split_on c s \<noteq> []"
  by (induction s) (auto split: list.splits)

lemma split_on_notin: "c \<notin> set s \<Longrightarrow> split_on c s = [s]"
  by (induction s) auto

definition startswith :: "string \<Rightarrow> string \<Rightarrow> bool" where
  "startswith s p = (take (length p) s = p)"

lemma startswith_append [simp]: "startswith (p @ s) p"
  by (simp add: startswith_def)

section \<open>String enumerations\<close>

text \<open>
  \<^verbatim>\<open>class E(str, Enum)\<close>: the members in order of declaration and the value of each.
  \<open>enum_of\<close> is the call \<^verbatim>\<open>E(s)\<close>, with \<open>None\<close> where Python raises
  \<open>ValueError\<close>.
\<close>

definition enum_of :: "'a list \<Rightarrow> ('a \<Rightarrow> string) \<Rightarrow> string \<Rightarrow> 'a option" where
  "enum_of members val s = List.find (\<lambda>x. val x = s) members"

locale str_enum =
  fixes members :: "'a list" and val :: "'a \<Rightarrow> string"
  assumes complete: "x \<in> set members"
    and distinct_values: "distinct (map val members)"
begin

lemma value_inject: "val x = val y \<longleftrightarrow> x = y"
  using complete distinct_values by (auto simp: distinct_map dest: inj_onD)

lemma enum_of_value: "enum_of members val (val x) = Some x"
  using complete [of x] distinct_values
  unfolding enum_of_def by (induction members) (auto simp: rev_image_eqI)

lemma enum_of_Some: "enum_of members val s = Some x \<Longrightarrow> val x = s"
  by (auto simp: enum_of_def find_Some_iff)

end

text \<open>The exceptions of Python's own operations that the modelled code can raise.\<close>

datatype py_error = TypeError | ValueError | KeyError string | AttributeError | IllTyped

end
