(* ===== verification/Rbac.thy ===== *)
theory Rbac
  imports Prelude
begin

text \<open>
  \<^verbatim>\<open>server/app/domain/rbac/permissions.py\<close>: the fixed vocabulary of roles and permissions and
  the one table that turns a role into a set of permissions.
\<close>

datatype Role = OWNER | GOVERNANCE_ADMIN | AGENT_ADMIN | REVIEWER | AUDITOR | EXECUTIVE

datatype Permission =
    ORGANISATION_MANAGE | ORGANISATION_DELETE | USERS_MANAGE | INTEGRATIONS_MANAGE |
    API_KEYS_MANAGE | OPERATOR_KEYS_VIEW | AUDIT_EXPORT | SETTINGS_VIEW |
    RUNTIME_POLICY_CREATE | RUNTIME_POLICY_EDIT | RUNTIME_POLICY_PUBLISH |
    RUNTIME_POLICY_VIEW | AUTHORITY_REVIEW | AGENT_REGISTER | AGENT_ACTIVATE | AGENT_SUSPEND |
    AGENT_RETIRE | AGENT_REVOKE | AGENT_ROTATE | AGENT_MANAGE | AGENT_VIEW | PRINCIPAL_MANAGE |
    EVIDENCE_VIEW | DECISIONS_VIEW | DECISIONS_RESOLVE | ASSURANCE_VIEW | FACTS_MANAGE |
    CAPABILITY_ISSUE | CAPABILITY_VERIFY | INTEGRATION_CONTRACT_MANAGE |
    INTEGRATION_CONTRACT_PUBLISH | INTEGRATION_IDENTITY_MANAGE

fun Permission_value :: "Permission \<Rightarrow> string" where
  "Permission_value ORGANISATION_MANAGE = ''organisation.manage''"
| "Permission_value ORGANISATION_DELETE = ''organisation.delete''"
| "Permission_value USERS_MANAGE = ''users.manage''"
| "Permission_value INTEGRATIONS_MANAGE = ''integrations.manage''"
| "Permission_value API_KEYS_MANAGE = ''api_keys.manage''"
| "Permission_value OPERATOR_KEYS_VIEW = ''operator_keys.view''"
| "Permission_value AUDIT_EXPORT = ''audit.export''"
| "Permission_value SETTINGS_VIEW = ''settings.view''"
| "Permission_value RUNTIME_POLICY_CREATE = ''runtime_policy.create''"
| "Permission_value RUNTIME_POLICY_EDIT = ''runtime_policy.edit''"
| "Permission_value RUNTIME_POLICY_PUBLISH = ''runtime_policy.publish''"
| "Permission_value RUNTIME_POLICY_VIEW = ''runtime_policy.view''"
| "Permission_value AUTHORITY_REVIEW = ''authority.review''"
| "Permission_value AGENT_REGISTER = ''agent.register''"
| "Permission_value AGENT_ACTIVATE = ''agent.activate''"
| "Permission_value AGENT_SUSPEND = ''agent.suspend''"
| "Permission_value AGENT_RETIRE = ''agent.retire''"
| "Permission_value AGENT_REVOKE = ''agent.revoke''"
| "Permission_value AGENT_ROTATE = ''agent.rotate''"
| "Permission_value AGENT_MANAGE = ''agent.manage''"
| "Permission_value AGENT_VIEW = ''agent.view''"
| "Permission_value PRINCIPAL_MANAGE = ''principal.manage''"
| "Permission_value EVIDENCE_VIEW = ''evidence.view''"
| "Permission_value DECISIONS_VIEW = ''decisions.view''"
| "Permission_value DECISIONS_RESOLVE = ''decisions.resolve''"
| "Permission_value ASSURANCE_VIEW = ''assurance.view''"
| "Permission_value FACTS_MANAGE = ''facts.manage''"
| "Permission_value CAPABILITY_ISSUE = ''capability.issue''"
| "Permission_value CAPABILITY_VERIFY = ''capability.verify''"
| "Permission_value INTEGRATION_CONTRACT_MANAGE = ''integration_contract.manage''"
| "Permission_value INTEGRATION_CONTRACT_PUBLISH = ''integration_contract.publish''"
| "Permission_value INTEGRATION_IDENTITY_MANAGE = ''integration_identity.manage''"

definition all_permissions :: "Permission list" where
  "all_permissions = [
     ORGANISATION_MANAGE, ORGANISATION_DELETE, USERS_MANAGE, INTEGRATIONS_MANAGE,
     API_KEYS_MANAGE, OPERATOR_KEYS_VIEW, AUDIT_EXPORT, SETTINGS_VIEW, RUNTIME_POLICY_CREATE,
     RUNTIME_POLICY_EDIT, RUNTIME_POLICY_PUBLISH, RUNTIME_POLICY_VIEW, AUTHORITY_REVIEW,
     AGENT_REGISTER, AGENT_ACTIVATE, AGENT_SUSPEND, AGENT_RETIRE, AGENT_REVOKE, AGENT_ROTATE,
     AGENT_MANAGE, AGENT_VIEW, PRINCIPAL_MANAGE, EVIDENCE_VIEW, DECISIONS_VIEW,
     DECISIONS_RESOLVE, ASSURANCE_VIEW, FACTS_MANAGE, CAPABILITY_ISSUE, CAPABILITY_VERIFY,
     INTEGRATION_CONTRACT_MANAGE, INTEGRATION_CONTRACT_PUBLISH, INTEGRATION_IDENTITY_MANAGE]"

text \<open>Each set of the table is written in the order of the source.\<close>

fun ROLE_PERMISSIONS :: "Role \<Rightarrow> Permission list" where
  "ROLE_PERMISSIONS OWNER = all_permissions"
| "ROLE_PERMISSIONS GOVERNANCE_ADMIN = [
     RUNTIME_POLICY_CREATE, RUNTIME_POLICY_EDIT, RUNTIME_POLICY_PUBLISH, RUNTIME_POLICY_VIEW,
     AUTHORITY_REVIEW, EVIDENCE_VIEW, DECISIONS_VIEW, DECISIONS_RESOLVE, ASSURANCE_VIEW,
     PRINCIPAL_MANAGE, AGENT_VIEW, FACTS_MANAGE, CAPABILITY_ISSUE, CAPABILITY_VERIFY,
     INTEGRATION_CONTRACT_MANAGE, INTEGRATION_CONTRACT_PUBLISH]"
| "ROLE_PERMISSIONS AGENT_ADMIN = [
     AGENT_REGISTER, AGENT_ACTIVATE, AGENT_SUSPEND, AGENT_RETIRE, AGENT_REVOKE, AGENT_ROTATE,
     AGENT_MANAGE, AGENT_VIEW, PRINCIPAL_MANAGE, INTEGRATION_IDENTITY_MANAGE]"
| "ROLE_PERMISSIONS REVIEWER = [
     AUTHORITY_REVIEW, DECISIONS_VIEW, DECISIONS_RESOLVE]"
| "ROLE_PERMISSIONS AUDITOR = [
     EVIDENCE_VIEW, DECISIONS_VIEW, RUNTIME_POLICY_VIEW, AGENT_VIEW, ASSURANCE_VIEW]"
| "ROLE_PERMISSIONS EXECUTIVE = [
     ASSURANCE_VIEW]"

definition has_permission :: "Role \<Rightarrow> Permission \<Rightarrow> bool" where
  "has_permission role permission = List.member (ROLE_PERMISSIONS role) permission"

definition permissions_for_role :: "Role \<Rightarrow> string list" where
  "permissions_for_role role = sort (map Permission_value (remdups (ROLE_PERMISSIONS role)))"

section \<open>Properties\<close>

lemma all_permissions_complete [simp]: "p \<in> set all_permissions"
  by (cases p) (simp_all add: all_permissions_def)

lemma has_permission_OWNER [simp]: "has_permission OWNER p"
  by (simp add: has_permission_def)

interpretation permission_enum: str_enum all_permissions Permission_value
  by unfold_locales (rule all_permissions_complete, simp add: all_permissions_def)

lemma set_permissions_for_role:
  "Permission_value p \<in> set (permissions_for_role role) \<longleftrightarrow> has_permission role p"
  by (auto simp: permissions_for_role_def has_permission_def permission_enum.value_inject)

lemma sorted_permissions_for_role: "sorted (permissions_for_role role)"
  by (simp add: permissions_for_role_def)

lemma distinct_permissions_for_role: "distinct (permissions_for_role role)"
  by (simp add: permissions_for_role_def distinct_map inj_on_def permission_enum.value_inject)

text \<open>The administration permissions the enumeration marks as reserved for the owner.\<close>

definition owner_only :: "Permission list" where
  "owner_only = [ORGANISATION_MANAGE, ORGANISATION_DELETE, USERS_MANAGE, INTEGRATIONS_MANAGE,
     API_KEYS_MANAGE, OPERATOR_KEYS_VIEW, AUDIT_EXPORT, SETTINGS_VIEW]"

lemmas table_defs = has_permission_def owner_only_def

lemma owner_only_iff: "p \<in> set owner_only \<Longrightarrow> has_permission role p \<longleftrightarrow> role = OWNER"
  by (cases role) (auto simp: table_defs)

lemma publish_and_credential_apart:
  "has_permission role RUNTIME_POLICY_PUBLISH \<Longrightarrow> role \<noteq> OWNER \<Longrightarrow>
   p \<in> {AGENT_REGISTER, AGENT_ACTIVATE, AGENT_SUSPEND, AGENT_RETIRE, AGENT_REVOKE, AGENT_ROTATE, AGENT_MANAGE, INTEGRATION_IDENTITY_MANAGE} \<Longrightarrow>
   \<not> has_permission role p"
  by (cases role) (auto simp: table_defs)

section \<open>Claims\<close>

text \<open>Separation of duties in the role table. The owner holds every permission and is the only
  role with an administration permission; no other role that may publish a policy may also manage
  the credentials of agents or integrations; and the list sent to the frontend for a role is the
  sorted list, without repetition, of exactly the permissions the role has.\<close>

theorem role_table_separates_duties:
  "has_permission OWNER p
   \<and> (p \<in> set owner_only \<longrightarrow> (has_permission role p \<longleftrightarrow> role = OWNER))
   \<and> (role \<noteq> OWNER \<and> has_permission role RUNTIME_POLICY_PUBLISH \<longrightarrow>
        \<not> has_permission role AGENT_REGISTER \<and> \<not> has_permission role AGENT_ROTATE
        \<and> \<not> has_permission role AGENT_REVOKE \<and> \<not> has_permission role INTEGRATION_IDENTITY_MANAGE)
   \<and> sorted (permissions_for_role role) \<and> distinct (permissions_for_role role)
   \<and> (Permission_value p \<in> set (permissions_for_role role) \<longleftrightarrow> has_permission role p)"
  using owner_only_iff publish_and_credential_apart
  by (auto simp: sorted_permissions_for_role distinct_permissions_for_role set_permissions_for_role)

theorem role_table_separates_duties_witness:
  "\<not> has_permission GOVERNANCE_ADMIN USERS_MANAGE \<and> \<not> has_permission GOVERNANCE_ADMIN AGENT_ROTATE"
proof -
  have "USERS_MANAGE \<in> set owner_only" by (simp add: owner_only_def)
  moreover have "has_permission GOVERNANCE_ADMIN RUNTIME_POLICY_PUBLISH" by (simp add: has_permission_def)
  ultimately show ?thesis
    using role_table_separates_duties [of USERS_MANAGE GOVERNANCE_ADMIN] by simp
qed

end
