(* ===== verification/Json.thy ===== *)
theory Json
  imports Prelude
begin

text \<open>
  JSON values and the part of Python's \<open>json\<close> module the code uses: \<open>json.dumps\<close>
  with \<open>sort_keys=True\<close> and \<open>separators=(",", ":")\<close> (\<open>dumps\<close>) and
  \<open>json.loads\<close> (\<open>loads\<close>).

  A Python \<open>str\<close> is modelled on the code points below 256, so that a \<open>char\<close> is one code
  point; \<open>dumps\<close> escapes as \<open>ensure_ascii\<close> does. A float is represented by the
  shortest decimal \<open>m * 10 ^ e\<close> that rounds to it, which is what \<open>float.__repr__\<close>
  prints. NaN, the infinities and negative zero are not modelled.

  The main result is that reading back what was written gives the value with its keys sorted
  (\<open>loads_dumps\<close>), hence that two payloads with the same canonical text are the same
  payload (\<open>dumps_inject\<close>). Everything that is hashed or signed rests on it.
\<close>

datatype json =
    JNull
  | JBool bool
  | JInt int
  | JFloat int int
  | JStr string
  | JList "json list"
  | JObj "(string \<times> json) list"

section \<open>Numbers as text\<close>

definition digit_char :: "nat \<Rightarrow> char" where
  "digit_char d = char_of (48 + d)"

fun show_nat :: "nat \<Rightarrow> string" where
  "show_nat n = (if n < 10 then [digit_char n] else show_nat (n div 10) @ [digit_char (n mod 10)])"

declare show_nat.simps [simp del]

definition show_int :: "int \<Rightarrow> string" where
  "show_int i = (if i < 0 then CHR ''-'' # show_nat (nat (- i)) else show_nat (nat i))"

text \<open>\<open>float.__repr__\<close>: fixed notation when the decimal point falls in \<open>(-4, 16]\<close>.\<close>

definition float_repr :: "int \<Rightarrow> int \<Rightarrow> string" where
  "float_repr m e =
     (let ds = show_nat (nat \<bar>m\<bar>); n = int (length ds); p = n + e;
          sgn = (if m < 0 then ''-'' else [])
      in sgn @
        (if - 4 < p \<and> p \<le> 16 then
           (if p \<le> 0 then ''0.'' @ replicate (nat (- p)) CHR ''0'' @ ds
            else if n \<le> p then ds @ replicate (nat (p - n)) CHR ''0'' @ ''.0''
            else take (nat p) ds @ ''.'' @ drop (nat p) ds)
         else
           (let x = p - 1; xs = show_nat (nat \<bar>x\<bar>)
            in take 1 ds @ (if n = 1 then [] else ''.'' @ drop 1 ds) @ ''e''
               @ (if x < 0 then ''-'' else ''+'')
               @ (if length xs = 1 then ''0'' @ xs else xs))))"

definition is_digit :: "char \<Rightarrow> bool" where
  "is_digit c = (48 \<le> (of_char c :: nat) \<and> (of_char c :: nat) \<le> 57)"

definition digit_val :: "char \<Rightarrow> nat" where
  "digit_val c = of_char c - 48"

definition read_nat :: "string \<Rightarrow> nat" where
  "read_nat ds = foldl (\<lambda>a c. 10 * a + digit_val c) 0 ds"

section \<open>Strings as text\<close>

definition hex_char :: "nat \<Rightarrow> char" where
  "hex_char d = char_of (if d < 10 then 48 + d else 87 + d)"

definition hex_val :: "char \<Rightarrow> nat option" where
  "hex_val c = (let n = of_char c :: nat in
     if 48 \<le> n \<and> n \<le> 57 then Some (n - 48)
     else if 97 \<le> n \<and> n \<le> 102 then Some (n - 87)
     else if 65 \<le> n \<and> n \<le> 70 then Some (n - 55) else None)"

abbreviation quote_char :: char where "quote_char \<equiv> CHR 0x22"
abbreviation backslash :: char where "backslash \<equiv> CHR 0x5C"

definition esc :: "char \<Rightarrow> string" where
  "esc c = (let n = of_char c :: nat in
     if c = quote_char then [backslash, quote_char]
     else if c = backslash then [backslash, backslash]
     else if n = 10 then [backslash, CHR ''n'']
     else if n = 13 then [backslash, CHR ''r'']
     else if n = 9 then [backslash, CHR ''t'']
     else if n = 12 then [backslash, CHR ''f'']
     else if n = 8 then [backslash, CHR ''b'']
     else if 32 \<le> n \<and> n \<le> 126 then [c]
     else [backslash, CHR ''u'', CHR ''0'', CHR ''0'', hex_char (n div 16), hex_char (n mod 16)])"

definition quote :: "string \<Rightarrow> string" where
  "quote s = quote_char # concat (map esc s) @ [quote_char]"

definition unescape :: "char \<Rightarrow> char option" where
  "unescape e =
     (if e = quote_char then Some quote_char
      else if e = backslash then Some backslash
      else if e = CHR ''/'' then Some CHR ''/''
      else if e = CHR ''n'' then Some (char_of (10::nat))
      else if e = CHR ''r'' then Some (char_of (13::nat))
      else if e = CHR ''t'' then Some (char_of (9::nat))
      else if e = CHR ''f'' then Some (char_of (12::nat))
      else if e = CHR ''b'' then Some (char_of (8::nat))
      else None)"

fun unicode_escape :: "string \<Rightarrow> (char \<times> string) option" where
  "unicode_escape (a # b # c # d # r) =
     (case (hex_val a, hex_val b, hex_val c, hex_val d) of
        (Some a', Some b', Some c', Some d') \<Rightarrow>
          (let n = a' * 4096 + b' * 256 + c' * 16 + d' in
           if n < 256 then Some (char_of n, r) else None)
      | _ \<Rightarrow> None)"
| "unicode_escape _ = None"

text \<open>The characters of a string literal after its opening quote, up to the closing one.\<close>

function read_string :: "string \<Rightarrow> (string \<times> string) option" where
  "read_string [] = None"
| "read_string (c # cs) =
     (if c = quote_char then Some ([], cs)
      else if c = backslash then
        (case cs of
           [] \<Rightarrow> None
         | e # es \<Rightarrow>
             (if e = CHR ''u'' then
                (case unicode_escape es of
                   None \<Rightarrow> None
                 | Some (ch, r) \<Rightarrow> map_option (apfst (Cons ch)) (read_string r))
              else
                (case unescape e of
                   None \<Rightarrow> None
                 | Some ch \<Rightarrow> map_option (apfst (Cons ch)) (read_string es))))
      else if (of_char c :: nat) < 32 then None
      else map_option (apfst (Cons c)) (read_string cs))"
  by pat_completeness auto

lemma unicode_escape_shorter: "unicode_escape s = Some (c, r) \<Longrightarrow> length r < length s"
  by (cases s rule: unicode_escape.cases) (auto simp: Let_def split: option.splits if_splits)

termination read_string
  by (relation "measure length") (auto dest: unicode_escape_shorter)

section \<open>Writing\<close>

function print_json :: "json \<Rightarrow> string"
  and print_elems :: "json list \<Rightarrow> string"
  and print_members :: "(string \<times> json) list \<Rightarrow> string"
where
  "print_json JNull = ''null''"
| "print_json (JBool b) = (if b then ''true'' else ''false'')"
| "print_json (JInt i) = show_int i"
| "print_json (JFloat m e) = float_repr m e"
| "print_json (JStr s) = quote s"
| "print_json (JList xs) = ''['' @ print_elems xs @ '']''"
| "print_json (JObj ps) = ''{'' @ print_members ps @ ''}''"
| "print_elems [] = []"
| "print_elems [x] = print_json x"
| "print_elems (x # y # r) = print_json x @ '','' @ print_elems (y # r)"
| "print_members [] = []"
| "print_members [(k, v)] = quote k @ '':'' @ print_json v"
| "print_members ((k, v) # q # r) = quote k @ '':'' @ print_json v @ '','' @ print_members (q # r)"
  by pat_completeness auto
termination
  by (relation "measure (case_sum size (case_sum (size_list size)
        (size_list (size_prod (\<lambda>_. 0) size))))") auto

text \<open>\<open>sort_keys=True\<close>, at every level.\<close>

function sort_keys :: "json \<Rightarrow> json" where
  "sort_keys (JList xs) = JList (map sort_keys xs)"
| "sort_keys (JObj ps) = JObj (sort_key fst (map (\<lambda>p. (fst p, sort_keys (snd p))) ps))"
| "sort_keys JNull = JNull"
| "sort_keys (JBool b) = JBool b"
| "sort_keys (JInt i) = JInt i"
| "sort_keys (JFloat m e) = JFloat m e"
| "sort_keys (JStr s) = JStr s"
  by pat_completeness auto

lemma size_json_member:
  "p \<in> set ps \<Longrightarrow> size (snd p) < Suc (size_list (size_prod (\<lambda>_. 0) size) ps)"
  by (induction ps) auto

lemma size_json_elem: "(x :: json) \<in> set xs \<Longrightarrow> size x < Suc (size_list size xs)"
  by (induction xs) auto

termination sort_keys
  by (relation "measure size") (auto dest: size_json_member size_json_elem)

definition dumps :: "json \<Rightarrow> string" where
  "dumps j = print_json (sort_keys j)"


section \<open>Reading\<close>

fun skip_ws :: "string \<Rightarrow> string" where
  "skip_ws [] = []"
| "skip_ws (c # cs) = (if c \<in> {CHR '' '', CHR 0x09, CHR 0x0A, CHR 0x0D} then skip_ws cs else c # cs)"

function norm_dec :: "int \<Rightarrow> int \<Rightarrow> int \<times> int" where
  "norm_dec m e = (if m = 0 then (0, 0) else if m mod 10 = 0 then norm_dec (m div 10) (e + 1) else (m, e))"
  by pat_completeness auto
termination
  by (relation "measure (\<lambda>(m, e). nat \<bar>m\<bar>)") auto

declare norm_dec.simps [simp del]

text \<open>The fraction and the exponent of a number literal, with what follows them.\<close>

definition read_frac :: "string \<Rightarrow> (string \<times> string)" where
  "read_frac s =
     (case s of
        c # d # r \<Rightarrow> if c = CHR ''.'' \<and> is_digit d
                     then (takeWhile is_digit (d # r), dropWhile is_digit (d # r)) else ([], s)
      | _ \<Rightarrow> ([], s))"

definition read_exp :: "string \<Rightarrow> (int option \<times> string)" where
  "read_exp s =
     (case s of
        c # r \<Rightarrow>
          (let neg = (case r of x # _ \<Rightarrow> x = CHR ''-'' | _ \<Rightarrow> False);
               r' = (case r of x # y \<Rightarrow> if x = CHR ''-'' \<or> x = CHR ''+'' then y else r | _ \<Rightarrow> r);
               ds = takeWhile is_digit r'
           in if (c = CHR ''e'' \<or> c = CHR ''E'') \<and> ds \<noteq> []
              then (Some (if neg then - int (read_nat ds) else int (read_nat ds)), dropWhile is_digit r')
              else (None, s))
      | _ \<Rightarrow> (None, s))"

definition read_int_part :: "string \<Rightarrow> (string \<times> string) option" where
  "read_int_part s =
     (case s of
        [] \<Rightarrow> None
      | c # r \<Rightarrow> if c = CHR ''0'' then Some ([c], r)
                 else if is_digit c then Some (takeWhile is_digit s, dropWhile is_digit s)
                 else None)"

definition read_number :: "string \<Rightarrow> (json \<times> string) option" where
  "read_number s =
     (let neg = (case s of c # _ \<Rightarrow> c = CHR ''-'' | _ \<Rightarrow> False);
          s1 = (if neg then tl s else s)
      in case read_int_part s1 of
           None \<Rightarrow> None
         | Some (ds, s2) \<Rightarrow>
             (let (fs, s3) = read_frac s2; (ex, s4) = read_exp s3; n = int (read_nat (ds @ fs))
              in if fs = [] \<and> ex = None then Some (JInt (if neg then - n else n), s4)
                 else (let (m, e) = norm_dec (if neg then - n else n)
                             ((case ex of None \<Rightarrow> 0 | Some x \<Rightarrow> x) - int (length fs))
                       in Some (JFloat m e, s4))))"

definition read_word :: "string \<Rightarrow> json \<Rightarrow> string \<Rightarrow> (json \<times> string) option" where
  "read_word w j s = (if startswith s w then Some (j, drop (length w) s) else None)"

text \<open>
  The reader takes fuel: \<open>read_value\<close> reads a value, \<open>read_elems\<close> what follows the
  \<open>[\<close> of a non-empty array, \<open>read_members\<close> what follows the \<open>{\<close> of a non-empty
  object. A repeated key overwrites, as the dict it is read into does.
\<close>

fun read_value :: "nat \<Rightarrow> string \<Rightarrow> (json \<times> string) option"
  and read_elems :: "nat \<Rightarrow> string \<Rightarrow> (json list \<times> string) option"
  and read_members :: "nat \<Rightarrow> (string \<times> json) list \<Rightarrow> string \<Rightarrow> ((string \<times> json) list \<times> string) option"
where
  "read_value 0 s = None"
| "read_value (Suc n) s =
     (case skip_ws s of
        [] \<Rightarrow> None
      | c # cs \<Rightarrow>
          (if c = quote_char then map_option (apfst JStr) (read_string cs)
           else if c = CHR ''{'' then
             (case skip_ws cs of
                [] \<Rightarrow> None
              | d # ds \<Rightarrow> if d = CHR ''}'' then Some (JObj [], ds)
                          else map_option (apfst JObj) (read_members n [] (d # ds)))
           else if c = CHR ''['' then
             (case skip_ws cs of
                [] \<Rightarrow> None
              | d # ds \<Rightarrow> if d = CHR '']'' then Some (JList [], ds)
                          else map_option (apfst JList) (read_elems n (d # ds)))
           else if c = CHR ''n'' then read_word ''null'' JNull (c # cs)
           else if c = CHR ''t'' then read_word ''true'' (JBool True) (c # cs)
           else if c = CHR ''f'' then read_word ''false'' (JBool False) (c # cs)
           else read_number (c # cs)))"
| "read_elems 0 s = None"
| "read_elems (Suc n) s =
     (case read_value n s of
        None \<Rightarrow> None
      | Some (x, r) \<Rightarrow>
          (case skip_ws r of
             [] \<Rightarrow> None
           | c # cs \<Rightarrow> if c = CHR '']'' then Some ([x], cs)
                       else if c = CHR '','' then map_option (apfst (Cons x)) (read_elems n cs)
                       else None))"
| "read_members 0 d s = None"
| "read_members (Suc n) d s =
     (case skip_ws s of
        [] \<Rightarrow> None
      | q # qs \<Rightarrow>
          (if q \<noteq> quote_char then None
           else (case read_string qs of
              None \<Rightarrow> None
            | Some (k, r) \<Rightarrow>
                (case skip_ws r of
                   [] \<Rightarrow> None
                 | c # cs \<Rightarrow>
                     (if c \<noteq> CHR '':'' then None
                      else (case read_value n cs of
                         None \<Rightarrow> None
                       | Some (v, r') \<Rightarrow>
                           (case skip_ws r' of
                              [] \<Rightarrow> None
                            | e # es \<Rightarrow>
                                (if e = CHR ''}'' then Some (AList.update k v d, es)
                                 else if e = CHR '','' then read_members n (AList.update k v d) es
                                 else None))))))))"

definition loads :: "string \<Rightarrow> json option" where
  "loads s =
     (case read_value (Suc (length s)) s of
        None \<Rightarrow> None
      | Some (j, r) \<Rightarrow> if skip_ws r = [] then Some j else None)"

section \<open>Reading back what was written\<close>

lemma of_char_digit_char: "d < 10 \<Longrightarrow> (of_char (digit_char d) :: nat) = 48 + d"
  by (simp add: digit_char_def)

lemma is_digit_digit_char [simp]: "d < 10 \<Longrightarrow> is_digit (digit_char d)"
  by (simp add: is_digit_def of_char_digit_char)

lemma digit_val_digit_char [simp]: "d < 10 \<Longrightarrow> digit_val (digit_char d) = d"
  by (simp add: digit_val_def of_char_digit_char)

lemma show_nat_digits: "list_all is_digit (show_nat n)"
proof (induction n rule: show_nat.induct)
  case (1 n)
  then show ?case by (subst show_nat.simps) auto
qed

lemma show_nat_not_Nil [simp]: "show_nat n \<noteq> []"
  by (subst show_nat.simps) auto

lemma read_nat_snoc: "read_nat (ds @ [c]) = 10 * read_nat ds + digit_val c"
  by (simp add: read_nat_def)

lemma read_nat_show_nat [simp]: "read_nat (show_nat n) = n"
proof (induction n rule: show_nat.induct)
  case (1 n)
  show ?case
  proof (cases "n < 10")
    case True
    then show ?thesis by (subst show_nat.simps) (simp add: read_nat_def)
  next
    case False
    with 1 show ?thesis by (subst show_nat.simps) (simp add: read_nat_snoc)
  qed
qed

lemma char_of_of_char: "(of_char c :: nat) = n \<Longrightarrow> char_of n = c"
  by auto

lemma digit_char_0 [simp]: "digit_char 0 = CHR ''0''"
  unfolding digit_char_def by (rule char_of_of_char) simp

lemma digit_char_eq_0_iff: "d < 10 \<Longrightarrow> digit_char d = CHR ''0'' \<longleftrightarrow> d = 0"
  using of_char_digit_char [of d] by fastforce

lemma hd_show_nat: "0 < n \<Longrightarrow> hd (show_nat n) \<noteq> CHR ''0''"
proof (induction n rule: show_nat.induct)
  case (1 n)
  show ?case
  proof (cases "n < 10")
    case True
    with 1 show ?thesis by (subst show_nat.simps) (simp add: digit_char_eq_0_iff)
  next
    case False
    with 1 show ?thesis by (subst show_nat.simps) simp
  qed
qed

lemma show_nat_0: "show_nat 0 = ''0''"
  by (subst show_nat.simps) simp

definition num_end :: "string \<Rightarrow> bool" where
  "num_end r = (case r of [] \<Rightarrow> True
     | c # _ \<Rightarrow> \<not> is_digit c \<and> c \<noteq> CHR ''.'' \<and> c \<noteq> CHR ''e'' \<and> c \<noteq> CHR ''E'')"

lemma num_end_frac: "num_end r \<Longrightarrow> read_frac r = ([], r)"
  by (auto simp: num_end_def read_frac_def split: list.splits)

lemma num_end_exp: "num_end r \<Longrightarrow> read_exp r = (None, r)"
  by (auto simp: num_end_def read_exp_def Let_def split: list.splits)

lemma span_digits:
  assumes "list_all is_digit ds" and "num_end r"
  shows "takeWhile is_digit (ds @ r) = ds" "dropWhile is_digit (ds @ r) = r"
proof -
  have "takeWhile is_digit r = []" "dropWhile is_digit r = r"
    using assms(2) by (auto simp: num_end_def split: list.splits)
  with assms(1) show "takeWhile is_digit (ds @ r) = ds" "dropWhile is_digit (ds @ r) = r"
    by (auto simp: list_all_iff takeWhile_append dropWhile_append)
qed

lemma read_int_part_show_nat:
  assumes "num_end r"
  shows "read_int_part (show_nat n @ r) = Some (show_nat n, r)"
proof (cases "n = 0")
  case True
  then show ?thesis by (simp add: show_nat_0 read_int_part_def)
next
  case False
  obtain c ds where s: "show_nat n = c # ds"
    by (cases "show_nat n") auto
  with False have "c \<noteq> CHR ''0''" using hd_show_nat [of n] by simp
  moreover have "is_digit c" using show_nat_digits [of n] s by simp
  ultimately show ?thesis
    using span_digits [OF show_nat_digits assms, of n] s by (simp add: read_int_part_def)
qed

lemma is_digit_not_minus: "is_digit c \<Longrightarrow> c \<noteq> CHR ''-''"
  by (auto simp: is_digit_def)

lemma read_number_show_int:
  assumes "num_end r"
  shows "read_number (show_int i @ r) = Some (JInt i, r)"
proof -
  obtain c ds where s: "show_nat (nat i) = c # ds"
    by (cases "show_nat (nat i)") auto
  then have c: "c \<noteq> CHR ''-''" using show_nat_digits [of "nat i"] is_digit_not_minus by simp
  have "read_nat (c # ds) = nat i"
    using read_nat_show_nat [of "nat i"] s by simp
  then show ?thesis
    using assms s c read_int_part_show_nat [OF assms, of "nat i"]
      read_int_part_show_nat [OF assms, of "nat (- i)"]
    by (simp add: read_number_def show_int_def Let_def num_end_frac num_end_exp)
qed

subsection \<open>Strings\<close>

lemma hex_val_hex_char: "d < 16 \<Longrightarrow> hex_val (hex_char d) = Some d"
  by (auto simp: hex_val_def hex_char_def Let_def)

lemma hex_val_0: "hex_val CHR ''0'' = Some 0"
  by (simp add: hex_val_def Let_def)

lemma unicode_escape_esc:
  assumes "n < 256"
  shows "unicode_escape (CHR ''0'' # CHR ''0'' # hex_char (n div 16) # hex_char (n mod 16) # t)
    = Some (char_of n, t)"
proof -
  have "hex_val (hex_char (n div 16)) = Some (n div 16)" "hex_val (hex_char (n mod 16)) = Some (n mod 16)"
    using assms by (simp_all add: hex_val_hex_char)
  moreover have "n div 16 * 16 + n mod 16 = n" by simp
  ultimately show ?thesis using assms by (simp add: hex_val_0 Let_def)
qed

lemma of_char_less_256: "(of_char c :: nat) < 256"
  by simp

lemma read_string_esc: "read_string (esc c @ t) = map_option (apfst (Cons c)) (read_string t)"
proof -
  define n where "n = (of_char c :: nat)"
  then have n: "n < 256" and c: "c = char_of n" by simp_all
  consider "c = quote_char" | "c = backslash" | "n \<in> {8, 9, 10, 12, 13}"
    | "32 \<le> n" "n \<le> 126" "c \<noteq> quote_char" "c \<noteq> backslash"
    | "c \<noteq> quote_char" "c \<noteq> backslash" "n \<notin> {8, 9, 10, 12, 13}" "\<not> (32 \<le> n \<and> n \<le> 126)"
    by blast
  then show ?thesis
  proof cases
    case 3
    then show ?thesis using c by (auto simp: esc_def Let_def unescape_def)
  next
    case 4
    then show ?thesis using n_def by (simp add: esc_def Let_def)
  next
    case 5
    then have "esc c = [backslash, CHR ''u'', CHR ''0'', CHR ''0'', hex_char (n div 16), hex_char (n mod 16)]"
      using n_def by (auto simp: esc_def Let_def)
    then show ?thesis using unicode_escape_esc [OF n, of t] c by simp
  qed (simp_all add: esc_def Let_def unescape_def)
qed

lemma read_string_quote:
  "read_string (concat (map esc s) @ quote_char # r) = Some (s, r)"
  by (induction s) (simp_all add: read_string_esc)


subsection \<open>Values\<close>

text \<open>The values for which the round trip is stated: no float, no repeated key.\<close>

function plain_json :: "json \<Rightarrow> bool" where
  "plain_json (JFloat m e) = False"
| "plain_json (JList xs) = list_all plain_json xs"
| "plain_json (JObj ps) = (distinct (map fst ps) \<and> list_all (\<lambda>p. plain_json (snd p)) ps)"
| "plain_json JNull = True"
| "plain_json (JBool b) = True"
| "plain_json (JInt i) = True"
| "plain_json (JStr s) = True"
  by pat_completeness auto
termination
  by (relation "measure size") (auto dest: size_json_member size_json_elem)

definition start_ok :: "char \<Rightarrow> bool" where
  "start_ok c = (c \<notin> {CHR '' '', CHR 0x09, CHR 0x0A, CHR 0x0D, CHR '']'', CHR ''}''})"

lemma show_int_start:
  "\<exists>c cs. show_int i = c # cs \<and> start_ok c \<and> c \<noteq> quote_char \<and> c \<noteq> CHR ''{'' \<and> c \<noteq> CHR ''[''
     \<and> c \<noteq> CHR ''n'' \<and> c \<noteq> CHR ''t'' \<and> c \<noteq> CHR ''f''"
proof -
  obtain c ds where s: "show_nat (nat i) = c # ds"
    by (cases "show_nat (nat i)") auto
  then have "is_digit c" using show_nat_digits [of "nat i"] by simp
  then have "start_ok c \<and> c \<noteq> quote_char \<and> c \<noteq> CHR ''{'' \<and> c \<noteq> CHR ''[''
     \<and> c \<noteq> CHR ''n'' \<and> c \<noteq> CHR ''t'' \<and> c \<noteq> CHR ''f''"
    by (auto simp: is_digit_def start_ok_def)
  with s show ?thesis by (auto simp: show_int_def start_ok_def)
qed

lemma print_json_start: "plain_json j \<Longrightarrow> \<exists>c cs. print_json j = c # cs \<and> start_ok c"
  by (cases j) (use show_int_start in \<open>fastforce simp: start_ok_def quote_def\<close>)+

lemma print_elems_start:
  "xs \<noteq> [] \<Longrightarrow> list_all plain_json xs \<Longrightarrow> \<exists>c cs. print_elems xs = c # cs \<and> start_ok c"
  by (cases xs rule: remdups_adj.cases) (auto dest: print_json_start)

lemma print_members_start: "ps \<noteq> [] \<Longrightarrow> \<exists>cs. print_members ps = quote_char # cs"
  by (cases ps rule: remdups_adj.cases) (auto simp: quote_def)

lemma skip_ws_start: "start_ok c \<Longrightarrow> skip_ws (c # cs) = c # cs"
  by (auto simp: start_ok_def)

lemma update_fresh: "k \<notin> fst ` set d \<Longrightarrow> AList.update k v d = d @ [(k, v)]"
  by (induction d) auto

lemma num_end_delims [simp]:
  "num_end []" "num_end (CHR '','' # r)" "num_end (CHR '']'' # r)" "num_end (CHR ''}'' # r)"
  by (simp_all add: num_end_def is_digit_def)

lemma read_value_int:
  assumes "num_end r"
  shows "read_value (Suc n) (show_int i @ r) = Some (JInt i, r)"
proof -
  obtain c cs where s: "show_int i = c # cs" "start_ok c" "c \<noteq> quote_char" "c \<noteq> CHR ''{''"
    "c \<noteq> CHR ''[''" "c \<noteq> CHR ''n''" "c \<noteq> CHR ''t''" "c \<noteq> CHR ''f''"
    using show_int_start [of i] by blast
  then show ?thesis
    using read_number_show_int [OF assms, of i] skip_ws_start [OF s(2), of "cs @ r"]
    by (simp del: skip_ws.simps)
qed

lemma read_back:
  shows "plain_json j \<Longrightarrow> length (print_json j) < n \<Longrightarrow> num_end r \<Longrightarrow>
      read_value n (print_json j @ r) = Some (j, r)"
    and "xs \<noteq> [] \<Longrightarrow> list_all plain_json xs \<Longrightarrow> length (print_elems xs) + 1 < n \<Longrightarrow>
      read_elems n (print_elems xs @ CHR '']'' # r) = Some (xs, r)"
    and "ps \<noteq> [] \<Longrightarrow> distinct (map fst (d @ ps)) \<Longrightarrow> list_all (\<lambda>p. plain_json (snd p)) ps \<Longrightarrow>
      length (print_members ps) + 1 < n \<Longrightarrow>
      read_members n d (print_members ps @ CHR ''}'' # r) = Some (d @ ps, r)"
proof (induction j and xs and ps arbitrary: n r and n r and n r d
    rule: print_json_print_elems_print_members.induct)
  case 1
  then show ?case by (cases n) (auto simp: read_word_def startswith_def)
next
  case (2 b)
  then show ?case by (cases n) (auto simp: read_word_def startswith_def)
next
  case (3 i)
  then show ?case by (cases n) (simp_all add: read_value_int del: read_value.simps(2))
next
  case (4 m e)
  then show ?case by simp
next
  case (5 s)
  then show ?case by (cases n) (simp_all add: quote_def read_string_quote)
next
  case (6 xs)
  then obtain m where n: "n = Suc m" by (cases n) auto
  show ?case
  proof (cases "xs = []")
    case True
    with n show ?thesis by simp
  next
    case False
    with 6 obtain c cs where c: "print_elems xs = c # cs" "start_ok c"
      using print_elems_start [of xs] by auto
    moreover have "read_elems m (print_elems xs @ CHR '']'' # r) = Some (xs, r)"
      using 6 False n by simp
    moreover have "c \<noteq> CHR '']''" using c by (simp add: start_ok_def)
    ultimately show ?thesis
      using n skip_ws_start [OF c(2), of "cs @ CHR '']'' # r"] by simp
  qed
next
  case (7 ps)
  then obtain m where n: "n = Suc m" by (cases n) auto
  show ?case
  proof (cases "ps = []")
    case True
    with n show ?thesis by simp
  next
    case False
    then obtain cs where c: "print_members ps = quote_char # cs"
      using print_members_start [of ps] by auto
    moreover have "read_members m [] (print_members ps @ CHR ''}'' # r) = Some (ps, r)"
      using 7 False n by simp
    ultimately show ?thesis using n by simp
  qed
next
  case 8
  then show ?case by simp
next
  case (9 x)
  then obtain m where "n = Suc m" by (cases n) auto
  with 9 show ?case by simp
next
  case (10 x y xs)
  then obtain m where n: "n = Suc m" by (cases n) auto
  with 10 have "read_elems m (print_elems (y # xs) @ CHR '']'' # r) = Some (y # xs, r)"
    by simp
  with 10 n show ?case by simp
next
  case 11
  then show ?case by simp
next
  case (12 k v)
  then obtain m where n: "n = Suc m" by (cases n) auto
  with 12 have "read_value m (print_json v @ CHR ''}'' # r) = Some (v, CHR ''}'' # r)"
    by simp
  with 12 n show ?case by (simp add: quote_def read_string_quote update_fresh)
next
  case (13 k v q ps)
  then obtain m where n: "n = Suc m" by (cases n) auto
  from 13 n have "read_value m (print_json v @ CHR '','' # print_members (q # ps) @ CHR ''}'' # r)
      = Some (v, CHR '','' # print_members (q # ps) @ CHR ''}'' # r)"
    by simp
  moreover from 13 n have
    "read_members m (d @ [(k, v)]) (print_members (q # ps) @ CHR ''}'' # r) = Some (d @ (k, v) # q # ps, r)"
    using "13.IH"(2) [of "d @ [(k, v)]" m r] by auto
  ultimately show ?case
    using 13 n by (simp add: quote_def read_string_quote update_fresh)
qed


lemma distinct_map_sort_key: "distinct (map f (sort_key g xs)) \<longleftrightarrow> distinct (map f xs)"
  by (simp add: distinct_map)

lemma plain_json_sort_keys [simp]: "plain_json j \<Longrightarrow> plain_json (sort_keys j)"
proof (induction j rule: sort_keys.induct)
  case (1 xs)
  then show ?case by (auto simp: list_all_iff)
next
  case (2 ps)
  then show ?case by (auto simp: list_all_iff distinct_map_sort_key comp_def)
qed simp_all

lemma loads_dumps:
  assumes "plain_json j"
  shows "loads (dumps j) = Some (sort_keys j)"
proof -
  have "read_value (Suc (length (dumps j))) (dumps j) = Some (sort_keys j, [])"
    using read_back(1) [of "sort_keys j" "Suc (length (dumps j))" "[]"] assms
    by (simp add: dumps_def num_end_def del: read_value.simps)
  then show ?thesis by (simp add: loads_def del: read_value.simps)
qed

lemma dumps_inject:
  assumes "plain_json j" and "plain_json k"
  shows "dumps j = dumps k \<longleftrightarrow> sort_keys j = sort_keys k"
proof
  assume "dumps j = dumps k"
  with loads_dumps [OF assms(1)] loads_dumps [OF assms(2)] show "sort_keys j = sort_keys k"
    by simp
qed (simp add: dumps_def)


end
