(* ===== verification/Py_Value.thy ===== *)
theory Py_Value
  imports Complex_Main Json
begin

text \<open>
  Python's own operations on values that came from JSON: truth value, \<open>repr\<close>,
  \<open>==\<close>, \<open><\<close> with its \<open>TypeError\<close> on operands of different kinds,
  hashability, and \<open>json.dumps\<close> with its default separators.

  \<open>bool\<close> is a subclass of \<open>int\<close>: \<open>True == 1\<close> and \<open>False < 1\<close>. A float
  stands for its shortest decimal, and is compared as that decimal.
\<close>

section \<open>Truth and numbers\<close>

fun truthy :: "json \<Rightarrow> bool" where
  "truthy JNull = False"
| "truthy (JBool b) = b"
| "truthy (JInt i) = (i \<noteq> 0)"
| "truthy (JFloat m e) = (m \<noteq> 0)"
| "truthy (JStr s) = (s \<noteq> [])"
| "truthy (JList xs) = (xs \<noteq> [])"
| "truthy (JObj ps) = (ps \<noteq> [])"

definition dec_val :: "int \<Rightarrow> int \<Rightarrow> rat" where
  "dec_val m e = (if 0 \<le> e then of_int (m * 10 ^ nat e) else of_int m / of_int (10 ^ nat (- e)))"

fun num_val :: "json \<Rightarrow> rat option" where
  "num_val (JBool b) = Some (if b then 1 else 0)"
| "num_val (JInt i) = Some (of_int i)"
| "num_val (JFloat m e) = Some (dec_val m e)"
| "num_val _ = None"

text \<open>\<^verbatim>\<open>isinstance(v, (int, float)) and not isinstance(v, bool)\<close>.\<close>

fun is_number :: "json \<Rightarrow> bool" where
  "is_number (JInt i) = True"
| "is_number (JFloat m e) = True"
| "is_number _ = False"

fun is_bool :: "json \<Rightarrow> bool" where
  "is_bool (JBool b) = True"
| "is_bool _ = False"

section \<open>Equality, order, hashing\<close>

function py_eq :: "json \<Rightarrow> json \<Rightarrow> bool"
  and py_eq_list :: "json list \<Rightarrow> json list \<Rightarrow> bool"
  and py_eq_members :: "(string \<times> json) list \<Rightarrow> (string \<times> json) list \<Rightarrow> bool"
where
  "py_eq x y =
     (case (x, y) of
        (JNull, JNull) \<Rightarrow> True
      | (JStr s, JStr t) \<Rightarrow> s = t
      | (JList xs, JList ys) \<Rightarrow> py_eq_list xs ys
      | (JObj ps, JObj qs) \<Rightarrow> length ps = length qs \<and> py_eq_members ps qs
      | _ \<Rightarrow> (case (num_val x, num_val y) of (Some a, Some b) \<Rightarrow> a = b | _ \<Rightarrow> False))"
| "py_eq_list [] ys = (ys = [])"
| "py_eq_list (x # xs) ys = (case ys of [] \<Rightarrow> False | y # ys' \<Rightarrow> py_eq x y \<and> py_eq_list xs ys')"
| "py_eq_members [] qs = True"
| "py_eq_members ((k, v) # ps) qs =
     ((case map_of qs k of None \<Rightarrow> False | Some w \<Rightarrow> py_eq v w) \<and> py_eq_members ps qs)"
  by pat_completeness auto
termination
  by (relation "measure (case_sum (\<lambda>(x, y). size x) (case_sum (\<lambda>(xs, ys). size_list size xs)
        (\<lambda>(ps, qs). size_list (size_prod (\<lambda>_. 0) size) ps)))") auto

text \<open>\<open>x < y\<close>; \<open>x > y\<close> is \<open>y < x\<close>.\<close>

function py_lt :: "json \<Rightarrow> json \<Rightarrow> py_error + bool"
  and py_lt_list :: "json list \<Rightarrow> json list \<Rightarrow> py_error + bool"
where
  "py_lt x y =
     (case (x, y) of
        (JStr s, JStr t) \<Rightarrow> Inr (s < t)
      | (JList xs, JList ys) \<Rightarrow> py_lt_list xs ys
      | _ \<Rightarrow> (case (num_val x, num_val y) of (Some a, Some b) \<Rightarrow> Inr (a < b) | _ \<Rightarrow> Inl TypeError))"
| "py_lt_list [] ys = Inr (ys \<noteq> [])"
| "py_lt_list (x # xs) ys =
     (case ys of
        [] \<Rightarrow> Inr False
      | y # ys' \<Rightarrow> if py_eq x y then py_lt_list xs ys' else py_lt x y)"
  by pat_completeness auto
termination
  by (relation "measure (case_sum (\<lambda>(x, y). size x) (\<lambda>(xs, ys). size_list size xs))") auto

declare py_eq.simps [simp del] py_lt.simps [simp del]

fun hashable :: "json \<Rightarrow> bool" where
  "hashable (JList xs) = False"
| "hashable (JObj ps) = False"
| "hashable _ = True"

definition py_mem :: "json \<Rightarrow> json list \<Rightarrow> bool" where
  "py_mem x S = list_ex (py_eq x) S"

section \<open>Text\<close>

text \<open>\<open>repr\<close> of a string: double quotes only when it holds a single quote and no double
  quote; backslash escapes; \<open>\xNN\<close> for what is not printable.\<close>

definition py_printable :: "char \<Rightarrow> bool" where
  "py_printable c = (let n = (of_char c :: nat) in (32 \<le> n \<and> n < 127) \<or> (161 \<le> n \<and> n \<noteq> 173))"

definition repr_char :: "char \<Rightarrow> char \<Rightarrow> string" where
  "repr_char q c =
     (let n = (of_char c :: nat) in
      if c = q \<or> n = 92 then [char_of (92 :: nat), c]
      else if n = 9 then char_of (92 :: nat) # ''t''
      else if n = 10 then char_of (92 :: nat) # ''n''
      else if n = 13 then char_of (92 :: nat) # ''r''
      else if py_printable c then [c]
      else char_of (92 :: nat) # CHR ''x'' # [hex_char (n div 16), hex_char (n mod 16)])"

definition repr_str :: "string \<Rightarrow> string" where
  "repr_str s =
     (let sq = char_of (39 :: nat); dq = char_of (34 :: nat);
          q = (if sq \<in> set s \<and> dq \<notin> set s then dq else sq)
      in [q] @ concat (map (repr_char q) s) @ [q])"

text \<open>\<open>repr\<close> of a value, and \<open>json.dumps\<close> with its default separators.\<close>

function py_repr :: "json \<Rightarrow> string" where
  "py_repr JNull = ''None''"
| "py_repr (JBool b) = (if b then ''True'' else ''False'')"
| "py_repr (JInt i) = show_int i"
| "py_repr (JFloat m e) = float_repr m e"
| "py_repr (JStr s) = repr_str s"
| "py_repr (JList xs) = ''['' @ join '', '' (map py_repr xs) @ '']''"
| "py_repr (JObj ps) = ''{'' @ join '', '' (map (\<lambda>p. repr_str (fst p) @ '': '' @ py_repr (snd p)) ps) @ ''}''"
  by pat_completeness auto
termination
  by (relation "measure size") (auto dest: size_json_member size_json_elem)

function dumps_plain :: "json \<Rightarrow> string" where
  "dumps_plain JNull = ''null''"
| "dumps_plain (JBool b) = (if b then ''true'' else ''false'')"
| "dumps_plain (JInt i) = show_int i"
| "dumps_plain (JFloat m e) = float_repr m e"
| "dumps_plain (JStr s) = quote s"
| "dumps_plain (JList xs) = ''['' @ join '', '' (map dumps_plain xs) @ '']''"
| "dumps_plain (JObj ps) = ''{'' @ join '', '' (map (\<lambda>p. quote (fst p) @ '': '' @ dumps_plain (snd p)) ps) @ ''}''"
  by pat_completeness auto
termination
  by (relation "measure size") (auto dest: size_json_member size_json_elem)

section \<open>Lemmas\<close>

lemma py_eq_simps [simp]:
  "py_eq JNull y \<longleftrightarrow> y = JNull"
  "py_eq (JStr s) y \<longleftrightarrow> y = JStr s"
  "py_eq (JList xs) (JList ys) = py_eq_list xs ys"
  "py_eq (JObj ps) (JObj qs) \<longleftrightarrow> length ps = length qs \<and> py_eq_members ps qs"
  "num_val x = Some a \<Longrightarrow> num_val y = Some b \<Longrightarrow> py_eq x y \<longleftrightarrow> a = b"
  by (auto simp: py_eq.simps split: json.splits)

lemma py_lt_simps [simp]:
  "py_lt (JStr s) (JStr t) = Inr (s < t)"
  "num_val x = Some a \<Longrightarrow> num_val y = Some b \<Longrightarrow> py_lt x y = Inr (a < b)"
  by (auto simp: py_lt.simps split: json.splits)

text \<open>A scalar is compared with a scalar of its own kind or not at all.\<close>

lemma py_lt_scalar:
  assumes "py_lt x y = Inr b"
  shows "(\<exists>s t. x = JStr s \<and> y = JStr t \<and> b = (s < t))
    \<or> (\<exists>xs ys. x = JList xs \<and> y = JList ys)
    \<or> (\<exists>p q. num_val x = Some p \<and> num_val y = Some q \<and> b = (p < q))"
  using assms by (auto simp: py_lt.simps split: json.splits option.splits)

lemma num_val_number: "is_number x \<Longrightarrow> \<exists>a. num_val x = Some a"
  by (cases x) auto

end
