(* ===== verification/Runtime_Policy.thy ===== *)
theory Runtime_Policy
  imports Py_Value
begin

text \<open>
  \<^verbatim>\<open>server/app/domain/runtime_policy\<close>: the authored policy value (\<open>conditions.py\<close>,
  \<open>effects.py\<close>, \<open>constraints.py\<close>, \<open>metadata.py\<close>,
  \<open>runtime_policy.py\<close>) and its structural validation (\<open>validators.py\<close>).

  A condition's value has type \<open>Any\<close> in the code and is a JSON value here: every policy reaches
  the code through JSON. The type of \<open>operator\<close> and \<open>effect\<close> is the enumeration, so
  the two validator branches for a value outside the enumeration do not arise;
  \<open>scope\<close> and \<open>metadata\<close> are never \<open>None\<close> for the same reason.
  Texts are those of Python 3.12, where a formatted member of a string enumeration prints as
  \<^verbatim>\<open>Operator.LTE\<close>.
\<close>

section \<open>Conditions, effects, constraints\<close>

datatype Operator = LTE | GTE | EQ | NEQ | LT | GT | IN | CONTAINS | EXISTS

fun Operator_value :: "Operator \<Rightarrow> string" where
  "Operator_value LTE = ''<=''"
| "Operator_value GTE = ''>=''"
| "Operator_value EQ = ''==''"
| "Operator_value NEQ = ''!=''"
| "Operator_value LT = ''<''"
| "Operator_value GT = ''>''"
| "Operator_value IN = ''in''"
| "Operator_value CONTAINS = ''contains''"
| "Operator_value EXISTS = ''exists''"

fun Operator_name :: "Operator \<Rightarrow> string" where
  "Operator_name LTE = ''Operator.LTE''"
| "Operator_name GTE = ''Operator.GTE''"
| "Operator_name EQ = ''Operator.EQ''"
| "Operator_name NEQ = ''Operator.NEQ''"
| "Operator_name LT = ''Operator.LT''"
| "Operator_name GT = ''Operator.GT''"
| "Operator_name IN = ''Operator.IN''"
| "Operator_name CONTAINS = ''Operator.CONTAINS''"
| "Operator_name EXISTS = ''Operator.EXISTS''"

definition operators :: "Operator list" where
  "operators = [LTE, GTE, EQ, NEQ, LT, GT, IN, CONTAINS, EXISTS]"

record Condition =
  field :: string
  operator :: Operator
  cvalue :: json

record ConditionSet =
  all_of :: "Condition list"

datatype Effect = ALLOW | DENY | REQUIRE_HUMAN_REVIEW

fun Effect_value :: "Effect \<Rightarrow> string" where
  "Effect_value ALLOW = ''allow''"
| "Effect_value DENY = ''deny''"
| "Effect_value REQUIRE_HUMAN_REVIEW = ''require_human_review''"

definition effects :: "Effect list" where
  "effects = [ALLOW, DENY, REQUIRE_HUMAN_REVIEW]"

datatype RiskLevel = LOW | MEDIUM | HIGH | CRITICAL

fun RiskLevel_value :: "RiskLevel \<Rightarrow> string" where
  "RiskLevel_value LOW = ''low''"
| "RiskLevel_value MEDIUM = ''medium''"
| "RiskLevel_value HIGH = ''high''"
| "RiskLevel_value CRITICAL = ''critical''"

definition risk_levels :: "RiskLevel list" where
  "risk_levels = [LOW, MEDIUM, HIGH, CRITICAL]"

record Constraints =
  delegated_by :: "string option"
  expires :: "datetime option"
  evidence_required :: bool
  risk_level :: "RiskLevel option"
  authority_id :: "string option"
  mandate_id :: "string option"
  enterprise_system_id :: "string option"

record Metadata =
  owner :: "string option"
  created_by :: "string option"
  tags :: "string list"
  source_type :: "string option"
  source_corpus_id :: "string option"
  source_graph_approval_id :: "string option"
  source_graph_version :: "int option"
  source_candidate_id :: "string option"

record AuditTrail =
  created :: datetime
  modified :: "datetime option"
  approved :: "datetime option"
  deployed :: "datetime option"
  modified_by :: "string option"
  approved_by :: "string option"
  deployed_by :: "string option"

section \<open>The policy\<close>

datatype PolicyStatus =
  DRAFT | PENDING_REVIEW | APPROVED | REJECTED | COMPILED | ACTIVE | RETIRED | ARCHIVED

fun PolicyStatus_value :: "PolicyStatus \<Rightarrow> string" where
  "PolicyStatus_value DRAFT = ''draft''"
| "PolicyStatus_value PENDING_REVIEW = ''pending_review''"
| "PolicyStatus_value APPROVED = ''approved''"
| "PolicyStatus_value REJECTED = ''rejected''"
| "PolicyStatus_value COMPILED = ''compiled''"
| "PolicyStatus_value ACTIVE = ''active''"
| "PolicyStatus_value RETIRED = ''retired''"
| "PolicyStatus_value ARCHIVED = ''archived''"

definition policy_statuses :: "PolicyStatus list" where
  "policy_statuses = [DRAFT, PENDING_REVIEW, APPROVED, REJECTED, COMPILED, ACTIVE, RETIRED, ARCHIVED]"

record Scope =
  principal :: string
  action :: string
  agent :: "string option"
  resource :: "string option"

record RuntimePolicy =
  rp_id :: string
  rp_name :: string
  version :: int
  status :: PolicyStatus
  scope :: Scope
  conditions :: ConditionSet
  effect :: Effect
  description :: "string option"
  constraints :: Constraints
  metadata :: Metadata
  audit :: "AuditTrail option"

interpretation operator_enum: str_enum operators Operator_value
proof unfold_locales
  show "x \<in> set operators" for x by (cases x) (simp_all add: operators_def)
qed (simp add: operators_def)

interpretation effect_enum: str_enum effects Effect_value
proof unfold_locales
  show "x \<in> set effects" for x by (cases x) (simp_all add: effects_def)
qed (simp add: effects_def)

interpretation risk_enum: str_enum risk_levels RiskLevel_value
proof unfold_locales
  show "x \<in> set risk_levels" for x by (cases x) (simp_all add: risk_levels_def)
qed (simp add: risk_levels_def)

interpretation status_enum: str_enum policy_statuses PolicyStatus_value
proof unfold_locales
  show "x \<in> set policy_statuses" for x by (cases x) (simp_all add: policy_statuses_def)
qed (simp add: policy_statuses_def)

section \<open>Validation\<close>

record ValidationError =
  ve_field :: string
  ve_code :: string
  ve_message :: string

definition numeric_operators :: "Operator list" where
  "numeric_operators = [LTE, GTE, LT, GT]"

definition validate_required_fields :: "RuntimePolicy \<Rightarrow> ValidationError list" where
  "validate_required_fields policy =
     (if is_blank (rp_id policy)
      then [\<lparr>ve_field = ''id'', ve_code = ''REQUIRED_FIELD_MISSING'', ve_message = ''id must not be empty''\<rparr>] else [])
   @ (if is_blank (rp_name policy)
      then [\<lparr>ve_field = ''name'', ve_code = ''REQUIRED_FIELD_MISSING'', ve_message = ''name must not be empty''\<rparr>] else [])
   @ (if version policy < 1
      then [\<lparr>ve_field = ''version'', ve_code = ''INVALID_VERSION'', ve_message = ''version must be 1 or greater''\<rparr>] else [])"

definition validate_scope :: "RuntimePolicy \<Rightarrow> ValidationError list" where
  "validate_scope policy =
     (if is_blank (principal (scope policy))
      then [\<lparr>ve_field = ''scope.principal'', ve_code = ''INVALID_SCOPE'', ve_message = ''scope.principal must not be empty''\<rparr>] else [])
   @ (if is_blank (action (scope policy))
      then [\<lparr>ve_field = ''scope.action'', ve_code = ''INVALID_SCOPE'', ve_message = ''scope.action must not be empty''\<rparr>] else [])"

definition validate_operator_value_shape :: "string \<Rightarrow> Condition \<Rightarrow> ValidationError list" where
  "validate_operator_value_shape path c =
     (if operator c \<in> set numeric_operators then
        (if \<not> is_number (cvalue c)
         then [\<lparr>ve_field = path @ ''.value'', ve_code = ''OPERATOR_VALUE_MISMATCH'',
                ve_message = ''operator '' @ [char_of (39 :: nat)] @ Operator_name (operator c)
                  @ [char_of (39 :: nat)] @ '' requires a numeric value, got '' @ py_repr (cvalue c)\<rparr>]
         else [])
      else if operator c = IN then
        (case cvalue c of
           JList _ \<Rightarrow> []
         | _ \<Rightarrow> [\<lparr>ve_field = path @ ''.value'', ve_code = ''OPERATOR_VALUE_MISMATCH'',
                   ve_message = ''operator '' @ [char_of (39 :: nat)] @ ''in'' @ [char_of (39 :: nat)]
                     @ '' requires a list value, got '' @ py_repr (cvalue c)\<rparr>])
      else [])"

type_synonym dedup_key = "string \<times> string \<times> string"

definition dedup_key :: "Condition \<Rightarrow> dedup_key" where
  "dedup_key c = (field c, Operator_name (operator c), py_repr (cvalue c))"

definition condition_errors :: "nat \<Rightarrow> dedup_key set \<Rightarrow> Condition \<Rightarrow> ValidationError list" where
  "condition_errors idx seen c =
     (let path = ''conditions.all['' @ show_nat idx @ '']'' in
      (if is_blank (field c)
       then [\<lparr>ve_field = path @ ''.field'', ve_code = ''INVALID_FIELD'', ve_message = ''condition field must not be empty''\<rparr>]
       else [])
    @ validate_operator_value_shape path c
    @ (if dedup_key c \<in> seen
       then [\<lparr>ve_field = path, ve_code = ''DUPLICATE_CONDITION'',
              ve_message = ''duplicate condition: '' @ field c @ '' '' @ Operator_name (operator c) @ '' '' @ py_repr (cvalue c)\<rparr>]
       else []))"

fun validate_conditions_from :: "nat \<Rightarrow> dedup_key set \<Rightarrow> Condition list \<Rightarrow> ValidationError list" where
  "validate_conditions_from idx seen [] = []"
| "validate_conditions_from idx seen (c # cs) =
     condition_errors idx seen c @ validate_conditions_from (Suc idx) (insert (dedup_key c) seen) cs"

definition validate_conditions :: "RuntimePolicy \<Rightarrow> ValidationError list" where
  "validate_conditions policy = validate_conditions_from 0 {} (all_of (conditions policy))"

fun validate_tags :: "string set \<Rightarrow> string list \<Rightarrow> ValidationError list" where
  "validate_tags seen [] = []"
| "validate_tags seen (tag # ts) =
     (if is_blank tag
      then \<lparr>ve_field = ''metadata.tags'', ve_code = ''INVALID_METADATA'', ve_message = ''tags must not be empty strings''\<rparr>
           # validate_tags seen ts
      else (if tag \<in> seen
            then [\<lparr>ve_field = ''metadata.tags'', ve_code = ''INVALID_METADATA'',
                   ve_message = ''duplicate tag: '' @ [char_of (39 :: nat)] @ tag @ [char_of (39 :: nat)]\<rparr>]
            else [])
           @ validate_tags (insert tag seen) ts)"

definition validate_metadata :: "RuntimePolicy \<Rightarrow> ValidationError list" where
  "validate_metadata policy = validate_tags {} (tags (metadata policy))"

definition validate :: "RuntimePolicy \<Rightarrow> ValidationError list" where
  "validate policy =
     validate_required_fields policy @ validate_scope policy
     @ validate_conditions policy @ validate_metadata policy"

section \<open>What validation accepts\<close>

text \<open>The declarative reading: a policy is well formed.\<close>

definition well_formed_condition :: "Condition \<Rightarrow> bool" where
  "well_formed_condition c =
     (\<not> is_blank (field c)
      \<and> (operator c \<in> set numeric_operators \<longrightarrow> is_number (cvalue c))
      \<and> (operator c = IN \<longrightarrow> (\<exists>xs. cvalue c = JList xs)))"

definition well_formed :: "RuntimePolicy \<Rightarrow> bool" where
  "well_formed p =
     (\<not> is_blank (rp_id p) \<and> \<not> is_blank (rp_name p) \<and> 1 \<le> version p
      \<and> \<not> is_blank (principal (scope p)) \<and> \<not> is_blank (action (scope p))
      \<and> (\<forall>c \<in> set (all_of (conditions p)). well_formed_condition c)
      \<and> distinct (map dedup_key (all_of (conditions p)))
      \<and> (\<forall>t \<in> set (tags (metadata p)). \<not> is_blank t) \<and> distinct (tags (metadata p)))"

lemma shape_ok_iff:
  "validate_operator_value_shape path c = [] \<longleftrightarrow>
     (operator c \<in> set numeric_operators \<longrightarrow> is_number (cvalue c))
     \<and> (operator c = IN \<longrightarrow> (\<exists>xs. cvalue c = JList xs))"
  by (auto simp: validate_operator_value_shape_def numeric_operators_def split: json.splits)

lemma validate_conditions_from_ok_iff:
  "validate_conditions_from idx seen cs = [] \<longleftrightarrow>
     (\<forall>c \<in> set cs. well_formed_condition c) \<and> distinct (map dedup_key cs)
     \<and> dedup_key ` set cs \<inter> seen = {}"
  by (induction idx seen cs rule: validate_conditions_from.induct)
    (auto simp: condition_errors_def shape_ok_iff well_formed_condition_def Let_def)

lemma validate_tags_ok_iff:
  "validate_tags seen ts = [] \<longleftrightarrow> (\<forall>t \<in> set ts. \<not> is_blank t) \<and> distinct ts \<and> set ts \<inter> seen = {}"
  by (induction seen ts rule: validate_tags.induct) auto

lemma validate_ok_iff: "validate p = [] \<longleftrightarrow> well_formed p"
  by (auto simp: validate_def well_formed_def validate_required_fields_def validate_scope_def
      validate_conditions_def validate_metadata_def validate_conditions_from_ok_iff validate_tags_ok_iff)

text \<open>A policy used by the witnesses of the development.\<close>

definition demo_policy :: RuntimePolicy where
  "demo_policy = \<lparr>rp_id = ''p-1'', rp_name = ''Vendor payments'', version = 1, status = DRAFT,
     scope = \<lparr>principal = ''cfo'', action = ''vendor_payment'', agent = None, resource = None\<rparr>,
     conditions = \<lparr>all_of = [\<lparr>field = ''amount'', operator = LTE, cvalue = JInt 500\<rparr>]\<rparr>,
     effect = ALLOW, description = None,
     constraints = \<lparr>delegated_by = None, expires = None, evidence_required = True, risk_level = None,
       authority_id = None, mandate_id = None, enterprise_system_id = None\<rparr>,
     metadata = \<lparr>owner = None, created_by = None, tags = [''payments''], source_type = None,
       source_corpus_id = None, source_graph_approval_id = None, source_graph_version = None,
       source_candidate_id = None\<rparr>,
     audit = None\<rparr>"

lemma demo_policy_valid: "validate demo_policy = []"
  by (simp add: validate_ok_iff well_formed_def well_formed_condition_def demo_policy_def is_blank_def
      is_space_def numeric_operators_def)

section \<open>Claims\<close>

text \<open>Validation reports no error exactly on the well-formed policies: identifier, name, principal
  and action not blank, version at least 1, every condition with a non-blank field and a value of the
  shape its operator needs, no repeated condition, and tags that are not blank and not repeated.\<close>

theorem validate_accepts_iff_well_formed: "validate p = [] \<longleftrightarrow> well_formed p"
  by (rule validate_ok_iff)

end
