(* ===== verification/Py_Time.thy ===== *)
theory Py_Time
  imports Json
begin

text \<open>
  The parts of Python's \<open>datetime\<close> the code uses, for aware instants in UTC: the proleptic
  Gregorian calendar as in the standard library (\<open>_ord2ymd\<close>, \<open>_ymd2ord\<close>),
  \<open>isoformat\<close> and \<open>fromisoformat\<close> on the form that \<open>isoformat\<close> writes for a
  UTC instant. \<open>None\<close> is \<open>ValueError\<close>; the other ISO forms that the standard library
  also reads are not modelled.
\<close>

definition days_before_month :: "int \<Rightarrow> int" where
  "days_before_month m =
     (if m \<le> 1 then 0 else if m = 2 then 31 else if m = 3 then 59 else if m = 4 then 90
      else if m = 5 then 120 else if m = 6 then 151 else if m = 7 then 181 else if m = 8 then 212
      else if m = 9 then 243 else if m = 10 then 273 else if m = 11 then 304 else 334)"

definition is_leap :: "int \<Rightarrow> bool" where
  "is_leap y = (y mod 4 = 0 \<and> (y mod 100 \<noteq> 0 \<or> y mod 400 = 0))"

definition month_days :: "bool \<Rightarrow> int \<Rightarrow> int" where
  "month_days leap m = (if m = 2 then (if leap then 29 else 28)
     else if m \<in> {4, 6, 9, 11} then 30 else 31)"

definition days_before_year :: "int \<Rightarrow> int" where
  "days_before_year y = (y - 1) * 365 + (y - 1) div 4 - (y - 1) div 100 + (y - 1) div 400"

definition month_start :: "bool \<Rightarrow> int \<Rightarrow> int" where
  "month_start leap m = days_before_month m + (if 2 < m \<and> leap then 1 else 0)"

definition ymd2ord :: "int \<Rightarrow> int \<Rightarrow> int \<Rightarrow> int" where
  "ymd2ord y m d = days_before_year y + month_start (is_leap y) m + d"

text \<open>Month and day of a day of the year (0-based): \<open>(n + 50) >> 5\<close> and its correction.\<close>

definition month_day :: "bool \<Rightarrow> int \<Rightarrow> int \<times> int" where
  "month_day leap n =
     (let month = (n + 50) div 32; month' = (if n < month_start leap month then month - 1 else month)
      in (month', n - month_start leap month' + 1))"

definition ord2ymd :: "int \<Rightarrow> int \<times> int \<times> int" where
  "ord2ymd ord =
     (let n = ord - 1; n400 = n div 146097; n = n mod 146097;
          n100 = n div 36524; n = n mod 36524; n4 = n div 1461; n = n mod 1461;
          n1 = n div 365; n = n mod 365;
          year = n400 * 400 + 1 + n100 * 100 + n4 * 4 + n1
      in if n1 = 4 \<or> n100 = 4 then (year - 1, 12, 31)
         else (let leap = (n1 = 3 \<and> (n4 \<noteq> 24 \<or> n100 = 3)); (m, d) = month_day leap n
               in (year, m, d)))"

definition epoch_ord :: int where "epoch_ord = 719163"

definition pad :: "nat \<Rightarrow> nat \<Rightarrow> string" where
  "pad w n = (let s = show_nat n in replicate (w - length s) CHR ''0'' @ s)"

definition us_per_day :: int where "us_per_day = 86400000000"

definition time_text :: "int \<Rightarrow> string" where
  "time_text u =
     (let us = u mod 1000000; s = u div 1000000
      in pad 2 (nat (s div 3600)) @ '':'' @ pad 2 (nat (s div 60 mod 60)) @ '':'' @ pad 2 (nat (s mod 60))
         @ (if us = 0 then [] else ''.'' @ pad 6 (nat us)))"

definition date_text :: "int \<Rightarrow> string" where
  "date_text days =
     (case ord2ymd (days + epoch_ord) of
        (y, m, d) \<Rightarrow> pad 4 (nat y) @ ''-'' @ pad 2 (nat m) @ ''-'' @ pad 2 (nat d))"

definition isoformat :: "datetime \<Rightarrow> string" where
  "isoformat t = date_text (t div us_per_day) @ ''T'' @ time_text (t mod us_per_day) @ ''+00:00''"

definition read_digits :: "nat \<Rightarrow> string \<Rightarrow> (int \<times> string) option" where
  "read_digits w s =
     (if w \<le> length s \<and> list_all is_digit (take w s) then Some (int (read_nat (take w s)), drop w s)
      else None)"

definition read_char :: "char \<Rightarrow> string \<Rightarrow> string option" where
  "read_char c s = (case s of x # r \<Rightarrow> if x = c then Some r else None | [] \<Rightarrow> None)"

definition read_date :: "string \<Rightarrow> (int \<times> string) option" where
  "read_date s =
     Option.bind (read_digits 4 s) (\<lambda>(y, s).
     Option.bind (read_char CHR ''-'' s) (\<lambda>s.
     Option.bind (read_digits 2 s) (\<lambda>(m, s).
     Option.bind (read_char CHR ''-'' s) (\<lambda>s.
     Option.bind (read_digits 2 s) (\<lambda>(d, s).
       if 1 \<le> y \<and> 1 \<le> m \<and> m \<le> 12 \<and> 1 \<le> d \<and> d \<le> month_days (is_leap y) m
       then Some (ymd2ord y m d - epoch_ord, s) else None)))))"

definition read_micros :: "string \<Rightarrow> (int \<times> string) option" where
  "read_micros s = (case read_char CHR ''.'' s of None \<Rightarrow> Some (0, s) | Some s' \<Rightarrow> read_digits 6 s')"

definition read_time :: "string \<Rightarrow> (int \<times> string) option" where
  "read_time s =
     Option.bind (read_digits 2 s) (\<lambda>(h, s).
     Option.bind (read_char CHR '':'' s) (\<lambda>s.
     Option.bind (read_digits 2 s) (\<lambda>(mi, s).
     Option.bind (read_char CHR '':'' s) (\<lambda>s.
     Option.bind (read_digits 2 s) (\<lambda>(sec, s).
     Option.bind (read_micros s) (\<lambda>(us, s).
       if h < 24 \<and> mi < 60 \<and> sec < 60
       then Some (((h * 60 + mi) * 60 + sec) * 1000000 + us, s) else None))))))"

definition fromisoformat :: "string \<Rightarrow> datetime option" where
  "fromisoformat s =
     Option.bind (read_date s) (\<lambda>(days, s).
     Option.bind (read_char CHR ''T'' s) (\<lambda>s.
     Option.bind (read_time s) (\<lambda>(u, s).
       if s = ''+00:00'' then Some (days * us_per_day + u) else None)))"

text \<open>The instants a \<open>datetime\<close> can hold: years 1 to 9999.\<close>

definition datetime_range :: "datetime \<Rightarrow> bool" where
  "datetime_range t = (-62135596800000000 \<le> t \<and> t < 253402300800000000)"

section \<open>The calendar\<close>

lemma month_day_correct:
  assumes "0 \<le> n" and "n \<le> 364" and "month_day leap n = (m, d)"
  shows "1 \<le> m \<and> m \<le> 12 \<and> 1 \<le> d \<and> d \<le> month_days leap m \<and> month_start leap m + d = n + 1"
proof -
  define k where "k = (n + 50) div 32"
  then have k: "32 * k \<le> n + 50" "n + 50 < 32 * k + 32" by linarith+
  then have "1 \<le> k" "k \<le> 12" using assms(1,2) by linarith+
  then have "k = 1 \<or> k = 2 \<or> k = 3 \<or> k = 4 \<or> k = 5 \<or> k = 6 \<or> k = 7 \<or> k = 8 \<or> k = 9 \<or> k = 10 \<or> k = 11 \<or> k = 12"
    by presburger
  then show ?thesis
    using assms k
    unfolding month_day_def k_def [symmetric] Let_def
    by (elim disjE; cases leap)
      (auto simp: month_start_def days_before_month_def month_days_def split: if_splits)
qed

lemma mod_eq_0_top:
  assumes "x = N * q + r" and "1 \<le> (r::int)" and "r \<le> N"
  shows "x mod N = 0 \<longleftrightarrow> r = N"
proof (cases "r = N")
  case False
  with assms have "x mod N = r" by simp
  with assms False show ?thesis by simp
qed (use assms in simp)

lemma days_before_year_parts:
  assumes "0 \<le> b" "b \<le> 3" "0 \<le> c" "c \<le> 24" "0 \<le> (d::int)" "d \<le> 3"
  shows "days_before_year (a * 400 + 1 + b * 100 + c * 4 + d) = a * 146097 + b * 36524 + c * 1461 + d * 365"
proof -
  let ?y = "a * 400 + b * 100 + c * 4 + d"
  have "?y div 4 = a * 100 + b * 25 + c"
    by (rule int_div_pos_eq [where r = d]) (use assms in auto)
  moreover have "?y div 100 = a * 4 + b"
    by (rule int_div_pos_eq [where r = "c * 4 + d"]) (use assms in auto)
  moreover have "?y div 400 = a"
    by (rule int_div_pos_eq [where r = "b * 100 + c * 4 + d"]) (use assms in auto)
  moreover have "a * 400 + 1 + b * 100 + c * 4 + d - 1 = ?y" by simp
  ultimately show ?thesis unfolding days_before_year_def by (simp only:) simp
qed

lemma is_leap_parts:
  assumes "0 \<le> b" "b \<le> 3" "0 \<le> c" "c \<le> 24" "0 \<le> (d::int)" "d \<le> 3"
  shows "is_leap (a * 400 + 1 + b * 100 + c * 4 + d) \<longleftrightarrow> (d = 3 \<and> (c \<noteq> 24 \<or> b = 3))"
proof -
  let ?y = "a * 400 + 1 + b * 100 + c * 4 + d"
  have "?y mod 4 = 0 \<longleftrightarrow> 1 + d = 4"
    by (rule mod_eq_0_top [where q = "a * 100 + b * 25 + c"]) (use assms in auto)
  moreover have "?y mod 100 = 0 \<longleftrightarrow> 1 + 4 * c + d = 100"
    by (rule mod_eq_0_top [where q = "a * 4 + b"]) (use assms in auto)
  moreover have "?y mod 400 = 0 \<longleftrightarrow> 1 + 100 * b + 4 * c + d = 400"
    by (rule mod_eq_0_top [where q = a]) (use assms in auto)
  ultimately show ?thesis unfolding is_leap_def using assms by auto
qed

lemma ymd2ord_ord2ymd:
  assumes "ord2ymd ord = (y, m, d)"
  shows "ymd2ord y m d = ord"
    and "1 \<le> m" "m \<le> 12" "1 \<le> d" "d \<le> month_days (is_leap y) m"
proof -
  define n where "n = ord - 1"
  define n400 where "n400 = n div 146097"
  define r400 where "r400 = n mod 146097"
  define n100 where "n100 = r400 div 36524"
  define r100 where "r100 = r400 mod 36524"
  define n4 where "n4 = r100 div 1461"
  define r4 where "r4 = r100 mod 1461"
  define n1 where "n1 = r4 div 365"
  define r1 where "r1 = r4 mod 365"
  note defs = n_def n400_def r400_def n100_def r100_def n4_def r4_def n1_def r1_def
  have ord: "ord = n400 * 146097 + n100 * 36524 + n4 * 1461 + n1 * 365 + r1 + 1"
    unfolding defs by simp
  have b: "0 \<le> r400" "r400 < 146097" "0 \<le> r100" "r100 < 36524" "0 \<le> r4" "r4 < 1461" "0 \<le> r1" "r1 \<le> 364"
    unfolding defs by simp_all
  have b100: "0 \<le> n100" "n100 \<le> 4" "n100 = 4 \<Longrightarrow> r100 = 0"
    using b unfolding n100_def r100_def by (simp_all add: minus_div_mult_eq_mod [symmetric])
  have b4: "0 \<le> n4" "n4 \<le> 24" using b unfolding n4_def by simp_all
  have b1: "0 \<le> n1" "n1 \<le> 4" "n1 = 4 \<Longrightarrow> r1 = 0"
    using b unfolding n1_def r1_def by (simp_all add: minus_div_mult_eq_mod [symmetric])
  have b41: "n4 = 24 \<Longrightarrow> n1 \<noteq> 4"
    using b unfolding n1_def n4_def r4_def by (simp add: minus_div_mult_eq_mod [symmetric])
  let ?y = "n400 * 400 + 1 + n100 * 100 + n4 * 4 + n1"
  let ?leap = "n1 = 3 \<and> (n4 \<noteq> 24 \<or> n100 = 3)"
  have o: "ord2ymd ord = (if n1 = 4 \<or> n100 = 4 then (?y - 1, 12, 31)
      else (case month_day ?leap r1 of (m, d) \<Rightarrow> (?y, m, d)))"
    unfolding ord2ymd_def Let_def defs by simp
  consider "n100 = 4" | "n100 \<noteq> 4" "n1 = 4" | "n100 \<noteq> 4" "n1 \<noteq> 4" by blast
  then have "ymd2ord y m d = ord \<and> 1 \<le> m \<and> m \<le> 12 \<and> 1 \<le> d \<and> d \<le> month_days (is_leap y) m"
  proof cases
    case 1
    then have z: "n4 = 0" "n1 = 0" "r1 = 0" using b100 unfolding n4_def n1_def r1_def r4_def by simp_all
    have "y = n400 * 400 + 1 + 3 * 100 + 24 * 4 + 3" "m = 12" "d = 31"
      using assms 1 z unfolding o by auto
    then show ?thesis
      using is_leap_parts [of 3 24 3 n400] days_before_year_parts [of 3 24 3 n400] ord 1 z
      by (simp add: ymd2ord_def month_start_def days_before_month_def month_days_def)
  next
    case 2
    then have z: "r1 = 0" "n4 \<noteq> 24" using b1 b41 by auto
    have "y = n400 * 400 + 1 + n100 * 100 + n4 * 4 + 3" "m = 12" "d = 31"
      using assms 2 z unfolding o by auto
    then show ?thesis
      using is_leap_parts [of n100 n4 3 n400] days_before_year_parts [of n100 n4 3 n400] ord 2 z b100 b4
      by (simp add: ymd2ord_def month_start_def days_before_month_def month_days_def)
  next
    case 3
    then have md: "month_day ?leap r1 = (m, d)" "y = ?y"
      using assms unfolding o by (auto split: prod.splits)
    have bb: "n100 \<le> 3" "n1 \<le> 3" using 3 b100 b1 by auto
    have "is_leap y = ?leap"
      using is_leap_parts [of n100 n4 n1 n400] b100 b4 b1 bb md by simp
    then show ?thesis
      using month_day_correct [OF b(7,8) md(1)] md(2) ord
        days_before_year_parts [of n100 n4 n1 n400] b100 b4 b1 bb
      by (simp add: ymd2ord_def)
  qed
  then show "ymd2ord y m d = ord" "1 \<le> m" "m \<le> 12" "1 \<le> d" "d \<le> month_days (is_leap y) m"
    by auto
qed


lemma month_start_bounds: "0 \<le> month_start leap m" "month_start leap m \<le> 335"
  by (auto simp: month_start_def days_before_month_def)

lemma month_days_le: "month_days leap m \<le> 31"
  by (simp add: month_days_def)

lemma ord2ymd_year:
  assumes "ord2ymd ord = (y, m, d)" and "1 \<le> ord" and "ord \<le> 3652059"
  shows "1 \<le> y" and "y \<le> 9999"
proof -
  define Y where "Y = y - 1"
  have o: "365 * Y + Y div 4 - Y div 100 + Y div 400 + month_start (is_leap y) m + d = ord"
    using ymd2ord_ord2ymd(1) [OF assms(1)] by (simp add: ymd2ord_def days_before_year_def Y_def)
  have md: "0 \<le> month_start (is_leap y) m" "month_start (is_leap y) m \<le> 335" "1 \<le> d" "d \<le> 31"
    using month_start_bounds ymd2ord_ord2ymd [OF assms(1)] month_days_le [of "is_leap y" m] by auto
  have q: "4 * (Y div 4) \<le> Y" "Y - 3 \<le> 4 * (Y div 4)" "100 * (Y div 100) \<le> Y" "Y - 99 \<le> 100 * (Y div 100)"
    "400 * (Y div 400) \<le> Y" "Y - 399 \<le> 400 * (Y div 400)" by linarith+
  have "Y \<le> 9998"
  proof (rule ccontr)
    assume "\<not> Y \<le> 9998"
    then have "9999 \<le> Y" by simp
    with o md q assms(3) show False by linarith
  qed
  then show "y \<le> 9999" by (simp add: Y_def)
  have "0 \<le> Y"
  proof (rule ccontr)
    assume "\<not> 0 \<le> Y"
    then have n: "Y \<le> -1" by simp
    then have "Y div 4 \<le> -1" "Y div 400 \<le> -1" using q by linarith+
    with n o md q assms(2) show False by linarith
  qed
  then show "1 \<le> y" by (simp add: Y_def)
qed

section \<open>Reading back an instant\<close>

lemma length_show_nat: "n < 10 ^ w \<Longrightarrow> 0 < w \<Longrightarrow> length (show_nat n) \<le> w"
proof (induction w arbitrary: n)
  case (Suc w)
  show ?case
  proof (cases "n < 10")
    case True
    then show ?thesis by (subst show_nat.simps) simp
  next
    case False
    with Suc.prems have "n div 10 < 10 ^ w" by (simp add: less_mult_imp_div_less mult.commute)
    moreover from False Suc.prems have "0 < w" by (cases w) auto
    ultimately have "length (show_nat (n div 10)) \<le> w" by (rule Suc.IH)
    with False show ?thesis by (subst show_nat.simps) simp
  qed
qed simp

lemma read_nat_zeros: "read_nat (replicate k CHR ''0'' @ ds) = read_nat ds"
  by (induction k) (simp_all add: read_nat_def digit_val_def)

lemma read_digits_pad:
  assumes "n < 10 ^ w" and "0 < w"
  shows "read_digits w (pad w n @ r) = Some (int n, r)"
proof -
  have "length (pad w n) = w"
    using length_show_nat [OF assms] by (simp add: pad_def Let_def)
  moreover have "list_all is_digit (pad w n)"
    using show_nat_digits [of n] by (auto simp: pad_def Let_def list_all_iff is_digit_def)
  moreover have "read_nat (pad w n) = n"
    by (simp add: pad_def Let_def read_nat_zeros)
  ultimately show ?thesis by (simp add: read_digits_def)
qed

lemma read_char_Cons [simp]: "read_char c (c # r) = Some r"
  by (simp add: read_char_def)

lemma read_date_text:
  assumes "1 \<le> days + epoch_ord" and "days + epoch_ord \<le> 3652059"
  shows "read_date (date_text days @ r) = Some (days, r)"
proof -
  obtain y m d where o: "ord2ymd (days + epoch_ord) = (y, m, d)"
    by (cases "ord2ymd (days + epoch_ord)") auto
  note b = ymd2ord_ord2ymd [OF o] ord2ymd_year [OF o assms]
  have "d \<le> 31" using b(5) month_days_le [of "is_leap y" m] by simp
  then have "read_digits 4 (pad 4 (nat y) @ s) = Some (y, s)"
    "read_digits 2 (pad 2 (nat m) @ s) = Some (m, s)"
    "read_digits 2 (pad 2 (nat d) @ s) = Some (d, s)" for s
    using b read_digits_pad [of "nat y" 4 s] read_digits_pad [of "nat m" 2 s]
      read_digits_pad [of "nat d" 2 s] by simp_all
  then show ?thesis using b by (simp add: read_date_def date_text_def o)
qed

lemma read_time_text:
  assumes "0 \<le> u" and "u < us_per_day"
  shows "read_time (time_text u @ ''+00:00'') = Some (u, ''+00:00'')"
proof -
  define s where "s = u div 1000000"
  define us where "us = u mod 1000000"
  have s: "0 \<le> s" "s < 86400" and us: "0 \<le> us" "us < 1000000" and u: "u = s * 1000000 + us"
    using assms by (auto simp: s_def us_def us_per_day_def)
  have h: "0 \<le> s div 3600" "s div 3600 < 24" "0 \<le> s div 60 mod 60" "s div 60 mod 60 < 60"
    "0 \<le> s mod 60" "s mod 60 < 60" using s by auto
  have split: "(s div 3600 * 60 + s div 60 mod 60) * 60 + s mod 60 = s"
    using zdiv_zmult2_eq [of 60 s 60] by simp
  have two: "read_digits 2 (pad 2 (nat x) @ r) = Some (x, r)" if "0 \<le> x" "x < 60" for x r
    using read_digits_pad [of "nat x" 2 r] that by simp
  have six: "read_digits 6 (pad 6 (nat us) @ r) = Some (us, r)" for r
    using read_digits_pad [of "nat us" 6 r] us by simp
  have tx: "time_text u = pad 2 (nat (s div 3600)) @ '':'' @ pad 2 (nat (s div 60 mod 60)) @ '':''
      @ pad 2 (nat (s mod 60)) @ (if us = 0 then [] else ''.'' @ pad 6 (nat us))"
    by (simp only: time_text_def Let_def s_def us_def)
  have mic: "read_micros ((if us = 0 then [] else ''.'' @ pad 6 (nat us)) @ ''+00:00'') = Some (us, ''+00:00'')"
    using six by (simp add: read_micros_def read_char_def)
  have "read_time (time_text u @ ''+00:00'') =
      Some (((s div 3600 * 60 + s div 60 mod 60) * 60 + s mod 60) * 1000000 + us, ''+00:00'')"
    using h two mic by (simp add: read_time_def tx)
  then show ?thesis by (simp only: split u [symmetric])
qed

lemma fromisoformat_isoformat:
  assumes "datetime_range t"
  shows "fromisoformat (isoformat t) = Some t"
proof -
  define days where "days = t div us_per_day"
  define u where "u = t mod us_per_day"
  have t: "t = days * us_per_day + u" and u: "0 \<le> u" "u < us_per_day"
    by (simp_all add: days_def u_def us_per_day_def)
  have "1 \<le> days + epoch_ord" "days + epoch_ord \<le> 3652059"
    using assms u t unfolding datetime_range_def epoch_ord_def us_per_day_def by linarith+
  then have "fromisoformat (isoformat t) = Some (days * us_per_day + u)"
    using read_date_text [of days "''T'' @ time_text u @ ''+00:00''"] read_time_text [OF u]
    by (simp add: fromisoformat_def isoformat_def days_def [symmetric] u_def [symmetric])
  then show ?thesis by (simp add: t [symmetric])
qed

end
