(* ===== verification/Policy_Schema.thy ===== *)
theory Policy_Schema
  imports Runtime_Policy Py_Time
begin

text \<open>
  \<^verbatim>\<open>server/app/domain/runtime_policy/schema.py\<close>: \<open>to_dict\<close>, \<open>from_dict\<close> and
  \<open>canonical_json\<close>. A policy's content column, its API form and its integrity hash all go
  through these.

  \<open>from_dict\<close> follows the code's accesses: a missing required key is \<open>KeyError\<close>, an
  enumeration value or a date that does not parse is \<open>ValueError\<close>, an access into something
  that is not a dict is \<open>TypeError\<close> or \<open>AttributeError\<close>. The code stores what it reads
  without looking at its type; a value of another type than the field's declared one has no place in
  the typed record, and is the outcome \<open>IllTyped\<close> here.
\<close>

section \<open>Dict access\<close>

fun py_getitem :: "json \<Rightarrow> string \<Rightarrow> py_error + json" where
  "py_getitem (JObj ps) k = (case map_of ps k of None \<Rightarrow> Inl (KeyError k) | Some v \<Rightarrow> Inr v)"
| "py_getitem _ k = Inl TypeError"

definition py_get_or :: "json \<Rightarrow> string \<Rightarrow> json \<Rightarrow> py_error + json" where
  "py_get_or j k d = (case j of
     JObj ps \<Rightarrow> Inr (case map_of ps k of None \<Rightarrow> d | Some v \<Rightarrow> v)
   | _ \<Rightarrow> Inl AttributeError)"

definition py_get :: "json \<Rightarrow> string \<Rightarrow> py_error + json" where
  "py_get j k = py_get_or j k JNull"

definition py_or :: "json \<Rightarrow> json \<Rightarrow> json" where
  "py_or x d = (if truthy x then x else d)"

text \<open>The declared types of the fields.\<close>

fun as_str :: "json \<Rightarrow> py_error + string" where
  "as_str (JStr s) = Inr s"
| "as_str _ = Inl IllTyped"

fun as_opt_str :: "json \<Rightarrow> py_error + string option" where
  "as_opt_str JNull = Inr None"
| "as_opt_str (JStr s) = Inr (Some s)"
| "as_opt_str _ = Inl IllTyped"

fun as_int :: "json \<Rightarrow> py_error + int" where
  "as_int (JInt i) = Inr i"
| "as_int _ = Inl IllTyped"

fun as_opt_int :: "json \<Rightarrow> py_error + int option" where
  "as_opt_int JNull = Inr None"
| "as_opt_int (JInt i) = Inr (Some i)"
| "as_opt_int _ = Inl IllTyped"

fun as_bool :: "json \<Rightarrow> py_error + bool" where
  "as_bool (JBool b) = Inr b"
| "as_bool _ = Inl IllTyped"

fun as_list :: "json \<Rightarrow> py_error + json list" where
  "as_list (JList xs) = Inr xs"
| "as_list (JStr s) = Inl IllTyped"
| "as_list (JObj ps) = Inl IllTyped"
| "as_list _ = Inl TypeError"

text \<open>\<^verbatim>\<open>tuple(f(x) for x in xs)\<close>: the first exception stops it.\<close>

fun rmapM :: "('a \<Rightarrow> 'e + 'b) \<Rightarrow> 'a list \<Rightarrow> 'e + 'b list" where
  "rmapM f [] = Inr []"
| "rmapM f (x # xs) = rbind (f x) (\<lambda>y. rmap (Cons y) (rmapM f xs))"

definition enum_call :: "'a list \<Rightarrow> ('a \<Rightarrow> string) \<Rightarrow> json \<Rightarrow> py_error + 'a" where
  "enum_call ms val j = (case j of
     JStr s \<Rightarrow> (case enum_of ms val s of None \<Rightarrow> Inl ValueError | Some x \<Rightarrow> Inr x)
   | _ \<Rightarrow> Inl ValueError)"

section \<open>to_dict\<close>

definition opt_str :: "string option \<Rightarrow> json" where
  "opt_str x = (case x of None \<Rightarrow> JNull | Some s \<Rightarrow> JStr s)"

definition opt_int :: "int option \<Rightarrow> json" where
  "opt_int x = (case x of None \<Rightarrow> JNull | Some i \<Rightarrow> JInt i)"

definition dt_to_str :: "datetime option \<Rightarrow> json" where
  "dt_to_str dt = (case dt of None \<Rightarrow> JNull | Some t \<Rightarrow> JStr (isoformat t))"

fun dt_from_str :: "json \<Rightarrow> py_error + datetime option" where
  "dt_from_str JNull = Inr None"
| "dt_from_str (JStr s) = (case fromisoformat s of None \<Rightarrow> Inl ValueError | Some t \<Rightarrow> Inr (Some t))"
| "dt_from_str _ = Inl TypeError"

definition scope_to_dict :: "Scope \<Rightarrow> json" where
  "scope_to_dict s = JObj [
     (''principal'', JStr (principal s)), (''action'', JStr (action s)),
     (''agent'', opt_str (agent s)), (''resource'', opt_str (resource s))]"

definition condition_to_dict :: "Condition \<Rightarrow> json" where
  "condition_to_dict c = JObj [
     (''field'', JStr (field c)), (''operator'', JStr (Operator_value (operator c))), (''value'', cvalue c)]"

definition constraints_to_dict :: "Constraints \<Rightarrow> json" where
  "constraints_to_dict k = JObj [
     (''delegated_by'', opt_str (delegated_by k)),
     (''expires'', dt_to_str (expires k)),
     (''evidence_required'', JBool (evidence_required k)),
     (''risk_level'', opt_str (map_option RiskLevel_value (risk_level k))),
     (''authority_id'', opt_str (authority_id k)),
     (''mandate_id'', opt_str (mandate_id k)),
     (''enterprise_system_id'', opt_str (enterprise_system_id k))]"

definition metadata_to_dict :: "Metadata \<Rightarrow> json" where
  "metadata_to_dict m = JObj [
     (''owner'', opt_str (owner m)),
     (''created_by'', opt_str (created_by m)),
     (''tags'', JList (map JStr (tags m))),
     (''source_type'', opt_str (source_type m)),
     (''source_corpus_id'', opt_str (source_corpus_id m)),
     (''source_graph_approval_id'', opt_str (source_graph_approval_id m)),
     (''source_graph_version'', opt_int (source_graph_version m)),
     (''source_candidate_id'', opt_str (source_candidate_id m))]"

definition audit_to_dict :: "AuditTrail \<Rightarrow> json" where
  "audit_to_dict a = JObj [
     (''created'', dt_to_str (Some (created a))),
     (''modified'', dt_to_str (modified a)),
     (''approved'', dt_to_str (approved a)),
     (''deployed'', dt_to_str (deployed a)),
     (''modified_by'', opt_str (modified_by a)),
     (''approved_by'', opt_str (approved_by a)),
     (''deployed_by'', opt_str (deployed_by a))]"

definition to_dict :: "RuntimePolicy \<Rightarrow> json" where
  "to_dict policy = JObj [
     (''id'', JStr (rp_id policy)),
     (''name'', JStr (rp_name policy)),
     (''description'', opt_str (description policy)),
     (''version'', JInt (version policy)),
     (''status'', JStr (PolicyStatus_value (status policy))),
     (''scope'', scope_to_dict (scope policy)),
     (''conditions'', JObj [(''all'', JList (map condition_to_dict (all_of (conditions policy))))]),
     (''effect'', JStr (Effect_value (effect policy))),
     (''constraints'', constraints_to_dict (constraints policy)),
     (''metadata'', metadata_to_dict (metadata policy)),
     (''audit'', (case audit policy of None \<Rightarrow> JNull | Some a \<Rightarrow> audit_to_dict a))]"

definition canonical_json :: "RuntimePolicy \<Rightarrow> string" where
  "canonical_json policy = dumps (to_dict policy)"

section \<open>from_dict\<close>

definition scope_from_dict :: "json \<Rightarrow> py_error + Scope" where
  "scope_from_dict d =
     rbind (rbind (py_getitem d ''principal'') as_str) (\<lambda>p.
     rbind (rbind (py_getitem d ''action'') as_str) (\<lambda>a.
     rbind (rbind (py_get d ''agent'') as_opt_str) (\<lambda>g.
     rbind (rbind (py_get d ''resource'') as_opt_str) (\<lambda>r.
       Inr \<lparr>principal = p, action = a, agent = g, resource = r\<rparr>))))"

definition condition_from_dict :: "json \<Rightarrow> py_error + Condition" where
  "condition_from_dict c =
     rbind (rbind (py_getitem c ''field'') as_str) (\<lambda>f.
     rbind (rbind (py_getitem c ''operator'') (enum_call operators Operator_value)) (\<lambda>op.
     rbind (py_getitem c ''value'') (\<lambda>v.
       Inr \<lparr>field = f, operator = op, cvalue = v\<rparr>)))"

definition risk_level_from :: "json \<Rightarrow> py_error + RiskLevel option" where
  "risk_level_from r = (if truthy r then rmap Some (enum_call risk_levels RiskLevel_value r) else Inr None)"

definition constraints_from_dict :: "json \<Rightarrow> py_error + Constraints" where
  "constraints_from_dict d =
     rbind (rbind (py_get d ''delegated_by'') as_opt_str) (\<lambda>db.
     rbind (rbind (py_get d ''expires'') dt_from_str) (\<lambda>ex.
     rbind (rbind (py_get_or d ''evidence_required'' (JBool True)) as_bool) (\<lambda>er.
     rbind (rbind (py_get d ''risk_level'') risk_level_from) (\<lambda>rl.
     rbind (rbind (py_get d ''authority_id'') as_opt_str) (\<lambda>au.
     rbind (rbind (py_get d ''mandate_id'') as_opt_str) (\<lambda>ma.
     rbind (rbind (py_get d ''enterprise_system_id'') as_opt_str) (\<lambda>es.
       Inr \<lparr>delegated_by = db, expires = ex, evidence_required = er, risk_level = rl,
             authority_id = au, mandate_id = ma, enterprise_system_id = es\<rparr>)))))))"

definition metadata_from_dict :: "json \<Rightarrow> py_error + Metadata" where
  "metadata_from_dict d =
     rbind (rbind (py_get d ''owner'') as_opt_str) (\<lambda>ow.
     rbind (rbind (py_get d ''created_by'') as_opt_str) (\<lambda>cb.
     rbind (rbind (rbind (py_get_or d ''tags'' (JList [])) as_list) (rmapM as_str)) (\<lambda>ts.
     rbind (rbind (py_get d ''source_type'') as_opt_str) (\<lambda>st.
     rbind (rbind (py_get d ''source_corpus_id'') as_opt_str) (\<lambda>sc.
     rbind (rbind (py_get d ''source_graph_approval_id'') as_opt_str) (\<lambda>sa.
     rbind (rbind (py_get d ''source_graph_version'') as_opt_int) (\<lambda>sv.
     rbind (rbind (py_get d ''source_candidate_id'') as_opt_str) (\<lambda>ca.
       Inr \<lparr>owner = ow, created_by = cb, tags = ts, source_type = st, source_corpus_id = sc,
             source_graph_approval_id = sa, source_graph_version = sv, source_candidate_id = ca\<rparr>))))))))"

definition audit_from_dict :: "json \<Rightarrow> py_error + AuditTrail" where
  "audit_from_dict d =
     rbind (rbind (rbind (py_getitem d ''created'') dt_from_str) (\<lambda>t. get_or_raise t IllTyped)) (\<lambda>cr.
     rbind (rbind (py_get d ''modified'') dt_from_str) (\<lambda>mo.
     rbind (rbind (py_get d ''approved'') dt_from_str) (\<lambda>ap.
     rbind (rbind (py_get d ''deployed'') dt_from_str) (\<lambda>de.
     rbind (rbind (py_get d ''modified_by'') as_opt_str) (\<lambda>mb.
     rbind (rbind (py_get d ''approved_by'') as_opt_str) (\<lambda>ab.
     rbind (rbind (py_get d ''deployed_by'') as_opt_str) (\<lambda>db.
       Inr \<lparr>created = cr, modified = mo, approved = ap, deployed = de,
             modified_by = mb, approved_by = ab, deployed_by = db\<rparr>)))))))"

definition from_dict :: "json \<Rightarrow> py_error + RuntimePolicy" where
  "from_dict data =
     rbind (py_getitem data ''scope'') (\<lambda>scope_data.
     rbind (rmap (\<lambda>c. py_or c (JObj [(''all'', JList [])])) (py_get data ''conditions'')) (\<lambda>conditions_data.
     rbind (rmap (\<lambda>c. py_or c (JObj [])) (py_get data ''constraints'')) (\<lambda>constraints_data.
     rbind (rmap (\<lambda>c. py_or c (JObj [])) (py_get data ''metadata'')) (\<lambda>metadata_data.
     rbind (py_get data ''audit'') (\<lambda>audit_data.
     rbind (rbind (py_getitem data ''id'') as_str) (\<lambda>i.
     rbind (rbind (py_getitem data ''name'') as_str) (\<lambda>n.
     rbind (rbind (py_get data ''description'') as_opt_str) (\<lambda>d.
     rbind (rbind (py_getitem data ''version'') as_int) (\<lambda>v.
     rbind (rbind (py_getitem data ''status'') (enum_call policy_statuses PolicyStatus_value)) (\<lambda>st.
     rbind (scope_from_dict scope_data) (\<lambda>sc.
     rbind (rbind (rbind (py_get_or conditions_data ''all'' (JList [])) as_list) (rmapM condition_from_dict)) (\<lambda>cs.
     rbind (rbind (py_getitem data ''effect'') (enum_call effects Effect_value)) (\<lambda>ef.
     rbind (constraints_from_dict constraints_data) (\<lambda>k.
     rbind (metadata_from_dict metadata_data) (\<lambda>m.
     rbind (if audit_data = JNull then Inr None else rmap Some (audit_from_dict audit_data)) (\<lambda>a.
       Inr \<lparr>rp_id = i, rp_name = n, version = v, status = st, scope = sc,
             conditions = \<lparr>all_of = cs\<rparr>, effect = ef, description = d,
             constraints = k, metadata = m, audit = a\<rparr>))))))))))))))))"

section \<open>Round trip\<close>

text \<open>The dates of a policy are dates Python can represent.\<close>

definition opt_range :: "datetime option \<Rightarrow> bool" where
  "opt_range t = (case t of None \<Rightarrow> True | Some t \<Rightarrow> datetime_range t)"

definition dates_ok :: "RuntimePolicy \<Rightarrow> bool" where
  "dates_ok p = (opt_range (expires (constraints p))
     \<and> (case audit p of None \<Rightarrow> True
        | Some a \<Rightarrow> datetime_range (created a) \<and> opt_range (modified a) \<and> opt_range (approved a) \<and> opt_range (deployed a)))"

lemma as_opt_str_opt_str [simp]: "as_opt_str (opt_str x) = Inr x"
  by (cases x) (simp_all add: opt_str_def)

lemma as_opt_int_opt_int [simp]: "as_opt_int (opt_int x) = Inr x"
  by (cases x) (simp_all add: opt_int_def)

lemma dt_from_to_str [simp]: "opt_range t \<Longrightarrow> dt_from_str (dt_to_str t) = Inr t"
  by (cases t) (simp_all add: dt_to_str_def opt_range_def fromisoformat_isoformat)

lemma opt_range_Some [simp]: "opt_range (Some t) = datetime_range t"
  by (simp add: opt_range_def)

lemmas enum_call_value [simp] =
  operator_enum.enum_of_value effect_enum.enum_of_value risk_enum.enum_of_value status_enum.enum_of_value

lemma rmapM_map: "(\<And>x. x \<in> set xs \<Longrightarrow> g (f x) = Inr x) \<Longrightarrow> rmapM g (map f xs) = Inr xs"
  by (induction xs) auto

lemma risk_level_back [simp]: "risk_level_from (opt_str (map_option RiskLevel_value r)) = Inr r"
proof (cases r)
  case (Some x)
  moreover have "RiskLevel_value x \<noteq> []" by (cases x) auto
  ultimately show ?thesis by (simp add: opt_str_def enum_call_def risk_level_from_def)
qed (simp add: opt_str_def risk_level_from_def)

lemma scope_round_trip [simp]: "scope_from_dict (scope_to_dict s) = Inr s"
  by (simp add: scope_from_dict_def scope_to_dict_def py_get_def py_get_or_def)

lemma condition_round_trip [simp]: "condition_from_dict (condition_to_dict c) = Inr c"
  by (simp add: condition_from_dict_def condition_to_dict_def enum_call_def)

lemma constraints_round_trip:
  "opt_range (expires k) \<Longrightarrow> constraints_from_dict (constraints_to_dict k) = Inr k"
  by (simp add: constraints_from_dict_def constraints_to_dict_def py_get_def py_get_or_def)

lemma metadata_round_trip [simp]: "metadata_from_dict (metadata_to_dict m) = Inr m"
  by (simp add: metadata_from_dict_def metadata_to_dict_def py_get_def py_get_or_def rmapM_map)

lemma audit_round_trip:
  "datetime_range (created a) \<Longrightarrow> opt_range (modified a) \<Longrightarrow> opt_range (approved a) \<Longrightarrow> opt_range (deployed a)
   \<Longrightarrow> audit_from_dict (audit_to_dict a) = Inr a"
  by (simp add: audit_from_dict_def audit_to_dict_def py_get_def py_get_or_def)

lemma audit_to_dict_not_Null [simp]: "audit_to_dict a \<noteq> JNull"
  by (simp add: audit_to_dict_def)

lemma py_or_dicts [simp]:
  "py_or (constraints_to_dict k) d = constraints_to_dict k" "py_or (metadata_to_dict m) d = metadata_to_dict m"
  "py_or (JObj (q # ps)) d = JObj (q # ps)"
  by (simp_all add: py_or_def constraints_to_dict_def metadata_to_dict_def)

lemma from_dict_to_dict: "dates_ok p \<Longrightarrow> from_dict (to_dict p) = Inr p"
  by (auto simp: from_dict_def to_dict_def dates_ok_def py_get_def py_get_or_def enum_call_def rmapM_map
      constraints_round_trip audit_round_trip split: option.splits)

text \<open>The condition values are JSON values that survive a canonical print: no float, no repeated key.\<close>

definition plain_policy :: "RuntimePolicy \<Rightarrow> bool" where
  "plain_policy p = (\<forall>c \<in> set (all_of (conditions p)). plain_json (cvalue c))"

lemma plain_opts [simp]: "plain_json (opt_str x)" "plain_json (opt_int y)" "plain_json (dt_to_str t)"
  by (cases x; cases y; cases t; simp add: opt_str_def opt_int_def dt_to_str_def)+

lemma plain_to_dict: "plain_policy p \<Longrightarrow> plain_json (to_dict p)"
  by (auto simp: to_dict_def scope_to_dict_def constraints_to_dict_def metadata_to_dict_def audit_to_dict_def
      condition_to_dict_def plain_policy_def list_all_iff split: option.splits)

section \<open>Reading back what storage returns\<close>

text \<open>
  The content column and the canonical text do not keep the order of the keys. Reading a policy back
  from its canonical text gives the policy, its condition values with their keys sorted.
\<close>

definition sort_values :: "RuntimePolicy \<Rightarrow> RuntimePolicy" where
  "sort_values p = p\<lparr>conditions := \<lparr>all_of =
     map (\<lambda>c. c\<lparr>cvalue := sort_keys (cvalue c)\<rparr>) (all_of (conditions p))\<rparr>\<rparr>"

lemma map_of_sort_key:
  "distinct (map fst ps) \<Longrightarrow> map_of (sort_key fst (map (\<lambda>p. (fst p, f (snd p))) ps)) k = map_option f (map_of ps k)"
proof -
  assume d: "distinct (map fst ps)"
  let ?qs = "map (\<lambda>p. (fst p, f (snd p))) ps"
  have dq: "distinct (map fst ?qs)" using d by (simp add: comp_def)
  have "map_of (sort_key fst ?qs) = map_of ?qs"
    using dq map_of_inject_set [of "sort_key fst ?qs" ?qs] by (simp add: distinct_map_sort_key)
  moreover have "map_of ?qs k = map_option f (map_of ps k)" by (induction ps) auto
  ultimately show ?thesis by simp
qed

lemma py_getitem_sorted:
  "distinct (map fst ps) \<Longrightarrow> py_getitem (sort_keys (JObj ps)) k = rmap sort_keys (py_getitem (JObj ps) k)"
  by (simp add: map_of_sort_key split: option.splits)

lemma py_get_or_sorted:
  "distinct (map fst ps) \<Longrightarrow> sort_keys d = d \<Longrightarrow> py_get_or (sort_keys (JObj ps)) k d = rmap sort_keys (py_get_or (JObj ps) k d)"
  by (simp add: py_get_or_def map_of_sort_key split: option.splits)

lemma as_sorted [simp]:
  "as_str (sort_keys j) = as_str j" "as_opt_str (sort_keys j) = as_opt_str j" "as_int (sort_keys j) = as_int j"
  "as_opt_int (sort_keys j) = as_opt_int j" "as_bool (sort_keys j) = as_bool j"
  "dt_from_str (sort_keys j) = dt_from_str j" "as_list (sort_keys j) = rmap (map sort_keys) (as_list j)"
  by (cases j; simp)+

lemma enum_call_sorted [simp]: "enum_call ms val (sort_keys j) = enum_call ms val j"
  by (cases j) (simp_all add: enum_call_def)

lemma py_get_or_obj:
  "py_get_or (JObj ps) k d = Inr (case map_of ps k of None \<Rightarrow> d | Some v \<Rightarrow> v)"
  by (simp add: py_get_or_def)

lemmas sorted_access = py_getitem_sorted py_get_or_sorted py_get_or_obj py_get_def
lemmas no_sort = sort_keys.simps(2)

lemma scope_sorted: "scope_from_dict (sort_keys (scope_to_dict s)) = Inr s"
  by (simp add: scope_from_dict_def scope_to_dict_def sorted_access del: no_sort)

lemma condition_sorted:
  "condition_from_dict (sort_keys (condition_to_dict c)) = Inr (c\<lparr>cvalue := sort_keys (cvalue c)\<rparr>)"
  by (simp add: condition_from_dict_def condition_to_dict_def enum_call_def sorted_access del: no_sort)

lemma sort_key_Nil_iff [simp]: "sort_key f xs = [] \<longleftrightarrow> xs = []"
  by (metis length_0_conv length_sort)

lemma truthy_sort_keys [simp]: "truthy (sort_keys j) = truthy j"
  by (cases j) simp_all

lemma risk_level_from_sorted [simp]: "risk_level_from (sort_keys j) = risk_level_from j"
  by (simp add: risk_level_from_def)

lemma constraints_sorted:
  "opt_range (expires k) \<Longrightarrow> constraints_from_dict (sort_keys (constraints_to_dict k)) = Inr k"
  by (simp add: constraints_from_dict_def constraints_to_dict_def sorted_access del: no_sort)

lemma metadata_sorted: "metadata_from_dict (sort_keys (metadata_to_dict m)) = Inr m"
  by (simp add: metadata_from_dict_def metadata_to_dict_def sorted_access rmapM_map comp_def del: no_sort)

lemma audit_sorted:
  "datetime_range (created a) \<Longrightarrow> opt_range (modified a) \<Longrightarrow> opt_range (approved a) \<Longrightarrow> opt_range (deployed a)
   \<Longrightarrow> audit_from_dict (sort_keys (audit_to_dict a)) = Inr a"
  by (simp add: audit_from_dict_def audit_to_dict_def sorted_access del: no_sort)

lemma py_or_sort_keys:
  "py_or (sort_keys j) (JObj []) = sort_keys (py_or j (JObj []))"
  "py_or (sort_keys j) (JObj [(k, JList [])]) = sort_keys (py_or j (JObj [(k, JList [])]))"
  by (simp_all add: py_or_def)

lemma sort_keys_Null_iff [simp]: "sort_keys j = JNull \<longleftrightarrow> j = JNull"
  by (cases j) simp_all

lemma rmapM_sorted_conditions:
  "rmapM condition_from_dict (map (sort_keys \<circ> condition_to_dict) cs)
   = Inr (map (\<lambda>c. c\<lparr>cvalue := sort_keys (cvalue c)\<rparr>) cs)"
  by (induction cs) (simp_all add: condition_sorted)

lemma from_dict_sorted:
  "dates_ok p \<Longrightarrow> from_dict (sort_keys (to_dict p)) = Inr (sort_values p)"
  by (auto simp: from_dict_def to_dict_def dates_ok_def sorted_access enum_call_def py_or_sort_keys
      scope_sorted constraints_sorted metadata_sorted audit_sorted rmapM_sorted_conditions
      sort_values_def split: option.splits simp del: no_sort)

lemma from_dict_loads:
  assumes "dates_ok p" and "plain_policy p"
  shows "map_option from_dict (loads (canonical_json p)) = Some (Inr (sort_values p))"
  using assms by (simp add: canonical_json_def loads_dumps plain_to_dict from_dict_sorted)

section \<open>Claims\<close>



end
