(* ===== verification/Policy_Semantics.thy ===== *)
theory Policy_Semantics
  imports Runtime_Policy "HOL-Library.Product_Lexorder" "HOL-Library.Sublist"
begin

text \<open>
  What a policy means: the specification that the compiler's checks are proved against. It is the
  reading of \<^verbatim>\<open>docs/RUNTIME_POLICY_LANGUAGE.md\<close> and of the Rego text the generator emits. A condition
  is a comparison of the value at a dot-path of the decision input; a missing value satisfies
  nothing but \<open>exists false\<close>; conditions are conjoined with the scope.

  Rego compares values of any two types: null < booleans < numbers < strings < arrays < objects.
  \<open>rego_key\<close> places a value in that order. It is exact when one of the two values is a scalar, which
  is every comparison a valid policy makes with an ordering operator.
\<close>

fun rego_key :: "json \<Rightarrow> nat \<times> rat \<times> string" where
  "rego_key JNull = (0, 0, [])"
| "rego_key (JBool b) = (1, if b then 1 else 0, [])"
| "rego_key (JInt i) = (2, of_int i, [])"
| "rego_key (JFloat m e) = (2, dec_val m e, [])"
| "rego_key (JStr s) = (3, 0, s)"
| "rego_key (JList xs) = (4, 0, [])"
| "rego_key (JObj ps) = (5, 0, [])"

fun scalar :: "json \<Rightarrow> bool" where
  "scalar (JList xs) = False"
| "scalar (JObj ps) = False"
| "scalar _ = True"

definition rego_eq :: "json \<Rightarrow> json \<Rightarrow> bool" where
  "rego_eq x y = (if scalar x then rego_key x = rego_key y else x = y)"

section \<open>The value of a field\<close>

fun obj_get :: "json \<Rightarrow> string \<Rightarrow> json option" where
  "obj_get (JObj ps) k = map_of ps k"
| "obj_get _ k = None"

fun path_get :: "json \<Rightarrow> string list \<Rightarrow> json option" where
  "path_get j [] = Some j"
| "path_get j (k # ks) = (case obj_get j k of None \<Rightarrow> None | Some v \<Rightarrow> path_get v ks)"

definition field_path :: "string \<Rightarrow> string list" where
  "field_path f =
     (if startswith f ''context.'' then ''context'' # split_on CHR ''.'' (drop 8 f)
      else if startswith f ''enterprise_knowledge.''
      then ''enterprise_knowledge'' # split_on CHR ''.'' (drop 21 f)
      else ''intent'' # split_on CHR ''.'' f)"

definition field_value :: "json \<Rightarrow> string \<Rightarrow> json option" where
  "field_value input f = path_get input (field_path f)"

section \<open>Conditions and policies\<close>

fun holds :: "Operator \<Rightarrow> json \<Rightarrow> json \<Rightarrow> bool" where
  "holds LTE c v = (rego_key v \<le> rego_key c)"
| "holds LT c v = (rego_key v < rego_key c)"
| "holds GTE c v = (rego_key c \<le> rego_key v)"
| "holds GT c v = (rego_key c < rego_key v)"
| "holds EQ c v = rego_eq c v"
| "holds NEQ c v = (\<not> rego_eq c v)"
| "holds IN c v = (case c of JList xs \<Rightarrow> list_ex (\<lambda>e. rego_eq e v) xs | _ \<Rightarrow> False)"
| "holds CONTAINS c v = (case (c, v) of (JStr s, JStr t) \<Rightarrow> sublist s t | _ \<Rightarrow> False)"
| "holds EXISTS c v = (case c of JBool b \<Rightarrow> b = (v \<noteq> JNull) | _ \<Rightarrow> False)"

definition condition_holds :: "Condition \<Rightarrow> json option \<Rightarrow> bool" where
  "condition_holds c v = (case v of
     None \<Rightarrow> operator c = EXISTS \<and> cvalue c = JBool False
   | Some w \<Rightarrow> holds (operator c) (cvalue c) w)"

definition scope_matches :: "json \<Rightarrow> Scope \<Rightarrow> bool" where
  "scope_matches input s =
     (path_get input [''intent'', ''action''] = Some (JStr (action s))
      \<and> path_get input [''agent'', ''acting_for_principal_id''] = Some (JStr (principal s))
      \<and> (case agent s of None \<Rightarrow> True | Some a \<Rightarrow> path_get input [''agent'', ''id''] = Some (JStr a))
      \<and> (case resource s of None \<Rightarrow> True | Some r \<Rightarrow> path_get input [''intent'', ''resource''] = Some (JStr r)))"

definition policy_matches :: "json \<Rightarrow> RuntimePolicy \<Rightarrow> bool" where
  "policy_matches input p =
     (scope_matches input (scope p)
      \<and> (\<forall>c \<in> set (all_of (conditions p)). condition_holds c (field_value input (field c))))"

section \<open>Agreement with Python's comparisons\<close>

text \<open>
  Python compares two scalars of the same kind the way Rego does. It differs on a boolean and a
  number: \<open>True == 1\<close> in Python, and \<open>true < 1\<close> in Rego. \<open>alike b\<close> holds of the scalars that
  are booleans (\<open>b\<close>) or are not (\<open>\<not> b\<close>); within each of the two sets the orders agree.
\<close>

definition alike :: "bool \<Rightarrow> json \<Rightarrow> bool" where
  "alike b v = (scalar v \<and> is_bool v = b)"

lemma py_lt_alike:
  assumes "alike b x" and "alike b y" and "py_lt x y = Inr r"
  shows "r = (rego_key x < rego_key y)"
  using assms by (cases x; cases y) (auto simp: alike_def py_lt.simps)

lemma py_lt_alike_comparable:
  assumes "alike b x" and "alike b y" and "py_lt x y = Inr r"
  shows "\<exists>r'. py_lt y x = Inr r'"
  using assms by (cases x; cases y) (auto simp: alike_def py_lt.simps)

lemma py_eq_alike:
  assumes "alike b x" and "alike b y"
  shows "py_eq x y \<longleftrightarrow> rego_key x = rego_key y"
  using assms by (cases x; cases y) (auto simp: alike_def py_eq.simps)

lemma rego_key_py_eq: "scalar x \<Longrightarrow> rego_key x = rego_key y \<Longrightarrow> py_eq x y"
  by (cases x; cases y) (auto simp: py_eq.simps split: if_splits)

lemma rego_eq_scalar: "scalar x \<Longrightarrow> rego_eq x y \<longleftrightarrow> rego_key x = rego_key y"
  by (simp add: rego_eq_def)

lemma alike_scalar: "alike b x \<Longrightarrow> scalar x"
  by (simp add: alike_def)

lemma hashable_scalar: "hashable x = scalar x"
  by (cases x) simp_all

end
