(* ===== verification/Scope_Overlap.thy ===== *)
theory Scope_Overlap
  imports Policy_Semantics
begin

text \<open>
  \<^verbatim>\<open>server/app/domain/compiler_v2/scope_overlap.py\<close>: could two policies match the same input? Each
  field's conditions are reduced to a constraint (bounds, equality, exclusions, membership), and the
  two constraints of a field are intersected.

  \<open>eq = None\<close> of the code is \<open>JNull\<close> here, which is also what a condition
  \<open>== null\<close> stores. Sets are lists up to Python's equality. The touched fields form a
  Python set; its order of iteration is the argument \<open>ord\<close>, because it decides whether an
  incomparable pair raises before another field answers.
\<close>

type_synonym Bound = "(json \<times> bool) option"

record FieldConstraint =
  lo :: Bound
  hi :: Bound
  eq :: json
  neq :: "json list"
  in_set :: "json list option"
  inconclusive :: bool

definition tighter_lo :: "Bound \<Rightarrow> Bound \<Rightarrow> py_error + Bound" where
  "tighter_lo a b = (case a of None \<Rightarrow> Inr b | Some (av, ai) \<Rightarrow>
     (case b of None \<Rightarrow> Inr a | Some (bv, bi) \<Rightarrow>
        rbind (py_lt bv av) (\<lambda>g. if g then Inr a else
        rbind (py_lt av bv) (\<lambda>g. if g then Inr b else Inr (Some (av, ai \<and> bi))))))"

definition tighter_hi :: "Bound \<Rightarrow> Bound \<Rightarrow> py_error + Bound" where
  "tighter_hi a b = (case a of None \<Rightarrow> Inr b | Some (av, ai) \<Rightarrow>
     (case b of None \<Rightarrow> Inr a | Some (bv, bi) \<Rightarrow>
        rbind (py_lt av bv) (\<lambda>g. if g then Inr a else
        rbind (py_lt bv av) (\<lambda>g. if g then Inr b else Inr (Some (av, ai \<and> bi))))))"

text \<open>\<open>frozenset(v)\<close>; \<open>None\<close> where it raises \<open>TypeError\<close>.\<close>

definition frozenset :: "json \<Rightarrow> json list option" where
  "frozenset v = (case (case v of
       JList xs \<Rightarrow> Some xs
     | JStr s \<Rightarrow> Some (map (\<lambda>c. JStr [c]) s)
     | JObj ps \<Rightarrow> Some (map (\<lambda>p. JStr (fst p)) ps)
     | _ \<Rightarrow> None)
   of None \<Rightarrow> None | Some xs \<Rightarrow> if list_all hashable xs then Some xs else None)"

definition constrain :: "Condition \<Rightarrow> FieldConstraint \<Rightarrow> py_error + FieldConstraint" where
  "constrain c fc = (case operator c of
     LTE \<Rightarrow> rmap (\<lambda>h. fc\<lparr>hi := h\<rparr>) (tighter_hi (hi fc) (Some (cvalue c, True)))
   | LT \<Rightarrow> rmap (\<lambda>h. fc\<lparr>hi := h\<rparr>) (tighter_hi (hi fc) (Some (cvalue c, False)))
   | GTE \<Rightarrow> rmap (\<lambda>l. fc\<lparr>lo := l\<rparr>) (tighter_lo (lo fc) (Some (cvalue c, True)))
   | GT \<Rightarrow> rmap (\<lambda>l. fc\<lparr>lo := l\<rparr>) (tighter_lo (lo fc) (Some (cvalue c, False)))
   | EQ \<Rightarrow> Inr (fc\<lparr>eq := (if eq fc = JNull then cvalue c else eq fc)\<rparr>)
   | NEQ \<Rightarrow> if hashable (cvalue c) then Inr (fc\<lparr>neq := cvalue c # neq fc\<rparr>) else Inl TypeError
   | IN \<Rightarrow> Inr (case frozenset (cvalue c) of
        None \<Rightarrow> fc\<lparr>inconclusive := True\<rparr>
      | Some vs \<Rightarrow> fc\<lparr>in_set := Some (case in_set fc of None \<Rightarrow> vs
                                     | Some S \<Rightarrow> filter (\<lambda>x. py_mem x vs) S)\<rparr>)
   | CONTAINS \<Rightarrow> Inr (fc\<lparr>inconclusive := True\<rparr>)
   | EXISTS \<Rightarrow> Inr (fc\<lparr>inconclusive := True\<rparr>))"

definition unconstrained :: FieldConstraint where
  "unconstrained = \<lparr>lo = None, hi = None, eq = JNull, neq = [], in_set = None, inconclusive = False\<rparr>"

fun constrain_all :: "Condition list \<Rightarrow> FieldConstraint \<Rightarrow> py_error + FieldConstraint" where
  "constrain_all [] fc = Inr fc"
| "constrain_all (c # cs) fc = rbind (constrain c fc) (constrain_all cs)"

definition build_field_constraint :: "Condition list \<Rightarrow> py_error + FieldConstraint" where
  "build_field_constraint cs = constrain_all cs unconstrained"

definition add_eq :: "json \<Rightarrow> Bound \<times> Bound \<Rightarrow> py_error + Bound \<times> Bound" where
  "add_eq e lh = (if e = JNull then Inr lh else
     rbind (tighter_lo (fst lh) (Some (e, True))) (\<lambda>l.
     rmap (\<lambda>h. (l, h)) (tighter_hi (snd lh) (Some (e, True)))))"

definition py_in :: "json \<Rightarrow> json list \<Rightarrow> py_error + bool" where
  "py_in v S = (if hashable v then Inr (py_mem v S) else Inl TypeError)"

definition bounds_meet :: "Bound \<Rightarrow> Bound \<Rightarrow> json list \<Rightarrow> json list \<Rightarrow> py_error + bool" where
  "bounds_meet l h neq1 neq2 = (case (l, h) of
     (Some (lv, lin), Some (hv, hin)) \<Rightarrow>
       rbind (py_lt hv lv) (\<lambda>g. if g then Inr False else
       if py_eq lv hv then
         (if \<not> (lin \<and> hin) then Inr False
          else rbind (py_in lv neq1) (\<lambda>m. if m then Inr False else rmap Not (py_in lv neq2)))
       else Inr True)
   | _ \<Rightarrow> Inr True)"

definition fields_can_overlap :: "FieldConstraint \<Rightarrow> FieldConstraint \<Rightarrow> py_error + bool" where
  "fields_can_overlap c1 c2 =
     (if inconclusive c1 \<or> inconclusive c2 then Inr True else
      rbind (tighter_lo (lo c1) (lo c2)) (\<lambda>l.
      rbind (tighter_hi (hi c1) (hi c2)) (\<lambda>h.
      if eq c1 \<noteq> JNull \<and> eq c2 \<noteq> JNull \<and> \<not> py_eq (eq c1) (eq c2) then Inr False else
      rbind (add_eq (eq c1) (l, h)) (\<lambda>lh.
      rbind (add_eq (eq c2) lh) (\<lambda>lh.
      if (case (in_set c1, in_set c2) of
            (Some S1, Some S2) \<Rightarrow> \<not> list_ex (\<lambda>x. py_mem x S2) S1
          | _ \<Rightarrow> False)
      then Inr False
      else bounds_meet (fst lh) (snd lh) (neq c1) (neq c2))))))"

definition scopes_can_overlap :: "RuntimePolicy \<Rightarrow> RuntimePolicy \<Rightarrow> bool" where
  "scopes_can_overlap p1 p2 =
     (if principal (scope p1) \<noteq> principal (scope p2) then False
      else if action (scope p1) \<noteq> action (scope p2) then False
      else if agent (scope p1) \<noteq> None \<and> agent (scope p2) \<noteq> None \<and> agent (scope p1) \<noteq> agent (scope p2) then False
      else if resource (scope p1) \<noteq> None \<and> resource (scope p2) \<noteq> None
              \<and> resource (scope p1) \<noteq> resource (scope p2) then False
      else True)"

definition on_field :: "string \<Rightarrow> RuntimePolicy \<Rightarrow> Condition list" where
  "on_field f p = filter (\<lambda>c. field c = f) (all_of (conditions p))"

definition touched_fields :: "RuntimePolicy \<Rightarrow> RuntimePolicy \<Rightarrow> string list" where
  "touched_fields p1 p2 = remdups (map field (all_of (conditions p1)) @ map field (all_of (conditions p2)))"

definition field_overlap :: "RuntimePolicy \<Rightarrow> RuntimePolicy \<Rightarrow> string \<Rightarrow> py_error + bool" where
  "field_overlap p1 p2 f =
     rbind (build_field_constraint (on_field f p1)) (\<lambda>c1.
     rbind (build_field_constraint (on_field f p2)) (\<lambda>c2. fields_can_overlap c1 c2))"

fun all_fields_overlap :: "RuntimePolicy \<Rightarrow> RuntimePolicy \<Rightarrow> string list \<Rightarrow> py_error + bool" where
  "all_fields_overlap p1 p2 [] = Inr True"
| "all_fields_overlap p1 p2 (f # fs) =
     rbind (field_overlap p1 p2 f) (\<lambda>b. if b then all_fields_overlap p1 p2 fs else Inr False)"

definition policies_can_jointly_match ::
  "(string list \<Rightarrow> string list) \<Rightarrow> RuntimePolicy \<Rightarrow> RuntimePolicy \<Rightarrow> py_error + bool" where
  "policies_can_jointly_match ord p1 p2 =
     (if \<not> scopes_can_overlap p1 p2 then Inr False
      else all_fields_overlap p1 p2 (ord (touched_fields p1 p2)))"

section \<open>What a constraint admits\<close>

definition above :: "Bound \<Rightarrow> json \<Rightarrow> bool" where
  "above l v = (case l of None \<Rightarrow> True
     | Some (b, incl) \<Rightarrow> if incl then rego_key b \<le> rego_key v else rego_key b < rego_key v)"

definition below :: "Bound \<Rightarrow> json \<Rightarrow> bool" where
  "below h v = (case h of None \<Rightarrow> True
     | Some (b, incl) \<Rightarrow> if incl then rego_key v \<le> rego_key b else rego_key v < rego_key b)"

definition admits :: "FieldConstraint \<Rightarrow> json \<Rightarrow> bool" where
  "admits fc v =
     (above (lo fc) v \<and> below (hi fc) v
      \<and> (eq fc \<noteq> JNull \<longrightarrow> rego_key (eq fc) = rego_key v)
      \<and> (\<forall>n \<in> set (neq fc). rego_key n \<noteq> rego_key v)
      \<and> (\<forall>S. in_set fc = Some S \<longrightarrow> (\<exists>e \<in> set S. rego_key e = rego_key v)))"

definition bound_alike :: "bool \<Rightarrow> Bound \<Rightarrow> bool" where
  "bound_alike b x = (case x of None \<Rightarrow> True | Some (v, _) \<Rightarrow> alike b v)"

definition constraint_alike :: "bool \<Rightarrow> FieldConstraint \<Rightarrow> bool" where
  "constraint_alike b fc =
     (bound_alike b (lo fc) \<and> bound_alike b (hi fc) \<and> (eq fc = JNull \<or> alike b (eq fc))
      \<and> (\<forall>n \<in> set (neq fc). alike b n) \<and> (\<forall>S. in_set fc = Some S \<longrightarrow> list_all scalar S))"

text \<open>The values that a field is compared with, membership lists apart, are alike.\<close>

definition compared :: "Condition \<Rightarrow> bool" where
  "compared c = (operator c \<in> {LTE, LT, GTE, GT, EQ, NEQ})"

definition condition_alike :: "bool \<Rightarrow> Condition \<Rightarrow> bool" where
  "condition_alike b c = ((compared c \<longrightarrow> alike b (cvalue c)) \<and> (operator c = IN \<longrightarrow> (\<exists>xs. cvalue c = JList xs)))"

lemma tighter_lo_Some:
  assumes "tighter_lo (Some (av, ai)) (Some (bv, bi)) = Inr r" and "alike b av" and "alike b bv"
  shows "r = (if rego_key bv < rego_key av then Some (av, ai)
              else if rego_key av < rego_key bv then Some (bv, bi) else Some (av, ai \<and> bi))"
proof -
  from assms(1) obtain c where c: "py_lt bv av = Inr c"
    and d: "(if c then Inr (Some (av, ai)) else
      rbind (py_lt av bv) (\<lambda>g. if g then Inr (Some (bv, bi)) else Inr (Some (av, ai \<and> bi)))) = Inr r"
    by (auto simp: tighter_lo_def)
  have k: "c = (rego_key bv < rego_key av)" using py_lt_alike [OF assms(3,2) c] .
  show ?thesis
  proof (cases c)
    case False
    then obtain e where e: "py_lt av bv = Inr e" using d by (cases "py_lt av bv") auto
    with py_lt_alike [OF assms(2,3) e] d k False show ?thesis by (cases e) simp_all
  qed (use d k in auto)
qed

lemma tighter_hi_Some:
  assumes "tighter_hi (Some (av, ai)) (Some (bv, bi)) = Inr r" and "alike b av" and "alike b bv"
  shows "r = (if rego_key av < rego_key bv then Some (av, ai)
              else if rego_key bv < rego_key av then Some (bv, bi) else Some (av, ai \<and> bi))"
proof -
  from assms(1) obtain c where c: "py_lt av bv = Inr c"
    and d: "(if c then Inr (Some (av, ai)) else
      rbind (py_lt bv av) (\<lambda>g. if g then Inr (Some (bv, bi)) else Inr (Some (av, ai \<and> bi)))) = Inr r"
    by (auto simp: tighter_hi_def)
  have k: "c = (rego_key av < rego_key bv)" using py_lt_alike [OF assms(2,3) c] .
  show ?thesis
  proof (cases c)
    case False
    then obtain e where e: "py_lt bv av = Inr e" using d by (cases "py_lt bv av") auto
    with py_lt_alike [OF assms(3,2) e] d k False show ?thesis by (cases e) simp_all
  qed (use d k in auto)
qed

lemma tighter_None [simp]:
  "tighter_lo None y = Inr y" "tighter_lo x None = Inr x" "tighter_hi None y = Inr y" "tighter_hi x None = Inr x"
  by (cases x; auto simp: tighter_lo_def tighter_hi_def)+

lemma meet_above:
  fixes x y z :: "'a :: linorder"
  shows "x < y \<Longrightarrow> (if i then y \<le> z else y < z) \<longleftrightarrow> (if j then x \<le> z else x < z) \<and> (if i then y \<le> z else y < z)"
    and "x = y \<Longrightarrow> (if i \<and> j then x \<le> z else x < z) \<longleftrightarrow> (if i then x \<le> z else x < z) \<and> (if j then y \<le> z else y < z)"
  by auto

lemma meet_below:
  fixes x y z :: "'a :: linorder"
  shows "x < y \<Longrightarrow> (if i then z \<le> x else z < x) \<longleftrightarrow> (if j then z \<le> y else z < y) \<and> (if i then z \<le> x else z < x)"
    and "x = y \<Longrightarrow> (if i \<and> j then z \<le> x else z < x) \<longleftrightarrow> (if i then z \<le> x else z < x) \<and> (if j then z \<le> y else z < y)"
  by auto

lemma tighter_lo_above:
  assumes r: "tighter_lo x y = Inr r" and x: "bound_alike b x" and y: "bound_alike b y"
  shows "bound_alike b r \<and> (above r v \<longleftrightarrow> above x v \<and> above y v)"
proof (cases "\<exists>av ai bv bi. x = Some (av, ai) \<and> y = Some (bv, bi)")
  case True
  then obtain av ai bv bi where xy [simp]: "x = Some (av, ai)" "y = Some (bv, bi)" by blast
  have ab: "alike b av" "alike b bv" using x y by (simp_all add: bound_alike_def)
  note e = tighter_lo_Some [OF r [unfolded xy] ab]
  consider "rego_key bv < rego_key av" | "rego_key av < rego_key bv" | "rego_key av = rego_key bv"
    by (metis less_linear)
  then show ?thesis
    by cases (use e ab meet_above [where z = "rego_key v"] in \<open>auto simp: bound_alike_def above_def\<close>)
qed (use r x y in \<open>cases x; cases y; auto simp: above_def\<close>)

lemma tighter_hi_below:
  assumes r: "tighter_hi x y = Inr r" and x: "bound_alike b x" and y: "bound_alike b y"
  shows "bound_alike b r \<and> (below r v \<longleftrightarrow> below x v \<and> below y v)"
proof (cases "\<exists>av ai bv bi. x = Some (av, ai) \<and> y = Some (bv, bi)")
  case True
  then obtain av ai bv bi where xy [simp]: "x = Some (av, ai)" "y = Some (bv, bi)" by blast
  have ab: "alike b av" "alike b bv" using x y by (simp_all add: bound_alike_def)
  note e = tighter_hi_Some [OF r [unfolded xy] ab]
  consider "rego_key av < rego_key bv" | "rego_key bv < rego_key av" | "rego_key av = rego_key bv"
    by (metis less_linear)
  then show ?thesis
    by cases (use e ab meet_below [where z = "rego_key v"] in \<open>auto simp: bound_alike_def below_def\<close>)
qed (use r x y in \<open>cases x; cases y; auto simp: below_def\<close>)

section \<open>The verdict "cannot overlap" is a proof\<close>

lemma bound_alike_Some [simp]: "bound_alike b (Some (v, i)) = alike b v"
  by (simp add: bound_alike_def)

lemma above_below_Some [simp]:
  "above (Some (b, i)) v = (if i then rego_key b \<le> rego_key v else rego_key b < rego_key v)"
  "below (Some (b, i)) v = (if i then rego_key v \<le> rego_key b else rego_key v < rego_key b)"
  by (simp_all add: above_def below_def)

lemma in_filter_mem:
  assumes "e \<in> set S" and "rego_key e = k" and "scalar e" and "e' \<in> set xs" and "rego_key e' = k"
  shows "\<exists>x \<in> set (filter (\<lambda>x. py_mem x xs) S). rego_key x = k"
proof -
  have "py_eq e e'" using assms by (intro rego_key_py_eq) simp_all
  with assms have "py_mem e xs" by (auto simp: py_mem_def list_ex_iff)
  with assms show ?thesis by auto
qed

lemma constrain_in:
  assumes "constrain c fc = Inr fc'" and "operator c = IN" and "cvalue c = JList xs" and "constraint_alike b fc"
  shows "constraint_alike b fc' \<and> (inconclusive fc \<longrightarrow> inconclusive fc')
    \<and> (\<not> inconclusive fc' \<longrightarrow> admits fc v \<longrightarrow> list_ex (\<lambda>e. rego_eq e v) xs \<longrightarrow> admits fc' v)"
proof (cases "list_all hashable xs")
  case False
  then show ?thesis using assms by (auto simp: constrain_def frozenset_def constraint_alike_def)
next
  case True
  then have sc: "list_all scalar xs" by (simp add: hashable_scalar [abs_def])
  show ?thesis
  proof (cases "in_set fc")
    case None
    with assms True sc show ?thesis
      by (auto simp: constrain_def frozenset_def constraint_alike_def admits_def list_ex_iff list_all_iff rego_eq_scalar)
  next
    case (Some S)
    have "constraint_alike b fc'" "inconclusive fc' = inconclusive fc"
      using assms True Some by (auto simp: constrain_def frozenset_def constraint_alike_def list_all_iff)
    moreover have "admits fc' v" if ad: "admits fc v" and ex: "list_ex (\<lambda>e. rego_eq e v) xs"
    proof -
      have "list_all scalar S" using assms(4) Some by (simp add: constraint_alike_def)
      moreover obtain e where "e \<in> set S" "rego_key e = rego_key v"
        using ad Some by (auto simp: admits_def)
      moreover obtain e' where "e' \<in> set xs" "rego_key e' = rego_key v"
        using ex sc by (auto simp: list_ex_iff list_all_iff rego_eq_scalar)
      ultimately have "\<exists>x \<in> set (filter (\<lambda>x. py_mem x xs) S). rego_key x = rego_key v"
        using in_filter_mem [of e S "rego_key v" e' xs] by (auto simp: list_all_iff)
      moreover have "fc' = fc\<lparr>in_set := Some (filter (\<lambda>x. py_mem x xs) S)\<rparr>"
        using Some assms True by (simp add: constrain_def frozenset_def)
      ultimately show ?thesis using ad by (simp add: admits_def del: set_filter)
    qed
    ultimately show ?thesis by simp
  qed
qed

lemma constrain_admits:
  assumes c: "constrain c fc = Inr fc'" and ca: "condition_alike b c" and fa: "constraint_alike b fc"
  shows "constraint_alike b fc' \<and> (inconclusive fc \<longrightarrow> inconclusive fc')
    \<and> (\<not> inconclusive fc' \<longrightarrow> admits fc v \<longrightarrow> holds (operator c) (cvalue c) v \<longrightarrow> admits fc' v)"
proof (cases "compared c")
  case True
  then have al: "alike b (cvalue c)" using ca by (simp add: condition_alike_def)
  have sc: "scalar (cvalue c)" using al by (rule alike_scalar)
  have ba: "bound_alike b (lo fc)" "bound_alike b (hi fc)" using fa by (simp_all add: constraint_alike_def)
  have hi: "bound_alike b h \<and> (below h v \<longleftrightarrow> below (hi fc) v \<and> below (Some (cvalue c, i)) v)"
    if "tighter_hi (hi fc) (Some (cvalue c, i)) = Inr h" for h i
    using tighter_hi_below [OF that ba(2)] al by auto
  have lo: "bound_alike b l \<and> (above l v \<longleftrightarrow> above (lo fc) v \<and> above (Some (cvalue c, i)) v)"
    if "tighter_lo (lo fc) (Some (cvalue c, i)) = Inr l" for l i
    using tighter_lo_above [OF that ba(1)] al by auto
  show ?thesis
    using True c fa al sc hi lo
    by (cases "operator c")
      (auto simp: constrain_def compared_def constraint_alike_def admits_def rego_eq_scalar split: if_splits)
next
  case False
  then consider "operator c = IN" | "operator c = CONTAINS" | "operator c = EXISTS"
    by (cases "operator c") (auto simp: compared_def)
  then show ?thesis
  proof cases
    case 1
    then obtain xs where "cvalue c = JList xs" using ca by (auto simp: condition_alike_def)
    with constrain_in [OF c 1 _ fa] 1 show ?thesis by simp
  qed (use c fa in \<open>auto simp: constrain_def constraint_alike_def\<close>)
qed

lemma constrain_all_admits:
  assumes "constrain_all cs fc = Inr fc'" and "\<forall>c \<in> set cs. condition_alike b c" and "constraint_alike b fc"
  shows "constraint_alike b fc' \<and> (inconclusive fc \<longrightarrow> inconclusive fc')
    \<and> (\<not> inconclusive fc' \<longrightarrow> admits fc v \<longrightarrow> (\<forall>c \<in> set cs. holds (operator c) (cvalue c) v) \<longrightarrow> admits fc' v)"
  using assms
proof (induction cs arbitrary: fc)
  case (Cons c cs)
  then obtain fd where fd: "constrain c fc = Inr fd" "constrain_all cs fd = Inr fc'" by auto
  note step = constrain_admits [OF fd(1), of b v]
  show ?case using Cons.IH [OF fd(2)] step Cons.prems by auto
qed auto

lemma unconstrained_alike: "constraint_alike b unconstrained" "admits unconstrained v"
  by (simp_all add: unconstrained_def constraint_alike_def bound_alike_def admits_def above_def below_def)

lemma build_field_constraint_admits:
  assumes "build_field_constraint cs = Inr fc" and "\<forall>c \<in> set cs. condition_alike b c"
  shows "constraint_alike b fc \<and>
    (\<not> inconclusive fc \<longrightarrow> (\<forall>c \<in> set cs. holds (operator c) (cvalue c) v) \<longrightarrow> admits fc v)"
  using constrain_all_admits [OF assms(1) [unfolded build_field_constraint_def] assms(2) unconstrained_alike(1)]
    unconstrained_alike(2) by blast

lemma add_eq_between:
  assumes "add_eq e (l, h) = Inr (l', h')" and "bound_alike b l" and "bound_alike b h" and "e = JNull \<or> alike b e"
  shows "bound_alike b l' \<and> bound_alike b h'
    \<and> (above l v \<and> below h v \<and> (e \<noteq> JNull \<longrightarrow> rego_key e = rego_key v) \<longrightarrow> above l' v \<and> below h' v)"
proof (cases "e = JNull")
  case False
  then have e: "alike b e" "tighter_lo l (Some (e, True)) = Inr l'" "tighter_hi h (Some (e, True)) = Inr h'"
    using assms by (auto simp: add_eq_def)
  with False tighter_lo_above [OF e(2) assms(2)] tighter_hi_below [OF e(3) assms(3)] show ?thesis by auto
qed (use assms in \<open>simp add: add_eq_def\<close>)

lemma bounds_meet_False:
  assumes "bounds_meet l h N1 N2 = Inr False" and "bound_alike b l" and "bound_alike b h"
    and "\<forall>n \<in> set N1 \<union> set N2. alike b n"
  shows "\<not> (above l v \<and> below h v \<and> (\<forall>n \<in> set N1 \<union> set N2. rego_key n \<noteq> rego_key v))"
proof -
  from assms(1) obtain lv li hv hin where [simp]: "l = Some (lv, li)" "h = Some (hv, hin)"
    by (auto simp: bounds_meet_def split: option.splits)
  have al: "alike b lv" "alike b hv" using assms by simp_all
  from assms(1) obtain g where g: "py_lt hv lv = Inr g" by (auto simp: bounds_meet_def)
  show ?thesis
  proof (cases g)
    case True
    with py_lt_alike [OF al(2,1) g] show ?thesis by (auto split: if_splits)
  next
    case False
    with assms(1) g have e: "py_eq lv hv" by (auto simp: bounds_meet_def split: if_splits)
    then have k: "rego_key lv = rego_key hv" using py_eq_alike al by blast
    have "lv \<in> {x. py_mem x N1 \<or> py_mem x N2}" if "li" "hin"
      using assms(1) g False e that alike_scalar [OF al(1)]
      by (auto simp: bounds_meet_def py_in_def hashable_scalar split: if_splits)
    moreover have "\<exists>n \<in> set N1 \<union> set N2. rego_key n = rego_key lv" if "py_mem lv N1 \<or> py_mem lv N2"
      using that py_eq_alike [OF al(1)] assms(4) by (fastforce simp: py_mem_def list_ex_iff)
    ultimately show ?thesis using k by (auto split: if_splits)
  qed
qed

lemma in_sets_disjoint:
  assumes "\<not> list_ex (\<lambda>x. py_mem x S2) S1" and "list_all scalar S1"
  shows "\<not> ((\<exists>e \<in> set S1. rego_key e = k) \<and> (\<exists>e \<in> set S2. rego_key e = k))"
proof
  assume "(\<exists>e \<in> set S1. rego_key e = k) \<and> (\<exists>e \<in> set S2. rego_key e = k)"
  then obtain e e' where e: "e \<in> set S1" "e' \<in> set S2" "rego_key e = rego_key e'" by auto
  with assms(2) have "py_eq e e'" by (intro rego_key_py_eq) (auto simp: list_all_iff)
  with e assms(1) show False by (auto simp: list_ex_iff py_mem_def)
qed

lemma fields_can_overlap_False:
  assumes "fields_can_overlap c1 c2 = Inr False" and "constraint_alike b c1" and "constraint_alike b c2"
  shows "\<not> (admits c1 v \<and> admits c2 v)"
proof
  assume ad: "admits c1 v \<and> admits c2 v"
  have inc: "\<not> inconclusive c1" "\<not> inconclusive c2" using assms(1) by (auto simp: fields_can_overlap_def)
  from assms(1) inc obtain l h where lh: "tighter_lo (lo c1) (lo c2) = Inr l" "tighter_hi (hi c1) (hi c2) = Inr h"
    by (auto simp: fields_can_overlap_def)
  have eqs: "eq c1 = JNull \<or> alike b (eq c1)" "eq c2 = JNull \<or> alike b (eq c2)"
    using assms by (simp_all add: constraint_alike_def)
  have lhv: "bound_alike b l \<and> above l v" "bound_alike b h \<and> below h v"
    using tighter_lo_above [OF lh(1), of b v] tighter_hi_below [OF lh(2), of b v] assms ad
    by (simp_all add: constraint_alike_def admits_def)
  have "\<not> (eq c1 \<noteq> JNull \<and> eq c2 \<noteq> JNull \<and> \<not> py_eq (eq c1) (eq c2))"
    using ad eqs alike_scalar [of b] rego_key_py_eq [of "eq c1" "eq c2"] by (auto simp: admits_def)
  moreover have "\<not> (case (in_set c1, in_set c2) of (Some S1, Some S2) \<Rightarrow> \<not> list_ex (\<lambda>x. py_mem x S2) S1 | _ \<Rightarrow> False)"
  proof (cases "in_set c1"; cases "in_set c2")
    fix S1 S2 assume S: "in_set c1 = Some S1" "in_set c2 = Some S2"
    with ad have "(\<exists>e \<in> set S1. rego_key e = rego_key v) \<and> (\<exists>e \<in> set S2. rego_key e = rego_key v)"
      by (simp add: admits_def)
    moreover have "list_all scalar S1" using assms(2) S by (simp add: constraint_alike_def)
    ultimately show ?thesis using S in_sets_disjoint [of S2 S1 "rego_key v"] by auto
  qed simp_all
  ultimately obtain l1 h1 l2 h2 where e1: "add_eq (eq c1) (l, h) = Inr (l1, h1)"
      and e2: "add_eq (eq c2) (l1, h1) = Inr (l2, h2)" and m: "bounds_meet l2 h2 (neq c1) (neq c2) = Inr False"
    using assms(1) inc lh by (auto simp: fields_can_overlap_def split: if_splits)
  have b1: "bound_alike b l1 \<and> bound_alike b h1 \<and> above l1 v \<and> below h1 v"
    using add_eq_between [OF e1, of b v] lhv eqs ad by (simp add: admits_def)
  have b2: "bound_alike b l2 \<and> bound_alike b h2 \<and> above l2 v \<and> below h2 v"
    using add_eq_between [OF e2, of b v] b1 eqs ad by (simp add: admits_def)
  have "\<forall>n \<in> set (neq c1) \<union> set (neq c2). alike b n" using assms by (auto simp: constraint_alike_def)
  with bounds_meet_False [OF m, of b v] b2 ad show False by (auto simp: admits_def)
qed

text \<open>Every field of the two policies is compared with values of one kind.\<close>

definition uniform :: "RuntimePolicy \<Rightarrow> RuntimePolicy \<Rightarrow> bool" where
  "uniform p1 p2 = (\<forall>f \<in> set (touched_fields p1 p2).
     \<exists>b. list_all (condition_alike b) (on_field f p1 @ on_field f p2))"

lemma exists_inconclusive:
  assumes "constrain_all cs fc = Inr fc'" and "\<exists>c \<in> set cs. operator c = EXISTS \<or> inconclusive fc"
  shows "inconclusive fc'"
  using assms
proof (induction cs arbitrary: fc)
  case (Cons c cs)
  then obtain fd where fd: "constrain c fc = Inr fd" "constrain_all cs fd = Inr fc'" by auto
  have keep: "inconclusive fd" if "operator c = EXISTS \<or> inconclusive fc"
    using that fd(1) by (cases "operator c") (auto simp: constrain_def split: if_splits option.splits)
  have mono: "inconclusive fc'" if "inconclusive fd"
  proof (cases cs)
    case (Cons d ds)
    with that show ?thesis using Cons.IH [OF fd(2)] by auto
  qed (use fd that in simp)
  show ?case using Cons.prems(2) keep mono Cons.IH [OF fd(2)] by auto
qed simp

lemma field_overlap_False:
  assumes "field_overlap p1 p2 f = Inr False" and "list_all (condition_alike b) (on_field f p1 @ on_field f p2)"
    and "on_field f p1 @ on_field f p2 \<noteq> []"
  shows "\<not> (\<forall>c \<in> set (on_field f p1 @ on_field f p2). condition_holds c v)"
proof
  assume h: "\<forall>c \<in> set (on_field f p1 @ on_field f p2). condition_holds c v"
  from assms(1) obtain c1 c2 where c1: "build_field_constraint (on_field f p1) = Inr c1"
    and c2: "build_field_constraint (on_field f p2) = Inr c2" and o: "fields_can_overlap c1 c2 = Inr False"
    by (auto simp: field_overlap_def)
  have inc: "\<not> inconclusive c1" "\<not> inconclusive c2" using o by (auto simp: fields_can_overlap_def)
  have no_ex: "operator c \<noteq> EXISTS" if "c \<in> set (on_field f p1 @ on_field f p2)" for c
    using that inc exists_inconclusive c1 c2 by (auto simp: build_field_constraint_def)
  show False
  proof (cases v)
    case None
    from assms(3) obtain c where "c \<in> set (on_field f p1 @ on_field f p2)" by (cases "on_field f p1 @ on_field f p2") auto
    with h no_ex None show False by (auto simp: condition_holds_def)
  next
    case (Some w)
    have al: "\<forall>c \<in> set (on_field f p1). condition_alike b c" "\<forall>c \<in> set (on_field f p2). condition_alike b c"
      using assms(2) by (auto simp: list_all_iff)
    have hw: "\<forall>c \<in> set (on_field f p1). holds (operator c) (cvalue c) w" "\<forall>c \<in> set (on_field f p2). holds (operator c) (cvalue c) w"
      using h Some by (auto simp: condition_holds_def)
    show False
      using build_field_constraint_admits [OF c1 al(1), of w] build_field_constraint_admits [OF c2 al(2), of w]
        fields_can_overlap_False [OF o, of b w] inc hw by blast
  qed
qed

lemma all_fields_overlap_False:
  "all_fields_overlap p1 p2 fs = Inr False \<Longrightarrow> \<exists>f \<in> set fs. field_overlap p1 p2 f = Inr False"
  by (induction fs) (auto split: if_splits)

lemma scopes_disjoint:
  "\<not> scopes_can_overlap p1 p2 \<Longrightarrow> \<not> (scope_matches input (scope p1) \<and> scope_matches input (scope p2))"
  by (auto simp: scopes_can_overlap_def scope_matches_def split: if_splits option.splits)

lemma on_field_touched: "f \<in> set (touched_fields p1 p2) \<Longrightarrow> on_field f p1 @ on_field f p2 \<noteq> []"
  by (auto simp: touched_fields_def on_field_def filter_empty_conv)

lemma jointly_match_False:
  assumes "policies_can_jointly_match ord p1 p2 = Inr False" and "\<And>xs. set (ord xs) = set xs" and "uniform p1 p2"
  shows "\<not> (policy_matches input p1 \<and> policy_matches input p2)"
proof (cases "scopes_can_overlap p1 p2")
  case True
  with assms(1) obtain f where f: "f \<in> set (ord (touched_fields p1 p2))" "field_overlap p1 p2 f = Inr False"
    by (auto simp: policies_can_jointly_match_def dest: all_fields_overlap_False)
  then have t: "f \<in> set (touched_fields p1 p2)" by (simp add: assms(2))
  with assms(3) obtain b where b: "list_all (condition_alike b) (on_field f p1 @ on_field f p2)"
    by (auto simp: uniform_def)
  have "\<forall>c \<in> set (on_field f p1 @ on_field f p2). condition_holds c (field_value input f)"
    if "policy_matches input p1" "policy_matches input p2"
    using that by (auto simp: policy_matches_def on_field_def)
  with field_overlap_False [OF f(2) b on_field_touched [OF t]] show ?thesis by blast
qed (auto simp: policy_matches_def dest: scopes_disjoint)

end
