(* ===== verification/Base64.thy ===== *)
theory Base64
  imports Prelude
begin

text \<open>
  Python's \<open>base64.b64encode\<close> and \<open>base64.b64decode\<close> (without \<open>validate\<close>) on bytes,
  a byte being a \<open>char\<close>. The decoder is CPython's state machine: \<open>q\<close> is the position in
  the current group of four, \<open>l\<close> the bits left over, \<open>p\<close> the pad characters seen;
  characters outside the alphabet are skipped, and \<open>None\<close> is \<open>binascii.Error\<close>
  (a \<open>ValueError\<close>).
\<close>

definition b64_char :: "nat \<Rightarrow> char" where
  "b64_char n = char_of (if n < 26 then 65 + n else if n < 52 then 71 + n
     else if n < 62 then n - 4 else if n = 62 then 43 else 47)"

definition b64_val :: "char \<Rightarrow> nat option" where
  "b64_val c = (let n = of_char c :: nat in
     if 65 \<le> n \<and> n \<le> 90 then Some (n - 65)
     else if 97 \<le> n \<and> n \<le> 122 then Some (n - 71)
     else if 48 \<le> n \<and> n \<le> 57 then Some (n + 4)
     else if n = 43 then Some 62 else if n = 47 then Some 63 else None)"

definition byte_val :: "char \<Rightarrow> nat" where
  "byte_val c = of_char c"

fun b64encode :: "string \<Rightarrow> string" where
  "b64encode [] = []"
| "b64encode [a] = [b64_char (byte_val a div 4), b64_char ((byte_val a mod 4) * 16), CHR ''='', CHR ''='']"
| "b64encode [a, b] =
     [b64_char (byte_val a div 4), b64_char ((byte_val a mod 4) * 16 + byte_val b div 16),
      b64_char ((byte_val b mod 16) * 4), CHR ''='']"
| "b64encode (a # b # c # r) =
     [b64_char (byte_val a div 4), b64_char ((byte_val a mod 4) * 16 + byte_val b div 16),
      b64_char ((byte_val b mod 16) * 4 + byte_val c div 64), b64_char (byte_val c mod 64)] @ b64encode r"

fun b64_scan :: "string \<Rightarrow> nat \<Rightarrow> nat \<Rightarrow> nat \<Rightarrow> string option" where
  "b64_scan [] q l p = (if q = 0 then Some [] else None)"
| "b64_scan (c # cs) q l p =
     (if c = CHR ''='' then
        (if 2 \<le> q \<and> 4 \<le> q + Suc p then Some []
         else b64_scan cs q l (if 2 \<le> q then Suc p else p))
      else case b64_val c of
        None \<Rightarrow> b64_scan cs q l p
      | Some v \<Rightarrow>
          (if q = 0 then b64_scan cs 1 v 0
           else if q = 1 then map_option (Cons (char_of (l * 4 + v div 16))) (b64_scan cs 2 (v mod 16) 0)
           else if q = 2 then map_option (Cons (char_of (l * 16 + v div 4))) (b64_scan cs 3 (v mod 4) 0)
           else map_option (Cons (char_of (l * 64 + v))) (b64_scan cs 0 0 0)))"

definition b64decode :: "string \<Rightarrow> string option" where
  "b64decode s = b64_scan s 0 0 0"

section \<open>Decoding what was encoded\<close>

lemma of_char_b64_char:
  "n < 64 \<Longrightarrow> (of_char (b64_char n) :: nat) =
     (if n < 26 then 65 + n else if n < 52 then 71 + n
      else if n < 62 then n - 4 else if n = 62 then 43 else 47)"
  by (simp add: b64_char_def)

lemma b64_val_b64_char [simp]: "n < 64 \<Longrightarrow> b64_val (b64_char n) = Some n"
  by (auto simp: b64_val_def of_char_b64_char Let_def)

lemma b64_char_not_pad [simp]: "n < 64 \<Longrightarrow> b64_char n \<noteq> CHR ''=''"
  using of_char_b64_char [of n] by (auto split: if_splits)

lemma byte_val_less [simp]: "byte_val c < 256"
  by (simp add: byte_val_def)

lemma char_of_byte_val [simp]: "char_of (byte_val c) = c"
  by (simp add: byte_val_def)

lemma byte_val_parts [simp]:
  "byte_val a div 4 * 4 + byte_val a mod 4 = byte_val a"
  "byte_val b div 16 * 16 + byte_val b mod 16 = byte_val b"
  by simp_all

lemma byte_val_div [simp]:
  "byte_val a div 4 < 64" "byte_val b div 16 < 16" "byte_val c div 64 < 4"
  using byte_val_less [of a] byte_val_less [of b] byte_val_less [of c]
  by linarith+

lemma byte_val_div_mod [simp]:
  "byte_val b div 16 mod 16 = byte_val b div 16" "byte_val c div 64 mod 4 = byte_val c div 64"
  by (simp_all only: mod_less byte_val_div)

lemma sextet_bounds [simp]:
  "byte_val a mod 4 * 16 < 64" "byte_val b mod 16 * 4 < 64"
  "byte_val a mod 4 * 16 + byte_val b div 16 < 64"
  "byte_val b mod 16 * 4 + byte_val c div 64 < 64"
proof -
  have "byte_val a mod 4 < 4" "byte_val b mod 16 < 16" by simp_all
  with byte_val_div(2) [of b] byte_val_div(3) [of c]
  show "byte_val a mod 4 * 16 < 64" "byte_val b mod 16 * 4 < 64"
    "byte_val a mod 4 * 16 + byte_val b div 16 < 64"
    "byte_val b mod 16 * 4 + byte_val c div 64 < 64" by linarith+
qed

lemma sextet_parts [simp]:
  "(byte_val a mod 4 * 16 + byte_val b div 16) div 16 = byte_val a mod 4"
  "(byte_val a mod 4 * 16 + byte_val b div 16) mod 16 = byte_val b div 16"
  "(byte_val b mod 16 * 4 + byte_val c div 64) div 4 = byte_val b mod 16"
  "(byte_val b mod 16 * 4 + byte_val c div 64) mod 4 = byte_val c div 64"
  "byte_val c div 64 * 64 + byte_val c mod 64 = byte_val c"
proof -
  show "(byte_val a mod 4 * 16 + byte_val b div 16) div 16 = byte_val a mod 4"
    "(byte_val a mod 4 * 16 + byte_val b div 16) mod 16 = byte_val b div 16"
    "(byte_val b mod 16 * 4 + byte_val c div 64) div 4 = byte_val b mod 16"
    "(byte_val b mod 16 * 4 + byte_val c div 64) mod 4 = byte_val c div 64"
    by simp_all
qed simp

lemma b64decode_b64encode [simp]: "b64decode (b64encode s) = Some s"
proof -
  have "b64_scan (b64encode s) 0 0 0 = Some s"
    by (induction s rule: b64encode.induct) simp_all
  then show ?thesis by (simp add: b64decode_def)
qed

end
