(* ===== verification/Evidence_Signing.thy ===== *)
theory Evidence_Signing
  imports Json Base64
begin

text \<open>
  \<^verbatim>\<open>server/app/domain/evidence/signing.py\<close>: canonical serialization, payload hashing, and
  ED25519 signing of Evidence payloads.

  SHA-256 and the ED25519 operations of PyNaCl are parameters of the model, the fields of
  \<open>crypto\<close>: the digest, the public key of a signing seed (\<open>None\<close> when
  \<open>SigningKey\<close> refuses the seed), the signature of a message under a seed, and the check of a
  signature under a public key (\<open>False\<close> where PyNaCl raises, all of which
  \<open>verify_payload\<close> catches). What the code relies on is the hypothesis
  \<open>ed25519_correct\<close>: a signature made with a seed is accepted under its public key. No
  theorem assumes that the digest has no collision; where tampering is in question, the
  conclusion names the two payloads that would have to collide.
\<close>

record crypto =
  sha256 :: "string \<Rightarrow> string"
  ed_public :: "string \<Rightarrow> string option"
  ed_sign :: "string \<Rightarrow> string \<Rightarrow> string"
  ed_verify :: "string \<Rightarrow> string \<Rightarrow> string \<Rightarrow> bool"

definition ed25519_correct :: "crypto \<Rightarrow> bool" where
  "ed25519_correct C =
     (\<forall>seed vk m. ed_public C seed = Some vk \<longrightarrow> ed_verify C vk m (ed_sign C seed m))"

definition hexlify :: "string \<Rightarrow> string" where
  "hexlify s = concat (map (\<lambda>c. [hex_char (of_char c div 16), hex_char (of_char c mod 16)]) s)"

definition canonicalize :: "json \<Rightarrow> string" where
  "canonicalize payload = dumps payload"

definition payload_hash :: "crypto \<Rightarrow> json \<Rightarrow> string" where
  "payload_hash C payload = hexlify (sha256 C (canonicalize payload))"

record Signature =
  algorithm :: string
  sig_key_id :: string
  sig_value :: string

text \<open>\<open>None\<close>: the key does not decode, or \<open>SigningKey\<close> refuses it.\<close>

definition sign_payload :: "crypto \<Rightarrow> json \<Rightarrow> string \<Rightarrow> string \<Rightarrow> Signature option" where
  "sign_payload C payload signing_key_b64 key_id =
     Option.bind (b64decode signing_key_b64) (\<lambda>seed.
     Option.bind (ed_public C seed) (\<lambda>_.
       let digest = sha256 C (canonicalize payload)
       in Some \<lparr>algorithm = ''ed25519'', sig_key_id = key_id, sig_value = b64encode (ed_sign C seed digest)\<rparr>))"

definition verify_payload :: "crypto \<Rightarrow> json \<Rightarrow> Signature \<Rightarrow> string \<Rightarrow> bool" where
  "verify_payload C payload signature public_key_b64 =
     (case b64decode public_key_b64 of
        None \<Rightarrow> False
      | Some vk \<Rightarrow>
          (let digest = sha256 C (canonicalize payload)
           in case b64decode (sig_value signature) of
                None \<Rightarrow> False
              | Some s \<Rightarrow> ed_verify C vk digest s))"

definition public_key_b64_from_signing_key_b64 :: "crypto \<Rightarrow> string \<Rightarrow> string option" where
  "public_key_b64_from_signing_key_b64 C signing_key_b64 =
     Option.bind (b64decode signing_key_b64) (\<lambda>seed. map_option b64encode (ed_public C seed))"

section \<open>Properties\<close>

lemma hexlify_inject: "hexlify s = hexlify t \<longleftrightarrow> s = t"
proof
  assume eq: "hexlify s = hexlify t"
  have pair: "c = d" if "hex_char (of_char c div 16) = hex_char (of_char d div 16)"
      "hex_char (of_char c mod 16) = hex_char (of_char d mod 16)" for c d :: char
  proof -
    have "hex_val (hex_char (of_char x div 16)) = Some (of_char x div 16)"
      "hex_val (hex_char (of_char x mod 16)) = Some (of_char x mod 16)" for x :: char
      using of_char_less_256 [of x] by (simp_all add: hex_val_hex_char less_mult_imp_div_less)
    with that have "(of_char c :: nat) div 16 = of_char d div 16" "(of_char c :: nat) mod 16 = of_char d mod 16"
      by (metis option.inject)+
    then have "(of_char c :: nat) = of_char d" by (metis div_mult_mod_eq)
    then show ?thesis by simp
  qed
  from eq show "s = t"
  proof (induction s arbitrary: t)
    case Nil
    then show ?case by (cases t) (auto simp: hexlify_def)
  next
    case (Cons c s)
    then obtain d u where t: "t = d # u" by (cases t) (auto simp: hexlify_def)
    with Cons.prems have "c = d" "hexlify s = hexlify u"
      by (auto simp: hexlify_def intro: pair)
    with Cons.IH t show ?case by simp
  qed
qed simp

lemma canonicalize_inject:
  "plain_json p \<Longrightarrow> plain_json q \<Longrightarrow> canonicalize p = canonicalize q \<longleftrightarrow> sort_keys p = sort_keys q"
  by (simp add: canonicalize_def dumps_inject)

text \<open>The two digests that an equal hash of different payloads exhibits as a collision.\<close>

definition sha_collision :: "crypto \<Rightarrow> json \<Rightarrow> json \<Rightarrow> bool" where
  "sha_collision C p q =
     (canonicalize p \<noteq> canonicalize q \<and> sha256 C (canonicalize p) = sha256 C (canonicalize q))"

lemma payload_hash_eqD:
  assumes "payload_hash C p = payload_hash C q" and "plain_json p" and "plain_json q"
  shows "sort_keys p = sort_keys q \<or> sha_collision C p q"
  using assms by (auto simp: payload_hash_def hexlify_inject sha_collision_def canonicalize_inject)

lemma verify_sign_payload:
  assumes "ed25519_correct C"
    and "sign_payload C p k kid = Some sig" and "public_key_b64_from_signing_key_b64 C k = Some pk"
  shows "verify_payload C p sig pk"
  using assms
  by (auto simp: sign_payload_def public_key_b64_from_signing_key_b64_def verify_payload_def
      ed25519_correct_def Let_def split: option.splits bind_splits)

lemma sign_payload_key_id: "sign_payload C p k kid = Some sig \<Longrightarrow> sig_key_id sig = kid"
  by (auto simp: sign_payload_def Let_def split: bind_splits)

lemma sign_payload_Some_iff:
  "(\<exists>sig. sign_payload C p k kid = Some sig) \<longleftrightarrow> (\<exists>pk. public_key_b64_from_signing_key_b64 C k = Some pk)"
  by (auto simp: sign_payload_def public_key_b64_from_signing_key_b64_def split: bind_splits)

lemma verify_payload_sort_keys:
  "sort_keys p = sort_keys q \<Longrightarrow> verify_payload C p sig pk = verify_payload C q sig pk"
proof -
  assume "sort_keys p = sort_keys q"
  then have "canonicalize p = canonicalize q" by (simp add: canonicalize_def dumps_def)
  then show ?thesis by (simp add: verify_payload_def Let_def split: option.split)
qed

text \<open>A concrete instance, used by witnesses: the digest is the text itself and a signature under a
  key is the key followed by the message.\<close>

definition plain_crypto :: crypto where
  "plain_crypto = \<lparr>sha256 = id, ed_public = (\<lambda>s. Some s), ed_sign = (\<lambda>s m. s @ m),
     ed_verify = (\<lambda>k m s. s = k @ m)\<rparr>"

lemma plain_crypto_correct: "ed25519_correct plain_crypto"
  by (simp add: ed25519_correct_def plain_crypto_def)

section \<open>Claims\<close>

text \<open>Evidence signatures. A payload signed with a key verifies under that key's public key, also
  after its keys were reordered; the signature names the key it was made with; and a payload that has
  the hash of another one either is that payload up to the order of keys or exhibits a collision of
  the digest. Payloads hold no float and no repeated key.\<close>

theorem evidence_signature_sound:
  assumes "ed25519_correct C"
    and "sign_payload C p k kid = Some sig" and "public_key_b64_from_signing_key_b64 C k = Some pk"
    and "plain_json p" and "plain_json q"
  shows "(sort_keys q = sort_keys p \<longrightarrow> verify_payload C q sig pk)
    \<and> sig_key_id sig = kid
    \<and> (payload_hash C q = payload_hash C p \<longrightarrow> sort_keys q = sort_keys p \<or> sha_collision C q p)"
  using assms verify_sign_payload [OF assms(1-3)] verify_payload_sort_keys [of q p C sig pk]
    sign_payload_key_id payload_hash_eqD
  by auto

theorem evidence_signature_sound_witness:
  "\<exists>sig. sign_payload plain_crypto (JObj [(''b'', JInt 1), (''a'', JNull)]) ''QUJD'' ''k1'' = Some sig
     \<and> verify_payload plain_crypto (JObj [(''a'', JNull), (''b'', JInt 1)]) sig ''QUJD'' \<and> sig_key_id sig = ''k1''"
proof -
  let ?p = "JObj [(''b'', JInt 1), (''a'', JNull)]" and ?q = "JObj [(''a'', JNull), (''b'', JInt 1)]"
  have pk: "public_key_b64_from_signing_key_b64 plain_crypto ''QUJD'' = Some ''QUJD''" by code_simp
  then obtain sig where s: "sign_payload plain_crypto ?p ''QUJD'' ''k1'' = Some sig"
    using sign_payload_Some_iff by blast
  have "plain_json ?p" "plain_json ?q" "sort_keys ?q = sort_keys ?p" by simp_all
  with evidence_signature_sound [OF plain_crypto_correct s pk] s show ?thesis by blast
qed

end
