(* ===== verification/Compiler_V2.thy ===== *)
theory Compiler_V2
  imports Scope_Overlap Policy_Schema Evidence_Signing
begin

text \<open>
  \<^verbatim>\<open>server/app/domain/compiler_v2\<close>: from a list of policies to one Rego module
  (\<open>rego_generator.py\<close>, \<open>bundle_builder.py\<close>) behind the checks of
  \<open>compiler_v2.py\<close> (\<open>compiler_errors.py\<close> has the diagnostics), and the fixed action
  vocabulary of \<^verbatim>\<open>domain/decision/scope_vocabulary.py\<close>.

  The generated Rego is text here as in the code. What the text means to OPA is the specification in
  \<open>Policy_Semantics\<close>.
\<close>

abbreviation nl :: string where "nl \<equiv> [char_of (10 :: nat)]"
abbreviation sq :: string where "sq \<equiv> [char_of (39 :: nat)]"

section \<open>rego_generator.py\<close>

definition is_safe_char :: "char \<Rightarrow> bool" where
  "is_safe_char c = (let n = (of_char c :: nat) in
     (97 \<le> n \<and> n \<le> 122) \<or> (65 \<le> n \<and> n \<le> 90) \<or> (48 \<le> n \<and> n \<le> 57) \<or> n = 95)"

definition sanitize_policy_id :: "string \<Rightarrow> string" where
  "sanitize_policy_id policy_id =
     (let safe = map (\<lambda>c. if is_safe_char c then c else CHR ''_'') policy_id
      in if safe = [] \<or> is_digit (hd safe) then ''p_'' @ safe else safe)"

definition rule_name_for_policy :: "string \<Rightarrow> string" where
  "rule_name_for_policy policy_id = ''policy_'' @ sanitize_policy_id policy_id"

definition rego_literal :: "json \<Rightarrow> string" where
  "rego_literal v = dumps_plain v"

definition dot_path_access :: "string \<Rightarrow> string \<Rightarrow> string" where
  "dot_path_access base fp = base @ ''.'' @ fp"

fun nested_get :: "string \<Rightarrow> string list \<Rightarrow> string" where
  "nested_get expr [] = expr"
| "nested_get expr (part # parts) =
     nested_get (''object.get('' @ expr @ '', '' @ dumps_plain (JStr part) @ '', ''
                 @ (if parts = [] then ''null'' else ''{}'') @ '')'') parts"

definition nested_object_get :: "string \<Rightarrow> string \<Rightarrow> string" where
  "nested_object_get base fp = nested_get base (split_on CHR ''.'' fp)"

definition resolve_base_and_field :: "string \<Rightarrow> string \<Rightarrow> string \<times> string" where
  "resolve_base_and_field condition_field default_base =
     (if startswith condition_field ''context.'' then (''input.context'', drop 8 condition_field)
      else if startswith condition_field ''enterprise_knowledge.''
      then (''input.enterprise_knowledge'', drop 21 condition_field)
      else (default_base, condition_field))"

definition generate_condition_expression :: "Condition \<Rightarrow> string \<Rightarrow> py_error + string" where
  "generate_condition_expression c base =
     (let (rb, rf) = resolve_base_and_field (field c) base; access = dot_path_access rb rf;
          lit = rego_literal (cvalue c)
      in case operator c of
        LTE \<Rightarrow> Inr (access @ '' <= '' @ lit)
      | GTE \<Rightarrow> Inr (access @ '' >= '' @ lit)
      | EQ \<Rightarrow> Inr (access @ '' == '' @ lit)
      | NEQ \<Rightarrow> Inr (access @ '' != '' @ lit)
      | LT \<Rightarrow> Inr (access @ '' < '' @ lit)
      | GT \<Rightarrow> Inr (access @ '' > '' @ lit)
      | IN \<Rightarrow> Inr (access @ '' in '' @ lit)
      | CONTAINS \<Rightarrow> Inr (''contains('' @ access @ '', '' @ lit @ '')'')
      | EXISTS \<Rightarrow>
          (case cvalue c of
             JBool b \<Rightarrow> Inr (nested_object_get rb rf @ (if b then '' != null'' else '' == null''))
           | _ \<Rightarrow> Inl ValueError))"

definition generate_conditions_block :: "ConditionSet \<Rightarrow> py_error + string list" where
  "generate_conditions_block cs = rmapM (\<lambda>c. generate_condition_expression c ''input.intent'') (all_of cs)"

definition generate_scope_block :: "RuntimePolicy \<Rightarrow> string list" where
  "generate_scope_block policy =
     [''input.intent.action == '' @ rego_literal (JStr (action (scope policy))),
      ''input.agent.acting_for_principal_id == '' @ rego_literal (JStr (principal (scope policy)))]
   @ (case agent (scope policy) of None \<Rightarrow> []
      | Some a \<Rightarrow> [''input.agent.id == '' @ rego_literal (JStr a)])
   @ (case resource (scope policy) of None \<Rightarrow> []
      | Some r \<Rightarrow> [''input.intent.resource == '' @ rego_literal (JStr r)])"

definition generate_policy_rule :: "RuntimePolicy \<Rightarrow> py_error + string" where
  "generate_policy_rule policy =
     rbind (generate_conditions_block (conditions policy)) (\<lambda>cs.
       let body_lines = generate_scope_block policy @ cs;
           indented = join nl (map (\<lambda>l. ''    '' @ l) body_lines)
       in Inr (rule_name_for_policy (rp_id policy) @ '' if {'' @ nl @ indented @ nl @ ''}''))"

fun effect_rule_name :: "Effect \<Rightarrow> string" where
  "effect_rule_name ALLOW = ''allow''"
| "effect_rule_name DENY = ''deny''"
| "effect_rule_name REQUIRE_HUMAN_REVIEW = ''requires_review''"

section \<open>bundle_builder.py\<close>

definition COMPILER_VERSION :: string where "COMPILER_VERSION = ''2.0.0''"

text \<open>The pattern \<^verbatim>\<open>^package\s+\S+\<close> at the start of a line: what follows the match.\<close>

definition match_package :: "string \<Rightarrow> string option" where
  "match_package s =
     (if startswith s ''package'' then
        (let r = drop 7 s; r' = dropWhile is_space r
         in if takeWhile is_space r = [] \<or> r' = [] then None
            else Some (dropWhile (\<lambda>c. \<not> is_space c) r'))
      else None)"

fun sub_package :: "bool \<Rightarrow> string \<Rightarrow> string \<Rightarrow> string option" where
  "sub_package line_start s replacement =
     (case (if line_start then match_package s else None) of
        Some rest \<Rightarrow> Some (replacement @ rest)
      | None \<Rightarrow> (case s of
          [] \<Rightarrow> None
        | c # cs \<Rightarrow> map_option (Cons c) (sub_package (c = char_of (10 :: nat)) cs replacement)))"

text \<open>\<open>None\<close>: \<open>PackageRetargetError\<close>. A package path holds no backslash.\<close>

definition retarget_package :: "string \<Rightarrow> string \<Rightarrow> string option" where
  "retarget_package rego_source package_path = sub_package True rego_source (''package '' @ package_path)"

record PolicyBundle =
  bundle_id :: string
  bundle_version :: int
  runtime_policy_ids :: "string list"
  compiler_version :: string
  bundle_hash :: string
  rego_source :: string
  manifest :: json

definition canonical_bytes :: "string \<Rightarrow> json \<Rightarrow> string" where
  "canonical_bytes rego mani = dumps (JObj [(''rego'', JStr rego), (''manifest'', mani)])"

definition aggregate_lines :: "RuntimePolicy list \<Rightarrow> string list" where
  "aggregate_lines policies =
     concat (map (\<lambda>outcome.
       map (\<lambda>p. outcome @ '' if { '' @ rule_name_for_policy (rp_id p) @ '' }'')
         (filter (\<lambda>p. effect_rule_name (effect p) = outcome) policies))
       [''allow'', ''deny'', ''requires_review''])"

definition evaluated_lines :: "RuntimePolicy list \<Rightarrow> string list" where
  "evaluated_lines policies =
     map (\<lambda>p. ''evaluated_mandates contains '' @ dumps_plain (JStr (rp_id p)) @ '' if { ''
              @ rule_name_for_policy (rp_id p) @ '' }'') policies"

definition reason_lines :: "RuntimePolicy list \<Rightarrow> string list" where
  "reason_lines policies = concat (map (\<lambda>p.
     let rn = rule_name_for_policy (rp_id p); r = dumps_plain (JStr (''policy_matched:'' @ rp_id p)) in
     (case effect p of
        REQUIRE_HUMAN_REVIEW \<Rightarrow> [''review_reason := '' @ r @ '' if { '' @ rn @ '' }'']
      | DENY \<Rightarrow> [''deny_reason := '' @ r @ '' if { '' @ rn @ '' }'']
      | ALLOW \<Rightarrow> [])) policies)"

definition fallback_lines :: "string list" where
  "fallback_lines = [
     ''deny if { count(evaluated_mandates) == 0 }'',
     ''deny_reason := '' @ quote ''no_policy_covers_scope'' @ '' if { count(evaluated_mandates) == 0 }'']"

definition or_comment :: "string \<Rightarrow> string list \<Rightarrow> string \<Rightarrow> string" where
  "or_comment sep ls comment = (if ls = [] then comment else join sep ls)"

definition bundle_rego :: "RuntimePolicy list \<Rightarrow> string list \<Rightarrow> string" where
  "bundle_rego policies policy_rules = join (nl @ nl) [
     ''package payreality.authorization'',
     join nl [''default allow := false'', ''default deny := false'', ''default requires_review := false''],
     or_comment (nl @ nl) policy_rules ''# no RuntimePolicies in this bundle'',
     or_comment nl (aggregate_lines policies) ''# no effect rules to aggregate'',
     or_comment nl (evaluated_lines policies) ''# no policies evaluated'',
     or_comment nl (reason_lines policies) ''# no deny/review reasons declared'',
     join nl fallback_lines]"

definition manifest_source :: "Metadata \<Rightarrow> (string \<times> json) list" where
  "manifest_source m =
     (if truthy (opt_str (source_type m)) then
        [(''source'', JObj [
           (''type'', opt_str (source_type m)),
           (''corpus_id'', opt_str (source_corpus_id m)),
           (''graph_approval_id'', opt_str (source_graph_approval_id m)),
           (''graph_version'', opt_int (source_graph_version m)),
           (''candidate_id'', opt_str (source_candidate_id m))])]
      else [])"

definition manifest_policy :: "RuntimePolicy \<Rightarrow> json" where
  "manifest_policy p = JObj ([
     (''id'', JStr (rp_id p)), (''name'', JStr (rp_name p)), (''version'', JInt (version p)),
     (''effect'', JStr (Effect_value (effect p))),
     (''scope'', JObj [
        (''principal'', JStr (principal (scope p))), (''action'', JStr (action (scope p))),
        (''agent'', opt_str (agent (scope p))), (''resource'', opt_str (resource (scope p)))])]
     @ manifest_source (metadata p))"

definition bundle_manifest :: "RuntimePolicy list \<Rightarrow> string \<Rightarrow> int \<Rightarrow> datetime \<Rightarrow> (string \<times> json) list" where
  "bundle_manifest policies bid bversion now = [
     (''bundle_id'', JStr bid), (''version'', JInt bversion), (''compiler_version'', JStr COMPILER_VERSION),
     (''compiled_at'', JStr (isoformat now)), (''policies'', JList (map manifest_policy policies))]"

definition build_bundle ::
  "crypto \<Rightarrow> RuntimePolicy list \<Rightarrow> string \<Rightarrow> int \<Rightarrow> datetime \<Rightarrow> py_error + PolicyBundle" where
  "build_bundle C policies bid bversion now =
     rbind (rmapM generate_policy_rule policies) (\<lambda>policy_rules.
       let rego = bundle_rego policies policy_rules;
           mani = bundle_manifest policies bid bversion now;
           hashable_manifest = filter (\<lambda>kv. fst kv \<noteq> ''compiled_at'') mani;
           h = ''sha256:'' @ hexlify (sha256 C (canonical_bytes rego (JObj hashable_manifest)))
       in Inr \<lparr>bundle_id = bid, bundle_version = bversion, runtime_policy_ids = map rp_id policies,
                compiler_version = COMPILER_VERSION, bundle_hash = h, rego_source = rego,
                manifest = JObj mani\<rparr>)"

section \<open>compiler_v2.py\<close>

definition KNOWN_SCOPES :: "string list" where
  "KNOWN_SCOPES = [''vendor_payment'', ''purchase_order_create'', ''wire_transfer'']"

definition GENERALIZATION_PROOF_SCOPES :: "string list" where
  "GENERALIZATION_PROOF_SCOPES = [''disable_user'', ''supplier_bank_details_change'']"

definition is_recognized_scope :: "string \<Rightarrow> string list \<Rightarrow> bool" where
  "is_recognized_scope a active_scope_actions =
     (List.member KNOWN_SCOPES a \<or> List.member active_scope_actions a)"

record Vocabulary =
  known_actions :: "string list"
  known_intent_fields :: "string list"

definition FINANCIAL_VOCABULARY :: Vocabulary where
  "FINANCIAL_VOCABULARY = \<lparr>known_actions = KNOWN_SCOPES,
     known_intent_fields = [''action'', ''amount'', ''currency'', ''resource'']\<rparr>"

definition GENERIC_VOCABULARY :: Vocabulary where
  "GENERIC_VOCABULARY = \<lparr>known_actions = KNOWN_SCOPES @ GENERALIZATION_PROOF_SCOPES,
     known_intent_fields = [''action'', ''amount'', ''currency'', ''resource'']\<rparr>"

definition is_valid_action :: "Vocabulary \<Rightarrow> string \<Rightarrow> bool" where
  "is_valid_action V a = List.member (known_actions V) a"

definition is_valid_field :: "Vocabulary \<Rightarrow> string \<Rightarrow> bool" where
  "is_valid_field V f =
     (if startswith f ''context.'' \<or> startswith f ''enterprise_knowledge.'' then True
      else List.member (known_intent_fields V) (hd (split_on CHR ''.'' f)))"

record CompilerError =
  ce_code :: string
  ce_message :: string
  ce_policy_id :: "string option"
  ce_path :: "string option"

definition validate_policy_against_vocabulary :: "RuntimePolicy \<Rightarrow> Vocabulary \<Rightarrow> CompilerError list" where
  "validate_policy_against_vocabulary p V =
     (if \<not> is_valid_action V (action (scope p))
      then [\<lparr>ce_code = ''INVALID_ACTION'',
             ce_message = sq @ action (scope p) @ sq @ '' is not a recognized action for this domain'',
             ce_policy_id = Some (rp_id p), ce_path = Some ''scope.action''\<rparr>] else [])
   @ (case resource (scope p) of None \<Rightarrow> []
      | Some r \<Rightarrow> if is_blank r
          then [\<lparr>ce_code = ''INVALID_RESOURCE'', ce_message = ''scope.resource, if present, must not be blank'',
                 ce_policy_id = Some (rp_id p), ce_path = Some ''scope.resource''\<rparr>] else [])
   @ concat (map (\<lambda>c. if \<not> is_valid_field V (field c)
        then [\<lparr>ce_code = ''INVALID_FIELD'',
               ce_message = sq @ field c @ sq @ '' is not a recognized condition field for this domain'',
               ce_policy_id = Some (rp_id p), ce_path = Some (''conditions.'' @ field c)\<rparr>] else [])
      (all_of (conditions p)))"

definition has_contradictory_equality :: "RuntimePolicy \<Rightarrow> RuntimePolicy \<Rightarrow> bool" where
  "has_contradictory_equality p1 p2 =
     list_ex (\<lambda>c1. operator c1 = EQ \<and>
       list_ex (\<lambda>c2. operator c2 = EQ \<and> field c2 = field c1 \<and> \<not> py_eq (cvalue c2) (cvalue c1))
         (all_of (conditions p2))) (all_of (conditions p1))"

definition conflict_error :: "RuntimePolicy \<Rightarrow> RuntimePolicy \<Rightarrow> CompilerError" where
  "conflict_error p1 p2 =
     (let fields = sort (touched_fields p1 p2) in
      \<lparr>ce_code = ''CONFLICTING_POLICY_STRUCTURE'',
       ce_message = ''policies '' @ sq @ rp_id p1 @ sq @ '' and '' @ sq @ rp_id p2 @ sq
         @ '' both apply to principal '' @ sq @ principal (scope p1) @ sq
         @ '' action '' @ sq @ action (scope p1) @ sq @ '' and their conditions (''
         @ (if fields = [] then ''none'' else join '', '' fields)
         @ '') are not proven mutually exclusive -- some real Intent could match both'',
       ce_policy_id = Some (rp_id p1),
       ce_path = (case fields of [] \<Rightarrow> None | f # _ \<Rightarrow> Some f)\<rparr>)"

type_synonym set_order = "string list \<Rightarrow> string list"

definition pair_conflict :: "set_order \<Rightarrow> RuntimePolicy \<Rightarrow> RuntimePolicy \<Rightarrow> py_error + CompilerError list" where
  "pair_conflict ord p1 p2 =
     rbind (policies_can_jointly_match ord p1 p2) (\<lambda>m.
       Inr (if m \<or> has_contradictory_equality p1 p2 then [conflict_error p1 p2] else []))"

fun group_conflicts :: "set_order \<Rightarrow> RuntimePolicy list \<Rightarrow> py_error + CompilerError list" where
  "group_conflicts ord [] = Inr []"
| "group_conflicts ord (p1 # rest) =
     rbind (rmapM (pair_conflict ord p1) rest) (\<lambda>es.
     rmap (\<lambda>fs. concat es @ fs) (group_conflicts ord rest))"

definition scope_key :: "RuntimePolicy \<Rightarrow> string \<times> string" where
  "scope_key p = (principal (scope p), action (scope p))"

definition by_scope :: "RuntimePolicy list \<Rightarrow> (string \<times> string, RuntimePolicy list) dict" where
  "by_scope policies = foldl (\<lambda>d p. AList.map_default (scope_key p) [p] (\<lambda>g. g @ [p]) d) [] policies"

definition policy_conflicts :: "set_order \<Rightarrow> RuntimePolicy list \<Rightarrow> py_error + CompilerError list" where
  "policy_conflicts ord policies = rmap concat (rmapM (group_conflicts ord) (map snd (by_scope policies)))"

definition policy_errors :: "Vocabulary \<Rightarrow> RuntimePolicy \<Rightarrow> CompilerError list" where
  "policy_errors V p =
     map (\<lambda>e. \<lparr>ce_code = ''INVALID_RUNTIME_POLICY'', ce_message = ve_code e @ '': '' @ ve_message e,
                ce_policy_id = Some (rp_id p), ce_path = Some (ve_field e)\<rparr>) (validate p)
     @ validate_policy_against_vocabulary p V"

record CompileResult =
  cr_bundle :: "PolicyBundle option"
  diagnostics :: "CompilerError list"

definition compile_ok :: "CompileResult \<Rightarrow> bool" where
  "compile_ok r = (diagnostics r = [] \<and> cr_bundle r \<noteq> None)"

definition compile_bundle ::
  "crypto \<Rightarrow> set_order \<Rightarrow> Vocabulary \<Rightarrow> RuntimePolicy list \<Rightarrow> string \<Rightarrow> int \<Rightarrow> datetime \<Rightarrow> py_error + CompileResult" where
  "compile_bundle C ord V policies bid bversion now =
     (let errors = concat (map (policy_errors V) policies) in
      rbind (policy_conflicts ord policies) (\<lambda>conflicts.
      if errors @ conflicts \<noteq> []
      then Inr \<lparr>cr_bundle = None, diagnostics = errors @ conflicts\<rparr>
      else rmap (\<lambda>b. \<lparr>cr_bundle = Some b, diagnostics = []\<rparr>) (build_bundle C policies bid bversion now)))"

section \<open>Conflict detection covers every pair\<close>

lemma rmapM_Inr_iff: "rmapM f xs = Inr ys \<longleftrightarrow> list_all2 (\<lambda>x y. f x = Inr y) xs ys"
  by (induction xs arbitrary: ys) (auto simp: list_all2_Cons1)

lemma group_conflicts_Nil:
  "group_conflicts ord g = Inr [] \<Longrightarrow> sorted_wrt (\<lambda>p q. pair_conflict ord p q = Inr []) g"
proof (induction g)
  case (Cons p g)
  then obtain es where "rmapM (pair_conflict ord p) g = Inr es" "concat es = []" "group_conflicts ord g = Inr []"
    by auto
  then show ?case using Cons.IH by (fastforce simp: rmapM_Inr_iff list_all2_conv_all_nth in_set_conv_nth)
qed simp

lemma map_of_map_default:
  "map_of (AList.map_default k v f d) k' =
     (if k' = k then Some (case map_of d k of None \<Rightarrow> v | Some w \<Rightarrow> f w) else map_of d k')"
  by (induction d) auto

lemma fst_map_default: "fst ` set (AList.map_default k v f d) = insert k (fst ` set d)"
  by (induction d) auto

lemma distinct_map_default: "distinct (map fst d) \<Longrightarrow> distinct (map fst (AList.map_default k v f d))"
  by (induction d) (auto simp: fst_map_default)

lemma by_scope_map_of:
  "filter (\<lambda>p. scope_key p = k) ps = (case map_of (by_scope ps) k of None \<Rightarrow> [] | Some g \<Rightarrow> g)"
  by (induction ps rule: rev_induct)
    (auto simp: by_scope_def map_of_map_default split: option.splits)

lemma policy_conflicts_Nil:
  assumes "policy_conflicts ord ps = Inr []"
  shows "sorted_wrt (\<lambda>p q. pair_conflict ord p q = Inr []) (filter (\<lambda>p. scope_key p = k) ps)"
proof (cases "map_of (by_scope ps) k")
  case (Some g)
  from assms obtain es where es: "list_all2 (\<lambda>g e. group_conflicts ord g = Inr e) (map snd (by_scope ps)) es" "concat es = []"
    by (auto simp: policy_conflicts_def rmapM_Inr_iff)
  from Some have "g \<in> set (map snd (by_scope ps))" by (force dest: map_of_SomeD)
  with es have "group_conflicts ord g = Inr []" by (fastforce simp: list_all2_conv_all_nth in_set_conv_nth)
  then show ?thesis using group_conflicts_Nil Some by (simp add: by_scope_map_of)
qed (simp add: by_scope_map_of)

lemma sorted_wrt_groups:
  "(\<And>k. sorted_wrt R (filter (\<lambda>x. f x = k) xs)) \<Longrightarrow> sorted_wrt (\<lambda>x y. f x = f y \<longrightarrow> R x y) xs"
proof (induction xs)
  case (Cons x xs)
  have "sorted_wrt R (filter (\<lambda>y. f y = k) xs)" for k
    using Cons.prems [of k] by (cases "f x = k") simp_all
  moreover have "R x y" if "y \<in> set xs" "f x = f y" for y
    using Cons.prems [of "f x"] that by simp
  ultimately show ?case using Cons.IH by simp
qed simp

lemma sorted_wrt_exclusive:
  "sorted_wrt (\<lambda>p q. \<not> (M p \<and> M q)) ps \<Longrightarrow> length (filter M ps) \<le> 1"
proof (induction ps)
  case (Cons p ps)
  then show ?case by (cases "M p") (auto simp: filter_empty_conv)
qed simp

section \<open>What a compiled bundle guarantees\<close>

lemma policy_errors_Nil:
  "policy_errors V p = [] \<longleftrightarrow>
     well_formed p \<and> is_valid_action V (action (scope p))
     \<and> (\<forall>r. resource (scope p) = Some r \<longrightarrow> \<not> is_blank r)
     \<and> (\<forall>c \<in> set (all_of (conditions p)). is_valid_field V (field c))"
  by (auto simp: policy_errors_def validate_policy_against_vocabulary_def validate_ok_iff split: option.splits)

lemma compile_ok_checks:
  assumes "compile_bundle C ord V ps bid bv now = Inr r" and "compile_ok r"
  shows "(\<forall>p \<in> set ps. policy_errors V p = []) \<and> policy_conflicts ord ps = Inr []
    \<and> (\<exists>b. build_bundle C ps bid bv now = Inr b \<and> cr_bundle r = Some b)"
  using assms by (auto simp: compile_bundle_def compile_ok_def Let_def split: if_splits)

text \<open>For every field, the values it is compared with in the bundle are of one kind: all booleans, or
  none a boolean, and no list or object.\<close>

definition kinds_agree :: "RuntimePolicy list \<Rightarrow> bool" where
  "kinds_agree ps = (\<forall>p \<in> set ps. \<forall>c \<in> set (all_of (conditions p)). \<exists>b. \<forall>q \<in> set ps.
     \<forall>d \<in> set (all_of (conditions q)). field d = field c \<and> compared d \<longrightarrow> alike b (cvalue d))"

lemma kinds_agree_uniform:
  assumes "kinds_agree ps" and "p \<in> set ps" and "q \<in> set ps" and "well_formed p" and "well_formed q"
  shows "uniform p q"
  unfolding uniform_def
proof
  fix f assume "f \<in> set (touched_fields p q)"
  then obtain b where b: "\<forall>r \<in> set ps. \<forall>d \<in> set (all_of (conditions r)). field d = f \<and> compared d \<longrightarrow> alike b (cvalue d)"
    using assms(1-3) by (fastforce simp: touched_fields_def kinds_agree_def)
  have "condition_alike b d" if "r \<in> {p, q}" "d \<in> set (on_field f r)" for r d
    using that b assms by (auto simp: condition_alike_def on_field_def well_formed_def well_formed_condition_def)
  then show "\<exists>b. list_all (condition_alike b) (on_field f p @ on_field f q)"
    by (auto simp: list_all_iff)
qed

lemma no_conflict_exclusive:
  assumes "policy_conflicts ord ps = Inr []" and "\<And>xs. set (ord xs) = set xs"
    and "kinds_agree ps" and "\<forall>p \<in> set ps. well_formed p"
  shows "length (filter (policy_matches input) ps) \<le> 1"
proof (rule sorted_wrt_exclusive)
  have "sorted_wrt (\<lambda>p q. scope_key p = scope_key q \<longrightarrow> pair_conflict ord p q = Inr []) ps"
    by (rule sorted_wrt_groups, rule policy_conflicts_Nil [OF assms(1)])
  then show "sorted_wrt (\<lambda>p q. \<not> (policy_matches input p \<and> policy_matches input q)) ps"
  proof (rule sorted_wrt_mono_rel [rotated])
    fix p q assume pq: "p \<in> set ps" "q \<in> set ps" and c: "scope_key p = scope_key q \<longrightarrow> pair_conflict ord p q = Inr []"
    show "\<not> (policy_matches input p \<and> policy_matches input q)"
    proof (cases "scope_key p = scope_key q")
      case True
      with c have "policies_can_jointly_match ord p q = Inr False"
        by (auto simp: pair_conflict_def split: if_splits)
      then show ?thesis using jointly_match_False assms(2) kinds_agree_uniform [OF assms(3) pq] assms(4) pq by blast
    qed (auto simp: policy_matches_def scope_matches_def scope_key_def)
  qed
qed

section \<open>Bundle hash\<close>

lemma build_bundle_hash_time:
  assumes "build_bundle C ps bid bv now = Inr b" and "build_bundle C ps bid bv now' = Inr b'"
  shows "bundle_hash b = bundle_hash b' \<and> rego_source b = rego_source b'"
  using assms by (auto simp: build_bundle_def bundle_manifest_def Let_def)

lemma build_bundle_empty: "\<exists>b. build_bundle C [] bid bv now = Inr b"
  by (simp add: build_bundle_def Let_def)

lemma compile_conflict_raises:
  "policy_conflicts ord ps = Inl e \<Longrightarrow> compile_bundle C ord V ps bid bv now = Inl e"
  by (simp add: compile_bundle_def)

lemma compile_build_raises:
  assumes "\<forall>p \<in> set ps. policy_errors V p = []" and "policy_conflicts ord ps = Inr []"
    and "build_bundle C ps bid bv now = Inl e"
  shows "compile_bundle C ord V ps bid bv now = Inl e"
  using assms by (simp add: compile_bundle_def)

section \<open>Package retargeting\<close>

lemma build_bundle_package:
  assumes "build_bundle C ps bid bv now = Inr b"
  shows "\<exists>rest. rego_source b = ''package payreality.authorization'' @ nl @ nl @ rest"
  using assms by (auto simp: build_bundle_def bundle_rego_def Let_def)

definition package_name :: "string \<Rightarrow> bool" where
  "package_name s = (s \<noteq> [] \<and> list_all (\<lambda>c. \<not> is_space c) s)"

lemma is_space_nl [simp]: "is_space (char_of (10 :: nat))"
  by (simp add: is_space_def)

lemma is_space_space [simp]: "is_space CHR '' ''"
  by (simp add: is_space_def)

lemma match_package_line:
  assumes "package_name s"
  shows "match_package (''package '' @ s @ nl @ rest) = Some (nl @ rest)"
proof -
  obtain c cs where s: "s = c # cs" "\<not> is_space c" using assms by (cases s) (auto simp: package_name_def)
  have "dropWhile (\<lambda>c. \<not> is_space c) (s @ nl @ rest) = nl @ rest"
    using assms by (subst dropWhile_append2) (auto simp: package_name_def list_all_iff)
  with s show ?thesis by (simp add: match_package_def startswith_def)
qed

lemma retarget_line:
  assumes "package_name s"
  shows "retarget_package (''package '' @ s @ nl @ rest) path = Some (''package '' @ path @ nl @ rest)"
  by (subst retarget_package_def, subst sub_package.simps)
    (simp only: match_package_line [OF assms] if_True option.case append_assoc)

section \<open>Equal bundle hashes\<close>

lemma plain_manifest: "plain_json (JObj (filter (\<lambda>kv. fst kv \<noteq> ''compiled_at'') (bundle_manifest ps bid bv now)))"
  by (auto simp: bundle_manifest_def manifest_policy_def manifest_source_def list_all_iff)

lemma canonical_bytes_inject:
  assumes "canonical_bytes r m = canonical_bytes r' m'" and "plain_json m" and "plain_json m'"
  shows "r = r' \<and> sort_keys m = sort_keys m'"
proof -
  let ?o = "\<lambda>r m. JObj [(''rego'', JStr r), (''manifest'', m)]"
  have "sort_keys (?o r m) = sort_keys (?o r' m')"
    using assms dumps_inject [of "?o r m" "?o r' m'"] by (simp add: canonical_bytes_def del: sort_keys.simps)
  then have "py_getitem (sort_keys (?o r m)) k = py_getitem (sort_keys (?o r' m')) k" for k by (simp only:)
  from this [of "''rego''"] this [of "''manifest''"] show ?thesis
    by (simp add: py_getitem_sorted del: no_sort)
qed

definition hashed_text :: "RuntimePolicy list \<Rightarrow> string \<Rightarrow> int \<Rightarrow> string \<Rightarrow> string" where
  "hashed_text ps bid bv rego =
     canonical_bytes rego (JObj (filter (\<lambda>kv. fst kv \<noteq> ''compiled_at'') (bundle_manifest ps bid bv 0)))"

lemma build_bundle_hashed:
  assumes "build_bundle C ps bid bv now = Inr b"
  shows "bundle_hash b = ''sha256:'' @ hexlify (sha256 C (hashed_text ps bid bv (rego_source b)))"
  using assms by (auto simp: build_bundle_def hashed_text_def bundle_manifest_def Let_def)

lemma bundle_hash_eqD:
  assumes "build_bundle C ps bid bv now = Inr b" and "build_bundle C ps' bid' bv' now' = Inr b'"
    and "bundle_hash b = bundle_hash b'"
  shows "(rego_source b = rego_source b' \<and> bid = bid' \<and> bv = bv')
    \<or> (let x = hashed_text ps bid bv (rego_source b); y = hashed_text ps' bid' bv' (rego_source b')
       in x \<noteq> y \<and> sha256 C x = sha256 C y)"
proof (cases "hashed_text ps bid bv (rego_source b) = hashed_text ps' bid' bv' (rego_source b')")
  case True
  let ?m = "\<lambda>ps bid bv. JObj (filter (\<lambda>kv. fst kv \<noteq> ''compiled_at'') (bundle_manifest ps bid bv 0))"
  from True have e: "rego_source b = rego_source b' \<and> sort_keys (?m ps bid bv) = sort_keys (?m ps' bid' bv')"
    unfolding hashed_text_def by (rule canonical_bytes_inject) (rule plain_manifest)+
  then have "py_getitem (sort_keys (?m ps bid bv)) k = py_getitem (sort_keys (?m ps' bid' bv')) k" for k by (simp only:)
  from this [of "''bundle_id''"] this [of "''version''"] e show ?thesis
    by (simp add: py_getitem_sorted bundle_manifest_def del: no_sort)
next
  case False
  then show ?thesis using assms by (auto simp: build_bundle_hashed hexlify_inject Let_def)
qed

section \<open>Rule names\<close>

text \<open>The characters of a UUID's text.\<close>

definition uuid_char :: "char \<Rightarrow> bool" where
  "uuid_char c = (let n = (of_char c :: nat) in (48 \<le> n \<and> n \<le> 57) \<or> (97 \<le> n \<and> n \<le> 102) \<or> n = 45)"

definition safe_map :: "char \<Rightarrow> char" where
  "safe_map c = (if is_safe_char c then c else CHR ''_'')"

lemma safe_map_inject: "uuid_char c \<Longrightarrow> uuid_char d \<Longrightarrow> safe_map c = safe_map d \<Longrightarrow> c = d"
proof -
  assume u: "uuid_char c" "uuid_char d" and e: "safe_map c = safe_map d"
  have "(of_char (safe_map x) :: nat) = (if of_char x = (45 :: nat) then 95 else of_char x)" if "uuid_char x" for x
    using that by (auto simp: safe_map_def is_safe_char_def uuid_char_def Let_def)
  from this [OF u(1)] this [OF u(2)] e u show "c = d"
    by (auto simp: uuid_char_def Let_def split: if_splits) (metis char_of_of_char)
qed

lemma map_safe_inject:
  "list_all uuid_char a \<Longrightarrow> list_all uuid_char b \<Longrightarrow> map safe_map a = map safe_map b \<Longrightarrow> a = b"
proof (induction a arbitrary: b)
  case (Cons c a)
  then obtain d e where "b = d # e" by (cases b) auto
  with Cons show ?case by (auto dest: safe_map_inject)
qed simp

lemma safe_map_not_p: "uuid_char c \<Longrightarrow> safe_map c \<noteq> CHR ''p''"
  by (auto simp: safe_map_def uuid_char_def is_safe_char_def Let_def)

lemma rule_name_inject:
  assumes "list_all uuid_char a" and "list_all uuid_char b" and "rule_name_for_policy a = rule_name_for_policy b"
  shows "a = b"
proof -
  have s: "sanitize_policy_id x = (if map safe_map x = [] \<or> is_digit (hd (map safe_map x)) then ''p_'' @ map safe_map x else map safe_map x)" for x
    by (simp add: sanitize_policy_id_def safe_map_def [abs_def] Let_def)
  have np: "map safe_map x \<noteq> ''p_'' @ r" if "list_all uuid_char x" for x r
    using that safe_map_not_p by (cases x) auto
  have "map safe_map a = map safe_map b"
    using assms(3) np [OF assms(1)] np [OF assms(2)] unfolding rule_name_for_policy_def s
    by (auto split: if_splits) (metis append_Cons append_Nil np assms(1,2))+
  then show ?thesis using map_safe_inject assms by blast
qed

section \<open>Claims\<close>

text \<open>The sort of a policy's touched fields is one order a Python set may have.\<close>

definition payment_policy :: "string \<Rightarrow> Effect \<Rightarrow> Condition list \<Rightarrow> RuntimePolicy" where
  "payment_policy i e cs = demo_policy\<lparr>rp_id := i, effect := e, conditions := \<lparr>all_of = cs\<rparr>\<rparr>"

definition two_policies :: "RuntimePolicy list" where
  "two_policies = [
     payment_policy ''p-1'' ALLOW [\<lparr>field = ''amount'', operator = LTE, cvalue = JInt 500\<rparr>],
     payment_policy ''p-2'' REQUIRE_HUMAN_REVIEW [\<lparr>field = ''amount'', operator = GT, cvalue = JInt 500\<rparr>]]"

lemmas evaluate_compile = compile_bundle_def policy_conflicts_def by_scope_def scope_key_def pair_conflict_def
  policies_can_jointly_match_def scopes_can_overlap_def touched_fields_def field_overlap_def on_field_def
  build_field_constraint_def unconstrained_def constrain_def tighter_lo_def tighter_hi_def
  fields_can_overlap_def add_eq_def bounds_meet_def has_contradictory_equality_def two_policies_def
  payment_policy_def demo_policy_def



text \<open>A False verdict of \<open>policies_can_jointly_match\<close> is a proof: no decision input matches both
  policies, provided each field they touch is compared with values of one kind.\<close>

theorem disjoint_verdict_sound:
  assumes "policies_can_jointly_match ord p1 p2 = Inr False"
    and "\<And>xs. set (ord xs) = set xs" and "uniform p1 p2"
  shows "\<not> (policy_matches input p1 \<and> policy_matches input p2)"
  by (rule jointly_match_False [OF assms])

theorem disjoint_verdict_sound_witness:
  "\<not> (policy_matches (JObj []) (two_policies ! 0) \<and> policy_matches (JObj []) (two_policies ! 1))"
proof (rule disjoint_verdict_sound [of id])
  show "policies_can_jointly_match id (two_policies ! 0) (two_policies ! 1) = Inr False"
    by (simp add: evaluate_compile)
  show "uniform (two_policies ! 0) (two_policies ! 1)"
    by (auto simp: uniform_def touched_fields_def on_field_def two_policies_def payment_policy_def
        demo_policy_def condition_alike_def alike_def intro: exI [of _ False])
qed simp

text \<open>Recompiling the same policies gives the same bundle hash at any time, and two bundles with the
  same hash have the same Rego source, bundle id and version, unless the digest collides on the two
  hashed texts.\<close>

theorem bundle_hash_identifies_content:
  assumes "build_bundle C ps bid bv now = Inr b" and "build_bundle C ps' bid' bv' now' = Inr b'"
  shows "(ps = ps' \<and> bid = bid' \<and> bv = bv' \<longrightarrow> bundle_hash b = bundle_hash b')
    \<and> (bundle_hash b = bundle_hash b' \<longrightarrow>
        (rego_source b = rego_source b' \<and> bid = bid' \<and> bv = bv')
        \<or> (let x = hashed_text ps bid bv (rego_source b); y = hashed_text ps' bid' bv' (rego_source b')
           in x \<noteq> y \<and> sha256 C x = sha256 C y))"
  using assms build_bundle_hash_time bundle_hash_eqD by blast

theorem bundle_hash_identifies_content_witness:
  "\<exists>b b'. build_bundle plain_crypto [] ''b'' 1 0 = Inr b \<and> build_bundle plain_crypto [] ''b'' 1 5 = Inr b'
     \<and> bundle_hash b = bundle_hash b'"
proof -
  obtain b b' where b: "build_bundle plain_crypto [] ''b'' 1 0 = Inr b" "build_bundle plain_crypto [] ''b'' 1 5 = Inr b'"
    using build_bundle_empty by blast
  with bundle_hash_identifies_content [OF b] show ?thesis by blast
qed

text \<open>Retargeting a bundle to an organization's own package replaces the package name and leaves
  everything after the first line as it was, and a later retargeting replaces an earlier one.\<close>

theorem retarget_isolates_package:
  assumes "build_bundle C ps bid bv now = Inr b" and "package_name path"
  shows "\<exists>rest. rego_source b = ''package payreality.authorization'' @ nl @ rest
    \<and> retarget_package (rego_source b) path = Some (''package '' @ path @ nl @ rest)
    \<and> retarget_package (''package '' @ path @ nl @ rest) path' = retarget_package (rego_source b) path'"
proof -
  have p: "package_name ''payreality.authorization''" by (simp add: package_name_def is_space_def)
  obtain rest where r: "rego_source b = ''package '' @ ''payreality.authorization'' @ nl @ (nl @ rest)"
    using build_bundle_package [OF assms(1)] by auto
  show ?thesis
    unfolding r retarget_line [OF p] retarget_line [OF assms(2)] by (intro exI [of _ "nl @ rest"]) simp
qed

theorem retarget_isolates_package_witness:
  "\<exists>b r. build_bundle plain_crypto [] ''b'' 1 0 = Inr b
     \<and> retarget_package (rego_source b) ''payreality.org_1'' = Some (''package payreality.org_1'' @ nl @ r)"
proof -
  obtain b where b: "build_bundle plain_crypto [] ''b'' 1 0 = Inr b" using build_bundle_empty by blast
  have "package_name ''payreality.org_1''" by (simp add: package_name_def is_space_def)
  from retarget_isolates_package [OF b this] b show ?thesis by auto
qed

text \<open>Two policies with different UUIDs never share a Rego rule name.\<close>

theorem rule_names_distinct:
  assumes "list_all uuid_char a" and "list_all uuid_char b" and "a \<noteq> b"
  shows "rule_name_for_policy a \<noteq> rule_name_for_policy b"
  using rule_name_inject assms by blast

theorem rule_names_distinct_witness: "rule_name_for_policy ''0a-1'' \<noteq> rule_name_for_policy ''0a-2''"
  by (rule rule_names_distinct) (simp_all add: uuid_char_def)

text \<open>Compilation can raise instead of returning diagnostics. Two valid policies that compare one
  field with a string and with a number make \<open>compile_bundle\<close> raise \<open>TypeError\<close>, and a valid policy
  with a non-boolean \<open>exists\<close> value makes it raise \<open>ValueError\<close>.\<close>

theorem compile_bundle_raises:
  "(let p = payment_policy ''p-1'' ALLOW [\<lparr>field = ''amount'', operator = EQ, cvalue = JStr ''abc''\<rparr>];
        q = payment_policy ''p-2'' DENY [\<lparr>field = ''amount'', operator = LTE, cvalue = JInt 100\<rparr>]
    in validate p = [] \<and> validate q = []
       \<and> compile_bundle C id GENERIC_VOCABULARY [p, q] bid bv now = Inl TypeError)
   \<and> (let p = payment_policy ''p-1'' ALLOW [\<lparr>field = ''amount'', operator = EXISTS, cvalue = JStr ''yes''\<rparr>]
      in validate p = [] \<and> compile_bundle C id GENERIC_VOCABULARY [p] bid bv now = Inl ValueError)"
proof -
  let ?p = "payment_policy ''p-1'' ALLOW [\<lparr>field = ''amount'', operator = EQ, cvalue = JStr ''abc''\<rparr>]"
    and ?q = "payment_policy ''p-2'' DENY [\<lparr>field = ''amount'', operator = LTE, cvalue = JInt 100\<rparr>]"
    and ?x = "payment_policy ''p-1'' ALLOW [\<lparr>field = ''amount'', operator = EXISTS, cvalue = JStr ''yes''\<rparr>]"
  note wf = validate_ok_iff well_formed_def well_formed_condition_def is_blank_def is_space_def
    numeric_operators_def payment_policy_def demo_policy_def
  have v: "validate ?p = []" "validate ?q = []" "validate ?x = []" by (simp_all add: wf)
  have "policy_conflicts id [?p, ?q] = Inl TypeError" by (simp add: evaluate_compile py_lt.simps)
  moreover have "compile_bundle C id GENERIC_VOCABULARY [?x] bid bv now = Inl ValueError"
  proof (rule compile_build_raises)
    show "\<forall>p \<in> set [?x]. policy_errors GENERIC_VOCABULARY p = []"
      by (simp add: policy_errors_Nil wf is_valid_action_def GENERIC_VOCABULARY_def KNOWN_SCOPES_def
          is_valid_field_def startswith_def)
    show "policy_conflicts id [?x] = Inr []" by (simp add: policy_conflicts_def by_scope_def)
    show "build_bundle C [?x] bid bv now = Inl ValueError"
      by (simp add: build_bundle_def generate_policy_rule_def generate_conditions_block_def
          generate_condition_expression_def resolve_base_and_field_def payment_policy_def startswith_def)
  qed
  ultimately show ?thesis using v by (simp add: Let_def compile_conflict_raises)
qed

text \<open>The overlap check is not exact, and is not sound across booleans and numbers. It reports an
  overlap for \<open>== 5\<close> against \<open>in [1, 2]\<close>, which no input satisfies; and it reports no overlap for
  \<open>== 1\<close> against \<open>!= true\<close>, which the input 1 satisfies.\<close>

theorem overlap_not_exact:
  "(let p = payment_policy ''p-1'' ALLOW [\<lparr>field = ''amount'', operator = EQ, cvalue = JInt 5\<rparr>];
        q = payment_policy ''p-2'' DENY [\<lparr>field = ''amount'', operator = IN, cvalue = JList [JInt 1, JInt 2]\<rparr>]
    in policies_can_jointly_match id p q = Inr True \<and> \<not> (policy_matches input p \<and> policy_matches input q))
   \<and> (let p = payment_policy ''p-1'' ALLOW [\<lparr>field = ''amount'', operator = EQ, cvalue = JInt 1\<rparr>];
          q = payment_policy ''p-2'' DENY [\<lparr>field = ''amount'', operator = NEQ, cvalue = JBool True\<rparr>];
          i = JObj [(''intent'', JObj [(''action'', JStr ''vendor_payment''), (''amount'', JInt 1)]),
                    (''agent'', JObj [(''acting_for_principal_id'', JStr ''cfo'')])]
      in policies_can_jointly_match id p q = Inr False \<and> policy_matches i p \<and> policy_matches i q)"
  by (auto simp: Let_def evaluate_compile policy_matches_def scope_matches_def condition_holds_def field_value_def
      field_path_def startswith_def rego_eq_def frozenset_def py_in_def py_mem_def
      split: option.splits dest!: sym [of _ "rego_key _"])

end
