(* ===== verification/Db_Models.thy ===== *)
theory Db_Models
  imports Runtime_Policy
begin

text \<open>
  \<^verbatim>\<open>server/app/db/models.py\<close>: the tables the modelled services read and write. A record per table,
  a field per column; a text column with a CHECK constraint is the enumeration of the constraint's
  values, a JSONB column is a \<open>json\<close>, \<open>Numeric(18, 2)\<close> is a whole number of hundredths, a
  float is a decimal mantissa and exponent. A table is
  the list of its rows in insertion order, and \<open>db\<close> is the state of the session: what the
  transaction sees. A service that raises leaves the caller's state unchanged (the router rolls
  back), so an error carries no state.

  Primary keys, nonces and secrets are arguments of the operations, and so is \<open>now\<close>, the one instant
  that \<open>datetime.now\<close> and the database's \<open>now()\<close> stand for within a call.
\<close>

section \<open>Constrained text columns\<close>

datatype OrganizationStatus = OrgActive | OrgDeactivated | OrgArchived

fun OrganizationStatus_value :: "OrganizationStatus \<Rightarrow> string" where
  "OrganizationStatus_value OrgActive = ''active''"
| "OrganizationStatus_value OrgDeactivated = ''deactivated''"
| "OrganizationStatus_value OrgArchived = ''archived''"

datatype AgentStatus = AgRegistered | AgActive | AgSuspended | AgRevoked | AgRetired

fun AgentStatus_value :: "AgentStatus \<Rightarrow> string" where
  "AgentStatus_value AgRegistered = ''registered''"
| "AgentStatus_value AgActive = ''active''"
| "AgentStatus_value AgSuspended = ''suspended''"
| "AgentStatus_value AgRevoked = ''revoked''"
| "AgentStatus_value AgRetired = ''retired''"

datatype CertificateStatus = CertIssued | CertActive | CertRotated | CertExpired | CertRevoked

fun CertificateStatus_value :: "CertificateStatus \<Rightarrow> string" where
  "CertificateStatus_value CertIssued = ''issued''"
| "CertificateStatus_value CertActive = ''active''"
| "CertificateStatus_value CertRotated = ''rotated''"
| "CertificateStatus_value CertExpired = ''expired''"
| "CertificateStatus_value CertRevoked = ''revoked''"

datatype PolicyRowStatus = PolDraft | PolCompiled | PolActive | PolRetired

fun PolicyRowStatus_value :: "PolicyRowStatus \<Rightarrow> string" where
  "PolicyRowStatus_value PolDraft = ''draft''"
| "PolicyRowStatus_value PolCompiled = ''compiled''"
| "PolicyRowStatus_value PolActive = ''active''"
| "PolicyRowStatus_value PolRetired = ''retired''"

datatype SourceStatus = SrcActive | SrcRevoked

fun SourceStatus_value :: "SourceStatus \<Rightarrow> string" where
  "SourceStatus_value SrcActive = ''active''"
| "SourceStatus_value SrcRevoked = ''revoked''"

datatype Outcome = OutAllow | OutDeny | OutHumanReview

fun Outcome_value :: "Outcome \<Rightarrow> string" where
  "Outcome_value OutAllow = ''ALLOW''"
| "Outcome_value OutDeny = ''DENY''"
| "Outcome_value OutHumanReview = ''HUMAN_REVIEW''"

datatype EvidenceStatus = EvVerified | EvPending | EvRejected

fun EvidenceStatus_value :: "EvidenceStatus \<Rightarrow> string" where
  "EvidenceStatus_value EvVerified = ''VERIFIED''"
| "EvidenceStatus_value EvPending = ''PENDING''"
| "EvidenceStatus_value EvRejected = ''REJECTED''"

datatype Resolution = ResApproved | ResDenied

fun Resolution_value :: "Resolution \<Rightarrow> string" where
  "Resolution_value ResApproved = ''approved''"
| "Resolution_value ResDenied = ''denied''"

datatype BindingStatus = BindDraft | BindActive | BindRetired

fun BindingStatus_value :: "BindingStatus \<Rightarrow> string" where
  "BindingStatus_value BindDraft = ''draft''"
| "BindingStatus_value BindActive = ''active''"
| "BindingStatus_value BindRetired = ''retired''"

datatype InvitationStatus = InvPending | InvAccepted | InvRevoked | InvExpired

fun InvitationStatus_value :: "InvitationStatus \<Rightarrow> string" where
  "InvitationStatus_value InvPending = ''pending''"
| "InvitationStatus_value InvAccepted = ''accepted''"
| "InvitationStatus_value InvRevoked = ''revoked''"
| "InvitationStatus_value InvExpired = ''expired''"

datatype ContractStatus = ConDraft | ConValidated | ConApproved | ConRetired

fun ContractStatus_value :: "ContractStatus \<Rightarrow> string" where
  "ContractStatus_value ConDraft = ''draft''"
| "ContractStatus_value ConValidated = ''validated''"
| "ContractStatus_value ConApproved = ''approved''"
| "ContractStatus_value ConRetired = ''retired''"

datatype UserStatus = UserActive | UserDisabled

fun UserStatus_value :: "UserStatus \<Rightarrow> string" where
  "UserStatus_value UserActive = ''active''"
| "UserStatus_value UserDisabled = ''disabled''"

datatype AuthorityStatus = AuPendingReview | AuApproved | AuRejected

fun AuthorityStatus_value :: "AuthorityStatus \<Rightarrow> string" where
  "AuthorityStatus_value AuPendingReview = ''pending_review''"
| "AuthorityStatus_value AuApproved = ''approved''"
| "AuthorityStatus_value AuRejected = ''rejected''"

datatype ScheduleAction = SchActivate | SchRetire

fun ScheduleAction_value :: "ScheduleAction \<Rightarrow> string" where
  "ScheduleAction_value SchActivate = ''activate''"
| "ScheduleAction_value SchRetire = ''retire''"

datatype ScheduleStatus = SchPending | SchExecuted | SchFailed | SchCancelled

fun ScheduleStatus_value :: "ScheduleStatus \<Rightarrow> string" where
  "ScheduleStatus_value SchPending = ''pending''"
| "ScheduleStatus_value SchExecuted = ''executed''"
| "ScheduleStatus_value SchFailed = ''failed''"
| "ScheduleStatus_value SchCancelled = ''cancelled''"

datatype ReceiptStatus = RcpAccepted | RcpSucceeded | RcpFailed | RcpPartiallySucceeded | RcpUnknown

fun ReceiptStatus_value :: "ReceiptStatus \<Rightarrow> string" where
  "ReceiptStatus_value RcpAccepted = ''ACCEPTED''"
| "ReceiptStatus_value RcpSucceeded = ''SUCCEEDED''"
| "ReceiptStatus_value RcpFailed = ''FAILED''"
| "ReceiptStatus_value RcpPartiallySucceeded = ''PARTIALLY_SUCCEEDED''"
| "ReceiptStatus_value RcpUnknown = ''UNKNOWN''"

datatype ReconciliationOutcome = RecMatched | RecMismatched | RecExecutionFailed | RecPartial | RecReceiptMissing | RecIndeterminate

fun ReconciliationOutcome_value :: "ReconciliationOutcome \<Rightarrow> string" where
  "ReconciliationOutcome_value RecMatched = ''MATCHED''"
| "ReconciliationOutcome_value RecMismatched = ''MISMATCHED''"
| "ReconciliationOutcome_value RecExecutionFailed = ''EXECUTION_FAILED''"
| "ReconciliationOutcome_value RecPartial = ''PARTIAL''"
| "ReconciliationOutcome_value RecReceiptMissing = ''RECEIPT_MISSING''"
| "ReconciliationOutcome_value RecIndeterminate = ''INDETERMINATE''"

section \<open>Tables\<close>

record Organization =
  org_id :: uuid
  org_name :: string
  org_logo_url :: "string option"
  org_timezone :: string
  org_default_currency :: string
  org_default_language :: string
  org_settings :: json
  org_created_at :: datetime
  org_updated_at :: datetime
  org_status :: OrganizationStatus
  org_deactivated_at :: "datetime option"
  org_deactivated_by :: "string option"
  org_archived_at :: "datetime option"
  org_archived_by :: "string option"
  org_environment :: string

record BusinessUnit =
  bu_id :: uuid
  bu_organization_id :: uuid
  bu_name :: string
  bu_created_at :: datetime

record Department =
  dp_id :: uuid
  dp_business_unit_id :: uuid
  dp_name :: string
  dp_created_at :: datetime

record Team =
  tm_id :: uuid
  tm_department_id :: uuid
  tm_name :: string
  tm_created_at :: datetime

record User =
  us_id :: uuid
  us_organization_id :: uuid
  us_email :: string
  us_name :: string
  us_password_hash :: string
  us_role :: string
  us_status :: UserStatus
  us_mfa_enabled :: bool
  us_must_reset_password :: bool
  us_last_login_at :: "datetime option"
  us_created_at :: datetime
  us_updated_at :: datetime

record OrganizationInvitation =
  inv_id :: uuid
  inv_organization_id :: uuid
  inv_email :: string
  inv_role :: string
  inv_token_hash :: string
  inv_status :: InvitationStatus
  inv_invited_by :: "string option"
  inv_created_at :: datetime
  inv_expires_at :: datetime
  inv_accepted_at :: "datetime option"
  inv_accepted_by_user_id :: "uuid option"

record Principal =
  pr_id :: uuid
  pr_name :: string
  pr_source_document_id :: "uuid option"
  pr_organization_id :: "uuid option"
  pr_business_unit_id :: "uuid option"
  pr_department_id :: "uuid option"
  pr_team_id :: "uuid option"
  pr_role :: "string option"
  pr_created_at :: datetime

record EnterpriseSystem =
  es_id :: uuid
  es_organization_id :: uuid
  es_name :: string
  es_type :: string
  es_status :: string
  es_created_at :: datetime

record SigningKey =
  sk_key_id :: string
  sk_public_key_b64 :: string
  sk_created_at :: datetime
  sk_retired_at :: "datetime option"

record Agent =
  ag_id :: uuid
  ag_name :: string
  ag_acting_for_principal_id :: uuid
  ag_owner :: "string option"
  ag_business_unit :: "string option"
  ag_environment :: "string option"
  ag_tags :: json
  ag_description :: "string option"
  ag_purpose :: "string option"
  ag_model :: "string option"
  ag_version :: "string option"
  ag_runtime :: "string option"
  ag_platform :: "string option"
  ag_labels :: json
  ag_sdk_version :: "string option"
  ag_last_seen_at :: "datetime option"
  ag_rotation_requested_at :: "datetime option"
  ag_status :: AgentStatus
  ag_created_at :: datetime
  ag_updated_at :: datetime

record Certificate =
  ct_id :: uuid
  ct_agent_id :: uuid
  ct_public_key :: string
  ct_status :: CertificateStatus
  ct_issued_at :: datetime
  ct_activated_at :: "datetime option"
  ct_rotated_at :: "datetime option"
  ct_expires_at :: "datetime option"
  ct_revoked_at :: "datetime option"

record AgentAuditEvent =
  aev_id :: uuid
  aev_agent_id :: uuid
  aev_event_type :: string
  aev_actor :: "string option"
  aev_payload :: json
  aev_key_id :: string
  aev_signature :: string
  aev_created_at :: datetime

record Policy =
  po_id :: uuid
  po_version :: int
  po_status :: PolicyRowStatus
  po_bundle_hash :: string
  po_bundle_uri :: string
  po_compiled_at :: "datetime option"
  po_activated_at :: "datetime option"
  po_retired_at :: "datetime option"
  po_bundle_manifest :: "json option"
  po_organization_id :: "uuid option"

record Mandate =
  ma_id :: uuid
  ma_policy_id :: uuid
  ma_authority_id :: uuid
  ma_principal_id :: uuid
  ma_scope :: string
  ma_max_amount :: "int option"
  ma_currency :: "string option"
  ma_review_threshold :: "int option"
  ma_valid_from :: datetime
  ma_valid_to :: datetime

record RuntimePolicyRecord =
  rr_id :: uuid
  rr_policy_key :: uuid
  rr_version :: int
  rr_status :: PolicyStatus
  rr_content :: json
  rr_bundle_id :: "string option"
  rr_bundle_hash :: "string option"
  rr_created_at :: datetime
  rr_activated_by :: "string option"
  rr_activated_at :: "datetime option"
  rr_activation_reason :: "string option"
  rr_effective_from :: "datetime option"
  rr_effective_until :: "datetime option"
  rr_deprecated_at :: "datetime option"
  rr_deprecation_reason :: "string option"
  rr_rollback_of_version :: "int option"
  rr_organization_id :: "uuid option"
  rr_last_attested_at :: "datetime option"
  rr_next_review_at :: "datetime option"
  rr_review_cadence_days :: "int option"
  rr_authority_expires_at :: "datetime option"
  rr_source_graph_approval_id :: "uuid option"

record FactSource =
  fs_id :: uuid
  fs_organization_id :: uuid
  fs_name :: string
  fs_public_key :: string
  fs_status :: SourceStatus
  fs_created_at :: datetime
  fs_revoked_at :: "datetime option"

record EnterpriseFact =
  fa_id :: uuid
  fa_organization_id :: uuid
  fa_source_id :: uuid
  fa_subject :: "string option"
  fa_key :: string
  fa_value :: json
  fa_observed_at :: datetime
  fa_recorded_at :: datetime
  fa_expires_at :: datetime
  fa_attestation_type :: string
  fa_signature :: "string option"
  fa_key_id :: "string option"
  fa_nonce :: string

record Intent =
  it_id :: uuid
  it_agent_id :: uuid
  it_correlation_id :: "string option"
  it_action :: string
  it_amount :: "int option"
  it_currency :: "string option"
  it_counterparty :: "string option"
  it_resource :: "string option"
  it_context :: json
  it_nonce :: string
  it_requested_at :: datetime
  it_received_at :: datetime
  it_source :: "string option"
  it_integration_identity_id :: "uuid option"
  it_enforcement_binding_id :: "uuid option"
  it_integration_contract_version_id :: "uuid option"
  it_environment :: "string option"
  it_external_operation_id :: "string option"
  it_integration_id :: "uuid option"
  it_canonical_operation_fingerprint :: "string option"
  it_canonical_action_schema_version :: "int option"
  it_canonical_action_digest :: "string option"

record Decision =
  de_id :: uuid
  de_intent_id :: uuid
  de_policy_id :: "uuid option"
  de_outcome :: Outcome
  de_reason :: "string option"
  de_evaluated_mandates :: json
  de_created_at :: datetime
  de_evaluated_mandate_ids :: json
  de_enterprise_system_id :: "uuid option"

record Evidence =
  ev_id :: uuid
  ev_decision_id :: uuid
  ev_payload :: json
  ev_key_id :: string
  ev_signature :: string
  ev_status :: EvidenceStatus
  ev_created_at :: datetime
  ev_organization_id :: "uuid option"
  ev_sequence :: "int option"

record DecisionResolution =
  dr_id :: uuid
  dr_decision_id :: uuid
  dr_resolution :: Resolution
  dr_resolved_by :: string
  dr_reason :: "string option"
  dr_evidence_id :: "uuid option"
  dr_created_at :: datetime
  dr_resolved_by_user_id :: "uuid option"

record CapabilityToken =
  cap_id :: uuid
  cap_organization_id :: uuid
  cap_decision_id :: uuid
  cap_audience :: string
  cap_nonce :: string
  cap_token_hash :: string
  cap_issued_at :: datetime
  cap_expires_at :: datetime
  cap_consumed_at :: "datetime option"
  cap_issued_by :: "string option"
  cap_integration_identity_id :: "uuid option"
  cap_enforcement_binding_id :: "uuid option"
  cap_integration_contract_version_id :: "uuid option"
  cap_environment :: "string option"
  cap_external_operation_id :: "string option"

record IntegrationIdentity =
  ii_id :: uuid
  ii_organization_id :: uuid
  ii_name :: string
  ii_status :: AgentStatus
  ii_created_by :: "string option"
  ii_created_at :: datetime

record IntegrationIdentityCertificate =
  ic_id :: uuid
  ic_integration_identity_id :: uuid
  ic_public_key :: string
  ic_status :: CertificateStatus
  ic_issued_at :: datetime
  ic_activated_at :: "datetime option"
  ic_rotated_at :: "datetime option"
  ic_expires_at :: "datetime option"
  ic_revoked_at :: "datetime option"

record EnforcementBinding =
  eb_id :: uuid
  eb_organization_id :: uuid
  eb_integration_identity_id :: uuid
  eb_integration_contract_version_id :: uuid
  eb_integration_id :: uuid
  eb_source_operation :: string
  eb_environment :: string
  eb_status :: BindingStatus
  eb_created_by :: "string option"
  eb_created_at :: datetime
  eb_activated_at :: "datetime option"
  eb_retired_at :: "datetime option"
  eb_enforcement_assurance :: string

record EnforcementBindingAgent =
  ba_id :: uuid
  ba_enforcement_binding_id :: uuid
  ba_agent_id :: uuid
  ba_created_at :: datetime

record Integration =
  ig_id :: uuid
  ig_organization_id :: uuid
  ig_external_system_label :: string
  ig_created_by :: "string option"
  ig_created_at :: datetime

record IntegrationContractVersion =
  cv_id :: uuid
  cv_integration_id :: uuid
  cv_organization_id :: uuid
  cv_source_operation :: string
  cv_version :: int
  cv_canonical_action :: string
  cv_resource_path :: "string option"
  cv_fact_subject_path :: "string option"
  cv_amount_path :: "string option"
  cv_currency_path :: "string option"
  cv_context_bindings :: json
  cv_content_hash :: "string option"
  cv_source_schema_fingerprint :: "string option"
  cv_status :: ContractStatus
  cv_created_by :: "string option"
  cv_created_at :: datetime
  cv_validated_at :: "datetime option"
  cv_approved_by :: "string option"
  cv_approved_at :: "datetime option"
  cv_retired_at :: "datetime option"

record AuthorityRelationship =
  rel_id :: uuid
  rel_corpus_id :: uuid
  rel_kind :: string
  rel_from_principal :: string
  rel_to_principal :: string
  rel_description :: "string option"
  rel_confidence :: "int \<times> int"
  rel_source_excerpt :: "string option"
  rel_source_location :: "string option"
  rel_created_at :: datetime
  rel_from_principal_id :: "uuid option"
  rel_to_principal_id :: "uuid option"
  rel_resource_id :: "uuid option"
  rel_operation :: "string option"
  rel_valid_from :: "datetime option"
  rel_valid_to :: "datetime option"
  rel_revoked_at :: "datetime option"
  rel_revoked_by :: "string option"
  rel_status :: string
  rel_cross_org_approved :: bool
  rel_clause_reference :: "string option"
  rel_extraction_reasoning :: "string option"
  rel_detected_assumptions :: json
  rel_ambiguity_flags :: json

record Resource =
  rs_id :: uuid
  rs_name :: string
  rs_type :: "string option"
  rs_owner_principal_id :: "uuid option"
  rs_organization_id :: "uuid option"
  rs_created_at :: datetime

record Authority =
  au_id :: uuid
  au_document_id :: "uuid option"
  au_corpus_id :: "uuid option"
  au_principal_id :: uuid
  au_scope :: string
  au_limit_amount :: "int option"
  au_currency :: "string option"
  au_conditions :: json
  au_source_excerpt :: "string option"
  au_source_page :: "int option"
  au_status :: AuthorityStatus
  au_reviewer_id :: "string option"
  au_reviewed_at :: "datetime option"
  au_rejection_reason :: "string option"
  au_extracted_limit_amount :: "int option"
  au_extracted_currency :: "string option"
  au_extracted_conditions :: json
  au_created_at :: datetime

record UserSession =
  se_id :: uuid
  se_user_id :: uuid
  se_created_at :: datetime
  se_expires_at :: datetime
  se_revoked_at :: "datetime option"

record ApiKey =
  ak_id :: uuid
  ak_organization_id :: uuid
  ak_name :: string
  ak_key_hash :: string
  ak_key_prefix :: string
  ak_role :: string
  ak_created_by_user_id :: "uuid option"
  ak_created_at :: datetime
  ak_last_used_at :: "datetime option"
  ak_revoked_at :: "datetime option"

record AuthorityGraphApproval =
  ga_id :: uuid
  ga_corpus_id :: uuid
  ga_reviewer :: string
  ga_version :: int
  ga_evidence_snapshot :: json
  ga_approval_reason :: "string option"
  ga_graph_hash :: string
  ga_approved_at :: datetime
  ga_predecessor_approval_id :: "uuid option"

record SimulationScenario =
  sc_id :: uuid
  sc_policy_key :: uuid
  sc_name :: string
  sc_input :: json
  sc_expected_outcome :: Outcome
  sc_created_by :: "string option"
  sc_created_at :: datetime
  sc_organization_id :: "uuid option"

record RuntimePolicyLifecycleEvent =
  le_id :: uuid
  le_policy_key :: uuid
  le_version :: int
  le_event_type :: string
  le_actor :: "string option"
  le_reason :: "string option"
  le_payload :: json
  le_event_hash :: string
  le_occurred_at :: datetime
  le_organization_id :: "uuid option"

record PolicyActivationSchedule =
  sh_id :: uuid
  sh_policy_key :: uuid
  sh_version :: int
  sh_action :: ScheduleAction
  sh_effective_at :: datetime
  sh_reason :: "string option"
  sh_status :: ScheduleStatus
  sh_created_by :: "string option"
  sh_created_at :: datetime
  sh_executed_at :: "datetime option"
  sh_execution_error :: "string option"
  sh_organization_id :: "uuid option"

record ExecutionReceiptRecord =
  xr_id :: uuid
  xr_organization_id :: uuid
  xr_integration_identity_id :: uuid
  xr_enforcement_binding_id :: uuid
  xr_integration_id :: uuid
  xr_environment :: string
  xr_decision_id :: uuid
  xr_capability_id :: "uuid option"
  xr_canonical_action_digest :: string
  xr_external_operation_id :: string
  xr_destination :: string
  xr_status :: ReceiptStatus
  xr_receipt_digest :: string
  xr_occurred_at :: "datetime option"
  xr_detail :: "string option"
  xr_submitted_at :: datetime
  xr_evidence_id :: "uuid option"

record ReconciliationResultRecord =
  rc_id :: uuid
  rc_organization_id :: uuid
  rc_decision_id :: uuid
  rc_capability_id :: "uuid option"
  rc_latest_execution_receipt_id :: "uuid option"
  rc_canonical_action_digest :: "string option"
  rc_outcome :: ReconciliationOutcome
  rc_result_digest :: string
  rc_detail :: "string option"
  rc_evidence_id :: "uuid option"
  rc_computed_at :: datetime

record db =
  organizations :: "Organization list"
  business_units :: "BusinessUnit list"
  departments :: "Department list"
  teams :: "Team list"
  users :: "User list"
  organization_invitations :: "OrganizationInvitation list"
  principals :: "Principal list"
  enterprise_systems :: "EnterpriseSystem list"
  signing_keys :: "SigningKey list"
  agents :: "Agent list"
  certificates :: "Certificate list"
  agent_audit_events :: "AgentAuditEvent list"
  policies :: "Policy list"
  mandates :: "Mandate list"
  runtime_policy_records :: "RuntimePolicyRecord list"
  fact_sources :: "FactSource list"
  enterprise_facts :: "EnterpriseFact list"
  intents :: "Intent list"
  decisions :: "Decision list"
  evidence :: "Evidence list"
  decision_resolutions :: "DecisionResolution list"
  capability_tokens :: "CapabilityToken list"
  integration_identities :: "IntegrationIdentity list"
  integration_identity_certificates :: "IntegrationIdentityCertificate list"
  enforcement_bindings :: "EnforcementBinding list"
  enforcement_binding_agents :: "EnforcementBindingAgent list"
  integrations :: "Integration list"
  integration_contract_versions :: "IntegrationContractVersion list"
  authority_relationships :: "AuthorityRelationship list"
  resources :: "Resource list"
  authorities :: "Authority list"
  user_sessions :: "UserSession list"
  api_keys :: "ApiKey list"
  authority_graph_approvals :: "AuthorityGraphApproval list"
  simulation_scenarios :: "SimulationScenario list"
  runtime_policy_lifecycle_events :: "RuntimePolicyLifecycleEvent list"
  policy_activation_schedules :: "PolicyActivationSchedule list"
  execution_receipts :: "ExecutionReceiptRecord list"
  reconciliation_results :: "ReconciliationResultRecord list"

section \<open>Primary keys\<close>

text \<open>\<^verbatim>\<open>db.get(Model, id)\<close> for the tables that are looked up by key.\<close>

definition get_organization_row :: "db \<Rightarrow> uuid \<Rightarrow> Organization option" where
  "get_organization_row d i = db_find (\<lambda>r. org_id r = i) (organizations d)"

definition get_principal_row :: "db \<Rightarrow> uuid \<Rightarrow> Principal option" where
  "get_principal_row d i = db_find (\<lambda>r. pr_id r = i) (principals d)"

definition get_agent_row :: "db \<Rightarrow> uuid \<Rightarrow> Agent option" where
  "get_agent_row d i = db_find (\<lambda>r. ag_id r = i) (agents d)"

definition get_intent_row :: "db \<Rightarrow> uuid \<Rightarrow> Intent option" where
  "get_intent_row d i = db_find (\<lambda>r. it_id r = i) (intents d)"

definition get_decision_row :: "db \<Rightarrow> uuid \<Rightarrow> Decision option" where
  "get_decision_row d i = db_find (\<lambda>r. de_id r = i) (decisions d)"

definition get_evidence_row :: "db \<Rightarrow> uuid \<Rightarrow> Evidence option" where
  "get_evidence_row d i = db_find (\<lambda>r. ev_id r = i) (evidence d)"

section \<open>Configuration\<close>

record Settings =
  evidence_signing_key_b64 :: string
  evidence_signing_key_id :: string

end
