(* ===== verification/Decision_Engine.thy ===== *)
theory Decision_Engine
  imports Compiler_V2 Db_Models
begin

text \<open>
  \<^verbatim>\<open>server/app/domain/decision/engine.py\<close> and \<open>source.py\<close>, the query and naming
  part of \<^verbatim>\<open>server/app/opa_client.py\<close>, and the request checks of
  \<^verbatim>\<open>server/app/domain/auth/signature.py\<close>.

  OPA is a parameter: a function from the data path and the input document to what the HTTP call
  yields. A reply whose fields have other types than the bundle defines is \<open>IllTyped\<close>; a reply that
  is not an object raises \<open>AttributeError\<close>, as the code's \<open>.get\<close> does.
\<close>

section \<open>opa_client.py\<close>

datatype http_reply = TimedOut | HttpError | Response int "json option"

datatype opa_error = OPATimeoutError | OPAEvaluationError string | OpaPython py_error

definition DATA_PATH :: string where "DATA_PATH = ''/v1/data/payreality/authorization''"

definition uuid_hex :: "uuid \<Rightarrow> string" where
  "uuid_hex u = filter (\<lambda>c. c \<noteq> CHR ''-'') u"

definition org_package_path :: "uuid \<Rightarrow> string" where
  "org_package_path org = ''payreality.authorization.org_'' @ uuid_hex org"

definition org_data_path :: "uuid \<Rightarrow> string" where
  "org_data_path org = ''/v1/data/'' @ map (\<lambda>c. if c = CHR ''.'' then CHR ''/'' else c) (org_package_path org)"

definition org_policy_id :: "uuid \<Rightarrow> string" where
  "org_policy_id org = ''authorization-org-'' @ uuid_hex org"

type_synonym opa = "string \<Rightarrow> json \<Rightarrow> http_reply"

definition opa_query :: "opa \<Rightarrow> string option \<Rightarrow> json \<Rightarrow> opa_error + json" where
  "opa_query srv data_path input_doc =
     (case srv (case data_path of None \<Rightarrow> DATA_PATH | Some p \<Rightarrow> if p = [] then DATA_PATH else p) input_doc of
        TimedOut \<Rightarrow> Inl OPATimeoutError
      | HttpError \<Rightarrow> Inl (OPAEvaluationError ''connection_error'')
      | Response code body \<Rightarrow>
          if code \<noteq> 200 then Inl (OPAEvaluationError (''http_'' @ show_int code))
          else (case body of
            None \<Rightarrow> Inl (OPAEvaluationError ''bad_response'')
          | Some b \<Rightarrow>
              (case py_get b ''result'' of
                 Inl e \<Rightarrow> Inl (OpaPython e)
               | Inr r \<Rightarrow> Inr (if r = JNull then JObj [] else r))))"

section \<open>source.py\<close>

definition SOURCE_RUNTIME :: string where "SOURCE_RUNTIME = ''runtime''"
definition SOURCE_MANUAL_TEST :: string where "SOURCE_MANUAL_TEST = ''manual_test''"

definition normalize_source :: "string option \<Rightarrow> string" where
  "normalize_source src = (if src = Some SOURCE_MANUAL_TEST then SOURCE_MANUAL_TEST else SOURCE_RUNTIME)"

section \<open>engine.py\<close>

definition DECISION_ENGINE_VERSION :: string where "DECISION_ENGINE_VERSION = ''1.0.0''"

record ActivePolicy =
  ap_id :: uuid
  ap_version :: int
  ap_bundle_hash :: "string option"

record EngineDecision =
  ed_outcome :: Outcome
  ed_reason :: "string option"
  ed_evaluated_mandates :: "string list"
  ed_policy_id :: "uuid option"
  ed_policy_version :: "int option"
  ed_policy_bundle_hash :: "string option"
  ed_authority_version :: string

definition build_opa_input :: "json \<Rightarrow> json \<Rightarrow> json \<Rightarrow> int \<Rightarrow> string option \<Rightarrow> json \<Rightarrow> json" where
  "build_opa_input intent ctx acting_for pversion agent_id knowledge = JObj [
     (''intent'', intent), (''context'', ctx),
     (''agent'', JObj [(''id'', opt_str agent_id), (''acting_for_principal_id'', acting_for)]),
     (''policy_version'', JInt pversion),
     (''enterprise_knowledge'', py_or knowledge (JObj []))]"

definition unpinned :: "Outcome \<Rightarrow> string option \<Rightarrow> EngineDecision" where
  "unpinned out why = \<lparr>ed_outcome = out, ed_reason = why, ed_evaluated_mandates = [],
     ed_policy_id = None, ed_policy_version = None, ed_policy_bundle_hash = None,
     ed_authority_version = DECISION_ENGINE_VERSION\<rparr>"

definition pinned :: "ActivePolicy \<Rightarrow> Outcome \<Rightarrow> string option \<Rightarrow> string list \<Rightarrow> EngineDecision" where
  "pinned p out why evaluated = \<lparr>ed_outcome = out, ed_reason = why, ed_evaluated_mandates = evaluated,
     ed_policy_id = Some (ap_id p), ed_policy_version = Some (ap_version p),
     ed_policy_bundle_hash = ap_bundle_hash p, ed_authority_version = DECISION_ENGINE_VERSION\<rparr>"

definition is_True :: "json \<Rightarrow> string \<Rightarrow> bool" where
  "is_True r k = (py_get r k = Inr (JBool True))"

definition decide :: "ActivePolicy \<Rightarrow> json \<Rightarrow> py_error + EngineDecision" where
  "decide p r =
     rbind (rbind (rbind (py_get_or r ''evaluated_mandates'' (JList [])) as_list) (rmapM as_str)) (\<lambda>evaluated.
     if is_True r ''requires_review'' then
       rbind (rbind (py_get r ''review_reason'') as_opt_str) (\<lambda>why. Inr (pinned p OutHumanReview why evaluated))
     else if is_True r ''allow'' \<and> \<not> is_True r ''deny'' then Inr (pinned p OutAllow None evaluated)
     else if is_True r ''deny'' then
       rbind (rbind (py_get r ''deny_reason'') as_opt_str) (\<lambda>why. Inr (pinned p OutDeny why evaluated))
     else Inr (pinned p OutHumanReview (Some ''undetermined'') []))"

definition evaluate ::
  "json \<Rightarrow> json \<Rightarrow> json \<Rightarrow> ActivePolicy option \<Rightarrow> (json \<Rightarrow> opa_error + json) \<Rightarrow> string option \<Rightarrow> json \<Rightarrow> py_error + EngineDecision" where
  "evaluate intent ctx acting_for get_active query agent_id knowledge =
     (case get_active of
        None \<Rightarrow> Inr (unpinned OutHumanReview (Some ''no_active_policy''))
      | Some p \<Rightarrow>
          (case query (build_opa_input intent ctx acting_for (ap_version p) agent_id knowledge) of
             Inl OPATimeoutError \<Rightarrow> Inr (pinned p OutHumanReview (Some ''opa_timeout'') [])
           | Inl (OPAEvaluationError code) \<Rightarrow> Inr (pinned p OutHumanReview (Some (''opa_error:'' @ code)) [])
           | Inl (OpaPython e) \<Rightarrow> Inl e
           | Inr r \<Rightarrow> decide p r))"

section \<open>signature.py\<close>

definition decode_public_key :: "string \<Rightarrow> string option" where
  "decode_public_key k = b64decode (last (split_on CHR '':'' k))"

definition verify_request_signature :: "crypto \<Rightarrow> string \<Rightarrow> string \<Rightarrow> string \<Rightarrow> bool" where
  "verify_request_signature C body sig k =
     (case decode_public_key k of None \<Rightarrow> False
      | Some vk \<Rightarrow> (case b64decode sig of None \<Rightarrow> False | Some s \<Rightarrow> ed_verify C vk body s))"

text \<open>\<open>None\<close>: the instant carries no timezone. The window is in seconds.\<close>

definition check_timestamp_window :: "datetime option \<Rightarrow> int \<Rightarrow> datetime \<Rightarrow> bool \<times> string option" where
  "check_timestamp_window requested_at window_seconds now =
     (case requested_at of
        None \<Rightarrow> (False, Some ''requested_at_missing_timezone'')
      | Some t \<Rightarrow> if \<bar>now - t\<bar> > window_seconds * 1000000
                   then (False, Some ''requested_at_outside_window'') else (True, None))"

section \<open>What the compiled bundle yields\<close>

text \<open>
  OPA's result for a compiled bundle, read off the generated module under \<open>Policy_Semantics\<close>: a rule
  named for a policy holds when a policy with that rule name matches; the outcomes and the
  evaluated set are disjunctions over rule names; a reason is defined by the rule that holds.
\<close>

definition rule_holds :: "json \<Rightarrow> RuntimePolicy list \<Rightarrow> RuntimePolicy \<Rightarrow> bool" where
  "rule_holds input ps p = list_ex (\<lambda>q. rule_name_for_policy (rp_id q) = rule_name_for_policy (rp_id p)
     \<and> policy_matches input q) ps"

definition fired :: "json \<Rightarrow> RuntimePolicy list \<Rightarrow> RuntimePolicy list" where
  "fired input ps = filter (rule_holds input ps) ps"

definition reason_of :: "Effect \<Rightarrow> RuntimePolicy list \<Rightarrow> string \<Rightarrow> (string \<times> json) list" where
  "reason_of e qs k = map (\<lambda>q. (k, JStr (''policy_matched:'' @ rp_id q))) (filter (\<lambda>q. effect q = e) qs)"

definition bundle_result :: "RuntimePolicy list \<Rightarrow> json \<Rightarrow> json" where
  "bundle_result ps input =
     (let qs = fired input ps in
      JObj ([(''allow'', JBool (list_ex (\<lambda>q. effect q = ALLOW) qs)),
             (''deny'', JBool (list_ex (\<lambda>q. effect q = DENY) qs \<or> qs = [])),
             (''requires_review'', JBool (list_ex (\<lambda>q. effect q = REQUIRE_HUMAN_REVIEW) qs)),
             (''evaluated_mandates'', JList (map JStr (sort (remdups (map rp_id qs)))))]
            @ reason_of REQUIRE_HUMAN_REVIEW qs ''review_reason'' @ reason_of DENY qs ''deny_reason''
            @ (if qs = [] then [(''deny_reason'', JStr ''no_policy_covers_scope'')] else [])))"

definition verdict :: "RuntimePolicy list \<Rightarrow> json \<Rightarrow> Outcome \<times> string option \<times> string list" where
  "verdict ps input = (case filter (policy_matches input) ps of
     [] \<Rightarrow> (OutDeny, Some ''no_policy_covers_scope'', [])
   | p # _ \<Rightarrow> (case effect p of
        ALLOW \<Rightarrow> (OutAllow, None, [rp_id p])
      | DENY \<Rightarrow> (OutDeny, Some (''policy_matched:'' @ rp_id p), [rp_id p])
      | REQUIRE_HUMAN_REVIEW \<Rightarrow> (OutHumanReview, Some (''policy_matched:'' @ rp_id p), [rp_id p])))"

section \<open>Lemmas\<close>

lemma uuid_rules_fired:
  assumes "\<forall>p \<in> set ps. list_all uuid_char (rp_id p)" and "distinct (map rp_id ps)"
  shows "fired input ps = filter (policy_matches input) ps"
proof -
  have "rule_holds input ps p \<longleftrightarrow> policy_matches input p" if "p \<in> set ps" for p
  proof
    assume "rule_holds input ps p"
    then obtain q where q: "q \<in> set ps" "rule_name_for_policy (rp_id q) = rule_name_for_policy (rp_id p)" "policy_matches input q"
      by (auto simp: rule_holds_def list_ex_iff)
    with rule_name_inject assms(1) that have "rp_id q = rp_id p" by blast
    with assms(2) that q have "q = p" by (auto simp: distinct_map dest: inj_onD)
    with q show "policy_matches input p" by simp
  qed (use that in \<open>auto simp: rule_holds_def list_ex_iff\<close>)
  then show ?thesis by (auto simp: fired_def cong: filter_cong)
qed

lemma decide_bundle_result:
  assumes "fired input ps = filter (policy_matches input) ps"
    and "length (filter (policy_matches input) ps) \<le> 1"
  shows "decide a (bundle_result ps input) =
    Inr (let (out, why, ev) = verdict ps input in pinned a out why ev)"
proof (cases "filter (policy_matches input) ps")
  case Nil
  with assms show ?thesis
    by (simp add: decide_def bundle_result_def verdict_def reason_of_def is_True_def py_get_def py_get_or_def Let_def)
next
  case (Cons p qs)
  with assms(2) have f: "filter (policy_matches input) ps = [p]" by simp
  with assms(1) show ?thesis
    by (cases "effect p")
      (simp_all add: decide_def bundle_result_def verdict_def reason_of_def is_True_def py_get_def py_get_or_def Let_def)
qed

lemma evaluate_cases:
  assumes "evaluate intent ctx acting_for get_active query agent_id knowledge = Inr d"
  obtains (none) "get_active = None" "d = unpinned OutHumanReview (Some ''no_active_policy'')"
  | (failed) p why where "get_active = Some p" "d = pinned p OutHumanReview (Some why) []"
      "\<exists>e. query (build_opa_input intent ctx acting_for (ap_version p) agent_id knowledge) = Inl e"
  | (decided) p r where "get_active = Some p"
      "query (build_opa_input intent ctx acting_for (ap_version p) agent_id knowledge) = Inr r" "decide p r = Inr d"
  using assms by (auto simp: evaluate_def split: option.splits sum.splits opa_error.splits)

lemma decide_outcome:
  assumes "decide p r = Inr d"
  shows "ed_policy_id d = Some (ap_id p) \<and> ed_policy_version d = Some (ap_version p)
    \<and> ed_policy_bundle_hash d = ap_bundle_hash p
    \<and> (ed_outcome d = OutAllow \<longleftrightarrow> is_True r ''allow'' \<and> \<not> is_True r ''deny'' \<and> \<not> is_True r ''requires_review'')
    \<and> (ed_outcome d = OutDeny \<longleftrightarrow> is_True r ''deny'' \<and> \<not> is_True r ''requires_review'')"
  using assms by (auto simp: decide_def pinned_def split: if_splits)

section \<open>Claims\<close>





text \<open>A signed request is accepted by the replay window exactly when its timestamp carries a timezone
  and is at most the window away from the server's clock, in either direction.\<close>

theorem timestamp_window_exact:
  "fst (check_timestamp_window t w now) \<longleftrightarrow> (\<exists>u. t = Some u \<and> now - w * 1000000 \<le> u \<and> u \<le> now + w * 1000000)"
  by (auto simp: check_timestamp_window_def split: option.splits)

end
