(* ===== verification/Lifecycle.thy ===== *)
theory Lifecycle
  imports Db_Models
begin

text \<open>
  The contract that the services with a status column share: agents, organizations, enforcement
  bindings. \<open>status_of\<close> reads the status of a row, \<open>step\<close> is one call of an operation of the service,
  \<open>allowed\<close> is the service's table of transitions. The laws: an operation changes a row's status
  along the table or not at all, and no operation deletes a row. What follows for every service: a
  row that exists keeps existing, its statuses along a run form a path in the table, and a status
  without successors is final.
\<close>

locale lifecycle =
  fixes status_of :: "'d \<Rightarrow> uuid \<Rightarrow> 's option"
    and step :: "'d \<Rightarrow> 'd \<Rightarrow> bool"
    and allowed :: "'s \<Rightarrow> 's \<Rightarrow> bool"
  assumes step_status: "step d d' \<Longrightarrow> status_of d i = Some s \<Longrightarrow>
    \<exists>s'. status_of d' i = Some s' \<and> (s' = s \<or> allowed s s')"
begin

definition terminal :: "'s \<Rightarrow> bool" where
  "terminal s = (\<forall>s'. \<not> allowed s s')"

lemma run_status:
  assumes "step\<^sup>*\<^sup>* d d'" and "status_of d i = Some s"
  shows "\<exists>s'. status_of d' i = Some s' \<and> allowed\<^sup>*\<^sup>* s s'"
  using assms
proof (induction rule: rtranclp_induct)
  case (step y z)
  then obtain s' where s': "status_of y i = Some s'" "allowed\<^sup>*\<^sup>* s s'" by blast
  obtain t where "status_of z i = Some t" "t = s' \<or> allowed s' t"
    using step_status [OF step.hyps(2) s'(1)] by blast
  with s'(2) show ?case by (auto intro: rtranclp.rtrancl_into_rtrancl)
qed auto

lemma terminal_final:
  assumes "terminal s" and "step\<^sup>*\<^sup>* d d'" and "status_of d i = Some s"
  shows "status_of d' i = Some s"
proof -
  obtain s' where "status_of d' i = Some s'" "allowed\<^sup>*\<^sup>* s s'" using run_status [OF assms(2,3)] by blast
  moreover have "s' = s" using \<open>allowed\<^sup>*\<^sup>* s s'\<close> assms(1) by (induction) (auto simp: terminal_def)
  ultimately show ?thesis by simp
qed

lemma run_forbids:
  assumes "step\<^sup>*\<^sup>* d d'" and "status_of d i = Some s" and "\<not> allowed\<^sup>*\<^sup>* s t"
  shows "status_of d' i \<noteq> Some t"
  using run_status [OF assms(1,2)] assms(3) by auto

end

text \<open>How the operations change a table: the rows of a key updated in place, the key kept.\<close>

lemma db_find_update_key:
  assumes "\<And>r. k (f r) = k r"
  shows "db_find (\<lambda>r. k r = i) (db_update (\<lambda>r. k r = j) f t) =
    (if i = j then map_option f (db_find (\<lambda>r. k r = i) t) else db_find (\<lambda>r. k r = i) t)"
  using assms by (induction t) auto

lemma db_find_insert:
  "db_find P t = Some r \<Longrightarrow> db_find P (t @ u) = Some r"
  by (simp add: row_simps)

end
