(* ===== verification/Credentials.thy ===== *)
theory Credentials
  imports Lifecycle
begin

text \<open>
  The contract of the two services that keep certificates, for agents
  (\<^verbatim>\<open>agent_service.py\<close>) and for integration identities (\<^verbatim>\<open>integration_identity_service.py\<close>): an
  owner row with a status, and certificate rows that name their owner. \<open>cred_change\<close> lists what an
  operation may do to the two tables; \<open>creds_ok\<close> is the invariant it keeps: an owner that is not yet
  activated has one issued certificate, an operational owner one active certificate, a revoked or
  retired owner none that is live. The tables and their columns are the parameters of the locale.
\<close>

fun expected_live :: "AgentStatus \<Rightarrow> CertificateStatus list" where
  "expected_live AgRegistered = [CertIssued]"
| "expected_live AgActive = [CertActive]"
| "expected_live AgSuspended = [CertActive]"
| "expected_live AgRevoked = []"
| "expected_live AgRetired = []"

definition upd_first :: "('r \<Rightarrow> uuid) \<Rightarrow> ('r \<Rightarrow> bool) \<Rightarrow> ('r \<Rightarrow> 'r) \<Rightarrow> 'r list \<Rightarrow> 'r list" where
  "upd_first k P f rs = (case db_find P rs of None \<Rightarrow> rs | Some r \<Rightarrow> db_update (\<lambda>x. k x = k r) f rs)"

lemma map_upd_first: "(\<And>x. h (f x) = h x) \<Longrightarrow> map h (upd_first k P f rs) = map h rs"
  by (simp add: upd_first_def row_simps split: option.split)

lemma upd_first_split:
  assumes "distinct (map k rs)" "db_find P rs = Some r" "\<And>x. k (f x) = k x"
  obtains xs ys where "rs = xs @ r # ys" "upd_first k P f rs = xs @ f r # ys" "\<forall>x \<in> set xs. \<not> P x" "P r"
proof -
  from assms(2) obtain xs ys where rs: "rs = xs @ r # ys" "\<forall>x \<in> set xs. \<not> P x" "P r"
    by (induction rs) (auto split: if_splits, (metis append_Cons append_Nil empty_iff list.set(1) set_ConsD)+)
  have "\<forall>x \<in> set xs \<union> set ys. k x \<noteq> k r" using assms(1) rs(1) by (auto simp: rev_image_eqI)
  then have "db_update (\<lambda>x. k x = k r) f xs = xs" "db_update (\<lambda>x. k x = k r) f ys = ys"
    by (auto intro: db_update_id)
  then have "upd_first k P f rs = xs @ f r # ys" using assms(2) rs(1) by (simp add: upd_first_def)
  with rs that show thesis by blast
qed

locale credentials =
  fixes owners :: "'d \<Rightarrow> 'o list" and certs :: "'d \<Rightarrow> 'c list"
    and oid :: "'o \<Rightarrow> uuid" and ost :: "'o \<Rightarrow> AgentStatus"
    and cid :: "'c \<Rightarrow> uuid" and cown :: "'c \<Rightarrow> uuid" and cst :: "'c \<Rightarrow> CertificateStatus"
begin

definition live :: "uuid \<Rightarrow> 'c \<Rightarrow> bool" where
  "live i c = (cown c = i \<and> cst c \<in> {CertIssued, CertActive})"

definition creds_ok :: "'d \<Rightarrow> bool" where
  "creds_ok d = (distinct (map oid (owners d)) \<and> distinct (map cid (certs d))
     \<and> (\<forall>c \<in> set (certs d). cown c \<in> oid ` set (owners d))
     \<and> (\<forall>r \<in> set (owners d). map cst (filter (live (oid r)) (certs d)) = expected_live (ost r)))"

inductive cred_change :: "'d \<Rightarrow> 'd \<Rightarrow> bool" where
  same: "owners d' = owners d \<Longrightarrow> certs d' = certs d \<Longrightarrow> cred_change d d'"
| register: "owners d' = owners d @ [r] \<Longrightarrow> certs d' = certs d @ [c] \<Longrightarrow> oid r \<notin> oid ` set (owners d) \<Longrightarrow>
    cid c \<notin> cid ` set (certs d) \<Longrightarrow> cown c = oid r \<Longrightarrow> ost r = AgRegistered \<Longrightarrow> cst c = CertIssued \<Longrightarrow> cred_change d d'"
| change: "r \<in> set (owners d) \<Longrightarrow> owners d' = db_update (\<lambda>x. oid x = oid r) g (owners d) \<Longrightarrow>
    certs d' = upd_first cid P f (certs d) @ news \<Longrightarrow> (\<And>x. oid (g x) = oid x) \<Longrightarrow> (\<And>x. P x \<Longrightarrow> live (oid r) x) \<Longrightarrow>
    (\<And>x. cid (f x) = cid x \<and> cown (f x) = cown x) \<Longrightarrow> distinct (map cid news) \<Longrightarrow>
    (\<forall>n \<in> set news. cown n = oid r \<and> cid n \<notin> cid ` set (certs d)) \<Longrightarrow>
    (\<And>cs. map cst cs = expected_live (ost r) \<Longrightarrow> (\<forall>c \<in> set cs. cown c = oid r) \<Longrightarrow>
       map cst (filter (live (oid r)) (map (\<lambda>c. if P c then f c else c) cs @ news)) = expected_live (ost (g r))) \<Longrightarrow>
    cred_change d d'"

lemma filter_upd_first:
  assumes "distinct (map cid cs)" "length (filter (live i) cs) \<le> 1" "\<And>x. P x \<Longrightarrow> live i x" "\<And>x. cid (f x) = cid x \<and> cown (f x) = cown x"
  shows "filter (live i) (upd_first cid P f cs) = filter (live i) (map (\<lambda>c. if P c then f c else c) (filter (live i) cs))
    \<and> (j \<noteq> i \<longrightarrow> filter (live j) (upd_first cid P f cs) = filter (live j) cs)"
proof (cases "db_find P cs")
  case None
  then have n: "\<forall>c \<in> set cs. \<not> P c" by (simp add: db_find_None_iff)
  then have "map (\<lambda>c. if P c then f c else c) (filter (live i) cs) = filter (live i) cs" by (intro map_idI) auto
  with None show ?thesis by (simp add: upd_first_def)
next
  case (Some c)
  then obtain xs ys where s: "cs = xs @ c # ys" "upd_first cid P f cs = xs @ f c # ys" "P c"
    using upd_first_split [OF assms(1) Some, of f] assms(4) by metis
  have l: "live i c" using s(3) assms(3) by simp
  with assms(2) s(1) have "filter (live i) xs = []" "filter (live i) ys = []" by auto
  moreover have "\<not> live j c \<and> \<not> live j (f c)" if "j \<noteq> i" using that l assms(4) by (auto simp: live_def)
  ultimately show ?thesis using s l by simp
qed

lemma expected_live_short: "length (expected_live s) \<le> 1"
  by (cases s) auto

lemma live_owned: "c \<in> set (filter (live i) cs) \<Longrightarrow> cown c = i"
  by (simp add: live_def)

lemma creds_ok_register:
  assumes "creds_ok d" "owners d' = owners d @ [r]" "certs d' = certs d @ [c]" "oid r \<notin> oid ` set (owners d)"
    "cid c \<notin> cid ` set (certs d)" "cown c = oid r" "ost r = AgRegistered" "cst c = CertIssued"
  shows "creds_ok d'"
proof -
  have "cown x \<noteq> oid r" if "x \<in> set (certs d)" for x using assms(1,4) that unfolding creds_ok_def by metis
  then have "filter (live (oid r)) (certs d) = []" by (auto simp: live_def filter_empty_conv)
  moreover have "live (oid x) c \<longleftrightarrow> oid x = oid r" for x using assms by (auto simp: live_def)
  moreover have "oid x \<noteq> oid r" if "x \<in> set (owners d)" for x using assms(4) that by (metis imageI)
  ultimately show ?thesis using assms by (auto simp: creds_ok_def)
qed

lemma creds_ok_change:
  assumes ok: "creds_ok d" and r: "r \<in> set (owners d)" and os: "owners d' = db_update (\<lambda>x. oid x = oid r) g (owners d)"
    and cs: "certs d' = upd_first cid P f (certs d) @ news" and g: "\<And>x. oid (g x) = oid x" and P: "\<And>x. P x \<Longrightarrow> live (oid r) x"
    and f: "\<And>x. cid (f x) = cid x \<and> cown (f x) = cown x" and n: "distinct (map cid news)"
    "\<forall>n \<in> set news. cown n = oid r \<and> cid n \<notin> cid ` set (certs d)"
    and e: "\<And>cs. map cst cs = expected_live (ost r) \<Longrightarrow> (\<forall>c \<in> set cs. cown c = oid r) \<Longrightarrow>
       map cst (filter (live (oid r)) (map (\<lambda>c. if P c then f c else c) cs @ news)) = expected_live (ost (g r))"
  shows "creds_ok d'"
proof -
  let ?u = "upd_first cid P f (certs d)"
  have keys: "map cid ?u = map cid (certs d)" "map cown ?u = map cown (certs d)" using f by (simp_all add: map_upd_first)
  have ids: "map oid (owners d') = map oid (owners d)" unfolding os by (rule map_db_update) (rule g)
  have dist: "distinct (map cid (certs d))" and live_r: "map cst (filter (live (oid r)) (certs d)) = expected_live (ost r)"
    using ok r by (auto simp: creds_ok_def)
  have short: "length (filter (live (oid r)) (certs d)) \<le> 1" using expected_live_short live_r by (metis length_map)
  note u = filter_upd_first [OF dist short P f]
  have "set (map cid news) \<inter> set (map cid (certs d)) = {}" using n(2) by auto
  then have d1: "distinct (map cid (certs d'))" using dist n(1) unfolding cs map_append keys(1) distinct_append by blast
  have "cown c \<in> set (map oid (owners d'))" if "c \<in> set (certs d')" for c
  proof -
    have "cown c \<in> set (map cown ?u) \<or> cown c = oid r" using that n(2) cs by auto
    then show ?thesis unfolding keys(2) ids using ok r by (auto simp: creds_ok_def)
  qed
  moreover have "map cst (filter (live (oid x)) (certs d')) = expected_live (ost x)" if x: "x \<in> set (owners d')" for x
  proof -
    obtain y where y: "y \<in> set (owners d)" "x = (if oid y = oid r then g y else y)" using x os by (auto simp: set_db_update)
    show ?thesis
    proof (cases "oid y = oid r")
      case True
      with ok r y(1) have "y = r" by (auto simp: creds_ok_def distinct_map dest: inj_onD)
      moreover have "filter (live (oid r)) (certs d') = filter (live (oid r)) (map (\<lambda>c. if P c then f c else c) (filter (live (oid r)) (certs d)) @ news)"
        using u cs by simp
      ultimately show ?thesis using y(2) g e [OF live_r] live_owned by auto
    next
      case False
      then have "filter (live (oid y)) news = []" using n(2) by (auto simp: filter_empty_conv live_def)
      with False y ok u [where j = "oid y"] cs show ?thesis by (simp add: creds_ok_def)
    qed
  qed
  moreover have "oid ` set (owners d') = oid ` set (owners d)" using arg_cong [OF ids, of set] by simp
  ultimately show ?thesis using d1 ids ok by (simp add: creds_ok_def)
qed

lemma creds_ok_step: "cred_change d d' \<Longrightarrow> creds_ok d \<Longrightarrow> creds_ok d'"
proof (induction rule: cred_change.induct)
  case (same d' d) then show ?case by (simp add: creds_ok_def)
next
  case (register d' d r c) show ?case by (rule creds_ok_register [OF register.prems register.hyps])
next
  case (change r d d' g P f news)
  show ?case
    by (rule creds_ok_change [OF change.prems change.hyps(1-3)]) (fact change.hyps)+
qed

text \<open>What the invariant gives to the check of a signature: an accepted certificate belongs to an operational owner.\<close>

lemma active_cert_operational:
  assumes "creds_ok d" "c \<in> set (certs d)" "cst c = CertActive"
  shows "\<exists>r \<in> set (owners d). oid r = cown c \<and> ost r \<in> {AgActive, AgSuspended}"
proof -
  obtain r where r: "r \<in> set (owners d)" "oid r = cown c" using assms by (auto simp: creds_ok_def)
  have "c \<in> set (filter (live (oid r)) (certs d))" using assms r by (simp add: live_def)
  then have "cst c \<in> set (expected_live (ost r))" using assms(1) r by (metis creds_ok_def image_eqI list.set_map)
  with assms(3) r show ?thesis by (cases "ost r") auto
qed

end

text \<open>A service whose operations are such changes.\<close>

locale credential_service = credentials owners certs oid ost cid cown cst
  for owners :: "'d \<Rightarrow> 'o list" and certs :: "'d \<Rightarrow> 'c list"
    and oid :: "'o \<Rightarrow> uuid" and ost :: "'o \<Rightarrow> AgentStatus"
    and cid :: "'c \<Rightarrow> uuid" and cown :: "'c \<Rightarrow> uuid" and cst :: "'c \<Rightarrow> CertificateStatus" +
  fixes step :: "'d \<Rightarrow> 'd \<Rightarrow> bool"
  assumes step_change: "step d d' \<Longrightarrow> cred_change d d'"
begin

lemma service_run:
  assumes "step\<^sup>*\<^sup>* d d'" "creds_ok d"
  shows "creds_ok d'"
  using assms by (induction rule: rtranclp_induct) (blast intro: creds_ok_step step_change)+

end

end
