(* ===== verification/Agent_Lifecycle.thy ===== *)
theory Agent_Lifecycle
  imports Credentials Decision_Engine
begin

text \<open>
  \<^verbatim>\<open>server/app/services/agent_service.py\<close>: registration, the agent state machine, certificate rotation,
  heartbeats, ownership, and the signed audit trail; with the parts it uses of
  \<^verbatim>\<open>organization_structure_service.py\<close>, \<^verbatim>\<open>sandbox_limits.py\<close> and
  \<^verbatim>\<open>signing_key_service.py\<close>.

  Each operation takes the session state and returns the new state (with the row the code returns)
  or an error. \<open>agent_step\<close> is the step relation of all of them, and the invariant
  \<open>agents_ok\<close> ties an agent's status to its live certificates.
\<close>

datatype AgentError =
    PrincipalNotFoundError uuid
  | AgentNotFoundError uuid
  | InvalidTransitionError uuid AgentStatus string
  | NoActiveCertificateError uuid
  | AuditEventNotFoundError uuid
  | BusinessUnitNotFoundError uuid
  | DepartmentNotFoundError uuid
  | TeamNotFoundError uuid
  | SandboxLimitExceededError string int
  | SigningFailed
  | UnknownBulkAction string

fun ALLOWED_TRANSITIONS :: "AgentStatus \<Rightarrow> AgentStatus list" where
  "ALLOWED_TRANSITIONS AgRegistered = [AgActive, AgRevoked, AgRetired]"
| "ALLOWED_TRANSITIONS AgActive = [AgSuspended, AgRevoked, AgRetired]"
| "ALLOWED_TRANSITIONS AgSuspended = [AgActive, AgRevoked, AgRetired]"
| "ALLOWED_TRANSITIONS AgRevoked = []"
| "ALLOWED_TRANSITIONS AgRetired = []"

definition CERT_LIVE_STATUSES :: "CertificateStatus list" where
  "CERT_LIVE_STATUSES = [CertIssued, CertActive]"

section \<open>Organization structure, sandbox limits, key registry\<close>

definition business_unit_organization_id :: "db \<Rightarrow> uuid \<Rightarrow> uuid option" where
  "business_unit_organization_id d i =
     map_option bu_organization_id (db_find (\<lambda>u. bu_id u = i) (business_units d))"

definition department_organization_id :: "db \<Rightarrow> uuid \<Rightarrow> uuid option" where
  "department_organization_id d i = (case db_find (\<lambda>p. dp_id p = i) (departments d) of
     None \<Rightarrow> None | Some p \<Rightarrow> business_unit_organization_id d (dp_business_unit_id p))"

definition team_organization_id :: "db \<Rightarrow> uuid \<Rightarrow> uuid option" where
  "team_organization_id d i = (case db_find (\<lambda>t. tm_id t = i) (teams d) of
     None \<Rightarrow> None | Some t \<Rightarrow> department_organization_id d (tm_department_id t))"

definition MAX_AGENTS_PER_SANDBOX :: int where "MAX_AGENTS_PER_SANDBOX = 5"

definition is_sandbox_organization :: "db \<Rightarrow> uuid option \<Rightarrow> bool" where
  "is_sandbox_organization d org = (case org of None \<Rightarrow> False
     | Some i \<Rightarrow> (case get_organization_row d i of None \<Rightarrow> False | Some r \<Rightarrow> org_environment r = ''sandbox''))"

definition get_public_key_for_key_id :: "db \<Rightarrow> string \<Rightarrow> string option" where
  "get_public_key_for_key_id d kid = map_option sk_public_key_b64 (db_find (\<lambda>k. sk_key_id k = kid) (signing_keys d))"

definition ensure_current_key_registered :: "string \<Rightarrow> string \<Rightarrow> datetime \<Rightarrow> db \<Rightarrow> db" where
  "ensure_current_key_registered kid pk now d =
     (case db_find (\<lambda>k. sk_key_id k = kid) (signing_keys d) of
        Some _ \<Rightarrow> d
      | None \<Rightarrow> d\<lparr>signing_keys :=
          db_update (\<lambda>k. sk_retired_at k = None) (\<lambda>k. k\<lparr>sk_retired_at := Some now\<rparr>) (signing_keys d)
          @ [\<lparr>sk_key_id = kid, sk_public_key_b64 = pk, sk_created_at = now, sk_retired_at = None\<rparr>]\<rparr>)"

section \<open>Principals\<close>

definition create_principal ::
  "string \<Rightarrow> uuid \<Rightarrow> string option \<Rightarrow> uuid option \<Rightarrow> uuid option \<Rightarrow> uuid option \<Rightarrow> uuid \<Rightarrow> datetime \<Rightarrow> db \<Rightarrow> AgentError + db \<times> Principal" where
  "create_principal nm org rl bu dep tm pid now d =
     rbind (case bu of Some b \<Rightarrow> raise_if (business_unit_organization_id d b \<noteq> Some org) (BusinessUnitNotFoundError b) | None \<Rightarrow> Inr ()) (\<lambda>_.
     rbind (case dep of Some p \<Rightarrow> raise_if (department_organization_id d p \<noteq> Some org) (DepartmentNotFoundError p) | None \<Rightarrow> Inr ()) (\<lambda>_.
     rbind (case tm of Some t \<Rightarrow> raise_if (team_organization_id d t \<noteq> Some org) (TeamNotFoundError t) | None \<Rightarrow> Inr ()) (\<lambda>_.
       let p = \<lparr>pr_id = pid, pr_name = nm, pr_source_document_id = None, pr_organization_id = Some org,
                pr_business_unit_id = bu, pr_department_id = dep, pr_team_id = tm, pr_role = rl, pr_created_at = now\<rparr>
       in Inr (d\<lparr>principals := principals d @ [p]\<rparr>, p))))"

section \<open>Audit events\<close>

definition or_operator :: "string option \<Rightarrow> string" where
  "or_operator actor = (case actor of None \<Rightarrow> ''operator'' | Some a \<Rightarrow> if a = [] then ''operator'' else a)"

definition append_audit_event ::
  "crypto \<Rightarrow> Settings \<Rightarrow> uuid \<Rightarrow> string \<Rightarrow> string option \<Rightarrow> json \<Rightarrow> uuid \<Rightarrow> datetime \<Rightarrow> db \<Rightarrow> AgentError + db" where
  "append_audit_event C S aid event_type actor details eid now d =
     (let payload = JObj [(''event_type'', JStr event_type), (''agent_id'', JStr aid),
            (''actor'', JStr (or_operator actor)), (''details'', details),
            (''recorded_at'', JStr (isoformat now))]
      in case sign_payload C payload (evidence_signing_key_b64 S) (evidence_signing_key_id S) of
           None \<Rightarrow> Inl SigningFailed
         | Some sig \<Rightarrow> Inr (d\<lparr>agent_audit_events := agent_audit_events d @
             [\<lparr>aev_id = eid, aev_agent_id = aid, aev_event_type = event_type,
               aev_actor = Some (or_operator actor), aev_payload = payload,
               aev_key_id = sig_key_id sig, aev_signature = sig_value sig, aev_created_at = now\<rparr>]\<rparr>))"

section \<open>Registration\<close>

definition new_agent :: "uuid \<Rightarrow> string \<Rightarrow> uuid \<Rightarrow> string option \<Rightarrow> string option \<Rightarrow> datetime \<Rightarrow> Agent" where
  "new_agent aid nm pid own descr now = \<lparr>ag_id = aid, ag_name = nm, ag_acting_for_principal_id = pid,
     ag_owner = own, ag_business_unit = None, ag_environment = None, ag_tags = JList [], ag_description = descr,
     ag_purpose = None, ag_model = None, ag_version = None, ag_runtime = None, ag_platform = None,
     ag_labels = JList [], ag_sdk_version = None, ag_last_seen_at = None, ag_rotation_requested_at = None,
     ag_status = AgRegistered, ag_created_at = now, ag_updated_at = now\<rparr>"

definition new_certificate :: "uuid \<Rightarrow> uuid \<Rightarrow> string \<Rightarrow> CertificateStatus \<Rightarrow> datetime option \<Rightarrow> datetime \<Rightarrow> Certificate" where
  "new_certificate cid aid pk st activated now = \<lparr>ct_id = cid, ct_agent_id = aid, ct_public_key = pk, ct_status = st,
     ct_issued_at = now, ct_activated_at = activated, ct_rotated_at = None, ct_expires_at = None, ct_revoked_at = None\<rparr>"

definition agents_of_organization :: "db \<Rightarrow> uuid option \<Rightarrow> Agent list" where
  "agents_of_organization d org = filter (\<lambda>a. case get_principal_row d (ag_acting_for_principal_id a) of
     None \<Rightarrow> False | Some p \<Rightarrow> pr_organization_id p = org) (agents d)"

definition create_agent ::
  "crypto \<Rightarrow> Settings \<Rightarrow> string \<Rightarrow> uuid \<Rightarrow> uuid option \<Rightarrow> string \<Rightarrow> string option \<Rightarrow> string option \<Rightarrow>
   uuid \<Rightarrow> uuid \<Rightarrow> uuid \<Rightarrow> datetime \<Rightarrow> db \<Rightarrow> AgentError + db \<times> Agent \<times> Certificate" where
  "create_agent C S nm pid org pk own descr aid cid eid now d =
     (case get_principal_row d pid of
        None \<Rightarrow> Inl (PrincipalNotFoundError pid)
      | Some p \<Rightarrow>
          if pr_organization_id p \<noteq> org then Inl (PrincipalNotFoundError pid)
          else if is_sandbox_organization d org
               \<and> int (length (agents_of_organization d org)) \<ge> MAX_AGENTS_PER_SANDBOX
          then Inl (SandboxLimitExceededError ''agents'' MAX_AGENTS_PER_SANDBOX)
          else
            let a = new_agent aid nm pid own descr now; c = new_certificate cid aid pk CertIssued None now;
                d1 = d\<lparr>agents := agents d @ [a], certificates := certificates d @ [c]\<rparr>
            in rmap (\<lambda>d2. (d2, a, c))
                 (append_audit_event C S aid ''agent_created'' None
                    (JObj [(''name'', JStr nm), (''principal_id'', JStr pid), (''owner'', opt_str own)]) eid now d1))"

section \<open>Lookups\<close>

definition get_agent :: "db \<Rightarrow> uuid \<Rightarrow> AgentError + Agent" where
  "get_agent d aid = get_or_raise (get_agent_row d aid) (AgentNotFoundError aid)"

definition get_active_certificate_for_agent :: "db \<Rightarrow> uuid \<Rightarrow> Certificate option" where
  "get_active_certificate_for_agent d aid =
     db_find (\<lambda>c. ct_agent_id c = aid \<and> ct_status c = CertActive) (certificates d)"

definition get_active_certificate :: "db \<Rightarrow> uuid \<Rightarrow> Certificate option" where
  "get_active_certificate d cid = (case db_find (\<lambda>c. ct_id c = cid) (certificates d) of
     None \<Rightarrow> None | Some c \<Rightarrow> if ct_status c \<noteq> CertActive then None else Some c)"

definition compute_health :: "Agent \<Rightarrow> datetime \<Rightarrow> string" where
  "compute_health a now =
     (if ag_status a \<notin> {AgActive, AgSuspended} then ''unknown''
      else case ag_last_seen_at a of
        None \<Rightarrow> ''offline''
      | Some t \<Rightarrow> if now - t \<le> 300 * 1000000 then ''healthy''
                   else if now - t \<le> 1800 * 1000000 then ''warning'' else ''offline'')"

section \<open>Transitions\<close>

text \<open>An UPDATE sets \<open>updated_at\<close> when a column changed.\<close>

definition touch :: "datetime \<Rightarrow> (Agent \<Rightarrow> Agent) \<Rightarrow> Agent \<Rightarrow> Agent" where
  "touch now f a = (if f a = a then a else (f a)\<lparr>ag_updated_at := now\<rparr>)"

definition update_agent :: "uuid \<Rightarrow> datetime \<Rightarrow> (Agent \<Rightarrow> Agent) \<Rightarrow> db \<Rightarrow> db" where
  "update_agent aid now f d = d\<lparr>agents := db_update (\<lambda>a. ag_id a = aid) (touch now f) (agents d)\<rparr>"

definition update_certificate :: "uuid \<Rightarrow> (Certificate \<Rightarrow> Certificate) \<Rightarrow> db \<Rightarrow> db" where
  "update_certificate cid f d = d\<lparr>certificates := db_update (\<lambda>c. ct_id c = cid) f (certificates d)\<rparr>"

definition update_found_certificate :: "(Certificate \<Rightarrow> bool) \<Rightarrow> (Certificate \<Rightarrow> Certificate) \<Rightarrow> db \<Rightarrow> db" where
  "update_found_certificate P f d = (case db_find P (certificates d) of
     None \<Rightarrow> d | Some c \<Rightarrow> update_certificate (ct_id c) f d)"

definition returning :: "uuid \<Rightarrow> AgentError + db \<Rightarrow> AgentError + db \<times> Agent" where
  "returning aid r = rbind r (\<lambda>d. rmap (\<lambda>a. (d, a)) (get_agent d aid))"

definition activate_agent ::
  "crypto \<Rightarrow> Settings \<Rightarrow> uuid \<Rightarrow> string option \<Rightarrow> uuid \<Rightarrow> datetime \<Rightarrow> db \<Rightarrow> AgentError + db \<times> Agent" where
  "activate_agent C S aid actor eid now d =
     rbind (get_agent d aid) (\<lambda>a.
     if AgActive \<notin> set (ALLOWED_TRANSITIONS (ag_status a))
     then Inl (InvalidTransitionError aid (ag_status a) ''activate'')
     else
       let from_status = ag_status a;
           d1 = update_agent aid now (\<lambda>a. a\<lparr>ag_status := AgActive\<rparr>) d;
           d2 = update_found_certificate (\<lambda>c. ct_agent_id c = aid \<and> ct_status c = CertIssued)
                  (\<lambda>c. c\<lparr>ct_status := CertActive, ct_activated_at := Some now\<rparr>) d1;
           event_type = (if from_status = AgSuspended then ''agent_reactivated'' else ''agent_activated'')
       in returning aid (append_audit_event C S aid event_type actor
            (JObj [(''from_status'', JStr (AgentStatus_value from_status))]) eid now d2))"

definition suspend_agent ::
  "crypto \<Rightarrow> Settings \<Rightarrow> uuid \<Rightarrow> string option \<Rightarrow> string option \<Rightarrow> uuid \<Rightarrow> datetime \<Rightarrow> db \<Rightarrow> AgentError + db \<times> Agent" where
  "suspend_agent C S aid why actor eid now d =
     rbind (get_agent d aid) (\<lambda>a.
     if AgSuspended \<notin> set (ALLOWED_TRANSITIONS (ag_status a))
     then Inl (InvalidTransitionError aid (ag_status a) ''suspend'')
     else returning aid (append_audit_event C S aid ''agent_suspended'' actor (JObj [(''reason'', opt_str why)]) eid now
            (update_agent aid now (\<lambda>a. a\<lparr>ag_status := AgSuspended\<rparr>) d)))"

definition retire_agent ::
  "crypto \<Rightarrow> Settings \<Rightarrow> uuid \<Rightarrow> string option \<Rightarrow> string option \<Rightarrow> uuid \<Rightarrow> datetime \<Rightarrow> db \<Rightarrow> AgentError + db \<times> Agent" where
  "retire_agent C S aid why actor eid now d =
     rbind (get_agent d aid) (\<lambda>a.
     if AgRetired \<notin> set (ALLOWED_TRANSITIONS (ag_status a))
     then Inl (InvalidTransitionError aid (ag_status a) ''retire'')
     else
       let from_status = ag_status a;
           d1 = update_agent aid now (\<lambda>a. a\<lparr>ag_status := AgRetired\<rparr>) d;
           d2 = update_found_certificate (\<lambda>c. ct_agent_id c = aid \<and> ct_status c \<in> set CERT_LIVE_STATUSES)
                  (\<lambda>c. c\<lparr>ct_status := CertExpired, ct_expires_at := Some now\<rparr>) d1
       in returning aid (append_audit_event C S aid ''agent_retired'' actor
            (JObj [(''from_status'', JStr (AgentStatus_value from_status)), (''reason'', opt_str why)]) eid now d2))"

definition revoke_agent ::
  "crypto \<Rightarrow> Settings \<Rightarrow> uuid \<Rightarrow> string option \<Rightarrow> string option \<Rightarrow> uuid \<Rightarrow> datetime \<Rightarrow> db \<Rightarrow> AgentError + db \<times> Agent" where
  "revoke_agent C S aid why actor eid now d =
     rbind (get_agent d aid) (\<lambda>a.
     if AgRevoked \<notin> set (ALLOWED_TRANSITIONS (ag_status a))
     then Inl (InvalidTransitionError aid (ag_status a) ''revoke'')
     else
       let from_status = ag_status a;
           d1 = update_agent aid now (\<lambda>a. a\<lparr>ag_status := AgRevoked\<rparr>) d;
           d2 = update_found_certificate (\<lambda>c. ct_agent_id c = aid \<and> ct_status c \<in> set CERT_LIVE_STATUSES)
                  (\<lambda>c. c\<lparr>ct_status := CertRevoked, ct_revoked_at := Some now\<rparr>) d1
       in returning aid (append_audit_event C S aid ''agent_revoked'' actor
            (JObj [(''from_status'', JStr (AgentStatus_value from_status)), (''reason'', opt_str why)]) eid now d2))"

definition rotate_certificate ::
  "crypto \<Rightarrow> Settings \<Rightarrow> uuid \<Rightarrow> string \<Rightarrow> string option \<Rightarrow> uuid \<Rightarrow> uuid \<Rightarrow> datetime \<Rightarrow> db \<Rightarrow> AgentError + db \<times> Certificate" where
  "rotate_certificate C S aid new_public_key actor cid eid now d =
     rbind (get_agent d aid) (\<lambda>a.
     if ag_status a \<notin> {AgActive, AgSuspended} then Inl (InvalidTransitionError aid (ag_status a) ''rotate'')
     else rbind (get_or_raise (get_active_certificate_for_agent d aid) (NoActiveCertificateError aid)) (\<lambda>old.
       let d1 = update_certificate (ct_id old) (\<lambda>c. c\<lparr>ct_status := CertRotated, ct_rotated_at := Some now\<rparr>) d;
           new = new_certificate cid aid new_public_key CertActive (Some now) now;
           d2 = d1\<lparr>certificates := certificates d1 @ [new]\<rparr>;
           d3 = update_agent aid now (\<lambda>a. a\<lparr>ag_rotation_requested_at := None\<rparr>) d2
       in rmap (\<lambda>d4. (d4, new)) (append_audit_event C S aid ''certificate_rotated'' actor
            (JObj [(''old_certificate_id'', JStr (ct_id old)), (''new_certificate_id'', JStr cid)]) eid now d3)))"

definition request_certificate_rotation ::
  "crypto \<Rightarrow> Settings \<Rightarrow> uuid \<Rightarrow> string option \<Rightarrow> uuid \<Rightarrow> datetime \<Rightarrow> db \<Rightarrow> AgentError + db \<times> Agent" where
  "request_certificate_rotation C S aid actor eid now d =
     rbind (get_agent d aid) (\<lambda>a. returning aid
       (append_audit_event C S aid ''certificate_rotation_requested'' actor (JObj []) eid now
          (update_agent aid now (\<lambda>a. a\<lparr>ag_rotation_requested_at := Some now\<rparr>) d)))"

definition record_heartbeat ::
  "uuid \<Rightarrow> string option \<Rightarrow> string option \<Rightarrow> string option \<Rightarrow> datetime \<Rightarrow> db \<Rightarrow> AgentError + db \<times> Agent" where
  "record_heartbeat aid ver sdk rt now d =
     rbind (get_agent d aid) (\<lambda>a. returning aid (Inr (update_agent aid now (\<lambda>a.
       a\<lparr>ag_last_seen_at := Some now,
         ag_version := (if ver = None then ag_version a else ver),
         ag_sdk_version := (if sdk = None then ag_sdk_version a else sdk),
         ag_runtime := (if rt = None then ag_runtime a else rt)\<rparr>) d)))"

definition transfer_owner ::
  "crypto \<Rightarrow> Settings \<Rightarrow> uuid \<Rightarrow> string \<Rightarrow> string option \<Rightarrow> string option \<Rightarrow> uuid \<Rightarrow> datetime \<Rightarrow> db \<Rightarrow> AgentError + db \<times> Agent" where
  "transfer_owner C S aid new_owner new_business_unit actor eid now d =
     rbind (get_agent d aid) (\<lambda>a.
       let to_unit = (if new_business_unit = None then ag_business_unit a else new_business_unit)
       in returning aid (append_audit_event C S aid ''owner_changed'' actor
            (JObj [(''from_owner'', opt_str (ag_owner a)), (''to_owner'', JStr new_owner),
                   (''from_business_unit'', opt_str (ag_business_unit a)), (''to_business_unit'', opt_str to_unit)]) eid now
            (update_agent aid now (\<lambda>a. a\<lparr>ag_owner := Some new_owner, ag_business_unit := to_unit\<rparr>) d)))"

text \<open>The fields the PATCH endpoint passes; a \<open>None\<close> is left as it is.\<close>

datatype AgentField =
    Description string | Purpose string | Model string | Version string | Runtime string
  | Platform string | Environment string | Tags json | Labels json

fun set_field :: "AgentField \<Rightarrow> Agent \<Rightarrow> Agent" where
  "set_field (Description x) a = a\<lparr>ag_description := Some x\<rparr>"
| "set_field (Purpose x) a = a\<lparr>ag_purpose := Some x\<rparr>"
| "set_field (Model x) a = a\<lparr>ag_model := Some x\<rparr>"
| "set_field (Version x) a = a\<lparr>ag_version := Some x\<rparr>"
| "set_field (Runtime x) a = a\<lparr>ag_runtime := Some x\<rparr>"
| "set_field (Platform x) a = a\<lparr>ag_platform := Some x\<rparr>"
| "set_field (Environment x) a = a\<lparr>ag_environment := Some x\<rparr>"
| "set_field (Tags x) a = a\<lparr>ag_tags := x\<rparr>"
| "set_field (Labels x) a = a\<lparr>ag_labels := x\<rparr>"

definition update_agent_metadata :: "uuid \<Rightarrow> AgentField option list \<Rightarrow> datetime \<Rightarrow> db \<Rightarrow> AgentError + db \<times> Agent" where
  "update_agent_metadata aid fs now d =
     rbind (get_agent d aid) (\<lambda>a. returning aid (Inr (update_agent aid now
       (fold (\<lambda>f. case f of None \<Rightarrow> id | Some f \<Rightarrow> set_field f) fs) d)))"

section \<open>Audit verification\<close>

definition get_audit_event :: "db \<Rightarrow> uuid \<Rightarrow> AgentError + AgentAuditEvent" where
  "get_audit_event d eid = get_or_raise (db_find (\<lambda>e. aev_id e = eid) (agent_audit_events d)) (AuditEventNotFoundError eid)"

definition verify_audit_event :: "crypto \<Rightarrow> Settings \<Rightarrow> uuid \<Rightarrow> db \<Rightarrow> AgentError + bool \<times> string" where
  "verify_audit_event C S eid d =
     rbind (get_audit_event d eid) (\<lambda>e.
       let registered = get_public_key_for_key_id d (aev_key_id e);
           pk = (case registered of Some k \<Rightarrow> Some k
                 | None \<Rightarrow> public_key_b64_from_signing_key_b64 C (evidence_signing_key_b64 S))
       in case pk of
            None \<Rightarrow> Inl SigningFailed
          | Some k \<Rightarrow> Inr (verify_payload C (aev_payload e)
              \<lparr>algorithm = ''ed25519'', sig_key_id = aev_key_id e, sig_value = aev_signature e\<rparr> k, aev_key_id e))"

section \<open>Bulk operations\<close>

definition agent_organization_id :: "db \<Rightarrow> uuid \<Rightarrow> uuid option" where
  "agent_organization_id d aid = (case get_agent_row d aid of
     None \<Rightarrow> None
   | Some a \<Rightarrow> (case get_principal_row d (ag_acting_for_principal_id a) of
        None \<Rightarrow> None | Some p \<Rightarrow> pr_organization_id p))"

datatype BulkAction = BulkSuspend | BulkActivate | BulkRetire | BulkRequestRotation

definition bulk_action_of :: "string \<Rightarrow> BulkAction option" where
  "bulk_action_of a = map_of [(''suspend'', BulkSuspend), (''activate'', BulkActivate), (''retire'', BulkRetire),
     (''request_rotation'', BulkRequestRotation)] a"

fun bulk_fn ::
  "crypto \<Rightarrow> Settings \<Rightarrow> BulkAction \<Rightarrow> string option \<Rightarrow> string option \<Rightarrow> uuid \<Rightarrow> uuid \<Rightarrow> datetime \<Rightarrow> db \<Rightarrow> AgentError + db \<times> Agent" where
  "bulk_fn C S BulkSuspend why actor aid eid now d = suspend_agent C S aid why actor eid now d"
| "bulk_fn C S BulkActivate why actor aid eid now d = activate_agent C S aid actor eid now d"
| "bulk_fn C S BulkRetire why actor aid eid now d = retire_agent C S aid why actor eid now d"
| "bulk_fn C S BulkRequestRotation why actor aid eid now d = request_certificate_rotation C S aid actor eid now d"

fun error_text :: "AgentError \<Rightarrow> string option" where
  "error_text (AgentNotFoundError i) = Some i"
| "error_text (NoActiveCertificateError i) = Some i"
| "error_text (InvalidTransitionError i st act) = Some (''cannot '' @ act @ '' agent '' @ i @ '' from status ''
     @ [char_of (39 :: nat)] @ AgentStatus_value st @ [char_of (39 :: nat)])"
| "error_text _ = None"

record BulkResult =
  br_agent_id :: uuid
  br_ok :: bool
  br_error :: "string option"

text \<open>Each entry pairs an agent with the id its audit event would get. An error the loop does not catch
  ends the call.\<close>

fun bulk_loop ::
  "crypto \<Rightarrow> Settings \<Rightarrow> BulkAction \<Rightarrow> uuid option \<Rightarrow> string option \<Rightarrow> string option \<Rightarrow> datetime \<Rightarrow>
   (uuid \<times> uuid) list \<Rightarrow> db \<Rightarrow> AgentError + db \<times> BulkResult list" where
  "bulk_loop C S act org why actor now [] d = Inr (d, [])"
| "bulk_loop C S act org why actor now ((aid, eid) # rest) d =
     (if agent_organization_id d aid \<noteq> org then
        rmap (apsnd (Cons \<lparr>br_agent_id = aid, br_ok = False, br_error = Some aid\<rparr>))
          (bulk_loop C S act org why actor now rest d)
      else case bulk_fn C S act why actor aid eid now d of
        Inr (d', _) \<Rightarrow> rmap (apsnd (Cons \<lparr>br_agent_id = aid, br_ok = True, br_error = None\<rparr>))
                       (bulk_loop C S act org why actor now rest d')
      | Inl e \<Rightarrow> (case error_text e of
          None \<Rightarrow> Inl e
        | Some t \<Rightarrow> rmap (apsnd (Cons \<lparr>br_agent_id = aid, br_ok = False, br_error = Some t\<rparr>))
                      (bulk_loop C S act org why actor now rest d)))"

definition bulk_transition ::
  "crypto \<Rightarrow> Settings \<Rightarrow> (uuid \<times> uuid) list \<Rightarrow> string \<Rightarrow> uuid option \<Rightarrow> string option \<Rightarrow> string option \<Rightarrow> datetime \<Rightarrow>
   db \<Rightarrow> AgentError + db \<times> BulkResult list" where
  "bulk_transition C S agent_ids act org why actor now d =
     (case bulk_action_of act of
        None \<Rightarrow> Inl (UnknownBulkAction act)
      | Some b \<Rightarrow> bulk_loop C S b org why actor now agent_ids d)"

section \<open>One step of the service\<close>

text \<open>Keys handed to an insertion are fresh: \<open>uuid4\<close> and the primary key constraint.\<close>

definition fresh_agent :: "db \<Rightarrow> uuid \<Rightarrow> bool" where
  "fresh_agent d i = (i \<notin> ag_id ` set (agents d) \<and> i \<notin> ct_agent_id ` set (certificates d))"

definition fresh_certificate :: "db \<Rightarrow> uuid \<Rightarrow> bool" where
  "fresh_certificate d i = (i \<notin> ct_id ` set (certificates d))"

inductive agent_step :: "db \<Rightarrow> db \<Rightarrow> bool" where
  principal: "create_principal nm org rl bu dep tm pid now d = Inr (d', p) \<Longrightarrow> agent_step d d'"
| create: "create_agent C S nm pid org pk own descr aid cid eid now d = Inr (d', r) \<Longrightarrow>
    fresh_agent d aid \<Longrightarrow> fresh_certificate d cid \<Longrightarrow> agent_step d d'"
| activate: "activate_agent C S aid actor eid now d = Inr (d', a) \<Longrightarrow> agent_step d d'"
| suspend: "suspend_agent C S aid why actor eid now d = Inr (d', a) \<Longrightarrow> agent_step d d'"
| retire: "retire_agent C S aid why actor eid now d = Inr (d', a) \<Longrightarrow> agent_step d d'"
| revoke: "revoke_agent C S aid why actor eid now d = Inr (d', a) \<Longrightarrow> agent_step d d'"
| rotate: "rotate_certificate C S aid pk actor cid eid now d = Inr (d', c) \<Longrightarrow>
    fresh_certificate d cid \<Longrightarrow> agent_step d d'"
| request: "request_certificate_rotation C S aid actor eid now d = Inr (d', a) \<Longrightarrow> agent_step d d'"
| heartbeat: "record_heartbeat aid ver sdk rt now d = Inr (d', a) \<Longrightarrow> agent_step d d'"
| transfer: "transfer_owner C S aid ow bu actor eid now d = Inr (d', a) \<Longrightarrow> agent_step d d'"
| metadata: "update_agent_metadata aid fs now d = Inr (d', a) \<Longrightarrow> agent_step d d'"

section \<open>What each operation changes\<close>

lemma append_audit_event_frame:
  "append_audit_event C S aid ty actor det eid now d = Inr d' \<Longrightarrow>
   agents d' = agents d \<and> certificates d' = certificates d \<and> principals d' = principals d
   \<and> organizations d' = organizations d"
  by (auto simp: append_audit_event_def Let_def split: option.splits)

lemma update_simps [simp]:
  "agents (update_agent aid now f d) = db_update (\<lambda>a. ag_id a = aid) (touch now f) (agents d)"
  "certificates (update_agent aid now f d) = certificates d"
  "principals (update_agent aid now f d) = principals d"
  "agents (update_certificate cid g d) = agents d"
  "principals (update_certificate cid g d) = principals d"
  "principals (update_found_certificate P g d) = principals d"
  "certificates (update_certificate cid g d) = db_update (\<lambda>c. ct_id c = cid) g (certificates d)"
  "agents (update_found_certificate P g d) = agents d"
  by (simp_all add: update_agent_def update_certificate_def update_found_certificate_def split: option.splits)

lemma get_agent_Inr [simp]: "get_agent d aid = Inr a \<longleftrightarrow> get_agent_row d aid = Some a"
  by (simp add: get_agent_def)

lemma returning_Inr: "returning aid r = Inr (d, a) \<Longrightarrow> r = Inr d"
  by (auto simp: returning_def)

lemma touch_id: "(\<And>a. ag_id (f a) = ag_id a) \<Longrightarrow> ag_id (touch now f a) = ag_id a"
  by (simp add: touch_def)

lemma touch_status: "ag_status (touch now f a) = ag_status (f a)"
  by (simp add: touch_def)

lemma set_field_frame [simp]: "ag_id (set_field f a) = ag_id a" "ag_status (set_field f a) = ag_status a"
  by (cases f; simp)+

lemma fold_set_field_frame:
  "ag_id (fold (\<lambda>f. case f of None \<Rightarrow> id | Some f \<Rightarrow> set_field f) fs a) = ag_id a
   \<and> ag_status (fold (\<lambda>f. case f of None \<Rightarrow> id | Some f \<Rightarrow> set_field f) fs a) = ag_status a"
  by (induction fs arbitrary: a) (auto split: option.splits)

lemma certificates_update_found [simp]:
  "certificates (update_found_certificate P f d) = upd_first ct_id P f (certificates d)"
  by (simp add: update_found_certificate_def upd_first_def update_certificate_def split: option.splits)

definition changes :: "db \<Rightarrow> uuid \<Rightarrow> Agent \<Rightarrow> (Agent \<Rightarrow> Agent) \<Rightarrow> Certificate list \<Rightarrow> db \<Rightarrow> bool" where
  "changes d aid a g cs d' = (get_agent_row d aid = Some a \<and> (\<forall>x. ag_id (g x) = ag_id x)
     \<and> agents d' = db_update (\<lambda>x. ag_id x = aid) g (agents d) \<and> certificates d' = cs \<and> principals d' = principals d)"

lemma activate_changes:
  assumes "activate_agent C S aid actor eid now d = Inr (d', r)"
  shows "\<exists>a. AgActive \<in> set (ALLOWED_TRANSITIONS (ag_status a))
    \<and> changes d aid a (touch now (\<lambda>a. a\<lparr>ag_status := AgActive\<rparr>))
        (upd_first ct_id (\<lambda>c. ct_agent_id c = aid \<and> ct_status c = CertIssued)
           (\<lambda>c. c\<lparr>ct_status := CertActive, ct_activated_at := Some now\<rparr>) (certificates d)) d'"
  using assms
  by (auto simp: activate_agent_def changes_def touch_id Let_def dest!: returning_Inr append_audit_event_frame
      split: if_splits)

lemma suspend_changes:
  assumes "suspend_agent C S aid why actor eid now d = Inr (d', r)"
  shows "\<exists>a. AgSuspended \<in> set (ALLOWED_TRANSITIONS (ag_status a))
    \<and> changes d aid a (touch now (\<lambda>a. a\<lparr>ag_status := AgSuspended\<rparr>)) (certificates d) d'"
  using assms
  by (auto simp: suspend_agent_def changes_def touch_id dest!: returning_Inr append_audit_event_frame split: if_splits)

lemma retire_changes:
  assumes "retire_agent C S aid why actor eid now d = Inr (d', r)"
  shows "\<exists>a. AgRetired \<in> set (ALLOWED_TRANSITIONS (ag_status a))
    \<and> changes d aid a (touch now (\<lambda>a. a\<lparr>ag_status := AgRetired\<rparr>))
        (upd_first ct_id (\<lambda>c. ct_agent_id c = aid \<and> ct_status c \<in> set CERT_LIVE_STATUSES)
           (\<lambda>c. c\<lparr>ct_status := CertExpired, ct_expires_at := Some now\<rparr>) (certificates d)) d'"
  using assms
  by (auto simp: retire_agent_def changes_def touch_id Let_def dest!: returning_Inr append_audit_event_frame
      split: if_splits)

lemma revoke_changes:
  assumes "revoke_agent C S aid why actor eid now d = Inr (d', r)"
  shows "\<exists>a. AgRevoked \<in> set (ALLOWED_TRANSITIONS (ag_status a))
    \<and> changes d aid a (touch now (\<lambda>a. a\<lparr>ag_status := AgRevoked\<rparr>))
        (upd_first ct_id (\<lambda>c. ct_agent_id c = aid \<and> ct_status c \<in> set CERT_LIVE_STATUSES)
           (\<lambda>c. c\<lparr>ct_status := CertRevoked, ct_revoked_at := Some now\<rparr>) (certificates d)) d'"
  using assms
  by (auto simp: revoke_agent_def changes_def touch_id Let_def dest!: returning_Inr append_audit_event_frame
      split: if_splits)

lemma rotate_changes:
  assumes "rotate_certificate C S aid pk actor cid eid now d = Inr (d', r)"
  shows "\<exists>a old. ag_status a \<in> {AgActive, AgSuspended} \<and> get_active_certificate_for_agent d aid = Some old
    \<and> changes d aid a (touch now (\<lambda>a. a\<lparr>ag_rotation_requested_at := None\<rparr>))
        (db_update (\<lambda>x. ct_id x = ct_id old) (\<lambda>c. c\<lparr>ct_status := CertRotated, ct_rotated_at := Some now\<rparr>) (certificates d)
         @ [new_certificate cid aid pk CertActive (Some now) now]) d'"
  using assms
  by (auto simp: rotate_certificate_def changes_def touch_id Let_def
      dest!: append_audit_event_frame split: if_splits)

text \<open>The operations that touch neither a status nor a certificate.\<close>

lemma quiet_changes:
  assumes "request_certificate_rotation C S aid actor eid now d = Inr (d', r)
    \<or> record_heartbeat aid ver sdk rt now d = Inr (d', r)
    \<or> transfer_owner C S aid ow bu actor eid now d = Inr (d', r)
    \<or> update_agent_metadata aid fs now d = Inr (d', r)"
  shows "\<exists>a g. (\<forall>x. ag_status (g x) = ag_status x) \<and> changes d aid a g (certificates d) d'"
proof -
  have ch: "changes d aid a (touch now f) (certificates d) d' \<and> (\<forall>x. ag_status (touch now f x) = ag_status x)"
    if "get_agent_row d aid = Some a" "\<And>x. ag_id (f x) = ag_id x" "\<And>x. ag_status (f x) = ag_status x"
      "agents d' = db_update (\<lambda>x. ag_id x = aid) (touch now f) (agents d)" "certificates d' = certificates d" "principals d' = principals d"
    for a f using that by (auto simp: changes_def touch_id touch_status)
  from assms consider
      "request_certificate_rotation C S aid actor eid now d = Inr (d', r)" | "record_heartbeat aid ver sdk rt now d = Inr (d', r)"
    | "transfer_owner C S aid ow bu actor eid now d = Inr (d', r)" | "update_agent_metadata aid fs now d = Inr (d', r)" by blast
  then have "\<exists>a f. get_agent_row d aid = Some a \<and> (\<forall>x. ag_id (f x) = ag_id x) \<and> (\<forall>x. ag_status (f x) = ag_status x)
    \<and> agents d' = db_update (\<lambda>x. ag_id x = aid) (touch now f) (agents d) \<and> certificates d' = certificates d \<and> principals d' = principals d"
  proof cases
    case 1
    then show ?thesis
      by (auto simp: request_certificate_rotation_def dest!: returning_Inr append_audit_event_frame intro!: exI [of _ "\<lambda>a. a\<lparr>ag_rotation_requested_at := Some now\<rparr>"])
  next
    case 2
    then show ?thesis
      by (auto simp: record_heartbeat_def update_agent_def dest!: returning_Inr intro!: exI [of _ "\<lambda>a. a\<lparr>ag_last_seen_at := Some now,
         ag_version := (if ver = None then ag_version a else ver),
         ag_sdk_version := (if sdk = None then ag_sdk_version a else sdk),
         ag_runtime := (if rt = None then ag_runtime a else rt)\<rparr>"])
  next
    case 3
    then obtain a where a: "get_agent_row d aid = Some a" by (auto simp: transfer_owner_def)
    with 3 show ?thesis
      by (auto simp: transfer_owner_def Let_def dest!: returning_Inr append_audit_event_frame intro!: exI [of _ "\<lambda>x. x\<lparr>ag_owner := Some ow,
         ag_business_unit := (if bu = None then ag_business_unit a else bu)\<rparr>"])
  next
    case 4
    then show ?thesis
      by (auto simp: update_agent_metadata_def update_agent_def fold_set_field_frame dest!: returning_Inr
          intro!: exI [of _ "fold (\<lambda>f. case f of None \<Rightarrow> id | Some f \<Rightarrow> set_field f) fs"])
  qed
  with ch show ?thesis by blast
qed

section \<open>Status along a run\<close>

definition agent_status :: "db \<Rightarrow> uuid \<Rightarrow> AgentStatus option" where
  "agent_status d i = map_option ag_status (get_agent_row d i)"

definition agent_may :: "AgentStatus \<Rightarrow> AgentStatus \<Rightarrow> bool" where
  "agent_may s s' = (s' \<in> set (ALLOWED_TRANSITIONS s))"

lemma changes_status:
  assumes "changes d aid a g cs d'"
  shows "agent_status d' i = (if i = aid then Some (ag_status (g a)) else agent_status d i)"
  using assms by (auto simp: changes_def agent_status_def get_agent_row_def db_find_update_key)

lemma create_agent_frame:
  assumes "create_agent C S nm pid org pk own descr aid cid eid now d = Inr (d', r)"
  shows "agents d' = agents d @ [new_agent aid nm pid own descr now]
    \<and> certificates d' = certificates d @ [new_certificate cid aid pk CertIssued None now]
    \<and> principals d' = principals d"
  using assms by (auto simp: create_agent_def Let_def dest!: append_audit_event_frame split: option.splits if_splits)

lemma create_principal_frame:
  assumes "create_principal nm org rl bu dep tm pid now d = Inr (d', p)"
  shows "agents d' = agents d \<and> certificates d' = certificates d \<and> principals d' = principals d @ [p]"
  using assms by (auto simp: create_principal_def Let_def)

lemma touch_status_update [simp]: "ag_status (touch now (\<lambda>a. a\<lparr>ag_status := s\<rparr>) a) = s"
  "ag_status (touch now (\<lambda>a. a\<lparr>ag_rotation_requested_at := x\<rparr>) a) = ag_status a"
  by (simp_all add: touch_status)

lemma agent_step_status:
  assumes "agent_step d d'" and "agent_status d i = Some s"
  shows "\<exists>s'. agent_status d' i = Some s' \<and> (s' = s \<or> agent_may s s')"
proof -
  have via: ?thesis if "changes d aid a g cs d'" "ag_status (g a) = ag_status a \<or> agent_may (ag_status a) (ag_status (g a))" for aid a g cs
    using that assms(2) changes_status [OF that(1), of i] by (auto simp: changes_def agent_status_def split: if_splits)
  show ?thesis
    using assms(1)
  proof cases
    case (principal nm org rl bu dep tm pid now p)
    then show ?thesis using assms(2) create_principal_frame by (fastforce simp: agent_status_def get_agent_row_def)
  next
    case (create C S nm pid org pk own descr aid cid eid now r)
    then show ?thesis using assms(2) create_agent_frame [OF create(1)] by (auto simp: agent_status_def get_agent_row_def row_simps)
  next
    case (activate C S aid actor eid now a)
    from activate_changes [OF this] show ?thesis by (elim exE conjE) (rule via, assumption, simp add: agent_may_def)
  next
    case (suspend C S aid why actor eid now a)
    from suspend_changes [OF this] show ?thesis by (elim exE conjE) (rule via, assumption, simp add: agent_may_def)
  next
    case (retire C S aid why actor eid now a)
    from retire_changes [OF this] show ?thesis by (elim exE conjE) (rule via, assumption, simp add: agent_may_def)
  next
    case (revoke C S aid why actor eid now a)
    from revoke_changes [OF this] show ?thesis by (elim exE conjE) (rule via, assumption, simp add: agent_may_def)
  next
    case (rotate C S aid pk actor cid eid now c) 
    from rotate_changes [OF this(1)] show ?thesis by (elim exE conjE) (rule via, assumption, simp)
  next
    case (request C S aid actor eid now a) then show ?thesis using quiet_changes via by meson
  next
    case (heartbeat aid ver sdk rt now a) then show ?thesis using quiet_changes via by meson
  next
    case (transfer C S aid ow bu actor eid now a) then show ?thesis using quiet_changes via by meson
  next
    case (metadata aid fs now a) then show ?thesis using quiet_changes via by meson
  qed
qed

interpretation agent_lifecycle: lifecycle agent_status agent_step agent_may
  by unfold_locales (rule agent_step_status)

lemma agent_terminal: "agent_lifecycle.terminal AgRevoked" "agent_lifecycle.terminal AgRetired"
  by (simp_all add: agent_lifecycle.terminal_def agent_may_def)

section \<open>Live certificates\<close>

definition live_for :: "uuid \<Rightarrow> Certificate \<Rightarrow> bool" where
  "live_for aid c = (ct_agent_id c = aid \<and> ct_status c \<in> {CertIssued, CertActive})"

definition live_certs :: "db \<Rightarrow> uuid \<Rightarrow> Certificate list" where
  "live_certs d aid = filter (live_for aid) (certificates d)"

definition agents_ok :: "db \<Rightarrow> bool" where
  "agents_ok d = (distinct (map ag_id (agents d)) \<and> distinct (map ct_id (certificates d))
     \<and> (\<forall>c \<in> set (certificates d). ct_agent_id c \<in> ag_id ` set (agents d))
     \<and> (\<forall>a \<in> set (agents d). map ct_status (live_certs d (ag_id a)) = expected_live (ag_status a)))"

interpretation agent_creds: credentials agents certificates ag_id ag_status ct_id ct_agent_id ct_status .

lemma live_for_live: "live_for = agent_creds.live"
  by (simp add: fun_eq_iff live_for_def agent_creds.live_def)

lemma agents_ok_creds: "agents_ok d = agent_creds.creds_ok d"
  by (simp add: agents_ok_def agent_creds.creds_ok_def live_certs_def live_for_live)

lemma row_live:
  assumes "agents_ok d" and "get_agent_row d aid = Some a"
  shows "map ct_status (live_certs d aid) = expected_live (ag_status a)"
  using assms db_find_Some by (fastforce simp: get_agent_row_def agents_ok_def)

lemma changes_cred:
  assumes ch: "changes d aid a g (upd_first ct_id P f (certificates d) @ news) d'"
    and P: "\<And>x. P x \<Longrightarrow> live_for aid x" and f: "\<And>x. ct_id (f x) = ct_id x \<and> ct_agent_id (f x) = ct_agent_id x"
    and n: "distinct (map ct_id news)" "\<forall>n \<in> set news. ct_agent_id n = aid \<and> ct_id n \<notin> ct_id ` set (certificates d)"
    and e: "\<And>cs. map ct_status cs = expected_live (ag_status a) \<Longrightarrow> (\<forall>c \<in> set cs. ct_agent_id c = aid) \<Longrightarrow>
       map ct_status (filter (live_for aid) (map (\<lambda>c. if P c then f c else c) cs @ news)) = expected_live (ag_status (g a))"
  shows "agent_creds.cred_change d d'"
proof -
  have a: "a \<in> set (agents d)" "ag_id a = aid" using ch db_find_Some by (fastforce simp: changes_def get_agent_row_def)+
  show ?thesis
    by (rule agent_creds.cred_change.change [of a d d' g P f news])
      (use ch P f n e in \<open>simp_all add: a changes_def live_for_live\<close>)
qed

lemma changes_cred_quiet:
  assumes "changes d aid a g (certificates d) d'" "expected_live (ag_status (g a)) = expected_live (ag_status a)"
  shows "agent_creds.cred_change d d'"
proof (rule changes_cred [where P = "\<lambda>_. False" and f = id and news = "[]"])
  show "changes d aid a g (upd_first ct_id (\<lambda>_. False) id (certificates d) @ []) d'"
    using assms(1) db_find_None_iff [of "\<lambda>_. False" "certificates d"] by (simp add: upd_first_def)
  show "map ct_status (filter (live_for aid) (map (\<lambda>c. if False then id c else c) cs @ [])) = expected_live (ag_status (g a))"
    if "map ct_status cs = expected_live (ag_status a)" "\<forall>c \<in> set cs. ct_agent_id c = aid" for cs
    using that assms(2) by (cases "ag_status a") (auto simp: live_for_def)
qed auto

lemma agent_step_cred:
  assumes "agent_step d d'"
  shows "agent_creds.cred_change d d'"
  using assms
proof cases
  case (principal nm org rl bu dep tm pid now p)
  then show ?thesis using create_principal_frame [OF principal] by (simp add: agent_creds.cred_change.same)
next
  case (create C S nm pid org pk own descr aid cid eid now r)
  then show ?thesis using create_agent_frame [OF create(1)]
    by (intro agent_creds.cred_change.register [of d' d "new_agent aid nm pid own descr now" "new_certificate cid aid pk CertIssued None now"])
      (auto simp: fresh_agent_def fresh_certificate_def new_agent_def new_certificate_def)
next
  case (activate C S aid actor eid now r)
  then obtain a where a: "AgActive \<in> set (ALLOWED_TRANSITIONS (ag_status a))"
    "changes d aid a (touch now (\<lambda>a. a\<lparr>ag_status := AgActive\<rparr>))
      (upd_first ct_id (\<lambda>c. ct_agent_id c = aid \<and> ct_status c = CertIssued)
        (\<lambda>c. c\<lparr>ct_status := CertActive, ct_activated_at := Some now\<rparr>) (certificates d) @ []) d'"
    using activate_changes by fastforce
  show ?thesis by (rule changes_cred [OF a(2)]) (use a(1) in \<open>cases "ag_status a"; auto simp: live_for_def\<close>)+
next
  case (suspend C S aid why actor eid now r)
  then obtain a where a: "AgSuspended \<in> set (ALLOWED_TRANSITIONS (ag_status a))"
    "changes d aid a (touch now (\<lambda>a. a\<lparr>ag_status := AgSuspended\<rparr>)) (certificates d) d'"
    using suspend_changes by blast
  then show ?thesis by (intro changes_cred_quiet) (cases "ag_status a"; auto)+
next
  case (retire C S aid why actor eid now r)
  then obtain a where a: "AgRetired \<in> set (ALLOWED_TRANSITIONS (ag_status a))"
    "changes d aid a (touch now (\<lambda>a. a\<lparr>ag_status := AgRetired\<rparr>))
      (upd_first ct_id (\<lambda>c. ct_agent_id c = aid \<and> ct_status c \<in> set CERT_LIVE_STATUSES)
        (\<lambda>c. c\<lparr>ct_status := CertExpired, ct_expires_at := Some now\<rparr>) (certificates d) @ []) d'"
    using retire_changes by fastforce
  show ?thesis by (rule changes_cred [OF a(2)]) (use a(1) in \<open>cases "ag_status a"; auto simp: live_for_def CERT_LIVE_STATUSES_def\<close>)+
next
  case (revoke C S aid why actor eid now r)
  then obtain a where a: "AgRevoked \<in> set (ALLOWED_TRANSITIONS (ag_status a))"
    "changes d aid a (touch now (\<lambda>a. a\<lparr>ag_status := AgRevoked\<rparr>))
      (upd_first ct_id (\<lambda>c. ct_agent_id c = aid \<and> ct_status c \<in> set CERT_LIVE_STATUSES)
        (\<lambda>c. c\<lparr>ct_status := CertRevoked, ct_revoked_at := Some now\<rparr>) (certificates d) @ []) d'"
    using revoke_changes by fastforce
  show ?thesis by (rule changes_cred [OF a(2)]) (use a(1) in \<open>cases "ag_status a"; auto simp: live_for_def CERT_LIVE_STATUSES_def\<close>)+
next
  case (rotate C S aid pk actor cid eid now c)
  let ?P = "\<lambda>c. ct_agent_id c = aid \<and> ct_status c = CertActive" and ?f = "\<lambda>c. c\<lparr>ct_status := CertRotated, ct_rotated_at := Some now\<rparr>"
  obtain a old where a: "ag_status a \<in> {AgActive, AgSuspended}" "get_active_certificate_for_agent d aid = Some old"
    and ch: "changes d aid a (touch now (\<lambda>a. a\<lparr>ag_rotation_requested_at := None\<rparr>))
      (db_update (\<lambda>x. ct_id x = ct_id old) ?f (certificates d) @ [new_certificate cid aid pk CertActive (Some now) now]) d'"
    using rotate_changes [OF rotate(1)] by blast
  have "db_update (\<lambda>x. ct_id x = ct_id old) ?f (certificates d) = upd_first ct_id ?P ?f (certificates d)"
    using a(2) by (simp add: upd_first_def get_active_certificate_for_agent_def)
  note ch = ch [unfolded this]
  show ?thesis
    by (rule changes_cred [OF ch]) (use a(1) rotate(2) in \<open>auto simp: live_for_def new_certificate_def fresh_certificate_def touch_status\<close>)
qed (metis quiet_changes changes_cred_quiet)+

interpretation agent_service: credential_service agents certificates ag_id ag_status ct_id ct_agent_id ct_status agent_step
  by unfold_locales (rule agent_step_cred)

lemma run_agents_ok: "agent_step\<^sup>*\<^sup>* d d' \<Longrightarrow> agents_ok d \<Longrightarrow> agents_ok d'"
  unfolding agents_ok_creds by (rule agent_service.service_run)

lemma agents_ok_empty: "agents d = [] \<Longrightarrow> certificates d = [] \<Longrightarrow> agents_ok d"
  by (simp add: agents_ok_def)

lemma active_certificate_status:
  assumes ok: "agents_ok d" and "get_active_certificate_for_agent d aid = Some c"
  shows "\<exists>a. get_agent_row d aid = Some a \<and> ag_status a \<in> {AgActive, AgSuspended}"
proof -
  have c: "c \<in> set (certificates d)" "ct_agent_id c = aid" "ct_status c = CertActive"
    using assms(2) db_find_Some by (fastforce simp: get_active_certificate_for_agent_def)+
  with ok have "aid \<in> ag_id ` set (agents d)" by (auto simp: agents_ok_def)
  then obtain a where a: "get_agent_row d aid = Some a" using db_find_mem [of _ "agents d" "\<lambda>r. ag_id r = aid"]
    by (auto simp: get_agent_row_def)
  have "CertActive \<in> set (map ct_status (live_certs d aid))" using c by (force simp: live_certs_def live_for_def)
  then show ?thesis using row_live [OF ok a] a by (cases "ag_status a") auto
qed

section \<open>Audit trail\<close>

definition audited :: "crypto \<Rightarrow> Settings \<Rightarrow> uuid \<Rightarrow> string \<Rightarrow> db \<Rightarrow> db \<Rightarrow> bool" where
  "audited C S aid ty d d' = (\<exists>e. agent_audit_events d' = agent_audit_events d @ [e] \<and> aev_agent_id e = aid \<and> aev_event_type e = ty
     \<and> aev_key_id e = evidence_signing_key_id S
     \<and> (\<forall>pk. ed25519_correct C \<and> public_key_b64_from_signing_key_b64 C (evidence_signing_key_b64 S) = Some pk \<longrightarrow>
          verify_payload C (aev_payload e) \<lparr>algorithm = ''ed25519'', sig_key_id = aev_key_id e, sig_value = aev_signature e\<rparr> pk))"

lemma verify_payload_value:
  "sig_value s = sig_value s' \<Longrightarrow> verify_payload C p s pk = verify_payload C p s' pk"
  by (simp add: verify_payload_def Let_def split: option.split)

lemma append_audit_event_audited:
  assumes "append_audit_event C S aid ty actor det eid now d = Inr d'" and "agent_audit_events d = agent_audit_events d0"
  shows "audited C S aid ty d0 d'"
proof -
  let ?p = "JObj [(''event_type'', JStr ty), (''agent_id'', JStr aid), (''actor'', JStr (or_operator actor)),
    (''details'', det), (''recorded_at'', JStr (isoformat now))]"
  obtain sig where sig: "sign_payload C ?p (evidence_signing_key_b64 S) (evidence_signing_key_id S) = Some sig"
    and d': "d' = d\<lparr>agent_audit_events := agent_audit_events d @ [\<lparr>aev_id = eid, aev_agent_id = aid, aev_event_type = ty,
      aev_actor = Some (or_operator actor), aev_payload = ?p, aev_key_id = sig_key_id sig, aev_signature = sig_value sig,
      aev_created_at = now\<rparr>]\<rparr>"
    using assms(1) by (auto simp: append_audit_event_def Let_def split: option.splits)
  have "verify_payload C ?p \<lparr>algorithm = ''ed25519'', sig_key_id = sig_key_id sig, sig_value = sig_value sig\<rparr> pk"
    if "ed25519_correct C" "public_key_b64_from_signing_key_b64 C (evidence_signing_key_b64 S) = Some pk" for pk
    using verify_sign_payload [OF that(1) sig that(2)] by (rule verify_payload_value [THEN iffD1, rotated]) simp
  then show ?thesis using assms(2) d' sign_payload_key_id [OF sig] by (auto simp: audited_def)
qed

lemma update_events [simp]:
  "agent_audit_events (update_agent aid now f d) = agent_audit_events d"
  "agent_audit_events (update_certificate cid g d) = agent_audit_events d"
  "agent_audit_events (update_found_certificate P g d) = agent_audit_events d"
  by (simp_all add: update_agent_def update_certificate_def update_found_certificate_def split: option.splits)

lemma revoke_audited:
  "revoke_agent C S aid why actor eid now d = Inr (d', a) \<Longrightarrow> audited C S aid ''agent_revoked'' d d'"
  by (auto simp: revoke_agent_def Let_def dest!: returning_Inr intro: append_audit_event_audited split: if_splits)

lemma suspend_audited:
  "suspend_agent C S aid why actor eid now d = Inr (d', a) \<Longrightarrow> audited C S aid ''agent_suspended'' d d'"
  by (auto simp: suspend_agent_def Let_def dest!: returning_Inr intro: append_audit_event_audited split: if_splits)

lemma retire_audited:
  "retire_agent C S aid why actor eid now d = Inr (d', a) \<Longrightarrow> audited C S aid ''agent_retired'' d d'"
  by (auto simp: retire_agent_def Let_def dest!: returning_Inr intro: append_audit_event_audited split: if_splits)

lemma rotate_audited:
  "rotate_certificate C S aid pk actor cid eid now d = Inr (d', c) \<Longrightarrow> audited C S aid ''certificate_rotated'' d d'"
  by (auto simp: rotate_certificate_def Let_def intro: append_audit_event_audited split: if_splits)

lemma activate_audited:
  "activate_agent C S aid actor eid now d = Inr (d', a) \<Longrightarrow>
   audited C S aid (if agent_status d aid = Some AgSuspended then ''agent_reactivated'' else ''agent_activated'') d d'"
  by (auto simp: activate_agent_def agent_status_def Let_def dest!: returning_Inr intro: append_audit_event_audited split: if_splits)

section \<open>Bulk operations stay in the organization\<close>

lemma bulk_fn_changes:
  assumes "bulk_fn C S act why actor aid eid now d = Inr (d', r)"
  shows "\<exists>a g cs. changes d aid a g cs d'"
proof (cases act)
  case BulkSuspend
  with assms have "suspend_agent C S aid why actor eid now d = Inr (d', r)" by simp
  from suspend_changes [OF this] show ?thesis by blast
next
  case BulkActivate
  with assms have "activate_agent C S aid actor eid now d = Inr (d', r)" by simp
  from activate_changes [OF this] show ?thesis by blast
next
  case BulkRetire
  with assms have "retire_agent C S aid why actor eid now d = Inr (d', r)" by simp
  from retire_changes [OF this] show ?thesis by blast
next
  case BulkRequestRotation
  with assms have "request_certificate_rotation C S aid actor eid now d = Inr (d', r)" by simp
  from quiet_changes [OF disjI1, OF this] show ?thesis by blast
qed

lemma changes_other: "changes d aid a g cs d' \<Longrightarrow> i \<noteq> aid \<Longrightarrow> get_agent_row d' i = get_agent_row d i"
  by (simp add: changes_def get_agent_row_def db_find_update_key)

lemma bulk_loop_isolated:
  assumes "bulk_loop C S act org why actor now xs d = Inr (d', rs)" and "agent_organization_id d i \<noteq> org"
  shows "get_agent_row d' i = get_agent_row d i \<and> principals d' = principals d \<and> map br_agent_id rs = map fst xs"
  using assms
proof (induction xs arbitrary: d rs)
  case (Cons x rest)
  obtain aid eid where x: "x = (aid, eid)" by (cases x)
  have skip: ?case if "bulk_loop C S act org why actor now rest d = Inr (d', rs')" "rs = b # rs'" "br_agent_id b = aid" for b rs'
    using Cons.IH [OF that(1) Cons.prems(2)] that x by simp
  show ?case
  proof (cases "agent_organization_id d aid = org")
    case False
    then show ?thesis using Cons.prems(1) x skip by auto
  next
    case True
    show ?thesis
    proof (cases "bulk_fn C S act why actor aid eid now d")
      case (Inl e)
      then show ?thesis using Cons.prems(1) x True skip by (auto split: option.splits)
    next
      case (Inr r)
      obtain d1 a1 where r: "r = (d1, a1)" by (cases r)
      from Inr r obtain a g cs where ch: "changes d aid a g cs d1" using bulk_fn_changes by blast
      have "i \<noteq> aid" using Cons.prems(2) True by auto
      then have row: "get_agent_row d1 i = get_agent_row d i" using changes_other [OF ch] by simp
      have pr: "principals d1 = principals d" using ch by (simp add: changes_def)
      have "get_principal_row d1 = get_principal_row d" by (intro ext) (simp add: get_principal_row_def pr)
      then have o: "agent_organization_id d1 i \<noteq> org"
        using Cons.prems(2) row by (auto simp: agent_organization_id_def split: option.splits)
      obtain rs' where "bulk_loop C S act org why actor now rest d1 = Inr (d', rs')"
          "rs = \<lparr>br_agent_id = aid, br_ok = True, br_error = None\<rparr> # rs'"
        using Cons.prems(1) x True Inr r by auto
      with Cons.IH [OF this(1) o] row pr x show ?thesis by simp
    qed
  qed
qed simp

section \<open>Claims\<close>

definition empty_db :: db where
  "empty_db = \<lparr>organizations = [], business_units = [], departments = [], teams = [], users = [], organization_invitations = [],
     principals = [], enterprise_systems = [], signing_keys = [], agents = [], certificates = [], agent_audit_events = [],
     policies = [], mandates = [], runtime_policy_records = [], fact_sources = [], enterprise_facts = [], intents = [],
     decisions = [], evidence = [], decision_resolutions = [], capability_tokens = [], integration_identities = [],
     integration_identity_certificates = [], enforcement_bindings = [], enforcement_binding_agents = [], integrations = [],
     integration_contract_versions = [], authority_relationships = [], resources = [], authorities = [], user_sessions = [], api_keys = [], authority_graph_approvals = [],
     simulation_scenarios = [], runtime_policy_lifecycle_events = [], policy_activation_schedules = [], execution_receipts = [], reconciliation_results = []\<rparr>"

text \<open>C32: an agent's live certificates follow its status. In every state the agent service reaches from an
  empty registry, a registered agent has exactly one live certificate and it is only issued, an
  active or suspended agent has exactly one and it is active, a revoked or retired agent has none;
  so a certificate that request verification accepts belongs to an active or suspended agent.\<close>

theorem live_certificates_follow_status:
  assumes "agent_step\<^sup>*\<^sup>* d0 d" and "agents d0 = []" and "certificates d0 = []"
  shows "(\<forall>aid a. get_agent_row d aid = Some a \<longrightarrow> map ct_status (live_certs d aid) = expected_live (ag_status a))
    \<and> (\<forall>aid c. get_active_certificate_for_agent d aid = Some c \<longrightarrow>
         (\<exists>a. get_agent_row d aid = Some a \<and> ag_status a \<in> {AgActive, AgSuspended}))"
  using run_agents_ok [OF assms(1) agents_ok_empty [OF assms(2,3)]] row_live active_certificate_status by blast

theorem live_certificates_follow_status_witness:
  "\<exists>d. agent_step\<^sup>*\<^sup>* empty_db d \<and> principals d \<noteq> []
     \<and> (\<forall>aid a. get_agent_row d aid = Some a \<longrightarrow> map ct_status (live_certs d aid) = expected_live (ag_status a))"
proof -
  obtain d p where d: "create_principal ''CFO'' ''o1'' None None None None ''p1'' 0 empty_db = Inr (d, p)"
    by (simp add: create_principal_def Let_def)
  then have s: "agent_step\<^sup>*\<^sup>* empty_db d" using agent_step.principal by blast
  have "principals d \<noteq> []" using create_principal_frame [OF d] by simp
  with s live_certificates_follow_status [OF s] show ?thesis by (auto simp: empty_db_def)
qed

text \<open>Revocation and retirement are final. Once an agent is revoked or retired, no later sequence of
  agent operations changes its status, and it has no live certificate again.\<close>

theorem revoked_agent_stays_revoked:
  assumes "agent_step\<^sup>*\<^sup>* d d'" and "agents_ok d" and "agent_status d i = Some s" and "s \<in> {AgRevoked, AgRetired}"
  shows "agent_status d' i = Some s \<and> live_certs d' i = []"
proof -
  have f: "agent_status d' i = Some s"
    using agent_lifecycle.terminal_final [OF _ assms(1,3)] agent_terminal assms(4) by auto
  then obtain a where a: "get_agent_row d' i = Some a" "ag_status a = s" by (auto simp: agent_status_def)
  with row_live [OF run_agents_ok [OF assms(1,2)] a(1)] assms(4) f show ?thesis by auto
qed

definition revoked_db :: db where
  "revoked_db = empty_db\<lparr>agents := [(new_agent ''a1'' ''bot'' ''p1'' None None 0)\<lparr>ag_status := AgRevoked\<rparr>]\<rparr>"

theorem revoked_agent_stays_revoked_witness:
  "\<exists>d. agent_step\<^sup>*\<^sup>* revoked_db d \<and> principals d \<noteq> [] \<and> agent_status d ''a1'' = Some AgRevoked"
proof -
  obtain d p where d: "create_principal ''CFO'' ''o1'' None None None None ''p1'' 0 revoked_db = Inr (d, p)"
    by (simp add: create_principal_def Let_def)
  then have s: "agent_step\<^sup>*\<^sup>* revoked_db d" using agent_step.principal by blast
  have "agents_ok revoked_db" "agent_status revoked_db ''a1'' = Some AgRevoked"
    by (simp_all add: agents_ok_def revoked_db_def empty_db_def new_agent_def live_certs_def agent_status_def get_agent_row_def)
  from revoked_agent_stays_revoked [OF s this] s create_principal_frame [OF d] show ?thesis by auto
qed

text \<open>The audit trail is complete and verifiable. Each successful activation, suspension, retirement,
  revocation and rotation appends exactly one audit event of its type for that agent, signed so
  that it verifies under the configured key's public key.\<close>

theorem transitions_are_audited:
  "(activate_agent C S aid actor eid now d = Inr (d', a) \<longrightarrow>
      audited C S aid (if agent_status d aid = Some AgSuspended then ''agent_reactivated'' else ''agent_activated'') d d')
   \<and> (suspend_agent C S aid why actor eid now d = Inr (d', a) \<longrightarrow> audited C S aid ''agent_suspended'' d d')
   \<and> (retire_agent C S aid why actor eid now d = Inr (d', a) \<longrightarrow> audited C S aid ''agent_retired'' d d')
   \<and> (revoke_agent C S aid why actor eid now d = Inr (d', a) \<longrightarrow> audited C S aid ''agent_revoked'' d d')
   \<and> (rotate_certificate C S aid pk actor cid eid now d = Inr (d', c) \<longrightarrow> audited C S aid ''certificate_rotated'' d d')"
  by (intro conjI impI) (erule activate_audited suspend_audited retire_audited revoke_audited rotate_audited)+

definition demo_settings :: Settings where
  "demo_settings = \<lparr>evidence_signing_key_b64 = ''QUJD'', evidence_signing_key_id = ''k1''\<rparr>"

definition one_agent_db :: db where
  "one_agent_db = empty_db\<lparr>agents := [(new_agent ''a1'' ''bot'' ''p1'' None None 0)\<lparr>ag_status := AgActive\<rparr>]\<rparr>"

lemma demo_signs: "\<exists>sig. sign_payload plain_crypto p (evidence_signing_key_b64 demo_settings) (evidence_signing_key_id demo_settings) = Some sig"
proof -
  have "public_key_b64_from_signing_key_b64 plain_crypto (evidence_signing_key_b64 demo_settings) = Some ''QUJD''"
    by code_simp
  then show ?thesis using sign_payload_Some_iff by blast
qed

theorem transitions_are_audited_witness:
  "\<exists>d a. suspend_agent plain_crypto demo_settings ''a1'' None None ''e1'' 0 one_agent_db = Inr (d, a)
     \<and> audited plain_crypto demo_settings ''a1'' ''agent_suspended'' one_agent_db d"
proof -
  have "\<exists>d a. suspend_agent plain_crypto demo_settings ''a1'' None None ''e1'' 0 one_agent_db = Inr (d, a)"
    using demo_signs
    by (auto simp: suspend_agent_def get_agent_def get_agent_row_def one_agent_db_def empty_db_def new_agent_def
        append_audit_event_def returning_def update_agent_def touch_def Let_def split: option.splits) 
  then show ?thesis using transitions_are_audited by blast
qed

text \<open>A bulk action stays within the caller's organization. Whatever the list of agents, the row of an
  agent that belongs to another organization is unchanged, and the results report the requested
  agents one by one in the order of the request.\<close>

theorem bulk_transition_isolated:
  assumes "bulk_transition C S xs act org why actor now d = Inr (d', rs)" and "agent_organization_id d i \<noteq> org"
  shows "get_agent_row d' i = get_agent_row d i \<and> map br_agent_id rs = map fst xs"
  using assms bulk_loop_isolated by (auto simp: bulk_transition_def split: option.splits)

theorem bulk_transition_isolated_witness:
  "\<exists>rs. bulk_transition plain_crypto demo_settings [(''a1'', ''e1'')] ''suspend'' (Some ''o2'') None None 0 one_agent_db = Inr (one_agent_db, rs)
     \<and> map br_agent_id rs = [''a1'']"
proof -
  have o: "agent_organization_id one_agent_db ''a1'' \<noteq> Some ''o2''"
    by (simp add: agent_organization_id_def one_agent_db_def empty_db_def get_agent_row_def new_agent_def get_principal_row_def)
  obtain rs where rs: "bulk_transition plain_crypto demo_settings [(''a1'', ''e1'')] ''suspend'' (Some ''o2'') None None 0 one_agent_db = Inr (one_agent_db, rs)"
    using o by (simp add: bulk_transition_def bulk_action_of_def)
  with bulk_transition_isolated [OF rs o] show ?thesis by simp
qed

end
