(* ===== verification/Policy_Lookup.thy ===== *)
theory Policy_Lookup
  imports Agent_Lifecycle
begin

text \<open>
  The read side of \<^verbatim>\<open>server/app/services/runtime_policy_service.py\<close> that decisions depend on, and the
  risk bands of \<^verbatim>\<open>authority_context_service.py\<close>: which stored policies are current, which actions and
  facts they mention, and what a matched policy declares (mandate, enterprise system, risk level,
  authority expiry). Stored content is JSON, read with the code's own dict accesses.

  \<open>parse_uuid\<close> is the \<open>uuid.UUID(text)\<close> constructor on the texts it documents: 32 hexadecimal digits
  with optional hyphens, braces or a URN prefix.
\<close>

section \<open>uuid.UUID\<close>

definition is_hex :: "char \<Rightarrow> bool" where
  "is_hex c = (let n = (of_char c :: nat) in (48 \<le> n \<and> n \<le> 57) \<or> (97 \<le> n \<and> n \<le> 102) \<or> (65 \<le> n \<and> n \<le> 70))"

definition lower_char :: "char \<Rightarrow> char" where
  "lower_char c = (let n = (of_char c :: nat) in if 65 \<le> n \<and> n \<le> 90 then char_of (n + 32) else c)"

definition upper_char :: "char \<Rightarrow> char" where
  "upper_char c = (let n = (of_char c :: nat) in if 97 \<le> n \<and> n \<le> 122 then char_of (n - 32) else c)"

definition uuid_text :: "string \<Rightarrow> uuid" where
  "uuid_text h = take 8 h @ ''-'' @ take 4 (drop 8 h) @ ''-'' @ take 4 (drop 12 h) @ ''-''
     @ take 4 (drop 16 h) @ ''-'' @ drop 20 h"

definition strip_braces :: "string \<Rightarrow> string" where
  "strip_braces s = (let b = (\<lambda>c. c = CHR ''{'' \<or> c = CHR ''}'')
     in rev (dropWhile b (rev (dropWhile b s))))"

definition parse_uuid :: "string \<Rightarrow> uuid option" where
  "parse_uuid s =
     (let s1 = (if startswith s ''urn:'' then drop 4 s else s);
          s2 = (if startswith s1 ''uuid:'' then drop 5 s1 else s1);
          h = filter (\<lambda>c. c \<noteq> CHR ''-'') (strip_braces s2)
      in if length h = 32 \<and> list_all is_hex h then Some (uuid_text (map lower_char h)) else None)"

section \<open>Current policies\<close>

definition active_record :: "db \<Rightarrow> uuid \<Rightarrow> RuntimePolicyRecord option" where
  "active_record d key = db_find (\<lambda>r. rr_policy_key r = key \<and> rr_status r = ACTIVE) (runtime_policy_records d)"

definition latest_version_row :: "db \<Rightarrow> uuid \<Rightarrow> uuid option \<Rightarrow> RuntimePolicyRecord option" where
  "latest_version_row d key org =
     (case sort_key (\<lambda>r. - rr_version r)
        (filter (\<lambda>r. rr_policy_key r = key \<and> rr_organization_id r = org) (runtime_policy_records d))
      of [] \<Rightarrow> None | r # _ \<Rightarrow> Some r)"

text \<open>The first row of each key, as the dict of the code keeps it.\<close>

fun first_by_key :: "uuid list \<Rightarrow> RuntimePolicyRecord list \<Rightarrow> RuntimePolicyRecord list" where
  "first_by_key seen [] = []"
| "first_by_key seen (r # rs) =
     (if rr_policy_key r \<in> set seen then first_by_key seen rs
      else r # first_by_key (rr_policy_key r # seen) rs)"

definition list_latest_policies :: "db \<Rightarrow> uuid option \<Rightarrow> PolicyStatus option \<Rightarrow> RuntimePolicyRecord list" where
  "list_latest_policies d org st =
     (let all_rows = sort_key (\<lambda>r. - rr_version r)
            (filter (\<lambda>r. rr_organization_id r = org) (runtime_policy_records d));
          results = first_by_key [] all_rows
      in case st of None \<Rightarrow> results | Some s \<Rightarrow> filter (\<lambda>r. rr_status r = s) results)"

text \<open>\<^verbatim>\<open>(content.get(k) or {}).get(f)\<close>, with \<open>JNull\<close> for a missing entry.\<close>

definition sub_get :: "json \<Rightarrow> string \<Rightarrow> string \<Rightarrow> json" where
  "sub_get content k f = (case obj_get content k of
     None \<Rightarrow> JNull
   | Some v \<Rightarrow> (case obj_get v f of None \<Rightarrow> JNull | Some w \<Rightarrow> w))"

definition list_enterprise_knowledge_keys_for_active_policies :: "db \<Rightarrow> uuid option \<Rightarrow> string list" where
  "list_enterprise_knowledge_keys_for_active_policies d org =
     sort (remdups (concat (map (\<lambda>r.
       (case sub_get (rr_content r) ''conditions'' ''all'' of
          JList cs \<Rightarrow> concat (map (\<lambda>c. case obj_get c ''field'' of
              Some (JStr f) \<Rightarrow> if startswith f ''enterprise_knowledge.'' then [drop 21 f] else []
            | _ \<Rightarrow> []) cs)
        | _ \<Rightarrow> [])) (list_latest_policies d org (Some ACTIVE)))))"

definition list_active_scope_actions :: "db \<Rightarrow> uuid option \<Rightarrow> string list" where
  "list_active_scope_actions d org = concat (map (\<lambda>r.
     case sub_get (rr_content r) ''scope'' ''action'' of JStr a \<Rightarrow> (if a = [] then [] else [a]) | _ \<Rightarrow> [])
     (list_latest_policies d org (Some ACTIVE)))"

section \<open>What the matched policies declare\<close>

definition matched_records :: "db \<Rightarrow> string list \<Rightarrow> RuntimePolicyRecord list" where
  "matched_records d keys = List.map_filter (\<lambda>k. Option.bind (parse_uuid k) (active_record d)) keys"

fun add_new :: "string list \<Rightarrow> string list \<Rightarrow> string list" where
  "add_new acc [] = acc"
| "add_new acc (x # xs) = add_new (if x \<in> set acc then acc else acc @ [x]) xs"

definition resolve_mandate_ids :: "db \<Rightarrow> string list \<Rightarrow> string list" where
  "resolve_mandate_ids d keys = add_new [] (concat (map (\<lambda>r.
     case sub_get (rr_content r) ''constraints'' ''mandate_id'' of
       JStr m \<Rightarrow> (if m = [] then [] else [m]) | _ \<Rightarrow> []) (matched_records d keys)))"

definition resolve_enterprise_system :: "db \<Rightarrow> string list \<Rightarrow> EnterpriseSystem option" where
  "resolve_enterprise_system d keys =
     (case List.map_filter (\<lambda>r.
        (case sub_get (rr_content r) ''constraints'' ''enterprise_system_id'' of
           JStr s \<Rightarrow> Option.bind (parse_uuid s) (\<lambda>i. db_find (\<lambda>e. es_id e = i) (enterprise_systems d))
         | _ \<Rightarrow> None)) (matched_records d keys)
      of [] \<Rightarrow> None | s # _ \<Rightarrow> Some s)"

definition RISK_LEVEL_ORDER :: "string \<Rightarrow> nat option" where
  "RISK_LEVEL_ORDER s = map_of [(''low'', 0), (''medium'', 1), (''high'', 2), (''critical'', 3)] s"

definition declared_risk :: "RuntimePolicyRecord \<Rightarrow> string option" where
  "declared_risk r = (case sub_get (rr_content r) ''constraints'' ''risk_level'' of
     JStr s \<Rightarrow> (let n = map lower_char s in if RISK_LEVEL_ORDER n = None then None else Some n)
   | _ \<Rightarrow> None)"

fun better_risk :: "string option \<Rightarrow> string list \<Rightarrow> string option" where
  "better_risk best [] = best"
| "better_risk best (n # ns) = better_risk
     (case best of None \<Rightarrow> Some n
      | Some b \<Rightarrow> if the (RISK_LEVEL_ORDER n) > the (RISK_LEVEL_ORDER b) then Some n else Some b) ns"

definition highest_declared_risk_level :: "db \<Rightarrow> string list \<Rightarrow> string option" where
  "highest_declared_risk_level d keys =
     map_option (map upper_char) (better_risk None (List.map_filter declared_risk (matched_records d keys)))"

definition find_expired_high_risk_authority :: "db \<Rightarrow> string list \<Rightarrow> datetime \<Rightarrow> RuntimePolicyRecord option" where
  "find_expired_high_risk_authority d keys now =
     db_find (\<lambda>r. case rr_authority_expires_at r of
         None \<Rightarrow> False
       | Some t \<Rightarrow> declared_risk r \<in> {Some ''high'', Some ''critical''} \<and> t < now)
       (matched_records d keys)"

definition freshness_status :: "RuntimePolicyRecord \<Rightarrow> datetime \<Rightarrow> string" where
  "freshness_status r now =
     (if (case rr_authority_expires_at r of None \<Rightarrow> False | Some t \<Rightarrow> t < now) then ''expired''
      else if (case rr_next_review_at r of None \<Rightarrow> False | Some t \<Rightarrow> t < now) then ''review_due''
      else if rr_authority_expires_at r = None \<and> rr_next_review_at r = None then ''unknown''
      else ''current'')"

text \<open>An amount is a Python float, as its shortest decimal.\<close>

type_synonym amount = "int \<times> int"

definition classify_risk :: "amount option \<Rightarrow> string" where
  "classify_risk amt = (case amt of None \<Rightarrow> ''LOW''
     | Some (m, e) \<Rightarrow>
         if dec_val m e \<ge> 250000 then ''CRITICAL''
         else if dec_val m e \<ge> 100000 then ''HIGH''
         else if dec_val m e \<ge> 50000 then ''MEDIUM'' else ''LOW'')"

section \<open>Properties\<close>

text \<open>The expired authority it reports is a matched, active, high-risk policy past its expiry, and it reports
  one whenever there is one.\<close>

definition overdue :: "db \<Rightarrow> string list \<Rightarrow> datetime \<Rightarrow> RuntimePolicyRecord \<Rightarrow> bool" where
  "overdue d keys now r = (r \<in> set (runtime_policy_records d) \<and> rr_status r = ACTIVE
     \<and> (\<exists>k \<in> set keys. parse_uuid k = Some (rr_policy_key r) \<and> active_record d (rr_policy_key r) = Some r)
     \<and> declared_risk r \<in> {Some ''high'', Some ''critical''} \<and> (\<exists>t. rr_authority_expires_at r = Some t \<and> t < now))"

lemma matched_records_iff:
  "r \<in> set (matched_records d keys) \<longleftrightarrow> (\<exists>k \<in> set keys. \<exists>i. parse_uuid k = Some i \<and> active_record d i = Some r)"
  by (force simp: matched_records_def List.map_filter_def bind_eq_Some_conv)

lemma active_record_Some:
  "active_record d i = Some r \<Longrightarrow> r \<in> set (runtime_policy_records d) \<and> rr_policy_key r = i \<and> rr_status r = ACTIVE"
  unfolding active_record_def by (drule db_find_Some) simp

lemma matched_overdue:
  "r \<in> set (matched_records d keys) \<and> (case rr_authority_expires_at r of None \<Rightarrow> False
       | Some t \<Rightarrow> declared_risk r \<in> {Some ''high'', Some ''critical''} \<and> t < now) \<longleftrightarrow> overdue d keys now r"
  unfolding matched_records_iff overdue_def
  by (auto dest: active_record_Some split: option.splits)

lemma find_expired_iff:
  "(\<exists>r. find_expired_high_risk_authority d keys now = Some r) \<longleftrightarrow> (\<exists>r. overdue d keys now r)"
proof
  assume "\<exists>r. find_expired_high_risk_authority d keys now = Some r"
  then show "\<exists>r. overdue d keys now r"
    unfolding find_expired_high_risk_authority_def matched_overdue [symmetric] by (blast dest: db_find_Some)
next
  assume "\<exists>r. overdue d keys now r"
  then obtain r where "r \<in> set (matched_records d keys)" "case rr_authority_expires_at r of None \<Rightarrow> False
       | Some t \<Rightarrow> declared_risk r \<in> {Some ''high'', Some ''critical''} \<and> t < now"
    unfolding matched_overdue [symmetric] by blast
  then show "\<exists>r. find_expired_high_risk_authority d keys now = Some r"
    unfolding find_expired_high_risk_authority_def by (rule db_find_mem)
qed


lemma first_by_key_subset: "set (first_by_key seen rs) \<subseteq> set rs"
  by (induction rs arbitrary: seen) auto

lemma first_by_key_unseen: "r \<in> set (first_by_key seen rs) \<Longrightarrow> rr_policy_key r \<notin> set seen"
proof (induction rs arbitrary: seen)
  case (Cons x xs)
  show ?case
  proof (cases "rr_policy_key x \<in> set seen \<or> r = x")
    case True
    with Cons show ?thesis by (auto split: if_splits)
  next
    case False
    with Cons.prems have "r \<in> set (first_by_key (rr_policy_key x # seen) xs)" by simp
    from Cons.IH [OF this] show ?thesis by simp
  qed
qed simp

lemma first_by_key_newest:
  assumes "sorted (map (\<lambda>r. - rr_version r) rs)" and "r \<in> set (first_by_key seen rs)"
    and "r' \<in> set rs" and "rr_policy_key r' = rr_policy_key r"
  shows "rr_version r' \<le> rr_version r"
  using assms
proof (induction rs arbitrary: seen)
  case Nil
  then show ?case by simp
next
  case (Cons x xs)
  show ?case
  proof (cases "r = x \<and> \<not> rr_policy_key x \<in> set seen")
    case True
    with Cons.prems(1,3) show ?thesis by auto
  next
    case False
    then obtain seen' where s: "r \<in> set (first_by_key seen' xs)" "rr_policy_key x \<in> set seen \<or> rr_policy_key x \<in> set seen'"
      using Cons.prems(2) by (auto split: if_splits)
    have "rr_policy_key r \<notin> set seen" "rr_policy_key r \<notin> set seen'"
      using first_by_key_unseen [OF Cons.prems(2)] first_by_key_unseen [OF s(1)] by auto
    with s(2) Cons.prems(4) have "r' \<noteq> x" by (auto)
    with Cons.IH [OF _ s(1)] Cons.prems show ?thesis by simp
  qed
qed

lemma list_latest_newest:
  assumes "r \<in> set (list_latest_policies d org st)"
    and "r' \<in> set (runtime_policy_records d)" "rr_organization_id r' = org" "rr_policy_key r' = rr_policy_key r"
  shows "rr_version r' \<le> rr_version r"
proof (rule first_by_key_newest [where rs = "sort_key (\<lambda>r. - rr_version r)
    (filter (\<lambda>r. rr_organization_id r = org) (runtime_policy_records d))" and seen = "[]"])
  show "r \<in> set (first_by_key [] (sort_key (\<lambda>r. - rr_version r)
    (filter (\<lambda>r. rr_organization_id r = org) (runtime_policy_records d))))"
    using assms(1) by (auto simp: list_latest_policies_def Let_def split: option.splits)
qed (use assms in auto)

text \<open>An active policy with a newer draft is not listed. The listing keeps one row per policy key, its
  highest version, and only then filters by status; so as soon as a newer version of an active
  policy exists, the active one is in no listing, and the actions and enterprise facts that submission
  looks up for the currently active policies do not include its own.\<close>

theorem newer_version_hides_active:
  assumes "r \<in> set (runtime_policy_records d)" "rr_status r = ACTIVE" "rr_organization_id r = org"
    and "r' \<in> set (runtime_policy_records d)" "rr_organization_id r' = org" "rr_policy_key r' = rr_policy_key r"
    and "rr_version r < rr_version r'"
  shows "r \<notin> set (list_latest_policies d org st)"
  using list_latest_newest [OF _ assms(4,5,6)] assms(7) by fastforce

definition demo_row :: "int \<Rightarrow> PolicyStatus \<Rightarrow> RuntimePolicyRecord" where
  "demo_row v st = \<lparr>rr_id = show_nat (nat v), rr_policy_key = ''k'', rr_version = v, rr_status = st,
     rr_content = JObj [(''scope'', JObj [(''action'', JStr ''vendor_payment'')])],
     rr_bundle_id = None, rr_bundle_hash = None, rr_created_at = 0, rr_activated_by = None, rr_activated_at = None,
     rr_activation_reason = None, rr_effective_from = None, rr_effective_until = None, rr_deprecated_at = None,
     rr_deprecation_reason = None, rr_rollback_of_version = None, rr_organization_id = Some ''o'',
     rr_last_attested_at = None, rr_next_review_at = None, rr_review_cadence_days = None,
     rr_authority_expires_at = None, rr_source_graph_approval_id = None\<rparr>"

definition edited_db :: db where
  "edited_db = empty_db\<lparr>runtime_policy_records := [demo_row 1 ACTIVE, demo_row 2 DRAFT]\<rparr>"

theorem newer_version_hides_active_witness:
  "active_record edited_db ''k'' = Some (demo_row 1 ACTIVE)
   \<and> demo_row 1 ACTIVE \<notin> set (list_latest_policies edited_db (Some ''o'') (Some ACTIVE))
   \<and> list_active_scope_actions edited_db (Some ''o'') = []"
proof -
  have "demo_row 1 ACTIVE \<notin> set (list_latest_policies edited_db (Some ''o'') (Some ACTIVE))"
    by (rule newer_version_hides_active [where r' = "demo_row 2 DRAFT"]) (simp_all add: edited_db_def demo_row_def)
  moreover have "list_active_scope_actions edited_db (Some ''o'') = []"
    by (simp add: list_active_scope_actions_def list_latest_policies_def edited_db_def demo_row_def Let_def)
  ultimately show ?thesis by (simp add: active_record_def edited_db_def demo_row_def)
qed

end
