(* ===== verification/Evidence_Chain.thy ===== *)
theory Evidence_Chain
  imports Policy_Lookup "HOL-Library.Product_Lexorder"
begin

text \<open>
  The Evidence chain: the writing side in \<^verbatim>\<open>server/app/services/intent_service.py\<close>
  (\<open>_build_evidence_payload\<close> to \<open>append_generic_evidence_event\<close>) and the checking side in
  \<^verbatim>\<open>server/app/services/evidence_service.py\<close>. Every organisation (and the scope \<open>None\<close>) has its own
  chain: a record carries its ordinal and, inside the signed payload, the hash of its predecessor.

  \<open>_lock_chain_scope\<close> serializes the appends of one organisation, so an append is one atomic step
  on the state. The keyword arguments of \<open>append_evidence\<close> are the record \<open>EvidenceArgs\<close>; a list
  argument that defaults to \<open>None\<close> and is only tested for truth is a list. Columns that order rows in
  SQL become sort keys: \<open>nullsfirst(sequence)\<close>, then \<open>created_at\<close>, then \<open>id\<close>.
\<close>

section \<open>Hash chains\<close>

text \<open>A list of records that each name the hash of their predecessor, the first one the genesis value.\<close>

fun linked :: "('p \<Rightarrow> 'h) \<Rightarrow> ('p \<Rightarrow> 'h option) \<Rightarrow> 'h \<Rightarrow> 'p list \<Rightarrow> bool" where
  "linked hash prev e [] = True"
| "linked hash prev e (p # ps) = (prev p = Some e \<and> linked hash prev (hash p) ps)"

fun chain_end :: "('p \<Rightarrow> 'h) \<Rightarrow> 'h \<Rightarrow> 'p list \<Rightarrow> 'h" where
  "chain_end hash e [] = e"
| "chain_end hash e (p # ps) = chain_end hash (hash p) ps"

lemma chain_end_snoc [simp]: "chain_end hash e (ps @ [p]) = hash p"
  by (induction ps arbitrary: e) auto

lemma linked_append:
  "linked hash prev e (ps @ qs) \<longleftrightarrow> linked hash prev e ps \<and> linked hash prev (chain_end hash e ps) qs"
  by (induction ps arbitrary: e) auto

text \<open>
  What the client of a hash chain relies on: records with the same hash are the same or exhibit a
  collision, the same records name the same predecessor, and no record hashes to the genesis value.
\<close>

locale hash_chain =
  fixes hash :: "'p \<Rightarrow> 'h" and prev :: "'p \<Rightarrow> 'h option" and genesis :: 'h
    and wf :: "'p \<Rightarrow> bool" and same :: "'p \<Rightarrow> 'p \<Rightarrow> bool" and collide :: "'p \<Rightarrow> 'p \<Rightarrow> bool"
  assumes hash_eq: "\<lbrakk>wf p; wf q; hash p = hash q\<rbrakk> \<Longrightarrow> same p q \<or> collide p q"
    and same_prev: "\<lbrakk>wf p; wf q; same p q\<rbrakk> \<Longrightarrow> prev p = prev q"
    and not_genesis: "hash p \<noteq> genesis"
begin

lemma chain_end_genesis: "chain_end hash genesis ps = genesis \<longleftrightarrow> ps = []"
  by (cases ps rule: rev_cases) (auto simp: not_genesis)

lemma head_determines_history:
  assumes "linked hash prev genesis ps" "linked hash prev genesis qs" "list_all wf ps" "list_all wf qs"
    and "chain_end hash genesis ps = chain_end hash genesis qs"
  shows "list_all2 same ps qs \<or> (\<exists>p \<in> set ps. \<exists>q \<in> set qs. collide p q)"
  using assms
proof (induction ps arbitrary: qs rule: rev_induct)
  case Nil
  then show ?case using chain_end_genesis [of qs] by auto
next
  case (snoc p ps)
  then obtain q qs' where qs: "qs = qs' @ [q]"
    using chain_end_genesis [of "ps @ [p]"] chain_end_genesis [of qs] by (cases qs rule: rev_cases) auto
  from snoc.prems qs have "hash p = hash q" "wf p" "wf q" by auto
  with hash_eq consider "same p q" | "collide p q" by blast
  then show ?case
  proof cases
    case 1
    with same_prev [OF \<open>wf p\<close> \<open>wf q\<close>] snoc.prems qs
    have "chain_end hash genesis ps = chain_end hash genesis qs'" by (simp add: linked_append)
    with snoc.IH [of qs'] snoc.prems qs
    have "list_all2 same ps qs' \<or> (\<exists>p \<in> set ps. \<exists>q \<in> set qs'. collide p q)" by (simp add: linked_append)
    with 1 qs show ?thesis by (auto intro: list_all2_appendI)
  next
    case 2
    with qs show ?thesis by auto
  qed
qed

text \<open>Leaving out one record breaks the link of the record after it.\<close>

lemma inner_gap:
  assumes "linked hash prev genesis (ps @ p # q # qs)" "list_all wf (ps @ [p])"
    and "prev q = Some (chain_end hash genesis ps)"
  shows "ps \<noteq> [] \<and> (same (last ps) p \<or> collide (last ps) p)"
proof -
  have "chain_end hash genesis ps = hash p" using assms(1,3) by (simp add: linked_append)
  with chain_end_genesis [of ps] not_genesis have "ps \<noteq> []" by metis
  then obtain as a where ps: "ps = as @ [a]" by (cases ps rule: rev_cases) auto
  with \<open>chain_end hash genesis ps = hash p\<close> have "hash a = hash p" by simp
  with hash_eq [of a p] assms(2) ps show ?thesis by auto
qed

end

section \<open>Building a payload\<close>

record EvidenceArgs =
  ea_decision_id :: uuid
  ea_agent_id :: uuid
  ea_action :: string
  ea_amount :: "amount option"
  ea_matched_mandates :: "string list"
  ea_outcome :: Outcome
  ea_approval_outcome :: "string option"
  ea_approver :: "string option"
  ea_status :: EvidenceStatus
  ea_resource :: "string option"
  ea_currency :: "string option"
  ea_principal_id :: "uuid option"
  ea_principal_name :: "string option"
  ea_authority_context :: "json option"
  ea_mandate_ids :: "string list"
  ea_authority_version :: "string option"
  ea_policy_version :: "int option"
  ea_policy_bundle_hash :: "string option"
  ea_reviewer :: "string option"
  ea_review_outcome :: "string option"
  ea_enterprise_system_id :: "uuid option"
  ea_facts_evaluated :: "json list"
  ea_integration_identity_id :: "uuid option"
  ea_enforcement_binding_id :: "uuid option"
  ea_integration_contract_version_id :: "uuid option"
  ea_integration_contract_content_hash :: "string option"
  ea_integration_id :: "uuid option"
  ea_environment :: "string option"
  ea_source_operation :: "string option"
  ea_external_operation_id :: "string option"
  ea_canonical_operation_fingerprint :: "string option"
  ea_canonical_action_schema_version :: "int option"
  ea_canonical_action_digest :: "string option"

definition str_or_null :: "string option \<Rightarrow> json" where
  "str_or_null x = (case x of None \<Rightarrow> JNull | Some s \<Rightarrow> JStr s)"

text \<open>\<^verbatim>\<open>if x is not None: payload[k] = x\<close>\<close>

definition opt_entry :: "string \<Rightarrow> string option \<Rightarrow> (string \<times> json) list" where
  "opt_entry k x = (case x of None \<Rightarrow> [] | Some s \<Rightarrow> [(k, JStr s)])"

definition list_entry :: "string \<Rightarrow> json list \<Rightarrow> (string \<times> json) list" where
  "list_entry k xs = (if xs = [] then [] else [(k, JList xs)])"

definition delegations_of :: "json \<Rightarrow> json" where
  "delegations_of ac = (case obj_get ac ''delegations'' of None \<Rightarrow> JList [] | Some v \<Rightarrow> v)"

definition build_evidence_payload ::
  "EvidenceArgs \<Rightarrow> string \<Rightarrow> string option \<Rightarrow> string list \<Rightarrow> EnterpriseSystem option \<Rightarrow> datetime \<Rightarrow> json" where
  "build_evidence_payload A risk_classification previous_hash authority_ids system now =
     (let resolved_by = (if ea_authority_context A = None then None else Some ''runtime_authority_context'')
      in JObj (
       [(''payload_version'', JInt 2),
        (''decision_id'', JStr (ea_decision_id A)),
        (''agent_id'', JStr (ea_agent_id A)),
        (''action'', JStr (ea_action A)),
        (''matched_mandate_ids'', JList (map JStr (sort (ea_matched_mandates A)))),
        (''authority_outcome'', JStr (Outcome_value (ea_outcome A))),
        (''approval_outcome'', str_or_null (ea_approval_outcome A)),
        (''risk_classification'', JStr risk_classification),
        (''approver'', str_or_null (ea_approver A)),
        (''recorded_at'', JStr (isoformat now)),
        (''previous_hash'', str_or_null previous_hash)]
       @ (case ea_amount A of None \<Rightarrow> [] | Some (m, e) \<Rightarrow> [(''amount'', JStr (float_repr m e))])
       @ opt_entry ''currency'' (ea_currency A)
       @ opt_entry ''resource'' (ea_resource A)
       @ opt_entry ''principal_id'' (ea_principal_id A)
       @ opt_entry ''principal_name'' (ea_principal_name A)
       @ (case ea_authority_context A of None \<Rightarrow> []
          | Some ac \<Rightarrow> [(''authority_context'', ac), (''delegation_chain'', delegations_of ac)])
       @ list_entry ''evaluated_mandate_ids'' (map JStr (ea_mandate_ids A))
       @ list_entry ''authority_ids'' (map JStr authority_ids)
       @ opt_entry ''authority_version'' (ea_authority_version A)
       @ (case ea_policy_version A of None \<Rightarrow> [] | Some v \<Rightarrow> [(''policy_version'', JInt v)])
       @ opt_entry ''policy_bundle_hash'' (ea_policy_bundle_hash A)
       @ opt_entry ''resolved_by'' resolved_by
       @ opt_entry ''responsible_party'' resolved_by
       @ opt_entry ''reviewer'' (ea_reviewer A)
       @ opt_entry ''review_outcome'' (ea_review_outcome A)
       @ (case system of None \<Rightarrow> []
          | Some s \<Rightarrow> [(''enterprise_system_id'', JStr (es_id s)), (''enterprise_system_name'', JStr (es_name s))])
       @ list_entry ''facts_evaluated'' (ea_facts_evaluated A)
       @ opt_entry ''integration_identity_id'' (ea_integration_identity_id A)
       @ opt_entry ''enforcement_binding_id'' (ea_enforcement_binding_id A)
       @ opt_entry ''integration_contract_version_id'' (ea_integration_contract_version_id A)
       @ opt_entry ''integration_contract_content_hash'' (ea_integration_contract_content_hash A)
       @ opt_entry ''integration_id'' (ea_integration_id A)
       @ opt_entry ''environment'' (ea_environment A)
       @ opt_entry ''source_operation'' (ea_source_operation A)
       @ opt_entry ''external_operation_id'' (ea_external_operation_id A)
       @ opt_entry ''canonical_operation_fingerprint'' (ea_canonical_operation_fingerprint A)
       @ (case ea_canonical_action_digest A of None \<Rightarrow> []
          | Some g \<Rightarrow> [(''canonical_action_schema_version'',
               (case ea_canonical_action_schema_version A of None \<Rightarrow> JNull | Some v \<Rightarrow> JInt v)),
              (''canonical_action_digest'', JStr g)])))"

section \<open>Appending\<close>

definition resolve_chain_scope :: "db \<Rightarrow> uuid \<Rightarrow> uuid option" where
  "resolve_chain_scope d aid = (case get_agent_row d aid of
     None \<Rightarrow> None
   | Some a \<Rightarrow> (case get_principal_row d (ag_acting_for_principal_id a) of
       None \<Rightarrow> None | Some p \<Rightarrow> pr_organization_id p))"

definition org_evidence :: "db \<Rightarrow> uuid option \<Rightarrow> Evidence list" where
  "org_evidence d org = filter (\<lambda>r. ev_organization_id r = org) (evidence d)"

text \<open>\<open>func.max\<close> over the column, which skips NULL, then \<^verbatim>\<open>(current_max or 0) + 1\<close>.\<close>

definition next_chain_sequence :: "db \<Rightarrow> uuid option \<Rightarrow> int" where
  "next_chain_sequence d org =
     (case List.map_filter ev_sequence (org_evidence d org) of [] \<Rightarrow> 0 | n # ns \<Rightarrow> foldl max n ns) + 1"

definition chain_key :: "Evidence \<Rightarrow> (int \<times> int) \<times> datetime \<times> uuid" where
  "chain_key r = ((case ev_sequence r of None \<Rightarrow> (0, 0) | Some n \<Rightarrow> (1, n)), ev_created_at r, ev_id r)"

definition previous_chain_hash :: "crypto \<Rightarrow> db \<Rightarrow> uuid option \<Rightarrow> string option" where
  "previous_chain_hash C d org =
     (case rev (sort_key chain_key (org_evidence d org)) of
        [] \<Rightarrow> None | prior # _ \<Rightarrow> Some (payload_hash C (ev_payload prior)))"

fun evidence_status_for_outcome :: "Outcome \<Rightarrow> EvidenceStatus" where
  "evidence_status_for_outcome OutAllow = EvVerified"
| "evidence_status_for_outcome OutDeny = EvRejected"
| "evidence_status_for_outcome OutHumanReview = EvPending"

definition resolve_authority_ids_for_mandates :: "db \<Rightarrow> string list \<Rightarrow> string list" where
  "resolve_authority_ids_for_mandates d ids = add_new [] (List.map_filter (\<lambda>m.
     Option.bind (parse_uuid m) (\<lambda>i. map_option ma_authority_id (db_find (\<lambda>r. ma_id r = i) (mandates d)))) ids)"

datatype EvidenceError = EvidenceNotFoundError uuid | SigningKeyUnusable

definition sign_and_add ::
  "crypto \<Rightarrow> Settings \<Rightarrow> uuid \<Rightarrow> json \<Rightarrow> EvidenceStatus \<Rightarrow> uuid option \<Rightarrow> int \<Rightarrow> uuid \<Rightarrow> datetime \<Rightarrow> db
     \<Rightarrow> EvidenceError + db \<times> Evidence" where
  "sign_and_add C S did payload st org seq eid now d =
     (case sign_payload C payload (evidence_signing_key_b64 S) (evidence_signing_key_id S) of
        None \<Rightarrow> Inl SigningKeyUnusable
      | Some sig \<Rightarrow>
          (let e = \<lparr>ev_id = eid, ev_decision_id = did, ev_payload = payload, ev_key_id = sig_key_id sig,
                     ev_signature = sig_value sig, ev_status = st, ev_created_at = now,
                     ev_organization_id = org, ev_sequence = Some seq\<rparr>
           in Inr (d\<lparr>evidence := evidence d @ [e]\<rparr>, e)))"

definition append_evidence ::
  "crypto \<Rightarrow> Settings \<Rightarrow> EvidenceArgs \<Rightarrow> uuid \<Rightarrow> datetime \<Rightarrow> db \<Rightarrow> EvidenceError + db \<times> Evidence" where
  "append_evidence C S A eid now d =
     (let org = resolve_chain_scope d (ea_agent_id A);
          previous_hash = previous_chain_hash C d org;
          sequence = next_chain_sequence d org;
          authority_ids = (if ea_mandate_ids A = [] then [] else resolve_authority_ids_for_mandates d (ea_mandate_ids A));
          system = (case ea_enterprise_system_id A of None \<Rightarrow> None
            | Some i \<Rightarrow> db_find (\<lambda>s. es_id s = i) (enterprise_systems d));
          risk = (case highest_declared_risk_level d (ea_matched_mandates A) of
              Some r \<Rightarrow> r
            | None \<Rightarrow> (case ea_amount A of Some a \<Rightarrow> classify_risk (Some a) | None \<Rightarrow> ''MEDIUM''));
          payload = build_evidence_payload A risk previous_hash authority_ids system now
      in sign_and_add C S (ea_decision_id A) payload (ea_status A) org sequence eid now d)"

text \<open>\<^verbatim>\<open>{**event_payload, k: v, ...}\<close>\<close>

definition dict_updates :: "(string \<times> json) list \<Rightarrow> (string \<times> json) list \<Rightarrow> (string \<times> json) list" where
  "dict_updates base kvs = foldl (\<lambda>a kv. AList.update (fst kv) (snd kv) a) base kvs"

definition append_generic_evidence_event ::
  "crypto \<Rightarrow> Settings \<Rightarrow> uuid option \<Rightarrow> uuid \<Rightarrow> string \<Rightarrow> (string \<times> json) list \<Rightarrow> EvidenceStatus \<Rightarrow> uuid \<Rightarrow> datetime \<Rightarrow> db
     \<Rightarrow> EvidenceError + db \<times> Evidence" where
  "append_generic_evidence_event C S org did event_type event_payload st eid now d =
     (let previous_hash = previous_chain_hash C d org;
          sequence = next_chain_sequence d org;
          payload = JObj (dict_updates event_payload
            [(''payload_version'', JInt 2), (''event_type'', JStr event_type), (''decision_id'', JStr did),
             (''recorded_at'', JStr (isoformat now)), (''previous_hash'', str_or_null previous_hash)])
      in sign_and_add C S did payload st org sequence eid now d)"

section \<open>Reading and verifying\<close>

definition get_evidence :: "db \<Rightarrow> uuid \<Rightarrow> uuid option \<Rightarrow> Evidence option" where
  "get_evidence d i org = (case get_evidence_row d i of
     None \<Rightarrow> None | Some e \<Rightarrow> if ev_organization_id e \<noteq> org then None else Some e)"

definition list_evidence :: "db \<Rightarrow> uuid option \<Rightarrow> uuid option \<Rightarrow> Evidence list" where
  "list_evidence d org did = sort_key ev_created_at
     (filter (\<lambda>r. case did of None \<Rightarrow> True | Some i \<Rightarrow> ev_decision_id r = i) (org_evidence d org))"

definition count_evidence_by_status :: "db \<Rightarrow> uuid option \<Rightarrow> EvidenceStatus \<Rightarrow> nat" where
  "count_evidence_by_status d org st = length (filter (\<lambda>r. ev_status r = st) (org_evidence d org))"

definition verify_evidence :: "crypto \<Rightarrow> Settings \<Rightarrow> db \<Rightarrow> uuid \<Rightarrow> uuid option \<Rightarrow> EvidenceError + bool \<times> string" where
  "verify_evidence C S d i org =
     (case get_evidence d i org of
        None \<Rightarrow> Inl (EvidenceNotFoundError i)
      | Some e \<Rightarrow>
          rbind (case get_public_key_for_key_id d (ev_key_id e) of
              Some pk \<Rightarrow> Inr pk
            | None \<Rightarrow> get_or_raise (public_key_b64_from_signing_key_b64 C (evidence_signing_key_b64 S)) SigningKeyUnusable) (\<lambda>public_key.
            let signature = \<lparr>algorithm = ''ed25519'', sig_key_id = ev_key_id e, sig_value = ev_signature e\<rparr>
            in Inr (verify_payload C (ev_payload e) signature public_key, ev_key_id e)))"

record ChainVerificationResult =
  cr_total :: nat
  cr_invalid_signatures :: "uuid list"
  cr_broken_links :: "uuid list"

definition cr_intact :: "ChainVerificationResult \<Rightarrow> bool" where
  "cr_intact r = (cr_invalid_signatures r = [] \<and> cr_broken_links r = [])"

definition chain_rows :: "db \<Rightarrow> uuid option \<Rightarrow> datetime option \<Rightarrow> Evidence list" where
  "chain_rows d org since = sort_key chain_key
     (filter (\<lambda>r. case since of None \<Rightarrow> True | Some t \<Rightarrow> t \<le> ev_created_at r) (org_evidence d org))"

definition preceding_record :: "db \<Rightarrow> uuid option \<Rightarrow> Evidence \<Rightarrow> Evidence option" where
  "preceding_record d org r =
     (case ev_sequence r of
        Some s \<Rightarrow> (case rev (sort_key (\<lambda>q. the (ev_sequence q))
            (filter (\<lambda>q. case ev_sequence q of None \<Rightarrow> False | Some n \<Rightarrow> n < s) (org_evidence d org)))
          of [] \<Rightarrow> None | q # _ \<Rightarrow> Some q)
      | None \<Rightarrow> (case rev (sort_key (\<lambda>q. (ev_created_at q, ev_id q))
            (filter (\<lambda>q. ev_created_at q < ev_created_at r) (org_evidence d org)))
          of [] \<Rightarrow> None | q # _ \<Rightarrow> Some q))"

definition link_ok :: "string option \<Rightarrow> json \<Rightarrow> bool" where
  "link_ok expected payload = (case obj_get payload ''previous_hash'' of
     None \<Rightarrow> True | Some v \<Rightarrow> v = str_or_null expected)"

fun broken_from :: "crypto \<Rightarrow> string option \<Rightarrow> Evidence list \<Rightarrow> uuid list" where
  "broken_from C expected [] = []"
| "broken_from C expected (r # rs) =
     (if link_ok expected (ev_payload r) then [] else [ev_id r])
     @ broken_from C (Some (payload_hash C (ev_payload r))) rs"

definition verify_chain ::
  "crypto \<Rightarrow> Settings \<Rightarrow> db \<Rightarrow> uuid option \<Rightarrow> datetime option \<Rightarrow> EvidenceError + ChainVerificationResult" where
  "verify_chain C S d org since =
     (let records = chain_rows d org since;
          expected = (case records of [] \<Rightarrow> None
            | r # _ \<Rightarrow> map_option (\<lambda>q. payload_hash C (ev_payload q)) (preceding_record d org r))
      in rbind (rmapM (\<lambda>r. rmap (\<lambda>v. (ev_id r, fst v)) (verify_evidence C S d (ev_id r) org)) records) (\<lambda>checks.
        Inr \<lparr>cr_total = length records,
             cr_invalid_signatures = map fst (filter (\<lambda>c. \<not> snd c) checks),
             cr_broken_links = broken_from C expected records\<rparr>))"

section \<open>Links\<close>

definition link_of :: "json \<Rightarrow> json option" where
  "link_of p = obj_get p ''previous_hash''"

definition hash_of :: "crypto \<Rightarrow> json \<Rightarrow> json" where
  "hash_of C p = JStr (payload_hash C p)"

text \<open>Payloads as the service writes them: no float, no repeated key, and the link is a text or null.\<close>

definition chain_payload :: "json \<Rightarrow> bool" where
  "chain_payload p = (plain_json p \<and> (case link_of p of None \<Rightarrow> True | Some v \<Rightarrow> v = JNull \<or> (\<exists>h. v = JStr h)))"

lemma obj_get_sort_keys:
  assumes "plain_json p"
  shows "obj_get (sort_keys p) k = map_option sort_keys (obj_get p k)"
proof (cases p)
  case (JObj ps)
  let ?qs = "map (\<lambda>p. (fst p, sort_keys (snd p))) ps"
  have d: "distinct (map fst ?qs)" using assms JObj by (simp add: comp_def)
  then have "distinct (map fst (sort_key fst ?qs))"
    unfolding distinct_map_sort_key .
  with d have "map_of (sort_key fst ?qs) = map_of ?qs"
    by (subst map_of_inject_set) (simp_all only: set_sort)
  moreover have "map_of ?qs k = map_option sort_keys (map_of ps k)" by (induction ps) auto
  ultimately show ?thesis using JObj by simp
qed simp_all

lemma chain_payload_same_link:
  assumes "chain_payload p" "chain_payload q" "sort_keys p = sort_keys q"
  shows "link_of p = link_of q"
proof -
  have "map_option sort_keys (link_of p) = map_option sort_keys (link_of q)"
    using obj_get_sort_keys [of p "''previous_hash''"] obj_get_sort_keys [of q "''previous_hash''"] assms
    by (simp add: chain_payload_def link_of_def)
  with assms(1,2) show ?thesis by (auto simp: chain_payload_def split: option.splits)
qed

interpretation payload_chain: hash_chain "hash_of C" link_of JNull chain_payload
    "\<lambda>p q. sort_keys p = sort_keys q" "sha_collision C" for C
proof unfold_locales
  fix p q
  assume "chain_payload p" "chain_payload q" "hash_of C p = hash_of C q"
  then show "sort_keys p = sort_keys q \<or> sha_collision C p q"
    using payload_hash_eqD by (auto simp: hash_of_def chain_payload_def)
next
  show "chain_payload p \<Longrightarrow> chain_payload q \<Longrightarrow> sort_keys p = sort_keys q \<Longrightarrow> link_of p = link_of q" for p q
    by (rule chain_payload_same_link)
qed (simp add: hash_of_def)

lemma broken_from_iff:
  assumes "\<forall>r \<in> set rs. link_of (ev_payload r) \<noteq> None"
  shows "broken_from C e rs = [] \<longleftrightarrow> linked (hash_of C) link_of (str_or_null e) (map ev_payload rs)"
  using assms
proof (induction rs arbitrary: e)
  case (Cons r rs)
  then obtain v where "link_of (ev_payload r) = Some v" by auto
  with Cons show ?case by (auto simp: link_ok_def link_of_def hash_of_def str_or_null_def)
qed simp

lemma linked_has_link: "linked hash prev e ps \<Longrightarrow> p \<in> set ps \<Longrightarrow> prev p \<noteq> None"
  by (induction ps arbitrary: e) auto

section \<open>The chain that appending builds\<close>

definition ordinals :: "Evidence list \<Rightarrow> bool" where
  "ordinals rs = (map ev_sequence rs = map (\<lambda>i. Some (int i + 1)) [0..<length rs])"

lemma ordinals_nth: "ordinals rs \<Longrightarrow> i < length rs \<Longrightarrow> ev_sequence (rs ! i) = Some (int i + 1)"
  unfolding ordinals_def by (drule arg_cong [where f = "\<lambda>l. l ! i"]) simp

lemma ordinals_Some: "ordinals rs \<Longrightarrow> r \<in> set rs \<Longrightarrow> ev_sequence r \<noteq> None"
  by (auto simp: in_set_conv_nth ordinals_nth)

lemma ordinals_snoc [simp]: "ordinals (rs @ [r]) \<longleftrightarrow> ordinals rs \<and> ev_sequence r = Some (int (length rs) + 1)"
  by (auto simp: ordinals_def)

lemma ordinals_Nil [simp]: "ordinals []"
  by (simp add: ordinals_def)

lemma ordinals_keys_sorted: "ordinals rs \<Longrightarrow> sorted (map chain_key rs)"
proof (unfold sorted_iff_nth_mono, intro allI impI)
  fix i j
  assume "ordinals rs" "i \<le> j" "j < length (map chain_key rs)"
  then show "map chain_key rs ! i \<le> map chain_key rs ! j"
    by (cases "i = j") (auto simp: chain_key_def ordinals_nth)
qed

lemma ordinals_sorted: "ordinals rs \<Longrightarrow> sort_key chain_key rs = rs"
  by (intro sort_key_id_if_sorted ordinals_keys_sorted)

lemma ordinals_max:
  "ordinals rs \<Longrightarrow>
     (case List.map_filter ev_sequence rs of [] \<Rightarrow> 0 | n # ns \<Rightarrow> foldl max n ns) = int (length rs)"
proof (induction rs rule: rev_induct)
  case (snoc r rs)
  then have "ev_sequence r = Some (int (length rs) + 1)" by simp
  with snoc show ?case
    by (auto simp: List.map_filter_def split: list.splits)
qed (simp add: List.map_filter_def)

text \<open>One organisation's records, in insertion order, are numbered from 1 without gap and linked.\<close>

definition well_chained :: "crypto \<Rightarrow> db \<Rightarrow> uuid option \<Rightarrow> bool" where
  "well_chained C d org = (ordinals (org_evidence d org)
     \<and> linked (hash_of C) link_of JNull (map ev_payload (org_evidence d org)))"

definition signed :: "crypto \<Rightarrow> db \<Rightarrow> Evidence \<Rightarrow> bool" where
  "signed C d r = (case get_public_key_for_key_id d (ev_key_id r) of None \<Rightarrow> False
     | Some pk \<Rightarrow> verify_payload C (ev_payload r)
         \<lparr>algorithm = ''ed25519'', sig_key_id = ev_key_id r, sig_value = ev_signature r\<rparr> pk)"

definition chains_ok :: "crypto \<Rightarrow> db \<Rightarrow> bool" where
  "chains_ok C d = (distinct (map ev_id (evidence d)) \<and> (\<forall>org. well_chained C d org) \<and> (\<forall>r \<in> set (evidence d). signed C d r))"

lemma org_evidence_subset: "r \<in> set (org_evidence d org) \<Longrightarrow> r \<in> set (evidence d) \<and> ev_organization_id r = org"
  by (simp add: org_evidence_def)

lemma previous_hash_end:
  "well_chained C d org \<Longrightarrow> str_or_null (previous_chain_hash C d org) = chain_end (hash_of C) JNull (map ev_payload (org_evidence d org))"
  unfolding well_chained_def previous_chain_hash_def
  by (cases "org_evidence d org" rule: rev_cases) (auto simp: ordinals_sorted str_or_null_def hash_of_def split: list.splits)

lemma next_sequence_length: "well_chained C d org \<Longrightarrow> next_chain_sequence d org = int (length (org_evidence d org)) + 1"
  by (simp add: next_chain_sequence_def ordinals_max well_chained_def)

text \<open>The configured key is in the registry, which \<open>ensure_current_key_registered\<close> sees to at startup.\<close>

definition registered :: "crypto \<Rightarrow> Settings \<Rightarrow> db \<Rightarrow> bool" where
  "registered C S d = (\<exists>pk. public_key_b64_from_signing_key_b64 C (evidence_signing_key_b64 S) = Some pk
     \<and> get_public_key_for_key_id d (evidence_signing_key_id S) = Some pk)"

text \<open>
  The steps that matter to the chain: an append of a decision record or of another event under a
  registered key (the configured key may differ from step to step), the registration of a key at
  startup, and anything that leaves the two tables alone.
\<close>

inductive evidence_step :: "crypto \<Rightarrow> db \<Rightarrow> db \<Rightarrow> bool" for C where
  decision_record: "\<lbrakk>append_evidence C S A eid now d = Inr (d', e); registered C S d; eid \<notin> ev_id ` set (evidence d)\<rbrakk>
    \<Longrightarrow> evidence_step C d d'"
| other_event: "\<lbrakk>append_generic_evidence_event C S org did ty ps st eid now d = Inr (d', e); registered C S d;
    eid \<notin> ev_id ` set (evidence d)\<rbrakk> \<Longrightarrow> evidence_step C d d'"
| register_key: "evidence_step C d (ensure_current_key_registered kid pk now d)"
| elsewhere: "\<lbrakk>evidence d' = evidence d; signing_keys d' = signing_keys d\<rbrakk> \<Longrightarrow> evidence_step C d d'"

lemma sign_and_addD:
  assumes "sign_and_add C S did payload st org seq eid now d = Inr (d', e)"
  shows "evidence d' = evidence d @ [e] \<and> signing_keys d' = signing_keys d \<and> ev_payload e = payload
    \<and> ev_organization_id e = org \<and> ev_sequence e = Some seq \<and> ev_id e = eid \<and> ev_decision_id e = did \<and> ev_status e = st
    \<and> sign_payload C payload (evidence_signing_key_b64 S) (evidence_signing_key_id S)
       = Some \<lparr>algorithm = ''ed25519'', sig_key_id = ev_key_id e, sig_value = ev_signature e\<rparr>
    \<and> ev_key_id e = evidence_signing_key_id S"
  using assms
  by (auto simp: sign_and_add_def sign_payload_def Let_def split: option.splits bind_splits)

lemma signed_cong: "signing_keys d' = signing_keys d \<Longrightarrow> signed C d' r = signed C d r"
  by (simp add: signed_def get_public_key_for_key_id_def)

lemma chains_ok_append:
  assumes ok: "chains_ok C d" and "ed25519_correct C" and "registered C S d" and "eid \<notin> ev_id ` set (evidence d)"
    and add: "sign_and_add C S did payload st org (next_chain_sequence d org) eid now d = Inr (d', e)"
    and link: "link_of payload = Some (str_or_null (previous_chain_hash C d org))"
  shows "chains_ok C d'"
proof -
  note e = sign_and_addD [OF add]
  have sg: "signed C d' e"
    using e assms(3) verify_sign_payload [OF assms(2)]
    by (auto simp: registered_def signed_def get_public_key_for_key_id_def)
  have w: "well_chained C d' o'" for o'
  proof (cases "o' = org")
    case True
    from ok have wd: "well_chained C d org" by (simp add: chains_ok_def)
    have "org_evidence d' org = org_evidence d org @ [e]" using e by (simp add: org_evidence_def)
    with wd e link previous_hash_end [OF wd] next_sequence_length [OF wd] True
    show ?thesis by (simp add: well_chained_def linked_append)
  next
    case False
    then have "org_evidence d' o' = org_evidence d o'" using e by (auto simp: org_evidence_def)
    with ok show ?thesis by (simp add: chains_ok_def well_chained_def)
  qed
  have "distinct (map ev_id (evidence d'))" using ok e assms(4) by (simp add: chains_ok_def)
  moreover have "\<forall>r \<in> set (evidence d'). signed C d' r"
    using ok e sg signed_cong [of d' d] by (auto simp: chains_ok_def)
  ultimately show ?thesis using w by (simp add: chains_ok_def)
qed

lemma link_of_decision_record [simp]:
  "link_of (build_evidence_payload A risk prev aids sys now) = Some (str_or_null prev)"
  by (simp add: link_of_def build_evidence_payload_def Let_def)

lemma link_of_event [simp]:
  "link_of (JObj (dict_updates ps [a, b, c, e, (''previous_hash'', v)])) = Some v"
  by (simp add: link_of_def dict_updates_def update_conv)

lemma get_public_key_register:
  "get_public_key_for_key_id d k = Some pk \<Longrightarrow> get_public_key_for_key_id (ensure_current_key_registered kid pk' now d) k = Some pk"
  by (auto simp: get_public_key_for_key_id_def ensure_current_key_registered_def db_find_append db_find_db_update
      split: option.splits)

lemma chains_ok_step: "evidence_step C d d' \<Longrightarrow> ed25519_correct C \<Longrightarrow> chains_ok C d \<Longrightarrow> chains_ok C d'"
proof (induction rule: evidence_step.induct)
  case (decision_record S A eid now d d' e)
  then show ?case unfolding append_evidence_def Let_def by (auto intro: chains_ok_append)
next
  case (other_event S org did ty ps st eid now d d' e)
  then show ?case unfolding append_generic_evidence_event_def Let_def
    by (auto intro: chains_ok_append)
next
  case (register_key d kid pk now)
  have "evidence (ensure_current_key_registered kid pk now d) = evidence d"
    by (simp add: ensure_current_key_registered_def split: option.split)
  with register_key show ?case
    by (auto simp: chains_ok_def well_chained_def org_evidence_def signed_def get_public_key_register split: option.splits)
next
  case (elsewhere d' d)
  then have "signed C d' r = signed C d r" for r by (intro signed_cong)
  with elsewhere show ?case by (simp add: chains_ok_def well_chained_def org_evidence_def)
qed

lemma chains_ok_run:
  "(evidence_step C)\<^sup>*\<^sup>* d0 d \<Longrightarrow> ed25519_correct C \<Longrightarrow> chains_ok C d0 \<Longrightarrow> chains_ok C d"
  by (induction rule: rtranclp_induct) (auto intro: chains_ok_step)

lemma chains_ok_empty: "evidence d = [] \<Longrightarrow> chains_ok C d"
  by (simp add: chains_ok_def well_chained_def org_evidence_def)

section \<open>Verification\<close>

lemma rmapM_Inr: "(\<And>x. x \<in> set xs \<Longrightarrow> f x = Inr (g x)) \<Longrightarrow> rmapM f xs = Inr (map g xs)"
  by (induction xs) auto

lemma verify_evidence_signed:
  assumes "distinct (map ev_id (evidence d))" "r \<in> set (org_evidence d org)" "signed C d r"
  shows "verify_evidence C S d (ev_id r) org = Inr (True, ev_key_id r)"
proof -
  have r: "r \<in> set (evidence d)" "ev_organization_id r = org" using org_evidence_subset [OF assms(2)] by auto
  with assms(1) have "get_evidence_row d (ev_id r) = Some r"
    by (auto simp: get_evidence_row_def intro: db_find_unique)
  with r assms(3) show ?thesis by (auto simp: verify_evidence_def get_evidence_def signed_def Let_def split: option.splits)
qed

lemma verify_chain_signed:
  assumes "distinct (map ev_id (evidence d))" "\<forall>r \<in> set (org_evidence d org). signed C d r"
  shows "\<exists>res. verify_chain C S d org None = Inr res \<and> cr_total res = length (org_evidence d org) \<and> cr_invalid_signatures res = []"
proof -
  have "set (chain_rows d org None) = set (org_evidence d org)" "length (chain_rows d org None) = length (org_evidence d org)"
    by (simp_all add: chain_rows_def)
  moreover from this have "rmapM (\<lambda>r. rmap (\<lambda>v. (ev_id r, fst v)) (verify_evidence C S d (ev_id r) org)) (chain_rows d org None)
      = Inr (map (\<lambda>r. (ev_id r, True)) (chain_rows d org None))"
    using assms by (intro rmapM_Inr) (simp add: verify_evidence_signed)
  ultimately show ?thesis by (simp add: verify_chain_def Let_def comp_def)
qed

lemma chain_rows_ordinals: "ordinals (org_evidence d org) \<Longrightarrow> chain_rows d org None = org_evidence d org"
  by (simp add: chain_rows_def ordinals_sorted)

lemma set_chain_rows: "set (chain_rows d org None) = set (org_evidence d org)"
  by (simp add: chain_rows_def)

lemma no_record_before_min:
  assumes "\<forall>r \<in> set (org_evidence d org). ev_sequence r \<noteq> None" "chain_rows d org None = r # rs"
  shows "preceding_record d org r = None"
proof -
  have mem: "q \<in> set (org_evidence d org) \<longleftrightarrow> q \<in> set (r # rs)" for q
    using set_chain_rows [of d org] assms(2) by simp
  with assms(1) obtain s where s: "ev_sequence r = Some s" by auto
  have "sorted (map chain_key (r # rs))" using assms(2) by (metis chain_rows_def sorted_sort_key)
  then have le: "\<forall>q \<in> set (r # rs). chain_key r \<le> chain_key q" by auto
  have "\<not> (case ev_sequence q of None \<Rightarrow> False | Some n \<Rightarrow> n < s)" if "q \<in> set (org_evidence d org)" for q
    using bspec [OF le, of q] mem [of q] that s by (auto simp: chain_key_def split: option.splits)
  then have "filter (\<lambda>q. case ev_sequence q of None \<Rightarrow> False | Some n \<Rightarrow> n < s) (org_evidence d org) = []"
    by (simp add: filter_empty_conv)
  with s show ?thesis by (simp add: preceding_record_def)
qed

lemma verify_chain_broken:
  assumes "\<forall>r \<in> set (org_evidence d org). ev_sequence r \<noteq> None" "verify_chain C S d org None = Inr res"
  shows "cr_broken_links res = broken_from C None (chain_rows d org None)"
proof -
  have "(case chain_rows d org None of [] \<Rightarrow> None
      | r # _ \<Rightarrow> map_option (\<lambda>q. payload_hash C (ev_payload q)) (preceding_record d org r)) = None"
    using no_record_before_min [OF assms(1)] by (simp split: list.split)
  with assms(2) show ?thesis by (auto simp: verify_chain_def Let_def)
qed

lemma verify_chain_intact:
  assumes "chains_ok C d"
  shows "verify_chain C S d org None =
    Inr \<lparr>cr_total = length (org_evidence d org), cr_invalid_signatures = [], cr_broken_links = []\<rparr>"
proof -
  have w: "ordinals (org_evidence d org)" "linked (hash_of C) link_of JNull (map ev_payload (org_evidence d org))"
    using assms by (simp_all add: chains_ok_def well_chained_def)
  obtain res where res: "verify_chain C S d org None = Inr res" "cr_total res = length (org_evidence d org)"
      "cr_invalid_signatures res = []"
    using verify_chain_signed [of d org C S] assms org_evidence_subset by (auto simp: chains_ok_def)
  have "broken_from C None (org_evidence d org) = []"
    using broken_from_iff [of "org_evidence d org" C None] w(2) linked_has_link [OF w(2)]
    by (simp add: str_or_null_def)
  moreover have "\<forall>r \<in> set (org_evidence d org). ev_sequence r \<noteq> None"
    using ordinals_Some [OF w(1)] by blast
  ultimately have "cr_broken_links res = []"
    using verify_chain_broken [OF _ res(1)] by (simp add: chain_rows_ordinals [OF w(1)])
  with res show ?thesis by simp
qed

section \<open>Two histories with the same end\<close>

definition links_verify :: "crypto \<Rightarrow> Settings \<Rightarrow> db \<Rightarrow> uuid option \<Rightarrow> bool" where
  "links_verify C S d org = (\<exists>r. verify_chain C S d org None = Inr r \<and> cr_broken_links r = [])"

definition fully_linked :: "db \<Rightarrow> uuid option \<Rightarrow> bool" where
  "fully_linked d org = (\<forall>r \<in> set (org_evidence d org). link_of (ev_payload r) \<noteq> None \<and> chain_payload (ev_payload r)
     \<and> ev_sequence r \<noteq> None)"

lemma links_verify_linked:
  assumes "links_verify C S d org" "fully_linked d org"
  shows "linked (hash_of C) link_of JNull (map ev_payload (chain_rows d org None))"
    and "list_all chain_payload (map ev_payload (chain_rows d org None))"
  using assms verify_chain_broken [of d org C S] broken_from_iff [of "chain_rows d org None" C None]
  by (auto simp: links_verify_def fully_linked_def set_chain_rows str_or_null_def list_all_iff)

lemma chain_end_last: "ps \<noteq> [] \<Longrightarrow> chain_end hash e ps = hash (last ps)"
  by (cases ps rule: rev_cases) auto

section \<open>Deleting a record\<close>

definition delete_evidence :: "uuid \<Rightarrow> db \<Rightarrow> db" where
  "delete_evidence i d = d\<lparr>evidence := filter (\<lambda>r. ev_id r \<noteq> i) (evidence d)\<rparr>"

lemma org_evidence_delete_eq:
  "org_evidence (delete_evidence i d) org = filter (\<lambda>r. ev_id r \<noteq> i) (org_evidence d org)"
  by (auto simp: org_evidence_def delete_evidence_def intro!: filter_cong)

lemma org_evidence_delete:
  assumes "distinct (map ev_id (evidence d))" "org_evidence d org = ps @ p # qs"
  shows "org_evidence (delete_evidence (ev_id p) d) org = ps @ qs"
proof -
  have "distinct (map ev_id (ps @ p # qs))"
    unfolding assms(2) [symmetric] org_evidence_def by (rule distinct_map_filter [OF assms(1)])
  then have "ev_id p \<notin> ev_id ` set ps" "ev_id p \<notin> ev_id ` set qs" by auto
  then have "filter (\<lambda>r. ev_id r \<noteq> ev_id p) ps = ps" "filter (\<lambda>r. ev_id r \<noteq> ev_id p) qs = qs"
    by (metis (mono_tags, lifting) filter_True imageI)+
  with assms(2) show ?thesis by (simp add: org_evidence_delete_eq)
qed

lemma org_evidence_delete_other:
  assumes "p \<in> set (evidence d)" "distinct (map ev_id (evidence d))" "ev_organization_id p \<noteq> org"
  shows "org_evidence (delete_evidence (ev_id p) d) org = org_evidence d org"
proof -
  have "ev_id r \<noteq> ev_id p" if "r \<in> set (org_evidence d org)" for r
    using assms org_evidence_subset [OF that] by (metis inj_onD distinct_map)
  then show ?thesis unfolding org_evidence_delete_eq by (intro filter_True) blast
qed

lemma signed_delete [simp]: "signed C (delete_evidence i d) r = signed C d r"
  by (simp add: signed_def get_public_key_for_key_id_def delete_evidence_def)

lemma delete_last_chains_ok:
  assumes "chains_ok C d" "org_evidence d org = ps @ [p]"
  shows "chains_ok C (delete_evidence (ev_id p) d)"
proof -
  have p: "p \<in> set (evidence d)" "ev_organization_id p = org" using org_evidence_subset [of p d org] assms(2) by auto
  have dd: "distinct (map ev_id (evidence d))" using assms(1) by (simp add: chains_ok_def)
  have "well_chained C (delete_evidence (ev_id p) d) o'" for o'
  proof (cases "o' = org")
    case True
    with assms org_evidence_delete [OF dd assms(2)] show ?thesis
      by (auto simp: chains_ok_def well_chained_def linked_append dest: spec [of _ org])
  next
    case False
    with p org_evidence_delete_other [OF p(1) dd] assms(1) show ?thesis by (auto simp: chains_ok_def well_chained_def)
  qed
  moreover have "distinct (map ev_id (evidence (delete_evidence (ev_id p) d)))"
    using dd by (simp add: delete_evidence_def distinct_map_filter)
  moreover have "set (evidence (delete_evidence (ev_id p) d)) \<subseteq> set (evidence d)" by (auto simp: delete_evidence_def)
  ultimately show ?thesis using assms(1) unfolding chains_ok_def signed_delete by blast
qed

fun expected_after :: "crypto \<Rightarrow> string option \<Rightarrow> Evidence list \<Rightarrow> string option" where
  "expected_after C e [] = e"
| "expected_after C e (r # rs) = expected_after C (Some (payload_hash C (ev_payload r))) rs"

lemma broken_from_append:
  "broken_from C e (rs @ qs) = broken_from C e rs @ broken_from C (expected_after C e rs) qs"
  by (induction rs arbitrary: e) auto

lemma expected_after_end:
  "str_or_null (expected_after C e rs) = chain_end (hash_of C) (str_or_null e) (map ev_payload rs)"
  by (induction rs arbitrary: e) (auto simp: str_or_null_def hash_of_def)


lemma inner_deletion_breaks:
  assumes ok: "chains_ok C d" and o: "org_evidence d org = ps @ p # q # qs"
    and "list_all chain_payload (map ev_payload (ps @ [p]))"
  shows "\<exists>res. verify_chain C S (delete_evidence (ev_id p) d) org None = Inr res
    \<and> (ev_id q \<in> set (cr_broken_links res)
       \<or> ps \<noteq> [] \<and> (sort_keys (ev_payload (last ps)) = sort_keys (ev_payload p) \<or> sha_collision C (ev_payload (last ps)) (ev_payload p)))"
proof -
  let ?d = "delete_evidence (ev_id p) d"
  have dd: "distinct (map ev_id (evidence d))" and w: "ordinals (org_evidence d org)"
    and l: "linked (hash_of C) link_of JNull (map ev_payload (org_evidence d org))"
    using ok by (auto simp: chains_ok_def well_chained_def)
  note o' = org_evidence_delete [OF dd o]
  have seqs: "\<forall>r \<in> set (org_evidence ?d org). ev_sequence r \<noteq> None"
    using ordinals_Some [OF w] by (simp add: o' o)
  have rows: "chain_rows ?d org None = ps @ q # qs"
    using sorted_filter [OF ordinals_keys_sorted [OF w], of "\<lambda>r. ev_id r \<noteq> ev_id p"]
    by (simp add: chain_rows_def sort_key_id_if_sorted o' flip: org_evidence_delete_eq)
  have "distinct (map ev_id (evidence ?d))" using dd by (simp add: delete_evidence_def distinct_map_filter)
  moreover have "\<forall>r \<in> set (org_evidence ?d org). signed C ?d r"
    using ok org_evidence_subset [of _ d org] by (simp add: o' o chains_ok_def)
  ultimately obtain res where res: "verify_chain C S ?d org None = Inr res" using verify_chain_signed by blast
  have b: "cr_broken_links res = broken_from C None (ps @ q # qs)" using verify_chain_broken [OF seqs res] rows by simp
  show ?thesis
  proof (cases "link_of (ev_payload q) = Some (chain_end (hash_of C) JNull (map ev_payload ps))")
    case True
    with payload_chain.inner_gap [of C "map ev_payload ps" "ev_payload p" "ev_payload q" "map ev_payload qs"] l o assms(3)
    have "ps \<noteq> [] \<and> (sort_keys (ev_payload (last ps)) = sort_keys (ev_payload p) \<or> sha_collision C (ev_payload (last ps)) (ev_payload p))"
      by (auto simp: last_map)
    with res show ?thesis by blast
  next
    case False
    moreover have "link_of (ev_payload q) \<noteq> None" using linked_has_link [OF l] o by simp
    moreover have "str_or_null (expected_after C None ps) = chain_end (hash_of C) JNull (map ev_payload ps)"
      using expected_after_end [of C None ps] by (simp add: str_or_null_def)
    ultimately have "\<not> link_ok (expected_after C None ps) (ev_payload q)" by (auto simp: link_ok_def link_of_def)
    with b res show ?thesis by (auto simp: broken_from_append)
  qed
qed

section \<open>Claims\<close>

text \<open>The chain the services write verifies. Starting with no evidence, after any run of appends by
  either route, interleaved across organisations, across key rotations and with any other activity,
  every organisation's chain has ordinals 1 to n without a gap and the chain verification reports all
  n records, no invalid signature and no broken link, whatever key is configured by then.\<close>

theorem appended_chain_verifies:
  assumes "ed25519_correct C" and "(evidence_step C)\<^sup>*\<^sup>* d0 d" and "evidence d0 = []"
  shows "verify_chain C S d org None =
      Inr \<lparr>cr_total = length (org_evidence d org), cr_invalid_signatures = [], cr_broken_links = []\<rparr>
    \<and> map ev_sequence (chain_rows d org None) = map (\<lambda>i. Some (int i + 1)) [0..<length (org_evidence d org)]"
proof -
  have ok: "chains_ok C d" using chains_ok_run [OF assms(2,1)] chains_ok_empty [OF assms(3)] by blast
  then have "ordinals (org_evidence d org)" by (simp add: chains_ok_def well_chained_def)
  with verify_chain_intact [OF ok] show ?thesis by (simp add: chain_rows_ordinals ordinals_def)
qed

definition keyed_db :: db where
  "keyed_db = one_agent_db\<lparr>signing_keys := [\<lparr>sk_key_id = ''k1'', sk_public_key_b64 = ''QUJD'', sk_created_at = 0, sk_retired_at = None\<rparr>]\<rparr>"

lemma keyed_db_registered: "registered plain_crypto demo_settings keyed_db"
proof -
  have "public_key_b64_from_signing_key_b64 plain_crypto (evidence_signing_key_b64 demo_settings) = Some ''QUJD''"
    by code_simp
  then show ?thesis by (simp add: registered_def keyed_db_def get_public_key_for_key_id_def demo_settings_def)
qed

lemma demo_append:
  "\<exists>d' e. append_generic_evidence_event plain_crypto demo_settings org did ty ps st eid now d = Inr (d', e)"
proof -
  obtain sig where "sign_payload plain_crypto (JObj (dict_updates ps
      [(''payload_version'', JInt 2), (''event_type'', JStr ty), (''decision_id'', JStr did), (''recorded_at'', JStr (isoformat now)),
       (''previous_hash'', str_or_null (previous_chain_hash plain_crypto d org))]))
      (evidence_signing_key_b64 demo_settings) (evidence_signing_key_id demo_settings) = Some sig"
    using demo_signs by blast
  then show ?thesis by (simp add: append_generic_evidence_event_def sign_and_add_def Let_def)
qed

lemma no_evidence_yet: "evidence keyed_db = []"
  by (simp add: keyed_db_def one_agent_db_def empty_db_def)

lemma one_event:
  "\<exists>d p. (evidence_step plain_crypto)\<^sup>*\<^sup>* keyed_db d \<and> registered plain_crypto demo_settings d
     \<and> evidence d = [p] \<and> org_evidence d (Some ''o1'') = [p] \<and> ev_id p = ''e1'' \<and> chain_payload (ev_payload p)"
proof -
  obtain d e where a: "append_generic_evidence_event plain_crypto demo_settings (Some ''o1'') ''d1'' ''receipt'' [] EvVerified ''e1'' 0 keyed_db
      = Inr (d, e)"
    using demo_append by blast
  note ed = sign_and_addD [OF a [unfolded append_generic_evidence_event_def Let_def]]
  then have "ev_payload e = JObj (dict_updates [] [(''payload_version'', JInt 2), (''event_type'', JStr ''receipt''),
      (''decision_id'', JStr ''d1''), (''recorded_at'', JStr (isoformat 0)), (''previous_hash'', JNull)])"
    using no_evidence_yet by (simp add: previous_chain_hash_def org_evidence_def str_or_null_def)
  then have "chain_payload (ev_payload e)" by (simp add: chain_payload_def link_of_def dict_updates_def)
  moreover have "registered plain_crypto demo_settings d"
    using keyed_db_registered ed by (simp add: registered_def get_public_key_for_key_id_def)
  moreover have "evidence_step plain_crypto keyed_db d"
    using evidence_step.other_event [OF a keyed_db_registered] no_evidence_yet by simp
  ultimately show ?thesis using ed no_evidence_yet by (auto simp: org_evidence_def)
qed

lemma two_events:
  "\<exists>d p q. (evidence_step plain_crypto)\<^sup>*\<^sup>* keyed_db d \<and> org_evidence d (Some ''o1'') = [p, q] \<and> chain_payload (ev_payload p)"
proof -
  obtain d p where s: "(evidence_step plain_crypto)\<^sup>*\<^sup>* keyed_db d" "registered plain_crypto demo_settings d"
      "evidence d = [p]" "org_evidence d (Some ''o1'') = [p]" "ev_id p = ''e1''" "chain_payload (ev_payload p)"
    using one_event by blast
  obtain d2 q where b: "append_generic_evidence_event plain_crypto demo_settings (Some ''o1'') ''d1'' ''receipt'' [] EvVerified ''e2'' 0 d
      = Inr (d2, q)"
    using demo_append by blast
  note ed = sign_and_addD [OF b [unfolded append_generic_evidence_event_def Let_def]]
  have "evidence_step plain_crypto d d2" using evidence_step.other_event [OF b s(2)] s by simp
  with s(1) have "(evidence_step plain_crypto)\<^sup>*\<^sup>* keyed_db d2" by (rule rtranclp.rtrancl_into_rtrancl)
  moreover have "org_evidence d2 (Some ''o1'') = [p, q]" using s ed by (simp add: org_evidence_def split: if_splits)
  ultimately show ?thesis using s(6) by blast
qed

theorem appended_chain_verifies_witness:
  "\<exists>d. (evidence_step plain_crypto)\<^sup>*\<^sup>* keyed_db d
     \<and> verify_chain plain_crypto demo_settings d (Some ''o1'') None =
         Inr \<lparr>cr_total = 2, cr_invalid_signatures = [], cr_broken_links = []\<rparr>"
proof -
  obtain d p q where s: "(evidence_step plain_crypto)\<^sup>*\<^sup>* keyed_db d" "org_evidence d (Some ''o1'') = [p, q]"
    using two_events by blast
  from appended_chain_verifies [OF plain_crypto_correct s(1) no_evidence_yet, of demo_settings "Some ''o1''"] s show ?thesis
    by (auto simp: numeral_2_eq_2)
qed

text \<open>The last hash fixes the whole history. If two states of an organisation's evidence both verify
  without a broken link, every record is linked, and the last records have the same hash, then the
  two histories have the same length and record by record the same payload (up to the order of keys),
  or two of their payloads are a collision of the digest. So a rewritten, reordered, shortened or
  padded history that still verifies shows in the hash of its last record.\<close>

theorem last_hash_fixes_history:
  assumes "links_verify C S d org" "fully_linked d org" "links_verify C S' d' org'" "fully_linked d' org'"
    and "chain_rows d org None \<noteq> []" "chain_rows d' org' None \<noteq> []"
    and "payload_hash C (ev_payload (last (chain_rows d org None))) = payload_hash C (ev_payload (last (chain_rows d' org' None)))"
  shows "list_all2 (\<lambda>r r'. sort_keys (ev_payload r) = sort_keys (ev_payload r')) (chain_rows d org None) (chain_rows d' org' None)
    \<or> (\<exists>r \<in> set (chain_rows d org None). \<exists>r' \<in> set (chain_rows d' org' None). sha_collision C (ev_payload r) (ev_payload r'))"
  using payload_chain.head_determines_history [OF links_verify_linked(1) [OF assms(1,2)] links_verify_linked(1) [OF assms(3,4)]
      links_verify_linked(2) [OF assms(1,2)] links_verify_linked(2) [OF assms(3,4)]] assms(5-7)
  by (simp add: chain_end_last last_map hash_of_def list_all2_map1 list_all2_map2)

theorem last_hash_fixes_history_witness:
  "\<exists>d p. chain_rows d (Some ''o1'') None = [p] \<and> links_verify plain_crypto demo_settings d (Some ''o1'')
   \<and> (list_all2 (\<lambda>r r'. sort_keys (ev_payload r) = sort_keys (ev_payload r')) (chain_rows d (Some ''o1'') None) (chain_rows d (Some ''o1'') None)
      \<or> (\<exists>r \<in> set (chain_rows d (Some ''o1'') None). \<exists>r' \<in> set (chain_rows d (Some ''o1'') None).
             sha_collision plain_crypto (ev_payload r) (ev_payload r')))"
proof -
  obtain d p where s: "(evidence_step plain_crypto)\<^sup>*\<^sup>* keyed_db d" "org_evidence d (Some ''o1'') = [p]" "chain_payload (ev_payload p)"
    using one_event by blast
  have ok: "chains_ok plain_crypto d"
    using chains_ok_run [OF s(1) plain_crypto_correct chains_ok_empty [OF no_evidence_yet]] .
  then have w: "ordinals [p]" "link_of (ev_payload p) \<noteq> None" using s(2) by (auto simp: chains_ok_def well_chained_def dest: spec [of _ "Some ''o1''"])
  have l: "links_verify plain_crypto demo_settings d (Some ''o1'')" using verify_chain_intact [OF ok] by (simp add: links_verify_def)
  have f: "fully_linked d (Some ''o1'')" using s w ordinals_Some [OF w(1)] by (simp add: fully_linked_def)
  have r: "chain_rows d (Some ''o1'') None = [p]" using chain_rows_ordinals [of d "Some ''o1''"] s w by simp
  from r have "chain_rows d (Some ''o1'') None \<noteq> []" by simp
  from last_hash_fixes_history [OF l f l f this this refl] r l show ?thesis by blast
qed

text \<open>An erased inner record is noticed. Erase any record but the last of an organisation's chain from a
  state the services reached: the chain verification still runs and reports the record after it as a
  broken link, unless the erased payload equals its predecessor's or collides with it under the digest.\<close>

theorem inner_deletion_detected:
  assumes "ed25519_correct C" and "(evidence_step C)\<^sup>*\<^sup>* d0 d" and "evidence d0 = []"
    and "org_evidence d org = ps @ p # q # qs" and "list_all chain_payload (map ev_payload (ps @ [p]))"
  shows "\<exists>res. verify_chain C S (delete_evidence (ev_id p) d) org None = Inr res
    \<and> (ev_id q \<in> set (cr_broken_links res)
       \<or> ps \<noteq> [] \<and> (sort_keys (ev_payload (last ps)) = sort_keys (ev_payload p) \<or> sha_collision C (ev_payload (last ps)) (ev_payload p)))"
  using inner_deletion_breaks [OF chains_ok_run [OF assms(2,1) chains_ok_empty [OF assms(3)]] assms(4,5)] .

theorem inner_deletion_detected_witness:
  "\<exists>d p q res. org_evidence d (Some ''o1'') = [p, q]
     \<and> verify_chain plain_crypto demo_settings (delete_evidence (ev_id p) d) (Some ''o1'') None = Inr res
     \<and> ev_id q \<in> set (cr_broken_links res)"
proof -
  obtain d p q where s: "(evidence_step plain_crypto)\<^sup>*\<^sup>* keyed_db d" "org_evidence d (Some ''o1'') = [p, q]" "chain_payload (ev_payload p)"
    using two_events by blast
  from inner_deletion_detected [OF plain_crypto_correct s(1) no_evidence_yet, of "Some ''o1''" "[]" p q "[]" demo_settings] s
  show ?thesis by auto
qed

text \<open>An erased last record is not noticed. Erase the newest record of an organisation's chain from a
  state the services reached: the chain verification reports the rest as intact. What the checker is
  documented to catch, a deleted record, it catches only when a later record exists.\<close>

theorem tail_deletion_undetected:
  assumes "ed25519_correct C" and "(evidence_step C)\<^sup>*\<^sup>* d0 d" and "evidence d0 = []" and "org_evidence d org = ps @ [p]"
  shows "verify_chain C S (delete_evidence (ev_id p) d) org None =
    Inr \<lparr>cr_total = length ps, cr_invalid_signatures = [], cr_broken_links = []\<rparr>"
proof -
  have ok: "chains_ok C d" using chains_ok_run [OF assms(2,1) chains_ok_empty [OF assms(3)]] .
  have "org_evidence (delete_evidence (ev_id p) d) org = ps"
    using org_evidence_delete [of d org ps p "[]"] ok assms(4) by (simp add: chains_ok_def)
  with verify_chain_intact [OF delete_last_chains_ok [OF ok assms(4)]] show ?thesis by simp
qed

theorem tail_deletion_undetected_witness:
  "\<exists>d p q. org_evidence d (Some ''o1'') = [p, q]
     \<and> verify_chain plain_crypto demo_settings (delete_evidence (ev_id q) d) (Some ''o1'') None =
        Inr \<lparr>cr_total = 1, cr_invalid_signatures = [], cr_broken_links = []\<rparr>"
proof -
  obtain d p q where s: "(evidence_step plain_crypto)\<^sup>*\<^sup>* keyed_db d" "org_evidence d (Some ''o1'') = [p, q]"
    using two_events by blast
  from tail_deletion_undetected [OF plain_crypto_correct s(1) no_evidence_yet, of "Some ''o1''" "[p]" q demo_settings] s
  show ?thesis by auto
qed

end
