(* ===== verification/Org_Lifecycle.thy ===== *)
theory Org_Lifecycle
  imports Agent_Lifecycle
begin

text \<open>
  \<^verbatim>\<open>server/app/services/organization_lifecycle_service.py\<close>: organizations are created, deactivated,
  reactivated and archived; members join by one-time invitations; stale sandboxes are archived.

  The password hash (bcrypt) is a parameter, the generated secrets are arguments. The lifecycle
  contract of \<open>Lifecycle\<close> is met twice: by the status of an organization and by the status of an
  invitation.
\<close>

section \<open>Organizations\<close>

datatype OrgError =
    OrganizationNotFoundError uuid
  | InvalidOrganizationStatusError OrganizationStatus string
  | InvitationNotFoundError uuid
  | InvitationNotPendingError InvitationStatus
  | InvitationExpiredError uuid
  | EmailAlreadyRegisteredError string
  | OrganizationNotActiveError uuid OrganizationStatus
  | OrgIntegrityError

definition ensure_active :: "Organization \<Rightarrow> OrgError + Organization" where
  "ensure_active r = (if org_status r \<noteq> OrgActive then Inl (OrganizationNotActiveError (org_id r) (org_status r)) else Inr r)"

definition ROLE_VALUES :: "string list" where
  "ROLE_VALUES = [''owner'', ''governance_admin'', ''agent_admin'', ''reviewer'', ''auditor'', ''executive'']"

definition new_organization :: "uuid \<Rightarrow> string \<Rightarrow> string \<Rightarrow> datetime \<Rightarrow> Organization" where
  "new_organization oid nm env now = \<lparr>org_id = oid, org_name = nm, org_logo_url = None, org_timezone = ''UTC'',
     org_default_currency = ''USD'', org_default_language = ''en'', org_settings = JObj [], org_created_at = now,
     org_updated_at = now, org_status = OrgActive, org_deactivated_at = None, org_deactivated_by = None,
     org_archived_at = None, org_archived_by = None, org_environment = env\<rparr>"

definition new_user :: "uuid \<Rightarrow> uuid \<Rightarrow> string \<Rightarrow> string \<Rightarrow> string \<Rightarrow> string \<Rightarrow> bool \<Rightarrow> datetime \<Rightarrow> User" where
  "new_user uid oid email nm pw_hash rl reset now = \<lparr>us_id = uid, us_organization_id = oid, us_email = email, us_name = nm,
     us_password_hash = pw_hash, us_role = rl, us_status = UserActive, us_mfa_enabled = False,
     us_must_reset_password = reset, us_last_login_at = None, us_created_at = now, us_updated_at = now\<rparr>"

text \<open>The label is CHECK-constrained to production or sandbox.\<close>

definition create_organization ::
  "(string \<Rightarrow> string) \<Rightarrow> string \<Rightarrow> string \<Rightarrow> string \<Rightarrow> string \<Rightarrow> string \<Rightarrow> uuid \<Rightarrow> uuid \<Rightarrow> datetime \<Rightarrow> db
     \<Rightarrow> OrgError + db \<times> Organization \<times> User \<times> string" where
  "create_organization hash_password nm owner_email owner_name env temporary_password oid uid now d =
     (if env \<notin> {''production'', ''sandbox''} then Inl OrgIntegrityError
      else
        let r = new_organization oid nm env now;
            u = new_user uid oid owner_email owner_name (hash_password temporary_password) ''owner'' True now
        in Inr (d\<lparr>organizations := organizations d @ [r], users := users d @ [u]\<rparr>, r, u, temporary_password))"

definition list_organizations :: "db \<Rightarrow> Organization list" where
  "list_organizations d = sort_key org_created_at (organizations d)"

definition get_organization :: "db \<Rightarrow> uuid \<Rightarrow> OrgError + Organization" where
  "get_organization d oid = get_or_raise (get_organization_row d oid) (OrganizationNotFoundError oid)"

text \<open>Assignments to a loaded row, its \<open>onupdate\<close> timestamp, and the row returned.\<close>

definition set_organization :: "uuid \<Rightarrow> datetime \<Rightarrow> (Organization \<Rightarrow> Organization) \<Rightarrow> Organization \<Rightarrow> db \<Rightarrow> db \<times> Organization" where
  "set_organization oid now f r d =
     (d\<lparr>organizations := db_update (\<lambda>r. org_id r = oid) (\<lambda>r. (f r)\<lparr>org_updated_at := now\<rparr>) (organizations d)\<rparr>,
      (f r)\<lparr>org_updated_at := now\<rparr>)"

definition deactivate_organization :: "uuid \<Rightarrow> string option \<Rightarrow> datetime \<Rightarrow> db \<Rightarrow> OrgError + db \<times> Organization" where
  "deactivate_organization oid actor now d =
     rbind (get_organization d oid) (\<lambda>r.
     if org_status r \<noteq> OrgActive then Inl (InvalidOrganizationStatusError (org_status r) ''deactivate'')
     else Inr (set_organization oid now
       (\<lambda>r. r\<lparr>org_status := OrgDeactivated, org_deactivated_at := Some now, org_deactivated_by := actor\<rparr>) r d))"

definition reactivate_organization :: "uuid \<Rightarrow> string option \<Rightarrow> datetime \<Rightarrow> db \<Rightarrow> OrgError + db \<times> Organization" where
  "reactivate_organization oid actor now d =
     rbind (get_organization d oid) (\<lambda>r.
     if org_status r \<noteq> OrgDeactivated then Inl (InvalidOrganizationStatusError (org_status r) ''reactivate'')
     else Inr (set_organization oid now
       (\<lambda>r. r\<lparr>org_status := OrgActive, org_deactivated_at := None, org_deactivated_by := None\<rparr>) r d))"

definition archive_organization :: "uuid \<Rightarrow> string option \<Rightarrow> datetime \<Rightarrow> db \<Rightarrow> OrgError + db \<times> Organization" where
  "archive_organization oid actor now d =
     rbind (get_organization d oid) (\<lambda>r.
     if org_status r \<noteq> OrgDeactivated then Inl (InvalidOrganizationStatusError (org_status r) ''archive (deactivate it first)'')
     else Inr (set_organization oid now
       (\<lambda>r. r\<lparr>org_status := OrgArchived, org_archived_at := Some now, org_archived_by := actor\<rparr>) r d))"

section \<open>Invitations\<close>

definition INVITATION_TOKEN_PREFIX :: string where "INVITATION_TOKEN_PREFIX = ''pri_''"

definition INVITATION_VALIDITY :: datetime where "INVITATION_VALIDITY = 7 * us_per_day"

definition hash_api_key :: "crypto \<Rightarrow> string \<Rightarrow> string" where
  "hash_api_key C raw = hexlify (sha256 C raw)"

definition hash_invitation_token :: "crypto \<Rightarrow> string \<Rightarrow> string" where
  "hash_invitation_token C raw = hash_api_key C raw"

definition find_user :: "db \<Rightarrow> uuid \<Rightarrow> string \<Rightarrow> User option" where
  "find_user d oid email = db_find (\<lambda>u. us_organization_id u = oid \<and> us_email u = email) (users d)"

text \<open>\<open>secret\<close> is the text of \<open>secrets.token_urlsafe(32)\<close>; the commit enforces the constraints of the table.\<close>

definition invite_member ::
  "crypto \<Rightarrow> uuid \<Rightarrow> string \<Rightarrow> string \<Rightarrow> string option \<Rightarrow> string \<Rightarrow> uuid \<Rightarrow> datetime \<Rightarrow> db
     \<Rightarrow> OrgError + db \<times> OrganizationInvitation \<times> string" where
  "invite_member C oid email rl invited_by secret iid now d =
     (case find_user d oid email of
        Some _ \<Rightarrow> Inl (EmailAlreadyRegisteredError email)
      | None \<Rightarrow>
          (let raw_token = INVITATION_TOKEN_PREFIX @ secret;
               i = \<lparr>inv_id = iid, inv_organization_id = oid, inv_email = email, inv_role = rl,
                     inv_token_hash = hash_invitation_token C raw_token, inv_status = InvPending, inv_invited_by = invited_by,
                     inv_created_at = now, inv_expires_at = now + INVITATION_VALIDITY, inv_accepted_at = None,
                     inv_accepted_by_user_id = None\<rparr>
           in if rl \<notin> set ROLE_VALUES \<or> (\<exists>j \<in> set (organization_invitations d). inv_token_hash j = inv_token_hash i)
              then Inl OrgIntegrityError
              else Inr (d\<lparr>organization_invitations := organization_invitations d @ [i]\<rparr>, i, raw_token)))"

definition list_invitations :: "db \<Rightarrow> uuid \<Rightarrow> InvitationStatus option \<Rightarrow> OrganizationInvitation list" where
  "list_invitations d oid st = sort_key (\<lambda>i. - inv_created_at i)
     (filter (\<lambda>i. inv_organization_id i = oid \<and> (case st of None \<Rightarrow> True | Some s \<Rightarrow> inv_status i = s)) (organization_invitations d))"

definition get_invitation_row :: "db \<Rightarrow> uuid \<Rightarrow> OrganizationInvitation option" where
  "get_invitation_row d iid = db_find (\<lambda>i. inv_id i = iid) (organization_invitations d)"

definition set_invitation :: "uuid \<Rightarrow> (OrganizationInvitation \<Rightarrow> OrganizationInvitation) \<Rightarrow> db \<Rightarrow> db" where
  "set_invitation iid f d =
     d\<lparr>organization_invitations := db_update (\<lambda>i. inv_id i = iid) f (organization_invitations d)\<rparr>"

definition revoke_invitation :: "uuid \<Rightarrow> uuid \<Rightarrow> db \<Rightarrow> OrgError + db \<times> OrganizationInvitation" where
  "revoke_invitation iid oid d =
     (case get_invitation_row d iid of
        None \<Rightarrow> Inl (InvitationNotFoundError iid)
      | Some i \<Rightarrow>
          if inv_organization_id i \<noteq> oid then Inl (InvitationNotFoundError iid)
          else if inv_status i \<noteq> InvPending then Inl (InvitationNotPendingError (inv_status i))
          else Inr (set_invitation iid (\<lambda>i. i\<lparr>inv_status := InvRevoked\<rparr>) d, i\<lparr>inv_status := InvRevoked\<rparr>))"

definition invitation_of_token :: "crypto \<Rightarrow> string \<Rightarrow> db \<Rightarrow> OrganizationInvitation option" where
  "invitation_of_token C raw d = db_find (\<lambda>i. inv_token_hash i = hash_invitation_token C raw) (organization_invitations d)"

text \<open>The expiry branch commits before it raises, so the result carries a state in every case.\<close>

definition accept_invitation ::
  "crypto \<Rightarrow> (string \<Rightarrow> string) \<Rightarrow> string \<Rightarrow> string \<Rightarrow> string \<Rightarrow> uuid \<Rightarrow> datetime \<Rightarrow> db \<Rightarrow> db \<times> (OrgError + User)" where
  "accept_invitation C hash_password raw_token nm password uid now d =
     (case invitation_of_token C raw_token d of
        None \<Rightarrow> (d, Inl (InvitationNotFoundError ''invalid token''))
      | Some i \<Rightarrow>
          if inv_status i \<noteq> InvPending then (d, Inl (InvitationNotPendingError (inv_status i)))
          else if inv_expires_at i \<le> now then
            (set_invitation (inv_id i) (\<lambda>i. i\<lparr>inv_status := InvExpired\<rparr>) d, Inl (InvitationExpiredError (inv_id i)))
          else
            (case find_user d (inv_organization_id i) (inv_email i) of
               Some _ \<Rightarrow> (d, Inl (EmailAlreadyRegisteredError (inv_email i)))
             | None \<Rightarrow>
                 (let u = new_user uid (inv_organization_id i) (inv_email i) nm (hash_password password) (inv_role i) False now;
                      d1 = d\<lparr>users := users d @ [u]\<rparr>;
                      d2 = set_invitation (inv_id i) (\<lambda>i. i\<lparr>inv_status := InvAccepted, inv_accepted_at := Some now,
                             inv_accepted_by_user_id := Some uid\<rparr>) d1
                  in (d2, Inr u))))"

section \<open>Sandboxes\<close>

definition find_sandbox_organization_by_owner_email :: "db \<Rightarrow> string \<Rightarrow> Organization option" where
  "find_sandbox_organization_by_owner_email d email =
     db_find (\<lambda>r. org_environment r = ''sandbox'' \<and> org_status r \<noteq> OrgArchived
       \<and> list_ex (\<lambda>u. us_organization_id u = org_id r \<and> us_email u = email \<and> us_role u = ''owner'') (users d)) (organizations d)"

definition list_stale_sandbox_organizations :: "db \<Rightarrow> int \<Rightarrow> datetime \<Rightarrow> Organization list" where
  "list_stale_sandbox_organizations d older_than_days now =
     (let cutoff = now - older_than_days * us_per_day
      in filter (\<lambda>r. org_environment r = ''sandbox'' \<and> org_status r = OrgActive \<and> org_created_at r < cutoff) (organizations d))"

fun archive_all :: "string \<Rightarrow> datetime \<Rightarrow> Organization list \<Rightarrow> db \<Rightarrow> OrgError + db \<times> Organization list" where
  "archive_all actor now [] d = Inr (d, [])"
| "archive_all actor now (r # rs) d =
     rbind (deactivate_organization (org_id r) (Some actor) now d) (\<lambda>(d1, _).
     rbind (archive_organization (org_id r) (Some actor) now d1) (\<lambda>(d2, a).
     rmap (\<lambda>(d3, as). (d3, a # as)) (archive_all actor now rs d2)))"

definition archive_stale_sandbox_organizations :: "int \<Rightarrow> string \<Rightarrow> datetime \<Rightarrow> db \<Rightarrow> OrgError + db \<times> Organization list" where
  "archive_stale_sandbox_organizations older_than_days actor now d =
     archive_all actor now (list_stale_sandbox_organizations d older_than_days now) d"

section \<open>The lifecycle contract\<close>

inductive org_step :: "db \<Rightarrow> db \<Rightarrow> bool" where
  create: "\<lbrakk>create_organization H nm em ow env pw oid uid now d = Inr (d', x); oid \<notin> org_id ` set (organizations d)\<rbrakk> \<Longrightarrow> org_step d d'"
| deactivate: "deactivate_organization oid actor now d = Inr (d', r) \<Longrightarrow> org_step d d'"
| reactivate: "reactivate_organization oid actor now d = Inr (d', r) \<Longrightarrow> org_step d d'"
| archive: "archive_organization oid actor now d = Inr (d', r) \<Longrightarrow> org_step d d'"
| invite: "\<lbrakk>invite_member C oid em rl inviter secret iid now d = Inr (d', x); iid \<notin> inv_id ` set (organization_invitations d)\<rbrakk> \<Longrightarrow> org_step d d'"
| revoke: "revoke_invitation iid oid d = Inr (d', i) \<Longrightarrow> org_step d d'"
| accept: "accept_invitation C H raw nm pw uid now d = (d', res) \<Longrightarrow> org_step d d'"

fun org_may :: "OrganizationStatus \<Rightarrow> OrganizationStatus \<Rightarrow> bool" where
  "org_may OrgActive s = (s = OrgDeactivated)"
| "org_may OrgDeactivated s = (s = OrgActive \<or> s = OrgArchived)"
| "org_may OrgArchived s = False"

fun inv_may :: "InvitationStatus \<Rightarrow> InvitationStatus \<Rightarrow> bool" where
  "inv_may InvPending s = (s \<noteq> InvPending)"
| "inv_may _ s = False"

definition org_status_of :: "db \<Rightarrow> uuid \<Rightarrow> OrganizationStatus option" where
  "org_status_of d i = map_option org_status (get_organization_row d i)"

definition inv_status_of :: "db \<Rightarrow> uuid \<Rightarrow> InvitationStatus option" where
  "inv_status_of d i = map_option inv_status (get_invitation_row d i)"

text \<open>What an operation does to the two tables: insert a row, or update the rows of one key with a
  function that keeps the key.\<close>

lemma db_find_new_key:
  assumes "k r \<notin> k ` set t"
  shows "db_find (\<lambda>x. k x = i) (t @ [r]) = (if i = k r then Some r else db_find (\<lambda>x. k x = i) t)"
    and "db_find (\<lambda>x. k x = k r) t = None"
  using assms by (induction t) auto

lemma set_organization_status:
  assumes "set_organization oid now f r d = (d', r')" "get_organization_row d oid = Some r0"
    and "\<And>r. org_id (f r) = org_id r" "\<And>r. org_status (f r) = s"
  shows "org_status_of d' = (org_status_of d)(oid \<mapsto> s)
    \<and> organization_invitations d' = organization_invitations d \<and> users d' = users d"
  using assms
  by (auto simp: set_organization_def org_status_of_def get_organization_row_def db_find_update_key fun_eq_iff)

lemma set_invitation_status:
  assumes "get_invitation_row d iid = Some r" "\<And>i. inv_id (f i) = inv_id i" "\<And>i. inv_status (f i) = s"
  shows "inv_status_of (set_invitation iid f d) = (inv_status_of d)(iid \<mapsto> s)"
  using assms
  by (auto simp: set_invitation_def inv_status_of_def get_invitation_row_def db_find_update_key fun_eq_iff)

lemma set_invitation_frame [simp]:
  "organizations (set_invitation iid f d) = organizations d" "users (set_invitation iid f d) = users d"
  "org_status_of (set_invitation iid f d) = org_status_of d"
  by (simp_all add: set_invitation_def org_status_of_def get_organization_row_def fun_eq_iff)

lemma set_invitation_keys:
  "(\<And>i. inv_id (f i) = inv_id i) \<Longrightarrow>
     map inv_id (organization_invitations (set_invitation iid f d)) = map inv_id (organization_invitations d)"
  by (simp add: set_invitation_def map_db_update)

lemma organization_transitions:
  "deactivate_organization oid actor now d = Inr (d', r) \<Longrightarrow>
     org_status_of d oid = Some OrgActive \<and> org_status_of d' = (org_status_of d)(oid \<mapsto> OrgDeactivated)
     \<and> organization_invitations d' = organization_invitations d \<and> users d' = users d"
  "reactivate_organization oid actor now d = Inr (d', r) \<Longrightarrow>
     org_status_of d oid = Some OrgDeactivated \<and> org_status_of d' = (org_status_of d)(oid \<mapsto> OrgActive)
     \<and> organization_invitations d' = organization_invitations d \<and> users d' = users d"
  "archive_organization oid actor now d = Inr (d', r) \<Longrightarrow>
     org_status_of d oid = Some OrgDeactivated \<and> org_status_of d' = (org_status_of d)(oid \<mapsto> OrgArchived)
     \<and> organization_invitations d' = organization_invitations d \<and> users d' = users d"
  unfolding deactivate_organization_def reactivate_organization_def archive_organization_def get_organization_def
  by (auto simp: org_status_of_def [of d] dest!: set_organization_status split: if_splits)

lemma create_organization_status:
  assumes "create_organization H nm em ow env pw oid uid now d = Inr (d', x)" "oid \<notin> org_id ` set (organizations d)"
  shows "org_status_of d' = (org_status_of d)(oid \<mapsto> OrgActive) \<and> org_status_of d oid = None
     \<and> organization_invitations d' = organization_invitations d"
proof -
  let ?r = "new_organization oid nm env now"
  have k: "org_id ?r = oid" "org_status ?r = OrgActive" by (simp_all add: new_organization_def)
  have "organizations d' = organizations d @ [?r]" "organization_invitations d' = organization_invitations d"
    using assms(1) by (auto simp: create_organization_def Let_def split: if_splits)
  with k db_find_new_key [of org_id ?r "organizations d"] assms(2) show ?thesis
    by (simp add: org_status_of_def get_organization_row_def fun_eq_iff)
qed

lemma revoke_invitation_status:
  "revoke_invitation iid oid d = Inr (d', i) \<Longrightarrow>
     inv_status_of d iid = Some InvPending \<and> inv_status_of d' = (inv_status_of d)(iid \<mapsto> InvRevoked) \<and> org_status_of d' = org_status_of d"
  by (auto simp: revoke_invitation_def set_invitation_status inv_status_of_def [of d] split: option.splits if_splits)

lemma invite_member_status:
  assumes "invite_member C oid em rl inviter secret iid now d = Inr (d', x)" "iid \<notin> inv_id ` set (organization_invitations d)"
  shows "inv_status_of d' = (inv_status_of d)(iid \<mapsto> InvPending) \<and> inv_status_of d iid = None \<and> organizations d' = organizations d"
proof -
  obtain i where i: "organization_invitations d' = organization_invitations d @ [i]" "inv_id i = iid" "inv_status i = InvPending"
      "organizations d' = organizations d"
    using assms(1) by (auto simp: invite_member_def Let_def split: if_splits option.splits)
  with db_find_new_key [of inv_id i "organization_invitations d"] assms(2) show ?thesis
    by (simp add: inv_status_of_def get_invitation_row_def fun_eq_iff)
qed

lemma accept_invitation_cases:
  assumes "accept_invitation C H raw nm pw uid now d = (d', res)"
  obtains (refused) e where "d' = d" "res = Inl e"
  | (expired) i where "invitation_of_token C raw d = Some i" "inv_status i = InvPending"
      "d' = set_invitation (inv_id i) (\<lambda>i. i\<lparr>inv_status := InvExpired\<rparr>) d" "res = Inl (InvitationExpiredError (inv_id i))"
  | (accepted) i u where "invitation_of_token C raw d = Some i" "inv_status i = InvPending" "now < inv_expires_at i"
      "find_user d (inv_organization_id i) (inv_email i) = None"
      "u = new_user uid (inv_organization_id i) (inv_email i) nm (H pw) (inv_role i) False now" "res = Inr u"
      "d' = set_invitation (inv_id i) (\<lambda>i. i\<lparr>inv_status := InvAccepted, inv_accepted_at := Some now,
          inv_accepted_by_user_id := Some uid\<rparr>) (d\<lparr>users := users d @ [u]\<rparr>)"
proof (cases "invitation_of_token C raw d")
  case None
  with assms refused show ?thesis by (auto simp: accept_invitation_def)
next
  case (Some i)
  note tok = this
  consider "inv_status i \<noteq> InvPending" | "inv_status i = InvPending" "inv_expires_at i \<le> now"
    | "inv_status i = InvPending" "now < inv_expires_at i" by linarith
  then show ?thesis
  proof cases
    case 1
    with assms tok refused show ?thesis by (auto simp: accept_invitation_def)
  next
    case 2
    with assms tok show ?thesis by (intro expired [OF tok]) (auto simp: accept_invitation_def)
  next
    case 3
    show ?thesis
    proof (cases "find_user d (inv_organization_id i) (inv_email i)")
      case None
      with assms tok 3 show ?thesis by (intro accepted [OF tok 3 None refl]) (auto simp: accept_invitation_def Let_def)
    next
      case (Some u)
      with assms tok 3 refused show ?thesis by (auto simp: accept_invitation_def)
    qed
  qed
qed

text \<open>An invitation found by its token is the row of its id.\<close>

definition invitations_keyed :: "db \<Rightarrow> bool" where
  "invitations_keyed d = distinct (map inv_id (organization_invitations d))"

lemma invitation_of_token_row:
  assumes "invitations_keyed d" "invitation_of_token C raw d = Some i"
  shows "get_invitation_row d (inv_id i) = Some i"
  using assms db_find_Some [of _ "organization_invitations d" i]
  by (auto simp: invitations_keyed_def invitation_of_token_def get_invitation_row_def intro!: db_find_unique)


lemma invitations_keyed_step: "org_step d d' \<Longrightarrow> invitations_keyed d \<Longrightarrow> invitations_keyed d'"
proof (induction rule: org_step.induct)
  case (create H nm em ow env pw oid uid now d d' x)
  then show ?case using create_organization_status by (simp add: invitations_keyed_def)
next
  case (deactivate oid actor now d d' r)
  then show ?case using organization_transitions(1) by (simp add: invitations_keyed_def)
next
  case (reactivate oid actor now d d' r)
  then show ?case using organization_transitions(2) by (simp add: invitations_keyed_def)
next
  case (archive oid actor now d d' r)
  then show ?case using organization_transitions(3) by (simp add: invitations_keyed_def)
next
  case (invite C oid em rl inviter secret iid now d d' x)
  then show ?case by (auto simp: invitations_keyed_def invite_member_def Let_def split: if_splits option.splits)
next
  case (revoke iid oid d d' i)
  then show ?case by (auto simp: invitations_keyed_def revoke_invitation_def set_invitation_keys split: if_splits option.splits)
next
  case (accept C H raw nm pw uid now d d' res)
  from accept(1) accept(2) show ?case
    by (cases rule: accept_invitation_cases) (simp_all add: invitations_keyed_def set_invitation_keys)
qed


lemma accept_status:
  assumes "accept_invitation C H raw nm pw uid now d = (d', res)" "invitations_keyed d" "inv_status_of d i = Some s"
  shows "\<exists>s'. inv_status_of d' i = Some s' \<and> (s' = s \<or> inv_may s s')"
  using assms(1)
proof (cases rule: accept_invitation_cases)
  case (refused e)
  with assms(3) show ?thesis by simp
next
  case (expired j)
  note row = invitation_of_token_row [OF assms(2) expired(1)]
  have "inv_status_of d' = (inv_status_of d)(inv_id j \<mapsto> InvExpired)"
    unfolding expired(3) by (rule set_invitation_status [OF row]) simp_all
  with assms(3) row expired(2) show ?thesis by (auto simp: inv_status_of_def [of d])
next
  case (accepted j u)
  note row = invitation_of_token_row [OF assms(2) accepted(1)]
  have "inv_status_of (d\<lparr>users := users d @ [u]\<rparr>) = inv_status_of d"
    by (simp add: inv_status_of_def get_invitation_row_def fun_eq_iff)
  then have "inv_status_of d' = (inv_status_of d)(inv_id j \<mapsto> InvAccepted)"
    unfolding accepted(7) by (subst set_invitation_status [where r = j]) (use row in \<open>simp_all add: get_invitation_row_def\<close>)
  with assms(3) row accepted(2) show ?thesis by (auto simp: inv_status_of_def [of d])
qed

lemma accept_org_status:
  "accept_invitation C H raw nm pw uid now d = (d', res) \<Longrightarrow> organizations d' = organizations d"
  by (cases rule: accept_invitation_cases) auto

lemma org_status_cong: "organizations d' = organizations d \<Longrightarrow> org_status_of d' i = org_status_of d i"
  by (simp add: org_status_of_def get_organization_row_def)

interpretation org_lifecycle: lifecycle org_status_of org_step org_may
proof unfold_locales
  fix d d' i s
  assume "org_step d d'" "org_status_of d i = Some s"
  then show "\<exists>s'. org_status_of d' i = Some s' \<and> (s' = s \<or> org_may s s')"
  proof (induction rule: org_step.induct)
    case (invite C oid em rl inviter secret iid now d d' x)
    with invite_member_status [OF invite(1,2)] org_status_cong [of d' d] show ?case by auto
  next
    case (accept C H raw nm pw uid now d d' res)
    with accept_org_status [OF accept(1)] org_status_cong [of d' d] show ?case by auto
  qed (auto dest!: create_organization_status organization_transitions revoke_invitation_status)
qed

interpretation inv_lifecycle: lifecycle inv_status_of "\<lambda>d d'. invitations_keyed d \<and> org_step d d'" inv_may
proof unfold_locales
  fix d d' i s
  assume "invitations_keyed d \<and> org_step d d'" and s: "inv_status_of d i = Some s"
  then have k: "invitations_keyed d" and "org_step d d'" by auto
  from this(2) k s show "\<exists>s'. inv_status_of d' i = Some s' \<and> (s' = s \<or> inv_may s s')"
  proof (induction rule: org_step.induct)
    case (invite C oid em rl inviter secret iid now d d' x)
    with invite_member_status [OF invite(1,2)] show ?case by auto
  next
    case (revoke iid oid d d' j)
    with revoke_invitation_status [OF revoke(1)] show ?case by auto
  next
    case (accept C H raw nm pw uid now d d' res)
    then show ?case by (rule accept_status)
  qed (auto simp: inv_status_of_def get_invitation_row_def dest!: create_organization_status organization_transitions)
qed

lemma keyed_run:
  assumes "org_step\<^sup>*\<^sup>* d d'" "invitations_keyed d"
  shows "invitations_keyed d' \<and> (\<lambda>d d'. invitations_keyed d \<and> org_step d d')\<^sup>*\<^sup>* d d'"
  using assms
proof (induction rule: rtranclp_induct)
  case (step y z)
  then show ?case using invitations_keyed_step by (blast intro: rtranclp.rtrancl_into_rtrancl)
qed simp

text \<open>The row that a token finds keeps being found, since rows keep their place and their hash.\<close>

lemma db_find_update_hash:
  "(\<And>i. inv_token_hash (f i) = inv_token_hash i) \<Longrightarrow> (\<And>i. inv_id (f i) = inv_id i) \<Longrightarrow> invitation_of_token C raw d = Some i
     \<Longrightarrow> \<exists>i'. invitation_of_token C raw (set_invitation iid f d) = Some i' \<and> inv_id i' = inv_id i"
  by (auto simp: invitation_of_token_def set_invitation_def db_find_db_update)

lemma token_row_step:
  "org_step d d' \<Longrightarrow> invitation_of_token C raw d = Some i \<Longrightarrow> \<exists>i'. invitation_of_token C raw d' = Some i' \<and> inv_id i' = inv_id i"
proof (induction rule: org_step.induct)
  case (invite C' oid em rl inviter secret iid now d d' x)
  then show ?case
    by (auto simp: invitation_of_token_def invite_member_def Let_def db_find_append split: if_splits option.splits)
next
  case (revoke iid oid d d' j)
  then have "d' = set_invitation iid (\<lambda>i. i\<lparr>inv_status := InvRevoked\<rparr>) d"
    by (auto simp: revoke_invitation_def split: option.splits if_splits)
  with revoke show ?case by (auto intro!: db_find_update_hash)
next
  case (accept C' H raw' nm pw uid now d d' res)
  from accept(1) accept(2) show ?case
  proof (cases rule: accept_invitation_cases)
    case (expired j)
    with accept(2) show ?thesis by (auto intro!: db_find_update_hash)
  next
    case (accepted j u)
    have "invitation_of_token C raw (d\<lparr>users := users d @ [u]\<rparr>) = Some i"
      using accept(2) by (simp add: invitation_of_token_def)
    with accepted(7) show ?thesis by (auto intro!: db_find_update_hash)
  qed simp
qed (auto simp: invitation_of_token_def dest!: create_organization_status organization_transitions)

lemma token_row_run:
  "org_step\<^sup>*\<^sup>* d d' \<Longrightarrow> invitation_of_token C raw d = Some i \<Longrightarrow> \<exists>i'. invitation_of_token C raw d' = Some i' \<and> inv_id i' = inv_id i"
  by (induction rule: rtranclp_induct) (auto dest: token_row_step)


lemma archive_one:
  assumes "org_status_of d i = Some OrgActive"
  shows "\<exists>d1 r1 d2 r2. deactivate_organization i actor now d = Inr (d1, r1) \<and> archive_organization i actor now d1 = Inr (d2, r2)
    \<and> org_status_of d2 = (org_status_of d)(i \<mapsto> OrgArchived)"
proof -
  obtain d1 r1 where 1: "deactivate_organization i actor now d = Inr (d1, r1)"
    using assms by (auto simp: deactivate_organization_def get_organization_def org_status_of_def set_organization_def)
  note s1 = organization_transitions(1) [OF this]
  then have "org_status_of d1 i = Some OrgDeactivated" by simp
  then obtain d2 r2 where 2: "archive_organization i actor now d1 = Inr (d2, r2)"
    by (auto simp: archive_organization_def get_organization_def org_status_of_def set_organization_def)
  from 1 2 s1 organization_transitions(3) [OF 2] show ?thesis by auto
qed

lemma archive_all_statuses:
  assumes "distinct (map org_id rs)" "\<forall>r \<in> set rs. org_status_of d (org_id r) = Some OrgActive"
  shows "\<exists>d' as. archive_all actor now rs d = Inr (d', as) \<and> length as = length rs
    \<and> (\<forall>i. org_status_of d' i = (if i \<in> org_id ` set rs then Some OrgArchived else org_status_of d i))"
  using assms
proof (induction rs arbitrary: d)
  case (Cons r rs)
  then obtain d1 r1 d2 r2 where o: "deactivate_organization (org_id r) (Some actor) now d = Inr (d1, r1)"
      "archive_organization (org_id r) (Some actor) now d1 = Inr (d2, r2)"
      "org_status_of d2 = (org_status_of d)(org_id r \<mapsto> OrgArchived)"
    using archive_one [of d "org_id r" "Some actor" now] by auto
  have "\<forall>q \<in> set rs. org_id q \<noteq> org_id r" using Cons.prems(1) by (metis distinct.simps(2) imageI list.map(2) set_map)
  with Cons.prems o(3) have "\<forall>q \<in> set rs. org_status_of d2 (org_id q) = Some OrgActive" by simp
  with Cons.IH [of d2] Cons.prems(1) obtain d3 as where "archive_all actor now rs d2 = Inr (d3, as)" "length as = length rs"
      "\<forall>i. org_status_of d3 i = (if i \<in> org_id ` set rs then Some OrgArchived else org_status_of d2 i)" by auto
  with o show ?case by auto
qed simp

section \<open>Claims\<close>

text \<open>The organization lifecycle. Along any run of organization operations an organization keeps
  existing and its status moves only along active, deactivated, archived, with reactivation from
  deactivated; it is archived only out of deactivated, and once archived it stays archived.\<close>

theorem organization_lifecycle_respected:
  assumes "org_step\<^sup>*\<^sup>* d d'" and "org_status_of d i = Some s"
  shows "(\<exists>s'. org_status_of d' i = Some s' \<and> org_may\<^sup>*\<^sup>* s s')
    \<and> (s = OrgArchived \<longrightarrow> org_status_of d' i = Some OrgArchived)
    \<and> (\<forall>d''. org_step d' d'' \<and> org_status_of d'' i = Some OrgArchived \<longrightarrow>
         org_status_of d' i = Some OrgDeactivated \<or> org_status_of d' i = Some OrgArchived)"
proof -
  obtain s' where s': "org_status_of d' i = Some s'" "org_may\<^sup>*\<^sup>* s s'" using org_lifecycle.run_status [OF assms] by blast
  have "s = OrgArchived \<longrightarrow> org_status_of d' i = Some OrgArchived"
    using org_lifecycle.terminal_final [OF _ assms] by (auto simp: org_lifecycle.terminal_def)
  moreover have "s' = OrgDeactivated \<or> s' = OrgArchived" if "org_step d' d''" "org_status_of d'' i = Some OrgArchived" for d''
    using org_lifecycle.step_status [OF that(1) s'(1)] that(2) by (cases s') auto
  ultimately show ?thesis using s' by blast
qed

definition one_org_db :: db where
  "one_org_db = empty_db\<lparr>organizations := [new_organization ''o1'' ''Acme'' ''sandbox'' 0]\<rparr>"

theorem organization_lifecycle_respected_witness:
  "\<exists>d. org_step\<^sup>*\<^sup>* one_org_db d \<and> org_status_of d ''o1'' = Some OrgArchived \<and> org_may\<^sup>*\<^sup>* OrgActive OrgArchived"
proof -
  have a: "org_status_of one_org_db ''o1'' = Some OrgActive"
    by (simp add: one_org_db_def org_status_of_def get_organization_row_def new_organization_def)
  then obtain d1 r1 d2 r2 where "deactivate_organization ''o1'' None 1 one_org_db = Inr (d1, r1)"
      "archive_organization ''o1'' None 1 d1 = Inr (d2, r2)" and s: "org_status_of d2 ''o1'' = Some OrgArchived"
    using archive_one [OF a, of None 1] by auto
  then have run: "org_step\<^sup>*\<^sup>* one_org_db d2"
    by (meson org_step.deactivate org_step.archive converse_rtranclp_into_rtranclp r_into_rtranclp)
  from organization_lifecycle_respected [OF run a] s run show ?thesis by auto
qed

text \<open>An invitation is used once. Accepting a token creates exactly one user, in the organization and
  with the e-mail and the role of a pending, unexpired invitation; after any further run of
  organization operations the same token is refused as already accepted and changes nothing.\<close>

theorem invitation_single_use:
  assumes "invitations_keyed d" and "accept_invitation C H raw nm pw uid now d = (d1, Inr u)" and "org_step\<^sup>*\<^sup>* d1 d2"
  shows "(\<exists>i. invitation_of_token C raw d = Some i \<and> inv_status i = InvPending \<and> now < inv_expires_at i
      \<and> users d1 = users d @ [u] \<and> us_organization_id u = inv_organization_id i \<and> us_email u = inv_email i \<and> us_role u = inv_role i)
    \<and> accept_invitation C H' raw nm' pw' uid' now' d2 = (d2, Inl (InvitationNotPendingError InvAccepted))"
  using assms(2)
proof (cases rule: accept_invitation_cases)
  case (accepted i u')
  note row = invitation_of_token_row [OF assms(1) accepted(1)]
  have st: "org_step d d1" using assms(2) by (rule org_step.accept)
  have k1: "invitations_keyed d1" using invitations_keyed_step [OF st assms(1)] .
  obtain i1 where i1: "invitation_of_token C raw d1 = Some i1" "inv_id i1 = inv_id i" using token_row_step [OF st accepted(1)] by blast
  obtain i2 where i2: "invitation_of_token C raw d2 = Some i2" "inv_id i2 = inv_id i" using token_row_run [OF assms(3) i1(1)] i1(2) by auto
  have "inv_status_of d1 (inv_id i) = Some InvAccepted"
    unfolding accepted(7) using row by (subst set_invitation_status [where r = i]) (simp_all add: get_invitation_row_def)
  then have "inv_status_of d2 (inv_id i) = Some InvAccepted"
    using inv_lifecycle.terminal_final [of InvAccepted d1 d2] keyed_run [OF assms(3) k1] by (simp add: inv_lifecycle.terminal_def)
  moreover have "get_invitation_row d2 (inv_id i) = Some i2"
    using invitation_of_token_row [OF _ i2(1)] keyed_run [OF assms(3) k1] i2(2) by simp
  ultimately have "inv_status i2 = InvAccepted" by (simp add: inv_status_of_def)
  with i2 accepted show ?thesis by (auto simp: accept_invitation_def new_user_def)
qed simp_all

definition invited_db :: db where
  "invited_db = one_org_db\<lparr>organization_invitations := [\<lparr>inv_id = ''i1'', inv_organization_id = ''o1'', inv_email = ''a@b'',
     inv_role = ''auditor'', inv_token_hash = hash_invitation_token plain_crypto ''pri_x'', inv_status = InvPending,
     inv_invited_by = None, inv_created_at = 0, inv_expires_at = 10, inv_accepted_at = None, inv_accepted_by_user_id = None\<rparr>]\<rparr>"

theorem invitation_single_use_witness:
  "\<exists>d u. accept_invitation plain_crypto id ''pri_x'' ''Ann'' ''pw'' ''u1'' 5 invited_db = (d, Inr u) \<and> us_role u = ''auditor''
     \<and> accept_invitation plain_crypto id ''pri_x'' ''Bob'' ''pw'' ''u2'' 6 d = (d, Inl (InvitationNotPendingError InvAccepted))"
proof -
  have k: "invitations_keyed invited_db" by (simp add: invitations_keyed_def invited_db_def)
  obtain d u where a: "accept_invitation plain_crypto id ''pri_x'' ''Ann'' ''pw'' ''u1'' 5 invited_db = (d, Inr u)"
    by (auto simp: accept_invitation_def invitation_of_token_def invited_db_def one_org_db_def empty_db_def find_user_def Let_def)
  moreover from this have "us_role u = ''auditor''"
    by (auto simp: accept_invitation_def invitation_of_token_def invited_db_def one_org_db_def empty_db_def find_user_def Let_def new_user_def)
  ultimately show ?thesis using invitation_single_use [OF k a rtranclp.rtrancl_refl] by blast
qed

text \<open>The sandbox cleanup archives exactly the stale sandboxes. With unique ids it always completes, the
  organizations it lists (sandbox, active, older than the limit) are archived, and every other
  organization, in particular every production one, keeps its status.\<close>

theorem stale_sandboxes_archived:
  assumes "distinct (map org_id (organizations d))"
  shows "\<exists>d' as. archive_stale_sandbox_organizations n actor now d = Inr (d', as)
    \<and> length as = length (list_stale_sandbox_organizations d n now)
    \<and> (\<forall>r \<in> set (organizations d). org_status_of d' (org_id r) =
        (if org_environment r = ''sandbox'' \<and> org_status r = OrgActive \<and> org_created_at r < now - n * us_per_day
         then Some OrgArchived else Some (org_status r)))"
proof -
  let ?rs = "list_stale_sandbox_organizations d n now"
  have row: "get_organization_row d (org_id r) = Some r" if "r \<in> set (organizations d)" for r
    using db_find_unique [OF assms that] by (simp add: get_organization_row_def)
  have "distinct (map org_id ?rs)" using assms by (simp add: list_stale_sandbox_organizations_def Let_def distinct_map_filter)
  moreover have "\<forall>r \<in> set ?rs. org_status_of d (org_id r) = Some OrgActive"
    using row by (auto simp: list_stale_sandbox_organizations_def Let_def org_status_of_def)
  ultimately obtain d' as where r: "archive_all actor now ?rs d = Inr (d', as)" "length as = length ?rs"
      "\<forall>i. org_status_of d' i = (if i \<in> org_id ` set ?rs then Some OrgArchived else org_status_of d i)"
    using archive_all_statuses [of ?rs d actor now] by blast
  have "org_id r \<in> org_id ` set ?rs \<longleftrightarrow> r \<in> set ?rs" if "r \<in> set (organizations d)" for r
  proof -
    have "inj_on org_id (set (organizations d))" "set ?rs \<subseteq> set (organizations d)"
      using assms by (auto simp: distinct_map list_stale_sandbox_organizations_def Let_def)
    with that show ?thesis using inj_on_image_mem_iff by metis
  qed
  with r row show ?thesis
    by (auto simp: archive_stale_sandbox_organizations_def org_status_of_def [of d] list_stale_sandbox_organizations_def Let_def)
qed

theorem stale_sandboxes_archived_witness:
  "\<exists>d' as. archive_stale_sandbox_organizations 30 ''sandbox-cleanup'' (31 * us_per_day) one_org_db = Inr (d', as)
     \<and> org_status_of d' ''o1'' = Some OrgArchived"
proof -
  have "distinct (map org_id (organizations one_org_db))" by (simp add: one_org_db_def)
  from stale_sandboxes_archived [OF this, of 30 "''sandbox-cleanup''" "31 * us_per_day"] show ?thesis
    by (auto simp: one_org_db_def new_organization_def us_per_day_def)
qed

end
