(* ===== verification/Fact_Service.thy ===== *)
theory Fact_Service
  imports Org_Lifecycle
begin

text \<open>
  \<^verbatim>\<open>server/app/services/fact_service.py\<close>: facts about the enterprise that a registered source attests
  with a signature, and their resolution for a decision.

  Instants are printed in UTC. A query without an ORDER BY returns rows in insertion order; the
  resolved value does not depend on that order, since rows with different values are a conflict.
\<close>

datatype FactError =
    FactSourceNotFoundError uuid
  | FactSourceRevokedError uuid
  | InvalidFactSignatureError uuid
  | FactReplayError uuid string
  | FactConflictError string "json list"

definition get_fact_source_row :: "db \<Rightarrow> uuid \<Rightarrow> FactSource option" where
  "get_fact_source_row d i = db_find (\<lambda>s. fs_id s = i) (fact_sources d)"

record CanonicalFactAttestation =
  fat_organization_id :: string
  fat_source_id :: string
  fat_subject :: "string option"
  fat_key :: string
  fat_value :: json
  fat_observed_at :: string
  fat_expires_at :: string
  fat_nonce :: string

definition attestation_to_dict :: "CanonicalFactAttestation \<Rightarrow> json" where
  "attestation_to_dict t = JObj [
     (''organization_id'', JStr (fat_organization_id t)), (''source_id'', JStr (fat_source_id t)),
     (''subject'', opt_str (fat_subject t)), (''key'', JStr (fat_key t)), (''value'', fat_value t),
     (''observed_at'', JStr (fat_observed_at t)), (''expires_at'', JStr (fat_expires_at t)), (''nonce'', JStr (fat_nonce t))]"

definition register_fact_source :: "uuid \<Rightarrow> string \<Rightarrow> string \<Rightarrow> uuid \<Rightarrow> datetime \<Rightarrow> db \<Rightarrow> db \<times> FactSource" where
  "register_fact_source oid nm public_key_b64 sid now d =
     (let s = \<lparr>fs_id = sid, fs_organization_id = oid, fs_name = nm, fs_public_key = public_key_b64, fs_status = SrcActive,
                fs_created_at = now, fs_revoked_at = None\<rparr>
      in (d\<lparr>fact_sources := fact_sources d @ [s]\<rparr>, s))"

definition revoke_fact_source :: "uuid \<Rightarrow> uuid \<Rightarrow> datetime \<Rightarrow> db \<Rightarrow> FactError + db \<times> FactSource" where
  "revoke_fact_source oid sid now d =
     (case get_fact_source_row d sid of
        None \<Rightarrow> Inl (FactSourceNotFoundError sid)
      | Some s \<Rightarrow>
          if fs_organization_id s \<noteq> oid then Inl (FactSourceNotFoundError sid)
          else
            let f = (\<lambda>s. s\<lparr>fs_status := SrcRevoked, fs_revoked_at := Some now\<rparr>)
            in Inr (d\<lparr>fact_sources := db_update (\<lambda>s. fs_id s = sid) f (fact_sources d)\<rparr>, f s))"

definition fact_attestation ::
  "uuid \<Rightarrow> uuid \<Rightarrow> string option \<Rightarrow> string \<Rightarrow> json \<Rightarrow> datetime \<Rightarrow> datetime \<Rightarrow> string \<Rightarrow> json" where
  "fact_attestation oid sid sub key val observed_at expires_at nonce = attestation_to_dict
     \<lparr>fat_organization_id = oid, fat_source_id = sid, fat_subject = sub, fat_key = key, fat_value = val,
      fat_observed_at = isoformat observed_at, fat_expires_at = isoformat expires_at, fat_nonce = nonce\<rparr>"

definition ingest_fact ::
  "crypto \<Rightarrow> uuid \<Rightarrow> uuid \<Rightarrow> string option \<Rightarrow> string \<Rightarrow> json \<Rightarrow> datetime \<Rightarrow> datetime \<Rightarrow> string \<Rightarrow> string \<Rightarrow> uuid \<Rightarrow> datetime \<Rightarrow> db
     \<Rightarrow> FactError + db \<times> EnterpriseFact" where
  "ingest_fact C oid sid sub key val observed_at expires_at nonce signature_b64 fid now d =
     (case get_fact_source_row d sid of
        None \<Rightarrow> Inl (FactSourceNotFoundError sid)
      | Some s \<Rightarrow>
          if fs_organization_id s \<noteq> oid then Inl (FactSourceNotFoundError sid)
          else if fs_status s \<noteq> SrcActive then Inl (FactSourceRevokedError sid)
          else
            let attestation = fact_attestation oid sid sub key val observed_at expires_at nonce;
                signature = \<lparr>algorithm = ''ed25519'', sig_key_id = sid, sig_value = signature_b64\<rparr>
            in if \<not> verify_payload C attestation signature (fs_public_key s) then Inl (InvalidFactSignatureError sid)
               else if \<exists>f \<in> set (enterprise_facts d). fa_source_id f = sid \<and> fa_nonce f = nonce then Inl (FactReplayError sid nonce)
               else
                 let f = \<lparr>fa_id = fid, fa_organization_id = oid, fa_source_id = sid, fa_subject = sub, fa_key = key,
                          fa_value = val, fa_observed_at = observed_at, fa_recorded_at = now, fa_expires_at = expires_at,
                          fa_attestation_type = ''signed'', fa_signature = Some signature_b64, fa_key_id = Some sid, fa_nonce = nonce\<rparr>
                 in Inr (d\<lparr>enterprise_facts := enterprise_facts d @ [f]\<rparr>, f))"

definition stable_repr :: "json \<Rightarrow> string" where
  "stable_repr v = dumps_plain (sort_keys v)"

definition source_active :: "db \<Rightarrow> uuid \<Rightarrow> bool" where
  "source_active d i = (case get_fact_source_row d i of None \<Rightarrow> False | Some s \<Rightarrow> fs_status s = SrcActive)"

definition trusted_facts :: "db \<Rightarrow> uuid \<Rightarrow> string option \<Rightarrow> string \<Rightarrow> datetime \<Rightarrow> EnterpriseFact list" where
  "trusted_facts d oid sub key now = filter (\<lambda>f. fa_organization_id f = oid \<and> fa_subject f = sub \<and> fa_key f = key
      \<and> now < fa_expires_at f \<and> source_active d (fa_source_id f)) (enterprise_facts d)"

definition conflicting :: "EnterpriseFact list \<Rightarrow> bool" where
  "conflicting rows = (length (remdups (map (\<lambda>r. stable_repr (fa_value r)) rows)) > 1)"

fun resolve_facts :: "db \<Rightarrow> uuid \<Rightarrow> (string option \<times> string) list \<Rightarrow> datetime \<Rightarrow> FactError + EnterpriseFact list" where
  "resolve_facts d oid [] now = Inr []"
| "resolve_facts d oid ((sub, key) # rest) now =
     (case trusted_facts d oid sub key now of
        [] \<Rightarrow> resolve_facts d oid rest now
      | f # fs \<Rightarrow>
          if conflicting (f # fs)
          then Inl (FactConflictError key (map fa_value (f # fs)))
          else rmap (Cons f) (resolve_facts d oid rest now))"

section \<open>Provenance of stored facts\<close>

inductive fact_step :: "crypto \<Rightarrow> db \<Rightarrow> db \<Rightarrow> bool" for C where
  register: "\<lbrakk>register_fact_source oid nm pk sid now d = (d', s); sid \<notin> fs_id ` set (fact_sources d)\<rbrakk> \<Longrightarrow> fact_step C d d'"
| revoke: "revoke_fact_source oid sid now d = Inr (d', s) \<Longrightarrow> fact_step C d d'"
| ingest: "ingest_fact C oid sid sub key val ob ex nonce sg fid now d = Inr (d', f) \<Longrightarrow> fact_step C d d'"
| elsewhere: "\<lbrakk>fact_sources d' = fact_sources d; enterprise_facts d' = enterprise_facts d\<rbrakk> \<Longrightarrow> fact_step C d d'"

definition attested :: "crypto \<Rightarrow> db \<Rightarrow> EnterpriseFact \<Rightarrow> bool" where
  "attested C d f = (\<exists>s sg. get_fact_source_row d (fa_source_id f) = Some s \<and> fs_organization_id s = fa_organization_id f
     \<and> fa_signature f = Some sg
     \<and> verify_payload C (fact_attestation (fa_organization_id f) (fa_source_id f) (fa_subject f) (fa_key f) (fa_value f)
          (fa_observed_at f) (fa_expires_at f) (fa_nonce f))
         \<lparr>algorithm = ''ed25519'', sig_key_id = fa_source_id f, sig_value = sg\<rparr> (fs_public_key s))"

definition facts_ok :: "crypto \<Rightarrow> db \<Rightarrow> bool" where
  "facts_ok C d = ((\<forall>f \<in> set (enterprise_facts d). attested C d f)
     \<and> distinct (map (\<lambda>f. (fa_source_id f, fa_nonce f)) (enterprise_facts d)))"

text \<open>A source keeps its organization and its key.\<close>

lemma attested_mono:
  assumes "attested C d f"
    and "\<And>s. get_fact_source_row d (fa_source_id f) = Some s \<Longrightarrow>
      \<exists>s'. get_fact_source_row d' (fa_source_id f) = Some s' \<and> fs_organization_id s' = fs_organization_id s \<and> fs_public_key s' = fs_public_key s"
  shows "attested C d' f"
  using assms unfolding attested_def by metis

lemma ingest_factD:
  assumes "ingest_fact C oid sid sub key val ob ex nonce sg fid now d = Inr (d', f)"
  shows "enterprise_facts d' = enterprise_facts d @ [f] \<and> fact_sources d' = fact_sources d \<and> attested C d f
    \<and> (fa_source_id f, fa_nonce f) \<notin> (\<lambda>f. (fa_source_id f, fa_nonce f)) ` set (enterprise_facts d) \<and> source_active d (fa_source_id f)"
  using assms
  by (auto simp: ingest_fact_def Let_def attested_def source_active_def split: option.splits if_splits)

lemma facts_ok_step: "fact_step C d d' \<Longrightarrow> facts_ok C d \<Longrightarrow> facts_ok C d'"
proof (induction rule: fact_step.induct)
  case (register oid nm pk sid now d d' s)
  then have "fact_sources d' = fact_sources d @ [s]" "fs_id s = sid" "enterprise_facts d' = enterprise_facts d"
    by (auto simp: register_fact_source_def Let_def)
  moreover from this have "attested C d g \<Longrightarrow> attested C d' g" for g
    by (elim attested_mono) (simp add: get_fact_source_row_def db_find_insert)
  ultimately show ?case using register(3) by (auto simp: facts_ok_def)
next
  case (revoke oid sid now d d' s)
  then obtain g where "fact_sources d' = db_update (\<lambda>s. fs_id s = sid) g (fact_sources d)" "enterprise_facts d' = enterprise_facts d"
      "\<And>s. fs_id (g s) = fs_id s" "\<And>s. fs_organization_id (g s) = fs_organization_id s" "\<And>s. fs_public_key (g s) = fs_public_key s"
    by (fastforce simp: revoke_fact_source_def Let_def split: option.splits if_splits)
  moreover from this have "attested C d h \<Longrightarrow> attested C d' h" for h
    by (elim attested_mono) (auto simp: get_fact_source_row_def db_find_update_key)
  ultimately show ?case using revoke(2) by (auto simp: facts_ok_def)
next
  case (ingest oid sid sub key val ob ex nonce sg fid now d d' f)
  note i = ingest_factD [OF ingest(1)]
  have "attested C d g \<Longrightarrow> attested C d' g" for g
    by (rule attested_mono [of C d]) (use i in \<open>auto simp: get_fact_source_row_def\<close>)
  with i ingest(2) show ?case by (auto simp: facts_ok_def)
next
  case (elsewhere d' d)
  have "attested C d g \<Longrightarrow> attested C d' g" for g
    by (rule attested_mono [of C d]) (use elsewhere in \<open>auto simp: get_fact_source_row_def\<close>)
  with elsewhere show ?case by (auto simp: facts_ok_def)
qed

lemma facts_ok_run: "(fact_step C)\<^sup>*\<^sup>* d d' \<Longrightarrow> facts_ok C d \<Longrightarrow> facts_ok C d'"
  by (induction rule: rtranclp_induct) (auto intro: facts_ok_step)

section \<open>Resolution\<close>

lemma not_conflicting:
  assumes "\<not> conflicting rows" "f \<in> set rows" "g \<in> set rows"
  shows "stable_repr (fa_value f) = stable_repr (fa_value g)"
proof -
  let ?vs = "remdups (map (\<lambda>r. stable_repr (fa_value r)) rows)"
  from assms(1) obtain v where "set ?vs \<subseteq> {v}"
    unfolding conflicting_def by (cases ?vs) (auto simp: not_less simp del: set_remdups)
  then have "stable_repr (fa_value r) = v" if "r \<in> set rows" for r using that by auto
  with assms(2,3) show ?thesis by simp
qed

lemma trusted_factsD:
  "f \<in> set (trusted_facts d oid sub key now) \<Longrightarrow>
     f \<in> set (enterprise_facts d) \<and> fa_organization_id f = oid \<and> fa_subject f = sub \<and> fa_key f = key
     \<and> now < fa_expires_at f \<and> source_active d (fa_source_id f)"
  by (simp add: trusted_facts_def)

text \<open>No trusted fact for the subject and key of \<open>f\<close> has another value.\<close>

definition uncontradicted :: "db \<Rightarrow> datetime \<Rightarrow> EnterpriseFact \<Rightarrow> bool" where
  "uncontradicted d now f = (\<forall>g \<in> set (trusted_facts d (fa_organization_id f) (fa_subject f) (fa_key f) now).
     stable_repr (fa_value g) = stable_repr (fa_value f))"

lemma resolve_facts_sound:
  assumes "resolve_facts d oid reqs now = Inr fs"
  shows "(\<forall>f \<in> set fs. (fa_subject f, fa_key f) \<in> set reqs \<and> f \<in> set (trusted_facts d oid (fa_subject f) (fa_key f) now)
        \<and> uncontradicted d now f)
    \<and> (\<forall>(sub, key) \<in> set reqs. trusted_facts d oid sub key now \<noteq> [] \<longrightarrow> (\<exists>f \<in> set fs. fa_subject f = sub \<and> fa_key f = key))"
  using assms
proof (induction reqs arbitrary: fs)
  case (Cons r reqs)
  obtain sub key where r: "r = (sub, key)" by (cases r)
  show ?case
  proof (cases "trusted_facts d oid sub key now")
    case Nil
    with Cons.prems r have "resolve_facts d oid reqs now = Inr fs" by simp
    from Cons.IH [OF this] Nil r show ?thesis by auto
  next
    case (Cons f gs)
    with Cons.prems r have nc: "\<not> conflicting (f # gs)" by (auto split: if_splits)
    with Cons.prems r Cons obtain fs' where fs': "resolve_facts d oid reqs now = Inr fs'" "fs = f # fs'" by auto
    have f: "fa_subject f = sub" "fa_key f = key" "fa_organization_id f = oid" "f \<in> set (trusted_facts d oid sub key now)"
      using trusted_factsD [of f d oid sub key now] Cons by auto
    have "uncontradicted d now f" unfolding uncontradicted_def f(1-3) Cons by (intro ballI not_conflicting [OF nc]) auto
    then have F: "(fa_subject f, fa_key f) \<in> set (r # reqs) \<and> f \<in> set (trusted_facts d oid (fa_subject f) (fa_key f) now) \<and> uncontradicted d now f"
      using f r by simp
    note IH = Cons.IH [OF fs'(1)]
    show ?thesis
    proof (intro conjI ballI)
      fix x
      assume "x \<in> set fs"
      then consider "x = f" | "x \<in> set fs'" using fs'(2) by auto
      then show "(fa_subject x, fa_key x) \<in> set (r # reqs)" "x \<in> set (trusted_facts d oid (fa_subject x) (fa_key x) now)"
        "uncontradicted d now x" using F IH by (cases; auto)+
    next
      fix q
      assume "q \<in> set (r # reqs)"
      then consider "q = (fa_subject f, fa_key f)" | "q \<in> set reqs" using f r by auto
      then show "case q of (sub, key) \<Rightarrow> trusted_facts d oid sub key now \<noteq> [] \<longrightarrow> (\<exists>f \<in> set fs. fa_subject f = sub \<and> fa_key f = key)"
        using IH fs'(2) by (cases; fastforce)
    qed
  qed
qed simp

lemma source_activeD: "source_active d i \<Longrightarrow> \<exists>s. get_fact_source_row d i = Some s \<and> fs_status s = SrcActive"
  by (auto simp: source_active_def split: option.splits)

section \<open>Claims\<close>

text \<open>C33: a resolved fact is trustworthy. In every state reached from an empty store, a fact that resolution
  returns was asked for, belongs to the organization, has not expired, comes from a source of the same
  organization that is active now, carries that source's valid signature over exactly its content, and
  agrees in value with every other trusted fact for its subject and key; every requested pair that has
  a trusted fact is resolved; and no source's nonce was ever accepted twice.\<close>

theorem resolved_facts_trusted:
  assumes "(fact_step C)\<^sup>*\<^sup>* d0 d" and "enterprise_facts d0 = []" and "resolve_facts d oid reqs now = Inr fs"
  shows "(\<forall>f \<in> set fs. (fa_subject f, fa_key f) \<in> set reqs \<and> fa_organization_id f = oid \<and> now < fa_expires_at f
        \<and> attested C d f \<and> source_active d (fa_source_id f) \<and> uncontradicted d now f)
    \<and> (\<forall>(sub, key) \<in> set reqs. trusted_facts d oid sub key now \<noteq> [] \<longrightarrow> (\<exists>f \<in> set fs. fa_subject f = sub \<and> fa_key f = key))
    \<and> distinct (map (\<lambda>f. (fa_source_id f, fa_nonce f)) (enterprise_facts d))"
proof -
  have ok: "facts_ok C d" using facts_ok_run [OF assms(1)] assms(2) by (simp add: facts_ok_def)
  have "fa_organization_id f = oid \<and> now < fa_expires_at f \<and> attested C d f \<and> source_active d (fa_source_id f)"
    if "f \<in> set (trusted_facts d oid (fa_subject f) (fa_key f) now)" for f
    using trusted_factsD [OF that] ok by (simp add: facts_ok_def)
  with resolve_facts_sound [OF assms(3)] ok show ?thesis unfolding facts_ok_def by blast
qed

definition fact_db :: db where
  "fact_db = empty_db\<lparr>fact_sources := [\<lparr>fs_id = ''s1'', fs_organization_id = ''o1'', fs_name = ''ERP'', fs_public_key = ''QUJD'',
     fs_status = SrcActive, fs_created_at = 0, fs_revoked_at = None\<rparr>]\<rparr>"

lemma fact_db_ingests:
  "\<exists>sg d f. ingest_fact plain_crypto ''o1'' ''s1'' None ''budget_available'' (JBool True) 0 100 ''n1'' sg ''f1'' 1 fact_db = Inr (d, f)
     \<and> enterprise_facts d = [f] \<and> fact_sources d = fact_sources fact_db \<and> fa_organization_id f = ''o1'' \<and> fa_subject f = None
     \<and> fa_key f = ''budget_available'' \<and> fa_expires_at f = 100 \<and> fa_source_id f = ''s1''"
proof -
  let ?p = "fact_attestation ''o1'' ''s1'' None ''budget_available'' (JBool True) 0 100 ''n1''"
  have pk: "public_key_b64_from_signing_key_b64 plain_crypto ''QUJD'' = Some ''QUJD''" by code_simp
  then obtain sig where s: "sign_payload plain_crypto ?p ''QUJD'' ''s1'' = Some sig" using sign_payload_Some_iff by blast
  have "verify_payload plain_crypto ?p sig ''QUJD''" by (rule verify_sign_payload [OF plain_crypto_correct s pk])
  then have "verify_payload plain_crypto ?p \<lparr>algorithm = ''ed25519'', sig_key_id = ''s1'', sig_value = sig_value sig\<rparr> ''QUJD''"
    by (simp add: verify_payload_def Let_def split: option.splits)
  then show ?thesis
    by (intro exI [of _ "sig_value sig"]) (simp add: ingest_fact_def get_fact_source_row_def fact_db_def empty_db_def Let_def)
qed

theorem resolved_facts_trusted_witness:
  "\<exists>d f. resolve_facts d ''o1'' [(None, ''budget_available'')] 5 = Inr [f] \<and> attested plain_crypto d f"
proof -
  obtain sg d f where i: "ingest_fact plain_crypto ''o1'' ''s1'' None ''budget_available'' (JBool True) 0 100 ''n1'' sg ''f1'' 1 fact_db = Inr (d, f)"
      "enterprise_facts d = [f]" "fact_sources d = fact_sources fact_db" "fa_organization_id f = ''o1''" "fa_subject f = None"
      "fa_key f = ''budget_available''" "fa_expires_at f = 100" "fa_source_id f = ''s1''"
    using fact_db_ingests by blast
  then have r: "resolve_facts d ''o1'' [(None, ''budget_available'')] 5 = Inr [f]"
    by (simp add: trusted_facts_def source_active_def get_fact_source_row_def fact_db_def conflicting_def)
  have s: "(fact_step plain_crypto)\<^sup>*\<^sup>* fact_db d" using fact_step.ingest [OF i(1)] by blast
  have "enterprise_facts fact_db = []" by (simp add: fact_db_def empty_db_def)
  from resolved_facts_trusted [OF s this r] r show ?thesis by auto
qed

end
