(* ===== verification/Runtime_Truth.thy ===== *)
theory Runtime_Truth
  imports Evidence_Chain Fact_Service
begin

text \<open>
  \<^verbatim>\<open>server/app/services/authority_context_service.py\<close> and \<^verbatim>\<open>runtime_truth_service.py\<close>: what the server
  resolves about the acting principal before a decision. The context is a JSON object; its
  \<open>delegations\<close> are the direct, valid delegations to the principal, those across an organization
  boundary only when approved.
\<close>

definition name_or_none :: "('r \<Rightarrow> uuid) \<Rightarrow> ('r \<Rightarrow> string) \<Rightarrow> 'r list \<Rightarrow> uuid option \<Rightarrow> json" where
  "name_or_none key nm rows i = (case i of None \<Rightarrow> JNull
     | Some k \<Rightarrow> (case db_find (\<lambda>r. key r = k) rows of None \<Rightarrow> JNull | Some r \<Rightarrow> JStr (nm r)))"

definition delegation_counts :: "db \<Rightarrow> Principal \<Rightarrow> datetime \<Rightarrow> AuthorityRelationship \<Rightarrow> bool" where
  "delegation_counts d p now r =
     (rel_to_principal_id r = Some (pr_id p) \<and> rel_kind r = ''delegation'' \<and> rel_status r = ''active''
      \<and> \<not> (case rel_valid_from r of None \<Rightarrow> False | Some t \<Rightarrow> t > now)
      \<and> \<not> (case rel_valid_to r of None \<Rightarrow> False | Some t \<Rightarrow> t < now)
      \<and> \<not> (case rel_from_principal_id r of None \<Rightarrow> False
           | Some i \<Rightarrow> \<not> rel_cross_org_approved r
               \<and> (case get_principal_row d i of None \<Rightarrow> False | Some q \<Rightarrow> pr_organization_id q \<noteq> pr_organization_id p)))"

definition active_inbound_delegations :: "db \<Rightarrow> Principal \<Rightarrow> datetime \<Rightarrow> json list" where
  "active_inbound_delegations d p now = map (\<lambda>r. JObj [
       (''id'', JStr (rel_id r)), (''from_principal_id'', opt_str (rel_from_principal_id r)),
       (''resource_id'', opt_str (rel_resource_id r)), (''operation'', opt_str (rel_operation r))])
     (filter (delegation_counts d p now) (authority_relationships d))"

definition resolve_runtime_authority_context :: "db \<Rightarrow> Principal option \<Rightarrow> amount option \<Rightarrow> datetime \<Rightarrow> json" where
  "resolve_runtime_authority_context d principal_row amt now =
     (case principal_row of
        None \<Rightarrow> JObj [(''risk_level'', JStr (classify_risk amt)), (''delegations'', JList []), (''delegation_count'', JInt 0)]
      | Some p \<Rightarrow>
          (let delegations = active_inbound_delegations d p now
           in JObj [
             (''organization'', name_or_none org_id org_name (organizations d) (pr_organization_id p)),
             (''business_unit'', name_or_none bu_id bu_name (business_units d) (pr_business_unit_id p)),
             (''department'', name_or_none dp_id dp_name (departments d) (pr_department_id p)),
             (''team'', name_or_none tm_id tm_name (teams d) (pr_team_id p)),
             (''role'', opt_str (pr_role p)),
             (''risk_level'', JStr (classify_risk amt)),
             (''delegations'', JList delegations),
             (''delegation_count'', JInt (int (length delegations)))]))"

record ResolvedFacts =
  rf_principal :: "Principal option"
  rf_principal_name :: string
  rf_authority_context :: json

definition resolve :: "db \<Rightarrow> Agent \<Rightarrow> amount option \<Rightarrow> datetime \<Rightarrow> ResolvedFacts" where
  "resolve d a amt now =
     (let p = get_principal_row d (ag_acting_for_principal_id a)
      in \<lparr>rf_principal = p,
          rf_principal_name = (case p of None \<Rightarrow> ag_acting_for_principal_id a | Some q \<Rightarrow> pr_name q),
          rf_authority_context = resolve_runtime_authority_context d p amt now\<rparr>)"

text \<open>A delegation across organizations reaches the context only if it was approved.\<close>

lemma delegation_same_org:
  assumes "delegation_counts d p now r" "rel_from_principal_id r = Some i" "get_principal_row d i = Some q"
  shows "pr_organization_id q = pr_organization_id p \<or> rel_cross_org_approved r"
  using assms by (auto simp: delegation_counts_def)

lemma delegation_count_exact:
  "obj_get (resolve_runtime_authority_context d (Some p) amt now) ''delegation_count'' =
     Some (JInt (int (length (filter (delegation_counts d p now) (authority_relationships d)))))"
  by (simp add: resolve_runtime_authority_context_def active_inbound_delegations_def Let_def)

section \<open>Claims\<close>

text \<open>Delegations do not cross organizations silently. The delegation count a policy may test is the
  number of active delegations to the principal whose validity window contains the present, and each
  of them whose grantor is known either comes from the principal's own organization or was explicitly
  approved across organizations.\<close>

theorem delegations_stay_in_organization:
  assumes "rf_principal (resolve d a amt now) = Some p"
  shows "\<exists>rs. obj_get (rf_authority_context (resolve d a amt now)) ''delegation_count'' = Some (JInt (int (length rs)))
    \<and> set rs \<subseteq> set (authority_relationships d)
    \<and> (\<forall>r \<in> set rs. rel_to_principal_id r = Some (pr_id p) \<and> rel_kind r = ''delegation'' \<and> rel_status r = ''active''
        \<and> (\<forall>t. rel_valid_from r = Some t \<longrightarrow> t \<le> now) \<and> (\<forall>t. rel_valid_to r = Some t \<longrightarrow> now \<le> t)
        \<and> (\<forall>i q. rel_from_principal_id r = Some i \<and> get_principal_row d i = Some q \<longrightarrow>
             pr_organization_id q = pr_organization_id p \<or> rel_cross_org_approved r))"
proof (intro exI conjI)
  let ?rs = "filter (delegation_counts d p now) (authority_relationships d)"
  show "obj_get (rf_authority_context (resolve d a amt now)) ''delegation_count'' = Some (JInt (int (length ?rs)))"
    using assms delegation_count_exact by (simp add: resolve_def Let_def)
  show "set ?rs \<subseteq> set (authority_relationships d)" by auto
  show "\<forall>r \<in> set ?rs. rel_to_principal_id r = Some (pr_id p) \<and> rel_kind r = ''delegation'' \<and> rel_status r = ''active''
        \<and> (\<forall>t. rel_valid_from r = Some t \<longrightarrow> t \<le> now) \<and> (\<forall>t. rel_valid_to r = Some t \<longrightarrow> now \<le> t)
        \<and> (\<forall>i q. rel_from_principal_id r = Some i \<and> get_principal_row d i = Some q \<longrightarrow>
             pr_organization_id q = pr_organization_id p \<or> rel_cross_org_approved r)"
    by (auto simp: delegation_counts_def)
qed

definition demo_principal :: Principal where
  "demo_principal = \<lparr>pr_id = ''p1'', pr_name = ''CFO'', pr_source_document_id = None, pr_organization_id = Some ''o1'',
     pr_business_unit_id = None, pr_department_id = None, pr_team_id = None, pr_role = None, pr_created_at = 0\<rparr>"

definition demo_agent :: Agent where
  "demo_agent = (new_agent ''a1'' ''bot'' ''p1'' None None 0)\<lparr>ag_status := AgActive\<rparr>"

definition demo_delegation :: AuthorityRelationship where
  "demo_delegation = \<lparr>rel_id = ''r1'', rel_corpus_id = ''c1'', rel_kind = ''delegation'', rel_from_principal = ''CEO'',
     rel_to_principal = ''CFO'', rel_description = None, rel_confidence = (9, - 1), rel_source_excerpt = None,
     rel_source_location = None, rel_created_at = 0, rel_from_principal_id = Some ''p1'', rel_to_principal_id = Some ''p1'',
     rel_resource_id = None, rel_operation = None, rel_valid_from = Some 0, rel_valid_to = Some 10, rel_revoked_at = None,
     rel_revoked_by = None, rel_status = ''active'', rel_cross_org_approved = False, rel_clause_reference = None,
     rel_extraction_reasoning = None, rel_detected_assumptions = JList [], rel_ambiguity_flags = JList []\<rparr>"

definition delegation_db :: db where
  "delegation_db = empty_db\<lparr>principals := [demo_principal], authority_relationships := [demo_delegation]\<rparr>"

theorem delegations_stay_in_organization_witness:
  "\<exists>rs. obj_get (rf_authority_context (resolve delegation_db demo_agent None 5)) ''delegation_count'' = Some (JInt (int (length rs)))
     \<and> length rs = 1 \<and> set rs \<subseteq> {demo_delegation}"
proof -
  have p: "rf_principal (resolve delegation_db demo_agent None 5) = Some demo_principal"
    by (simp add: resolve_def get_principal_row_def demo_principal_def demo_agent_def new_agent_def delegation_db_def Let_def)
  have "obj_get (rf_authority_context (resolve delegation_db demo_agent None 5)) ''delegation_count'' = Some (JInt 1)"
    using p delegation_count_exact [of delegation_db demo_principal None 5]
    by (simp add: resolve_def Let_def delegation_db_def delegation_counts_def demo_delegation_def demo_principal_def get_principal_row_def)
  with delegations_stay_in_organization [OF p] show ?thesis by (auto simp: delegation_db_def)
qed

end
