(* ===== verification/Intent_Service.thy ===== *)
theory Intent_Service
  imports Runtime_Truth
begin

text \<open>
  \<^verbatim>\<open>server/app/services/intent_service.py\<close>: the submission of an intent by an agent
  (\<open>submit_intent\<close>), the shared evaluation (\<open>_evaluate_and_record\<close>), and the queries on decisions. The
  Evidence part of the module is in \<open>Evidence_Chain\<close>.

  \<open>Env\<close> holds what is outside the code: the cryptography, the settings, the OPA server
  (reached through \<open>opa_query\<close>) and PostgreSQL's conversion of a float to \<open>NUMERIC(18, 2)\<close> (\<open>None\<close>: out of range).
  A submission is one transaction on the state; the unique index on agent and nonce turns a second
  insert into \<open>ReplayDetectedError\<close>. The generated primary keys are the record \<open>IntentIds\<close>.
\<close>

record Env =
  env_crypto :: crypto
  env_settings :: Settings
  env_opa :: opa
  env_numeric :: "amount \<Rightarrow> int option"

record IntentIds =
  id_intent :: uuid
  id_decision :: uuid
  id_evidence :: uuid

datatype IntentError =
    AgentRevokedError uuid
  | AgentRetiredError uuid
  | IntentOrganizationNotActiveError uuid
  | AgentNotOperationalError uuid
  | ReplayDetectedError uuid string
  | DecisionNotFoundError uuid
  | CrossOrganizationAccessError uuid
  | AmountOutOfRange
  | EngineRaised py_error
  | EvidenceRaised EvidenceError

section \<open>Evaluation\<close>

definition get_active :: "db \<Rightarrow> uuid option \<Rightarrow> ActivePolicy option" where
  "get_active d org = map_option (\<lambda>p. \<lparr>ap_id = po_id p, ap_version = po_version p, ap_bundle_hash = Some (po_bundle_hash p)\<rparr>)
     (db_find (\<lambda>p. po_status p = PolActive \<and> po_organization_id p = org) (policies d))"

text \<open>The keyword arguments of the adapter-mediated path; \<open>no_provenance\<close> for an agent's own submission.\<close>

record IntegrationProvenance =
  ip_integration_identity_id :: "uuid option"
  ip_enforcement_binding_id :: "uuid option"
  ip_integration_contract_version_id :: "uuid option"
  ip_integration_contract_content_hash :: "string option"
  ip_integration_id :: "uuid option"
  ip_environment :: "string option"
  ip_source_operation :: "string option"
  ip_external_operation_id :: "string option"
  ip_canonical_operation_fingerprint :: "string option"
  ip_canonical_action_schema_version :: "int option"
  ip_canonical_action_digest :: "string option"

definition no_provenance :: IntegrationProvenance where
  "no_provenance = \<lparr>ip_integration_identity_id = None, ip_enforcement_binding_id = None,
     ip_integration_contract_version_id = None, ip_integration_contract_content_hash = None, ip_integration_id = None,
     ip_environment = None, ip_source_operation = None, ip_external_operation_id = None,
     ip_canonical_operation_fingerprint = None, ip_canonical_action_schema_version = None, ip_canonical_action_digest = None\<rparr>"

text \<open>The arguments of \<open>append_evidence\<close> with its defaults.\<close>

definition evidence_args ::
  "uuid \<Rightarrow> uuid \<Rightarrow> string \<Rightarrow> amount option \<Rightarrow> string list \<Rightarrow> Outcome \<Rightarrow> EvidenceStatus \<Rightarrow> string option \<Rightarrow> string option \<Rightarrow> EvidenceArgs" where
  "evidence_args did aid act amt matched out st res cur = \<lparr>ea_decision_id = did, ea_agent_id = aid, ea_action = act,
     ea_amount = amt, ea_matched_mandates = matched, ea_outcome = out, ea_approval_outcome = None, ea_approver = None,
     ea_status = st, ea_resource = res, ea_currency = cur, ea_principal_id = None, ea_principal_name = None,
     ea_authority_context = None, ea_mandate_ids = [], ea_authority_version = None, ea_policy_version = None,
     ea_policy_bundle_hash = None, ea_reviewer = None, ea_review_outcome = None, ea_enterprise_system_id = None,
     ea_facts_evaluated = [], ea_integration_identity_id = None, ea_enforcement_binding_id = None,
     ea_integration_contract_version_id = None, ea_integration_contract_content_hash = None, ea_integration_id = None,
     ea_environment = None, ea_source_operation = None, ea_external_operation_id = None,
     ea_canonical_operation_fingerprint = None, ea_canonical_action_schema_version = None, ea_canonical_action_digest = None\<rparr>"

definition amount_json :: "amount option \<Rightarrow> json" where
  "amount_json x = (case x of None \<Rightarrow> JNull | Some (m, e) \<Rightarrow> JFloat m e)"

definition fact_snapshot :: "EnterpriseFact \<Rightarrow> json" where
  "fact_snapshot f = JObj [(''key'', JStr (fa_key f)), (''value'', fa_value f), (''subject'', opt_str (fa_subject f)),
     (''source_id'', JStr (fa_source_id f)), (''observed_at'', JStr (isoformat (fa_observed_at f))),
     (''expires_at'', JStr (isoformat (fa_expires_at f)))]"

definition needed_facts :: "db \<Rightarrow> uuid option \<Rightarrow> string option \<Rightarrow> datetime \<Rightarrow> EnterpriseFact list" where
  "needed_facts d org counterparty now =
     (let keys = list_enterprise_knowledge_keys_for_active_policies d org
      in case org of
           None \<Rightarrow> []
         | Some o' \<Rightarrow> if keys = [] then []
             else (case resolve_facts d o' (map (\<lambda>k. (counterparty, k)) keys) now of Inl _ \<Rightarrow> [] | Inr fs \<Rightarrow> fs))"

definition engine_input ::
  "db \<Rightarrow> Agent \<Rightarrow> string \<Rightarrow> amount option \<Rightarrow> string option \<Rightarrow> string option \<Rightarrow> string option \<Rightarrow> (string \<times> json) list \<Rightarrow> datetime \<Rightarrow> datetime
     \<Rightarrow> json \<times> json \<times> json \<times> json" where
  "engine_input d a act amt cur counterparty res ctx requested_at now =
     (let resolved = resolve d a amt now;
          org = Option.bind (rf_principal resolved) pr_organization_id
      in (JObj [(''action'', JStr act), (''amount'', amount_json amt), (''currency'', opt_str cur), (''resource'', opt_str res)],
          JObj (dict_updates ctx [(''timestamp'', JStr (isoformat requested_at)), (''authority'', rf_authority_context resolved)]),
          JStr (rf_principal_name resolved),
          JObj (dict_updates [] (map (\<lambda>f. (fa_key f, fa_value f)) (needed_facts d org counterparty now)))))"

definition run_engine ::
  "Env \<Rightarrow> db \<Rightarrow> Agent \<Rightarrow> string \<Rightarrow> amount option \<Rightarrow> string option \<Rightarrow> string option \<Rightarrow> string option \<Rightarrow> (string \<times> json) list \<Rightarrow> datetime \<Rightarrow> datetime
     \<Rightarrow> py_error + EngineDecision" where
  "run_engine E d a act amt cur counterparty res ctx requested_at now =
     (let org = Option.bind (rf_principal (resolve d a amt now)) pr_organization_id;
          (int_doc, ctx_doc, acting_for, knowledge) = engine_input d a act amt cur counterparty res ctx requested_at now
      in evaluate int_doc ctx_doc acting_for (get_active d org) (opa_query (env_opa E) (map_option org_data_path org))
           (Some (ag_id a)) knowledge)"

text \<open>An ALLOW resting on a high-risk policy whose authority expired becomes a review.\<close>

definition final_verdict :: "db \<Rightarrow> EngineDecision \<Rightarrow> datetime \<Rightarrow> Outcome \<times> string option" where
  "final_verdict d ed now =
     (if ed_outcome ed = OutAllow \<and> find_expired_high_risk_authority d (ed_evaluated_mandates ed) now \<noteq> None
      then (OutHumanReview, Some ''authority_review_overdue'')
      else (ed_outcome ed, ed_reason ed))"

definition evaluate_and_record ::
  "Env \<Rightarrow> IntegrationProvenance \<Rightarrow> IntentIds \<Rightarrow> Intent \<Rightarrow> Agent \<Rightarrow> string \<Rightarrow> amount option \<Rightarrow> string option \<Rightarrow> string option \<Rightarrow> string option
     \<Rightarrow> (string \<times> json) list \<Rightarrow> datetime \<Rightarrow> datetime \<Rightarrow> db \<Rightarrow> IntentError + db \<times> Decision \<times> Evidence" where
  "evaluate_and_record E prov ids it a act amt cur counterparty res ctx requested_at now d =
     (let resolved = resolve d a amt now;
          org = Option.bind (rf_principal resolved) pr_organization_id;
          facts = needed_facts d org counterparty now
      in case run_engine E d a act amt cur counterparty res ctx requested_at now of
           Inl e \<Rightarrow> Inl (EngineRaised e)
         | Inr ed \<Rightarrow>
             (let mandate_ids = resolve_mandate_ids d (ed_evaluated_mandates ed);
                  system = resolve_enterprise_system d (ed_evaluated_mandates ed);
                  (out, why) = final_verdict d ed now;
                  de = \<lparr>de_id = id_decision ids, de_intent_id = it_id it, de_policy_id = ed_policy_id ed, de_outcome = out,
                        de_reason = why, de_evaluated_mandates = JList (map JStr (ed_evaluated_mandates ed)), de_created_at = now,
                        de_evaluated_mandate_ids = JList (map JStr mandate_ids), de_enterprise_system_id = map_option es_id system\<rparr>;
                  d1 = d\<lparr>decisions := decisions d @ [de]\<rparr>;
                  args = (evidence_args (id_decision ids) (ag_id a) act amt (ed_evaluated_mandates ed) out
                            (evidence_status_for_outcome out) res cur)
                    \<lparr>ea_principal_id := map_option pr_id (rf_principal resolved),
                     ea_principal_name := Some (rf_principal_name resolved),
                     ea_authority_context := Some (rf_authority_context resolved),
                     ea_mandate_ids := mandate_ids,
                     ea_authority_version := Some (ed_authority_version ed),
                     ea_policy_version := ed_policy_version ed,
                     ea_policy_bundle_hash := ed_policy_bundle_hash ed,
                     ea_enterprise_system_id := map_option es_id system,
                     ea_facts_evaluated := map fact_snapshot facts,
                     ea_integration_identity_id := ip_integration_identity_id prov,
                     ea_enforcement_binding_id := ip_enforcement_binding_id prov,
                     ea_integration_contract_version_id := ip_integration_contract_version_id prov,
                     ea_integration_contract_content_hash := ip_integration_contract_content_hash prov,
                     ea_integration_id := ip_integration_id prov,
                     ea_environment := ip_environment prov,
                     ea_source_operation := ip_source_operation prov,
                     ea_external_operation_id := ip_external_operation_id prov,
                     ea_canonical_operation_fingerprint := ip_canonical_operation_fingerprint prov,
                     ea_canonical_action_schema_version := ip_canonical_action_schema_version prov,
                     ea_canonical_action_digest := ip_canonical_action_digest prov\<rparr>
              in case append_evidence (env_crypto E) (env_settings E) args (id_evidence ids) now d1 of
                   Inl e \<Rightarrow> Inl (EvidenceRaised e)
                 | Inr (d2, ev) \<Rightarrow> Inr (d2, de, ev)))"

section \<open>Submission\<close>

text \<open>A decision reached before OPA is asked: suspended agent, unrecognized action.\<close>

definition record_review ::
  "Env \<Rightarrow> IntentIds \<Rightarrow> Intent \<Rightarrow> Agent \<Rightarrow> string \<Rightarrow> amount option \<Rightarrow> string option \<Rightarrow> string option \<Rightarrow> string \<Rightarrow> datetime \<Rightarrow> db
     \<Rightarrow> IntentError + db \<times> Decision \<times> Evidence" where
  "record_review E ids it a act amt cur res why now d =
     (let de = \<lparr>de_id = id_decision ids, de_intent_id = it_id it, de_policy_id = None, de_outcome = OutHumanReview,
                 de_reason = Some why, de_evaluated_mandates = JList [], de_created_at = now,
                 de_evaluated_mandate_ids = JList [], de_enterprise_system_id = None\<rparr>;
          d1 = d\<lparr>decisions := decisions d @ [de]\<rparr>;
          args = evidence_args (id_decision ids) (ag_id a) act amt [] OutHumanReview (evidence_status_for_outcome OutHumanReview) res cur
      in case append_evidence (env_crypto E) (env_settings E) args (id_evidence ids) now d1 of
           Inl e \<Rightarrow> Inl (EvidenceRaised e)
         | Inr (d2, ev) \<Rightarrow> Inr (d2, de, ev))"

definition organization_blocks :: "db \<Rightarrow> Agent \<Rightarrow> uuid option" where
  "organization_blocks d a = (case get_principal_row d (ag_acting_for_principal_id a) of
     None \<Rightarrow> None
   | Some p \<Rightarrow> (case pr_organization_id p of
       None \<Rightarrow> None
     | Some oid \<Rightarrow> (case get_organization_row d oid of
         None \<Rightarrow> None
       | Some r \<Rightarrow> (case ensure_active r of Inl _ \<Rightarrow> Some (org_id r) | Inr _ \<Rightarrow> None))))"

definition new_intent ::
  "uuid \<Rightarrow> uuid \<Rightarrow> string option \<Rightarrow> string \<Rightarrow> int option \<Rightarrow> string option \<Rightarrow> string option \<Rightarrow> string option \<Rightarrow> string option
     \<Rightarrow> (string \<times> json) list \<Rightarrow> string \<Rightarrow> datetime \<Rightarrow> datetime \<Rightarrow> Intent" where
  "new_intent iid aid corr act amt cur counterparty res src ctx nonce requested_at now = \<lparr>it_id = iid, it_agent_id = aid,
     it_correlation_id = corr, it_action = act, it_amount = amt, it_currency = cur, it_counterparty = counterparty,
     it_resource = res, it_context = JObj ctx, it_nonce = nonce, it_requested_at = requested_at, it_received_at = now,
     it_source = Some (normalize_source src), it_integration_identity_id = None, it_enforcement_binding_id = None,
     it_integration_contract_version_id = None, it_environment = None, it_external_operation_id = None, it_integration_id = None,
     it_canonical_operation_fingerprint = None, it_canonical_action_schema_version = None, it_canonical_action_digest = None\<rparr>"

definition submit_intent ::
  "Env \<Rightarrow> IntentIds \<Rightarrow> Agent \<Rightarrow> string \<Rightarrow> amount option \<Rightarrow> string option \<Rightarrow> string option \<Rightarrow> (string \<times> json) list \<Rightarrow> datetime \<Rightarrow> string
     \<Rightarrow> string option \<Rightarrow> string option \<Rightarrow> string option \<Rightarrow> datetime \<Rightarrow> db \<Rightarrow> IntentError + db \<times> Intent \<times> Decision \<times> Evidence" where
  "submit_intent E ids a act amt cur counterparty ctx requested_at nonce corr res src now d =
     rbind (raise_if (ag_status a = AgRevoked) (AgentRevokedError (ag_id a))) (\<lambda>_.
     rbind (raise_if (ag_status a = AgRetired) (AgentRetiredError (ag_id a))) (\<lambda>_.
     rbind (raise_if (ag_status a = AgRegistered) (AgentNotOperationalError (ag_id a))) (\<lambda>_.
     rbind (case organization_blocks d a of Some oid \<Rightarrow> Inl (IntentOrganizationNotActiveError oid) | None \<Rightarrow> Inr ()) (\<lambda>_.
     rbind (case amt of None \<Rightarrow> Inr None | Some x \<Rightarrow> rmap Some (get_or_raise (env_numeric E x) AmountOutOfRange)) (\<lambda>stored.
     rbind (raise_if (\<exists>i \<in> set (intents d). it_agent_id i = ag_id a \<and> it_nonce i = nonce) (ReplayDetectedError (ag_id a) nonce)) (\<lambda>_.
       let it = new_intent (id_intent ids) (ag_id a) corr act stored cur counterparty res src ctx nonce requested_at now;
           d1 = d\<lparr>intents := intents d @ [it]\<rparr>;
           org = Option.bind (get_principal_row d1 (ag_acting_for_principal_id a)) pr_organization_id
       in rmap (\<lambda>(d2, de, ev). (d2, it, de, ev))
          (if ag_status a = AgSuspended then record_review E ids it a act amt cur res ''AGENT_SUSPENDED'' now d1
           else if \<not> is_recognized_scope act (list_active_scope_actions d1 org)
             then record_review E ids it a act amt cur res ''unrecognized_action'' now d1
           else evaluate_and_record E no_provenance ids it a act amt cur counterparty res ctx requested_at now d1)))))))"

section \<open>Queries on decisions\<close>

text \<open>The inner joins Decision, Intent, Agent, Principal with the organization filter.\<close>

definition in_organization :: "db \<Rightarrow> uuid option \<Rightarrow> Decision \<Rightarrow> bool" where
  "in_organization d org de = (case get_intent_row d (de_intent_id de) of
     None \<Rightarrow> False
   | Some it \<Rightarrow> (case get_agent_row d (it_agent_id it) of
       None \<Rightarrow> False
     | Some a \<Rightarrow> (case get_principal_row d (ag_acting_for_principal_id a) of
         None \<Rightarrow> False | Some p \<Rightarrow> pr_organization_id p = org)))"

definition has_resolution :: "db \<Rightarrow> uuid \<Rightarrow> bool" where
  "has_resolution d did = list_ex (\<lambda>r. dr_decision_id r = did) (decision_resolutions d)"

definition get_decision_for_organization :: "db \<Rightarrow> uuid \<Rightarrow> uuid option \<Rightarrow> IntentError + Decision" where
  "get_decision_for_organization d did org =
     rbind (get_or_raise (get_decision_row d did) (DecisionNotFoundError did)) (\<lambda>de.
     case get_intent_row d (de_intent_id de) of
       None \<Rightarrow> Inl (EngineRaised AttributeError)
     | Some it \<Rightarrow> if resolve_chain_scope d (it_agent_id it) \<noteq> org then Inl (CrossOrganizationAccessError did) else Inr de)"

definition list_decisions_for_agent :: "db \<Rightarrow> uuid \<Rightarrow> nat \<Rightarrow> Decision list" where
  "list_decisions_for_agent d aid limit = take limit (sort_key (\<lambda>de. - de_created_at de)
     (filter (\<lambda>de. case get_intent_row d (de_intent_id de) of None \<Rightarrow> False | Some it \<Rightarrow> it_agent_id it = aid) (decisions d)))"

definition pending_decisions :: "db \<Rightarrow> uuid option \<Rightarrow> Decision list" where
  "pending_decisions d org = filter (\<lambda>de. in_organization d org de \<and> de_outcome de = OutHumanReview \<and> \<not> has_resolution d (de_id de)) (decisions d)"

definition list_pending_decisions_for_organization :: "db \<Rightarrow> uuid option \<Rightarrow> nat \<Rightarrow> nat \<Rightarrow> Decision list \<times> nat" where
  "list_pending_decisions_for_organization d org limit offset =
     (take limit (drop offset (sort_key (\<lambda>de. - de_created_at de) (pending_decisions d org))), length (pending_decisions d org))"

definition oldest_pending_review_at :: "db \<Rightarrow> uuid option \<Rightarrow> datetime option" where
  "oldest_pending_review_at d org = (case sort_key de_created_at (pending_decisions d org) of [] \<Rightarrow> None | de # _ \<Rightarrow> Some (de_created_at de))"

text \<open>The \<open>GROUP BY\<close>: outcomes without a decision have no entry.\<close>

definition count_decisions_by_outcome :: "db \<Rightarrow> uuid option \<Rightarrow> Outcome \<rightharpoonup> nat" where
  "count_decisions_by_outcome d org out = (case filter (\<lambda>de. in_organization d org de \<and> de_outcome de = out) (decisions d)
     of [] \<Rightarrow> None | rows \<Rightarrow> Some (length rows))"

definition count_resolved_reviews :: "db \<Rightarrow> uuid option \<Rightarrow> nat" where
  "count_resolved_reviews d org = length (filter (\<lambda>de. in_organization d org de \<and> de_outcome de = OutHumanReview \<and> has_resolution d (de_id de)) (decisions d))"

definition history_matches ::
  "db \<Rightarrow> Outcome option \<Rightarrow> uuid option \<Rightarrow> string option \<Rightarrow> string option \<Rightarrow> string option \<Rightarrow> datetime option \<Rightarrow> datetime option \<Rightarrow> Decision \<Rightarrow> bool" where
  "history_matches d out aid act res src after before de =
     (case get_intent_row d (de_intent_id de) of
        None \<Rightarrow> False
      | Some it \<Rightarrow>
          (out = None \<or> Some (de_outcome de) = out) \<and> (aid = None \<or> Some (it_agent_id it) = aid)
          \<and> (act = None \<or> Some (it_action it) = act) \<and> (res = None \<or> it_resource it = res) \<and> (src = None \<or> it_source it = src)
          \<and> (case after of None \<Rightarrow> True | Some t \<Rightarrow> t \<le> de_created_at de) \<and> (case before of None \<Rightarrow> True | Some t \<Rightarrow> de_created_at de \<le> t))"

definition list_decision_history ::
  "db \<Rightarrow> uuid option \<Rightarrow> nat \<Rightarrow> nat \<Rightarrow> Outcome option \<Rightarrow> uuid option \<Rightarrow> string option \<Rightarrow> string option \<Rightarrow> string option \<Rightarrow> datetime option
     \<Rightarrow> datetime option \<Rightarrow> Decision list \<times> nat" where
  "list_decision_history d org limit offset out aid act res src after before =
     (let rows = filter (\<lambda>de. in_organization d org de \<and> history_matches d out aid act res src after before de) (decisions d)
      in (take limit (drop offset (sort_key (\<lambda>de. - de_created_at de) rows)), length rows))"

definition list_evidence_for_agent :: "db \<Rightarrow> uuid \<Rightarrow> nat \<Rightarrow> Evidence list" where
  "list_evidence_for_agent d aid limit = take limit (sort_key (\<lambda>ev. - ev_created_at ev)
     (filter (\<lambda>ev. case get_decision_row d (ev_decision_id ev) of None \<Rightarrow> False
        | Some de \<Rightarrow> (case get_intent_row d (de_intent_id de) of None \<Rightarrow> False | Some it \<Rightarrow> it_agent_id it = aid)) (evidence d)))"

definition get_earliest_evidence_for_decision :: "db \<Rightarrow> uuid \<Rightarrow> Evidence option" where
  "get_earliest_evidence_for_decision d did =
     (case sort_key (\<lambda>ev. (ev_created_at ev, ev_id ev)) (filter (\<lambda>ev. ev_decision_id ev = did) (evidence d))
      of [] \<Rightarrow> None | ev # _ \<Rightarrow> Some ev)"

definition get_latest_capability_for_decision :: "db \<Rightarrow> uuid \<Rightarrow> CapabilityToken option" where
  "get_latest_capability_for_decision d did =
     (case sort_key (\<lambda>c. - cap_issued_at c) (filter (\<lambda>c. cap_decision_id c = did) (capability_tokens d))
      of [] \<Rightarrow> None | c # _ \<Rightarrow> Some c)"

section \<open>What a submission does\<close>

lemma sign_and_add_state:
  "sign_and_add C S did payload st org seq eid now d = Inr (d', e) \<Longrightarrow> d' = d\<lparr>evidence := evidence d @ [e]\<rparr>"
  by (auto simp: sign_and_add_def Let_def split: option.splits)

lemma append_evidenceD:
  assumes "append_evidence C S A eid now d = Inr (d', e)"
  shows "d' = d\<lparr>evidence := evidence d @ [e]\<rparr> \<and> ev_id e = eid \<and> ev_decision_id e = ea_decision_id A \<and> ev_status e = ea_status A
    \<and> ev_organization_id e = resolve_chain_scope d (ea_agent_id A)
    \<and> (\<exists>risk prev aids sys. ev_payload e = build_evidence_payload A risk prev aids sys now)"
  using sign_and_add_state [OF assms [unfolded append_evidence_def Let_def]] sign_and_addD [OF assms [unfolded append_evidence_def Let_def]]
  by blast

lemma outcome_in_payload [simp]:
  "obj_get (build_evidence_payload A risk prev aids sys now) ''authority_outcome'' = Some (JStr (Outcome_value (ea_outcome A)))"
  "obj_get (build_evidence_payload A risk prev aids sys now) ''decision_id'' = Some (JStr (ea_decision_id A))"
  by (simp_all add: build_evidence_payload_def Let_def)

text \<open>The three rows of one submission belong together.\<close>

definition recorded :: "db \<Rightarrow> Intent \<Rightarrow> Decision \<Rightarrow> Evidence \<Rightarrow> db \<Rightarrow> bool" where
  "recorded d it de ev d' =
     (d' = d\<lparr>decisions := decisions d @ [de], evidence := evidence d @ [ev]\<rparr> \<and> de_intent_id de = it_id it
      \<and> ev_decision_id ev = de_id de \<and> ev_status ev = evidence_status_for_outcome (de_outcome de)
      \<and> obj_get (ev_payload ev) ''authority_outcome'' = Some (JStr (Outcome_value (de_outcome de)))
      \<and> ev_organization_id ev = resolve_chain_scope d (it_agent_id it))"

lemma resolve_chain_scope_cong [simp]:
  "resolve_chain_scope (d\<lparr>decisions := x\<rparr>) = resolve_chain_scope d" "resolve_chain_scope (d\<lparr>intents := y\<rparr>) = resolve_chain_scope d"
  "resolve_chain_scope (d\<lparr>evidence := z\<rparr>) = resolve_chain_scope d"
  by (simp_all add: resolve_chain_scope_def get_agent_row_def get_principal_row_def fun_eq_iff split: option.split)

lemma record_reviewD:
  assumes "record_review E ids it a act amt cur res why now d = Inr (d', de, ev)" "it_agent_id it = ag_id a"
  shows "recorded d it de ev d' \<and> de_outcome de = OutHumanReview \<and> de_reason de = Some why \<and> de_id de = id_decision ids \<and> ev_id ev = id_evidence ids"
  using assms
  by (auto simp: record_review_def Let_def recorded_def evidence_args_def split: sum.splits dest!: append_evidenceD)

lemma evaluate_and_recordD:
  assumes "evaluate_and_record E prov ids it a act amt cur cp res ctx ra now d = Inr (d', de, ev)" "it_agent_id it = ag_id a"
  obtains ed where "run_engine E d a act amt cur cp res ctx ra now = Inr ed" "recorded d it de ev d'"
    "(de_outcome de, de_reason de) = final_verdict d ed now" "de_evaluated_mandates de = JList (map JStr (ed_evaluated_mandates ed))"
    "de_policy_id de = ed_policy_id ed" "de_id de = id_decision ids" "ev_id ev = id_evidence ids"
  using assms
  by (auto simp: evaluate_and_record_def Let_def recorded_def evidence_args_def split: sum.splits prod.splits dest!: append_evidenceD)


lemma submit_intentD:
  assumes "submit_intent E ids a act amt cur cp ctx ra nonce corr res src now d = Inr (d', it, de, ev)"
  obtains stored d1 org where "ag_status a = AgActive \<or> ag_status a = AgSuspended" "organization_blocks d a = None"
    "\<not> (\<exists>i \<in> set (intents d). it_agent_id i = ag_id a \<and> it_nonce i = nonce)"
    "it = new_intent (id_intent ids) (ag_id a) corr act stored cur cp res src ctx nonce ra now"
    "d1 = d\<lparr>intents := intents d @ [it]\<rparr>"
    "org = Option.bind (get_principal_row d (ag_acting_for_principal_id a)) pr_organization_id"
    "(if ag_status a = AgSuspended then record_review E ids it a act amt cur res ''AGENT_SUSPENDED'' now d1
       else if \<not> is_recognized_scope act (list_active_scope_actions d1 org)
         then record_review E ids it a act amt cur res ''unrecognized_action'' now d1
       else evaluate_and_record E no_provenance ids it a act amt cur cp res ctx ra now d1) = Inr (d', de, ev)"
proof -
  from assms obtain stored where s: "ag_status a \<noteq> AgRevoked" "ag_status a \<noteq> AgRetired" "ag_status a \<noteq> AgRegistered"
      "organization_blocks d a = None" "\<not> (\<exists>i \<in> set (intents d). it_agent_id i = ag_id a \<and> it_nonce i = nonce)"
      and r: "(let it' = new_intent (id_intent ids) (ag_id a) corr act stored cur cp res src ctx nonce ra now;
           d1 = d\<lparr>intents := intents d @ [it']\<rparr>;
           org = Option.bind (get_principal_row d1 (ag_acting_for_principal_id a)) pr_organization_id
       in rmap (\<lambda>(d2, de, ev). (d2, it', de, ev))
          (if ag_status a = AgSuspended then record_review E ids it' a act amt cur res ''AGENT_SUSPENDED'' now d1
           else if \<not> is_recognized_scope act (list_active_scope_actions d1 org)
             then record_review E ids it' a act amt cur res ''unrecognized_action'' now d1
           else evaluate_and_record E no_provenance ids it' a act amt cur cp res ctx ra now d1)) = Inr (d', it, de, ev)"
    unfolding submit_intent_def by (auto split: option.splits)
  have "ag_status a = AgActive \<or> ag_status a = AgSuspended" using s(1-3) by (cases "ag_status a") auto
  moreover have "get_principal_row (d\<lparr>intents := x\<rparr>) = get_principal_row d" for x by (simp add: get_principal_row_def fun_eq_iff)
  ultimately show thesis using s r by (intro that [of stored]) (auto simp: Let_def)
qed

lemma run_engine_allow:
  assumes "run_engine E d a act amt cur cp res ctx ra now = Inr ed" "ed_outcome ed = OutAllow"
  obtains p input reply where
    "get_active d (Option.bind (get_principal_row d (ag_acting_for_principal_id a)) pr_organization_id) = Some p"
    "opa_query (env_opa E) (map_option org_data_path (Option.bind (get_principal_row d (ag_acting_for_principal_id a)) pr_organization_id)) input = Inr reply"
    "obj_get input ''intent'' = Some (JObj [(''action'', JStr act), (''amount'', amount_json amt), (''currency'', opt_str cur), (''resource'', opt_str res)])"
    "is_True reply ''allow''" "\<not> is_True reply ''deny''" "\<not> is_True reply ''requires_review''"
proof -
  let ?org = "Option.bind (get_principal_row d (ag_acting_for_principal_id a)) pr_organization_id"
  have rf: "rf_principal (resolve d a amt now) = get_principal_row d (ag_acting_for_principal_id a)" by (simp add: resolve_def Let_def)
  let ?doc = "JObj [(''action'', JStr act), (''amount'', amount_json amt), (''currency'', opt_str cur), (''resource'', opt_str res)]"
  obtain c acting k where ev: "evaluate ?doc c acting (get_active d ?org) (opa_query (env_opa E) (map_option org_data_path ?org)) (Some (ag_id a)) k = Inr ed"
    using assms(1) unfolding run_engine_def engine_input_def Let_def rf by auto
  then show thesis
  proof (cases rule: evaluate_cases)
    case (decided p r)
    from that [OF decided(1,2)] decide_outcome [OF decided(3)] assms(2) show thesis by (simp add: build_opa_input_def)
  qed (use assms(2) in \<open>auto simp: unpinned_def pinned_def\<close>)
qed

lemma final_verdict_allow:
  assumes "(OutAllow, why) = final_verdict d ed now"
  shows "ed_outcome ed = OutAllow \<and> \<not> (\<exists>r. overdue d (ed_evaluated_mandates ed) now r)"
proof -
  from assms have "ed_outcome ed = OutAllow" "find_expired_high_risk_authority d (ed_evaluated_mandates ed) now = None"
    by (auto simp: final_verdict_def split: if_splits)
  with find_expired_iff [of d "ed_evaluated_mandates ed" now] show ?thesis by simp
qed

lemma overdue_intents [simp]: "overdue (d\<lparr>intents := x\<rparr>) ks now r = overdue d ks now r"
  by (simp add: overdue_def active_record_def)

lemma get_active_intents [simp]: "get_active (d\<lparr>intents := x\<rparr>) = get_active d"
  by (simp add: get_active_def fun_eq_iff)

lemma get_principal_row_intents [simp]: "get_principal_row (d\<lparr>intents := x\<rparr>) = get_principal_row d"
  by (simp add: get_principal_row_def fun_eq_iff)

lemma organization_blocks_None:
  assumes "organization_blocks d a = None" "get_principal_row d (ag_acting_for_principal_id a) = Some p"
    "pr_organization_id p = Some oid" "get_organization_row d oid = Some r"
  shows "org_status r = OrgActive"
  using assms by (auto simp: organization_blocks_def ensure_active_def split: if_splits)

section \<open>Claims\<close>

text \<open>C2: an ALLOW rests on live authority. When a submission is answered ALLOW, the agent is active, its
  principal's organization is active, the action is recognized, the nonce is new for the agent, the
  organization has an active policy bundle, OPA answered the query that carries this very action,
  amount, currency and resource with allow and neither deny nor review, and none of the matched
  policies is a high-risk policy whose authority has expired.\<close>

theorem allow_rests_on_live_authority:
  assumes "submit_intent E ids a act amt cur cp ctx ra nonce corr res src now d = Inr (d', it, de, ev)"
    and "de_outcome de = OutAllow"
  shows "ag_status a = AgActive
    \<and> (\<forall>p oid r. get_principal_row d (ag_acting_for_principal_id a) = Some p \<and> pr_organization_id p = Some oid
         \<and> get_organization_row d oid = Some r \<longrightarrow> org_status r = OrgActive)
    \<and> \<not> (\<exists>i \<in> set (intents d). it_agent_id i = ag_id a \<and> it_nonce i = nonce)
    \<and> (\<exists>org p input reply mandates. org = Option.bind (get_principal_row d (ag_acting_for_principal_id a)) pr_organization_id
         \<and> is_recognized_scope act (list_active_scope_actions (d\<lparr>intents := intents d @ [it]\<rparr>) org)
         \<and> get_active d org = Some p
         \<and> opa_query (env_opa E) (map_option org_data_path org) input = Inr reply
         \<and> obj_get input ''intent'' = Some (JObj [(''action'', JStr act), (''amount'', amount_json amt), (''currency'', opt_str cur), (''resource'', opt_str res)])
         \<and> is_True reply ''allow'' \<and> \<not> is_True reply ''deny'' \<and> \<not> is_True reply ''requires_review''
         \<and> de_evaluated_mandates de = JList (map JStr mandates) \<and> \<not> (\<exists>r. overdue d mandates now r))"
  using assms(1)
proof (rule submit_intentD)
  fix stored d1 org
  assume s: "ag_status a = AgActive \<or> ag_status a = AgSuspended" "organization_blocks d a = None"
    "\<not> (\<exists>i \<in> set (intents d). it_agent_id i = ag_id a \<and> it_nonce i = nonce)"
    "it = new_intent (id_intent ids) (ag_id a) corr act stored cur cp res src ctx nonce ra now"
    "d1 = d\<lparr>intents := intents d @ [it]\<rparr>"
    "org = Option.bind (get_principal_row d (ag_acting_for_principal_id a)) pr_organization_id"
    "(if ag_status a = AgSuspended then record_review E ids it a act amt cur res ''AGENT_SUSPENDED'' now d1
       else if \<not> is_recognized_scope act (list_active_scope_actions d1 org)
         then record_review E ids it a act amt cur res ''unrecognized_action'' now d1
       else evaluate_and_record E no_provenance ids it a act amt cur cp res ctx ra now d1) = Inr (d', de, ev)"
  have ia: "it_agent_id it = ag_id a" using s(4) by (simp add: new_intent_def)
  have st: "ag_status a \<noteq> AgSuspended" "is_recognized_scope act (list_active_scope_actions d1 org)"
    using s(7) assms(2) record_reviewD [OF _ ia] by (fastforce split: if_splits)+
  with s(7) have er: "evaluate_and_record E no_provenance ids it a act amt cur cp res ctx ra now d1 = Inr (d', de, ev)" by simp
  then obtain ed where ed: "run_engine E d1 a act amt cur cp res ctx ra now = Inr ed" "(de_outcome de, de_reason de) = final_verdict d1 ed now"
      "de_evaluated_mandates de = JList (map JStr (ed_evaluated_mandates ed))"
    by (rule evaluate_and_recordD [OF _ ia])
  have fv: "ed_outcome ed = OutAllow" "\<not> (\<exists>r. overdue d (ed_evaluated_mandates ed) now r)"
    using final_verdict_allow [of "de_reason de" d1 ed now] ed(2) assms(2) s(5) by auto
  obtain p input reply where "get_active d1 (Option.bind (get_principal_row d1 (ag_acting_for_principal_id a)) pr_organization_id) = Some p"
      "opa_query (env_opa E) (map_option org_data_path (Option.bind (get_principal_row d1 (ag_acting_for_principal_id a)) pr_organization_id)) input = Inr reply"
      "obj_get input ''intent'' = Some (JObj [(''action'', JStr act), (''amount'', amount_json amt), (''currency'', opt_str cur), (''resource'', opt_str res)])"
      "is_True reply ''allow''" "\<not> is_True reply ''deny''" "\<not> is_True reply ''requires_review''"
    using run_engine_allow [OF ed(1) fv(1)] by blast
  then have "\<exists>p input reply. get_active d org = Some p \<and> opa_query (env_opa E) (map_option org_data_path org) input = Inr reply
      \<and> obj_get input ''intent'' = Some (JObj [(''action'', JStr act), (''amount'', amount_json amt), (''currency'', opt_str cur), (''resource'', opt_str res)])
      \<and> is_True reply ''allow'' \<and> \<not> is_True reply ''deny'' \<and> \<not> is_True reply ''requires_review''"
    unfolding s(5) s(6) get_active_intents get_principal_row_intents by blast
  moreover have "ag_status a = AgActive" using s(1) st(1) by simp
  ultimately show ?thesis using st(2) ed(3) fv(2) s(3) organization_blocks_None [OF s(2)] unfolding s(5) s(6) by metis
qed


definition demo_env :: Env where
  "demo_env = \<lparr>env_crypto = plain_crypto, env_settings = demo_settings,
     env_opa = (\<lambda>path doc. Response 200 (Some (JObj [(''result'', JObj [(''allow'', JBool True), (''evaluated_mandates'', JList [])])]))),
     env_numeric = (\<lambda>(m, e). Some m)\<rparr>"

definition demo_ids :: IntentIds where
  "demo_ids = \<lparr>id_intent = ''i1'', id_decision = ''d1'', id_evidence = ''e1''\<rparr>"

definition allow_db :: db where
  "allow_db = keyed_db\<lparr>organizations := [new_organization ''o1'' ''Acme'' ''production'' 0], principals := [demo_principal], agents := [demo_agent],
     policies := [\<lparr>po_id = ''b1'', po_version = 1, po_status = PolActive, po_bundle_hash = ''h'', po_bundle_uri = ''u'',
       po_compiled_at = None, po_activated_at = None, po_retired_at = None, po_bundle_manifest = None, po_organization_id = Some ''o1''\<rparr>]\<rparr>"

lemma demo_appends: "\<exists>d' e. append_evidence plain_crypto demo_settings A eid now d = Inr (d', e)"
proof -
  have "\<exists>d' e. sign_and_add plain_crypto demo_settings did payload st org seq eid now d = Inr (d', e)" for did payload st org seq
    using demo_signs [of payload] by (auto simp: sign_and_add_def Let_def)
  then show ?thesis unfolding append_evidence_def Let_def by blast
qed

lemma appended_returns:
  assumes "\<exists>d' e. r = Inr (d', e)" "P de"
  shows "\<exists>d' de' ev. (case r of Inl e \<Rightarrow> Inl (f e) | Inr (d2, ev) \<Rightarrow> Inr (d2, de, ev)) = Inr (d', de', ev) \<and> P de'"
  using assms by auto

lemma evaluate_and_record_returns:
  assumes "run_engine E d a act amt cur cp res ctx ra now = Inr ed" "final_verdict d ed now = (out, why)"
    and ok: "\<And>A eid now d. \<exists>d' e. append_evidence (env_crypto E) (env_settings E) A eid now d = Inr (d', e)"
  shows "\<exists>d' de ev. evaluate_and_record E prov ids it a act amt cur cp res ctx ra now d = Inr (d', de, ev) \<and> de_outcome de = out"
  unfolding evaluate_and_record_def Let_def assms(1,2) sum.case prod.case
  by (rule appended_returns [OF ok]) simp

lemma demo_submission:
  "\<exists>d' it de ev. submit_intent demo_env demo_ids demo_agent ''vendor_payment'' None None None [] 0 ''n1'' None None None 0 allow_db
     = Inr (d', it, de, ev) \<and> de_outcome de = OutAllow"
proof -
  let ?it = "new_intent ''i1'' ''a1'' None ''vendor_payment'' None None None None None [] ''n1'' 0 0"
  let ?d = "allow_db\<lparr>intents := intents allow_db @ [?it]\<rparr>"
  have "\<exists>ed. run_engine demo_env ?d demo_agent ''vendor_payment'' None None None None [] 0 0 = Inr ed \<and> ed_outcome ed = OutAllow \<and> ed_evaluated_mandates ed = []"
    by (simp add: run_engine_def engine_input_def Let_def evaluate_def get_active_def resolve_def demo_env_def opa_query_def
        allow_db_def demo_principal_def get_principal_row_def demo_agent_def new_agent_def decide_def py_get_or_def py_get_def is_True_def pinned_def)
  then obtain ed where ed: "run_engine demo_env ?d demo_agent ''vendor_payment'' None None None None [] 0 0 = Inr ed" "ed_outcome ed = OutAllow"
      "ed_evaluated_mandates ed = []" by blast
  have fv: "final_verdict ?d ed 0 = (OutAllow, ed_reason ed)"
    using ed by (simp add: final_verdict_def find_expired_high_risk_authority_def matched_records_def List.map_filter_def)
  have "\<exists>d' de ev. evaluate_and_record demo_env no_provenance demo_ids ?it demo_agent ''vendor_payment'' None None None None [] 0 0 ?d = Inr (d', de, ev)
      \<and> de_outcome de = OutAllow"
    by (rule evaluate_and_record_returns [OF ed(1) fv]) (simp add: demo_env_def demo_appends)
  then obtain d' de ev where er: "evaluate_and_record demo_env no_provenance demo_ids ?it demo_agent ''vendor_payment'' None None None None [] 0 0 ?d = Inr (d', de, ev)"
      "de_outcome de = OutAllow" by blast
  have st: "ag_status demo_agent = AgActive" "ag_id demo_agent = ''a1''" by (simp_all add: demo_agent_def new_agent_def)
  have ob: "organization_blocks allow_db demo_agent = None"
    by (simp add: organization_blocks_def get_principal_row_def get_organization_row_def allow_db_def demo_principal_def demo_agent_def
        new_agent_def new_organization_def ensure_active_def)
  have "intents allow_db = []" by (simp add: allow_db_def keyed_db_def one_agent_db_def empty_db_def)
  then show ?thesis using er st ob
    by (simp add: submit_intent_def is_recognized_scope_def KNOWN_SCOPES_def demo_ids_def Let_def)
qed


theorem allow_rests_on_live_authority_witness:
  "\<exists>d' it de ev p. submit_intent demo_env demo_ids demo_agent ''vendor_payment'' None None None [] 0 ''n1'' None None None 0 allow_db
     = Inr (d', it, de, ev) \<and> de_outcome de = OutAllow \<and> get_active allow_db (Some ''o1'') = Some p"
proof -
  obtain d' it de ev where s: "submit_intent demo_env demo_ids demo_agent ''vendor_payment'' None None None [] 0 ''n1'' None None None 0 allow_db
     = Inr (d', it, de, ev)" "de_outcome de = OutAllow" using demo_submission by blast
  have "Option.bind (get_principal_row allow_db (ag_acting_for_principal_id demo_agent)) pr_organization_id = Some ''o1''"
    by (simp add: get_principal_row_def allow_db_def demo_principal_def demo_agent_def new_agent_def)
  with allow_rests_on_live_authority [OF s] s show ?thesis by metis
qed

lemma submission_effect:
  assumes "submit_intent E ids a act amt cur cp ctx ra nonce corr res src now d = Inr (d', it, de, ev)"
  shows "recorded (d\<lparr>intents := intents d @ [it]\<rparr>) it de ev d' \<and> it_agent_id it = ag_id a \<and> it_nonce it = nonce
    \<and> it_id it = id_intent ids \<and> de_id de = id_decision ids \<and> ev_id ev = id_evidence ids
    \<and> \<not> (\<exists>i \<in> set (intents d). it_agent_id i = ag_id a \<and> it_nonce i = nonce)
    \<and> (ag_status a = AgSuspended \<longrightarrow> de_outcome de = OutHumanReview \<and> de_reason de = Some ''AGENT_SUSPENDED'')"
  using assms
proof (rule submit_intentD)
  fix stored d1 org
  assume s: "\<not> (\<exists>i \<in> set (intents d). it_agent_id i = ag_id a \<and> it_nonce i = nonce)"
    "it = new_intent (id_intent ids) (ag_id a) corr act stored cur cp res src ctx nonce ra now"
    "d1 = d\<lparr>intents := intents d @ [it]\<rparr>"
    "(if ag_status a = AgSuspended then record_review E ids it a act amt cur res ''AGENT_SUSPENDED'' now d1
       else if \<not> is_recognized_scope act (list_active_scope_actions d1 org)
         then record_review E ids it a act amt cur res ''unrecognized_action'' now d1
       else evaluate_and_record E no_provenance ids it a act amt cur cp res ctx ra now d1) = Inr (d', de, ev)"
  have i: "it_agent_id it = ag_id a" "it_nonce it = nonce" "it_id it = id_intent ids" using s(2) by (simp_all add: new_intent_def)
  have "recorded d1 it de ev d' \<and> de_id de = id_decision ids \<and> ev_id ev = id_evidence ids
      \<and> (ag_status a = AgSuspended \<longrightarrow> de_outcome de = OutHumanReview \<and> de_reason de = Some ''AGENT_SUSPENDED'')"
    using s(4) record_reviewD [OF _ i(1)] by (auto split: if_splits elim: evaluate_and_recordD [OF _ i(1)])
  with i s(1,3) show ?thesis by blast
qed

text \<open>C30: a submission leaves exactly its record. An accepted submission appends one intent, one decision on
  that intent and one Evidence record on that decision, carrying the decision's outcome and in the
  organization chain of the agent, and changes no other row of the database; a suspended agent gets
  HUMAN_REVIEW with reason AGENT_SUSPENDED; and afterwards the same agent's nonce is refused.\<close>

theorem submission_leaves_record:
  assumes "submit_intent E ids a act amt cur cp ctx ra nonce corr res src now d = Inr (d', it, de, ev)"
  shows "d' = d\<lparr>intents := intents d @ [it], decisions := decisions d @ [de], evidence := evidence d @ [ev]\<rparr>
    \<and> it_agent_id it = ag_id a \<and> de_intent_id de = it_id it \<and> ev_decision_id ev = de_id de
    \<and> ev_status ev = evidence_status_for_outcome (de_outcome de)
    \<and> obj_get (ev_payload ev) ''authority_outcome'' = Some (JStr (Outcome_value (de_outcome de)))
    \<and> ev_organization_id ev = resolve_chain_scope d (ag_id a)
    \<and> (ag_status a = AgSuspended \<longrightarrow> de_outcome de = OutHumanReview \<and> de_reason de = Some ''AGENT_SUSPENDED'')
    \<and> (\<forall>E' ids' act' amt' cur' cp' ctx' ra' corr' res' src' now'.
         \<not> is_ok (submit_intent E' ids' a act' amt' cur' cp' ctx' ra' nonce corr' res' src' now' d'))"
proof -
  note e = submission_effect [OF assms]
  then have i: "it \<in> set (intents d')" "it_agent_id it = ag_id a" "it_nonce it = nonce" by (auto simp: recorded_def)
  have "\<not> is_ok (submit_intent E' ids' a act' amt' cur' cp' ctx' ra' nonce corr' res' src' now' d')"
    for E' ids' act' amt' cur' cp' ctx' ra' corr' res' src' now'
  proof
    assume "is_ok (submit_intent E' ids' a act' amt' cur' cp' ctx' ra' nonce corr' res' src' now' d')"
    then obtain d2 it2 de2 ev2 where "submit_intent E' ids' a act' amt' cur' cp' ctx' ra' nonce corr' res' src' now' d' = Inr (d2, it2, de2, ev2)"
      by (cases "submit_intent E' ids' a act' amt' cur' cp' ctx' ra' nonce corr' res' src' now' d'") auto
    from submission_effect [OF this] i show False by blast
  qed
  with e show ?thesis by (simp add: recorded_def)
qed

theorem submission_leaves_record_witness:
  "\<exists>d' it de ev. submit_intent demo_env demo_ids demo_agent ''vendor_payment'' None None None [] 0 ''n1'' None None None 0 allow_db
     = Inr (d', it, de, ev) \<and> decisions d' = decisions allow_db @ [de]
     \<and> \<not> is_ok (submit_intent demo_env demo_ids demo_agent ''wire_transfer'' None None None [] 0 ''n1'' None None None 0 d')"
proof -
  obtain d' it de ev where s: "submit_intent demo_env demo_ids demo_agent ''vendor_payment'' None None None [] 0 ''n1'' None None None 0 allow_db
     = Inr (d', it, de, ev)" using demo_submission by blast
  from submission_leaves_record [OF this] s show ?thesis by auto
qed

text \<open>Who may not submit. Revoked, retired and not yet activated agents are refused whatever they ask,
  and so is an operational agent whose principal's organization is deactivated or archived; the
  refusal is an exception that names the reason and leaves the database as it was.\<close>

theorem submission_refused:
  "(ag_status a = AgRevoked \<longrightarrow> submit_intent E ids a act amt cur cp ctx ra nonce corr res src now d = Inl (AgentRevokedError (ag_id a)))
   \<and> (ag_status a = AgRetired \<longrightarrow> submit_intent E ids a act amt cur cp ctx ra nonce corr res src now d = Inl (AgentRetiredError (ag_id a)))
   \<and> (ag_status a = AgRegistered \<longrightarrow> submit_intent E ids a act amt cur cp ctx ra nonce corr res src now d = Inl (AgentNotOperationalError (ag_id a)))
   \<and> (ag_status a \<in> {AgActive, AgSuspended} \<and> get_principal_row d (ag_acting_for_principal_id a) = Some p
        \<and> pr_organization_id p = Some oid \<and> get_organization_row d oid = Some r \<and> org_status r \<noteq> OrgActive
      \<longrightarrow> submit_intent E ids a act amt cur cp ctx ra nonce corr res src now d = Inl (IntentOrganizationNotActiveError (org_id r)))"
  by (auto simp: submit_intent_def organization_blocks_def ensure_active_def)

theorem submission_refused_witness:
  "submit_intent demo_env demo_ids demo_agent ''vendor_payment'' None None None [] 0 ''n1'' None None None 0
     (allow_db\<lparr>organizations := [(new_organization ''o1'' ''Acme'' ''production'' 0)\<lparr>org_status := OrgDeactivated\<rparr>]\<rparr>)
   = Inl (IntentOrganizationNotActiveError ''o1'')"
proof -
  let ?d = "allow_db\<lparr>organizations := [(new_organization ''o1'' ''Acme'' ''production'' 0)\<lparr>org_status := OrgDeactivated\<rparr>]\<rparr>"
  have h: "ag_status demo_agent \<in> {AgActive, AgSuspended} \<and> get_principal_row ?d (ag_acting_for_principal_id demo_agent) = Some demo_principal
      \<and> pr_organization_id demo_principal = Some ''o1'' \<and> get_organization_row ?d ''o1'' = Some ((new_organization ''o1'' ''Acme'' ''production'' 0)\<lparr>org_status := OrgDeactivated\<rparr>)
      \<and> org_status ((new_organization ''o1'' ''Acme'' ''production'' 0)\<lparr>org_status := OrgDeactivated\<rparr>) \<noteq> OrgActive"
    by (simp add: get_principal_row_def get_organization_row_def allow_db_def demo_principal_def demo_agent_def new_agent_def new_organization_def)
  have o: "org_id ((new_organization ''o1'' ''Acme'' ''production'' 0)\<lparr>org_status := OrgDeactivated\<rparr>) = ''o1''" by (simp add: new_organization_def)
  from submission_refused [THEN conjunct2, THEN conjunct2, THEN conjunct2, THEN mp, OF h] show ?thesis unfolding o .
qed

end
