(* ===== verification/Resolution_Service.thy ===== *)
theory Resolution_Service
  imports Intent_Service
begin

text \<open>
  \<^verbatim>\<open>server/app/services/resolution_service.py\<close>: a human resolves a decision that runtime authority left
  to HUMAN_REVIEW. The decision row is never changed; the resolution is a row of its own and one more
  Evidence record. Resolving is one transaction; the UNIQUE constraint on
  \<open>decision_resolutions.decision_id\<close> makes the check of an existing resolution atomic with the insert.

  \<open>float_of_numeric\<close> is Python's \<open>float\<close> of a NUMERIC(18, 2) value: exact up to 15 digits, beyond that the rounded value
  is the parameter \<open>round_float\<close>.
\<close>

datatype ResolutionError =
    ResolutionDecisionNotFoundError uuid
  | DecisionNotHumanReviewError Outcome
  | DecisionAlreadyResolvedError uuid
  | ResolutionEvidenceRaised EvidenceError
  | ResolutionRaised py_error

text \<open>\<^verbatim>\<open>except E as e: raise F(e)\<close>: one service's exceptions as another's.\<close>

definition rlift :: "('e \<Rightarrow> 'f) \<Rightarrow> 'e + 'a \<Rightarrow> 'f + 'a" where
  "rlift f m = (case m of Inl e \<Rightarrow> Inl (f e) | Inr x \<Rightarrow> Inr x)"

lemma rlift_Inr_iff [simp]: "rlift f m = Inr y \<longleftrightarrow> m = Inr y"
  by (cases m) (auto simp: rlift_def)

lemma rlift_simps [simp]: "rlift f (Inl e) = Inl (f e)" "rlift f (Inr x) = Inr x"
  by (simp_all add: rlift_def)

definition float_of_numeric :: "(int \<Rightarrow> amount) \<Rightarrow> int \<Rightarrow> amount" where
  "float_of_numeric round_float n = (if \<bar>n\<bar> < 10 ^ 15 then norm_dec n (- 2) else round_float n)"

text \<open>\<^verbatim>\<open>x or []\<close> for a JSON column declared as a list of strings.\<close>

definition str_list_or_empty :: "json \<Rightarrow> py_error + string list" where
  "str_list_or_empty x = rbind (as_list (py_or x (JList []))) (rmapM as_str)"

definition upper :: "Resolution \<Rightarrow> string" where
  "upper r = (case r of ResApproved \<Rightarrow> ''APPROVED'' | ResDenied \<Rightarrow> ''DENIED'')"

definition resolution_of :: "db \<Rightarrow> uuid \<Rightarrow> DecisionResolution option" where
  "resolution_of d did = db_find (\<lambda>r. dr_decision_id r = did) (decision_resolutions d)"

definition review_args ::
  "(int \<Rightarrow> amount) \<Rightarrow> Decision \<Rightarrow> Intent \<Rightarrow> string list \<Rightarrow> string list \<Rightarrow> Resolution \<Rightarrow> string \<Rightarrow> EvidenceArgs" where
  "review_args round_float de it matched mandate_ids res by_whom =
     (evidence_args (de_id de) (it_agent_id it) (it_action it) (map_option (float_of_numeric round_float) (it_amount it))
        matched (de_outcome de) (if res = ResApproved then EvVerified else EvRejected) (it_resource it) (it_currency it))
     \<lparr>ea_approval_outcome := Some (upper res), ea_approver := Some by_whom, ea_reviewer := Some by_whom,
      ea_review_outcome := Some (upper res), ea_mandate_ids := mandate_ids, ea_enterprise_system_id := de_enterprise_system_id de\<rparr>"

definition resolve_decision ::
  "Env \<Rightarrow> (int \<Rightarrow> amount) \<Rightarrow> uuid \<Rightarrow> uuid \<Rightarrow> uuid \<Rightarrow> uuid option \<Rightarrow> Resolution \<Rightarrow> string \<Rightarrow> string option \<Rightarrow> uuid option \<Rightarrow> datetime \<Rightarrow> db
     \<Rightarrow> ResolutionError + db \<times> DecisionResolution" where
  "resolve_decision E round_float rid eid did org res by_whom why uid now d =
     rbind (get_or_raise (get_decision_row d did) (ResolutionDecisionNotFoundError did)) (\<lambda>de.
     rbind (get_or_raise (get_intent_row d (de_intent_id de)) (ResolutionRaised AttributeError)) (\<lambda>it.
     rbind (raise_if (resolve_chain_scope d (it_agent_id it) \<noteq> org) (ResolutionDecisionNotFoundError did)) (\<lambda>_.
     rbind (raise_if (de_outcome de \<noteq> OutHumanReview) (DecisionNotHumanReviewError (de_outcome de))) (\<lambda>_.
     rbind (raise_if (resolution_of d did \<noteq> None) (DecisionAlreadyResolvedError did)) (\<lambda>_.
     rbind (rlift ResolutionRaised (str_list_or_empty (de_evaluated_mandates de))) (\<lambda>matched.
     rbind (rlift ResolutionRaised (str_list_or_empty (de_evaluated_mandate_ids de))) (\<lambda>mandate_ids.
     rbind (rlift ResolutionEvidenceRaised (append_evidence (env_crypto E) (env_settings E)
         (review_args round_float de it matched mandate_ids res by_whom) eid now d)) (\<lambda>(d1, ev).
       let row = \<lparr>dr_id = rid, dr_decision_id = did, dr_resolution = res, dr_resolved_by = by_whom, dr_reason = why,
             dr_evidence_id = Some (ev_id ev), dr_created_at = now, dr_resolved_by_user_id = uid\<rparr>
       in Inr (d1\<lparr>decision_resolutions := decision_resolutions d1 @ [row]\<rparr>, row)))))))))"

section \<open>What a resolution does\<close>

lemma has_resolution_iff: "has_resolution d did \<longleftrightarrow> resolution_of d did \<noteq> None"
  by (auto simp: has_resolution_def resolution_of_def list_ex_iff db_find_None_iff dest: db_find_Some)

lemma get_decision_rowD: "get_decision_row d did = Some de \<Longrightarrow> de \<in> set (decisions d) \<and> de_id de = did"
  unfolding get_decision_row_def by (drule db_find_Some) simp

lemma resolve_decisionD:
  assumes "resolve_decision E rf rid eid did org res by_whom why uid now d = Inr (d', row)"
  obtains de it ev matched mandate_ids where "get_decision_row d did = Some de" "get_intent_row d (de_intent_id de) = Some it"
    "resolve_chain_scope d (it_agent_id it) = org" "de_outcome de = OutHumanReview" "resolution_of d did = None"
    "append_evidence (env_crypto E) (env_settings E) (review_args rf de it matched mandate_ids res by_whom) eid now d
       = Inr (d\<lparr>evidence := evidence d @ [ev]\<rparr>, ev)"
    "d' = d\<lparr>evidence := evidence d @ [ev], decision_resolutions := decision_resolutions d @ [row]\<rparr>"
    "dr_decision_id row = did" "dr_resolution row = res" "dr_evidence_id row = Some (ev_id ev)" "dr_resolved_by row = by_whom" "dr_id row = rid"
proof -
  from assms obtain de it matched mandate_ids d1 ev where r: "get_decision_row d did = Some de" "get_intent_row d (de_intent_id de) = Some it"
      "resolve_chain_scope d (it_agent_id it) = org" "de_outcome de = OutHumanReview" "resolution_of d did = None"
    and a: "append_evidence (env_crypto E) (env_settings E) (review_args rf de it matched mandate_ids res by_whom) eid now d = Inr (d1, ev)"
    and row: "row = \<lparr>dr_id = rid, dr_decision_id = did, dr_resolution = res, dr_resolved_by = by_whom, dr_reason = why,
             dr_evidence_id = Some (ev_id ev), dr_created_at = now, dr_resolved_by_user_id = uid\<rparr>"
      "d' = d1\<lparr>decision_resolutions := decision_resolutions d1 @ [row]\<rparr>"
    unfolding resolve_decision_def by (auto simp: Let_def)
  note d1 = append_evidenceD [OF a, THEN conjunct1]
  show thesis using that [OF r a [unfolded d1]] row d1 by simp
qed

lemma review_args_simps [simp]:
  "ea_agent_id (review_args rf de it m i res w) = it_agent_id it" "ea_decision_id (review_args rf de it m i res w) = de_id de"
  "ea_approval_outcome (review_args rf de it m i res w) = Some (upper res)" "ea_reviewer (review_args rf de it m i res w) = Some w"
  "ea_status (review_args rf de it m i res w) = (if res = ResApproved then EvVerified else EvRejected)"
  "ea_outcome (review_args rf de it m i res w) = de_outcome de"
  by (simp_all add: review_args_def evidence_args_def)

lemma approval_in_payload [simp]:
  "obj_get (build_evidence_payload A risk prev aids sys now) ''approval_outcome'' = Some (str_or_null (ea_approval_outcome A))"
  "obj_get (build_evidence_payload A risk prev aids sys now) ''approver'' = Some (str_or_null (ea_approver A))"
  by (simp_all add: build_evidence_payload_def Let_def)


text \<open>Appending needs only a usable signing key.\<close>

definition key_usable :: "crypto \<Rightarrow> Settings \<Rightarrow> bool" where
  "key_usable C S = (public_key_b64_from_signing_key_b64 C (evidence_signing_key_b64 S) \<noteq> None)"

lemma append_evidence_returns: "key_usable C S \<Longrightarrow> \<exists>e. append_evidence C S A eid now d = Inr (d\<lparr>evidence := evidence d @ [e]\<rparr>, e)"
proof -
  assume "key_usable C S"
  then have "\<exists>sig. sign_payload C payload (evidence_signing_key_b64 S) (evidence_signing_key_id S) = Some sig" for payload
    using sign_payload_Some_iff by (fastforce simp: key_usable_def)
  then have "\<exists>d' e. sign_and_add C S did payload st org seq eid now d = Inr (d', e)" for did payload st org seq
    by (auto simp: sign_and_add_def Let_def) (metis option.simps(5))
  then obtain d' e where "append_evidence C S A eid now d = Inr (d', e)" unfolding append_evidence_def Let_def by blast
  with append_evidenceD [OF this] show ?thesis by blast
qed

text \<open>The two JSON columns of a decision hold lists of strings, as every writer leaves them.\<close>

definition mandates_typed :: "Decision \<Rightarrow> bool" where
  "mandates_typed de = (is_ok (str_list_or_empty (de_evaluated_mandates de)) \<and> is_ok (str_list_or_empty (de_evaluated_mandate_ids de)))"

lemma is_ok_iff: "is_ok r \<longleftrightarrow> (\<exists>x. r = Inr x)"
  by (cases r) auto

lemma str_list_written [simp]: "str_list_or_empty (JList (map JStr xs)) = Inr xs"
proof -
  have "rmapM as_str (map JStr ys) = Inr ys" for ys by (induction ys) auto
  then show ?thesis by (cases xs) (auto simp: str_list_or_empty_def py_or_def)
qed

lemma in_organization_scope:
  "in_organization d org de \<Longrightarrow> \<exists>it. get_intent_row d (de_intent_id de) = Some it \<and> resolve_chain_scope d (it_agent_id it) = org"
  by (auto simp: in_organization_def resolve_chain_scope_def split: option.splits)

lemma pending_iff:
  "de \<in> set (pending_decisions d org) \<longleftrightarrow> de \<in> set (decisions d) \<and> in_organization d org de \<and> de_outcome de = OutHumanReview
     \<and> resolution_of d (de_id de) = None"
  by (auto simp: pending_decisions_def has_resolution_iff)

lemma resolve_pending_returns:
  assumes "de \<in> set (pending_decisions d org)" "distinct (map de_id (decisions d))" "key_usable (env_crypto E) (env_settings E)" "mandates_typed de"
  shows "\<exists>d' row. resolve_decision E rf rid eid (de_id de) org res by_whom why uid now d = Inr (d', row)"
proof -
  have p: "de \<in> set (decisions d)" "in_organization d org de" "de_outcome de = OutHumanReview" "resolution_of d (de_id de) = None"
    using assms(1) by (simp_all add: pending_iff)
  obtain it where it: "get_intent_row d (de_intent_id de) = Some it" "resolve_chain_scope d (it_agent_id it) = org"
    using in_organization_scope [OF p(2)] by blast
  have row: "get_decision_row d (de_id de) = Some de" using db_find_unique [OF assms(2) p(1)] by (simp add: get_decision_row_def)
  obtain m i where mi: "str_list_or_empty (de_evaluated_mandates de) = Inr m" "str_list_or_empty (de_evaluated_mandate_ids de) = Inr i"
    using assms(4) by (auto simp: mandates_typed_def is_ok_iff)
  obtain e where "append_evidence (env_crypto E) (env_settings E) (review_args rf de it m i res by_whom) eid now d
      = Inr (d\<lparr>evidence := evidence d @ [e]\<rparr>, e)"
    using append_evidence_returns [OF assms(3)] by blast
  with row it p mi show ?thesis by (simp add: resolve_decision_def Let_def)
qed

lemma filter_key_length: "distinct (map k xs) \<Longrightarrow> x \<in> set xs \<Longrightarrow> length (filter (\<lambda>y. k y = k x) xs) = 1"
  by (induction xs) (auto simp: filter_empty_conv rev_image_eqI)

lemma pending_after_resolution:
  assumes "d' = d\<lparr>evidence := evidence d @ [ev], decision_resolutions := decision_resolutions d @ [row]\<rparr>"
  shows "pending_decisions d' org = filter (\<lambda>de. de_id de \<noteq> dr_decision_id row) (pending_decisions d org)"
proof -
  have "in_organization d' o' de = in_organization d o' de" for o' de
    by (simp add: assms in_organization_def get_intent_row_def get_agent_row_def get_principal_row_def split: option.split)
  moreover have "has_resolution d' i = (has_resolution d i \<or> dr_decision_id row = i)" for i
    by (auto simp: assms has_resolution_def)
  ultimately show ?thesis by (auto simp: pending_decisions_def assms intro!: filter_cong)
qed

section \<open>Claims\<close>

text \<open>C31: a review is resolved once and leaves the decision as it was. A successful resolution concerns a
  HUMAN_REVIEW decision of the caller's own organization that had no resolution; it adds one
  resolution row and one Evidence record, in the organization's chain, that carries the reviewer, the
  verdict and the decision's original outcome, and nothing else changes; from then on
  every attempt to resolve that decision again is refused.\<close>

theorem review_resolved_once:
  assumes "resolve_decision E rf rid eid did org res by_whom why uid now d = Inr (d', row)"
  shows "(\<exists>de it ev. get_decision_row d did = Some de \<and> de_outcome de = OutHumanReview \<and> get_intent_row d (de_intent_id de) = Some it
      \<and> resolve_chain_scope d (it_agent_id it) = org \<and> resolution_of d did = None
      \<and> d' = d\<lparr>evidence := evidence d @ [ev], decision_resolutions := decision_resolutions d @ [row]\<rparr>
      \<and> resolution_of d' did = Some row \<and> dr_resolution row = res
      \<and> ev_decision_id ev = did \<and> ev_organization_id ev = org \<and> ev_status ev = (if res = ResApproved then EvVerified else EvRejected)
      \<and> obj_get (ev_payload ev) ''authority_outcome'' = Some (JStr ''HUMAN_REVIEW'')
      \<and> obj_get (ev_payload ev) ''approval_outcome'' = Some (JStr (upper res)) \<and> obj_get (ev_payload ev) ''approver'' = Some (JStr by_whom))
    \<and> (\<forall>E' rf' rid' eid' org' res' by' why' uid' now'.
        resolve_decision E' rf' rid' eid' did org' res' by' why' uid' now' d' \<in> {Inl (DecisionAlreadyResolvedError did), Inl (ResolutionDecisionNotFoundError did)})"
  using assms
proof (rule resolve_decisionD)
  fix de it ev m i
  assume s: "get_decision_row d did = Some de" "get_intent_row d (de_intent_id de) = Some it" "resolve_chain_scope d (it_agent_id it) = org"
    "de_outcome de = OutHumanReview" "resolution_of d did = None"
    "append_evidence (env_crypto E) (env_settings E) (review_args rf de it m i res by_whom) eid now d = Inr (d\<lparr>evidence := evidence d @ [ev]\<rparr>, ev)"
    "d' = d\<lparr>evidence := evidence d @ [ev], decision_resolutions := decision_resolutions d @ [row]\<rparr>"
    "dr_decision_id row = did" "dr_resolution row = res"
  have did: "de_id de = did" using get_decision_rowD [OF s(1)] by simp
  note e = append_evidenceD [OF s(6)]
  have r': "resolution_of d' did = Some row" using s(5,8) by (simp add: s(7) resolution_of_def row_simps)
  have rows: "get_decision_row d' = get_decision_row d" "get_intent_row d' = get_intent_row d"
    by (simp_all add: s(7) get_decision_row_def get_intent_row_def fun_eq_iff)
  have app: "ea_approver (review_args rf de it m i res by_whom) = Some by_whom" by (simp add: review_args_def evidence_args_def)
  have "resolve_decision E' rf' rid' eid' did org' res' by' why' uid' now' d' \<in> {Inl (DecisionAlreadyResolvedError did), Inl (ResolutionDecisionNotFoundError did)}"
    for E' rf' rid' eid' org' res' by' why' uid' now'
    using s(1,2,4) r' by (simp add: resolve_decision_def rows raise_if_def)
  moreover have "obj_get (ev_payload ev) ''authority_outcome'' = Some (JStr ''HUMAN_REVIEW'')"
      "obj_get (ev_payload ev) ''approval_outcome'' = Some (JStr (upper res))" "obj_get (ev_payload ev) ''approver'' = Some (JStr by_whom)"
    using e s(4) app by (auto simp: str_or_null_def)
  moreover have "ev_decision_id ev = did" "ev_organization_id ev = org" "ev_status ev = (if res = ResApproved then EvVerified else EvRejected)"
    using e did s(3) by auto
  ultimately show ?thesis using s(1-5,7,9) r' by blast
qed

text \<open>A pending review can always be closed. With a usable signing key, unique decision ids and the
  columns as the services write them, resolving any decision of the review queue succeeds, whatever
  the verdict, and takes exactly that decision out of the queue: the queue gets one shorter, so
  repeated resolution empties it.\<close>

theorem review_queue_drains:
  assumes "de \<in> set (pending_decisions d org)" and "distinct (map de_id (decisions d))"
    and "key_usable (env_crypto E) (env_settings E)" and "mandates_typed de"
  shows "\<exists>d' row. resolve_decision E rf rid eid (de_id de) org res by_whom why uid now d = Inr (d', row)
    \<and> set (pending_decisions d' org) = set (pending_decisions d org) - {de}
    \<and> length (pending_decisions d org) = Suc (length (pending_decisions d' org))"
proof -
  obtain d' row where r: "resolve_decision E rf rid eid (de_id de) org res by_whom why uid now d = Inr (d', row)"
    using resolve_pending_returns [OF assms] by blast
  then obtain ev where d': "d' = d\<lparr>evidence := evidence d @ [ev], decision_resolutions := decision_resolutions d @ [row]\<rparr>"
      and did: "dr_decision_id row = de_id de" by (rule resolve_decisionD)
  have p: "pending_decisions d' org = filter (\<lambda>x. de_id x \<noteq> de_id de) (pending_decisions d org)"
    using pending_after_resolution [OF d'] did by simp
  have dist: "distinct (map de_id (pending_decisions d org))" using assms(2) by (simp add: pending_decisions_def distinct_map_filter)
  have "set (pending_decisions d' org) = set (pending_decisions d org) - {de}"
    using dist assms(1) by (auto simp: p distinct_map inj_on_def)
  moreover note filter_key_length [OF dist assms(1)]
  ultimately show ?thesis using r sum_length_filter_compl [of "\<lambda>x. de_id x \<noteq> de_id de" "pending_decisions d org"] by (auto simp: p)
qed

text \<open>A state with one decision waiting for review.\<close>

definition review_intent :: Intent where
  "review_intent = new_intent ''i9'' ''a1'' None ''vendor_payment'' (Some 4800000) (Some ''EUR'') None (Some ''invoice-123'') None [] ''n9'' 0 0"

definition review_decision :: Decision where
  "review_decision = \<lparr>de_id = ''d9'', de_intent_id = ''i9'', de_policy_id = None, de_outcome = OutHumanReview, de_reason = None,
     de_evaluated_mandates = JList [], de_created_at = 0, de_evaluated_mandate_ids = JList [], de_enterprise_system_id = None\<rparr>"

definition review_db :: db where
  "review_db = allow_db\<lparr>intents := [review_intent], decisions := [review_decision]\<rparr>"

lemma demo_key_usable: "key_usable (env_crypto demo_env) (env_settings demo_env)"
  using demo_signs sign_payload_Some_iff by (fastforce simp: key_usable_def demo_env_def)

lemma review_db_pending: "review_decision \<in> set (pending_decisions review_db (Some ''o1''))"
  by (simp add: pending_decisions_def review_db_def review_decision_def review_intent_def new_intent_def in_organization_def get_intent_row_def
      get_agent_row_def get_principal_row_def allow_db_def demo_agent_def new_agent_def demo_principal_def has_resolution_def
      keyed_db_def one_agent_db_def empty_db_def)

lemma review_db_ok: "distinct (map de_id (decisions review_db))" "mandates_typed review_decision" "de_id review_decision = ''d9''"
  using str_list_written [of "[]"] by (simp_all add: review_db_def mandates_typed_def review_decision_def)

theorem review_queue_drains_witness:
  "\<exists>d' row. resolve_decision demo_env (\<lambda>n. (n, - 2)) ''r1'' ''e9'' ''d9'' (Some ''o1'') ResApproved ''alice'' None None 0 review_db = Inr (d', row)
     \<and> review_decision \<notin> set (pending_decisions d' (Some ''o1''))"
  using review_queue_drains [OF review_db_pending review_db_ok(1) demo_key_usable review_db_ok(2)] unfolding review_db_ok(3)
  by (metis DiffE insertI1)

theorem review_resolved_once_witness:
  "\<exists>d' row. resolve_decision demo_env (\<lambda>n. (n, - 2)) ''r1'' ''e9'' ''d9'' (Some ''o1'') ResApproved ''alice'' None None 0 review_db = Inr (d', row)
     \<and> resolution_of d' ''d9'' = Some row \<and> decisions d' = [review_decision]
     \<and> \<not> is_ok (resolve_decision demo_env (\<lambda>n. (n, - 2)) ''r2'' ''e8'' ''d9'' (Some ''o1'') ResDenied ''bob'' None None 1 d')"
proof -
  obtain d' row where r: "resolve_decision demo_env (\<lambda>n. (n, - 2)) ''r1'' ''e9'' ''d9'' (Some ''o1'') ResApproved ''alice'' None None 0 review_db = Inr (d', row)"
    using resolve_pending_returns [OF review_db_pending review_db_ok(1) demo_key_usable review_db_ok(2)] unfolding review_db_ok(3) by blast
  note c = review_resolved_once [OF r]
  have "resolution_of d' ''d9'' = Some row" "decisions d' = decisions review_db" using c by auto
  moreover have "\<not> is_ok (resolve_decision demo_env (\<lambda>n. (n, - 2)) ''r2'' ''e8'' ''d9'' (Some ''o1'') ResDenied ''bob'' None None 1 d')"
    using c [THEN conjunct2] by (metis empty_iff insert_iff is_ok_simps(2))
  ultimately show ?thesis using r by (simp add: review_db_def)
qed

end
