(* ===== verification/Capability_Token.thy ===== *)
theory Capability_Token
  imports Resolution_Service
begin

text \<open>
  \<^verbatim>\<open>server/app/domain/capability/token.py\<close>: the signed, short-lived token that carries an authorization to the
  point of execution. The fields of a decoded payload are whatever JSON the token held: Python checks none
  of the declared types. \<open>CapRaised\<close> is an exception of Python's own that \<open>verify_capability_token\<close> lets through.

  A token is ASCII; bytes of a foreign token outside ASCII are read as Latin-1. \<open>now.timestamp() + ttl\<close> goes through a
  float, which keeps microseconds exactly until the year 2242. The nonce of \<open>secrets.token_hex\<close> is an argument.
\<close>

datatype CapabilityError =
    InvalidCapabilityTokenError string
  | CapabilityTokenExpiredError json
  | CapabilityAudienceMismatchError json string
  | CapabilityConstraintMismatchError string
  | CapabilityBindingMismatchError string
  | CapabilityTenantMismatchError json uuid
  | CapRaised py_error

record CapabilityTokenPayload =
  cp_decision_id :: json
  cp_organization_id :: json
  cp_principal :: json
  cp_action :: json
  cp_resource :: json
  cp_constraints :: json
  cp_policy_version :: json
  cp_fact_hashes :: "json list"
  cp_issued_at :: json
  cp_expires_at :: json
  cp_nonce :: json
  cp_audience :: json
  cp_integration_identity_id :: json
  cp_enforcement_binding_id :: json
  cp_integration_contract_version_id :: json
  cp_environment :: json
  cp_external_operation_id :: json

text \<open>\<open>sorted\<close> of a list of strings; a list of anything else is outside the declared type.\<close>

definition sorted_strs :: "json list \<Rightarrow> py_error + json list" where
  "sorted_strs xs = rmap (\<lambda>ss. map JStr (sort ss)) (rmapM as_str xs)"

definition payload_to_dict :: "CapabilityTokenPayload \<Rightarrow> py_error + json" where
  "payload_to_dict p = rmap (\<lambda>hs. JObj
     [(''decision_id'', cp_decision_id p), (''organization_id'', cp_organization_id p), (''principal'', cp_principal p),
      (''action'', cp_action p), (''resource'', cp_resource p), (''constraints'', cp_constraints p),
      (''policy_version'', cp_policy_version p), (''fact_hashes'', JList hs), (''issued_at'', cp_issued_at p),
      (''expires_at'', cp_expires_at p), (''nonce'', cp_nonce p), (''audience'', cp_audience p),
      (''integration_identity_id'', cp_integration_identity_id p), (''enforcement_binding_id'', cp_enforcement_binding_id p),
      (''integration_contract_version_id'', cp_integration_contract_version_id p), (''environment'', cp_environment p),
      (''external_operation_id'', cp_external_operation_id p)]) (sorted_strs (cp_fact_hashes p))"

text \<open>\<open>list(x)\<close> of a JSON value.\<close>

fun py_list :: "json \<Rightarrow> py_error + json list" where
  "py_list (JList xs) = Inr xs"
| "py_list (JStr s) = Inr (map (\<lambda>c. JStr [c]) s)"
| "py_list (JObj ps) = Inr (map (\<lambda>p. JStr (fst p)) ps)"
| "py_list _ = Inl TypeError"

definition payload_from_dict :: "json \<Rightarrow> py_error + CapabilityTokenPayload" where
  "payload_from_dict data =
     rbind (py_getitem data ''decision_id'') (\<lambda>did.
     rbind (py_getitem data ''organization_id'') (\<lambda>oid.
     rbind (py_getitem data ''principal'') (\<lambda>pri.
     rbind (py_getitem data ''action'') (\<lambda>act.
     rbind (py_getitem data ''resource'') (\<lambda>res.
     rbind (py_getitem data ''constraints'') (\<lambda>con.
     rbind (py_get data ''policy_version'') (\<lambda>ver.
     rbind (rbind (py_get_or data ''fact_hashes'' (JList [])) py_list) (\<lambda>hs.
     rbind (py_getitem data ''issued_at'') (\<lambda>iss.
     rbind (py_getitem data ''expires_at'') (\<lambda>ex.
     rbind (py_getitem data ''nonce'') (\<lambda>non.
     rbind (py_getitem data ''audience'') (\<lambda>aud.
     rbind (py_get data ''integration_identity_id'') (\<lambda>iid.
     rbind (py_get data ''enforcement_binding_id'') (\<lambda>bid.
     rbind (py_get data ''integration_contract_version_id'') (\<lambda>cid.
     rbind (py_get data ''environment'') (\<lambda>env.
     rbind (py_get data ''external_operation_id'') (\<lambda>xid.
       Inr \<lparr>cp_decision_id = did, cp_organization_id = oid, cp_principal = pri, cp_action = act, cp_resource = res,
         cp_constraints = con, cp_policy_version = ver, cp_fact_hashes = hs, cp_issued_at = iss, cp_expires_at = ex,
         cp_nonce = non, cp_audience = aud, cp_integration_identity_id = iid, cp_enforcement_binding_id = bid,
         cp_integration_contract_version_id = cid, cp_environment = env, cp_external_operation_id = xid\<rparr>)))))))))))))))))"

record IssuedCapabilityToken =
  ict_payload :: CapabilityTokenPayload
  ict_signature_b64 :: string
  ict_key_id :: string
  ict_token :: string
  ict_token_hash :: string

definition encode_token :: "CapabilityTokenPayload \<Rightarrow> string \<Rightarrow> string \<Rightarrow> py_error + string" where
  "encode_token p signature_b64 key_id = rmap (\<lambda>dict. b64encode (canonicalize
     (JObj [(''payload'', dict), (''signature'', JStr signature_b64), (''key_id'', JStr key_id)]))) (payload_to_dict p)"

text \<open>Every exception while decoding becomes \<open>InvalidCapabilityTokenError\<close>.\<close>

definition envelope_of :: "string \<Rightarrow> py_error + json" where
  "envelope_of token = rbind (get_or_raise (b64decode token) ValueError) (\<lambda>bytes. get_or_raise (loads bytes) ValueError)"

definition decode_token :: "string \<Rightarrow> CapabilityError + CapabilityTokenPayload \<times> json \<times> json" where
  "decode_token token =
     rlift (\<lambda>_. InvalidCapabilityTokenError ''malformed token'')
       (rbind (envelope_of token) (\<lambda>envelope.
        rbind (py_getitem envelope ''payload'') (\<lambda>dict.
        rbind (payload_from_dict dict) (\<lambda>p.
        rbind (py_getitem envelope ''signature'') (\<lambda>sig.
        rbind (py_getitem envelope ''key_id'') (\<lambda>kid. Inr (p, sig, kid)))))))"

definition token_hash :: "crypto \<Rightarrow> string \<Rightarrow> string" where
  "token_hash C token = hexlify (sha256 C token)"

text \<open>The keyword arguments of \<open>issue_capability_token\<close> that end up in the payload.\<close>

record TokenArgs =
  ta_decision_id :: uuid
  ta_organization_id :: uuid
  ta_principal :: string
  ta_action :: string
  ta_resource :: string
  ta_constraints :: "(string \<times> json) list"
  ta_policy_version :: json
  ta_fact_hashes :: "string list"
  ta_audience :: string
  ta_integration_identity_id :: "uuid option"
  ta_enforcement_binding_id :: "uuid option"
  ta_integration_contract_version_id :: "uuid option"
  ta_environment :: "string option"
  ta_external_operation_id :: "string option"

definition token_payload :: "TokenArgs \<Rightarrow> int \<Rightarrow> string \<Rightarrow> datetime \<Rightarrow> CapabilityTokenPayload" where
  "token_payload A ttl_seconds nonce now =
     \<lparr>cp_decision_id = JStr (ta_decision_id A), cp_organization_id = JStr (ta_organization_id A), cp_principal = JStr (ta_principal A),
      cp_action = JStr (ta_action A), cp_resource = JStr (ta_resource A), cp_constraints = JObj (ta_constraints A),
      cp_policy_version = ta_policy_version A, cp_fact_hashes = map JStr (ta_fact_hashes A), cp_issued_at = JStr (isoformat now),
      cp_expires_at = JStr (isoformat (now + ttl_seconds * 1000000)), cp_nonce = JStr nonce, cp_audience = JStr (ta_audience A),
      cp_integration_identity_id = opt_str (ta_integration_identity_id A), cp_enforcement_binding_id = opt_str (ta_enforcement_binding_id A),
      cp_integration_contract_version_id = opt_str (ta_integration_contract_version_id A), cp_environment = opt_str (ta_environment A),
      cp_external_operation_id = opt_str (ta_external_operation_id A)\<rparr>"

definition issue_capability_token ::
  "crypto \<Rightarrow> TokenArgs \<Rightarrow> int \<Rightarrow> string \<Rightarrow> string \<Rightarrow> string \<Rightarrow> datetime \<Rightarrow> py_error + IssuedCapabilityToken" where
  "issue_capability_token C A ttl_seconds nonce signing_key_b64 key_id now =
     (let p = token_payload A ttl_seconds nonce now
      in rbind (payload_to_dict p) (\<lambda>dict.
         rbind (get_or_raise (sign_payload C dict signing_key_b64 key_id) ValueError) (\<lambda>sig.
         rbind (encode_token p (sig_value sig) key_id) (\<lambda>token.
           Inr \<lparr>ict_payload = p, ict_signature_b64 = sig_value sig, ict_key_id = key_id, ict_token = token,
                ict_token_hash = token_hash C token\<rparr>))))"

text \<open>What a verifier expects of the execution it is about to perform; \<open>None\<close> skips a check.\<close>

record Expected =
  ex_audience :: string
  ex_action :: string
  ex_resource :: string
  ex_constraints :: json
  ex_environment :: "string option"
  ex_enforcement_binding_id :: "uuid option"
  ex_principal :: "string option"
  ex_organization_id :: "uuid option"

definition pinned_differs :: "string option \<Rightarrow> json \<Rightarrow> bool" where
  "pinned_differs expected claim = (case expected of None \<Rightarrow> False | Some s \<Rightarrow> claim \<noteq> JStr s)"

text \<open>\<open>verify_payload\<close> with the decoded signature: PyNaCl's errors and a value that is no string make it \<open>False\<close>.\<close>

definition token_signature_ok :: "crypto \<Rightarrow> json \<Rightarrow> json \<Rightarrow> json \<Rightarrow> string \<Rightarrow> bool" where
  "token_signature_ok C dict sig kid public_key_b64 = (case sig of
     JStr s \<Rightarrow> verify_payload C dict \<lparr>algorithm = ''ed25519'', sig_key_id = (case kid of JStr k \<Rightarrow> k | _ \<Rightarrow> []), sig_value = s\<rparr> public_key_b64
   | _ \<Rightarrow> False)"

definition expiry_of :: "json \<Rightarrow> CapabilityError + datetime" where
  "expiry_of x = (case x of
     JStr s \<Rightarrow> (case fromisoformat s of None \<Rightarrow> Inl (CapRaised ValueError) | Some t \<Rightarrow> Inr t)
   | _ \<Rightarrow> Inl (CapRaised TypeError))"

definition verify_capability_token ::
  "crypto \<Rightarrow> string \<Rightarrow> string \<Rightarrow> Expected \<Rightarrow> datetime \<Rightarrow> CapabilityError + CapabilityTokenPayload \<times> string" where
  "verify_capability_token C token public_key_b64 X now =
     rbind (decode_token token) (\<lambda>(p, sig, kid).
     rbind (rlift CapRaised (payload_to_dict p)) (\<lambda>dict.
     rbind (raise_if (\<not> token_signature_ok C dict sig kid public_key_b64) (InvalidCapabilityTokenError ''signature verification failed'')) (\<lambda>_.
     rbind (expiry_of (cp_expires_at p)) (\<lambda>expires_at.
     rbind (raise_if (expires_at < now) (CapabilityTokenExpiredError (cp_expires_at p))) (\<lambda>_.
     rbind (case ex_organization_id X of None \<Rightarrow> Inr () | Some oid \<Rightarrow>
       raise_if (cp_organization_id p \<noteq> JStr oid) (CapabilityTenantMismatchError (cp_organization_id p) oid)) (\<lambda>_.
     rbind (raise_if (cp_audience p \<noteq> JStr (ex_audience X)) (CapabilityAudienceMismatchError (cp_audience p) (ex_audience X))) (\<lambda>_.
     rbind (raise_if (cp_action p \<noteq> JStr (ex_action X)) (CapabilityConstraintMismatchError ''action'')) (\<lambda>_.
     rbind (raise_if (cp_resource p \<noteq> JStr (ex_resource X)) (CapabilityConstraintMismatchError ''resource'')) (\<lambda>_.
     rbind (raise_if (\<not> py_eq (cp_constraints p) (ex_constraints X)) (CapabilityConstraintMismatchError ''constraints'')) (\<lambda>_.
     rbind (raise_if (pinned_differs (ex_principal X) (cp_principal p)) (CapabilityConstraintMismatchError ''principal'')) (\<lambda>_.
     rbind (raise_if (pinned_differs (ex_environment X) (cp_environment p)) (CapabilityBindingMismatchError ''environment'')) (\<lambda>_.
     rbind (raise_if (pinned_differs (ex_enforcement_binding_id X) (cp_enforcement_binding_id p))
       (CapabilityBindingMismatchError ''enforcement_binding'')) (\<lambda>_.
       Inr (p, token_hash C token))))))))))))))"

section \<open>A token read back\<close>

text \<open>What decoding returns for a payload: keys sorted inside the nested values, fact hashes sorted.\<close>

definition canonical_payload :: "CapabilityTokenPayload \<Rightarrow> json list \<Rightarrow> CapabilityTokenPayload" where
  "canonical_payload p hs = p\<lparr>cp_constraints := sort_keys (cp_constraints p), cp_fact_hashes := hs\<rparr>"

text \<open>The arguments the capability service passes: constraints are strings under distinct keys, the policy
  version is a number or absent.\<close>

definition args_ok :: "TokenArgs \<Rightarrow> bool" where
  "args_ok A = (distinct (map fst (ta_constraints A)) \<and> list_all (\<lambda>(k, v). \<exists>s. v = JStr s) (ta_constraints A)
     \<and> (ta_policy_version A = JNull \<or> (\<exists>i. ta_policy_version A = JInt i)))"

lemma rmapM_as_str [simp]: "rmapM as_str (map JStr ss) = Inr ss"
  by (induction ss) auto

lemma sorted_strs_map [simp]: "sorted_strs (map JStr ss) = Inr (map JStr (sort ss))"
  by (simp add: sorted_strs_def)

lemma sort_keys_strs [simp]: "map (sort_keys \<circ> JStr) ss = map JStr ss"
  by (induction ss) auto

lemma sort_keys_opt_str [simp]: "sort_keys (opt_str x) = opt_str x"
  by (simp add: opt_str_def split: option.split)

lemma sort_keys_idem [simp]: "sort_keys (sort_keys j) = sort_keys j"
proof (induction j rule: sort_keys.induct)
  case (2 ps)
  let ?qs = "sort_key fst (map (\<lambda>p. (fst p, sort_keys (snd p))) ps)"
  have "map (\<lambda>p. (fst p, sort_keys (snd p))) ?qs = ?qs" using 2 by (intro map_idI) auto
  then show ?case by (simp only: sort_keys.simps sort_key_id_if_sorted [OF sorted_sort_key])
qed auto

lemma payload_sorted:
  assumes "payload_to_dict (token_payload A ttl nonce now) = Inr dict" "sort_keys (ta_policy_version A) = ta_policy_version A"
  shows "payload_from_dict (sort_keys dict) =
    Inr (canonical_payload (token_payload A ttl nonce now) (map JStr (sort (ta_fact_hashes A))))"
  using assms
  by (auto simp: payload_to_dict_def token_payload_def payload_from_dict_def canonical_payload_def sorted_access simp del: no_sort)

lemma canonical_to_dict:
  assumes "payload_to_dict (token_payload A ttl nonce now) = Inr dict"
  shows "\<exists>dict'. payload_to_dict (canonical_payload (token_payload A ttl nonce now) (map JStr (sort (ta_fact_hashes A)))) = Inr dict'
    \<and> sort_keys dict' = sort_keys dict"
proof -
  have "sort (sort xs) = sort xs" for xs :: "string list" by (simp add: sorted_sort_id)
  then show ?thesis using assms sort_keys_idem [of "JObj (ta_constraints A)"]
    by (auto simp: payload_to_dict_def token_payload_def canonical_payload_def)
qed

lemma args_ok_plain: "args_ok A \<Longrightarrow> plain_json (JObj (ta_constraints A))"
  by (auto simp: args_ok_def list_all_iff)

lemma issued_token:
  assumes "issue_capability_token C A ttl nonce k kid now = Inr t"
  obtains dict sig where "payload_to_dict (token_payload A ttl nonce now) = Inr dict" "sign_payload C dict k kid = Some sig"
    "ict_payload t = token_payload A ttl nonce now" "ict_signature_b64 t = sig_value sig" "ict_token_hash t = token_hash C (ict_token t)"
    "ict_token t = b64encode (canonicalize (JObj [(''payload'', dict), (''signature'', JStr (sig_value sig)), (''key_id'', JStr kid)]))"
  using assms by (auto simp: issue_capability_token_def encode_token_def Let_def)

lemma plain_payload_dict:
  assumes "payload_to_dict (token_payload A ttl nonce now) = Inr dict" "args_ok A"
  shows "plain_json dict"
  using assms args_ok_plain [OF assms(2)]
  by (auto simp: payload_to_dict_def token_payload_def args_ok_def opt_str_def list_all_iff split: option.split)

lemma decode_issued:
  assumes "issue_capability_token C A ttl nonce k kid now = Inr t" "args_ok A"
  shows "decode_token (ict_token t) = Inr (canonical_payload (token_payload A ttl nonce now) (map JStr (sort (ta_fact_hashes A))),
    JStr (ict_signature_b64 t), JStr kid) \<and> rbind (envelope_of (ict_token t)) (\<lambda>e. py_getitem e ''key_id'') = Inr (JStr kid)"
proof -
  from assms(1) obtain dict sig where i: "payload_to_dict (token_payload A ttl nonce now) = Inr dict" "sign_payload C dict k kid = Some sig"
      "ict_payload t = token_payload A ttl nonce now" "ict_signature_b64 t = sig_value sig" "ict_token_hash t = token_hash C (ict_token t)"
      "ict_token t = b64encode (canonicalize (JObj [(''payload'', dict), (''signature'', JStr (sig_value sig)), (''key_id'', JStr kid)]))"
    by (rule issued_token)
  let ?env = "JObj [(''payload'', dict), (''signature'', JStr (sig_value sig)), (''key_id'', JStr kid)]"
  have "plain_json ?env" using plain_payload_dict [OF i(1) assms(2)] by simp
  then have e: "envelope_of (ict_token t) = Inr (sort_keys ?env)" using i(6) by (simp add: envelope_of_def canonicalize_def loads_dumps del: no_sort)
  have "sort_keys (ta_policy_version A) = ta_policy_version A" using assms(2) by (auto simp: args_ok_def)
  note p = payload_sorted [OF i(1) this]
  show ?thesis using e p i(4) by (simp add: decode_token_def py_getitem_sorted del: no_sort)
qed

lemma py_eq_members_strings:
  "list_all (\<lambda>(k, v). \<exists>s. v = JStr s) cs \<Longrightarrow> py_eq_members cs qs \<longleftrightarrow> (\<forall>(k, v) \<in> set cs. map_of qs k = Some v)"
  by (induction cs) (auto split: option.splits)

lemma sort_keys_strings: "list_all (\<lambda>(k, v). \<exists>s. v = JStr s) cs \<Longrightarrow> sort_keys (JObj cs) = JObj (sort_key fst cs)"
proof -
  assume "list_all (\<lambda>(k, v). \<exists>s. v = JStr s) cs"
  then have "map (\<lambda>p. (fst p, sort_keys (snd p))) cs = cs" by (intro map_idI) (auto simp: list_all_iff)
  then show ?thesis by simp
qed

lemma same_members_map:
  assumes "distinct (map fst cs)" "distinct (map fst qs)"
  shows "length cs = length qs \<and> (\<forall>(k, v) \<in> set cs. map_of qs k = Some v) \<longleftrightarrow> map_of qs = map_of cs"
proof
  assume h: "length cs = length qs \<and> (\<forall>(k, v) \<in> set cs. map_of qs k = Some v)"
  then have sub: "set cs \<subseteq> set qs" by (auto dest: map_of_SomeD)
  have "card (set cs) = length cs" "card (set qs) = length qs"
    using assms by (simp_all add: distinct_card distinct_map)
  then have "set cs = set qs" using sub h by (intro card_subset_eq) auto
  then show "map_of qs = map_of cs" using assms map_of_inject_set by blast
next
  assume h: "map_of qs = map_of cs"
  then have "set qs = set cs" using assms map_of_inject_set by blast
  then have "length cs = length qs" using assms by (metis distinct_card distinct_map)
  with h assms(1) show "length cs = length qs \<and> (\<forall>(k, v) \<in> set cs. map_of qs k = Some v)" by auto
qed

lemma constraints_match:
  assumes "args_ok A" "distinct (map fst qs)"
  shows "py_eq (sort_keys (JObj (ta_constraints A))) (JObj qs) \<longleftrightarrow> map_of qs = map_of (ta_constraints A)"
proof -
  let ?cs = "sort_key fst (ta_constraints A)"
  have a: "distinct (map fst (ta_constraints A))" "list_all (\<lambda>(k, v). \<exists>s. v = JStr s) (ta_constraints A)" using assms(1) by (simp_all add: args_ok_def)
  then have s: "list_all (\<lambda>(k, v). \<exists>s. v = JStr s) ?cs" "distinct (map fst ?cs)" by (simp_all add: list_all_iff distinct_map_sort_key)
  have "map_of ?cs = map_of (ta_constraints A)" using a(1) s(2) map_of_inject_set by (metis set_sort)
  then show ?thesis using same_members_map [OF s(2) assms(2)] py_eq_members_strings [OF s(1), of qs] sort_keys_strings [OF a(2)] by simp
qed

text \<open>What a verifier must present for a token.\<close>

definition presented :: "TokenArgs \<Rightarrow> (string \<times> json) list \<Rightarrow> Expected \<Rightarrow> bool" where
  "presented A qs X = ((ex_organization_id X = None \<or> ex_organization_id X = Some (ta_organization_id A))
     \<and> ex_audience X = ta_audience A \<and> ex_action X = ta_action A \<and> ex_resource X = ta_resource A
     \<and> map_of qs = map_of (ta_constraints A)
     \<and> (ex_principal X = None \<or> ex_principal X = Some (ta_principal A))
     \<and> (ex_environment X = None \<or> ex_environment X = ta_environment A)
     \<and> (ex_enforcement_binding_id X = None \<or> ex_enforcement_binding_id X = ta_enforcement_binding_id A))"

lemma pinned_differs_str: "pinned_differs x (JStr s) \<longleftrightarrow> \<not> (x = None \<or> x = Some s)"
  by (cases x) (auto simp: pinned_differs_def)

lemma pinned_differs_opt: "pinned_differs x (opt_str y) \<longleftrightarrow> \<not> (x = None \<or> x = y)"
  by (cases x; cases y) (auto simp: pinned_differs_def opt_str_def)

lemma verify_issued:
  assumes "ed25519_correct C" "issue_capability_token C A ttl nonce k kid now = Inr t" "args_ok A"
    "public_key_b64_from_signing_key_b64 C k = Some pk" "datetime_range (now + ttl * 1000000)"
    "ex_constraints X = JObj qs" "distinct (map fst qs)"
  shows "(\<exists>p. verify_capability_token C (ict_token t) pk X now' = Inr p) \<longleftrightarrow> now' \<le> now + ttl * 1000000 \<and> presented A qs X"
proof -
  from assms(2) obtain dict sig where i: "payload_to_dict (token_payload A ttl nonce now) = Inr dict" "sign_payload C dict k kid = Some sig"
      "ict_payload t = token_payload A ttl nonce now" "ict_signature_b64 t = sig_value sig" "ict_token_hash t = token_hash C (ict_token t)"
      "ict_token t = b64encode (canonicalize (JObj [(''payload'', dict), (''signature'', JStr (sig_value sig)), (''key_id'', JStr kid)]))"
    by (rule issued_token)
  let ?p = "canonical_payload (token_payload A ttl nonce now) (map JStr (sort (ta_fact_hashes A)))"
  obtain dict' where d': "payload_to_dict ?p = Inr dict'" "sort_keys dict' = sort_keys dict" using canonical_to_dict [OF i(1)] by blast
  have sig: "\<lparr>algorithm = ''ed25519'', sig_key_id = kid, sig_value = sig_value sig\<rparr> = sig"
    using i(2) by (auto simp: sign_payload_def Let_def split: bind_splits)
  have ok: "token_signature_ok C dict' (JStr (sig_value sig)) (JStr kid) pk"
    using verify_sign_payload [OF assms(1) i(2) assms(4)] verify_payload_sort_keys [OF d'(2)] sig by (simp add: token_signature_ok_def)
  have ex: "expiry_of (cp_expires_at ?p) = Inr (now + ttl * 1000000)"
    using fromisoformat_isoformat [OF assms(5)] by (simp add: expiry_of_def canonical_payload_def token_payload_def)
  have f: "cp_organization_id ?p = JStr (ta_organization_id A)" "cp_audience ?p = JStr (ta_audience A)" "cp_action ?p = JStr (ta_action A)"
      "cp_resource ?p = JStr (ta_resource A)" "cp_constraints ?p = sort_keys (JObj (ta_constraints A))" "cp_principal ?p = JStr (ta_principal A)"
      "cp_environment ?p = opt_str (ta_environment A)" "cp_enforcement_binding_id ?p = opt_str (ta_enforcement_binding_id A)"
    by (simp_all add: canonical_payload_def token_payload_def)
  have c: "py_eq (sort_keys (JObj (ta_constraints A))) (ex_constraints X) \<longleftrightarrow> map_of qs = map_of (ta_constraints A)"
    using constraints_match [OF assms(3,7)] assms(6) by simp
  show ?thesis unfolding verify_capability_token_def decode_issued [OF assms(2,3), THEN conjunct1] i(4)
    by (auto simp: d' ok ex f c presented_def pinned_differs_str pinned_differs_opt simp del: no_sort split: option.splits)
qed

section \<open>Claims\<close>

text \<open>C7: a capability authorizes exactly what it was issued for. A token issued for given arguments verifies
  under the issuing key's public key until its expiry, and only for the audience, action and resource it names, for
  exactly its constraints as a dictionary, and for the organization, principal, environment and
  binding it names wherever the verifier pins one; in every other case verification raises.\<close>

theorem capability_binds_parameters:
  assumes "ed25519_correct C" and "issue_capability_token C A ttl nonce k kid now = Inr t" and "args_ok A"
    and "public_key_b64_from_signing_key_b64 C k = Some pk" and "datetime_range (now + ttl * 1000000)"
    and "ex_constraints X = JObj qs" and "distinct (map fst qs)"
  shows "is_ok (verify_capability_token C (ict_token t) pk X now') \<longleftrightarrow>
      now' \<le> now + ttl * 1000000
      \<and> (ex_organization_id X = None \<or> ex_organization_id X = Some (ta_organization_id A))
      \<and> ex_audience X = ta_audience A \<and> ex_action X = ta_action A \<and> ex_resource X = ta_resource A
      \<and> map_of qs = map_of (ta_constraints A)
      \<and> (ex_principal X = None \<or> ex_principal X = Some (ta_principal A))
      \<and> (ex_environment X = None \<or> ex_environment X = ta_environment A)
      \<and> (ex_enforcement_binding_id X = None \<or> ex_enforcement_binding_id X = ta_enforcement_binding_id A)"
  using verify_issued [OF assms, of now'] unfolding is_ok_iff presented_def .

definition demo_token_args :: TokenArgs where
  "demo_token_args = \<lparr>ta_decision_id = ''d1'', ta_organization_id = ''o1'', ta_principal = ''AP'', ta_action = ''vendor_payment'',
     ta_resource = ''invoice-123'', ta_constraints = [(''amount'', JStr ''48000.00'')], ta_policy_version = JInt 1, ta_fact_hashes = [],
     ta_audience = ''bank'', ta_integration_identity_id = None, ta_enforcement_binding_id = None,
     ta_integration_contract_version_id = None, ta_environment = None, ta_external_operation_id = None\<rparr>"

definition demo_expected :: "string \<Rightarrow> Expected" where
  "demo_expected amt = \<lparr>ex_audience = ''bank'', ex_action = ''vendor_payment'', ex_resource = ''invoice-123'',
     ex_constraints = JObj [(''amount'', JStr amt)], ex_environment = None, ex_enforcement_binding_id = None, ex_principal = None,
     ex_organization_id = Some ''o1''\<rparr>"

lemma issue_returns:
  assumes "public_key_b64_from_signing_key_b64 C k = Some pk"
  shows "\<exists>t. issue_capability_token C A ttl nonce k kid now = Inr t"
proof -
  obtain dict where d: "payload_to_dict (token_payload A ttl nonce now) = Inr dict" by (simp add: payload_to_dict_def token_payload_def)
  then obtain sig where "sign_payload C dict k kid = Some sig" using assms sign_payload_Some_iff by blast
  with d show ?thesis by (simp add: issue_capability_token_def encode_token_def Let_def)
qed

theorem capability_binds_parameters_witness:
  "\<exists>t. issue_capability_token plain_crypto demo_token_args 300 ''n'' ''QUJD'' ''k1'' 0 = Inr t
     \<and> is_ok (verify_capability_token plain_crypto (ict_token t) ''QUJD'' (demo_expected ''48000.00'') 1000000)
     \<and> \<not> is_ok (verify_capability_token plain_crypto (ict_token t) ''QUJD'' (demo_expected ''49000.00'') 1000000)"
proof -
  have pk: "public_key_b64_from_signing_key_b64 plain_crypto ''QUJD'' = Some ''QUJD''" by code_simp
  obtain t where t: "issue_capability_token plain_crypto demo_token_args 300 ''n'' ''QUJD'' ''k1'' 0 = Inr t" using issue_returns [OF pk] by blast
  have a: "args_ok demo_token_args" by (simp add: args_ok_def demo_token_args_def)
  have r: "datetime_range (0 + 300 * 1000000)" by (simp add: datetime_range_def)
  have x: "ex_constraints (demo_expected amt) = JObj [(''amount'', JStr amt)]" "distinct (map fst [(''amount'', JStr amt)])" for amt
    by (simp_all add: demo_expected_def)
  have "map_of [(''amount'', JStr ''49000.00'')] ''amount'' \<noteq> map_of (ta_constraints demo_token_args) ''amount''" by (simp add: demo_token_args_def)
  then have "map_of [(''amount'', JStr ''49000.00'')] \<noteq> map_of (ta_constraints demo_token_args)" by metis
  then show ?thesis using t capability_binds_parameters [where now' = 1000000, OF plain_crypto_correct t a pk r x]
    by (auto simp: demo_expected_def demo_token_args_def)
qed

end
