(* ===== verification/Capability_Service.thy ===== *)
theory Capability_Service
  imports Capability_Token
begin

text \<open>
  \<^verbatim>\<open>server/app/services/capability_service.py\<close>: issuing a capability for an ALLOW decision or an approved review,
  and consuming it at the point of execution. Issuance and consumption are transactions: the UNIQUE
  constraints on \<open>decision_id\<close> and \<open>nonce\<close>, and the conditional UPDATE on \<open>consumed_at\<close>, make each of them atomic.
  Log lines are not modelled.
\<close>

datatype CapabilityServiceError =
    DecisionNotAllowError uuid Outcome
  | CapDecisionNotHumanReviewError Outcome
  | IntegrationIdentityNotActiveError uuid
  | EnforcementBindingNotActiveError uuid
  | OriginAgentNotActiveError uuid
  | TenantNotActiveError uuid
  | CapabilityTokenNotFoundError
  | CapabilityTokenAlreadyConsumedError uuid
  | CapabilityAlreadyIssuedError uuid datetime
  | CapabilityAlreadyConsumedForDecisionError uuid
  | CapabilityExpiredNotRenewedError uuid datetime
  | ReviewNotResolvedError uuid
  | ReviewNotApprovedError Resolution
  | CapIntentError IntentError
  | CapTokenError CapabilityError
  | CapPyError py_error
  | CapIntegrityError

definition DEFAULT_CAPABILITY_TOKEN_TTL_SECONDS :: int where "DEFAULT_CAPABILITY_TOKEN_TTL_SECONDS = 300"

record IssuedCapability =
  isc_token :: string
  isc_capability_id :: uuid
  isc_expires_at :: datetime

definition existing_capability_or_none :: "db \<Rightarrow> uuid \<Rightarrow> CapabilityToken option" where
  "existing_capability_or_none d did = db_find (\<lambda>c. cap_decision_id c = did) (capability_tokens d)"

definition raise_for_existing_capability :: "CapabilityToken \<Rightarrow> datetime \<Rightarrow> CapabilityServiceError" where
  "raise_for_existing_capability c now =
     (if cap_consumed_at c \<noteq> None then CapabilityAlreadyConsumedForDecisionError (cap_id c)
      else if cap_expires_at c < now then CapabilityExpiredNotRenewedError (cap_id c) (cap_expires_at c)
      else CapabilityAlreadyIssuedError (cap_id c) (cap_expires_at c))"

section \<open>Live status\<close>

definition get_identity_row :: "db \<Rightarrow> uuid \<Rightarrow> IntegrationIdentity option" where
  "get_identity_row d i = db_find (\<lambda>r. ii_id r = i) (integration_identities d)"

definition get_binding_row :: "db \<Rightarrow> uuid \<Rightarrow> EnforcementBinding option" where
  "get_binding_row d i = db_find (\<lambda>r. eb_id r = i) (enforcement_bindings d)"

definition check_agent_active :: "db \<Rightarrow> uuid \<Rightarrow> CapabilityServiceError + Agent" where
  "check_agent_active d aid = (case get_agent_row d aid of
     None \<Rightarrow> Inl (OriginAgentNotActiveError aid)
   | Some a \<Rightarrow> if ag_status a \<noteq> AgActive then Inl (OriginAgentNotActiveError aid) else Inr a)"

definition check_integration_identity_active :: "db \<Rightarrow> uuid \<Rightarrow> CapabilityServiceError + IntegrationIdentity" where
  "check_integration_identity_active d iid = (case get_identity_row d iid of
     None \<Rightarrow> Inl (IntegrationIdentityNotActiveError iid)
   | Some i \<Rightarrow> if ii_status i \<noteq> AgActive then Inl (IntegrationIdentityNotActiveError iid) else Inr i)"

definition check_enforcement_binding_active :: "db \<Rightarrow> uuid \<Rightarrow> CapabilityServiceError + EnforcementBinding" where
  "check_enforcement_binding_active d bid = (case get_binding_row d bid of
     None \<Rightarrow> Inl (EnforcementBindingNotActiveError bid)
   | Some b \<Rightarrow> if eb_status b \<noteq> BindActive then Inl (EnforcementBindingNotActiveError bid) else Inr b)"

definition check_organization_active :: "db \<Rightarrow> uuid \<Rightarrow> CapabilityServiceError + Organization" where
  "check_organization_active d oid = (case get_organization_row d oid of
     None \<Rightarrow> Inl (TenantNotActiveError oid)
   | Some r \<Rightarrow> if org_status r \<noteq> OrgActive then Inl (TenantNotActiveError oid) else Inr r)"

section \<open>Issuance\<close>

text \<open>\<open>str\<close> of a NUMERIC(18, 2) value, kept in hundredths, and of a JSON value.\<close>

definition numeric_str :: "int \<Rightarrow> string" where
  "numeric_str n = (if n < 0 then ''-'' else []) @ show_nat (nat \<bar>n\<bar> div 100) @ ''.'' @ pad 2 (nat \<bar>n\<bar> mod 100)"

definition py_str :: "json \<Rightarrow> string" where
  "py_str x = (case x of JStr s \<Rightarrow> s | _ \<Rightarrow> py_repr x)"

fun truthy_str :: "string option \<Rightarrow> bool" where
  "truthy_str None = False"
| "truthy_str (Some s) = (s \<noteq> [])"

definition bound_resource :: "Intent \<Rightarrow> string" where
  "bound_resource it = (if truthy_str (it_resource it) then the (it_resource it)
     else if truthy_str (it_correlation_id it) then the (it_correlation_id it) else it_id it)"

fun context_items :: "json \<Rightarrow> py_error + (string \<times> json) list" where
  "context_items (JObj ps) = Inr ps"
| "context_items x = (if truthy x then Inl AttributeError else Inr [])"

definition bound_constraints :: "Intent \<Rightarrow> py_error + (string \<times> json) list" where
  "bound_constraints it = rmap (\<lambda>items. dict_updates
       ((case it_amount it of None \<Rightarrow> [] | Some n \<Rightarrow> [(''amount'', JStr (numeric_str n))])
        @ (case it_currency it of None \<Rightarrow> [] | Some c \<Rightarrow> [(''currency'', JStr c)]))
       (map (\<lambda>(k, v). (k, JStr (py_str v))) (filter (\<lambda>(k, v). k \<noteq> ''metadata'') items)))
     (context_items (it_context it))"

text \<open>The provenance a capability is bound to, after the live checks of the identity and the binding.\<close>

record CapProvenance =
  vp_integration_identity_id :: "uuid option"
  vp_enforcement_binding_id :: "uuid option"
  vp_integration_contract_version_id :: "uuid option"
  vp_environment :: "string option"
  vp_external_operation_id :: "string option"

definition live_provenance :: "db \<Rightarrow> Intent \<Rightarrow> CapabilityServiceError + CapProvenance" where
  "live_provenance d it = (case it_integration_identity_id it of
     None \<Rightarrow> Inr \<lparr>vp_integration_identity_id = None, vp_enforcement_binding_id = None, vp_integration_contract_version_id = None,
       vp_environment = None, vp_external_operation_id = None\<rparr>
   | Some iid \<Rightarrow>
       rbind (check_integration_identity_active d iid) (\<lambda>i.
       rbind (case it_enforcement_binding_id it of None \<Rightarrow> Inl (EnforcementBindingNotActiveError ''None'')
              | Some bid \<Rightarrow> check_enforcement_binding_active d bid) (\<lambda>b.
         Inr \<lparr>vp_integration_identity_id = Some (ii_id i), vp_enforcement_binding_id = Some (eb_id b),
           vp_integration_contract_version_id = it_integration_contract_version_id it,
           vp_environment = it_environment it, vp_external_operation_id = it_external_operation_id it\<rparr>)))"

definition earliest_payload :: "db \<Rightarrow> uuid \<Rightarrow> json" where
  "earliest_payload d did = (case sort_key ev_created_at (filter (\<lambda>ev. ev_decision_id ev = did) (evidence d)) of
     [] \<Rightarrow> JObj [] | ev # _ \<Rightarrow> ev_payload ev)"

definition token_args :: "crypto \<Rightarrow> uuid \<Rightarrow> Decision \<Rightarrow> Intent \<Rightarrow> string \<Rightarrow> json \<Rightarrow> CapProvenance \<Rightarrow> py_error + TokenArgs" where
  "token_args C oid de it audience payload V =
     rbind (rbind (py_get payload ''principal_name'') (\<lambda>x. as_str (py_or x (JStr [])))) (\<lambda>principal.
     rbind (bound_constraints it) (\<lambda>constraints.
     rbind (rbind (py_get_or payload ''facts_evaluated'' (JList [])) py_list) (\<lambda>facts.
     rbind (py_get payload ''policy_version'') (\<lambda>ver.
       Inr \<lparr>ta_decision_id = de_id de, ta_organization_id = oid, ta_principal = principal, ta_action = it_action it,
         ta_resource = bound_resource it, ta_constraints = constraints, ta_policy_version = ver,
         ta_fact_hashes = map (\<lambda>f. token_hash C (py_str f)) facts, ta_audience = audience,
         ta_integration_identity_id = vp_integration_identity_id V, ta_enforcement_binding_id = vp_enforcement_binding_id V,
         ta_integration_contract_version_id = vp_integration_contract_version_id V, ta_environment = vp_environment V,
         ta_external_operation_id = vp_external_operation_id V\<rparr>))))"

definition new_capability :: "uuid \<Rightarrow> uuid \<Rightarrow> uuid \<Rightarrow> string \<Rightarrow> string \<Rightarrow> string \<Rightarrow> datetime \<Rightarrow> string option \<Rightarrow> CapProvenance \<Rightarrow> datetime \<Rightarrow> CapabilityToken" where
  "new_capability cid oid did audience nonce hash expires_at issued_by V now = \<lparr>cap_id = cid, cap_organization_id = oid, cap_decision_id = did,
     cap_audience = audience, cap_nonce = nonce, cap_token_hash = hash, cap_issued_at = now, cap_expires_at = expires_at,
     cap_consumed_at = None, cap_issued_by = issued_by, cap_integration_identity_id = vp_integration_identity_id V,
     cap_enforcement_binding_id = vp_enforcement_binding_id V, cap_integration_contract_version_id = vp_integration_contract_version_id V,
     cap_environment = vp_environment V, cap_external_operation_id = vp_external_operation_id V\<rparr>"

definition issue_and_persist ::
  "crypto \<Rightarrow> Settings \<Rightarrow> uuid \<Rightarrow> string \<Rightarrow> uuid \<Rightarrow> Decision \<Rightarrow> Intent \<Rightarrow> string \<Rightarrow> string option \<Rightarrow> int \<Rightarrow> datetime \<Rightarrow> db
     \<Rightarrow> CapabilityServiceError + db \<times> IssuedCapability" where
  "issue_and_persist C S cid nonce oid de it audience issued_by ttl_seconds now d =
     (case existing_capability_or_none d (de_id de) of
        Some c \<Rightarrow> Inl (raise_for_existing_capability c now)
      | None \<Rightarrow>
          rbind (check_organization_active d oid) (\<lambda>_.
          rbind (check_agent_active d (it_agent_id it)) (\<lambda>_.
          rbind (live_provenance d it) (\<lambda>V.
          rbind (rlift CapPyError (token_args C oid de it audience (earliest_payload d (de_id de)) V)) (\<lambda>A.
          rbind (rlift CapPyError (issue_capability_token C A ttl_seconds nonce (evidence_signing_key_b64 S) (evidence_signing_key_id S) now)) (\<lambda>issued.
          rbind (rlift CapTokenError (expiry_of (cp_expires_at (ict_payload issued)))) (\<lambda>expires_at.
          rbind (raise_if (\<exists>c \<in> set (capability_tokens d). cap_nonce c = nonce) CapIntegrityError) (\<lambda>_.
            let row = new_capability cid oid (de_id de) audience nonce (ict_token_hash issued) expires_at issued_by V now
            in Inr (d\<lparr>capability_tokens := capability_tokens d @ [row]\<rparr>,
                 \<lparr>isc_token = ict_token issued, isc_capability_id = cid, isc_expires_at = expires_at\<rparr>)))))))))"

definition org_decision :: "db \<Rightarrow> uuid \<Rightarrow> uuid \<Rightarrow> CapabilityServiceError + Decision" where
  "org_decision d did oid = rlift CapIntentError (get_decision_for_organization d did (Some oid))"

definition issue_capability_for_decision ::
  "crypto \<Rightarrow> Settings \<Rightarrow> uuid \<Rightarrow> string \<Rightarrow> uuid \<Rightarrow> uuid \<Rightarrow> string \<Rightarrow> string option \<Rightarrow> int \<Rightarrow> datetime \<Rightarrow> db
     \<Rightarrow> CapabilityServiceError + db \<times> IssuedCapability" where
  "issue_capability_for_decision C S cid nonce oid did audience issued_by ttl_seconds now d =
     rbind (org_decision d did oid) (\<lambda>de.
     rbind (raise_if (de_outcome de \<noteq> OutAllow) (DecisionNotAllowError did (de_outcome de))) (\<lambda>_.
     rbind (get_or_raise (get_intent_row d (de_intent_id de)) (CapPyError AttributeError)) (\<lambda>it.
       issue_and_persist C S cid nonce oid de it audience issued_by ttl_seconds now d)))"

definition issue_capability_for_reviewed_decision ::
  "crypto \<Rightarrow> Settings \<Rightarrow> uuid \<Rightarrow> string \<Rightarrow> uuid \<Rightarrow> uuid \<Rightarrow> string \<Rightarrow> string option \<Rightarrow> int \<Rightarrow> datetime \<Rightarrow> db
     \<Rightarrow> CapabilityServiceError + db \<times> IssuedCapability" where
  "issue_capability_for_reviewed_decision C S cid nonce oid did audience issued_by ttl_seconds now d =
     rbind (org_decision d did oid) (\<lambda>de.
     rbind (raise_if (de_outcome de \<noteq> OutHumanReview) (CapDecisionNotHumanReviewError (de_outcome de))) (\<lambda>_.
     rbind (get_or_raise (resolution_of d did) (ReviewNotResolvedError did)) (\<lambda>r.
     rbind (raise_if (dr_resolution r \<noteq> ResApproved) (ReviewNotApprovedError (dr_resolution r))) (\<lambda>_.
     rbind (get_or_raise (get_intent_row d (de_intent_id de)) (CapPyError AttributeError)) (\<lambda>it.
       issue_and_persist C S cid nonce oid de it audience issued_by ttl_seconds now d)))))"

section \<open>Consumption\<close>

record ConsumedCapability =
  cc_capability_id :: uuid
  cc_decision_id :: json
  cc_resource :: json
  cc_constraints :: json

definition check_opt :: "('a \<Rightarrow> CapabilityServiceError + 'b) \<Rightarrow> 'a option \<Rightarrow> CapabilityServiceError + unit" where
  "check_opt f x = (case x of None \<Rightarrow> Inr () | Some i \<Rightarrow> rmap (\<lambda>_. ()) (f i))"

definition check_consumption_freshness :: "db \<Rightarrow> CapabilityToken \<Rightarrow> CapabilityServiceError + unit" where
  "check_consumption_freshness d c =
     rbind (get_or_raise (get_decision_row d (cap_decision_id c)) (CapPyError AttributeError)) (\<lambda>de.
     rbind (get_or_raise (get_intent_row d (de_intent_id de)) (CapPyError AttributeError)) (\<lambda>it.
     rbind (check_organization_active d (cap_organization_id c)) (\<lambda>_.
     rbind (check_agent_active d (it_agent_id it)) (\<lambda>_.
     rbind (check_opt (check_integration_identity_active d) (cap_integration_identity_id c)) (\<lambda>_.
       check_opt (check_enforcement_binding_active d) (cap_enforcement_binding_id c))))))"

definition extract_key_id :: "string \<Rightarrow> py_error + json" where
  "extract_key_id token = rbind (envelope_of token) (\<lambda>envelope. py_getitem envelope ''key_id'')"

definition key_for :: "db \<Rightarrow> json \<Rightarrow> CapabilityServiceError + string" where
  "key_for d kid = (case kid of
     JStr k \<Rightarrow> get_or_raise (get_public_key_for_key_id d k) (CapTokenError (InvalidCapabilityTokenError ''unknown signing key''))
   | _ \<Rightarrow> Inl (CapPyError IllTyped))"

definition capability_of_token :: "crypto \<Rightarrow> db \<Rightarrow> string \<Rightarrow> CapabilityToken option" where
  "capability_of_token C d token = db_find (\<lambda>c. cap_token_hash c = token_hash C token) (capability_tokens d)"

definition verify_and_consume_capability ::
  "crypto \<Rightarrow> string \<Rightarrow> Expected \<Rightarrow> datetime \<Rightarrow> db \<Rightarrow> CapabilityServiceError + db \<times> ConsumedCapability" where
  "verify_and_consume_capability C token X now d =
     rbind (get_or_raise (capability_of_token C d token) CapabilityTokenNotFoundError) (\<lambda>c.
     rbind (rlift CapPyError (extract_key_id token)) (\<lambda>kid.
     rbind (key_for d kid) (\<lambda>public_key.
     rbind (rlift CapTokenError (verify_capability_token C token public_key X now)) (\<lambda>(p, h).
     rbind (check_consumption_freshness d c) (\<lambda>_.
     if list_ex (\<lambda>r. cap_id r = cap_id c \<and> cap_consumed_at r = None) (capability_tokens d)
     then Inr (d\<lparr>capability_tokens := db_update (\<lambda>r. cap_id r = cap_id c \<and> cap_consumed_at r = None)
                    (\<lambda>r. r\<lparr>cap_consumed_at := Some now\<rparr>) (capability_tokens d)\<rparr>,
               \<lparr>cc_capability_id = cap_id c, cc_decision_id = cp_decision_id p, cc_resource = cp_resource p,
                cc_constraints = cp_constraints p\<rparr>)
     else Inl (CapabilityTokenAlreadyConsumedError (cap_id c)))))))"

section \<open>What issuance and consumption do\<close>

lemma check_active_Inr [simp]:
  "check_agent_active d i = Inr a \<longleftrightarrow> get_agent_row d i = Some a \<and> ag_status a = AgActive"
  "check_organization_active d i = Inr r \<longleftrightarrow> get_organization_row d i = Some r \<and> org_status r = OrgActive"
  "check_integration_identity_active d i = Inr y \<longleftrightarrow> get_identity_row d i = Some y \<and> ii_status y = AgActive"
  "check_enforcement_binding_active d i = Inr b \<longleftrightarrow> get_binding_row d i = Some b \<and> eb_status b = BindActive"
  by (auto simp: check_agent_active_def check_organization_active_def check_integration_identity_active_def
      check_enforcement_binding_active_def split: option.splits if_splits)

lemma check_opt_Inr [simp]: "check_opt f x = Inr u \<longleftrightarrow> (\<forall>i. x = Some i \<longrightarrow> is_ok (f i))"
  by (auto simp: check_opt_def is_ok_iff split: option.splits)

lemma issue_and_persistD:
  assumes "issue_and_persist C S cid nonce oid de it audience issued_by ttl now d = Inr (d', ic)"
  obtains row V A issued r a where "existing_capability_or_none d (de_id de) = None" "get_organization_row d oid = Some r" "org_status r = OrgActive"
    "get_agent_row d (it_agent_id it) = Some a" "ag_status a = AgActive" "live_provenance d it = Inr V"
    "token_args C oid de it audience (earliest_payload d (de_id de)) V = Inr A"
    "issue_capability_token C A ttl nonce (evidence_signing_key_b64 S) (evidence_signing_key_id S) now = Inr issued"
    "d' = d\<lparr>capability_tokens := capability_tokens d @ [row]\<rparr>"
    "row = new_capability cid oid (de_id de) audience nonce (ict_token_hash issued) (isc_expires_at ic) issued_by V now"
    "isc_token ic = ict_token issued" "expiry_of (cp_expires_at (ict_payload issued)) = Inr (isc_expires_at ic)"
    "nonce \<notin> cap_nonce ` set (capability_tokens d)"
proof -
  from assms have n: "existing_capability_or_none d (de_id de) = None" by (auto simp: issue_and_persist_def split: option.splits)
  from assms show thesis unfolding issue_and_persist_def n option.case by (auto simp: Let_def n intro!: that)
qed

lemma org_decision_Inr:
  "org_decision d did oid = Inr de \<longleftrightarrow> get_decision_row d did = Some de
     \<and> (\<exists>it. get_intent_row d (de_intent_id de) = Some it \<and> resolve_chain_scope d (it_agent_id it) = Some oid)"
  by (auto simp: org_decision_def get_decision_for_organization_def split: option.splits if_splits)

lemma issue_for_decisionD:
  assumes "issue_capability_for_decision C S cid nonce oid did audience issued_by ttl now d = Inr (d', ic)"
  obtains de it where "get_decision_row d did = Some de" "de_outcome de = OutAllow" "get_intent_row d (de_intent_id de) = Some it"
    "resolve_chain_scope d (it_agent_id it) = Some oid" "issue_and_persist C S cid nonce oid de it audience issued_by ttl now d = Inr (d', ic)"
  using assms by (auto simp: issue_capability_for_decision_def org_decision_Inr)

lemma issue_for_reviewD:
  assumes "issue_capability_for_reviewed_decision C S cid nonce oid did audience issued_by ttl now d = Inr (d', ic)"
  obtains de it r where "get_decision_row d did = Some de" "de_outcome de = OutHumanReview" "resolution_of d did = Some r"
    "dr_resolution r = ResApproved" "get_intent_row d (de_intent_id de) = Some it"
    "resolve_chain_scope d (it_agent_id it) = Some oid" "issue_and_persist C S cid nonce oid de it audience issued_by ttl now d = Inr (d', ic)"
  using assms by (auto simp: issue_capability_for_reviewed_decision_def org_decision_Inr)

lemma consumeD:
  assumes "verify_and_consume_capability C token X now d = Inr (d', cc)"
  obtains c p kid pk h where "capability_of_token C d token = Some c" "extract_key_id token = Inr (JStr kid)"
    "get_public_key_for_key_id d kid = Some pk" "verify_capability_token C token pk X now = Inr (p, h)"
    "check_consumption_freshness d c = Inr ()"
    "\<exists>r \<in> set (capability_tokens d). cap_id r = cap_id c \<and> cap_consumed_at r = None"
    "d' = d\<lparr>capability_tokens := db_update (\<lambda>r. cap_id r = cap_id c \<and> cap_consumed_at r = None)
              (\<lambda>r. r\<lparr>cap_consumed_at := Some now\<rparr>) (capability_tokens d)\<rparr>"
    "cc = \<lparr>cc_capability_id = cap_id c, cc_decision_id = cp_decision_id p, cc_resource = cp_resource p, cc_constraints = cp_constraints p\<rparr>"
  using assms
  by (auto simp: verify_and_consume_capability_def key_for_def list_ex_iff split: prod.splits if_splits json.splits) blast

lemma freshnessD:
  assumes "check_consumption_freshness d c = Inr ()"
  obtains de it r a where "get_decision_row d (cap_decision_id c) = Some de" "get_intent_row d (de_intent_id de) = Some it"
    "get_organization_row d (cap_organization_id c) = Some r" "org_status r = OrgActive" "get_agent_row d (it_agent_id it) = Some a" "ag_status a = AgActive"
    "\<forall>i. cap_integration_identity_id c = Some i \<longrightarrow> (\<exists>y. get_identity_row d i = Some y \<and> ii_status y = AgActive)"
    "\<forall>i. cap_enforcement_binding_id c = Some i \<longrightarrow> (\<exists>b. get_binding_row d i = Some b \<and> eb_status b = BindActive)"
  using assms by (auto simp: check_consumption_freshness_def is_ok_iff)

section \<open>The life of a capability\<close>

text \<open>
  The steps that matter to capabilities: the two ways of issuing (a new primary key is fresh), a
  consumption, and anything that leaves the table alone.
\<close>

inductive capability_step :: "crypto \<Rightarrow> db \<Rightarrow> db \<Rightarrow> bool" for C where
  issue: "\<lbrakk>issue_capability_for_decision C S cid nonce oid did audience issued_by ttl now d = Inr (d', ic);
    cid \<notin> cap_id ` set (capability_tokens d)\<rbrakk> \<Longrightarrow> capability_step C d d'"
| issue_reviewed: "\<lbrakk>issue_capability_for_reviewed_decision C S cid nonce oid did audience issued_by ttl now d = Inr (d', ic);
    cid \<notin> cap_id ` set (capability_tokens d)\<rbrakk> \<Longrightarrow> capability_step C d d'"
| consume: "verify_and_consume_capability C token X now d = Inr (d', cc) \<Longrightarrow> capability_step C d d'"
| elsewhere: "capability_tokens d' = capability_tokens d \<Longrightarrow> capability_step C d d'"

text \<open>Every step appends one row for a decision without one, marks one row consumed, or changes nothing.\<close>

definition mark_consumed :: "uuid \<Rightarrow> datetime \<Rightarrow> CapabilityToken list \<Rightarrow> CapabilityToken list" where
  "mark_consumed i now = db_update (\<lambda>r. cap_id r = i \<and> cap_consumed_at r = None) (\<lambda>r. r\<lparr>cap_consumed_at := Some now\<rparr>)"

lemma issue_and_persist_row:
  assumes "issue_and_persist C S cid nonce oid de it audience issued_by ttl now d = Inr (d', ic)"
  shows "\<exists>row. d' = d\<lparr>capability_tokens := capability_tokens d @ [row]\<rparr> \<and> cap_id row = cid \<and> cap_decision_id row = de_id de
    \<and> cap_decision_id row \<notin> cap_decision_id ` set (capability_tokens d) \<and> cap_nonce row \<notin> cap_nonce ` set (capability_tokens d)
    \<and> cap_consumed_at row = None \<and> cap_organization_id row = oid \<and> cap_token_hash row = token_hash C (isc_token ic)"
  using assms
proof (rule issue_and_persistD)
  fix row V A issued
  assume s: "existing_capability_or_none d (de_id de) = None" "d' = d\<lparr>capability_tokens := capability_tokens d @ [row]\<rparr>"
    "row = new_capability cid oid (de_id de) audience nonce (ict_token_hash issued) (isc_expires_at ic) issued_by V now"
    "nonce \<notin> cap_nonce ` set (capability_tokens d)" "isc_token ic = ict_token issued"
    and i: "issue_capability_token C A ttl nonce (evidence_signing_key_b64 S) (evidence_signing_key_id S) now = Inr issued"
  have h: "ict_token_hash issued = token_hash C (ict_token issued)" using i by (rule issued_token)
  from s have "de_id de \<notin> cap_decision_id ` set (capability_tokens d)"
    by (auto simp: existing_capability_or_none_def db_find_None_iff)
  with s h show ?thesis by (intro exI [of _ row]) (simp add: new_capability_def)
qed

lemma capability_step_cases [consumes 1, case_names added consumed same]:
  assumes "capability_step C d d'"
  obtains row where "capability_tokens d' = capability_tokens d @ [row]" "cap_id row \<notin> cap_id ` set (capability_tokens d)"
      "cap_decision_id row \<notin> cap_decision_id ` set (capability_tokens d)" "cap_nonce row \<notin> cap_nonce ` set (capability_tokens d)"
      "cap_consumed_at row = None"
  | i now where "capability_tokens d' = mark_consumed i now (capability_tokens d)"
  | "capability_tokens d' = capability_tokens d"
  using assms
proof cases
  case (issue S cid nonce oid did audience issued_by ttl now ic)
  from issue(1) obtain de it where "issue_and_persist C S cid nonce oid de it audience issued_by ttl now d = Inr (d', ic)" by (rule issue_for_decisionD)
  from issue_and_persist_row [OF this] issue(2) that(1) show thesis by auto
next
  case (issue_reviewed S cid nonce oid did audience issued_by ttl now ic)
  from issue_reviewed(1) obtain de it where "issue_and_persist C S cid nonce oid de it audience issued_by ttl now d = Inr (d', ic)" by (rule issue_for_reviewD)
  from issue_and_persist_row [OF this] issue_reviewed(2) that(1) show thesis by auto
next
  case (consume token X now cc)
  then show thesis
  proof (rule consumeD)
    fix c
    assume "d' = d\<lparr>capability_tokens := db_update (\<lambda>r. cap_id r = cap_id c \<and> cap_consumed_at r = None)
              (\<lambda>r. r\<lparr>cap_consumed_at := Some now\<rparr>) (capability_tokens d)\<rparr>"
    then show thesis using that(2) by (simp add: mark_consumed_def)
  qed
qed (use that(3) in blast)

lemma mark_consumed_keys [simp]:
  "map cap_id (mark_consumed i now t) = map cap_id t" "map cap_decision_id (mark_consumed i now t) = map cap_decision_id t"
  "map cap_nonce (mark_consumed i now t) = map cap_nonce t" "map cap_token_hash (mark_consumed i now t) = map cap_token_hash t"
  by (simp_all add: mark_consumed_def db_update_def)

definition caps_keyed :: "db \<Rightarrow> bool" where
  "caps_keyed d = (distinct (map cap_id (capability_tokens d)) \<and> distinct (map cap_decision_id (capability_tokens d))
     \<and> distinct (map cap_nonce (capability_tokens d)))"

lemma caps_keyed_step: "capability_step C d d' \<Longrightarrow> caps_keyed d \<Longrightarrow> caps_keyed d'"
  by (cases rule: capability_step_cases) (auto simp: caps_keyed_def)

lemma caps_keyed_run: "(capability_step C)\<^sup>*\<^sup>* d d' \<Longrightarrow> caps_keyed d \<Longrightarrow> caps_keyed d'"
  by (induction rule: rtranclp_induct) (auto intro: caps_keyed_step)

datatype CapabilityStatus = CapOutstanding | CapConsumed

definition cap_status :: "CapabilityToken \<Rightarrow> CapabilityStatus" where
  "cap_status c = (if cap_consumed_at c = None then CapOutstanding else CapConsumed)"

definition cap_status_of :: "db \<Rightarrow> uuid \<Rightarrow> CapabilityStatus option" where
  "cap_status_of d i = map_option cap_status (db_find (\<lambda>c. cap_id c = i) (capability_tokens d))"

definition cap_may :: "CapabilityStatus \<Rightarrow> CapabilityStatus \<Rightarrow> bool" where
  "cap_may s s' = (s = CapOutstanding \<and> s' = CapConsumed)"

lemma find_mark_consumed:
  "db_find (\<lambda>c. cap_id c = j) (mark_consumed i now t) =
     map_option (\<lambda>r. if cap_id r = i \<and> cap_consumed_at r = None then r\<lparr>cap_consumed_at := Some now\<rparr> else r) (db_find (\<lambda>c. cap_id c = j) t)"
  unfolding mark_consumed_def by (rule db_find_db_update) simp

interpretation cap_lifecycle: lifecycle cap_status_of "capability_step C" cap_may for C
proof
  fix d d' i s
  assume "capability_step C d d'" and s: "cap_status_of d i = Some s"
  then show "\<exists>s'. cap_status_of d' i = Some s' \<and> (s' = s \<or> cap_may s s')"
  proof (cases rule: capability_step_cases)
    case (added row)
    with s have "cap_status_of d' i = Some s" by (auto simp: cap_status_of_def row_simps)
    then show ?thesis by blast
  next
    case (consumed j now)
    obtain z where z: "db_find (\<lambda>c. cap_id c = i) (capability_tokens d) = Some z" "s = cap_status z"
      using s by (auto simp: cap_status_of_def)
    then show ?thesis by (simp add: cap_status_of_def consumed find_mark_consumed cap_status_def cap_may_def)
  qed (use s in \<open>auto simp: cap_status_of_def\<close>)
qed

lemma capability_row_step:
  assumes "capability_step C d d'" "capability_of_token C d tok = Some c"
  shows "\<exists>c'. capability_of_token C d' tok = Some c' \<and> cap_id c' = cap_id c"
  using assms(1)
proof (cases rule: capability_step_cases)
  case (consumed i now)
  have "capability_of_token C d' tok = map_option (\<lambda>r. if cap_id r = i \<and> cap_consumed_at r = None then r\<lparr>cap_consumed_at := Some now\<rparr> else r)
      (capability_of_token C d tok)"
    unfolding capability_of_token_def consumed mark_consumed_def by (rule db_find_db_update) simp
  with assms(2) show ?thesis by auto
qed (use assms(2) in \<open>auto simp: capability_of_token_def row_simps\<close>)

lemma capability_row_run:
  "(capability_step C)\<^sup>*\<^sup>* d d' \<Longrightarrow> capability_of_token C d tok = Some c \<Longrightarrow> \<exists>c'. capability_of_token C d' tok = Some c' \<and> cap_id c' = cap_id c"
  by (induction rule: rtranclp_induct) (fastforce dest: capability_row_step)+

lemma consumed_row:
  assumes "caps_keyed d" "capability_of_token C d token = Some c"
    "\<exists>r \<in> set (capability_tokens d). cap_id r = cap_id c \<and> cap_consumed_at r = None"
  shows "cap_consumed_at c = None"
proof -
  have "c \<in> set (capability_tokens d)" using assms(2) unfolding capability_of_token_def by (blast dest: db_find_Some)
  then show ?thesis using assms(1,3) by (auto simp: caps_keyed_def distinct_map dest: inj_onD)
qed

lemma consumed_refused:
  assumes "caps_keyed d" "capability_of_token C d token = Some c" "cap_status_of d (cap_id c) = Some CapConsumed"
  shows "\<not> is_ok (verify_and_consume_capability C token X now d)"
proof
  assume "is_ok (verify_and_consume_capability C token X now d)"
  then obtain r where "verify_and_consume_capability C token X now d = Inr r" by (auto simp: is_ok_iff)
  then obtain d' cc where "verify_and_consume_capability C token X now d = Inr (d', cc)" by (cases r) auto
  then show False
  proof (rule consumeD)
    fix c'
    assume "capability_of_token C d token = Some c'" and un: "\<exists>r \<in> set (capability_tokens d). cap_id r = cap_id c' \<and> cap_consumed_at r = None"
    with assms(2) have c': "c' = c" by simp
    then obtain r where r: "r \<in> set (capability_tokens d)" "cap_id r = cap_id c" "cap_consumed_at r = None" using un by blast
    have "db_find (\<lambda>x. cap_id x = cap_id c) (capability_tokens d) = Some r"
      using db_find_unique [of cap_id "capability_tokens d" r] r assms(1) by (simp add: caps_keyed_def)
    with assms(3) r show False by (simp add: cap_status_of_def cap_status_def)
  qed
qed

section \<open>What a capability is bound to\<close>

lemma map_of_dict_updates: "map_of (dict_updates base kvs) k = (case map_of (rev kvs) k of Some v \<Rightarrow> Some v | None \<Rightarrow> map_of base k)"
proof (induction kvs arbitrary: base)
  case (Cons kv kvs)
  then show ?case by (cases kv) (auto simp: dict_updates_def update_conv' map_add_Some_iff split: option.splits)
qed (simp add: dict_updates_def)

lemma dict_updates_keys: "distinct (map fst base) \<Longrightarrow> distinct (map fst (dict_updates base kvs))"
  by (induction kvs arbitrary: base) (auto simp: dict_updates_def intro!: distinct_update)

lemma dict_updates_strings:
  "list_all (\<lambda>(k, v). \<exists>s. v = JStr s) base \<Longrightarrow> list_all (\<lambda>(k, v). \<exists>s. v = JStr s) kvs \<Longrightarrow>
     list_all (\<lambda>(k, v). \<exists>s. v = JStr s) (dict_updates base kvs)"
proof (induction kvs arbitrary: base)
  case (Cons kv kvs)
  have "list_all (\<lambda>(k, v). \<exists>s. v = JStr s) (AList.update (fst kv) (snd kv) base)"
    using Cons.prems by (induction base) (auto split: if_splits)
  with Cons show ?case by (simp add: dict_updates_def)
qed (simp add: dict_updates_def)

lemma map_of_mapped: "map_of (map (\<lambda>(k, v). (k, f v)) ps) k = map_option f (map_of ps k)"
  by (induction ps) auto

lemma map_of_rev_distinct: "distinct (map fst xs) \<Longrightarrow> map_of (rev xs) = map_of xs"
  by (subst map_of_inject_set) (simp_all add: rev_map [symmetric])

lemma bound_constraints_of:
  assumes "it_context it = JObj ps" "distinct (map fst ps)"
  shows "\<exists>cs. bound_constraints it = Inr cs \<and> distinct (map fst cs) \<and> list_all (\<lambda>(k, v). \<exists>s. v = JStr s) cs
    \<and> (\<forall>k. map_of cs k = (if k = ''metadata'' then None
        else case map_of ps k of Some v \<Rightarrow> Some (JStr (py_str v))
          | None \<Rightarrow> if k = ''amount'' then map_option (\<lambda>n. JStr (numeric_str n)) (it_amount it)
                   else if k = ''currency'' then map_option JStr (it_currency it) else None))"
proof -
  let ?b = "(case it_amount it of None \<Rightarrow> [] | Some n \<Rightarrow> [(''amount'', JStr (numeric_str n))])
        @ (case it_currency it of None \<Rightarrow> [] | Some c \<Rightarrow> [(''currency'', JStr c)])"
  let ?qs = "filter (\<lambda>(k, v). k \<noteq> ''metadata'') ps"
  let ?kvs = "map (\<lambda>(k, v). (k, JStr (py_str v))) ?qs"
  have k: "map fst ?kvs = map fst ?qs" by (simp add: case_prod_unfold comp_def)
  have "distinct (map fst ?kvs)" unfolding k using assms(2) by (rule distinct_map_filter)
  then have "map_of (rev ?kvs) = map_of ?kvs" by (rule map_of_rev_distinct)
  moreover have "map_of ?kvs = (\<lambda>x. map_option (\<lambda>v. JStr (py_str v)) (map_of ?qs x))" by (rule ext, rule map_of_mapped)
  moreover have "map_of ?qs x = (if x = ''metadata'' then None else map_of ps x)" for x by (induction ps) auto
  ultimately have m: "map_of (rev ?kvs) x = (if x = ''metadata'' then None else map_option (\<lambda>v. JStr (py_str v)) (map_of ps x))" for x by simp
  have "distinct (map fst ?b)" "list_all (\<lambda>(k, v). \<exists>s. v = JStr s) ?b" by (auto split: option.split)
  then have "distinct (map fst (dict_updates ?b ?kvs))" "list_all (\<lambda>(k, v). \<exists>s. v = JStr s) (dict_updates ?b ?kvs)"
    using dict_updates_keys [of ?b ?kvs] dict_updates_strings [of ?b ?kvs] by (auto simp: list_all_iff)
  moreover have "bound_constraints it = Inr (dict_updates ?b ?kvs)" by (simp add: bound_constraints_def assms(1))
  ultimately show ?thesis by (auto simp: map_of_dict_updates m split: option.split)
qed

section \<open>From issuance to consumption\<close>

text \<open>The Evidence payload of the decision has the policy version as \<open>_build_evidence_payload\<close> writes it.\<close>

definition version_ok :: "db \<Rightarrow> uuid \<Rightarrow> bool" where
  "version_ok d did = (\<forall>v. obj_get (earliest_payload d did) ''policy_version'' = Some v \<longrightarrow> (\<exists>i. v = JInt i))"

text \<open>What an execution presents: the values of the decided intent.\<close>

definition execution_of :: "uuid \<Rightarrow> string \<Rightarrow> Intent \<Rightarrow> (string \<times> json) list \<Rightarrow> Expected" where
  "execution_of oid audience it cs = \<lparr>ex_audience = audience, ex_action = it_action it, ex_resource = bound_resource it, ex_constraints = JObj cs,
     ex_environment = None, ex_enforcement_binding_id = None, ex_principal = None, ex_organization_id = Some oid\<rparr>"

lemma token_args_fields:
  assumes "token_args C oid de it audience payload V = Inr A" "\<forall>v. obj_get payload ''policy_version'' = Some v \<longrightarrow> (\<exists>i. v = JInt i)"
    "it_context it = JObj ps" "distinct (map fst ps)" "bound_constraints it = Inr cs"
  shows "args_ok A \<and> ta_constraints A = cs \<and> ta_audience A = audience \<and> ta_action A = it_action it \<and> ta_resource A = bound_resource it
    \<and> ta_organization_id A = oid"
proof -
  have c: "distinct (map fst cs)" "list_all (\<lambda>(k, v). \<exists>s. v = JStr s) cs" using bound_constraints_of [OF assms(3,4)] assms(5) by auto
  from assms(1,5) obtain ver where v: "py_get payload ''policy_version'' = Inr ver" and A: "ta_constraints A = cs" "ta_audience A = audience"
      "ta_action A = it_action it" "ta_resource A = bound_resource it" "ta_organization_id A = oid" "ta_policy_version A = ver"
    by (auto simp: token_args_def)
  have "ver = JNull \<or> (\<exists>i. ver = JInt i)" using v assms(2) by (cases payload) (auto simp: py_get_def py_get_or_def split: option.splits)
  with c A show ?thesis by (simp add: args_ok_def)
qed

lemma live_provenance_bound:
  assumes "live_provenance d it = Inr V"
  shows "(\<forall>i. vp_integration_identity_id V = Some i \<longrightarrow> (\<exists>y. get_identity_row d i = Some y \<and> ii_status y = AgActive))
    \<and> (\<forall>i. vp_enforcement_binding_id V = Some i \<longrightarrow> (\<exists>b. get_binding_row d i = Some b \<and> eb_status b = BindActive))"
proof -
  have "ii_id y = i" if "get_identity_row d i = Some y" for i y using db_find_Some [OF that [unfolded get_identity_row_def]] by simp
  moreover have "eb_id b = i" if "get_binding_row d i = Some b" for i b using db_find_Some [OF that [unfolded get_binding_row_def]] by simp
  ultimately show ?thesis using assms by (auto simp: live_provenance_def split: option.splits)
qed

lemma rows_keep [simp]:
  "get_decision_row (d\<lparr>capability_tokens := t\<rparr>) = get_decision_row d" "get_intent_row (d\<lparr>capability_tokens := t\<rparr>) = get_intent_row d"
  "get_organization_row (d\<lparr>capability_tokens := t\<rparr>) = get_organization_row d" "get_agent_row (d\<lparr>capability_tokens := t\<rparr>) = get_agent_row d"
  "get_identity_row (d\<lparr>capability_tokens := t\<rparr>) = get_identity_row d" "get_binding_row (d\<lparr>capability_tokens := t\<rparr>) = get_binding_row d"
  "get_public_key_for_key_id (d\<lparr>capability_tokens := t\<rparr>) = get_public_key_for_key_id d"
  by (simp_all add: fun_eq_iff get_decision_row_def get_intent_row_def get_organization_row_def get_agent_row_def get_identity_row_def
      get_binding_row_def get_public_key_for_key_id_def)

lemma issued_consumable:
  assumes "issue_and_persist C S cid nonce oid de it audience issued_by ttl now d = Inr (d1, ic)" "ed25519_correct C" "registered C S d"
    "get_decision_row d (de_id de) = Some de" "get_intent_row d (de_intent_id de) = Some it"
    "it_context it = JObj ps" "distinct (map fst ps)" "bound_constraints it = Inr cs" "version_ok d (de_id de)"
    "datetime_range (now + ttl * 1000000)" "now' \<le> now + ttl * 1000000"
    "token_hash C (isc_token ic) \<notin> cap_token_hash ` set (capability_tokens d)"
  shows "\<exists>d2 cc. verify_and_consume_capability C (isc_token ic) (execution_of oid audience it cs) now' d1 = Inr (d2, cc)"
  using assms(1)
proof (rule issue_and_persistD)
  fix row V A issued r a
  assume s: "get_organization_row d oid = Some r" "org_status r = OrgActive" "get_agent_row d (it_agent_id it) = Some a" "ag_status a = AgActive"
    "live_provenance d it = Inr V" "token_args C oid de it audience (earliest_payload d (de_id de)) V = Inr A"
    "issue_capability_token C A ttl nonce (evidence_signing_key_b64 S) (evidence_signing_key_id S) now = Inr issued"
    "d1 = d\<lparr>capability_tokens := capability_tokens d @ [row]\<rparr>"
    "row = new_capability cid oid (de_id de) audience nonce (ict_token_hash issued) (isc_expires_at ic) issued_by V now"
    "isc_token ic = ict_token issued"
  note A = token_args_fields [OF s(6) assms(9) [unfolded version_ok_def] assms(6-8)]
  have cs: "distinct (map fst cs)" using bound_constraints_of [OF assms(6,7)] assms(8) by auto
  have h: "ict_token_hash issued = token_hash C (ict_token issued)" using s(7) by (rule issued_token)
  obtain pk where pk: "public_key_b64_from_signing_key_b64 C (evidence_signing_key_b64 S) = Some pk"
      "get_public_key_for_key_id d (evidence_signing_key_id S) = Some pk" using assms(3) by (auto simp: registered_def)
  have "db_find (\<lambda>c. cap_token_hash c = token_hash C (isc_token ic)) (capability_tokens d) = None"
    using assms(12) by (simp add: db_find_None_iff image_iff) metis
  then have tok: "capability_of_token C d1 (isc_token ic) = Some row"
    using s(8,9,10) h by (simp add: capability_of_token_def row_simps new_capability_def)
  have kid: "extract_key_id (isc_token ic) = Inr (JStr (evidence_signing_key_id S))"
    using decode_issued [OF s(7)] A s(10) by (simp add: extract_key_id_def)
  obtain p where ver: "verify_capability_token C (isc_token ic) pk (execution_of oid audience it cs) now' = Inr p"
    using verify_issued [OF assms(2) s(7) _ pk(1) assms(10) _ cs, of "execution_of oid audience it cs" now'] A assms(11) s(10)
    by (auto simp: presented_def execution_of_def)
  have fresh: "check_consumption_freshness d1 row = Inr ()"
    using assms(4,5) s(1-4) live_provenance_bound [OF s(5)]
    by (simp add: check_consumption_freshness_def s(8,9) new_capability_def is_ok_iff)
  have "row \<in> set (capability_tokens d1)" "cap_consumed_at row = None" by (simp_all add: s(8,9) new_capability_def)
  then have "list_ex (\<lambda>x. cap_id x = cap_id row \<and> cap_consumed_at x = None) (capability_tokens d1)" by (auto simp: list_ex_iff)
  then show ?thesis using tok kid pk(2) ver fresh by (cases p) (simp add: verify_and_consume_capability_def key_for_def s(8))
qed

section \<open>Claims\<close>

text \<open>C6: a capability is used once, and only while everyone involved is active. A successful consumption finds an
  unconsumed capability, and at that moment the organization it belongs to, the agent whose intent was decided, and the
  integration identity and the enforcement binding it is bound to are active; it returns the signed
  values; and after any further run of operations the same token is refused, whatever is presented with it.\<close>

theorem capability_consumed_once:
  assumes "caps_keyed d" and "verify_and_consume_capability C token X now d = Inr (d1, cc)" and "(capability_step C)\<^sup>*\<^sup>* d1 d2"
  shows "(\<exists>c de it r a. capability_of_token C d token = Some c \<and> cc_capability_id cc = cap_id c \<and> cap_consumed_at c = None
      \<and> get_decision_row d (cap_decision_id c) = Some de \<and> get_intent_row d (de_intent_id de) = Some it
      \<and> get_organization_row d (cap_organization_id c) = Some r \<and> org_status r = OrgActive
      \<and> get_agent_row d (it_agent_id it) = Some a \<and> ag_status a = AgActive
      \<and> (\<forall>i. cap_integration_identity_id c = Some i \<longrightarrow> (\<exists>y. get_identity_row d i = Some y \<and> ii_status y = AgActive))
      \<and> (\<forall>i. cap_enforcement_binding_id c = Some i \<longrightarrow> (\<exists>b. get_binding_row d i = Some b \<and> eb_status b = BindActive)))
    \<and> (\<forall>X' now'. \<not> is_ok (verify_and_consume_capability C token X' now' d2))"
  using assms(2)
proof (rule consumeD)
  fix c p kid pk h
  assume s: "capability_of_token C d token = Some c" "check_consumption_freshness d c = Inr ()"
    "\<exists>r \<in> set (capability_tokens d). cap_id r = cap_id c \<and> cap_consumed_at r = None"
    "d1 = d\<lparr>capability_tokens := db_update (\<lambda>r. cap_id r = cap_id c \<and> cap_consumed_at r = None)
              (\<lambda>r. r\<lparr>cap_consumed_at := Some now\<rparr>) (capability_tokens d)\<rparr>"
    "cc = \<lparr>cc_capability_id = cap_id c, cc_decision_id = cp_decision_id p, cc_resource = cp_resource p, cc_constraints = cp_constraints p\<rparr>"
  have st: "capability_step C d d1" using assms(2) by (rule capability_step.consume)
  note u = consumed_row [OF assms(1) s(1,3)]
  have row: "db_find (\<lambda>x. cap_id x = cap_id c) (capability_tokens d) = Some c"
    using assms(1) s(1) db_find_unique [of cap_id "capability_tokens d" c] by (auto simp: caps_keyed_def capability_of_token_def dest: db_find_Some)
  have "cap_status_of d1 (cap_id c) = Some CapConsumed"
    using find_mark_consumed [of "cap_id c" "cap_id c" now "capability_tokens d"] row u
    by (simp add: s(4) cap_status_of_def mark_consumed_def cap_status_def)
  then have st2: "cap_status_of d2 (cap_id c) = Some CapConsumed"
    using cap_lifecycle.terminal_final [OF _ assms(3)] by (simp add: cap_lifecycle.terminal_def cap_may_def)
  have k2: "caps_keyed d2" using caps_keyed_run [OF assms(3) caps_keyed_step [OF st assms(1)]] .
  obtain c2 where "capability_of_token C d2 token = Some c2" "cap_id c2 = cap_id c"
    using capability_row_step [OF st s(1)] capability_row_run [OF assms(3)] by metis
  then have "\<forall>X' now'. \<not> is_ok (verify_and_consume_capability C token X' now' d2)" using consumed_refused [OF k2] st2 by metis
  moreover have "cc_capability_id cc = cap_id c" by (simp add: s(5))
  ultimately show ?thesis using freshnessD [OF s(2)] s(1) u by metis
qed

text \<open>What the constraints of a capability say. They are strings under distinct keys; a context key other
  than metadata contributes its printed value, and the intent's own amount and currency appear only
  where the caller's context has no key of that name: a context entry called amount or currency replaces
  the evaluated value.\<close>

theorem context_replaces_amount:
  assumes "it_context it = JObj ps" and "distinct (map fst ps)"
  shows "\<exists>cs. bound_constraints it = Inr cs \<and> distinct (map fst cs)
    \<and> (\<forall>v. map_of ps ''amount'' = Some v \<longrightarrow> map_of cs ''amount'' = Some (JStr (py_str v)))
    \<and> (map_of ps ''amount'' = None \<longrightarrow> map_of cs ''amount'' = map_option (\<lambda>n. JStr (numeric_str n)) (it_amount it))
    \<and> (\<forall>v. map_of ps ''currency'' = Some v \<longrightarrow> map_of cs ''currency'' = Some (JStr (py_str v)))
    \<and> (map_of ps ''currency'' = None \<longrightarrow> map_of cs ''currency'' = map_option JStr (it_currency it))
    \<and> (\<forall>k. k \<notin> {''amount'', ''currency'', ''metadata''} \<longrightarrow> map_of cs k = map_option (\<lambda>v. JStr (py_str v)) (map_of ps k))
    \<and> map_of cs ''metadata'' = None"
  using bound_constraints_of [OF assms] by (auto split: option.split)

theorem context_replaces_amount_witness:
  "bound_constraints (new_intent ''i1'' ''a1'' None ''vendor_payment'' (Some 100) (Some ''EUR'') None None None [(''amount'', JStr ''9000000'')] ''n'' 0 0)
   = Inr [(''amount'', JStr ''9000000''), (''currency'', JStr ''EUR'')]"
proof -
  let ?it = "new_intent ''i1'' ''a1'' None ''vendor_payment'' (Some 100) (Some ''EUR'') None None None [(''amount'', JStr ''9000000'')] ''n'' 0 0"
  have c: "it_context ?it = JObj [(''amount'', JStr ''9000000'')]" "distinct (map fst [(''amount'', JStr ''9000000'')])" by (simp_all add: new_intent_def)
  obtain cs where cs: "bound_constraints ?it = Inr cs" "map_of cs ''amount'' = Some (JStr (py_str (JStr ''9000000'')))"
    using context_replaces_amount [OF c] by auto
  have "py_str (JStr ''9000000'') = ''9000000''" by (simp add: py_str_def)
  with cs show ?thesis by (simp add: bound_constraints_def new_intent_def dict_updates_def)
qed

text \<open>C34: an issued capability can be executed. A capability that was just issued, on either path, is consumed
  successfully by an execution that presents the audience, the action, the resource and the constraints of the
  decided intent for the right organization at any time until it expires, provided the signing key is
  registered and no earlier capability has the hash of the new token.\<close>

theorem issued_capability_executes:
  assumes "issue_capability_for_decision C S cid nonce oid did audience issued_by ttl now d = Inr (d1, ic)
      \<or> issue_capability_for_reviewed_decision C S cid nonce oid did audience issued_by ttl now d = Inr (d1, ic)"
    and "ed25519_correct C" and "registered C S d" and "version_ok d did"
    and "get_decision_row d did = Some de" and "get_intent_row d (de_intent_id de) = Some it"
    and "it_context it = JObj ps" and "distinct (map fst ps)"
    and "datetime_range (now + ttl * 1000000)" and "now' \<le> now + ttl * 1000000"
    and "token_hash C (isc_token ic) \<notin> cap_token_hash ` set (capability_tokens d)"
  shows "\<exists>cs d2 cc. bound_constraints it = Inr cs
    \<and> verify_and_consume_capability C (isc_token ic) (execution_of oid audience it cs) now' d1 = Inr (d2, cc)
    \<and> cc_capability_id cc = cid"
proof -
  obtain cs where cs: "bound_constraints it = Inr cs" using bound_constraints_of [OF assms(7,8)] by blast
  have did: "de_id de = did" using get_decision_rowD [OF assms(5)] by simp
  have ip: "issue_and_persist C S cid nonce oid de it audience issued_by ttl now d = Inr (d1, ic)"
    using assms(1,5,6) by (auto elim!: issue_for_decisionD issue_for_reviewD)
  obtain d2 cc where c: "verify_and_consume_capability C (isc_token ic) (execution_of oid audience it cs) now' d1 = Inr (d2, cc)"
    using issued_consumable [OF ip assms(2,3) _ assms(6-8) cs _ assms(9,10,11)] assms(4,5) did by auto
  obtain row where row: "d1 = d\<lparr>capability_tokens := capability_tokens d @ [row]\<rparr>" "cap_id row = cid"
      "cap_token_hash row = token_hash C (isc_token ic)" using issue_and_persist_row [OF ip] by blast
  then have "capability_of_token C d1 (isc_token ic) = Some row"
    using assms(11) row(1) by (auto simp: capability_of_token_def row_simps db_find_None_iff image_iff split: option.split dest!: db_find_Some)
  with c have "cc_capability_id cc = cid" using row(2) by (auto elim!: consumeD)
  with cs c show ?thesis by blast
qed

text \<open>A state with one allowed decision.\<close>

definition exec_intent :: Intent where
  "exec_intent = new_intent ''i1'' ''a1'' None ''vendor_payment'' (Some 4800000) (Some ''EUR'') None (Some ''invoice-123'') None [] ''n1'' 0 0"

definition exec_decision :: Decision where
  "exec_decision = review_decision\<lparr>de_id := ''d1'', de_intent_id := ''i1'', de_outcome := OutAllow\<rparr>"

definition exec_db :: db where
  "exec_db = allow_db\<lparr>intents := [exec_intent], decisions := [exec_decision]\<rparr>"

lemmas exec_rows = exec_db_def exec_decision_def exec_intent_def review_decision_def new_intent_def allow_db_def demo_agent_def new_agent_def
  demo_principal_def new_organization_def keyed_db_def one_agent_db_def empty_db_def get_decision_row_def get_intent_row_def get_agent_row_def
  get_principal_row_def get_organization_row_def

lemma exec_db_issues:
  "\<exists>d1 ic. issue_capability_for_decision plain_crypto demo_settings ''c1'' ''n1'' ''o1'' ''d1'' ''bank'' None 300 0 exec_db = Inr (d1, ic)"
proof -
  have od: "org_decision exec_db ''d1'' ''o1'' = Inr exec_decision" by (simp add: org_decision_Inr exec_rows resolve_chain_scope_def)
  have it: "get_intent_row exec_db (de_intent_id exec_decision) = Some exec_intent" by (simp add: exec_rows)
  have r: "get_organization_row exec_db ''o1'' = Some (new_organization ''o1'' ''Acme'' ''production'' 0)"
      "get_agent_row exec_db (it_agent_id exec_intent) = Some demo_agent" "org_status (new_organization ''o1'' ''Acme'' ''production'' 0) = OrgActive"
      "ag_status demo_agent = AgActive" "capability_tokens exec_db = []" "evidence exec_db = []" "it_integration_identity_id exec_intent = None"
      "de_outcome exec_decision = OutAllow" "it_context exec_intent = JObj []"
    by (simp_all add: exec_rows)
  obtain V where V: "live_provenance exec_db exec_intent = Inr V" using r(7) by (simp add: live_provenance_def)
  obtain A where A: "token_args plain_crypto ''o1'' exec_decision exec_intent ''bank'' (earliest_payload exec_db (de_id exec_decision)) V = Inr A"
    using r by (simp add: token_args_def earliest_payload_def py_get_def py_get_or_def py_or_def bound_constraints_def)
  have pk: "public_key_b64_from_signing_key_b64 plain_crypto (evidence_signing_key_b64 demo_settings) \<noteq> None"
    using demo_key_usable by (simp add: key_usable_def demo_env_def)
  obtain t where t: "issue_capability_token plain_crypto A 300 ''n1'' (evidence_signing_key_b64 demo_settings) (evidence_signing_key_id demo_settings) 0 = Inr t"
    using issue_returns pk by blast
  have "cp_expires_at (ict_payload t) = JStr (isoformat (0 + 300 * 1000000))" using t by (rule issued_token) (simp add: token_payload_def)
  moreover have "fromisoformat (isoformat (0 + 300 * 1000000)) = Some (0 + 300 * 1000000)"
    by (rule fromisoformat_isoformat) (simp add: datetime_range_def)
  ultimately have e: "expiry_of (cp_expires_at (ict_payload t)) = Inr 300000000" by (simp add: expiry_of_def)
  have "existing_capability_or_none exec_db (de_id exec_decision) = None" using r(5) by (simp add: existing_capability_or_none_def)
  then show ?thesis using od it r V A t e
    by (simp add: issue_capability_for_decision_def issue_and_persist_def Let_def)
qed

lemma exec_db_ok:
  "registered plain_crypto demo_settings exec_db" "version_ok exec_db ''d1''" "get_decision_row exec_db ''d1'' = Some exec_decision"
  "get_intent_row exec_db (de_intent_id exec_decision) = Some exec_intent" "it_context exec_intent = JObj []" "capability_tokens exec_db = []"
proof -
  have "signing_keys exec_db = signing_keys keyed_db" by (simp add: exec_db_def allow_db_def)
  then show "registered plain_crypto demo_settings exec_db" using keyed_db_registered by (simp add: registered_def get_public_key_for_key_id_def)
qed (simp_all add: exec_rows version_ok_def earliest_payload_def)

lemma exec_range: "datetime_range (0 + 300 * 1000000)" "(0::int) \<le> 0 + 300 * 1000000"
  by (simp_all add: datetime_range_def)

theorem issued_capability_executes_witness:
  "\<exists>d1 ic d2 cc. issue_capability_for_decision plain_crypto demo_settings ''c1'' ''n1'' ''o1'' ''d1'' ''bank'' None 300 0 exec_db = Inr (d1, ic)
     \<and> verify_and_consume_capability plain_crypto (isc_token ic)
         (execution_of ''o1'' ''bank'' exec_intent [(''amount'', JStr (numeric_str 4800000)), (''currency'', JStr ''EUR'')]) 0 d1 = Inr (d2, cc)"
proof -
  obtain d1 ic where i: "issue_capability_for_decision plain_crypto demo_settings ''c1'' ''n1'' ''o1'' ''d1'' ''bank'' None 300 0 exec_db = Inr (d1, ic)"
    using exec_db_issues by blast
  have b: "bound_constraints exec_intent = Inr [(''amount'', JStr (numeric_str 4800000)), (''currency'', JStr ''EUR'')]"
    by (simp add: bound_constraints_def exec_intent_def new_intent_def dict_updates_def)
  have h: "token_hash plain_crypto (isc_token ic) \<notin> cap_token_hash ` set (capability_tokens exec_db)" by (simp add: exec_db_ok(6))
  have dj: "issue_capability_for_decision plain_crypto demo_settings ''c1'' ''n1'' ''o1'' ''d1'' ''bank'' None 300 0 exec_db = Inr (d1, ic)
      \<or> issue_capability_for_reviewed_decision plain_crypto demo_settings ''c1'' ''n1'' ''o1'' ''d1'' ''bank'' None 300 0 exec_db = Inr (d1, ic)"
    using i by (rule disjI1)
  have ds: "distinct (map fst ([] :: (string \<times> json) list))" by simp
  show ?thesis using issued_capability_executes [OF dj plain_crypto_correct exec_db_ok(1-5) ds exec_range h] i b by auto
qed

theorem capability_consumed_once_witness:
  "\<exists>d token X d1 cc. verify_and_consume_capability plain_crypto token X 0 d = Inr (d1, cc)
     \<and> \<not> is_ok (verify_and_consume_capability plain_crypto token X 1 d1)"
proof -
  obtain d1 ic where i: "issue_capability_for_decision plain_crypto demo_settings ''c1'' ''n1'' ''o1'' ''d1'' ''bank'' None 300 0 exec_db = Inr (d1, ic)"
    using exec_db_issues by blast
  obtain de it where ip: "get_decision_row exec_db ''d1'' = Some de" "get_intent_row exec_db (de_intent_id de) = Some it"
      "issue_and_persist plain_crypto demo_settings ''c1'' ''n1'' ''o1'' de it ''bank'' None 300 0 exec_db = Inr (d1, ic)"
    using i by (rule issue_for_decisionD) blast
  have e: "de = exec_decision" "it = exec_intent" "de_id exec_decision = ''d1''" using ip exec_db_ok(3,4) by (auto simp: exec_decision_def)
  obtain cs where cs: "bound_constraints exec_intent = Inr cs" by (simp add: bound_constraints_def exec_db_ok(5))
  obtain d2 cc where c: "verify_and_consume_capability plain_crypto (isc_token ic) (execution_of ''o1'' ''bank'' exec_intent cs) 0 d1 = Inr (d2, cc)"
    using issued_consumable [OF ip(3) plain_crypto_correct exec_db_ok(1) _ _ _ _ _ _ exec_range, of "[]" cs] e exec_db_ok cs by auto
  have "caps_keyed exec_db" by (simp add: caps_keyed_def exec_db_ok(6))
  moreover have "capability_step plain_crypto exec_db d1" by (rule capability_step.issue [OF i]) (simp add: exec_db_ok(6))
  ultimately have "caps_keyed d1" using caps_keyed_step by blast
  from capability_consumed_once [OF this c rtranclp.rtrancl_refl] c show ?thesis by blast
qed

end
