(* ===== verification/Authority_Server.thy ===== *)
theory Authority_Server
  imports Capability_Service
begin

text \<open>
  The composition of the services: the runs of one server over one database. A step is an operation of
  the intent, resolution, capability, agent, organization or fact service. New primary keys are fresh,
  and the configured signing key is registered, which startup sees to; an intent is submitted for an
  agent as it is stored. What the composition promises is stated against an abstract specification: the
  authorization of each decision is a small state machine, and the server refines it.
\<close>

inductive server_step :: "crypto \<Rightarrow> db \<Rightarrow> db \<Rightarrow> bool" for C where
  submit: "\<lbrakk>submit_intent E ids a act amt cur cp ctx ra nonce corr res src now d = Inr (d', it, de, ev); env_crypto E = C;
    registered C (env_settings E) d; get_agent_row d (ag_id a) = Some a; id_intent ids \<notin> it_id ` set (intents d);
    id_decision ids \<notin> de_id ` set (decisions d); id_evidence ids \<notin> ev_id ` set (evidence d)\<rbrakk> \<Longrightarrow> server_step C d d'"
| resolve: "\<lbrakk>resolve_decision E rf rid eid did org res by_whom why uid now d = Inr (d', row); env_crypto E = C;
    registered C (env_settings E) d; eid \<notin> ev_id ` set (evidence d)\<rbrakk> \<Longrightarrow> server_step C d d'"
| issue: "\<lbrakk>issue_capability_for_decision C S cid nonce oid did audience issued_by ttl now d = Inr (d', ic);
    cid \<notin> cap_id ` set (capability_tokens d)\<rbrakk> \<Longrightarrow> server_step C d d'"
| issue_reviewed: "\<lbrakk>issue_capability_for_reviewed_decision C S cid nonce oid did audience issued_by ttl now d = Inr (d', ic);
    cid \<notin> cap_id ` set (capability_tokens d)\<rbrakk> \<Longrightarrow> server_step C d d'"
| consume: "verify_and_consume_capability C token X now d = Inr (d', cc) \<Longrightarrow> server_step C d d'"
| agent: "agent_step d d' \<Longrightarrow> server_step C d d'"
| organization: "org_step d d' \<Longrightarrow> server_step C d d'"
| register_source: "register_fact_source oid nm pk sid now d = (d', s) \<Longrightarrow> server_step C d d'"
| revoke_source: "revoke_fact_source oid sid now d = Inr (d', s) \<Longrightarrow> server_step C d d'"
| ingest: "ingest_fact C oid sid sub key val ob ex nonce sg fid now d = Inr (d', f) \<Longrightarrow> server_step C d d'"

section \<open>What the other services leave alone\<close>

definition records :: "db \<Rightarrow> Intent list \<times> Decision list \<times> Evidence list \<times> DecisionResolution list \<times> CapabilityToken list \<times> SigningKey list" where
  "records d = (intents d, decisions d, evidence d, decision_resolutions d, capability_tokens d, signing_keys d)"

lemma append_audit_event_records: "append_audit_event C S aid ty actor det eid now d = Inr d' \<Longrightarrow> records d' = records d"
  by (auto simp: append_audit_event_def Let_def records_def split: option.splits)

lemma update_records [simp]:
  "records (update_agent aid now f d) = records d" "records (update_certificate cid g d) = records d"
  "records (update_found_certificate P g d) = records d" "records (d\<lparr>agents := x\<rparr>) = records d" "records (d\<lparr>certificates := y\<rparr>) = records d"
  "records (d\<lparr>principals := z\<rparr>) = records d"
  by (simp_all add: records_def update_agent_def update_certificate_def update_found_certificate_def split: option.splits)

lemma agent_step_records: "agent_step d d' \<Longrightarrow> records d' = records d"
  by (cases rule: agent_step.cases)
    (auto simp: create_principal_def create_agent_def activate_agent_def suspend_agent_def retire_agent_def revoke_agent_def
      rotate_certificate_def request_certificate_rotation_def record_heartbeat_def transfer_owner_def update_agent_metadata_def
      returning_def Let_def dest!: append_audit_event_records split: option.splits if_splits)

lemma org_step_records:
  assumes "org_step d d'"
  shows "records d' = records d \<and> agents d' = agents d"
  using assms
proof cases
  case (accept C H raw nm pw uid now res)
  then show ?thesis
    by (auto simp: accept_invitation_def set_invitation_def records_def Let_def split: option.splits if_splits)
qed (auto simp: create_organization_def deactivate_organization_def reactivate_organization_def archive_organization_def invite_member_def
    revoke_invitation_def set_organization_def set_invitation_def get_organization_def records_def Let_def split: option.splits if_splits)

lemma fact_records:
  "register_fact_source oid nm pk sid now d = (d', s) \<Longrightarrow> records d' = records d \<and> agents d' = agents d"
  "revoke_fact_source oid sid now d = Inr (d', s) \<Longrightarrow> records d' = records d \<and> agents d' = agents d"
  "ingest_fact C oid sid sub key val ob ex nonce sg fid now d = Inr (d', f) \<Longrightarrow> records d' = records d \<and> agents d' = agents d"
  by (auto simp: register_fact_source_def revoke_fact_source_def ingest_fact_def records_def Let_def split: option.splits if_splits)

text \<open>The shape of every step: what it adds to the record tables.\<close>

lemma server_step_cases [consumes 1, case_names submitted resolved granted consumed elsewhere]:
  assumes "server_step C d d'"
  obtains it de ev where "d' = d\<lparr>intents := intents d @ [it], decisions := decisions d @ [de], evidence := evidence d @ [ev]\<rparr>"
      "it_id it \<notin> it_id ` set (intents d)" "de_id de \<notin> de_id ` set (decisions d)" "de_intent_id de = it_id it"
  | did de ev row where "d' = d\<lparr>evidence := evidence d @ [ev], decision_resolutions := decision_resolutions d @ [row]\<rparr>"
      "get_decision_row d did = Some de" "de_outcome de = OutHumanReview" "resolution_of d did = None" "dr_decision_id row = did"
  | did de row where "d' = d\<lparr>capability_tokens := capability_tokens d @ [row]\<rparr>" "get_decision_row d did = Some de" "cap_decision_id row = did"
      "cap_id row \<notin> cap_id ` set (capability_tokens d)" "existing_capability_or_none d did = None" "cap_consumed_at row = None"
      "de_outcome de = OutAllow \<or> de_outcome de = OutHumanReview \<and> (\<exists>r. resolution_of d did = Some r \<and> dr_resolution r = ResApproved)"
  | i now where "d' = d\<lparr>capability_tokens := mark_consumed i now (capability_tokens d)\<rparr>"
  | "records d' = records d" "agent_step d d' \<or> agents d' = agents d"
  using assms
proof cases
  case (submit E ids a act amt cur cp ctx ra nonce corr res src now it de ev)
  note e = submission_effect [OF submit(1)]
  have "d' = d\<lparr>intents := intents d @ [it], decisions := decisions d @ [de], evidence := evidence d @ [ev]\<rparr>" "de_intent_id de = it_id it"
    "it_id it = id_intent ids" "de_id de = id_decision ids"
    using e by (simp_all add: recorded_def)
  with submit(5,6) that(1) show thesis by metis
next
  case (resolve E rf rid eid did org res by_whom why uid now row)
  from resolve(1) show thesis by (rule resolve_decisionD) (rule that(2))
next
  case (issue S cid nonce oid did audience issued_by ttl now ic)
  from issue(1) obtain de it where a: "get_decision_row d did = Some de" "de_outcome de = OutAllow"
      "issue_and_persist C S cid nonce oid de it audience issued_by ttl now d = Inr (d', ic)" by (rule issue_for_decisionD)
  have "existing_capability_or_none d did = None" using issue_and_persistD [OF a(3)] get_decision_rowD [OF a(1)] by metis
  with issue_and_persist_row [OF a(3)] a issue(2) get_decision_rowD [OF a(1)] show thesis by (auto intro: that(3))
next
  case (issue_reviewed S cid nonce oid did audience issued_by ttl now ic)
  from issue_reviewed(1) obtain de it r where a: "get_decision_row d did = Some de" "de_outcome de = OutHumanReview" "resolution_of d did = Some r"
      "dr_resolution r = ResApproved" "issue_and_persist C S cid nonce oid de it audience issued_by ttl now d = Inr (d', ic)" by (rule issue_for_reviewD)
  have "existing_capability_or_none d did = None" using issue_and_persistD [OF a(5)] get_decision_rowD [OF a(1)] by metis
  with issue_and_persist_row [OF a(5)] a issue_reviewed(2) get_decision_rowD [OF a(1)] show thesis by (auto intro: that(3))
next
  case (consume token X now cc)
  then show thesis
  proof (rule consumeD)
    fix c
    assume "d' = d\<lparr>capability_tokens := db_update (\<lambda>r. cap_id r = cap_id c \<and> cap_consumed_at r = None)
              (\<lambda>r. r\<lparr>cap_consumed_at := Some now\<rparr>) (capability_tokens d)\<rparr>"
    then show thesis by (intro that(4)) (simp add: mark_consumed_def)
  qed
next
  case agent then show thesis using agent_step_records that(5) by blast
next
  case organization then show thesis using org_step_records that(5) by blast
next
  case (register_source oid nm pk sid now s) then show thesis using fact_records(1) that(5) by blast
next
  case (revoke_source oid sid now s) then show thesis using fact_records(2) that(5) by blast
next
  case (ingest oid sid sub key val ob ex nonce sg fid now f) then show thesis using fact_records(3) that(5) by blast
qed

section \<open>The abstract specification\<close>

text \<open>
  One decision's authorization: it is decided once; a HUMAN_REVIEW decision is reviewed at most once, before any
  permission exists; a permission is granted at most once, on ALLOW or on an approved review; a
  permission is used at most once. Nothing else happens to it.
\<close>

datatype permission = NoPermission | Outstanding | Used

datatype authorization = Undecided | Decided Outcome "Resolution option" permission

definition permitted :: "Outcome \<Rightarrow> Resolution option \<Rightarrow> bool" where
  "permitted out r = (out = OutAllow \<or> out = OutHumanReview \<and> r = Some ResApproved)"

inductive auth_step :: "authorization \<Rightarrow> authorization \<Rightarrow> bool" where
  decide: "auth_step Undecided (Decided out None NoPermission)"
| review: "auth_step (Decided OutHumanReview None NoPermission) (Decided OutHumanReview (Some r) NoPermission)"
| grant: "permitted out r \<Longrightarrow> auth_step (Decided out r NoPermission) (Decided out r Outstanding)"
| use: "auth_step (Decided out r Outstanding) (Decided out r Used)"

inductive_cases auth_step_DecidedE: "auth_step (Decided out r p) s"

fun auth_safe :: "authorization \<Rightarrow> bool" where
  "auth_safe Undecided = True"
| "auth_safe (Decided out r p) = ((p \<noteq> NoPermission \<longrightarrow> permitted out r) \<and> (r \<noteq> None \<longrightarrow> out = OutHumanReview))"

lemma auth_step_safe: "auth_step s s' \<Longrightarrow> auth_safe s \<Longrightarrow> auth_safe s'"
  by (induction rule: auth_step.induct) (auto simp: permitted_def)

text \<open>Simulation: each concrete step is a stuttering or an abstract step, so each run is an abstract run.\<close>

locale simulation =
  fixes cstep :: "'c \<Rightarrow> 'c \<Rightarrow> bool" and astep :: "'a \<Rightarrow> 'a \<Rightarrow> bool" and abs :: "'c \<Rightarrow> 'a" and inv :: "'c \<Rightarrow> bool"
  assumes inv_step: "cstep c c' \<Longrightarrow> inv c \<Longrightarrow> inv c'"
    and simulated: "cstep c c' \<Longrightarrow> inv c \<Longrightarrow> abs c' = abs c \<or> astep (abs c) (abs c')"
begin

lemma run_simulated: "cstep\<^sup>*\<^sup>* c c' \<Longrightarrow> inv c \<Longrightarrow> inv c' \<and> astep\<^sup>*\<^sup>* (abs c) (abs c')"
proof (induction rule: rtranclp_induct)
  case (step y z)
  then have "inv y" "astep\<^sup>*\<^sup>* (abs c) (abs y)" by simp_all
  with inv_step [OF step.hyps(2)] simulated [OF step.hyps(2)] show ?case by (metis rtranclp.rtrancl_into_rtrancl)
qed simp

lemma run_preserves:
  assumes "cstep\<^sup>*\<^sup>* c c'" "inv c" "P (abs c)" "\<And>a a'. astep a a' \<Longrightarrow> P a \<Longrightarrow> P a'"
  shows "P (abs c')"
proof -
  have "astep\<^sup>*\<^sup>* (abs c) (abs c')" using run_simulated [OF assms(1,2)] by simp
  then show ?thesis using assms(3) by (induction rule: rtranclp_induct) (auto intro: assms(4))
qed

end

definition permission_of :: "db \<Rightarrow> uuid \<Rightarrow> permission" where
  "permission_of d did = (case existing_capability_or_none d did of None \<Rightarrow> NoPermission
     | Some c \<Rightarrow> if cap_consumed_at c = None then Outstanding else Used)"

definition authorization_of :: "uuid \<Rightarrow> db \<Rightarrow> authorization" where
  "authorization_of did d = (case get_decision_row d did of None \<Rightarrow> Undecided
     | Some de \<Rightarrow> Decided (de_outcome de) (map_option dr_resolution (resolution_of d did)) (permission_of d did))"

text \<open>Reviews and capabilities belong to decisions; a reviewed decision was reviewed before a permission was granted.\<close>

definition records_ok :: "db \<Rightarrow> bool" where
  "records_ok d = (dr_decision_id ` set (decision_resolutions d) \<subseteq> de_id ` set (decisions d)
     \<and> cap_decision_id ` set (capability_tokens d) \<subseteq> de_id ` set (decisions d)
     \<and> (\<forall>did. auth_safe (authorization_of did d)) \<and> caps_keyed d)"

lemma existing_mark_consumed:
  "existing_capability_or_none (d\<lparr>capability_tokens := mark_consumed i now (capability_tokens d)\<rparr>) did =
     map_option (\<lambda>r. if cap_id r = i \<and> cap_consumed_at r = None then r\<lparr>cap_consumed_at := Some now\<rparr> else r) (existing_capability_or_none d did)"
  unfolding existing_capability_or_none_def mark_consumed_def by (simp add: db_find_db_update)

lemma no_decision_no_row:
  assumes "records_ok d" "did \<notin> de_id ` set (decisions d)"
  shows "resolution_of d did = None" "permission_of d did = NoPermission"
proof -
  have "\<forall>r \<in> set (decision_resolutions d). dr_decision_id r \<noteq> did" "\<forall>c \<in> set (capability_tokens d). cap_decision_id c \<noteq> did"
    using assms by (auto simp: records_ok_def)
  then show "resolution_of d did = None" "permission_of d did = NoPermission"
    by (simp_all add: resolution_of_def permission_of_def existing_capability_or_none_def db_find_None_iff [THEN iffD2])
qed

lemma authorization_cong:
  assumes "get_decision_row d' did = get_decision_row d did" "resolution_of d' did = resolution_of d did" "permission_of d' did = permission_of d did"
  shows "authorization_of did d' = authorization_of did d"
  using assms by (simp add: authorization_of_def split: option.split)

lemma records_cong:
  assumes "records d' = records d"
  shows "authorization_of did d' = authorization_of did d" "records_ok d' = records_ok d"
proof -
  have a: "authorization_of x d' = authorization_of x d" for x
    by (rule authorization_cong)
      (use assms in \<open>simp_all add: records_def permission_of_def get_decision_row_def resolution_of_def existing_capability_or_none_def\<close>)
  show "authorization_of did d' = authorization_of did d" by (rule a)
  show "records_ok d' = records_ok d" using assms a by (simp add: records_ok_def caps_keyed_def records_def)
qed

lemma server_simulates:
  assumes "server_step C d d'" "records_ok d"
  shows "authorization_of did d' = authorization_of did d \<or> auth_step (authorization_of did d) (authorization_of did d')"
  using assms(1)
proof (cases rule: server_step_cases)
  case (submitted it de ev)
  have same: "resolution_of d' did = resolution_of d did" "permission_of d' did = permission_of d did"
    by (simp_all add: submitted(1) resolution_of_def permission_of_def existing_capability_or_none_def)
  show ?thesis
  proof (cases "get_decision_row d did")
    case None
    then have fresh: "did \<notin> de_id ` set (decisions d)" by (auto simp: get_decision_row_def db_find_None_iff)
    have "get_decision_row d' did = (if de_id de = did then Some de else None)" using None by (simp add: submitted(1) get_decision_row_def row_simps)
    with None same no_decision_no_row [OF assms(2) fresh] show ?thesis
      by (auto simp: authorization_of_def intro: auth_step.decide)
  next
    case (Some x)
    then have "get_decision_row d' did = Some x" by (simp add: submitted(1) get_decision_row_def row_simps)
    with Some same show ?thesis by (simp add: authorization_of_def)
  qed
next
  case (resolved did' de ev row)
  have g: "get_decision_row d' = get_decision_row d" by (simp add: resolved(1) get_decision_row_def fun_eq_iff)
  have p: "permission_of d' = permission_of d" by (simp add: resolved(1) permission_of_def existing_capability_or_none_def fun_eq_iff)
  have r: "resolution_of d' did = (case resolution_of d did of None \<Rightarrow> if dr_decision_id row = did then Some row else None | Some y \<Rightarrow> Some y)"
    by (simp add: resolved(1) resolution_of_def row_simps split: option.split)
  show ?thesis
  proof (cases "did = did'")
    case True
    have "auth_safe (authorization_of did d)" using assms(2) by (simp add: records_ok_def)
    then have "permission_of d did = NoPermission" using True resolved by (auto simp: authorization_of_def permitted_def)
    with True g p r resolved show ?thesis by (auto simp: authorization_of_def intro: auth_step.review)
  next
    case False
    then have "resolution_of d' did = resolution_of d did" using r resolved(5) by (auto split: option.split)
    then show ?thesis using authorization_cong g p by metis
  qed
next
  case (granted did' de row)
  have g: "get_decision_row d' = get_decision_row d" "resolution_of d' = resolution_of d"
    by (simp_all add: granted(1) get_decision_row_def resolution_of_def fun_eq_iff)
  have e: "existing_capability_or_none d' did = (case existing_capability_or_none d did of None \<Rightarrow> if cap_decision_id row = did then Some row else None | Some y \<Rightarrow> Some y)"
    by (simp add: granted(1) existing_capability_or_none_def row_simps split: option.split)
  show ?thesis
  proof (cases "did = did'")
    case True
    have "permitted (de_outcome de) (map_option dr_resolution (resolution_of d did))" using granted(7) True by (auto simp: permitted_def)
    with True g e granted show ?thesis by (auto simp: authorization_of_def permission_of_def intro: auth_step.grant)
  next
    case False
    then have "permission_of d' did = permission_of d did" using e granted(3) by (auto simp: permission_of_def split: option.split)
    then show ?thesis using authorization_cong g by metis
  qed
next
  case (consumed i now)
  have g: "get_decision_row d' = get_decision_row d" "resolution_of d' = resolution_of d"
    by (simp_all add: consumed get_decision_row_def resolution_of_def fun_eq_iff)
  have "permission_of d' did = permission_of d did \<or> permission_of d did = Outstanding \<and> permission_of d' did = Used"
    unfolding permission_of_def consumed existing_mark_consumed by (auto split: option.split)
  with g show ?thesis by (auto simp: authorization_of_def intro: auth_step.use split: option.split)
next
  case elsewhere
  then show ?thesis using records_cong(1) by blast
qed

lemma server_capability_step:
  assumes "server_step C d d'"
  shows "capability_step C d d'"
proof -
  have el: ?thesis if "records d' = records d" using that by (intro capability_step.elsewhere) (simp add: records_def)
  show ?thesis using assms
  proof cases
    case (submit E ids a act amt cur cp ctx ra nonce corr res src now it de ev)
    from submission_effect [OF submit(1)] show ?thesis by (intro capability_step.elsewhere) (simp add: recorded_def)
  next
    case (resolve E rf rid eid did org res by_whom why uid now row)
    from resolve(1) show ?thesis by (elim resolve_decisionD) (simp add: capability_step.elsewhere)
  next
    case agent then show ?thesis using el agent_step_records by blast
  next
    case organization then show ?thesis using el org_step_records by blast
  next
    case register_source then show ?thesis using el fact_records(1) by blast
  next
    case revoke_source then show ?thesis using el fact_records(2) by blast
  next
    case ingest then show ?thesis using el fact_records(3) by blast
  qed (blast intro: capability_step.intros)+
qed

lemma records_ok_step:
  assumes "server_step C d d'" "records_ok d"
  shows "records_ok d'"
proof -
  have "auth_safe (authorization_of did d')" for did
    using server_simulates [OF assms, of did] auth_step_safe assms(2) by (auto simp: records_ok_def)
  moreover have "caps_keyed d'" using caps_keyed_step [OF server_capability_step [OF assms(1)]] assms(2) by (simp add: records_ok_def)
  moreover have decided: "i \<in> de_id ` set (decisions d)" if "get_decision_row d i = Some de" for i de
    using get_decision_rowD [OF that] by auto
  moreover have "dr_decision_id ` set (decision_resolutions d') \<subseteq> de_id ` set (decisions d')
      \<and> cap_decision_id ` set (capability_tokens d') \<subseteq> de_id ` set (decisions d')"
    using assms(1)
  proof (cases rule: server_step_cases)
    case (resolved did de ev row)
    with assms(2) decided [OF resolved(2)] show ?thesis by (auto simp: records_ok_def)
  next
    case (granted did de row)
    with assms(2) decided [OF granted(2)] show ?thesis by (auto simp: records_ok_def)
  next
    case (consumed i now)
    have "cap_decision_id ` set (mark_consumed i now (capability_tokens d)) = cap_decision_id ` set (capability_tokens d)"
      using mark_consumed_keys(2) by (metis list.set_map)
    with assms(2) consumed show ?thesis by (simp add: records_ok_def)
  qed (use assms(2) in \<open>auto simp: records_ok_def records_def\<close>)
  ultimately show ?thesis by (simp add: records_ok_def)
qed

interpretation server_refines: simulation "server_step C" auth_step "authorization_of did" records_ok for C did
  by unfold_locales (auto intro: records_ok_step dest: server_simulates)

text \<open>The agents' lifecycle inside the whole server.\<close>

lemma server_step_agents: "server_step C d d' \<Longrightarrow> agent_step d d' \<or> agents d' = agents d"
  by (cases rule: server_step_cases) auto

interpretation server_agents: lifecycle agent_status "server_step C" agent_may for C
proof
  fix d d' i s
  assume "server_step C d d'" and s: "agent_status d i = Some s"
  then consider "agent_step d d'" | "agents d' = agents d" using server_step_agents by blast
  then show "\<exists>s'. agent_status d' i = Some s' \<and> (s' = s \<or> agent_may s s')"
  proof cases
    case 1
    then show ?thesis using agent_lifecycle.step_status [OF _ s] by blast
  next
    case 2
    then have "agent_status d' i = agent_status d i" by (simp add: agent_status_def get_agent_row_def)
    then show ?thesis using s by simp
  qed
qed

lemma submit_appends:
  assumes "submit_intent E ids a act amt cur cp ctx ra nonce corr res src now d = Inr (d', it, de, ev)"
  shows "\<exists>A d1. evidence d1 = evidence d \<and> signing_keys d1 = signing_keys d
    \<and> append_evidence (env_crypto E) (env_settings E) A (id_evidence ids) now d1 = Inr (d', ev)"
  using assms
proof (rule submit_intentD)
  fix stored d1 org
  assume d1: "d1 = d\<lparr>intents := intents d @ [it]\<rparr>" and r: "(if ag_status a = AgSuspended then record_review E ids it a act amt cur res ''AGENT_SUSPENDED'' now d1
       else if \<not> is_recognized_scope act (list_active_scope_actions d1 org)
         then record_review E ids it a act amt cur res ''unrecognized_action'' now d1
       else evaluate_and_record E no_provenance ids it a act amt cur cp res ctx ra now d1) = Inr (d', de, ev)"
  let ?goal = "\<exists>A d2. evidence d2 = evidence d1 \<and> signing_keys d2 = signing_keys d1
    \<and> append_evidence (env_crypto E) (env_settings E) A (id_evidence ids) now d2 = Inr (d', ev)"
  have "?goal" if "record_review E ids it a act amt cur res why now d1 = Inr (d', de, ev)" for why
  proof -
    from that obtain A x where "append_evidence (env_crypto E) (env_settings E) A (id_evidence ids) now (d1\<lparr>decisions := x\<rparr>) = Inr (d', ev)"
      by (auto simp: record_review_def Let_def split: sum.splits)
    then show ?thesis by (intro exI [of _ A] exI [of _ "d1\<lparr>decisions := x\<rparr>"]) simp
  qed
  moreover have "?goal" if "evaluate_and_record E no_provenance ids it a act amt cur cp res ctx ra now d1 = Inr (d', de, ev)"
  proof -
    from that obtain A x where "append_evidence (env_crypto E) (env_settings E) A (id_evidence ids) now (d1\<lparr>decisions := x\<rparr>) = Inr (d', ev)"
      by (auto simp: evaluate_and_record_def Let_def split: sum.splits prod.splits)
    then show ?thesis by (intro exI [of _ A] exI [of _ "d1\<lparr>decisions := x\<rparr>"]) simp
  qed
  ultimately have "?goal" using r by (auto split: if_splits)
  then show ?thesis by (simp add: d1)
qed

lemma registered_cong: "signing_keys d' = signing_keys d \<Longrightarrow> registered C S d' = registered C S d"
  by (simp add: registered_def get_public_key_for_key_id_def)

text \<open>Every step is a step of the Evidence chain.\<close>

lemma server_evidence_step:
  assumes "server_step C d d'"
  shows "(evidence_step C)\<^sup>*\<^sup>* d d'"
proof -
  have el: "(evidence_step C)\<^sup>*\<^sup>* x y" if "evidence y = evidence x" "signing_keys y = signing_keys x" for x y
    using evidence_step.elsewhere [OF that] by blast
  have ap: "(evidence_step C)\<^sup>*\<^sup>* x z" if "evidence y = evidence x" "signing_keys y = signing_keys x"
    "append_evidence C S A eid now y = Inr (z, ev)" "registered C S x" "eid \<notin> ev_id ` set (evidence x)" for x y z S A eid now ev
    using el [OF that(1,2)] evidence_step.decision_record [OF that(3)] that registered_cong [OF that(2)]
    by (metis rtranclp.rtrancl_into_rtrancl)
  show ?thesis using assms
  proof cases
    case (submit E ids a act amt cur cp ctx ra nonce corr res src now it de ev)
    from submit_appends [OF submit(1)] submit(2,3,7) ap show ?thesis by metis
  next
    case (resolve E rf rid eid did org res by_whom why uid now row)
    from resolve(1) show ?thesis
    proof (rule resolve_decisionD)
      fix ev m i de it
      assume "append_evidence (env_crypto E) (env_settings E) (review_args rf de it m i res by_whom) eid now d = Inr (d\<lparr>evidence := evidence d @ [ev]\<rparr>, ev)"
        and d': "d' = d\<lparr>evidence := evidence d @ [ev], decision_resolutions := decision_resolutions d @ [row]\<rparr>"
      then have "(evidence_step C)\<^sup>*\<^sup>* d (d\<lparr>evidence := evidence d @ [ev]\<rparr>)" using ap [OF refl refl] resolve(2-4) by blast
      moreover have "(evidence_step C)\<^sup>*\<^sup>* (d\<lparr>evidence := evidence d @ [ev]\<rparr>) d'" by (rule el) (simp_all add: d')
      ultimately show ?thesis by (rule rtranclp_trans)
    qed
  next
    case issue
    then show ?thesis using issue_and_persist_row by (elim issue_for_decisionD) (rule el; fastforce)
  next
    case issue_reviewed
    then show ?thesis using issue_and_persist_row by (elim issue_for_reviewD) (rule el; fastforce)
  next
    case consume
    then show ?thesis by (elim consumeD) (rule el; simp)
  next
    case agent
    then show ?thesis using agent_step_records by (intro el) (auto simp: records_def)
  next
    case organization
    then show ?thesis using org_step_records by (intro el) (auto simp: records_def)
  next
    case register_source
    then show ?thesis using fact_records(1) by (intro el) (auto simp: records_def)
  next
    case revoke_source
    then show ?thesis using fact_records(2) by (intro el) (auto simp: records_def)
  next
    case ingest
    then show ?thesis using fact_records(3) by (intro el) (auto simp: records_def)
  qed
qed

lemma server_evidence_run: "(server_step C)\<^sup>*\<^sup>* d d' \<Longrightarrow> (evidence_step C)\<^sup>*\<^sup>* d d'"
  by (induction rule: rtranclp_induct) (auto dest!: server_evidence_step)

section \<open>Where decisions come from\<close>

text \<open>Every decision of a reachable state was returned by a submission earlier in the run.\<close>

definition submission_returns :: "crypto \<Rightarrow> db \<Rightarrow> db \<Rightarrow> Decision \<Rightarrow> bool" where
  "submission_returns C d1 d2 de = (\<exists>E ids a act amt cur cp ctx ra nonce corr res src now it ev. env_crypto E = C \<and> get_agent_row d1 (ag_id a) = Some a
     \<and> submit_intent E ids a act amt cur cp ctx ra nonce corr res src now d1 = Inr (d2, it, de, ev))"

definition submitted_in :: "crypto \<Rightarrow> db \<Rightarrow> db \<Rightarrow> Decision \<Rightarrow> bool" where
  "submitted_in C d0 d de = (\<exists>d1 d2. (server_step C)\<^sup>*\<^sup>* d0 d1 \<and> submission_returns C d1 d2 de \<and> (server_step C)\<^sup>*\<^sup>* d2 d)"

lemma decisions_of_submit:
  assumes "submit_intent E ids a act amt cur cp ctx ra nonce corr res src now d = Inr (d', it, de, ev)"
  shows "decisions d' = decisions d @ [de]"
  using submission_effect [OF assms] by (simp add: recorded_def)

lemma decisions_grow:
  assumes "server_step C d d'" "x \<in> set (decisions d')" "x \<notin> set (decisions d)"
  shows "submission_returns C d d' x"
  using assms(1)
proof cases
  case (submit E ids a act amt cur cp ctx ra nonce corr res src now it de ev)
  with decisions_of_submit [OF submit(1)] assms(2,3) have "x = de" by auto
  with submit show ?thesis unfolding submission_returns_def by blast
next
  case (resolve E rf rid eid did org res by_whom why uid now row)
  from resolve(1) assms(2,3) show ?thesis by (elim resolve_decisionD) simp
next
  case issue
  with assms(2,3) issue_and_persist_row show ?thesis by (elim issue_for_decisionD) fastforce
next
  case issue_reviewed
  with assms(2,3) issue_and_persist_row show ?thesis by (elim issue_for_reviewD) fastforce
next
  case consume
  with assms(2,3) show ?thesis by (elim consumeD) simp
next
  case agent
  with assms(2,3) agent_step_records show ?thesis by (fastforce simp: records_def)
next
  case organization
  with assms(2,3) org_step_records show ?thesis by (fastforce simp: records_def)
next
  case register_source
  with assms(2,3) fact_records(1) show ?thesis by (fastforce simp: records_def)
next
  case revoke_source
  with assms(2,3) fact_records(2) show ?thesis by (fastforce simp: records_def)
next
  case ingest
  with assms(2,3) fact_records(3) show ?thesis by (fastforce simp: records_def)
qed

lemma submitted_later: "submitted_in C d0 d de \<Longrightarrow> server_step C d d' \<Longrightarrow> submitted_in C d0 d' de"
  unfolding submitted_in_def by (elim exE conjE) (intro exI conjI, assumption+, erule (1) rtranclp.rtrancl_into_rtrancl)

lemma decision_origin:
  assumes "(server_step C)\<^sup>*\<^sup>* d0 d" "decisions d0 = []" "de \<in> set (decisions d)"
  shows "submitted_in C d0 d de"
  using assms(1,3)
proof (induction rule: rtranclp_induct)
  case base
  with assms(2) show ?case by simp
next
  case (step y z)
  show ?case
  proof (cases "de \<in> set (decisions y)")
    case True
    with step.IH step.hyps(2) show ?thesis by (blast intro: submitted_later)
  next
    case False
    then have "submission_returns C y z de" using decisions_grow [OF step.hyps(2) step.prems] by blast
    with step.hyps(1) show ?thesis unfolding submitted_in_def by blast
  qed
qed

lemma records_ok_start: "\<lbrakk>decisions d = []; decision_resolutions d = []; capability_tokens d = []\<rbrakk> \<Longrightarrow> records_ok d"
  by (simp add: records_ok_def authorization_of_def get_decision_row_def caps_keyed_def)

section \<open>Claims\<close>



text \<open>C5: revocation takes effect at once and for good. After an agent is revoked or retired, in every later state
  of the server its submissions are refused, no capability can be issued for a decision on one of its intents, and
  no capability for such a decision can be consumed, even one that was issued before.\<close>

theorem revocation_is_final:
  assumes "(server_step C)\<^sup>*\<^sup>* d1 d2" and "agent_status d1 i = Some s" and "s \<in> {AgRevoked, AgRetired}"
    and "get_decision_row d2 did = Some de" and "get_intent_row d2 (de_intent_id de) = Some it" and "it_agent_id it = i"
  shows "(\<forall>a E ids act amt cur cp ctx ra nonce corr res src now. get_agent_row d2 i = Some a \<longrightarrow>
        \<not> is_ok (submit_intent E ids a act amt cur cp ctx ra nonce corr res src now d2))
    \<and> (\<forall>C S cid nonce oid audience by_whom ttl now. \<not> is_ok (issue_capability_for_decision C S cid nonce oid did audience by_whom ttl now d2)
        \<and> \<not> is_ok (issue_capability_for_reviewed_decision C S cid nonce oid did audience by_whom ttl now d2))
    \<and> (\<forall>C token X now c. capability_of_token C d2 token = Some c \<and> cap_decision_id c = did \<longrightarrow>
        \<not> is_ok (verify_and_consume_capability C token X now d2))"
proof -
  have st: "agent_status d2 i = Some s"
    using server_agents.terminal_final [OF _ assms(1,2)] assms(3) by (auto simp: server_agents.terminal_def agent_may_def)
  then have dead: "ag_status a \<in> {AgRevoked, AgRetired}" if "get_agent_row d2 i = Some a" for a
    using that assms(3) by (auto simp: agent_status_def)
  have "\<not> is_ok (submit_intent E ids a act amt cur cp ctx ra nonce corr res src now d2)" if "get_agent_row d2 i = Some a"
    for a E ids act amt cur cp ctx ra nonce corr res src now
    using dead [OF that] by (auto simp: submit_intent_def)
  moreover have iss: "\<not> is_ok (issue_and_persist C S cid nonce oid de it audience by_whom ttl now d2)" for C S cid nonce oid audience by_whom ttl now
    using dead assms(6) by (auto simp: is_ok_iff elim!: issue_and_persistD)
  then have "\<not> is_ok (issue_capability_for_decision C S cid nonce oid did audience by_whom ttl now d2)
      \<and> \<not> is_ok (issue_capability_for_reviewed_decision C S cid nonce oid did audience by_whom ttl now d2)" for C S cid nonce oid audience by_whom ttl now
    using assms(4,5) by (auto simp: is_ok_iff elim!: issue_for_decisionD issue_for_reviewD)
  moreover have "\<not> is_ok (verify_and_consume_capability C token X now d2)"
    if "capability_of_token C d2 token = Some c \<and> cap_decision_id c = did" for C token X now c
    using that dead assms(4-6) by (auto simp: is_ok_iff elim!: consumeD freshnessD)
  ultimately show ?thesis by blast
qed


section \<open>A run\<close>

lemma allow_db_rows:
  "registered plain_crypto demo_settings allow_db" "get_agent_row allow_db (ag_id demo_agent) = Some demo_agent" "intents allow_db = []"
  "decisions allow_db = []" "evidence allow_db = []" "decision_resolutions allow_db = []" "capability_tokens allow_db = []"
  "resolve_chain_scope allow_db ''a1'' = Some ''o1''" "ag_id demo_agent = ''a1''" "env_crypto demo_env = plain_crypto" "env_settings demo_env = demo_settings"
proof -
  have "signing_keys allow_db = signing_keys keyed_db" by (simp add: allow_db_def)
  then show "registered plain_crypto demo_settings allow_db" using keyed_db_registered registered_cong by metis
qed (simp_all add: exec_rows resolve_chain_scope_def demo_env_def)

lemma demo_submitted:
  obtains d' it de ev where "server_step plain_crypto allow_db d'" "de_outcome de = OutAllow"
    "submit_intent demo_env demo_ids demo_agent ''vendor_payment'' None None None [] 0 ''n1'' None None None 0 allow_db = Inr (d', it, de, ev)"
    "d' = allow_db\<lparr>intents := [it], decisions := [de], evidence := [ev]\<rparr>" "de_id de = ''d1''" "de_intent_id de = it_id it" "it_agent_id it = ''a1''"
    "ev_organization_id ev = Some ''o1''"
proof -
  obtain d' it de ev where s: "submit_intent demo_env demo_ids demo_agent ''vendor_payment'' None None None [] 0 ''n1'' None None None 0 allow_db
      = Inr (d', it, de, ev)" "de_outcome de = OutAllow" using demo_submission by blast
  have st: "server_step plain_crypto allow_db d'" using server_step.submit [OF s(1)] allow_db_rows by simp
  note e = submission_effect [OF s(1)]
  have "d' = allow_db\<lparr>intents := [it], decisions := [de], evidence := [ev]\<rparr>" "de_id de = ''d1''" "de_intent_id de = it_id it" "it_agent_id it = ''a1''"
      "ev_organization_id ev = Some ''o1''"
    using e allow_db_rows by (simp_all add: recorded_def demo_ids_def)
  with that st s show thesis by blast
qed


theorem revocation_is_final_witness:
  "\<not> is_ok (issue_capability_for_decision plain_crypto demo_settings ''c1'' ''n1'' ''o1'' ''d1'' ''bank'' None 300 0
      (exec_db\<lparr>agents := [demo_agent\<lparr>ag_status := AgRevoked\<rparr>]\<rparr>))"
proof -
  let ?d = "exec_db\<lparr>agents := [demo_agent\<lparr>ag_status := AgRevoked\<rparr>]\<rparr>"
  have "agent_status ?d ''a1'' = Some AgRevoked" "get_decision_row ?d ''d1'' = Some exec_decision"
      "get_intent_row ?d (de_intent_id exec_decision) = Some exec_intent" "it_agent_id exec_intent = ''a1''"
    by (simp_all add: agent_status_def exec_rows)
  from revocation_is_final [OF rtranclp.rtrancl_refl this(1) _ this(2-4)] show ?thesis by blast
qed


text \<open>What the capability service reads from the Evidence of a decision.\<close>

definition readable :: "json \<Rightarrow> bool" where
  "readable p = (\<exists>ps. p = JObj ps \<and> map_of ps ''principal_name'' = None \<and> map_of ps ''facts_evaluated'' = None \<and> map_of ps ''policy_version'' = None)"

lemma readable_plain:
  assumes "ea_amount A = None" "ea_currency A = None" "ea_resource A = None" "ea_principal_id A = None" "ea_principal_name A = None"
    "ea_authority_context A = None" "ea_authority_version A = None" "ea_policy_version A = None" "ea_policy_bundle_hash A = None"
    "ea_facts_evaluated A = []" "ea_integration_identity_id A = None" "ea_enforcement_binding_id A = None"
    "ea_integration_contract_version_id A = None" "ea_integration_contract_content_hash A = None" "ea_integration_id A = None"
    "ea_environment A = None" "ea_source_operation A = None" "ea_external_operation_id A = None"
    "ea_canonical_operation_fingerprint A = None" "ea_canonical_action_digest A = None"
  shows "readable (build_evidence_payload A risk prev aids sys now)"
  using assms
  by (cases sys; cases "ea_reviewer A"; cases "ea_review_outcome A"; cases "aids = []"; cases "ea_mandate_ids A = []")
    (simp_all add: readable_def build_evidence_payload_def opt_entry_def list_entry_def)

lemma earliest_readable:
  assumes "\<forall>e \<in> set (evidence d). readable (ev_payload e)"
  shows "readable (earliest_payload d did)"
proof (cases "sort_key ev_created_at (filter (\<lambda>ev. ev_decision_id ev = did) (evidence d))")
  case (Cons e es)
  then have "e \<in> set (evidence d)" by (metis filter_is_subset list.set_intros(1) set_sort subsetD)
  with assms Cons show ?thesis by (simp add: earliest_payload_def)
qed (simp add: earliest_payload_def readable_def)

lemma issue_returns_for:
  assumes "get_organization_row d oid = Some r" "org_status r = OrgActive" "get_agent_row d (it_agent_id it) = Some a" "ag_status a = AgActive"
    "it_integration_identity_id it = None" "it_context it = JObj ps" "readable (earliest_payload d (de_id de))" "capability_tokens d = []"
    "key_usable C S" "datetime_range (now + ttl * 1000000)"
  shows "\<exists>d' ic. issue_and_persist C S cid nonce oid de it audience by_whom ttl now d = Inr (d', ic)"
proof -
  obtain V where V: "live_provenance d it = Inr V" using assms(5) by (simp add: live_provenance_def)
  obtain A where A: "token_args C oid de it audience (earliest_payload d (de_id de)) V = Inr A"
    using assms(6,7) by (auto simp: token_args_def readable_def py_get_def py_get_or_def py_or_def bound_constraints_def)
  obtain t where t: "issue_capability_token C A ttl nonce (evidence_signing_key_b64 S) (evidence_signing_key_id S) now = Inr t"
    using issue_returns assms(9) unfolding key_usable_def by blast
  have "cp_expires_at (ict_payload t) = JStr (isoformat (now + ttl * 1000000))" using t by (rule issued_token) (simp add: token_payload_def)
  then have e: "expiry_of (cp_expires_at (ict_payload t)) = Inr (now + ttl * 1000000)"
    using fromisoformat_isoformat [OF assms(10)] by (simp add: expiry_of_def)
  show ?thesis using assms V A t e by (simp add: issue_and_persist_def existing_capability_or_none_def Let_def)
qed

text \<open>An unrecognized action goes to review, is approved, and its capability is executed.\<close>

lemma demo_reviewed:
  obtains d1 it de ev where "server_step plain_crypto allow_db d1" "d1 = allow_db\<lparr>intents := [it], decisions := [de], evidence := [ev]\<rparr>"
    "it = new_intent ''i1'' ''a1'' None ''frobnicate'' None None None None None [] ''n1'' 0 0"
    "de_id de = ''d1''" "de_intent_id de = ''i1''" "de_outcome de = OutHumanReview" "mandates_typed de" "readable (ev_payload ev)" "ev_id ev = ''e1''"
proof -
  let ?it = "new_intent ''i1'' ''a1'' None ''frobnicate'' None None None None None [] ''n1'' 0 0"
  let ?d = "allow_db\<lparr>intents := [?it]\<rparr>"
  let ?de = "\<lparr>de_id = ''d1'', de_intent_id = ''i1'', de_policy_id = None, de_outcome = OutHumanReview, de_reason = Some ''unrecognized_action'',
     de_evaluated_mandates = JList [], de_created_at = 0, de_evaluated_mandate_ids = JList [], de_enterprise_system_id = None\<rparr>"
  let ?A = "evidence_args ''d1'' ''a1'' ''frobnicate'' None [] OutHumanReview (evidence_status_for_outcome OutHumanReview) None None"
  obtain ev where ev: "append_evidence plain_crypto demo_settings ?A ''e1'' 0 (?d\<lparr>decisions := [?de]\<rparr>)
      = Inr (?d\<lparr>decisions := [?de], evidence := [ev]\<rparr>, ev)"
    using append_evidence_returns [of plain_crypto demo_settings ?A "''e1''" 0 "?d\<lparr>decisions := [?de]\<rparr>"] demo_key_usable allow_db_rows by auto
  have rr: "record_review demo_env demo_ids ?it demo_agent ''frobnicate'' None None None ''unrecognized_action'' 0 ?d
      = Inr (?d\<lparr>decisions := [?de], evidence := [ev]\<rparr>, ?de, ev)"
    using ev allow_db_rows by (simp add: record_review_def demo_ids_def Let_def new_intent_def)
  have ob: "organization_blocks allow_db demo_agent = None"
    by (simp add: organization_blocks_def ensure_active_def exec_rows)
  have "\<not> is_recognized_scope ''frobnicate'' (list_active_scope_actions ?d (Option.bind (get_principal_row ?d (ag_acting_for_principal_id demo_agent)) pr_organization_id))"
    by (simp add: is_recognized_scope_def KNOWN_SCOPES_def list_active_scope_actions_def list_latest_policies_def exec_rows)
  with rr ob have s: "submit_intent demo_env demo_ids demo_agent ''frobnicate'' None None None [] 0 ''n1'' None None None 0 allow_db
      = Inr (?d\<lparr>decisions := [?de], evidence := [ev]\<rparr>, ?it, ?de, ev)"
    using allow_db_rows by (simp add: submit_intent_def demo_ids_def Let_def demo_agent_def new_agent_def)
  have st: "server_step plain_crypto allow_db (?d\<lparr>decisions := [?de], evidence := [ev]\<rparr>)"
    using server_step.submit [OF s] allow_db_rows by simp
  have "mandates_typed ?de" using str_list_written [of "[]"] by (simp add: mandates_typed_def)
  moreover have "readable (ev_payload ev)" "ev_id ev = ''e1''"
    using append_evidenceD [OF ev] readable_plain [of ?A] by (auto simp: evidence_args_def)
  ultimately show thesis using that [OF st] by simp
qed

lemma demo_approved:
  obtains d2 de it row where "(server_step plain_crypto)\<^sup>*\<^sup>* allow_db d2" "get_decision_row d2 ''d1'' = Some de" "get_intent_row d2 ''i1'' = Some it"
    "resolve_chain_scope d2 ''a1'' = Some ''o1''" "resolution_of d2 ''d1'' = Some row" "capability_tokens d2 = []" "signing_keys d2 = signing_keys allow_db"
    "de_id de = ''d1''" "de_intent_id de = ''i1''" "de_outcome de = OutHumanReview" "dr_resolution row = ResApproved"
    "it_agent_id it = ''a1''" "it_context it = JObj []" "it_integration_identity_id it = None" "\<forall>e \<in> set (evidence d2). readable (ev_payload e)"
    "organizations d2 = organizations allow_db" "agents d2 = agents allow_db"
proof -
  obtain d1 it de ev where s1: "server_step plain_crypto allow_db d1" "d1 = allow_db\<lparr>intents := [it], decisions := [de], evidence := [ev]\<rparr>"
    "it = new_intent ''i1'' ''a1'' None ''frobnicate'' None None None None None [] ''n1'' 0 0"
    "de_id de = ''d1''" "de_intent_id de = ''i1''" "de_outcome de = OutHumanReview" "mandates_typed de" "readable (ev_payload ev)" "ev_id ev = ''e1''"
    by (rule demo_reviewed)
  have rows1: "get_decision_row d1 ''d1'' = Some de" "get_intent_row d1 ''i1'' = Some it" "resolve_chain_scope d1 ''a1'' = Some ''o1''"
      "it_agent_id it = ''a1''" "it_context it = JObj []" "it_integration_identity_id it = None" "it_amount it = None" "it_id it = ''i1''"
    using allow_db_rows(8) by (simp_all add: s1(2-5) get_decision_row_def get_intent_row_def new_intent_def)
  have k1: "signing_keys d1 = signing_keys allow_db" "decision_resolutions d1 = []" "capability_tokens d1 = []" using allow_db_rows by (simp_all add: s1(2))
  have "de \<in> set (pending_decisions d1 (Some ''o1''))"
    using s1 k1 by (simp add: pending_iff in_organization_def resolution_of_def exec_rows)
  moreover have "distinct (map de_id (decisions d1))" by (simp add: s1(2))
  ultimately have "\<exists>d2 row. resolve_decision demo_env (\<lambda>n. (n, - 2)) ''r1'' ''e2'' (de_id de) (Some ''o1'') ResApproved ''alice'' None None 0 d1 = Inr (d2, row)"
    by (rule resolve_pending_returns [OF _ _ demo_key_usable s1(7)])
  then obtain d2 row where r2: "resolve_decision demo_env (\<lambda>n. (n, - 2)) ''r1'' ''e2'' ''d1'' (Some ''o1'') ResApproved ''alice'' None None 0 d1 = Inr (d2, row)"
    unfolding s1(4) by blast
  have st2: "server_step plain_crypto d1 d2"
    using server_step.resolve [OF r2] registered_cong [OF k1(1)] allow_db_rows s1(2,9) by simp
  obtain ev2 where s2: "d2 = d1\<lparr>evidence := evidence d1 @ [ev2], decision_resolutions := decision_resolutions d1 @ [row]\<rparr>"
      "dr_decision_id row = ''d1''" "dr_resolution row = ResApproved" "readable (ev_payload ev2)"
    using r2
  proof (rule resolve_decisionD)
    fix de' it' ev2 m i
    assume a: "get_decision_row d1 ''d1'' = Some de'" "get_intent_row d1 (de_intent_id de') = Some it'"
      "append_evidence (env_crypto demo_env) (env_settings demo_env) (review_args (\<lambda>n. (n, - 2)) de' it' m i ResApproved ''alice'') ''e2'' 0 d1
        = Inr (d1\<lparr>evidence := evidence d1 @ [ev2]\<rparr>, ev2)"
      "d2 = d1\<lparr>evidence := evidence d1 @ [ev2], decision_resolutions := decision_resolutions d1 @ [row]\<rparr>"
      "dr_decision_id row = ''d1''" "dr_resolution row = ResApproved"
    have e: "de' = de" "it' = it" using a(1,2) rows1(1,2) s1(5) by simp_all
    have "readable (ev_payload ev2)"
      using append_evidenceD [OF a(3)] readable_plain [of "review_args (\<lambda>n. (n, - 2)) de it m i ResApproved ''alice''"]
      by (auto simp: review_args_def evidence_args_def e s1(3) new_intent_def)
    with that a(4-6) show thesis by blast
  qed
  have scope: "resolve_chain_scope d2 ''a1'' = Some ''o1''"
    using rows1(3) by (auto simp: s2(1) resolve_chain_scope_def get_agent_row_def get_principal_row_def split: option.splits)
  have row2: "get_decision_row d2 ''d1'' = Some de" "get_intent_row d2 ''i1'' = Some it" "resolve_chain_scope d2 ''a1'' = Some ''o1''"
      "resolution_of d2 ''d1'' = Some row" "capability_tokens d2 = []" "signing_keys d2 = signing_keys allow_db" "evidence d2 = [ev, ev2]"
    using rows1 k1 s2(2) scope by (simp_all add: s2(1) s1(2) get_decision_row_def get_intent_row_def resolution_of_def)
  have "(server_step plain_crypto)\<^sup>*\<^sup>* allow_db d2" using s1(1) st2 by (meson converse_rtranclp_into_rtranclp rtranclp.rtrancl_refl)
  moreover have "organizations d2 = organizations allow_db" "agents d2 = agents allow_db" by (simp_all add: s2(1) s1(2))
  ultimately show thesis using that [of d2 de it row] row2 rows1 s1(4-6,8) s2(3,4) by simp
qed


end
