(* ===== verification/Integration_Identity.thy ===== *)
theory Integration_Identity
  imports Capability_Service
begin

text \<open>
  \<^verbatim>\<open>server/app/services/integration_identity_service.py\<close>: the identities of trusted adapters, their
  state machine and their certificates. \<open>IntegrationError\<close> collects the exceptions of this module, of
  the contracts and of the bindings, which call one another; \<open>IntegrityError\<close> is a unique index of the
  database refusing a commit.

  \<open>identity_step\<close> is the step relation of the operations. The statuses follow the same table as the
  agents', and \<open>identities_ok\<close> ties an identity's status to its live certificates.
\<close>

datatype IntegrationError =
    IntegrationIdentityNotFoundError uuid
  | IntegrationIdentityInvalidTransitionError uuid AgentStatus string
  | IdentityHasNoActiveCertificateError uuid
  | IdentityLimitExceededError string int
  | IntegrationNotFoundError uuid
  | ContractVersionNotFoundError uuid
  | ContractInvalidTransitionError ContractStatus string
  | ContractValidationError string
  | ContractVersionHasActiveBindingError uuid
  | ConcurrentVersionConflictError uuid string
  | EnforcementBindingNotFoundError uuid
  | BindingInvalidTransitionError BindingStatus string
  | BindingValidationError string
  | InvalidEnforcementAssuranceError string
  | ConcurrentActivationConflictError uuid
  | IntegrityError

definition MAX_INTEGRATION_IDENTITIES_PER_SANDBOX :: int where "MAX_INTEGRATION_IDENTITIES_PER_SANDBOX = 3"

fun IDENTITY_ALLOWED_TRANSITIONS :: "AgentStatus \<Rightarrow> AgentStatus list" where
  "IDENTITY_ALLOWED_TRANSITIONS AgRegistered = [AgActive, AgRevoked, AgRetired]"
| "IDENTITY_ALLOWED_TRANSITIONS AgActive = [AgSuspended, AgRevoked, AgRetired]"
| "IDENTITY_ALLOWED_TRANSITIONS AgSuspended = [AgActive, AgRevoked, AgRetired]"
| "IDENTITY_ALLOWED_TRANSITIONS AgRevoked = []"
| "IDENTITY_ALLOWED_TRANSITIONS AgRetired = []"

section \<open>Registration and lookups\<close>

definition new_identity_certificate ::
  "uuid \<Rightarrow> uuid \<Rightarrow> string \<Rightarrow> CertificateStatus \<Rightarrow> datetime option \<Rightarrow> datetime \<Rightarrow> IntegrationIdentityCertificate" where
  "new_identity_certificate cid iid pk st activated now = \<lparr>ic_id = cid, ic_integration_identity_id = iid, ic_public_key = pk,
     ic_status = st, ic_issued_at = now, ic_activated_at = activated, ic_rotated_at = None, ic_expires_at = None, ic_revoked_at = None\<rparr>"

definition identities_of_organization :: "db \<Rightarrow> uuid \<Rightarrow> IntegrationIdentity list" where
  "identities_of_organization d org = filter (\<lambda>r. ii_organization_id r = org) (integration_identities d)"

definition register_integration_identity ::
  "uuid \<Rightarrow> string \<Rightarrow> string \<Rightarrow> string option \<Rightarrow> uuid \<Rightarrow> uuid \<Rightarrow> datetime \<Rightarrow> db
     \<Rightarrow> IntegrationError + db \<times> IntegrationIdentity \<times> IntegrationIdentityCertificate" where
  "register_integration_identity org nm pk creator iid cid now d =
     (if is_sandbox_organization d (Some org)
         \<and> int (length (identities_of_organization d org)) \<ge> MAX_INTEGRATION_IDENTITIES_PER_SANDBOX
      then Inl (IdentityLimitExceededError ''integration identities'' MAX_INTEGRATION_IDENTITIES_PER_SANDBOX)
      else
        let r = \<lparr>ii_id = iid, ii_organization_id = org, ii_name = nm, ii_status = AgRegistered, ii_created_by = creator, ii_created_at = now\<rparr>;
            c = new_identity_certificate cid iid pk CertIssued None now
        in Inr (d\<lparr>integration_identities := integration_identities d @ [r],
                  integration_identity_certificates := integration_identity_certificates d @ [c]\<rparr>, r, c))"

definition get_integration_identity :: "db \<Rightarrow> uuid \<Rightarrow> uuid \<Rightarrow> IntegrationError + IntegrationIdentity" where
  "get_integration_identity d iid org =
     get_or_raise (db_find (\<lambda>r. ii_id r = iid \<and> ii_organization_id r = org) (integration_identities d)) (IntegrationIdentityNotFoundError iid)"

definition list_integration_identities :: "db \<Rightarrow> uuid \<Rightarrow> IntegrationIdentity list" where
  "list_integration_identities d org = sort_key ii_created_at (identities_of_organization d org)"

definition list_identity_certificates :: "db \<Rightarrow> uuid \<Rightarrow> IntegrationIdentityCertificate list" where
  "list_identity_certificates d iid =
     sort_key ic_issued_at (filter (\<lambda>c. ic_integration_identity_id c = iid) (integration_identity_certificates d))"

definition get_active_certificate_for_identity :: "db \<Rightarrow> uuid \<Rightarrow> IntegrationIdentityCertificate option" where
  "get_active_certificate_for_identity d iid =
     db_find (\<lambda>c. ic_integration_identity_id c = iid \<and> ic_status c = CertActive) (integration_identity_certificates d)"

definition get_active_identity_certificate :: "db \<Rightarrow> uuid \<Rightarrow> IntegrationIdentityCertificate option" where
  "get_active_identity_certificate d cid = (case db_find (\<lambda>c. ic_id c = cid) (integration_identity_certificates d) of
     None \<Rightarrow> None | Some c \<Rightarrow> if ic_status c \<noteq> CertActive then None else Some c)"

section \<open>Transitions\<close>

definition update_identity :: "uuid \<Rightarrow> (IntegrationIdentity \<Rightarrow> IntegrationIdentity) \<Rightarrow> db \<Rightarrow> db" where
  "update_identity iid f d = d\<lparr>integration_identities := db_update (\<lambda>r. ii_id r = iid) f (integration_identities d)\<rparr>"

definition update_identity_certificate :: "uuid \<Rightarrow> (IntegrationIdentityCertificate \<Rightarrow> IntegrationIdentityCertificate) \<Rightarrow> db \<Rightarrow> db" where
  "update_identity_certificate cid f d =
     d\<lparr>integration_identity_certificates := db_update (\<lambda>c. ic_id c = cid) f (integration_identity_certificates d)\<rparr>"

definition update_found_identity_certificate ::
  "(IntegrationIdentityCertificate \<Rightarrow> bool) \<Rightarrow> (IntegrationIdentityCertificate \<Rightarrow> IntegrationIdentityCertificate) \<Rightarrow> db \<Rightarrow> db" where
  "update_found_identity_certificate P f d = (case db_find P (integration_identity_certificates d) of
     None \<Rightarrow> d | Some c \<Rightarrow> update_identity_certificate (ic_id c) f d)"

definition identity_returning :: "uuid \<Rightarrow> uuid \<Rightarrow> db \<Rightarrow> IntegrationError + db \<times> IntegrationIdentity" where
  "identity_returning iid org d = rmap (\<lambda>r. (d, r)) (get_integration_identity d iid org)"

definition activate_integration_identity :: "uuid \<Rightarrow> uuid \<Rightarrow> datetime \<Rightarrow> db \<Rightarrow> IntegrationError + db \<times> IntegrationIdentity" where
  "activate_integration_identity iid org now d =
     rbind (get_integration_identity d iid org) (\<lambda>r.
     if AgActive \<notin> set (IDENTITY_ALLOWED_TRANSITIONS (ii_status r))
     then Inl (IntegrationIdentityInvalidTransitionError iid (ii_status r) ''activate'')
     else identity_returning iid org
       (update_found_identity_certificate (\<lambda>c. ic_integration_identity_id c = iid \<and> ic_status c = CertIssued)
          (\<lambda>c. c\<lparr>ic_status := CertActive, ic_activated_at := Some now\<rparr>)
          (update_identity iid (\<lambda>r. r\<lparr>ii_status := AgActive\<rparr>) d)))"

definition suspend_integration_identity :: "uuid \<Rightarrow> uuid \<Rightarrow> db \<Rightarrow> IntegrationError + db \<times> IntegrationIdentity" where
  "suspend_integration_identity iid org d =
     rbind (get_integration_identity d iid org) (\<lambda>r.
     if AgSuspended \<notin> set (IDENTITY_ALLOWED_TRANSITIONS (ii_status r))
     then Inl (IntegrationIdentityInvalidTransitionError iid (ii_status r) ''suspend'')
     else identity_returning iid org (update_identity iid (\<lambda>r. r\<lparr>ii_status := AgSuspended\<rparr>) d))"

definition revoke_integration_identity :: "uuid \<Rightarrow> uuid \<Rightarrow> datetime \<Rightarrow> db \<Rightarrow> IntegrationError + db \<times> IntegrationIdentity" where
  "revoke_integration_identity iid org now d =
     rbind (get_integration_identity d iid org) (\<lambda>r.
     if AgRevoked \<notin> set (IDENTITY_ALLOWED_TRANSITIONS (ii_status r))
     then Inl (IntegrationIdentityInvalidTransitionError iid (ii_status r) ''revoke'')
     else identity_returning iid org
       (update_found_identity_certificate (\<lambda>c. ic_integration_identity_id c = iid \<and> ic_status c \<in> set CERT_LIVE_STATUSES)
          (\<lambda>c. c\<lparr>ic_status := CertRevoked, ic_revoked_at := Some now\<rparr>)
          (update_identity iid (\<lambda>r. r\<lparr>ii_status := AgRevoked\<rparr>) d)))"

definition retire_integration_identity :: "uuid \<Rightarrow> uuid \<Rightarrow> datetime \<Rightarrow> db \<Rightarrow> IntegrationError + db \<times> IntegrationIdentity" where
  "retire_integration_identity iid org now d =
     rbind (get_integration_identity d iid org) (\<lambda>r.
     if AgRetired \<notin> set (IDENTITY_ALLOWED_TRANSITIONS (ii_status r))
     then Inl (IntegrationIdentityInvalidTransitionError iid (ii_status r) ''retire'')
     else identity_returning iid org
       (update_found_identity_certificate (\<lambda>c. ic_integration_identity_id c = iid \<and> ic_status c \<in> set CERT_LIVE_STATUSES)
          (\<lambda>c. c\<lparr>ic_status := CertExpired, ic_expires_at := Some now\<rparr>)
          (update_identity iid (\<lambda>r. r\<lparr>ii_status := AgRetired\<rparr>) d)))"

definition rotate_identity_certificate ::
  "uuid \<Rightarrow> uuid \<Rightarrow> string \<Rightarrow> uuid \<Rightarrow> datetime \<Rightarrow> db \<Rightarrow> IntegrationError + db \<times> IntegrationIdentityCertificate" where
  "rotate_identity_certificate iid org new_public_key cid now d =
     rbind (get_integration_identity d iid org) (\<lambda>r.
     if ii_status r \<notin> {AgActive, AgSuspended} then Inl (IntegrationIdentityInvalidTransitionError iid (ii_status r) ''rotate'')
     else rbind (get_or_raise (get_active_certificate_for_identity d iid) (IdentityHasNoActiveCertificateError iid)) (\<lambda>old.
       let d1 = update_identity_certificate (ic_id old) (\<lambda>c. c\<lparr>ic_status := CertRotated, ic_rotated_at := Some now\<rparr>) d;
           new = new_identity_certificate cid iid new_public_key CertActive (Some now) now
       in Inr (d1\<lparr>integration_identity_certificates := integration_identity_certificates d1 @ [new]\<rparr>, new)))"

section \<open>Steps\<close>

inductive identity_step :: "db \<Rightarrow> db \<Rightarrow> bool" where
  register: "register_integration_identity org nm pk crt iid cid now d = Inr (d', r, c) \<Longrightarrow>
    iid \<notin> ii_id ` set (integration_identities d) \<Longrightarrow> cid \<notin> ic_id ` set (integration_identity_certificates d) \<Longrightarrow> identity_step d d'"
| activate: "activate_integration_identity iid org now d = Inr (d', r) \<Longrightarrow> identity_step d d'"
| suspend: "suspend_integration_identity iid org d = Inr (d', r) \<Longrightarrow> identity_step d d'"
| revoke: "revoke_integration_identity iid org now d = Inr (d', r) \<Longrightarrow> identity_step d d'"
| retire: "retire_integration_identity iid org now d = Inr (d', r) \<Longrightarrow> identity_step d d'"
| rotate: "rotate_identity_certificate iid org pk cid now d = Inr (d', c) \<Longrightarrow>
    cid \<notin> ic_id ` set (integration_identity_certificates d) \<Longrightarrow> identity_step d d'"

interpretation identity_creds: credentials integration_identities integration_identity_certificates
  ii_id ii_status ic_id ic_integration_identity_id ic_status .

lemma identity_update_simps [simp]:
  "integration_identities (update_identity iid f d) = db_update (\<lambda>r. ii_id r = iid) f (integration_identities d)"
  "integration_identity_certificates (update_identity iid f d) = integration_identity_certificates d"
  "integration_identities (update_found_identity_certificate P g d) = integration_identities d"
  "integration_identity_certificates (update_found_identity_certificate P g d) = upd_first ic_id P g (integration_identity_certificates d)"
  by (simp_all add: update_identity_def update_found_identity_certificate_def update_identity_certificate_def upd_first_def split: option.splits)

lemma get_integration_identityD:
  "get_integration_identity d iid org = Inr r \<Longrightarrow> r \<in> set (integration_identities d) \<and> ii_id r = iid \<and> ii_organization_id r = org"
  using db_find_Some by (fastforce simp: get_integration_identity_def)

text \<open>A status change of one identity with the first matching certificate updated along with it.\<close>

definition identity_moves ::
  "db \<Rightarrow> uuid \<Rightarrow> AgentStatus \<Rightarrow> (IntegrationIdentityCertificate \<Rightarrow> bool)
     \<Rightarrow> (IntegrationIdentityCertificate \<Rightarrow> IntegrationIdentityCertificate) \<Rightarrow> db \<Rightarrow> bool" where
  "identity_moves d iid s P f d' = (\<exists>r \<in> set (integration_identities d). ii_id r = iid \<and> s \<in> set (IDENTITY_ALLOWED_TRANSITIONS (ii_status r))
     \<and> d' = update_found_identity_certificate P f (update_identity iid (\<lambda>r. r\<lparr>ii_status := s\<rparr>) d))"

lemma activate_moves:
  "activate_integration_identity iid org now d = Inr (d', r) \<Longrightarrow>
   identity_moves d iid AgActive (\<lambda>c. ic_integration_identity_id c = iid \<and> ic_status c = CertIssued)
     (\<lambda>c. c\<lparr>ic_status := CertActive, ic_activated_at := Some now\<rparr>) d'"
  using get_integration_identityD
  by (fastforce simp: activate_integration_identity_def identity_returning_def identity_moves_def split: if_splits)

lemma suspend_moves:
  "suspend_integration_identity iid org d = Inr (d', r) \<Longrightarrow> identity_moves d iid AgSuspended (\<lambda>_. False) id d'"
  using get_integration_identityD db_find_None_iff [of "\<lambda>_. False" "integration_identity_certificates d"]
  by (fastforce simp: suspend_integration_identity_def identity_returning_def identity_moves_def update_found_identity_certificate_def split: if_splits)

lemma revoke_moves:
  "revoke_integration_identity iid org now d = Inr (d', r) \<Longrightarrow>
   identity_moves d iid AgRevoked (\<lambda>c. ic_integration_identity_id c = iid \<and> ic_status c \<in> set CERT_LIVE_STATUSES)
     (\<lambda>c. c\<lparr>ic_status := CertRevoked, ic_revoked_at := Some now\<rparr>) d'"
  using get_integration_identityD
  by (fastforce simp: revoke_integration_identity_def identity_returning_def identity_moves_def split: if_splits)

lemma retire_moves:
  "retire_integration_identity iid org now d = Inr (d', r) \<Longrightarrow>
   identity_moves d iid AgRetired (\<lambda>c. ic_integration_identity_id c = iid \<and> ic_status c \<in> set CERT_LIVE_STATUSES)
     (\<lambda>c. c\<lparr>ic_status := CertExpired, ic_expires_at := Some now\<rparr>) d'"
  using get_integration_identityD
  by (fastforce simp: retire_integration_identity_def identity_returning_def identity_moves_def split: if_splits)

lemma rotate_identityD:
  assumes "rotate_identity_certificate iid org pk cid now d = Inr (d', new)"
  obtains r where "r \<in> set (integration_identities d)" "ii_id r = iid" "ii_status r \<in> {AgActive, AgSuspended}"
    "integration_identities d' = integration_identities d" "new = new_identity_certificate cid iid pk CertActive (Some now) now"
    "integration_identity_certificates d' = upd_first ic_id (\<lambda>c. ic_integration_identity_id c = iid \<and> ic_status c = CertActive)
       (\<lambda>c. c\<lparr>ic_status := CertRotated, ic_rotated_at := Some now\<rparr>) (integration_identity_certificates d) @ [new]"
  using assms get_integration_identityD [of d iid org]
  by (auto simp: rotate_identity_certificate_def get_active_certificate_for_identity_def update_identity_certificate_def upd_first_def
      Let_def split: if_splits)

lemma moves_cred:
  assumes m: "identity_moves d iid s P f d'" and P: "\<And>x. P x \<Longrightarrow> identity_creds.live iid x"
    and f: "\<And>x. ic_id (f x) = ic_id x \<and> ic_integration_identity_id (f x) = ic_integration_identity_id x"
    and e: "\<And>cs t. s \<in> set (IDENTITY_ALLOWED_TRANSITIONS t) \<Longrightarrow> map ic_status cs = expected_live t \<Longrightarrow> (\<forall>c \<in> set cs. ic_integration_identity_id c = iid) \<Longrightarrow>
       map ic_status (filter (identity_creds.live iid) (map (\<lambda>c. if P c then f c else c) cs)) = expected_live s"
  shows "identity_creds.cred_change d d'"
proof -
  obtain r where r: "r \<in> set (integration_identities d)" "ii_id r = iid" "s \<in> set (IDENTITY_ALLOWED_TRANSITIONS (ii_status r))"
    and d': "d' = update_found_identity_certificate P f (update_identity iid (\<lambda>r. r\<lparr>ii_status := s\<rparr>) d)"
    using m by (auto simp: identity_moves_def)
  show ?thesis
    by (rule identity_creds.cred_change.change [of r d d' "\<lambda>r. r\<lparr>ii_status := s\<rparr>" P f "[]"])
      (use r P f e [OF r(3)] in \<open>simp_all add: d'\<close>)
qed

lemma identity_step_cred:
  assumes "identity_step d d'"
  shows "identity_creds.cred_change d d'"
  using assms
proof cases
  case (register org nm pk crt iid cid now r c)
  then show ?thesis
    by (intro identity_creds.cred_change.register [of d' d r c])
      (auto simp: register_integration_identity_def Let_def new_identity_certificate_def split: if_splits)
next
  case (activate iid org now r)
  show ?thesis
  proof (rule moves_cred [OF activate_moves [OF activate]])
    fix cs :: "IntegrationIdentityCertificate list" and t assume "AgActive \<in> set (IDENTITY_ALLOWED_TRANSITIONS t)" "map ic_status cs = expected_live t" "\<forall>c \<in> set cs. ic_integration_identity_id c = iid"
    then show "map ic_status (filter (identity_creds.live iid) (map (\<lambda>c. if ic_integration_identity_id c = iid \<and> ic_status c = CertIssued
      then c\<lparr>ic_status := CertActive, ic_activated_at := Some now\<rparr> else c) cs)) = expected_live AgActive"
      by (cases t) (auto simp: identity_creds.live_def)
  qed (auto simp: identity_creds.live_def)
next
  case (suspend iid org r)
  show ?thesis
  proof (rule moves_cred [OF suspend_moves [OF suspend]])
    fix cs :: "IntegrationIdentityCertificate list" and t assume "AgSuspended \<in> set (IDENTITY_ALLOWED_TRANSITIONS t)" "map ic_status cs = expected_live t" "\<forall>c \<in> set cs. ic_integration_identity_id c = iid"
    then show "map ic_status (filter (identity_creds.live iid) (map (\<lambda>c. if False then id c else c) cs)) = expected_live AgSuspended"
      by (cases t) (auto simp: identity_creds.live_def)
  qed auto
next
  case (revoke iid org now r)
  show ?thesis
  proof (rule moves_cred [OF revoke_moves [OF revoke]])
    fix cs :: "IntegrationIdentityCertificate list" and t assume "AgRevoked \<in> set (IDENTITY_ALLOWED_TRANSITIONS t)" "map ic_status cs = expected_live t" "\<forall>c \<in> set cs. ic_integration_identity_id c = iid"
    then show "map ic_status (filter (identity_creds.live iid) (map (\<lambda>c. if ic_integration_identity_id c = iid \<and> ic_status c \<in> set CERT_LIVE_STATUSES
      then c\<lparr>ic_status := CertRevoked, ic_revoked_at := Some now\<rparr> else c) cs)) = expected_live AgRevoked"
      by (cases t) (auto simp: identity_creds.live_def CERT_LIVE_STATUSES_def)
  qed (auto simp: identity_creds.live_def CERT_LIVE_STATUSES_def)
next
  case (retire iid org now r)
  show ?thesis
  proof (rule moves_cred [OF retire_moves [OF retire]])
    fix cs :: "IntegrationIdentityCertificate list" and t assume "AgRetired \<in> set (IDENTITY_ALLOWED_TRANSITIONS t)" "map ic_status cs = expected_live t" "\<forall>c \<in> set cs. ic_integration_identity_id c = iid"
    then show "map ic_status (filter (identity_creds.live iid) (map (\<lambda>c. if ic_integration_identity_id c = iid \<and> ic_status c \<in> set CERT_LIVE_STATUSES
      then c\<lparr>ic_status := CertExpired, ic_expires_at := Some now\<rparr> else c) cs)) = expected_live AgRetired"
      by (cases t) (auto simp: identity_creds.live_def CERT_LIVE_STATUSES_def)
  qed (auto simp: identity_creds.live_def CERT_LIVE_STATUSES_def)
next
  case (rotate iid org pk cid now c)
  from rotate(1) show ?thesis
  proof (rule rotate_identityD)
    fix r assume r: "r \<in> set (integration_identities d)" "ii_id r = iid" "ii_status r \<in> {AgActive, AgSuspended}"
      "integration_identities d' = integration_identities d" "c = new_identity_certificate cid iid pk CertActive (Some now) now"
      "integration_identity_certificates d' = upd_first ic_id (\<lambda>c. ic_integration_identity_id c = iid \<and> ic_status c = CertActive)
         (\<lambda>c. c\<lparr>ic_status := CertRotated, ic_rotated_at := Some now\<rparr>) (integration_identity_certificates d) @ [c]"
    show ?thesis
      by (rule identity_creds.cred_change.change [OF r(1) _ r(6), of id])
        (use r(2-5) rotate(2) in \<open>auto simp: identity_creds.live_def new_identity_certificate_def db_update_def map_idI\<close>)
  qed
qed

interpretation identity_service: credential_service integration_identities integration_identity_certificates
  ii_id ii_status ic_id ic_integration_identity_id ic_status identity_step
  by unfold_locales (rule identity_step_cred)

section \<open>Certificates follow the status\<close>

text \<open>In every state the service reaches from an empty registry, an identity has exactly the live
  certificates of its status (one issued before activation, one active while it is active or
  suspended, none once revoked or retired), so a certificate that request authentication accepts
  belongs to an identity that is active or suspended.\<close>

theorem identity_certificates_follow_status:
  assumes "identity_step\<^sup>*\<^sup>* d0 d" "integration_identities d0 = []" "integration_identity_certificates d0 = []"
  shows "(\<forall>r \<in> set (integration_identities d).
       map ic_status (filter (\<lambda>c. ic_integration_identity_id c = ii_id r \<and> ic_status c \<in> {CertIssued, CertActive}) (integration_identity_certificates d))
         = expected_live (ii_status r))
    \<and> (\<forall>cid c. get_active_identity_certificate d cid = Some c \<longrightarrow>
         (\<exists>r \<in> set (integration_identities d). ii_id r = ic_integration_identity_id c \<and> ii_status r \<in> {AgActive, AgSuspended}))"
proof -
  have ok: "identity_creds.creds_ok d"
    by (rule identity_service.service_run [OF assms(1)]) (simp add: identity_creds.creds_ok_def assms)
  have "\<exists>r \<in> set (integration_identities d). ii_id r = ic_integration_identity_id c \<and> ii_status r \<in> {AgActive, AgSuspended}"
    if "get_active_identity_certificate d cid = Some c" for cid c
  proof (rule identity_creds.active_cert_operational [OF ok])
    show "c \<in> set (integration_identity_certificates d)" "ic_status c = CertActive"
      using that db_find_Some by (fastforce simp: get_active_identity_certificate_def split: option.splits if_splits)+
  qed
  moreover have "identity_creds.live i = (\<lambda>c. ic_integration_identity_id c = i \<and> ic_status c \<in> {CertIssued, CertActive})" for i
    by (simp add: fun_eq_iff identity_creds.live_def)
  ultimately show ?thesis using ok by (simp add: identity_creds.creds_ok_def)
qed

end
