(* ===== verification/Integration_Contract.thy ===== *)
theory Integration_Contract
  imports Integration_Identity Compiler_V2
begin

text \<open>
  \<^verbatim>\<open>server/app/services/integration_contract_service.py\<close>: integrations and the versions of their
  contracts, from draft over validated and approved to retired.

  A version number is allocated from what the transaction reads and committed under the unique
  index on integration, operation and version; under concurrency the two states differ. An attempt
  therefore takes the state it read and the state it commits to, and \<open>None\<close> is the index refusing
  the commit. \<open>views\<close> gives the two states of each attempt of the retry loop; a call without
  concurrency is the one where all of them are the current state.
\<close>

section \<open>Fields\<close>

definition ident_start :: "char \<Rightarrow> bool" where
  "ident_start c = (let n = (of_char c :: nat) in 65 \<le> n \<and> n \<le> 90 \<or> 97 \<le> n \<and> n \<le> 122 \<or> n = 95)"

definition is_identifier :: "string \<Rightarrow> bool" where
  "is_identifier s = (case s of [] \<Rightarrow> False | c # r \<Rightarrow> ident_start c \<and> list_all (\<lambda>x. ident_start x \<or> is_digit x) r)"

text \<open>In a Python pattern, \<^verbatim>\<open>$\<close> matches at the end and before a final newline.\<close>

definition at_end :: "(string \<Rightarrow> bool) \<Rightarrow> string \<Rightarrow> bool" where
  "at_end P s = (P s \<or> (s \<noteq> [] \<and> last s = char_of (10 :: nat) \<and> P (butlast s)))"

definition PATH_RE_match :: "string \<Rightarrow> bool" where
  "PATH_RE_match = at_end (\<lambda>s. list_all is_identifier (split_on CHR ''.'' s))"

definition CONTEXT_KEY_RE_match :: "string \<Rightarrow> bool" where
  "CONTEXT_KEY_RE_match = at_end is_identifier"

definition contract_semantics ::
  "string \<Rightarrow> string \<Rightarrow> string option \<Rightarrow> string option \<Rightarrow> string option \<Rightarrow> string option \<Rightarrow> json \<Rightarrow> json" where
  "contract_semantics so act res subj amt cur ctx = JObj [(''source_operation'', JStr so), (''canonical_action'', JStr act),
     (''resource_path'', opt_str res), (''fact_subject_path'', opt_str subj), (''amount_path'', opt_str amt),
     (''currency_path'', opt_str cur), (''context_bindings'', ctx)]"

definition row_semantics :: "IntegrationContractVersion \<Rightarrow> json" where
  "row_semantics r = contract_semantics (cv_source_operation r) (cv_canonical_action r) (cv_resource_path r) (cv_fact_subject_path r)
     (cv_amount_path r) (cv_currency_path r) (cv_context_bindings r)"

definition compute_content_hash :: "crypto \<Rightarrow> json \<Rightarrow> string" where
  "compute_content_hash C semantic = payload_hash C semantic"

fun check_paths :: "(string \<times> string option) list \<Rightarrow> IntegrationError + unit" where
  "check_paths [] = Inr ()"
| "check_paths ((nm, None) # r) = check_paths r"
| "check_paths ((nm, Some p) # r) =
     (if \<not> PATH_RE_match p then Inl (ContractValidationError (nm @ '' is not a well-formed field path: '' @ repr_str p)) else check_paths r)"

fun check_bindings :: "(string \<times> json) list \<Rightarrow> IntegrationError + unit" where
  "check_bindings [] = Inr ()"
| "check_bindings ((k, p) # r) =
     (if \<not> CONTEXT_KEY_RE_match k
      then Inl (ContractValidationError (''context_bindings key is not a valid canonical context key: '' @ repr_str k))
      else if \<not> (case p of JStr s \<Rightarrow> PATH_RE_match s | _ \<Rightarrow> False)
      then Inl (ContractValidationError (''context_bindings['' @ repr_str k @ ''] is not a well-formed field path: '' @ py_repr p))
      else check_bindings r)"

definition validate_semantic_fields ::
  "string \<Rightarrow> string \<Rightarrow> string option \<Rightarrow> string option \<Rightarrow> string option \<Rightarrow> string option \<Rightarrow> json \<Rightarrow> IntegrationError + unit" where
  "validate_semantic_fields so act res subj amt cur ctx =
     (if is_blank so then Inl (ContractValidationError ''source_operation is required'')
      else if \<not> is_valid_action GENERIC_VOCABULARY act
      then Inl (ContractValidationError (''canonical_action '' @ repr_str act @ '' is not a recognized action''))
      else rbind (check_paths [(''resource_path'', res), (''fact_subject_path'', subj), (''amount_path'', amt), (''currency_path'', cur)]) (\<lambda>_.
        case ctx of
          JObj ps \<Rightarrow> check_bindings ps
        | _ \<Rightarrow> Inl (ContractValidationError ''context_bindings must be an object of {canonical_key: source_path}'')))"

definition validate_row :: "IntegrationContractVersion \<Rightarrow> IntegrationError + unit" where
  "validate_row r = validate_semantic_fields (cv_source_operation r) (cv_canonical_action r) (cv_resource_path r) (cv_fact_subject_path r)
     (cv_amount_path r) (cv_currency_path r) (cv_context_bindings r)"

section \<open>Integrations\<close>

definition create_integration :: "uuid \<Rightarrow> string \<Rightarrow> string option \<Rightarrow> uuid \<Rightarrow> datetime \<Rightarrow> db \<Rightarrow> IntegrationError + db \<times> Integration" where
  "create_integration org label creator gid now d =
     (if is_blank label then Inl (ContractValidationError ''external_system_label is required'')
      else let r = \<lparr>ig_id = gid, ig_organization_id = org, ig_external_system_label = label, ig_created_by = creator, ig_created_at = now\<rparr>
           in Inr (d\<lparr>integrations := integrations d @ [r]\<rparr>, r))"

definition get_integration :: "db \<Rightarrow> uuid \<Rightarrow> uuid \<Rightarrow> IntegrationError + Integration" where
  "get_integration d gid org =
     get_or_raise (db_find (\<lambda>r. ig_id r = gid \<and> ig_organization_id r = org) (integrations d)) (IntegrationNotFoundError gid)"

definition list_integrations :: "db \<Rightarrow> uuid \<Rightarrow> Integration list" where
  "list_integrations d org = sort_key ig_created_at (filter (\<lambda>r. ig_organization_id r = org) (integrations d))"

section \<open>Contract versions\<close>

definition MAX_VERSION_CREATE_ATTEMPTS :: nat where "MAX_VERSION_CREATE_ATTEMPTS = 3"

definition version_key :: "IntegrationContractVersion \<Rightarrow> uuid \<times> string \<times> int" where
  "version_key r = (cv_integration_id r, cv_source_operation r, cv_version r)"

definition versions_unique :: "db \<Rightarrow> bool" where
  "versions_unique d = distinct (map version_key (integration_contract_versions d))"

definition next_version :: "db \<Rightarrow> uuid \<Rightarrow> string \<Rightarrow> int" where
  "next_version d gid so =
     (case map cv_version (filter (\<lambda>r. cv_integration_id r = gid \<and> cv_source_operation r = so) (integration_contract_versions d)) of
        [] \<Rightarrow> 0 | v # vs \<Rightarrow> fold max vs v) + 1"

definition new_contract_version ::
  "uuid \<Rightarrow> uuid \<Rightarrow> uuid \<Rightarrow> string \<Rightarrow> int \<Rightarrow> string \<Rightarrow> string option \<Rightarrow> string option \<Rightarrow> string option \<Rightarrow> string option \<Rightarrow> json
     \<Rightarrow> string option \<Rightarrow> string option \<Rightarrow> datetime \<Rightarrow> IntegrationContractVersion" where
  "new_contract_version vid gid org so v act res subj amt cur ctx fp creator now = \<lparr>cv_id = vid, cv_integration_id = gid,
     cv_organization_id = org, cv_source_operation = so, cv_version = v, cv_canonical_action = act, cv_resource_path = res,
     cv_fact_subject_path = subj, cv_amount_path = amt, cv_currency_path = cur, cv_context_bindings = ctx, cv_content_hash = None,
     cv_source_schema_fingerprint = fp, cv_status = ConDraft, cv_created_by = creator, cv_created_at = now, cv_validated_at = None,
     cv_approved_by = None, cv_approved_at = None, cv_retired_at = None\<rparr>"

definition create_contract_version_attempt ::
  "db \<Rightarrow> (int \<Rightarrow> IntegrationContractVersion) \<Rightarrow> uuid \<Rightarrow> string \<Rightarrow> db \<Rightarrow> (db \<times> IntegrationContractVersion) option" where
  "create_contract_version_attempt seen mk gid so d =
     (let r = mk (next_version seen gid so); d' = d\<lparr>integration_contract_versions := integration_contract_versions d @ [r]\<rparr>
      in if versions_unique d' then Some (d', r) else None)"

fun create_version_attempts ::
  "(int \<Rightarrow> IntegrationContractVersion) \<Rightarrow> uuid \<Rightarrow> string \<Rightarrow> (db \<times> db) list \<Rightarrow> IntegrationError + db \<times> IntegrationContractVersion" where
  "create_version_attempts mk gid so [] = Inl (ConcurrentVersionConflictError gid so)"
| "create_version_attempts mk gid so ((seen, d) # r) = (case create_contract_version_attempt seen mk gid so d of
     None \<Rightarrow> create_version_attempts mk gid so r | Some x \<Rightarrow> Inr x)"

definition create_contract_version ::
  "uuid \<Rightarrow> uuid \<Rightarrow> string \<Rightarrow> string \<Rightarrow> string option \<Rightarrow> string option \<Rightarrow> string option \<Rightarrow> string option \<Rightarrow> json
     \<Rightarrow> string option \<Rightarrow> string option \<Rightarrow> uuid \<Rightarrow> datetime \<Rightarrow> (nat \<Rightarrow> db \<times> db) \<Rightarrow> db \<Rightarrow> IntegrationError + db \<times> IntegrationContractVersion" where
  "create_contract_version gid org so act res subj amt cur ctx fp creator vid now views seen =
     rbind (get_integration seen gid org) (\<lambda>_.
       let ctx' = (if truthy ctx then ctx else JObj [])
       in rbind (validate_semantic_fields so act res subj amt cur ctx') (\<lambda>_.
            create_version_attempts (\<lambda>v. new_contract_version vid gid org so v act res subj amt cur ctx' fp creator now) gid so
              (map views [0..<MAX_VERSION_CREATE_ATTEMPTS])))"

definition get_contract_row :: "db \<Rightarrow> uuid \<Rightarrow> IntegrationContractVersion option" where
  "get_contract_row d vid = db_find (\<lambda>r. cv_id r = vid) (integration_contract_versions d)"

definition get_contract_version :: "db \<Rightarrow> uuid \<Rightarrow> uuid \<Rightarrow> IntegrationError + IntegrationContractVersion" where
  "get_contract_version d vid org =
     get_or_raise (db_find (\<lambda>r. cv_id r = vid \<and> cv_organization_id r = org) (integration_contract_versions d)) (ContractVersionNotFoundError vid)"

definition list_contract_versions :: "db \<Rightarrow> uuid \<Rightarrow> uuid \<Rightarrow> IntegrationError + IntegrationContractVersion list" where
  "list_contract_versions d gid org = rmap (\<lambda>_. sort_key (\<lambda>r. (cv_source_operation r, cv_version r))
     (filter (\<lambda>r. cv_integration_id r = gid \<and> cv_organization_id r = org) (integration_contract_versions d))) (get_integration d gid org)"

definition update_contract :: "uuid \<Rightarrow> (IntegrationContractVersion \<Rightarrow> IntegrationContractVersion) \<Rightarrow> db \<Rightarrow> db" where
  "update_contract vid f d = d\<lparr>integration_contract_versions := db_update (\<lambda>r. cv_id r = vid) f (integration_contract_versions d)\<rparr>"

definition contract_returning :: "uuid \<Rightarrow> uuid \<Rightarrow> db \<Rightarrow> IntegrationError + db \<times> IntegrationContractVersion" where
  "contract_returning vid org d = rmap (\<lambda>r. (d, r)) (get_contract_version d vid org)"

text \<open>The keyword arguments of an edit; \<open>None\<close> is \<open>_UNSET\<close>.\<close>

record ContractEdit =
  ce_source_operation :: "string option"
  ce_canonical_action :: "string option"
  ce_resource_path :: "string option option"
  ce_fact_subject_path :: "string option option"
  ce_amount_path :: "string option option"
  ce_currency_path :: "string option option"
  ce_context_bindings :: "json option"
  ce_source_schema_fingerprint :: "string option option"

definition or_keep :: "'a option \<Rightarrow> 'a \<Rightarrow> 'a" where
  "or_keep x y = (case x of None \<Rightarrow> y | Some z \<Rightarrow> z)"

definition apply_edit :: "ContractEdit \<Rightarrow> IntegrationContractVersion \<Rightarrow> IntegrationContractVersion" where
  "apply_edit e r = r\<lparr>cv_source_operation := or_keep (ce_source_operation e) (cv_source_operation r),
     cv_canonical_action := or_keep (ce_canonical_action e) (cv_canonical_action r),
     cv_resource_path := or_keep (ce_resource_path e) (cv_resource_path r),
     cv_fact_subject_path := or_keep (ce_fact_subject_path e) (cv_fact_subject_path r),
     cv_amount_path := or_keep (ce_amount_path e) (cv_amount_path r),
     cv_currency_path := or_keep (ce_currency_path e) (cv_currency_path r),
     cv_context_bindings := (case ce_context_bindings e of None \<Rightarrow> cv_context_bindings r
        | Some x \<Rightarrow> if x = JNull then JObj [] else x),
     cv_source_schema_fingerprint := or_keep (ce_source_schema_fingerprint e) (cv_source_schema_fingerprint r)\<rparr>"

definition edit_draft_contract_version ::
  "uuid \<Rightarrow> uuid \<Rightarrow> ContractEdit \<Rightarrow> db \<Rightarrow> IntegrationError + db \<times> IntegrationContractVersion" where
  "edit_draft_contract_version vid org e d =
     rbind (get_contract_version d vid org) (\<lambda>r.
     rbind (raise_if (cv_status r \<noteq> ConDraft) (ContractInvalidTransitionError (cv_status r) ''edit'')) (\<lambda>_.
     rbind (validate_row (apply_edit e r)) (\<lambda>_.
       let d' = update_contract vid (apply_edit e) d
       in if \<not> versions_unique d' then Inl IntegrityError else contract_returning vid org d')))"

definition validate_contract_version ::
  "crypto \<Rightarrow> uuid \<Rightarrow> uuid \<Rightarrow> datetime \<Rightarrow> db \<Rightarrow> IntegrationError + db \<times> IntegrationContractVersion" where
  "validate_contract_version C vid org now d =
     rbind (get_contract_version d vid org) (\<lambda>r.
     rbind (raise_if (cv_status r \<noteq> ConDraft) (ContractInvalidTransitionError (cv_status r) ''validate'')) (\<lambda>_.
     rbind (validate_row r) (\<lambda>_.
       contract_returning vid org (update_contract vid (\<lambda>x. x\<lparr>cv_content_hash := Some (compute_content_hash C (row_semantics r)),
         cv_status := ConValidated, cv_validated_at := Some now\<rparr>) d))))"

definition approve_contract_version ::
  "uuid \<Rightarrow> uuid \<Rightarrow> string \<Rightarrow> datetime \<Rightarrow> db \<Rightarrow> IntegrationError + db \<times> IntegrationContractVersion" where
  "approve_contract_version vid org approver now d =
     rbind (get_contract_version d vid org) (\<lambda>r.
     rbind (raise_if (cv_status r \<noteq> ConValidated) (ContractInvalidTransitionError (cv_status r) ''approve'')) (\<lambda>_.
       contract_returning vid org (update_contract vid (\<lambda>x. x\<lparr>cv_status := ConApproved, cv_approved_by := Some approver,
         cv_approved_at := Some now\<rparr>) d)))"

definition has_active_binding_for_contract_version :: "db \<Rightarrow> uuid \<Rightarrow> bool" where
  "has_active_binding_for_contract_version d vid =
     (db_find (\<lambda>b. eb_integration_contract_version_id b = vid \<and> eb_status b = BindActive) (enforcement_bindings d) \<noteq> None)"

definition retire_contract_version ::
  "uuid \<Rightarrow> uuid \<Rightarrow> datetime \<Rightarrow> db \<Rightarrow> IntegrationError + db \<times> IntegrationContractVersion" where
  "retire_contract_version vid org now d =
     rbind (get_contract_version d vid org) (\<lambda>r.
     rbind (raise_if (cv_status r \<noteq> ConApproved) (ContractInvalidTransitionError (cv_status r) ''retire'')) (\<lambda>_.
     rbind (raise_if (has_active_binding_for_contract_version d vid) (ContractVersionHasActiveBindingError vid)) (\<lambda>_.
       contract_returning vid org (update_contract vid (\<lambda>x. x\<lparr>cv_status := ConRetired, cv_retired_at := Some now\<rparr>) d))))"

end
