(* ===== verification/Enforcement_Binding.thy ===== *)
theory Enforcement_Binding
  imports Integration_Contract
begin

text \<open>
  \<^verbatim>\<open>server/app/services/enforcement_binding_service.py\<close>: bindings deploy an approved contract version
  for an adapter in an environment and for explicitly allowed agents.

  Activation is the operation with a race: what an attempt reads and what it commits to are two
  states, as for the contract versions, and the partial unique index on the scope of active bindings
  decides. \<open>binding_scope\<close> is the key of that index.
\<close>

definition MAX_ACTIVATION_ATTEMPTS :: nat where "MAX_ACTIVATION_ATTEMPTS = 3"

definition binding_scope :: "EnforcementBinding \<Rightarrow> uuid \<times> uuid \<times> string \<times> string" where
  "binding_scope b = (eb_integration_identity_id b, eb_integration_id b, eb_source_operation b, eb_environment b)"

definition single_active :: "db \<Rightarrow> bool" where
  "single_active d = distinct (map binding_scope (filter (\<lambda>b. eb_status b = BindActive) (enforcement_bindings d)))"

definition get_binding :: "db \<Rightarrow> uuid \<Rightarrow> uuid \<Rightarrow> IntegrationError + EnforcementBinding" where
  "get_binding d bid org =
     get_or_raise (db_find (\<lambda>b. eb_id b = bid \<and> eb_organization_id b = org) (enforcement_bindings d)) (EnforcementBindingNotFoundError bid)"

definition list_bindings :: "db \<Rightarrow> uuid \<Rightarrow> EnforcementBinding list" where
  "list_bindings d org = sort_key eb_created_at (filter (\<lambda>b. eb_organization_id b = org) (enforcement_bindings d))"

definition update_binding :: "uuid \<Rightarrow> (EnforcementBinding \<Rightarrow> EnforcementBinding) \<Rightarrow> db \<Rightarrow> db" where
  "update_binding bid f d = d\<lparr>enforcement_bindings := db_update (\<lambda>b. eb_id b = bid) f (enforcement_bindings d)\<rparr>"

definition binding_returning :: "uuid \<Rightarrow> uuid \<Rightarrow> db \<Rightarrow> IntegrationError + db \<times> EnforcementBinding" where
  "binding_returning bid org d = rmap (\<lambda>b. (d, b)) (get_binding d bid org)"

section \<open>Allowed agents\<close>

definition membership :: "db \<Rightarrow> uuid \<Rightarrow> uuid \<Rightarrow> EnforcementBindingAgent option" where
  "membership d bid aid = db_find (\<lambda>m. ba_enforcement_binding_id m = bid \<and> ba_agent_id m = aid) (enforcement_binding_agents d)"

definition add_allowed_agent_row :: "uuid \<Rightarrow> uuid \<Rightarrow> uuid \<Rightarrow> uuid \<Rightarrow> datetime \<Rightarrow> db \<Rightarrow> IntegrationError + db" where
  "add_allowed_agent_row bid aid org mid now d =
     rbind (get_or_raise (get_agent_row d aid) (BindingValidationError (''agent '' @ aid @ '' not found''))) (\<lambda>a.
     rbind (raise_if (case get_principal_row d (ag_acting_for_principal_id a) of None \<Rightarrow> True | Some p \<Rightarrow> pr_organization_id p \<noteq> Some org)
              (BindingValidationError (''agent '' @ aid @ '' does not belong to this organization''))) (\<lambda>_.
       Inr (if membership d bid aid = None
            then d\<lparr>enforcement_binding_agents := enforcement_binding_agents d
                   @ [\<lparr>ba_id = mid, ba_enforcement_binding_id = bid, ba_agent_id = aid, ba_created_at = now\<rparr>]\<rparr>
            else d)))"

fun add_allowed_agent_rows :: "uuid \<Rightarrow> uuid \<Rightarrow> datetime \<Rightarrow> (uuid \<times> uuid) list \<Rightarrow> db \<Rightarrow> IntegrationError + db" where
  "add_allowed_agent_rows bid org now [] d = Inr d"
| "add_allowed_agent_rows bid org now ((aid, mid) # r) d =
     rbind (add_allowed_agent_row bid aid org mid now d) (add_allowed_agent_rows bid org now r)"

text \<open>\<open>agent_ids\<close> pairs each agent with the key of the membership row that is inserted for it.\<close>

definition create_draft_binding ::
  "uuid \<Rightarrow> uuid \<Rightarrow> uuid \<Rightarrow> string \<Rightarrow> (uuid \<times> uuid) list \<Rightarrow> string option \<Rightarrow> uuid \<Rightarrow> datetime \<Rightarrow> db \<Rightarrow> IntegrationError + db \<times> EnforcementBinding" where
  "create_draft_binding org iid vid environment agent_ids creator bid now d =
     rbind (raise_if (is_blank environment) (BindingValidationError ''environment is required'')) (\<lambda>_.
     rbind (get_integration_identity d iid org) (\<lambda>_.
     rbind (get_contract_version d vid org) (\<lambda>cv.
       let b = \<lparr>eb_id = bid, eb_organization_id = org, eb_integration_identity_id = iid, eb_integration_contract_version_id = vid,
                eb_integration_id = cv_integration_id cv, eb_source_operation = cv_source_operation cv, eb_environment = environment,
                eb_status = BindDraft, eb_created_by = creator, eb_created_at = now, eb_activated_at = None, eb_retired_at = None,
                eb_enforcement_assurance = ''ADVISORY''\<rparr>
       in rmap (\<lambda>d'. (d', b)) (add_allowed_agent_rows bid org now agent_ids (d\<lparr>enforcement_bindings := enforcement_bindings d @ [b]\<rparr>)))))"

definition add_allowed_agent :: "uuid \<Rightarrow> uuid \<Rightarrow> uuid \<Rightarrow> uuid \<Rightarrow> datetime \<Rightarrow> db \<Rightarrow> IntegrationError + db \<times> EnforcementBinding" where
  "add_allowed_agent bid org aid mid now d =
     rbind (get_binding d bid org) (\<lambda>b.
     rbind (raise_if (eb_status b \<noteq> BindDraft) (BindingInvalidTransitionError (eb_status b) ''edit allowed agents on'')) (\<lambda>_.
     rbind (add_allowed_agent_row bid aid org mid now d) (binding_returning bid org)))"

definition remove_allowed_agent :: "uuid \<Rightarrow> uuid \<Rightarrow> uuid \<Rightarrow> db \<Rightarrow> IntegrationError + db \<times> EnforcementBinding" where
  "remove_allowed_agent bid org aid d =
     rbind (get_binding d bid org) (\<lambda>b.
     rbind (raise_if (eb_status b \<noteq> BindDraft) (BindingInvalidTransitionError (eb_status b) ''edit allowed agents on'')) (\<lambda>_.
       binding_returning bid org (case membership d bid aid of
           None \<Rightarrow> d
         | Some m \<Rightarrow> d\<lparr>enforcement_binding_agents := remove1 m (enforcement_binding_agents d)\<rparr>)))"

definition allowed_agents :: "db \<Rightarrow> uuid \<Rightarrow> Agent list" where
  "allowed_agents d bid = List.map_filter (\<lambda>m. if ba_enforcement_binding_id m = bid then get_agent_row d (ba_agent_id m) else None)
     (enforcement_binding_agents d)"

definition list_allowed_agents :: "db \<Rightarrow> uuid \<Rightarrow> uuid \<Rightarrow> IntegrationError + Agent list" where
  "list_allowed_agents d bid org = rmap (\<lambda>_. allowed_agents d bid) (get_binding d bid org)"

definition is_agent_allowed :: "db \<Rightarrow> uuid \<Rightarrow> uuid \<Rightarrow> bool" where
  "is_agent_allowed d bid aid = (membership d bid aid \<noteq> None)"

section \<open>Editing\<close>

definition edit_draft_binding ::
  "uuid \<Rightarrow> uuid \<Rightarrow> uuid option \<Rightarrow> uuid option \<Rightarrow> string option \<Rightarrow> db \<Rightarrow> IntegrationError + db \<times> EnforcementBinding" where
  "edit_draft_binding bid org iid vid environment d =
     rbind (get_binding d bid org) (\<lambda>b.
     rbind (raise_if (eb_status b \<noteq> BindDraft) (BindingInvalidTransitionError (eb_status b) ''edit'')) (\<lambda>_.
     rbind (case iid of None \<Rightarrow> Inr id
            | Some i \<Rightarrow> rmap (\<lambda>_ x. x\<lparr>eb_integration_identity_id := i\<rparr>) (get_integration_identity d i org)) (\<lambda>f1.
     rbind (case vid of None \<Rightarrow> Inr id
            | Some v \<Rightarrow> rmap (\<lambda>cv x. x\<lparr>eb_integration_contract_version_id := v, eb_integration_id := cv_integration_id cv,
                 eb_source_operation := cv_source_operation cv\<rparr>) (get_contract_version d v org)) (\<lambda>f2.
     rbind (case environment of None \<Rightarrow> Inr id
            | Some e \<Rightarrow> rmap (\<lambda>_ x. x\<lparr>eb_environment := e\<rparr>) (raise_if (is_blank e) (BindingValidationError ''environment is required''))) (\<lambda>f3.
       binding_returning bid org (update_binding bid (f3 \<circ> f2 \<circ> f1) d))))))"

definition VALID_ENFORCEMENT_ASSURANCE_LEVELS :: "string list" where
  "VALID_ENFORCEMENT_ASSURANCE_LEVELS = [''ADVISORY'', ''CAPABILITY_REQUIRED'']"

definition set_enforcement_assurance :: "uuid \<Rightarrow> uuid \<Rightarrow> string \<Rightarrow> db \<Rightarrow> IntegrationError + db \<times> EnforcementBinding" where
  "set_enforcement_assurance bid org assurance d =
     rbind (raise_if (assurance \<notin> set VALID_ENFORCEMENT_ASSURANCE_LEVELS) (InvalidEnforcementAssuranceError assurance)) (\<lambda>_.
     rbind (get_binding d bid org) (\<lambda>_.
       binding_returning bid org (update_binding bid (\<lambda>b. b\<lparr>eb_enforcement_assurance := assurance\<rparr>) d)))"

section \<open>Activation and retirement\<close>

definition find_prior_active :: "db \<Rightarrow> EnforcementBinding \<Rightarrow> EnforcementBinding option" where
  "find_prior_active d b = db_find (\<lambda>x. eb_status x = BindActive \<and> binding_scope x = binding_scope b) (enforcement_bindings d)"

definition check_activation :: "db \<Rightarrow> uuid \<Rightarrow> uuid \<Rightarrow> IntegrationError + EnforcementBinding" where
  "check_activation seen bid org =
     rbind (get_binding seen bid org) (\<lambda>b.
     rbind (raise_if (eb_status b \<noteq> BindDraft) (BindingInvalidTransitionError (eb_status b) ''activate'')) (\<lambda>_.
     rbind (get_integration_identity seen (eb_integration_identity_id b) org) (\<lambda>ident.
     rbind (raise_if (ii_status ident \<noteq> AgActive)
              (BindingValidationError (''integration identity is not active (status='' @ repr_str (AgentStatus_value (ii_status ident)) @ '')''))) (\<lambda>_.
     rbind (get_contract_version seen (eb_integration_contract_version_id b) org) (\<lambda>cv.
     rbind (raise_if (cv_status cv \<noteq> ConApproved)
              (BindingValidationError (''contract version is not approved (status='' @ repr_str (ContractStatus_value (cv_status cv)) @ '')''))) (\<lambda>_.
     rbind (raise_if (cv_organization_id cv \<noteq> org \<or> ii_organization_id ident \<noteq> org)
              (BindingValidationError ''contract version and integration identity must belong to the same organization'')) (\<lambda>_.
     rbind (list_allowed_agents seen bid org) (\<lambda>as.
     rbind (raise_if (as = []) (BindingValidationError ''a binding cannot be activated with an empty allowed-agent list'')) (\<lambda>_.
     case db_find (\<lambda>a. ag_status a \<noteq> AgActive) as of
       Some a \<Rightarrow> Inl (BindingValidationError (''agent '' @ ag_id a @ '' is not currently eligible for use (status=''
                      @ repr_str (AgentStatus_value (ag_status a)) @ '')''))
     | None \<Rightarrow> Inr b)))))))))"

text \<open>The commit: the prior active binding of the scope is retired, then this one activated; \<open>None\<close> when
  the index on active scopes refuses it.\<close>

definition retire_prior :: "db \<Rightarrow> EnforcementBinding \<Rightarrow> datetime \<Rightarrow> db \<Rightarrow> db" where
  "retire_prior seen b now d = (case find_prior_active seen b of
      Some x \<Rightarrow> if eb_id x \<noteq> eb_id b then update_binding (eb_id x) (\<lambda>y. y\<lparr>eb_status := BindRetired, eb_retired_at := Some now\<rparr>) d else d
    | None \<Rightarrow> d)"

definition set_active :: "uuid \<Rightarrow> datetime \<Rightarrow> db \<Rightarrow> db" where
  "set_active bid now d = update_binding bid (\<lambda>y. y\<lparr>eb_status := BindActive, eb_activated_at := Some now\<rparr>) d"

definition activate_binding_attempt ::
  "db \<Rightarrow> uuid \<Rightarrow> uuid \<Rightarrow> datetime \<Rightarrow> db \<Rightarrow> IntegrationError + (db \<times> EnforcementBinding) option" where
  "activate_binding_attempt seen bid org now d = rbind (check_activation seen bid org) (\<lambda>b.
     let d2 = set_active bid now (retire_prior seen b now d)
     in if single_active d2 then rmap Some (binding_returning bid org d2) else Inr None)"

fun activation_attempts :: "uuid \<Rightarrow> uuid \<Rightarrow> datetime \<Rightarrow> (db \<times> db) list \<Rightarrow> IntegrationError + db \<times> EnforcementBinding" where
  "activation_attempts bid org now [] = Inl (ConcurrentActivationConflictError bid)"
| "activation_attempts bid org now ((seen, d) # r) = rbind (activate_binding_attempt seen bid org now d) (\<lambda>res.
     case res of None \<Rightarrow> activation_attempts bid org now r | Some x \<Rightarrow> Inr x)"

definition activate_binding :: "uuid \<Rightarrow> uuid \<Rightarrow> datetime \<Rightarrow> (nat \<Rightarrow> db \<times> db) \<Rightarrow> IntegrationError + db \<times> EnforcementBinding" where
  "activate_binding bid org now views = activation_attempts bid org now (map views [0..<MAX_ACTIVATION_ATTEMPTS])"

definition retire_binding :: "uuid \<Rightarrow> uuid \<Rightarrow> datetime \<Rightarrow> db \<Rightarrow> IntegrationError + db \<times> EnforcementBinding" where
  "retire_binding bid org now d =
     rbind (get_binding d bid org) (\<lambda>b.
     rbind (raise_if (eb_status b \<noteq> BindActive) (BindingInvalidTransitionError (eb_status b) ''retire'')) (\<lambda>_.
       binding_returning bid org (update_binding bid (\<lambda>b. b\<lparr>eb_status := BindRetired, eb_retired_at := Some now\<rparr>) d)))"

end
