(* ===== verification/Operation_Identity.thy ===== *)
theory Operation_Identity
  imports Integration_Contract
begin

text \<open>
  \<^verbatim>\<open>server/app/services/operation_identity_service.py\<close> and
  \<^verbatim>\<open>server/app/domain/canonical_action.py\<close>: the identity of a business operation and the digest of
  the authorized action.

  An amount is the decimal that \<open>str\<close> prints for the float. \<open>quantize_cents\<close> is
  \<open>Decimal.quantize\<close> to two places with \<open>ROUND_HALF_UP\<close>, ties away from zero; \<open>InvalidOperation\<close> is the
  result not fitting the 28 digits of the default decimal context. A negative amount that rounds to
  zero keeps its sign in the text, as \<open>Decimal\<close> does.
\<close>

datatype DecimalError = InvalidOperation

definition quantize_cents :: "amount \<Rightarrow> nat" where
  "quantize_cents a = (case a of (m, e) \<Rightarrow>
     (let n = nat \<bar>m\<bar> in
      if - 2 \<le> e then n * 10 ^ nat (e + 2)
      else (let p = 10 ^ nat (- 2 - e) in (2 * n + p) div (2 * p))))"

definition normalize_amount :: "amount option \<Rightarrow> DecimalError + string option" where
  "normalize_amount x = (case x of
     None \<Rightarrow> Inr None
   | Some a \<Rightarrow> (let q = quantize_cents a in
       if 10 ^ 28 \<le> q then Inl InvalidOperation
       else Inr (Some ((if fst a < 0 then ''-'' else []) @ show_nat (q div 100) @ ''.'' @ pad 2 (q mod 100)))))"

definition MAX_EXTERNAL_OPERATION_ID_LENGTH :: nat where "MAX_EXTERNAL_OPERATION_ID_LENGTH = 256"

definition validate_external_operation_id :: "string \<Rightarrow> string + unit" where
  "validate_external_operation_id v =
     (if is_blank v then Inl ''external_operation_id must be a non-empty, non-whitespace string''
      else if length v > MAX_EXTERNAL_OPERATION_ID_LENGTH
      then Inl (''external_operation_id exceeds the maximum length of '' @ show_nat MAX_EXTERNAL_OPERATION_ID_LENGTH @ '' characters'')
      else Inr ())"

definition operation_semantics ::
  "uuid \<Rightarrow> string option \<Rightarrow> string \<Rightarrow> string \<Rightarrow> string option \<Rightarrow> string option \<Rightarrow> string option \<Rightarrow> string option \<Rightarrow> (string \<times> json) list \<Rightarrow> json" where
  "operation_semantics aid chash so act res amt cur subj ctx = JObj [(''origin_agent_id'', JStr aid), (''contract_content_hash'', opt_str chash),
     (''source_operation'', JStr so), (''canonical_action'', JStr act), (''resource'', opt_str res), (''amount'', opt_str amt),
     (''currency'', opt_str cur), (''fact_subject'', opt_str subj), (''trusted_context'', JObj ctx)]"

definition compute_canonical_operation_fingerprint ::
  "crypto \<Rightarrow> uuid \<Rightarrow> string option \<Rightarrow> string \<Rightarrow> string \<Rightarrow> string option \<Rightarrow> amount option \<Rightarrow> string option \<Rightarrow> string option \<Rightarrow> (string \<times> json) list
     \<Rightarrow> DecimalError + string" where
  "compute_canonical_operation_fingerprint C aid chash so act res amt cur subj ctx =
     rmap (\<lambda>t. payload_hash C (operation_semantics aid chash so act res t cur subj ctx)) (normalize_amount amt)"

definition find_existing_operation :: "db \<Rightarrow> uuid \<Rightarrow> string \<Rightarrow> string \<Rightarrow> Intent option" where
  "find_existing_operation d gid environment ext = db_find (\<lambda>i. it_integration_id i = Some gid \<and> it_environment i = Some environment
     \<and> it_external_operation_id i = Some ext) (intents d)"

section \<open>The canonical action\<close>

definition CANONICAL_ACTION_SCHEMA_VERSION :: int where "CANONICAL_ACTION_SCHEMA_VERSION = 1"

definition SUPPORTED_SCHEMA_VERSIONS :: "int list" where "SUPPORTED_SCHEMA_VERSIONS = [1]"

datatype CanonicalActionError =
    UnsupportedCanonicalActionSchemaVersionError int
  | MissingRequiredCanonicalActionFieldError string

record CanonicalAction =
  ca_schema_version :: int
  ca_organization_id :: uuid
  ca_agent_id :: uuid
  ca_action :: string
  ca_integration_identity_id :: uuid
  ca_integration_contract_version_id :: uuid
  ca_contract_content_hash :: string
  ca_environment :: string
  ca_external_operation_id :: string
  ca_observed_at :: datetime
  ca_principal :: "string option"
  ca_resource :: "string option"
  ca_amount :: "amount option"
  ca_currency :: "string option"
  ca_source_request_digest :: "string option"
  ca_declared_task_reference :: "string option"

definition material_fields :: "CanonicalAction \<Rightarrow> DecimalError + json" where
  "material_fields a = rmap (\<lambda>amt. JObj [(''schema_version'', JInt (ca_schema_version a)), (''organization_id'', JStr (ca_organization_id a)),
     (''agent_id'', JStr (ca_agent_id a)), (''principal'', opt_str (ca_principal a)), (''action'', JStr (ca_action a)),
     (''resource'', opt_str (ca_resource a)), (''amount'', opt_str amt), (''currency'', opt_str (ca_currency a)),
     (''integration_identity_id'', JStr (ca_integration_identity_id a)),
     (''integration_contract_version_id'', JStr (ca_integration_contract_version_id a)),
     (''contract_content_hash'', JStr (ca_contract_content_hash a)), (''environment'', JStr (ca_environment a)),
     (''external_operation_id'', JStr (ca_external_operation_id a))]) (normalize_amount (ca_amount a))"

definition canonical_digest :: "crypto \<Rightarrow> CanonicalAction \<Rightarrow> DecimalError + string" where
  "canonical_digest C a = rmap (payload_hash C) (material_fields a)"

text \<open>The identifiers are UUIDs, never absent or blank text; the other required fields are checked in order.\<close>

fun missing_field :: "(string \<times> string option) list \<Rightarrow> string option" where
  "missing_field [] = None"
| "missing_field ((nm, v) # r) = (if (case v of None \<Rightarrow> True | Some s \<Rightarrow> is_blank s) then Some nm else missing_field r)"

definition build_canonical_action ::
  "uuid \<Rightarrow> uuid \<Rightarrow> string \<Rightarrow> uuid \<Rightarrow> uuid \<Rightarrow> string option \<Rightarrow> string \<Rightarrow> string \<Rightarrow> datetime \<Rightarrow> int \<Rightarrow> string option \<Rightarrow> string option \<Rightarrow> amount option
     \<Rightarrow> string option \<Rightarrow> string option \<Rightarrow> string option \<Rightarrow> CanonicalActionError + CanonicalAction" where
  "build_canonical_action org aid act iid vid chash environment ext observed ver prin res amt cur digest task =
     (if ver \<notin> set SUPPORTED_SCHEMA_VERSIONS then Inl (UnsupportedCanonicalActionSchemaVersionError ver)
      else case missing_field [(''action'', Some act), (''contract_content_hash'', chash), (''environment'', Some environment),
             (''external_operation_id'', Some ext)] of
        Some nm \<Rightarrow> Inl (MissingRequiredCanonicalActionFieldError nm)
      | None \<Rightarrow> Inr \<lparr>ca_schema_version = ver, ca_organization_id = org, ca_agent_id = aid, ca_action = act, ca_integration_identity_id = iid,
          ca_integration_contract_version_id = vid, ca_contract_content_hash = the chash, ca_environment = environment,
          ca_external_operation_id = ext, ca_observed_at = observed, ca_principal = prin, ca_resource = res, ca_amount = amt,
          ca_currency = cur, ca_source_request_digest = digest, ca_declared_task_reference = task\<rparr>)"

section \<open>What the fingerprint and the digest identify\<close>

lemma sort_keys_member:
  assumes "sort_keys (JObj ps) = sort_keys (JObj qs)" "distinct (map fst ps)" "distinct (map fst qs)"
  shows "map_option sort_keys (map_of ps k) = map_option sort_keys (map_of qs k)"
proof -
  from assms(1) have "sort_key fst (map (\<lambda>p. (fst p, sort_keys (snd p))) ps) = sort_key fst (map (\<lambda>p. (fst p, sort_keys (snd p))) qs)" by simp
  with map_of_sort_key [OF assms(2), of sort_keys] map_of_sort_key [OF assms(3), of sort_keys] show ?thesis by (metis)
qed

lemma opt_str_inject [simp]: "opt_str x = opt_str y \<longleftrightarrow> x = y"
  by (auto simp: opt_str_def split: option.splits)

lemma plain_opt_str [simp]: "plain_json (opt_str x)"
  by (simp add: opt_str_def split: option.split)

lemma operation_semantics_inject:
  assumes "sort_keys (operation_semantics aid h so act res amt cur subj ctx) = sort_keys (operation_semantics aid' h' so' act' res' amt' cur' subj' ctx')"
  shows "aid = aid' \<and> h = h' \<and> so = so' \<and> act = act' \<and> res = res' \<and> amt = amt' \<and> cur = cur' \<and> subj = subj' \<and> sort_keys (JObj ctx) = sort_keys (JObj ctx')"
proof -
  note m = sort_keys_member [OF assms [unfolded operation_semantics_def]]
  show ?thesis
    using m [of "''origin_agent_id''"] m [of "''contract_content_hash''"] m [of "''source_operation''"] m [of "''canonical_action''"]
      m [of "''resource''"] m [of "''amount''"] m [of "''currency''"] m [of "''fact_subject''"] m [of "''trusted_context''"]
    by (simp del: sort_keys.simps(2))
qed

text \<open>Rounding to cents: half a cent at most, exact at two places or fewer.\<close>

lemma half_up_bound:
  fixes n p :: nat
  assumes "0 < p"
  shows "2 * p * ((2 * n + p) div (2 * p)) \<le> 2 * n + p \<and> 2 * n < 2 * p * ((2 * n + p) div (2 * p)) + p"
proof -
  have "2 * p * ((2 * n + p) div (2 * p)) + (2 * n + p) mod (2 * p) = 2 * n + p" by simp
  moreover have "(2 * n + p) mod (2 * p) < 2 * p" using assms by simp
  ultimately show ?thesis by linarith
qed

text \<open>Amounts in fingerprints are rounded to the nearest cent. For a decimal with k digits after the point the
  rounded number of cents differs from the exact amount by at most half a cent, upwards on a tie; a
  decimal with at most two digits is exact; and an amount is refused only when it does not fit 28
  digits of cents, so no other amount fails to be normalized.\<close>

theorem amount_rounds_to_cents:
  "(e < - 2 \<longrightarrow> (let p = 10 ^ nat (- 2 - e); q = quantize_cents (m, e) in
       2 * p * q \<le> 2 * nat \<bar>m\<bar> + p \<and> 2 * nat \<bar>m\<bar> < 2 * p * q + p))
   \<and> (- 2 \<le> e \<longrightarrow> quantize_cents (m, e) = nat \<bar>m\<bar> * 10 ^ nat (e + 2))
   \<and> (is_ok (normalize_amount (Some (m, e))) \<longleftrightarrow> quantize_cents (m, e) < 10 ^ 28)"
proof (intro conjI impI)
  assume "e < - 2"
  then show "let p = 10 ^ nat (- 2 - e); q = quantize_cents (m, e) in 2 * p * q \<le> 2 * nat \<bar>m\<bar> + p \<and> 2 * nat \<bar>m\<bar> < 2 * p * q + p"
    using half_up_bound [of "10 ^ nat (- 2 - e)" "nat \<bar>m\<bar>"] by (simp add: quantize_cents_def Let_def)
qed (simp_all add: quantize_cents_def normalize_amount_def Let_def)

theorem amount_rounds_to_cents_witness:
  "quantize_cents (12345, - 3) = 1235 \<and> 2 * 10 ^ 1 * quantize_cents (12345, - 3) \<le> 2 * 12345 + 10"
  using amount_rounds_to_cents [of "- 3" 12345] by (simp add: quantize_cents_def Let_def)

text \<open>C39: the fingerprint of an operation identifies its meaning. Two operations with the same fingerprint have the
  same origin agent, contract hash, operation, action, resource, currency, subject, amount to the
  cent, and the same trusted context up to the order of keys, or they exhibit a collision of SHA-256.
  Contexts hold no float and no repeated key.\<close>

theorem operation_fingerprint_identifies:
  assumes "compute_canonical_operation_fingerprint C aid h so act res amt cur subj ctx = Inr fp"
    and "compute_canonical_operation_fingerprint C aid' h' so' act' res' amt' cur' subj' ctx' = Inr fp"
    and "plain_json (JObj ctx)" and "plain_json (JObj ctx')"
  shows "(aid = aid' \<and> h = h' \<and> so = so' \<and> act = act' \<and> res = res' \<and> normalize_amount amt = normalize_amount amt' \<and> cur = cur' \<and> subj = subj'
      \<and> sort_keys (JObj ctx) = sort_keys (JObj ctx'))
    \<or> (\<exists>p q. sha_collision C p q)"
proof -
  obtain t t' where t: "normalize_amount amt = Inr t" "normalize_amount amt' = Inr t'"
    and eq: "payload_hash C (operation_semantics aid h so act res t cur subj ctx) = payload_hash C (operation_semantics aid' h' so' act' res' t' cur' subj' ctx')"
    using assms(1,2) by (auto simp: compute_canonical_operation_fingerprint_def)
  have plain: "plain_json (operation_semantics a b c d e f g i x)" if "plain_json (JObj x)" for a b c d e f g i x
    using that by (simp add: operation_semantics_def)
  from payload_hash_eqD [OF eq plain [OF assms(3)] plain [OF assms(4)]] show ?thesis
    using operation_semantics_inject t by metis
qed

theorem operation_fingerprint_identifies_witness:
  "\<exists>fp. compute_canonical_operation_fingerprint plain_crypto ''a1'' (Some ''h'') ''pay'' ''vendor_payment'' None (Some (1005, - 1)) None None [(''k'', JInt 1)] = Inr fp
     \<and> compute_canonical_operation_fingerprint plain_crypto ''a1'' (Some ''h'') ''pay'' ''vendor_payment'' None (Some (10050, - 2)) None None [(''k'', JInt 1)] = Inr fp
     \<and> (normalize_amount (Some (1005, - 1)) = normalize_amount (Some (10050, - 2)) \<or> (\<exists>p q. sha_collision plain_crypto p q))"
proof -
  have n: "normalize_amount (Some (1005, - 1)) = normalize_amount (Some (10050, - 2))" by (simp add: normalize_amount_def quantize_cents_def)
  obtain fp where fp: "compute_canonical_operation_fingerprint plain_crypto ''a1'' (Some ''h'') ''pay'' ''vendor_payment'' None (Some (1005, - 1)) None None [(''k'', JInt 1)] = Inr fp"
    by (simp add: compute_canonical_operation_fingerprint_def normalize_amount_def quantize_cents_def)
  then have fp': "compute_canonical_operation_fingerprint plain_crypto ''a1'' (Some ''h'') ''pay'' ''vendor_payment'' None (Some (10050, - 2)) None None [(''k'', JInt 1)] = Inr fp"
    using n by (simp add: compute_canonical_operation_fingerprint_def)
  from operation_fingerprint_identifies [OF fp fp'] fp fp' show ?thesis by auto
qed

end
