(* ===== verification/Integration_Runtime.thy ===== *)
theory Integration_Runtime
  imports Enforcement_Binding Operation_Identity
begin

text \<open>
  \<^verbatim>\<open>server/app/services/integration_runtime_service.py\<close>: the submission of an intent by a trusted
  adapter. Every failure before the evaluation is an exception without rows; after the checks the
  shared \<open>evaluate_and_record\<close> of the agents' path decides.

  A submission reads the state \<open>seen\<close> and inserts into the state \<open>d\<close>, which a concurrent submission
  may have changed in between; without concurrency they are the same. The insert is refused by the
  unique indexes of \<^verbatim>\<open>intents\<close> (agent and nonce; identity and nonce; integration, environment and
  external operation), and the code then looks again for the operation.
\<close>

datatype AttestedError =
    IntegrationRejectionError string
  | AdapterReplayDetectedError uuid string
  | ExternalOperationConflictError string
  | AttestedDecimal DecimalError
  | AttestedCanonical CanonicalActionError
  | AttestedMissingDecision
  | AttestedEvaluation IntentError

record AttestedRequest =
  ar_enforcement_binding_id :: uuid
  ar_origin_agent_id :: uuid
  ar_source_operation :: string
  ar_action :: string
  ar_resource :: "string option"
  ar_amount :: "amount option"
  ar_currency :: "string option"
  ar_counterparty :: "string option"
  ar_context :: "(string \<times> json) list"
  ar_requested_at :: datetime
  ar_nonce :: string
  ar_correlation_id :: "string option"
  ar_external_operation_id :: string

definition RESERVED_CONTEXT_KEYS :: "string list" where "RESERVED_CONTEXT_KEYS = [''environment'']"

definition check_structural_field :: "string \<Rightarrow> string option \<Rightarrow> bool \<Rightarrow> AttestedError + unit" where
  "check_structural_field nm path has_value =
     (if path = None \<and> has_value then Inl (IntegrationRejectionError (''unexpected_'' @ nm @ ''_not_declared_by_contract''))
      else if path \<noteq> None \<and> \<not> has_value then Inl (IntegrationRejectionError (''missing_required_'' @ nm @ ''_declared_by_contract''))
      else Inr ())"

definition resolve_active_binding :: "db \<Rightarrow> uuid \<Rightarrow> uuid \<Rightarrow> uuid \<Rightarrow> AttestedError + EnforcementBinding" where
  "resolve_active_binding d bid org iid =
     (case get_binding d bid org of
        Inl _ \<Rightarrow> Inl (IntegrationRejectionError ''enforcement_binding_not_found'')
      | Inr b \<Rightarrow>
          if eb_integration_identity_id b \<noteq> iid then Inl (IntegrationRejectionError ''enforcement_binding_not_found'')
          else if eb_status b \<noteq> BindActive
          then Inl (IntegrationRejectionError (''enforcement_binding_not_active:'' @ BindingStatus_value (eb_status b)))
          else Inr b)"

definition resolve_origin_agent :: "db \<Rightarrow> uuid \<Rightarrow> uuid \<Rightarrow> uuid \<Rightarrow> AttestedError + Agent" where
  "resolve_origin_agent d aid org bid =
     (case get_agent_row d aid of
        None \<Rightarrow> Inl (IntegrationRejectionError ''origin_agent_not_found'')
      | Some a \<Rightarrow>
          if (case get_principal_row d (ag_acting_for_principal_id a) of None \<Rightarrow> True | Some p \<Rightarrow> pr_organization_id p \<noteq> Some org)
          then Inl (IntegrationRejectionError ''origin_agent_not_found'')
          else if ag_status a \<noteq> AgActive then Inl (IntegrationRejectionError (''origin_agent_not_eligible:'' @ AgentStatus_value (ag_status a)))
          else if \<not> is_agent_allowed d bid aid then Inl (IntegrationRejectionError ''origin_agent_not_allowed_for_binding'')
          else Inr a)"

definition load_operation_result :: "db \<Rightarrow> Intent \<Rightarrow> AttestedError + Intent \<times> Decision \<times> Evidence option" where
  "load_operation_result d it = (case db_find (\<lambda>de. de_intent_id de = it_id it) (decisions d) of
     None \<Rightarrow> Inl AttestedMissingDecision
   | Some de \<Rightarrow> Inr (it, de, get_earliest_evidence_for_decision d (de_id de)))"

definition resolve_existing_or_conflict :: "db \<Rightarrow> Intent \<Rightarrow> string \<Rightarrow> string \<Rightarrow> AttestedError + Intent \<times> Decision \<times> Evidence option" where
  "resolve_existing_or_conflict d existing fingerprint ext =
     (if it_canonical_operation_fingerprint existing = Some fingerprint then load_operation_result d existing
      else Inl (ExternalOperationConflictError ext))"

text \<open>\<^verbatim>\<open>sorted(..)\<close> of a set of keys, printed as a list.\<close>

definition sorted_keys_text :: "string list \<Rightarrow> string" where
  "sorted_keys_text ks = py_repr (JList (map JStr (sort (remdups ks))))"

definition check_context :: "json \<Rightarrow> (string \<times> json) list \<Rightarrow> AttestedError + unit" where
  "check_context bindings ctx =
     (let supplied = map fst ctx; bound = (case bindings of JObj ps \<Rightarrow> map fst ps | _ \<Rightarrow> []);
          reserved = filter (\<lambda>k. k \<in> set supplied) RESERVED_CONTEXT_KEYS;
          unexpected = filter (\<lambda>k. k \<notin> set bound) supplied;
          missing = filter (\<lambda>k. k \<notin> set supplied) bound
      in if reserved \<noteq> [] then Inl (IntegrationRejectionError (''reserved_context_key_supplied:'' @ sorted_keys_text reserved))
         else if unexpected \<noteq> [] then Inl (IntegrationRejectionError (''unexpected_context_keys:'' @ sorted_keys_text unexpected))
         else if missing \<noteq> [] then Inl (IntegrationRejectionError (''missing_required_context_keys:'' @ sorted_keys_text missing))
         else Inr ())"

definition check_organization :: "db \<Rightarrow> uuid \<Rightarrow> AttestedError + unit" where
  "check_organization d org = (case get_organization_row d org of
     None \<Rightarrow> Inr ()
   | Some r \<Rightarrow> (case ensure_active r of
       Inl e \<Rightarrow> Inl (IntegrationRejectionError (''organization_not_active:'' @ OrganizationStatus_value (org_status r)))
     | Inr _ \<Rightarrow> Inr ()))"

text \<open>The checks of a submission, up to the trusted context; the result is what they resolved.\<close>

definition check_attested ::
  "db \<Rightarrow> IntegrationIdentity \<Rightarrow> AttestedRequest \<Rightarrow> AttestedError + EnforcementBinding \<times> Agent \<times> IntegrationContractVersion" where
  "check_attested d ident r =
     rbind (case validate_external_operation_id (ar_external_operation_id r) of
              Inl e \<Rightarrow> Inl (IntegrationRejectionError (''invalid_external_operation_id:'' @ e)) | Inr u \<Rightarrow> Inr u) (\<lambda>_.
     rbind (raise_if (ii_status ident \<noteq> AgActive)
              (IntegrationRejectionError (''integration_identity_not_active:'' @ AgentStatus_value (ii_status ident)))) (\<lambda>_.
     rbind (check_organization d (ii_organization_id ident)) (\<lambda>_.
     rbind (resolve_active_binding d (ar_enforcement_binding_id r) (ii_organization_id ident) (ii_id ident)) (\<lambda>b.
     rbind (resolve_origin_agent d (ar_origin_agent_id r) (ii_organization_id ident) (eb_id b)) (\<lambda>a.
     rbind (case get_contract_row d (eb_integration_contract_version_id b) of
              None \<Rightarrow> Inl (IntegrationRejectionError ''contract_version_not_found'')
            | Some cv \<Rightarrow> if cv_organization_id cv \<noteq> ii_organization_id ident then Inl (IntegrationRejectionError ''contract_version_not_found'')
                         else Inr cv) (\<lambda>cv.
     rbind (raise_if (ar_source_operation r \<noteq> cv_source_operation cv) (IntegrationRejectionError ''source_operation_mismatch'')) (\<lambda>_.
     rbind (raise_if (ar_action r \<noteq> cv_canonical_action cv) (IntegrationRejectionError ''canonical_action_mismatch'')) (\<lambda>_.
     rbind (check_structural_field ''resource'' (cv_resource_path cv) (ar_resource r \<noteq> None)) (\<lambda>_.
     rbind (check_structural_field ''amount'' (cv_amount_path cv) (ar_amount r \<noteq> None)) (\<lambda>_.
     rbind (check_structural_field ''currency'' (cv_currency_path cv) (ar_currency r \<noteq> None)) (\<lambda>_.
     rbind (check_structural_field ''fact_subject'' (cv_fact_subject_path cv) (ar_counterparty r \<noteq> None)) (\<lambda>_.
     rbind (check_context (cv_context_bindings cv) (ar_context r)) (\<lambda>_.
       Inr (b, a, cv))))))))))))))"

definition request_fingerprint :: "crypto \<Rightarrow> Agent \<Rightarrow> IntegrationContractVersion \<Rightarrow> AttestedRequest \<Rightarrow> DecimalError + string" where
  "request_fingerprint C a cv r = compute_canonical_operation_fingerprint C (ag_id a) (cv_content_hash cv) (ar_source_operation r) (ar_action r)
     (ar_resource r) (ar_amount r) (ar_currency r) (ar_counterparty r) (ar_context r)"

definition attested_intent ::
  "uuid \<Rightarrow> IntegrationIdentity \<Rightarrow> AttestedRequest \<Rightarrow> EnforcementBinding \<Rightarrow> Agent \<Rightarrow> IntegrationContractVersion \<Rightarrow> string \<Rightarrow> int \<Rightarrow> string \<Rightarrow> int option
     \<Rightarrow> (string \<times> json) list \<Rightarrow> datetime \<Rightarrow> Intent" where
  "attested_intent id_i ident r b a cv fp ver digest stored ctx now =
     (new_intent id_i (ag_id a) (ar_correlation_id r) (ar_action r) stored (ar_currency r) (ar_counterparty r) (ar_resource r) None ctx
        (ar_nonce r) (ar_requested_at r) now)
     \<lparr>it_integration_identity_id := Some (ii_id ident), it_enforcement_binding_id := Some (eb_id b),
      it_integration_contract_version_id := Some (cv_id cv), it_external_operation_id := Some (ar_external_operation_id r),
      it_integration_id := Some (cv_integration_id cv), it_canonical_operation_fingerprint := Some fp,
      it_environment := Some (eb_environment b), it_canonical_action_schema_version := Some ver, it_canonical_action_digest := Some digest\<rparr>"

text \<open>The three unique indexes, for a new row against the committed ones.\<close>

definition intent_collides :: "Intent \<Rightarrow> Intent \<Rightarrow> bool" where
  "intent_collides x i =
     (it_agent_id i = it_agent_id x \<and> it_nonce i = it_nonce x
      \<or> it_integration_identity_id x \<noteq> None \<and> it_integration_identity_id i = it_integration_identity_id x \<and> it_nonce i = it_nonce x
      \<or> it_external_operation_id x \<noteq> None \<and> it_external_operation_id i = it_external_operation_id x
        \<and> it_integration_id x \<noteq> None \<and> it_integration_id i = it_integration_id x
        \<and> it_environment x \<noteq> None \<and> it_environment i = it_environment x)"

definition attested_provenance ::
  "IntegrationIdentity \<Rightarrow> AttestedRequest \<Rightarrow> EnforcementBinding \<Rightarrow> IntegrationContractVersion \<Rightarrow> string \<Rightarrow> int \<Rightarrow> string \<Rightarrow> IntegrationProvenance" where
  "attested_provenance ident r b cv fp ver digest = \<lparr>ip_integration_identity_id = Some (ii_id ident), ip_enforcement_binding_id = Some (eb_id b),
     ip_integration_contract_version_id = Some (cv_id cv), ip_integration_contract_content_hash = cv_content_hash cv,
     ip_integration_id = Some (cv_integration_id cv), ip_environment = Some (eb_environment b), ip_source_operation = Some (ar_source_operation r),
     ip_external_operation_id = Some (ar_external_operation_id r), ip_canonical_operation_fingerprint = Some fp,
     ip_canonical_action_schema_version = Some ver, ip_canonical_action_digest = Some digest\<rparr>"

text \<open>The insert and, when the indexes accept it, the shared evaluation.\<close>

definition insert_and_evaluate ::
  "Env \<Rightarrow> IntentIds \<Rightarrow> IntegrationIdentity \<Rightarrow> AttestedRequest \<Rightarrow> EnforcementBinding \<Rightarrow> Agent \<Rightarrow> IntegrationContractVersion \<Rightarrow> string
     \<Rightarrow> IntegrationProvenance \<Rightarrow> (string \<times> json) list \<Rightarrow> Intent \<Rightarrow> datetime \<Rightarrow> db \<Rightarrow> AttestedError + db \<times> Intent \<times> Decision \<times> Evidence option" where
  "insert_and_evaluate E ids ident r b a cv fp prov ctx it now d =
     (if list_ex (intent_collides it) (intents d)
      then (case find_existing_operation d (cv_integration_id cv) (eb_environment b) (ar_external_operation_id r) of
          Some existing \<Rightarrow> rmap (Pair d) (resolve_existing_or_conflict d existing fp (ar_external_operation_id r))
        | None \<Rightarrow> Inl (AdapterReplayDetectedError (ii_id ident) (ar_nonce r)))
      else (case evaluate_and_record E prov ids it a (ar_action r) (ar_amount r) (ar_currency r) (ar_counterparty r) (ar_resource r) ctx
          (ar_requested_at r) now (d\<lparr>intents := intents d @ [it]\<rparr>) of
          Inl e \<Rightarrow> Inl (AttestedEvaluation e)
        | Inr (d', de, ev) \<Rightarrow> Inr (d', it, de, Some ev)))"

definition submit_attested_intent ::
  "Env \<Rightarrow> IntentIds \<Rightarrow> IntegrationIdentity \<Rightarrow> AttestedRequest \<Rightarrow> datetime \<Rightarrow> db \<Rightarrow> db \<Rightarrow> AttestedError + db \<times> Intent \<times> Decision \<times> Evidence option" where
  "submit_attested_intent E ids ident r now seen d =
     rbind (check_attested seen ident r) (\<lambda>(b, a, cv).
     let final_context = AList.update ''environment'' (JStr (eb_environment b)) (ar_context r)
     in case request_fingerprint (env_crypto E) a cv r of
       Inl e \<Rightarrow> Inl (AttestedDecimal e)
     | Inr fp \<Rightarrow> (case find_existing_operation seen (cv_integration_id cv) (eb_environment b) (ar_external_operation_id r) of
         Some existing \<Rightarrow> rmap (Pair d) (resolve_existing_or_conflict seen existing fp (ar_external_operation_id r))
       | None \<Rightarrow> (case build_canonical_action (ii_organization_id ident) (ag_id a) (ar_action r) (ii_id ident) (cv_id cv) (cv_content_hash cv)
               (eb_environment b) (ar_external_operation_id r) (ar_requested_at r) CANONICAL_ACTION_SCHEMA_VERSION None (ar_resource r)
               (ar_amount r) (ar_currency r) None None of
           Inl e \<Rightarrow> Inl (AttestedCanonical e)
         | Inr ca \<Rightarrow> (case canonical_digest (env_crypto E) ca of
             Inl e \<Rightarrow> Inl (AttestedDecimal e)
           | Inr digest \<Rightarrow>
               rbind (case ar_amount r of None \<Rightarrow> Inr None
                      | Some x \<Rightarrow> rmap Some (get_or_raise (env_numeric E x) (AttestedEvaluation AmountOutOfRange))) (\<lambda>stored.
                 insert_and_evaluate E ids ident r b a cv fp (attested_provenance ident r b cv fp (ca_schema_version ca) digest) final_context
                   (attested_intent (id_intent ids) ident r b a cv fp (ca_schema_version ca) digest stored final_context now) now d)))))"

end
