(* ===== verification/Trusted_Integration.thy ===== *)
theory Trusted_Integration
  imports Integration_Runtime
begin

text \<open>
  The three configuration services of a trusted integration as one state machine. \<open>integration_step\<close> has
  a rule per operation of the identity, contract and binding services, each a call without
  concurrency; \<open>integration_ok\<close> is the invariant: keys and version numbers are unique, at most one
  active binding per scope, every binding points to a contract version of its own organization and
  integration, approved while the binding is active, and a contract version past draft is valid and
  carries the hash of its content.
\<close>

section \<open>Steps\<close>

inductive integration_step :: "crypto \<Rightarrow> db \<Rightarrow> db \<Rightarrow> bool" for C where
  identity: "identity_step d d' \<Longrightarrow> integration_step C d d'"
| integration: "create_integration org lbl crt gid now d = Inr (d', g) \<Longrightarrow> integration_step C d d'"
| create_version: "create_contract_version gid org so act res subj amt cur ctx fp crt vid now (\<lambda>_. (d, d)) d = Inr (d', r) \<Longrightarrow>
    vid \<notin> cv_id ` set (integration_contract_versions d) \<Longrightarrow> integration_step C d d'"
| edit_version: "edit_draft_contract_version vid org e d = Inr (d', r) \<Longrightarrow> integration_step C d d'"
| validate_version: "validate_contract_version C vid org now d = Inr (d', r) \<Longrightarrow> integration_step C d d'"
| approve_version: "approve_contract_version vid org approver now d = Inr (d', r) \<Longrightarrow> integration_step C d d'"
| retire_version: "retire_contract_version vid org now d = Inr (d', r) \<Longrightarrow> integration_step C d d'"
| create_binding: "create_draft_binding org iid vid envt aids crt bid now d = Inr (d', b) \<Longrightarrow>
    bid \<notin> eb_id ` set (enforcement_bindings d) \<Longrightarrow> integration_step C d d'"
| add_agent: "add_allowed_agent bid org aid mid now d = Inr (d', b) \<Longrightarrow> integration_step C d d'"
| remove_agent: "remove_allowed_agent bid org aid d = Inr (d', b) \<Longrightarrow> integration_step C d d'"
| edit_binding: "edit_draft_binding bid org iid vid envt d = Inr (d', b) \<Longrightarrow> integration_step C d d'"
| assurance: "set_enforcement_assurance bid org lvl d = Inr (d', b) \<Longrightarrow> integration_step C d d'"
| activate_binding: "activate_binding bid org now (\<lambda>_. (d, d)) = Inr (d', b) \<Longrightarrow> integration_step C d d'"
| retire_binding: "retire_binding bid org now d = Inr (d', b) \<Longrightarrow> integration_step C d d'"

section \<open>The invariant\<close>

definition frozen_ok :: "crypto \<Rightarrow> IntegrationContractVersion \<Rightarrow> bool" where
  "frozen_ok C r = (cv_status r = ConDraft \<or>
     cv_content_hash r = Some (compute_content_hash C (row_semantics r)) \<and> validate_row r = Inr ())"

definition binding_ok :: "db \<Rightarrow> EnforcementBinding \<Rightarrow> bool" where
  "binding_ok d b = (\<exists>r \<in> set (integration_contract_versions d). cv_id r = eb_integration_contract_version_id b
     \<and> cv_organization_id r = eb_organization_id b \<and> cv_integration_id r = eb_integration_id b
     \<and> (eb_status b = BindActive \<longrightarrow> cv_status r = ConApproved))"

definition integration_ok :: "crypto \<Rightarrow> db \<Rightarrow> bool" where
  "integration_ok C d = (distinct (map cv_id (integration_contract_versions d)) \<and> distinct (map eb_id (enforcement_bindings d))
     \<and> versions_unique d \<and> single_active d
     \<and> (\<forall>r \<in> set (integration_contract_versions d). frozen_ok C r)
     \<and> (\<forall>b \<in> set (enforcement_bindings d). binding_ok d b))"

lemma integration_okD:
  assumes "integration_ok C d"
  shows "distinct (map cv_id (integration_contract_versions d))" "distinct (map eb_id (enforcement_bindings d))"
    "versions_unique d" "single_active d" "r \<in> set (integration_contract_versions d) \<Longrightarrow> frozen_ok C r"
    "b \<in> set (enforcement_bindings d) \<Longrightarrow> binding_ok d b"
  using assms by (auto simp: integration_ok_def)

lemma db_update_split:
  assumes "distinct (map k t)" "r \<in> set t"
  obtains xs ys where "t = xs @ r # ys" "db_update (\<lambda>x. k x = k r) f t = xs @ f r # ys"
proof -
  obtain xs ys where t: "t = xs @ r # ys" using assms(2) by (meson split_list)
  with assms(1) have "\<forall>x \<in> set xs \<union> set ys. k x \<noteq> k r" by (auto simp: rev_image_eqI)
  then have "db_update (\<lambda>x. k x = k r) f xs = xs" "db_update (\<lambda>x. k x = k r) f ys = ys" by (auto intro: db_update_id)
  with t that show thesis by simp
qed

lemma update_tables [simp]:
  "integration_contract_versions (update_contract vid f d) = db_update (\<lambda>r. cv_id r = vid) f (integration_contract_versions d)"
  "enforcement_bindings (update_contract vid f d) = enforcement_bindings d"
  "integration_contract_versions (update_binding bid g d) = integration_contract_versions d"
  "enforcement_bindings (update_binding bid g d) = db_update (\<lambda>b. eb_id b = bid) g (enforcement_bindings d)"
  by (simp_all add: update_contract_def update_binding_def)

lemma integration_ok_cong:
  assumes "integration_contract_versions d' = integration_contract_versions d" "enforcement_bindings d' = enforcement_bindings d"
  shows "integration_ok C d' = integration_ok C d"
  using assms by (simp add: integration_ok_def versions_unique_def single_active_def binding_ok_def)

lemma get_contract_versionD:
  "get_contract_version d vid org = Inr r \<Longrightarrow> r \<in> set (integration_contract_versions d) \<and> cv_id r = vid \<and> cv_organization_id r = org"
  using db_find_Some by (fastforce simp: get_contract_version_def)

lemma get_bindingD:
  "get_binding d bid org = Inr b \<Longrightarrow> b \<in> set (enforcement_bindings d) \<and> eb_id b = bid \<and> eb_organization_id b = org"
  using db_find_Some by (fastforce simp: get_binding_def)

text \<open>One contract row changes: what has to hold of the new row.\<close>

lemma ok_contract_update:
  assumes ok: "integration_ok C d" and r: "r \<in> set (integration_contract_versions d)"
    and f: "\<And>x. cv_id (f x) = cv_id x \<and> cv_organization_id (f x) = cv_organization_id x \<and> cv_integration_id (f x) = cv_integration_id x"
    and new: "frozen_ok C (f r)" "versions_unique (update_contract (cv_id r) f d)"
    and st: "cv_status r = ConApproved \<Longrightarrow> cv_status (f r) = ConApproved \<or> \<not> has_active_binding_for_contract_version d (cv_id r)"
  shows "integration_ok C (update_contract (cv_id r) f d)"
proof -
  note o = integration_okD [OF ok]
  obtain xs ys where t: "integration_contract_versions d = xs @ r # ys"
      "db_update (\<lambda>x. cv_id x = cv_id r) f (integration_contract_versions d) = xs @ f r # ys"
    by (rule db_update_split [OF o(1) r])
  have "binding_ok (update_contract (cv_id r) f d) b" if b: "b \<in> set (enforcement_bindings d)" for b
  proof -
    obtain s where s: "s \<in> set (integration_contract_versions d)" "cv_id s = eb_integration_contract_version_id b"
        "cv_organization_id s = eb_organization_id b" "cv_integration_id s = eb_integration_id b" "eb_status b = BindActive \<longrightarrow> cv_status s = ConApproved"
      using o(6) [OF b] by (auto simp: binding_ok_def)
    show ?thesis
    proof (cases "s = r")
      case False
      with s t show ?thesis by (auto simp: binding_ok_def)
    next
      case True
      have act: "has_active_binding_for_contract_version d (cv_id r)" if "eb_status b = BindActive"
        using that b s(2) True unfolding has_active_binding_for_contract_version_def db_find_None_iff by auto
      have "cv_status (f r) = ConApproved" if "eb_status b = BindActive"
        using st act [OF that] s(5) that True by simp
      moreover have "f r \<in> set (xs @ f r # ys)" by simp
      ultimately show ?thesis using True s(2-4) f [of r] unfolding binding_ok_def update_tables t(2) by metis
    qed
  qed
  moreover have "map cv_id (db_update (\<lambda>x. cv_id x = cv_id r) f (integration_contract_versions d)) = map cv_id (integration_contract_versions d)"
    using f by (simp add: row_simps)
  moreover have "\<forall>x \<in> set (xs @ f r # ys). frozen_ok C x" using o(5) new(1) t(1) by simp
  ultimately show ?thesis using o(1,2,4) new(2) unfolding integration_ok_def single_active_def update_tables
    unfolding t(2) by simp
qed

text \<open>One binding row changes.\<close>

lemma ok_binding_update:
  assumes ok: "integration_ok C d" and b: "b \<in> set (enforcement_bindings d)"
    and f: "\<And>x. eb_id (f x) = eb_id x" and new: "binding_ok d (f b)" "single_active (update_binding (eb_id b) f d)"
  shows "integration_ok C (update_binding (eb_id b) f d)"
proof -
  note o = integration_okD [OF ok]
  obtain xs ys where t: "enforcement_bindings d = xs @ b # ys"
      "db_update (\<lambda>x. eb_id x = eb_id b) f (enforcement_bindings d) = xs @ f b # ys"
    by (rule db_update_split [OF o(2) b])
  have "map eb_id (db_update (\<lambda>x. eb_id x = eb_id b) f (enforcement_bindings d)) = map eb_id (enforcement_bindings d)"
    using f by (simp add: row_simps)
  with o new t show ?thesis unfolding integration_ok_def
    by (auto simp: versions_unique_def binding_ok_def simp del: t(2))
qed

lemma single_active_update:
  assumes "integration_ok C d" "b \<in> set (enforcement_bindings d)"
    and "eb_status (f b) = BindActive \<Longrightarrow> eb_status b = BindActive \<and> binding_scope (f b) = binding_scope b"
  shows "single_active (update_binding (eb_id b) f d)"
proof -
  note o = integration_okD [OF assms(1)]
  obtain xs ys where t: "enforcement_bindings d = xs @ b # ys"
      "db_update (\<lambda>x. eb_id x = eb_id b) f (enforcement_bindings d) = xs @ f b # ys"
    by (rule db_update_split [OF o(2) assms(2)])
  show ?thesis
  proof (cases "eb_status (f b) = BindActive")
    case True
    with o(4) assms(3) show ?thesis unfolding single_active_def update_tables t(2) unfolding t(1) by simp
  next
    case False
    with o(4) show ?thesis unfolding single_active_def update_tables t(2) unfolding t(1) by (cases "eb_status b = BindActive") simp_all
  qed
qed

section \<open>Every step keeps it\<close>

lemma create_version_attemptsD:
  "create_version_attempts mk gid so vs = Inr (d', r) \<Longrightarrow>
   \<exists>seen d. (seen, d) \<in> set vs \<and> create_contract_version_attempt seen mk gid so d = Some (d', r)"
proof (induction vs)
  case (Cons v vs)
  obtain seen d where v: "v = (seen, d)" by (cases v)
  with Cons show ?case by (cases "create_contract_version_attempt seen mk gid so d") auto
qed simp

lemma ok_create_version:
  assumes ok: "integration_ok C d" and c: "create_contract_version gid org so act res subj amt cur ctx fp crt vid now (\<lambda>_. (d, d)) d = Inr (d', r)"
    and new: "vid \<notin> cv_id ` set (integration_contract_versions d)"
  shows "integration_ok C d'"
proof -
  note o = integration_okD [OF ok]
  from c obtain v ctx' where r: "r = new_contract_version vid gid org so v act res subj amt cur ctx' fp crt now"
      "d' = d\<lparr>integration_contract_versions := integration_contract_versions d @ [r]\<rparr>" "versions_unique d'"
    by (auto simp: create_contract_version_def create_contract_version_attempt_def Let_def dest!: create_version_attemptsD split: if_splits)
  have "frozen_ok C r" "cv_id r = vid" using r(1) by (simp_all add: new_contract_version_def frozen_ok_def)
  moreover have "binding_ok d' b" if "b \<in> set (enforcement_bindings d)" for b
    using o(6) [OF that] r(2) by (auto simp: binding_ok_def)
  ultimately show ?thesis using o new r(2,3) by (auto simp: integration_ok_def single_active_def)
qed

lemma versions_unique_update:
  assumes "versions_unique d" "\<And>x. version_key (f x) = version_key x"
  shows "versions_unique (update_contract vid f d)"
  using assms by (simp add: versions_unique_def row_simps)

lemma contract_returningD: "contract_returning vid org d = Inr (d', r) \<Longrightarrow> d' = d"
  by (auto simp: contract_returning_def)

lemma apply_edit_simps [simp]:
  "cv_id (apply_edit e r) = cv_id r" "cv_organization_id (apply_edit e r) = cv_organization_id r"
  "cv_integration_id (apply_edit e r) = cv_integration_id r" "cv_status (apply_edit e r) = cv_status r"
  by (simp_all add: apply_edit_def)

lemma edit_versionD:
  assumes "edit_draft_contract_version vid org e d = Inr (d', x)"
  obtains r where "r \<in> set (integration_contract_versions d)" "cv_id r = vid" "cv_status r = ConDraft"
    "d' = update_contract vid (apply_edit e) d" "versions_unique d'"
  using assms by (auto simp: edit_draft_contract_version_def Let_def dest!: get_contract_versionD contract_returningD split: if_splits)

lemma validate_versionD:
  assumes "validate_contract_version C vid org now d = Inr (d', x)"
  obtains r where "r \<in> set (integration_contract_versions d)" "cv_id r = vid" "cv_status r = ConDraft" "validate_row r = Inr ()"
    "d' = update_contract vid (\<lambda>x. x\<lparr>cv_content_hash := Some (compute_content_hash C (row_semantics r)),
         cv_status := ConValidated, cv_validated_at := Some now\<rparr>) d"
  using assms by (auto simp: validate_contract_version_def dest!: get_contract_versionD contract_returningD)

lemma approve_versionD:
  assumes "approve_contract_version vid org approver now d = Inr (d', x)"
  obtains r where "r \<in> set (integration_contract_versions d)" "cv_id r = vid" "cv_status r = ConValidated"
    "d' = update_contract vid (\<lambda>x. x\<lparr>cv_status := ConApproved, cv_approved_by := Some approver, cv_approved_at := Some now\<rparr>) d"
  using assms by (auto simp: approve_contract_version_def dest!: get_contract_versionD contract_returningD)

lemma retire_versionD:
  assumes "retire_contract_version vid org now d = Inr (d', x)"
  obtains r where "r \<in> set (integration_contract_versions d)" "cv_id r = vid" "cv_status r = ConApproved"
    "\<not> has_active_binding_for_contract_version d vid"
    "d' = update_contract vid (\<lambda>x. x\<lparr>cv_status := ConRetired, cv_retired_at := Some now\<rparr>) d"
  using assms by (auto simp: retire_contract_version_def dest!: get_contract_versionD contract_returningD)

lemmas contract_view_defs = frozen_ok_def row_semantics_def validate_row_def version_key_def

lemma ok_edit_version:
  assumes ok: "integration_ok C d" and "edit_draft_contract_version vid org e d = Inr (d', x)"
  shows "integration_ok C d'"
  using assms(2)
proof (rule edit_versionD)
  fix r assume r: "r \<in> set (integration_contract_versions d)" "cv_id r = vid" "cv_status r = ConDraft"
    "d' = update_contract vid (apply_edit e) d" "versions_unique d'"
  then show ?thesis using ok_contract_update [OF ok r(1), of "apply_edit e"] by (simp add: frozen_ok_def)
qed

lemma ok_validate_version:
  assumes ok: "integration_ok C d" and "validate_contract_version C vid org now d = Inr (d', x)"
  shows "integration_ok C d'"
  using assms(2)
proof (rule validate_versionD)
  let ?f = "\<lambda>r x. x\<lparr>cv_content_hash := Some (compute_content_hash C (row_semantics r)), cv_status := ConValidated, cv_validated_at := Some now\<rparr>"
  fix r assume r: "r \<in> set (integration_contract_versions d)" "cv_id r = vid" "cv_status r = ConDraft" "validate_row r = Inr ()"
    "d' = update_contract vid (?f r) d"
  have "versions_unique (update_contract (cv_id r) (?f r) d)"
    by (rule versions_unique_update [OF integration_okD(3) [OF ok]]) (simp add: version_key_def)
  then show ?thesis using ok_contract_update [OF ok r(1), of "?f r"] r(2-5) by (simp add: contract_view_defs)
qed

lemma ok_approve_version:
  assumes ok: "integration_ok C d" and "approve_contract_version vid org approver now d = Inr (d', x)"
  shows "integration_ok C d'"
  using assms(2)
proof (rule approve_versionD)
  let ?f = "\<lambda>x. x\<lparr>cv_status := ConApproved, cv_approved_by := Some approver, cv_approved_at := Some now\<rparr>"
  fix r assume r: "r \<in> set (integration_contract_versions d)" "cv_id r = vid" "cv_status r = ConValidated" "d' = update_contract vid ?f d"
  have "versions_unique (update_contract (cv_id r) ?f d)"
    by (rule versions_unique_update [OF integration_okD(3) [OF ok]]) (simp add: version_key_def)
  then show ?thesis using ok_contract_update [OF ok r(1), of ?f] integration_okD(5) [OF ok r(1)] r(2-4) by (simp add: contract_view_defs)
qed

lemma ok_retire_version:
  assumes ok: "integration_ok C d" and "retire_contract_version vid org now d = Inr (d', x)"
  shows "integration_ok C d'"
  using assms(2)
proof (rule retire_versionD)
  let ?f = "\<lambda>x. x\<lparr>cv_status := ConRetired, cv_retired_at := Some now\<rparr>"
  fix r assume r: "r \<in> set (integration_contract_versions d)" "cv_id r = vid" "cv_status r = ConApproved"
    "\<not> has_active_binding_for_contract_version d vid" "d' = update_contract vid ?f d"
  have "versions_unique (update_contract (cv_id r) ?f d)"
    by (rule versions_unique_update [OF integration_okD(3) [OF ok]]) (simp add: version_key_def)
  then show ?thesis using ok_contract_update [OF ok r(1), of ?f] integration_okD(5) [OF ok r(1)] r(2-5) by (simp add: contract_view_defs)
qed

lemma add_rowD: "add_allowed_agent_row bid aid org mid now d = Inr d' \<Longrightarrow>
    integration_contract_versions d' = integration_contract_versions d \<and> enforcement_bindings d' = enforcement_bindings d"
  by (auto simp: add_allowed_agent_row_def split: if_splits)

lemma add_rowsD: "add_allowed_agent_rows bid org now aids d = Inr d' \<Longrightarrow>
    integration_contract_versions d' = integration_contract_versions d \<and> enforcement_bindings d' = enforcement_bindings d"
  by (induction bid org now aids d rule: add_allowed_agent_rows.induct) (auto dest: add_rowD)

lemma binding_returningD: "binding_returning bid org d = Inr (d', b) \<Longrightarrow> d' = d \<and> get_binding d bid org = Inr b"
  by (auto simp: binding_returning_def)

lemma ok_create_binding:
  assumes ok: "integration_ok C d" and c: "create_draft_binding org iid vid envt aids crt bid now d = Inr (d', b)"
    and new: "bid \<notin> eb_id ` set (enforcement_bindings d)"
  shows "integration_ok C d'"
proof -
  note o = integration_okD [OF ok]
  let ?d = "d\<lparr>enforcement_bindings := enforcement_bindings d @ [b]\<rparr>"
  from c obtain r where r: "get_contract_version d vid org = Inr r" "add_allowed_agent_rows bid org now aids ?d = Inr d'"
      "eb_id b = bid" "eb_organization_id b = org" "eb_integration_contract_version_id b = vid" "eb_integration_id b = cv_integration_id r" "eb_status b = BindDraft"
    by (auto simp: create_draft_binding_def Let_def)
  have "binding_ok ?d b" using get_contract_versionD [OF r(1)] r by (auto simp: binding_ok_def)
  moreover have "binding_ok ?d x" if "x \<in> set (enforcement_bindings d)" for x using o(6) [OF that] by (simp add: binding_ok_def)
  ultimately have "integration_ok C ?d" using o new r(3,7) by (auto simp: integration_ok_def versions_unique_def single_active_def)
  then show ?thesis using add_rowsD [OF r(2)] integration_ok_cong [of d' ?d C] by simp
qed

lemma ok_binding_keeps:
  assumes ok: "integration_ok C d" and b: "b \<in> set (enforcement_bindings d)" "eb_id b = bid"
    and f: "\<And>x. eb_id (f x) = eb_id x" and new: "binding_ok d (f b)"
    and st: "eb_status (f b) = BindActive \<Longrightarrow> eb_status b = BindActive \<and> binding_scope (f b) = binding_scope b"
  shows "integration_ok C (update_binding bid f d)"
  using ok_binding_update [OF ok b(1) f new] single_active_update [OF ok b(1), of f, OF st] b(2) by auto

lemma ok_edit_binding:
  assumes ok: "integration_ok C d" and e: "edit_draft_binding bid org iid vid envt d = Inr (d', x)"
  shows "integration_ok C d'"
proof -
  from e obtain b f1 f2 f3 where b: "get_binding d bid org = Inr b" "eb_status b = BindDraft"
    and f1: "(case iid of None \<Rightarrow> Inr id | Some i \<Rightarrow> rmap (\<lambda>_ x. x\<lparr>eb_integration_identity_id := i\<rparr>) (get_integration_identity d i org)) = Inr f1"
    and f2: "(case vid of None \<Rightarrow> Inr id | Some v \<Rightarrow> rmap (\<lambda>cv x. x\<lparr>eb_integration_contract_version_id := v, eb_integration_id := cv_integration_id cv,
                 eb_source_operation := cv_source_operation cv\<rparr>) (get_contract_version d v org)) = Inr f2"
    and f3: "(case envt of None \<Rightarrow> Inr id | Some e \<Rightarrow> rmap (\<lambda>_ x. x\<lparr>eb_environment := e\<rparr>) (raise_if (is_blank e) (BindingValidationError ''environment is required''))) = Inr f3"
    and d': "d' = update_binding bid (f3 \<circ> f2 \<circ> f1) d"
    by (auto simp: edit_draft_binding_def dest!: binding_returningD)
  note bb = get_bindingD [OF b(1)]
  have k1: "eb_id (f1 y) = eb_id y \<and> eb_organization_id (f1 y) = eb_organization_id y \<and> eb_status (f1 y) = eb_status y
      \<and> eb_integration_contract_version_id (f1 y) = eb_integration_contract_version_id y \<and> eb_integration_id (f1 y) = eb_integration_id y" for y
    using f1 by (auto split: option.splits)
  have k3: "eb_id (f3 y) = eb_id y \<and> eb_organization_id (f3 y) = eb_organization_id y \<and> eb_status (f3 y) = eb_status y
      \<and> eb_integration_contract_version_id (f3 y) = eb_integration_contract_version_id y \<and> eb_integration_id (f3 y) = eb_integration_id y" for y
    using f3 by (auto split: option.splits)
  have k2: "eb_id (f2 y) = eb_id y \<and> eb_organization_id (f2 y) = eb_organization_id y \<and> eb_status (f2 y) = eb_status y" for y
    using f2 by (auto split: option.splits)
  have same: "binding_ok d (f y) = binding_ok d y" if "\<And>y. eb_organization_id (f y) = eb_organization_id y \<and> eb_status (f y) = eb_status y
      \<and> eb_integration_contract_version_id (f y) = eb_integration_contract_version_id y \<and> eb_integration_id (f y) = eb_integration_id y" for f y
    using that by (simp add: binding_ok_def)
  have "binding_ok d (f2 (f1 b))"
  proof (cases vid)
    case None
    with f2 have "f2 = id" by simp
    then show ?thesis using same [of f1 b] k1 integration_okD(6) [OF ok] bb by simp
  next
    case (Some v)
    then obtain r where r: "get_contract_version d v org = Inr r" "f2 = (\<lambda>x. x\<lparr>eb_integration_contract_version_id := v, eb_integration_id := cv_integration_id r,
                 eb_source_operation := cv_source_operation r\<rparr>)" using f2 by auto
    then show ?thesis using get_contract_versionD [OF r(1)] k1 [of b] bb b(2) by (auto simp: binding_ok_def)
  qed
  then have "binding_ok d (f3 (f2 (f1 b)))" using same [of f3 "f2 (f1 b)"] k3 by simp
  then show ?thesis unfolding d' using bb b(2) k1 k2 k3 by (intro ok_binding_keeps [OF ok, of b]) auto
qed

lemma ok_assurance:
  assumes ok: "integration_ok C d" and e: "set_enforcement_assurance bid org lvl d = Inr (d', x)"
  shows "integration_ok C d'"
proof -
  from e obtain b where b: "get_binding d bid org = Inr b" "d' = update_binding bid (\<lambda>b. b\<lparr>eb_enforcement_assurance := lvl\<rparr>) d"
    by (auto simp: set_enforcement_assurance_def dest!: binding_returningD)
  have "binding_ok d (b\<lparr>eb_enforcement_assurance := lvl\<rparr>)" using integration_okD(6) [OF ok get_bindingD [OF b(1), THEN conjunct1]] by (simp add: binding_ok_def)
  then show ?thesis unfolding b(2) using get_bindingD [OF b(1)] by (intro ok_binding_keeps [OF ok, of b]) (auto simp: binding_scope_def)
qed

lemma ok_retire:
  assumes ok: "integration_ok C d" and b: "b \<in> set (enforcement_bindings d)" "eb_id b = bid"
  shows "integration_ok C (update_binding bid (\<lambda>b. b\<lparr>eb_status := BindRetired, eb_retired_at := Some now\<rparr>) d)"
proof -
  have "binding_ok d (b\<lparr>eb_status := BindRetired, eb_retired_at := Some now\<rparr>)" using integration_okD(6) [OF ok b(1)] by (auto simp: binding_ok_def)
  then show ?thesis using b by (intro ok_binding_keeps [OF ok, of b]) auto
qed

lemma check_activationD:
  assumes "check_activation seen bid org = Inr b"
  shows "b \<in> set (enforcement_bindings seen) \<and> eb_id b = bid \<and> eb_organization_id b = org \<and> eb_status b = BindDraft
    \<and> (\<exists>r \<in> set (integration_identities seen). ii_id r = eb_integration_identity_id b \<and> ii_organization_id r = org \<and> ii_status r = AgActive)
    \<and> (\<exists>r \<in> set (integration_contract_versions seen). cv_id r = eb_integration_contract_version_id b \<and> cv_organization_id r = org \<and> cv_status r = ConApproved)
    \<and> allowed_agents seen bid \<noteq> [] \<and> (\<forall>a \<in> set (allowed_agents seen bid). ag_status a = AgActive)"
  using assms
  by (auto simp: check_activation_def list_allowed_agents_def db_find_None_iff split: option.splits
      dest!: get_bindingD get_integration_identityD get_contract_versionD)

lemma activate_attemptD:
  assumes "activate_binding_attempt seen bid org now d = Inr (Some (d', b'))"
  obtains b where "check_activation seen bid org = Inr b" "d' = set_active bid now (retire_prior seen b now d)" "single_active d'"
    "get_binding d' bid org = Inr b'"
  using assms by (auto simp: activate_binding_attempt_def Let_def dest!: binding_returningD split: if_splits)

lemma activation_attemptsD:
  "activation_attempts bid org now vs = Inr (d', b) \<Longrightarrow>
   \<exists>seen d. (seen, d) \<in> set vs \<and> activate_binding_attempt seen bid org now d = Inr (Some (d', b))"
proof (induction vs)
  case (Cons v vs)
  obtain seen d where v: "v = (seen, d)" by (cases v)
  from Cons.prems v obtain x where x: "activate_binding_attempt seen bid org now d = Inr x"
      "(case x of None \<Rightarrow> activation_attempts bid org now vs | Some x \<Rightarrow> Inr x) = Inr (d', b)" by auto
  show ?case
  proof (cases x)
    case None
    with x Cons.IH show ?thesis by auto
  next
    case (Some y)
    with x v show ?thesis by auto
  qed
qed simp

lemma retire_prior_ok:
  assumes "integration_ok C d"
  shows "integration_ok C (retire_prior d b now d) \<and> integration_contract_versions (retire_prior d b now d) = integration_contract_versions d
    \<and> (b \<in> set (enforcement_bindings d) \<longrightarrow> b \<in> set (enforcement_bindings (retire_prior d b now d)))"
proof (cases "find_prior_active d b")
  case (Some x)
  then have "x \<in> set (enforcement_bindings d)" using db_find_Some by (fastforce simp: find_prior_active_def)
  with Some show ?thesis using ok_retire [OF assms, of x] assms by (force simp: retire_prior_def set_db_update)
qed (use assms in \<open>simp add: retire_prior_def\<close>)

lemma ok_activate_attempt:
  assumes ok: "integration_ok C d" and "activate_binding_attempt d bid org now d = Inr (Some (d', b'))"
  shows "integration_ok C d'"
  using assms(2)
proof (rule activate_attemptD)
  fix b assume b: "check_activation d bid org = Inr b" and d': "d' = set_active bid now (retire_prior d b now d)" "single_active d'"
  let ?d = "retire_prior d b now d" and ?b = "b\<lparr>eb_status := BindActive, eb_activated_at := Some now\<rparr>"
  note c = check_activationD [OF b] and r = retire_prior_ok [OF ok, of b now]
  obtain cv where cv: "cv \<in> set (integration_contract_versions d)" "cv_id cv = eb_integration_contract_version_id b" "cv_status cv = ConApproved"
    using c by blast
  obtain s where s: "s \<in> set (integration_contract_versions d)" "cv_id s = eb_integration_contract_version_id b"
      "cv_organization_id s = eb_organization_id b" "cv_integration_id s = eb_integration_id b"
    using integration_okD(6) [OF ok] c by (auto simp: binding_ok_def)
  have "inj_on cv_id (set (integration_contract_versions d))" using integration_okD(1) [OF ok] by (simp add: distinct_map)
  from inj_onD [OF this _ cv(1) s(1)] cv(2) s(2) have "cv = s" by simp
  with cv s r have "binding_ok ?d ?b" by (auto simp: binding_ok_def)
  moreover have "b \<in> set (enforcement_bindings ?d)" "eb_id b = bid" using r c by auto
  ultimately show ?thesis using ok_binding_update [of C ?d b "\<lambda>y. y\<lparr>eb_status := BindActive, eb_activated_at := Some now\<rparr>"] r d'
    by (simp add: set_active_def)
qed

lemma identity_step_frame:
  assumes "identity_step d d'"
  shows "integration_contract_versions d' = integration_contract_versions d \<and> enforcement_bindings d' = enforcement_bindings d"
proof -
  have m: ?thesis if "identity_moves d i s P f d'" for i s P f
    using that by (auto simp: identity_moves_def update_found_identity_certificate_def update_identity_certificate_def update_identity_def split: option.splits)
  show ?thesis
    using assms
    by cases (auto simp: register_integration_identity_def rotate_identity_certificate_def update_identity_certificate_def Let_def
        dest: activate_moves suspend_moves revoke_moves retire_moves m split: if_splits)
qed

lemma remove_agentD: "remove_allowed_agent bid org aid d = Inr (d', b) \<Longrightarrow>
    integration_contract_versions d' = integration_contract_versions d \<and> enforcement_bindings d' = enforcement_bindings d"
  by (auto simp: remove_allowed_agent_def dest!: binding_returningD split: option.splits)

lemma add_agentD: "add_allowed_agent bid org aid mid now d = Inr (d', b) \<Longrightarrow>
    integration_contract_versions d' = integration_contract_versions d \<and> enforcement_bindings d' = enforcement_bindings d"
  by (auto simp: add_allowed_agent_def dest!: binding_returningD add_rowD)

lemma integration_step_ok:
  assumes "integration_step C d d'" "integration_ok C d"
  shows "integration_ok C d'"
  using assms(1)
proof cases
  case identity
  then show ?thesis using assms(2) identity_step_frame integration_ok_cong by metis
next
  case (integration org lbl crt gid now g)
  then have "integration_ok C d' = integration_ok C d"
    by (intro integration_ok_cong) (auto simp: create_integration_def Let_def split: if_splits)
  with assms(2) show ?thesis by simp
next
  case (add_agent bid org aid mid now b)
  from add_agentD [OF this] show ?thesis using assms(2) integration_ok_cong by metis
next
  case (remove_agent bid org aid b)
  from remove_agentD [OF this] show ?thesis using assms(2) integration_ok_cong by metis
next
  case (retire_binding bid org now b)
  then obtain x where "get_binding d bid org = Inr x" "d' = update_binding bid (\<lambda>b. b\<lparr>eb_status := BindRetired, eb_retired_at := Some now\<rparr>) d"
    by (auto simp: retire_binding_def dest!: binding_returningD)
  then show ?thesis using ok_retire [OF assms(2)] get_bindingD by blast
next
  case (activate_binding bid org now b)
  then have "activate_binding_attempt d bid org now d = Inr (Some (d', b))"
    unfolding Enforcement_Binding.activate_binding_def by (auto dest!: activation_attemptsD)
  from ok_activate_attempt [OF assms(2) this] show ?thesis .
next
  case create_version
  then show ?thesis by (rule ok_create_version [OF assms(2)])
next
  case edit_version
  then show ?thesis by (rule ok_edit_version [OF assms(2)])
next
  case validate_version
  then show ?thesis by (rule ok_validate_version [OF assms(2)])
next
  case approve_version
  then show ?thesis by (rule ok_approve_version [OF assms(2)])
next
  case retire_version
  then show ?thesis by (rule ok_retire_version [OF assms(2)])
next
  case create_binding
  then show ?thesis by (rule ok_create_binding [OF assms(2)])
next
  case edit_binding
  then show ?thesis by (rule ok_edit_binding [OF assms(2)])
next
  case assurance
  then show ?thesis by (rule ok_assurance [OF assms(2)])
qed

lemma integration_run_ok: "(integration_step C)\<^sup>*\<^sup>* d d' \<Longrightarrow> integration_ok C d \<Longrightarrow> integration_ok C d'"
  by (induction rule: rtranclp_induct) (auto intro: integration_step_ok)

lemma integration_ok_empty: "integration_contract_versions d = [] \<Longrightarrow> enforcement_bindings d = [] \<Longrightarrow> integration_ok C d"
  by (simp add: integration_ok_def versions_unique_def single_active_def)

section \<open>Frozen configuration\<close>

fun contract_may :: "ContractStatus \<Rightarrow> ContractStatus \<Rightarrow> bool" where
  "contract_may ConDraft s = (s = ConValidated)"
| "contract_may ConValidated s = (s = ConApproved)"
| "contract_may ConApproved s = (s = ConRetired)"
| "contract_may ConRetired s = False"

fun binding_may :: "BindingStatus \<Rightarrow> BindingStatus \<Rightarrow> bool" where
  "binding_may BindDraft s = (s = BindActive)"
| "binding_may BindActive s = (s = BindRetired)"
| "binding_may BindRetired s = False"

text \<open>What one step does to a contract row and to a binding row. Past draft, only the status moves.\<close>

definition contract_next :: "IntegrationContractVersion \<Rightarrow> IntegrationContractVersion \<Rightarrow> bool" where
  "contract_next r r' = (cv_id r' = cv_id r \<and> (cv_status r' = cv_status r \<or> contract_may (cv_status r) (cv_status r'))
     \<and> (cv_status r \<noteq> ConDraft \<longrightarrow> row_semantics r' = row_semantics r \<and> cv_content_hash r' = cv_content_hash r \<and> version_key r' = version_key r))"

definition binding_next :: "EnforcementBinding \<Rightarrow> EnforcementBinding \<Rightarrow> bool" where
  "binding_next b b' = (eb_id b' = eb_id b \<and> (eb_status b' = eb_status b \<or> binding_may (eb_status b) (eb_status b'))
     \<and> (eb_status b \<noteq> BindDraft \<longrightarrow> binding_scope b' = binding_scope b \<and> eb_organization_id b' = eb_organization_id b
          \<and> eb_integration_contract_version_id b' = eb_integration_contract_version_id b))"

lemma contract_next_refl [simp]: "contract_next r r"
  by (simp add: contract_next_def)

lemma binding_next_refl [simp]: "binding_next b b"
  by (simp add: binding_next_def)

lemma rowwise_update:
  assumes "distinct (map k t)" "r \<in> set t" "N r (f r)" "\<And>x. N x x"
  shows "\<forall>x \<in> set t. \<exists>x' \<in> set (db_update (\<lambda>x. k x = k r) f t). N x x'"
proof -
  obtain xs ys where t: "t = xs @ r # ys" "db_update (\<lambda>x. k x = k r) f t = xs @ f r # ys" by (rule db_update_split [OF assms(1,2)])
  show ?thesis unfolding t(2) using assms(3,4) unfolding t(1) by auto
qed

lemma contract_update_next:
  assumes "integration_ok C d" "r \<in> set (integration_contract_versions d)" "cv_id r = vid" "contract_next r (f r)"
  shows "\<forall>x \<in> set (integration_contract_versions d). \<exists>x' \<in> set (integration_contract_versions (update_contract vid f d)). contract_next x x'"
  unfolding update_tables assms(3) [symmetric]
  by (rule rowwise_update [where N = contract_next and f = f and k = cv_id, OF integration_okD(1) [OF assms(1)] assms(2,4)]) simp

lemma binding_update_next:
  assumes "integration_ok C d" "b \<in> set (enforcement_bindings d)" "eb_id b = bid" "binding_next b (f b)"
  shows "\<forall>x \<in> set (enforcement_bindings d). \<exists>x' \<in> set (enforcement_bindings (update_binding bid f d)). binding_next x x'"
  unfolding update_tables assms(3) [symmetric]
  by (rule rowwise_update [where N = binding_next and f = f and k = eb_id, OF integration_okD(2) [OF assms(1)] assms(2,4)]) simp

lemma same_next: "\<exists>u. t' = t @ u \<Longrightarrow> (\<And>x. N x x) \<Longrightarrow> \<forall>x \<in> set t. \<exists>x' \<in> set t'. N x x'"
  by (metis Un_iff set_append)

lemma step_contracts:
  assumes "integration_step C d d'" and ok: "integration_ok C d"
  shows "\<forall>r \<in> set (integration_contract_versions d). \<exists>r' \<in> set (integration_contract_versions d'). contract_next r r'"
proof -
  have same: ?thesis if "integration_contract_versions d' = integration_contract_versions d" using that contract_next_refl by metis
  show ?thesis
    using assms(1)
  proof cases
    case identity
    then show ?thesis using identity_step_frame same by blast
  next
    case (create_version gid org so act res subj amt cur ctx fp crt vid now r)
    then have "\<exists>u. integration_contract_versions d' = integration_contract_versions d @ u"
      by (auto simp: create_contract_version_def create_contract_version_attempt_def Let_def dest!: create_version_attemptsD split: if_splits)
    then show ?thesis by (rule same_next) simp
  next
    case (edit_version vid org e r)
    then show ?thesis
    proof (rule edit_versionD)
      fix r assume r: "r \<in> set (integration_contract_versions d)" "cv_id r = vid" "cv_status r = ConDraft" "d' = update_contract vid (apply_edit e) d"
      show ?thesis unfolding r(4) by (rule contract_update_next [OF ok r(1,2)]) (simp add: contract_next_def r(3))
    qed
  next
    case (validate_version vid org now r)
    then show ?thesis
    proof (rule validate_versionD)
      fix r assume r: "r \<in> set (integration_contract_versions d)" "cv_id r = vid" "cv_status r = ConDraft"
        "d' = update_contract vid (\<lambda>x. x\<lparr>cv_content_hash := Some (compute_content_hash C (row_semantics r)),
           cv_status := ConValidated, cv_validated_at := Some now\<rparr>) d"
      show ?thesis unfolding r(4) by (rule contract_update_next [OF ok r(1,2)]) (simp add: contract_next_def r(3))
    qed
  next
    case (approve_version vid org approver now r)
    then show ?thesis
    proof (rule approve_versionD)
      fix r assume r: "r \<in> set (integration_contract_versions d)" "cv_id r = vid" "cv_status r = ConValidated"
        "d' = update_contract vid (\<lambda>x. x\<lparr>cv_status := ConApproved, cv_approved_by := Some approver, cv_approved_at := Some now\<rparr>) d"
      show ?thesis unfolding r(4) by (rule contract_update_next [OF ok r(1,2)]) (simp add: contract_next_def r(3) row_semantics_def version_key_def)
    qed
  next
    case (retire_version vid org now r)
    then show ?thesis
    proof (rule retire_versionD)
      fix r assume r: "r \<in> set (integration_contract_versions d)" "cv_id r = vid" "cv_status r = ConApproved"
        "d' = update_contract vid (\<lambda>x. x\<lparr>cv_status := ConRetired, cv_retired_at := Some now\<rparr>) d"
      show ?thesis unfolding r(4) by (rule contract_update_next [OF ok r(1,2)]) (simp add: contract_next_def r(3) row_semantics_def version_key_def)
    qed
  next
    case (integration org lbl crt gid now g)
    then show ?thesis by (intro same) (auto simp: create_integration_def Let_def split: if_splits)
  next
    case (create_binding org iid vid envt aids crt bid now b)
    then show ?thesis by (intro same) (auto simp: create_draft_binding_def Let_def dest!: add_rowsD)
  next
    case (add_agent bid org aid mid now b)
    then show ?thesis by (intro same) (simp add: add_agentD)
  next
    case (remove_agent bid org aid b)
    then show ?thesis by (intro same) (simp add: remove_agentD)
  next
    case (edit_binding bid org iid vid envt b)
    then show ?thesis by (intro same) (auto simp: edit_draft_binding_def dest!: binding_returningD)
  next
    case (assurance bid org lvl b)
    then show ?thesis by (intro same) (auto simp: set_enforcement_assurance_def dest!: binding_returningD)
  next
    case (retire_binding bid org now b)
    then show ?thesis by (intro same) (auto simp: retire_binding_def dest!: binding_returningD)
  next
    case (activate_binding bid org now b)
    then have "activate_binding_attempt d bid org now d = Inr (Some (d', b))"
      unfolding Enforcement_Binding.activate_binding_def by (auto dest!: activation_attemptsD)
    then show ?thesis by (intro same) (auto elim!: activate_attemptD simp: set_active_def retire_prior_ok [OF ok])
  qed
qed

lemma is_agent_allowed_iff:
  "is_agent_allowed d bid aid \<longleftrightarrow> (\<exists>m \<in> set (enforcement_binding_agents d). ba_enforcement_binding_id m = bid \<and> ba_agent_id m = aid)"
  by (auto simp: is_agent_allowed_def membership_def db_find_None_iff)

lemma add_row_allowed:
  "add_allowed_agent_row bid aid org mid now d = Inr d' \<Longrightarrow> i \<noteq> bid \<Longrightarrow> is_agent_allowed d' i x = is_agent_allowed d i x"
  by (auto simp: add_allowed_agent_row_def is_agent_allowed_iff split: if_splits)

lemma add_rows_allowed:
  "add_allowed_agent_rows bid org now aids d = Inr d' \<Longrightarrow> i \<noteq> bid \<Longrightarrow> is_agent_allowed d' i x = is_agent_allowed d i x"
  by (induction bid org now aids d rule: add_allowed_agent_rows.induct) (auto dest: add_row_allowed)

lemma identity_step_agents:
  assumes "identity_step d d'"
  shows "enforcement_binding_agents d' = enforcement_binding_agents d"
proof -
  have m: ?thesis if "identity_moves d i s P f d'" for i s P f
    using that by (auto simp: identity_moves_def update_found_identity_certificate_def update_identity_certificate_def update_identity_def split: option.splits)
  show ?thesis
    using assms
    by cases (auto simp: register_integration_identity_def rotate_identity_certificate_def update_identity_certificate_def Let_def
        dest: activate_moves suspend_moves revoke_moves retire_moves m split: if_splits)
qed

lemma update_agents_table [simp]:
  "enforcement_binding_agents (update_contract vid f d) = enforcement_binding_agents d"
  "enforcement_binding_agents (update_binding bid g d) = enforcement_binding_agents d"
  by (simp_all add: update_contract_def update_binding_def)

lemma retire_prior_agents [simp]: "enforcement_binding_agents (retire_prior seen b now d) = enforcement_binding_agents d"
  by (simp add: retire_prior_def split: option.split)

lemma unique_binding:
  "integration_ok C d \<Longrightarrow> b \<in> set (enforcement_bindings d) \<Longrightarrow> b' \<in> set (enforcement_bindings d) \<Longrightarrow> eb_id b = eb_id b' \<Longrightarrow> b = b'"
  by (auto simp: integration_ok_def distinct_map dest: inj_onD)

lemma step_agents:
  assumes "integration_step C d d'" and ok: "integration_ok C d" and b: "b \<in> set (enforcement_bindings d)" "eb_status b \<noteq> BindDraft"
  shows "is_agent_allowed d' (eb_id b) aid = is_agent_allowed d (eb_id b) aid"
proof -
  have same: ?thesis if "enforcement_binding_agents d' = enforcement_binding_agents d" using that by (simp add: is_agent_allowed_iff)
  show ?thesis
    using assms(1)
  proof cases
    case identity
    then show ?thesis using identity_step_agents same by blast
  next
    case (create_binding org iid vid envt aids crt bid now x)
    then have "bid \<noteq> eb_id b" using b(1) by auto
    with create_binding show ?thesis
      by (auto simp: create_draft_binding_def Let_def is_agent_allowed_iff dest!: add_rows_allowed [of _ _ _ _ _ _ "eb_id b" aid])
  next
    case (add_agent bid org x mid now y)
    then obtain z where z: "get_binding d bid org = Inr z" "eb_status z = BindDraft" "add_allowed_agent_row bid x org mid now d = Inr d'"
      by (auto simp: add_allowed_agent_def dest!: binding_returningD)
    have "eb_id b \<noteq> bid" using unique_binding [OF ok b(1), of z] get_bindingD [OF z(1)] z(2) b(2) by auto
    with add_row_allowed [OF z(3)] show ?thesis by blast
  next
    case (remove_agent bid org x y)
    then obtain z where z: "get_binding d bid org = Inr z" "eb_status z = BindDraft"
        "d' = (case membership d bid x of None \<Rightarrow> d | Some m \<Rightarrow> d\<lparr>enforcement_binding_agents := remove1 m (enforcement_binding_agents d)\<rparr>)"
      by (auto simp: remove_allowed_agent_def dest!: binding_returningD)
    have ne: "eb_id b \<noteq> bid" using unique_binding [OF ok b(1), of z] get_bindingD [OF z(1)] z(2) b(2) by auto
    show ?thesis
    proof (cases "membership d bid x")
      case None
      with z(3) show ?thesis by simp
    next
      case (Some m)
      then have m: "ba_enforcement_binding_id m = bid" using db_find_Some by (fastforce simp: membership_def)
      have "k \<in> set (remove1 m (enforcement_binding_agents d)) \<longleftrightarrow> k \<in> set (enforcement_binding_agents d)"
        if "ba_enforcement_binding_id k = eb_id b" for k
      proof -
        have "k \<noteq> m" using that m ne by auto
        then show ?thesis by (rule in_set_remove1)
      qed
      then show ?thesis using Some z(3) by (auto simp: is_agent_allowed_iff)
    qed
  next
    case (activate_binding bid org now x)
    then have "activate_binding_attempt d bid org now d = Inr (Some (d', x))"
      unfolding Enforcement_Binding.activate_binding_def by (auto dest!: activation_attemptsD)
    then show ?thesis by (intro same) (auto elim!: activate_attemptD simp: set_active_def)
  next
    case (integration org lbl crt gid now g)
    then show ?thesis by (intro same) (auto simp: create_integration_def Let_def split: if_splits)
  next
    case (create_version gid org so act res subj amt cur ctx fp crt vid now r)
    then show ?thesis
      by (intro same) (auto simp: create_contract_version_def create_contract_version_attempt_def Let_def dest!: create_version_attemptsD split: if_splits)
  next
    case (edit_version vid org e r)
    then show ?thesis by (intro same) (auto elim!: edit_versionD)
  next
    case (validate_version vid org now r)
    then show ?thesis by (intro same) (auto elim!: validate_versionD)
  next
    case (approve_version vid org approver now r)
    then show ?thesis by (intro same) (auto elim!: approve_versionD)
  next
    case (retire_version vid org now r)
    then show ?thesis by (intro same) (auto elim!: retire_versionD)
  next
    case (edit_binding bid org iid vid envt b)
    then show ?thesis by (intro same) (auto simp: edit_draft_binding_def dest!: binding_returningD)
  next
    case (assurance bid org lvl b)
    then show ?thesis by (intro same) (auto simp: set_enforcement_assurance_def dest!: binding_returningD)
  next
    case (retire_binding bid org now b)
    then show ?thesis by (intro same) (auto simp: retire_binding_def dest!: binding_returningD)
  qed
qed

lemma retire_prior_next:
  assumes "integration_ok C d"
  shows "\<forall>x \<in> set (enforcement_bindings d). \<exists>x' \<in> set (enforcement_bindings (retire_prior d b now d)). binding_next x x'"
proof (cases "find_prior_active d b")
  case None
  then have "retire_prior d b now d = d" by (simp add: retire_prior_def)
  then show ?thesis using binding_next_refl by metis
next
  case (Some p)
  then have p: "p \<in> set (enforcement_bindings d)" "eb_status p = BindActive" using db_find_Some by (fastforce simp: find_prior_active_def)+
  show ?thesis
  proof (cases "eb_id p = eb_id b")
    case True
    with Some have "retire_prior d b now d = d" by (simp add: retire_prior_def)
    then show ?thesis using binding_next_refl by metis
  next
    case False
    have "binding_next p (p\<lparr>eb_status := BindRetired, eb_retired_at := Some now\<rparr>)" by (simp add: binding_next_def p binding_scope_def)
    from binding_update_next [where f = "\<lambda>y. y\<lparr>eb_status := BindRetired, eb_retired_at := Some now\<rparr>", OF assms p(1) refl this] Some False
    show ?thesis by (simp add: retire_prior_def)
  qed
qed

lemma activate_next:
  assumes ok: "integration_ok C d" and "activate_binding_attempt d bid org now d = Inr (Some (d', x))"
  shows "\<forall>y \<in> set (enforcement_bindings d). \<exists>y' \<in> set (enforcement_bindings d'). binding_next y y'"
  using assms(2)
proof (rule activate_attemptD, intro ballI)
  fix b y assume b: "check_activation d bid org = Inr b" and d': "d' = set_active bid now (retire_prior d b now d)"
    and y: "y \<in> set (enforcement_bindings d)"
  let ?f = "\<lambda>y. y\<lparr>eb_status := BindActive, eb_activated_at := Some now\<rparr>"
  note c = check_activationD [OF b]
  have upd: "(if eb_id z = bid then ?f z else z) \<in> set (enforcement_bindings d')" if "z \<in> set (enforcement_bindings (retire_prior d b now d))" for z
    using that unfolding d' set_active_def update_tables set_db_update by blast
  show "\<exists>y' \<in> set (enforcement_bindings d'). binding_next y y'"
  proof (cases "y = b")
    case True
    have "b \<in> set (enforcement_bindings (retire_prior d b now d))" using retire_prior_ok [OF ok] c by blast
    from upd [OF this] c True have "?f b \<in> set (enforcement_bindings d')" by simp
    moreover have "binding_next b (?f b)" using c by (simp add: binding_next_def)
    ultimately show ?thesis using True by blast
  next
    case False
    obtain z where z: "z \<in> set (enforcement_bindings (retire_prior d b now d))" "binding_next y z" using retire_prior_next [OF ok] y by blast
    have "eb_id z \<noteq> bid" using z(2) False unique_binding [OF ok y, of b] c by (auto simp: binding_next_def)
    with upd [OF z(1)] z(2) show ?thesis by auto
  qed
qed

lemma step_bindings:
  assumes "integration_step C d d'" and ok: "integration_ok C d"
  shows "\<forall>b \<in> set (enforcement_bindings d). \<exists>b' \<in> set (enforcement_bindings d'). binding_next b b'"
proof -
  have same: ?thesis if "enforcement_bindings d' = enforcement_bindings d" using that binding_next_refl by metis
  show ?thesis
    using assms(1)
  proof cases
    case identity
    then show ?thesis using identity_step_frame same by blast
  next
    case (create_binding org iid vid envt aids crt bid now x)
    then have "\<exists>u. enforcement_bindings d' = enforcement_bindings d @ u"
      by (auto simp: create_draft_binding_def Let_def dest!: add_rowsD)
    then show ?thesis by (rule same_next) simp
  next
    case (edit_binding bid org iid vid envt x)
    then obtain b f where b: "get_binding d bid org = Inr b" "eb_status b = BindDraft" "d' = update_binding bid f d"
        "\<And>y. eb_id (f y) = eb_id y \<and> eb_status (f y) = eb_status y"
      by (auto simp: edit_draft_binding_def dest!: binding_returningD split: option.splits)
    have "binding_next b (f b)" using b(2,4) by (simp add: binding_next_def)
    with binding_update_next [of C d b bid f] ok get_bindingD [OF b(1)] show ?thesis unfolding b(3) by blast
  next
    case (assurance bid org lvl x)
    then obtain b where b: "get_binding d bid org = Inr b" "d' = update_binding bid (\<lambda>b. b\<lparr>eb_enforcement_assurance := lvl\<rparr>) d"
      by (auto simp: set_enforcement_assurance_def dest!: binding_returningD)
    have "binding_next b (b\<lparr>eb_enforcement_assurance := lvl\<rparr>)" by (simp add: binding_next_def binding_scope_def)
    with binding_update_next [of C d b bid "\<lambda>b. b\<lparr>eb_enforcement_assurance := lvl\<rparr>"] ok get_bindingD [OF b(1)] show ?thesis unfolding b(2) by blast
  next
    case (retire_binding bid org now x)
    let ?f = "\<lambda>b. b\<lparr>eb_status := BindRetired, eb_retired_at := Some now\<rparr>"
    from retire_binding obtain b where b: "get_binding d bid org = Inr b" "eb_status b = BindActive" "d' = update_binding bid ?f d"
      by (auto simp: retire_binding_def dest!: binding_returningD)
    have "binding_next b (?f b)" using b(2) by (simp add: binding_next_def binding_scope_def)
    with binding_update_next [of C d b bid ?f] ok get_bindingD [OF b(1)] show ?thesis unfolding b(3) by blast
  next
    case (activate_binding bid org now x)
    then have "activate_binding_attempt d bid org now d = Inr (Some (d', x))"
      unfolding Enforcement_Binding.activate_binding_def by (auto dest!: activation_attemptsD)
    then show ?thesis by (rule activate_next [OF ok])
  next
    case (integration org lbl crt gid now g)
    then show ?thesis by (intro same) (auto simp: create_integration_def Let_def split: if_splits)
  next
    case (create_version gid org so act res subj amt cur ctx fp crt vid now r)
    then show ?thesis
      by (intro same) (auto simp: create_contract_version_def create_contract_version_attempt_def Let_def dest!: create_version_attemptsD split: if_splits)
  next
    case (edit_version vid org e r)
    then show ?thesis by (intro same) (auto elim!: edit_versionD)
  next
    case (validate_version vid org now r)
    then show ?thesis by (intro same) (auto elim!: validate_versionD)
  next
    case (approve_version vid org approver now r)
    then show ?thesis by (intro same) (auto elim!: approve_versionD)
  next
    case (retire_version vid org now r)
    then show ?thesis by (intro same) (auto elim!: retire_versionD)
  next
    case (add_agent bid org aid mid now b)
    then show ?thesis by (intro same) (simp add: add_agentD)
  next
    case (remove_agent bid org aid b)
    then show ?thesis by (intro same) (simp add: remove_agentD)
  qed
qed

section \<open>Statuses along a run\<close>

definition integration_run :: "crypto \<Rightarrow> db \<Rightarrow> db \<Rightarrow> bool" where
  "integration_run C d d' = (integration_ok C d \<and> integration_step C d d')"

definition contract_status :: "db \<Rightarrow> uuid \<Rightarrow> ContractStatus option" where
  "contract_status d i = map_option cv_status (get_contract_row d i)"

definition binding_status :: "db \<Rightarrow> uuid \<Rightarrow> BindingStatus option" where
  "binding_status d i = map_option eb_status (get_binding_row d i)"

lemma contract_row_iff:
  assumes "integration_ok C d"
  shows "get_contract_row d i = Some r \<longleftrightarrow> r \<in> set (integration_contract_versions d) \<and> cv_id r = i"
  using db_find_unique [OF integration_okD(1) [OF assms], of r] db_find_Some by (fastforce simp: get_contract_row_def)

lemma binding_row_iff:
  assumes "integration_ok C d"
  shows "get_binding_row d i = Some b \<longleftrightarrow> b \<in> set (enforcement_bindings d) \<and> eb_id b = i"
  using db_find_unique [OF integration_okD(2) [OF assms], of b] db_find_Some by (fastforce simp: get_binding_row_def)

interpretation contract_lifecycle: lifecycle contract_status "integration_run C" contract_may for C
proof unfold_locales
  fix d d' i s assume r: "integration_run C d d'" and "contract_status d i = Some s"
  then have ok: "integration_ok C d" "integration_ok C d'" and st: "integration_step C d d'"
    using integration_step_ok by (auto simp: integration_run_def)
  obtain x where x: "x \<in> set (integration_contract_versions d)" "cv_id x = i" "cv_status x = s"
    using \<open>contract_status d i = Some s\<close> contract_row_iff [OF ok(1)] by (auto simp: contract_status_def)
  obtain y where "y \<in> set (integration_contract_versions d')" "contract_next x y" using step_contracts [OF st ok(1)] x(1) by blast
  then show "\<exists>s'. contract_status d' i = Some s' \<and> (s' = s \<or> contract_may s s')"
    using contract_row_iff [OF ok(2), of i y] x by (auto simp: contract_status_def contract_next_def)
qed

interpretation binding_lifecycle: lifecycle binding_status "integration_run C" binding_may for C
proof unfold_locales
  fix d d' i s assume r: "integration_run C d d'" and "binding_status d i = Some s"
  then have ok: "integration_ok C d" "integration_ok C d'" and st: "integration_step C d d'"
    using integration_step_ok by (auto simp: integration_run_def)
  obtain x where x: "x \<in> set (enforcement_bindings d)" "eb_id x = i" "eb_status x = s"
    using \<open>binding_status d i = Some s\<close> binding_row_iff [OF ok(1)] by (auto simp: binding_status_def)
  obtain y where "y \<in> set (enforcement_bindings d')" "binding_next x y" using step_bindings [OF st ok(1)] x(1) by blast
  then show "\<exists>s'. binding_status d' i = Some s' \<and> (s' = s \<or> binding_may s s')"
    using binding_row_iff [OF ok(2), of i y] x by (auto simp: binding_status_def binding_next_def)
qed

lemma run_from_ok: "(integration_step C)\<^sup>*\<^sup>* d d' \<Longrightarrow> integration_ok C d \<Longrightarrow> (integration_run C)\<^sup>*\<^sup>* d d'"
proof (induction rule: rtranclp_induct)
  case (step y z)
  then have "integration_run C y z" using integration_run_ok by (auto simp: integration_run_def)
  with step show ?case by (auto intro: rtranclp.rtrancl_into_rtrancl)
qed simp

lemma run_contract_frozen:
  assumes "(integration_step C)\<^sup>*\<^sup>* d d'" "integration_ok C d" "r \<in> set (integration_contract_versions d)" "cv_status r \<noteq> ConDraft"
  shows "\<exists>r' \<in> set (integration_contract_versions d'). cv_id r' = cv_id r \<and> cv_status r' \<noteq> ConDraft \<and> row_semantics r' = row_semantics r
    \<and> cv_content_hash r' = cv_content_hash r \<and> version_key r' = version_key r"
  using assms
proof (induction rule: rtranclp_induct)
  case (step y z)
  then obtain x where x: "x \<in> set (integration_contract_versions y)" "cv_id x = cv_id r" "cv_status x \<noteq> ConDraft" "row_semantics x = row_semantics r"
      "cv_content_hash x = cv_content_hash r" "version_key x = version_key r" by blast
  have "integration_ok C y" using integration_run_ok step.hyps(1) assms(2) by blast
  with step_contracts [OF step.hyps(2)] x(1) obtain w where w: "w \<in> set (integration_contract_versions z)" "contract_next x w" by blast
  with x have "cv_id w = cv_id r \<and> cv_status w \<noteq> ConDraft \<and> row_semantics w = row_semantics r \<and> cv_content_hash w = cv_content_hash r
      \<and> version_key w = version_key r" by (cases "cv_status x") (auto simp: contract_next_def)
  with w(1) show ?case by blast
qed blast

lemma run_binding_frozen:
  assumes "(integration_step C)\<^sup>*\<^sup>* d d'" "integration_ok C d" "b \<in> set (enforcement_bindings d)" "eb_status b \<noteq> BindDraft"
  shows "\<exists>b' \<in> set (enforcement_bindings d'). eb_id b' = eb_id b \<and> eb_status b' \<noteq> BindDraft \<and> binding_scope b' = binding_scope b
    \<and> eb_organization_id b' = eb_organization_id b \<and> eb_integration_contract_version_id b' = eb_integration_contract_version_id b
    \<and> (\<forall>aid. is_agent_allowed d' (eb_id b) aid = is_agent_allowed d (eb_id b) aid)"
  using assms
proof (induction rule: rtranclp_induct)
  case (step y z)
  then obtain x where x: "x \<in> set (enforcement_bindings y)" "eb_id x = eb_id b" "eb_status x \<noteq> BindDraft" "binding_scope x = binding_scope b"
      "eb_organization_id x = eb_organization_id b" "eb_integration_contract_version_id x = eb_integration_contract_version_id b"
      "\<forall>aid. is_agent_allowed y (eb_id b) aid = is_agent_allowed d (eb_id b) aid" by blast
  have ok: "integration_ok C y" using integration_run_ok step.hyps(1) assms(2) by blast
  from step_bindings [OF step.hyps(2) ok] x(1) obtain w where w: "w \<in> set (enforcement_bindings z)" "binding_next x w" by blast
  with x have "eb_id w = eb_id b \<and> eb_status w \<noteq> BindDraft \<and> binding_scope w = binding_scope b \<and> eb_organization_id w = eb_organization_id b
      \<and> eb_integration_contract_version_id w = eb_integration_contract_version_id b" by (cases "eb_status x") (auto simp: binding_next_def)
  moreover have "\<forall>aid. is_agent_allowed z (eb_id b) aid = is_agent_allowed d (eb_id b) aid"
    using step_agents [OF step.hyps(2) ok x(1,3)] x(2,7) by simp
  ultimately show ?case using w(1) by blast
qed blast

end
