(* ===== verification/Attested_Authority.thy ===== *)
theory Attested_Authority
  imports Trusted_Integration
begin

text \<open>
  What a trusted integration guarantees: the properties of the configuration services along a run
  and under concurrency, and those of the attested submission, with a small configured database for
  the witnesses.
\<close>

section \<open>A configured integration\<close>

definition demo_identity :: IntegrationIdentity where
  "demo_identity = \<lparr>ii_id = ''ii1'', ii_organization_id = ''o1'', ii_name = ''erp'', ii_status = AgActive, ii_created_by = None, ii_created_at = 0\<rparr>"

definition demo_contract :: IntegrationContractVersion where
  "demo_contract = (new_contract_version ''cv1'' ''g1'' ''o1'' ''pay'' 1 ''vendor_payment'' None None None None (JObj []) None None 0)
     \<lparr>cv_status := ConApproved,
      cv_content_hash := Some (compute_content_hash plain_crypto (contract_semantics ''pay'' ''vendor_payment'' None None None None (JObj [])))\<rparr>"

definition demo_binding :: "uuid \<Rightarrow> BindingStatus \<Rightarrow> EnforcementBinding" where
  "demo_binding bid st = \<lparr>eb_id = bid, eb_organization_id = ''o1'', eb_integration_identity_id = ''ii1'',
     eb_integration_contract_version_id = ''cv1'', eb_integration_id = ''g1'', eb_source_operation = ''pay'', eb_environment = ''prod'',
     eb_status = st, eb_created_by = None, eb_created_at = 0, eb_activated_at = None, eb_retired_at = None,
     eb_enforcement_assurance = ''ADVISORY''\<rparr>"

definition trusted_db :: db where
  "trusted_db = allow_db\<lparr>integration_identities := [demo_identity], integration_contract_versions := [demo_contract],
     enforcement_bindings := [demo_binding ''b0'' BindActive, demo_binding ''b1'' BindDraft],
     enforcement_binding_agents := [\<lparr>ba_id = ''m0'', ba_enforcement_binding_id = ''b0'', ba_agent_id = ''a1'', ba_created_at = 0\<rparr>,
       \<lparr>ba_id = ''m1'', ba_enforcement_binding_id = ''b1'', ba_agent_id = ''a1'', ba_created_at = 0\<rparr>]\<rparr>"

lemmas trusted_simps = trusted_db_def demo_identity_def demo_binding_def demo_contract_def new_contract_version_def

lemma trusted_ok: "integration_ok plain_crypto trusted_db"
proof -
  have "frozen_ok plain_crypto demo_contract"
    by (simp add: frozen_ok_def validate_row_def validate_semantic_fields_def demo_contract_def new_contract_version_def row_semantics_def
        is_blank_def is_space_def is_valid_action_def GENERIC_VOCABULARY_def KNOWN_SCOPES_def)
  moreover have "binding_ok trusted_db (demo_binding b st)" for b st by (simp add: binding_ok_def trusted_simps)
  moreover have "versions_unique trusted_db" by (simp add: versions_unique_def trusted_simps)
  moreover have "single_active trusted_db" by (simp add: single_active_def trusted_simps)
  ultimately show ?thesis by (simp add: integration_ok_def trusted_db_def demo_binding_def)
qed

lemma trusted_activation: "check_activation trusted_db ''b1'' ''o1'' = Inr (demo_binding ''b1'' BindDraft)"
  by (simp add: check_activation_def get_binding_def get_integration_identity_def get_contract_version_def list_allowed_agents_def
      allowed_agents_def List.map_filter_def get_agent_row_def trusted_simps allow_db_def demo_agent_def new_agent_def)

section \<open>Activation\<close>

lemma sequential_no_collision:
  assumes ok: "integration_ok C d" and c: "check_activation d bid org = Inr b"
  shows "single_active (set_active bid now (retire_prior d b now d))"
proof -
  let ?d = "retire_prior d b now d" and ?f = "\<lambda>y. y\<lparr>eb_status := BindActive, eb_activated_at := Some now\<rparr>"
  note r = retire_prior_ok [OF ok, of b now] and cb = check_activationD [OF c]
  have b: "b \<in> set (enforcement_bindings ?d)" using r cb by blast
  obtain xs ys where t: "enforcement_bindings ?d = xs @ b # ys"
      "db_update (\<lambda>x. eb_id x = eb_id b) ?f (enforcement_bindings ?d) = xs @ ?f b # ys"
    by (rule db_update_split [OF integration_okD(2) [OF r [THEN conjunct1]] b])
  have none: "binding_scope x \<noteq> binding_scope b" if x: "x \<in> set (enforcement_bindings ?d)" "eb_status x = BindActive" for x
  proof (cases "find_prior_active d b")
    case None
    then have "?d = d" by (simp add: retire_prior_def)
    with x None show ?thesis by (simp add: find_prior_active_def db_find_None_iff)
  next
    case (Some p)
    then have p: "p \<in> set (enforcement_bindings d)" "eb_status p = BindActive" "binding_scope p = binding_scope b"
      using db_find_Some by (fastforce simp: find_prior_active_def)+
    have "eb_id p \<noteq> eb_id b" using unique_binding [OF ok p(1), of b] cb p(2) by auto
    with Some x have "x \<in> set (enforcement_bindings d)" "eb_id x \<noteq> eb_id p"
      by (auto simp: retire_prior_def set_db_update split: if_splits)
    moreover have "inj_on binding_scope {y \<in> set (enforcement_bindings d). eb_status y = BindActive}"
      using integration_okD(4) [OF ok] by (simp add: single_active_def distinct_map)
    ultimately show ?thesis using p x(2) by (metis (mono_tags, lifting) inj_onD mem_Collect_eq)
  qed
  have "distinct (map binding_scope (filter (\<lambda>b. eb_status b = BindActive) (xs @ b # ys)))"
    using integration_okD(4) [OF r [THEN conjunct1]] t(1) by (simp add: single_active_def)
  moreover have "binding_scope (?f b) = binding_scope b" by (simp add: binding_scope_def)
  moreover have "\<forall>x \<in> set xs \<union> set ys. eb_status x = BindActive \<longrightarrow> binding_scope x \<noteq> binding_scope b" using none t(1) by auto
  moreover have "eb_status b \<noteq> BindActive" "eb_id b = bid" using cb by auto
  ultimately show ?thesis
    unfolding single_active_def set_active_def update_tables \<open>eb_id b = bid\<close> [symmetric] t(2) by auto
qed

lemma check_activation_no_conflict: "check_activation seen bid org \<noteq> Inl (ConcurrentActivationConflictError i)"
  by (simp add: check_activation_def rbind_def get_or_raise_def raise_if_def rmap_def get_binding_def get_integration_identity_def
      get_contract_version_def list_allowed_agents_def split: sum.split option.split)

lemma attempt_cases:
  assumes "activation_attempts bid org now vs = res"
  shows "(\<exists>d' b. res = Inr (d', b) \<and> (\<exists>v \<in> set vs. activate_binding_attempt (fst v) bid org now (snd v) = Inr (Some (d', b))))
    \<or> (\<exists>e. res = Inl e \<and> (\<exists>v \<in> set vs. activate_binding_attempt (fst v) bid org now (snd v) = Inl e))
    \<or> (res = Inl (ConcurrentActivationConflictError bid) \<and> (\<forall>v \<in> set vs. activate_binding_attempt (fst v) bid org now (snd v) = Inr None))"
  using assms
proof (induction vs)
  case (Cons v vs)
  obtain seen d where v: "v = (seen, d)" by (cases v)
  show ?case
  proof (cases "activate_binding_attempt seen bid org now d")
    case (Inl e)
    with Cons.prems v show ?thesis by auto
  next
    case (Inr x)
    show ?thesis
    proof (cases x)
      case None
      with Cons.prems v Inr have "activation_attempts bid org now vs = res" by simp
      from Cons.IH [OF this] v Inr None show ?thesis by auto
    next
      case (Some y)
      obtain d' b where "y = (d', b)" by (cases y)
      with Cons.prems v Inr Some show ?thesis by auto
    qed
  qed
qed simp

lemma attempt_no_conflict_error:
  "activate_binding_attempt seen bid org now d \<noteq> Inl (ConcurrentActivationConflictError i)"
  using check_activation_no_conflict [of seen bid org i]
  by (auto simp: activate_binding_attempt_def binding_returning_def get_binding_def get_or_raise_def Let_def rbind_def rmap_def split: sum.splits option.splits)

lemma activation_result:
  assumes "activate_binding bid org now views = Inr (d', b)"
  shows "b \<in> set (enforcement_bindings d')" "eb_id b = bid" "eb_status b = BindActive" "single_active d'"
    "\<exists>k < MAX_ACTIVATION_ATTEMPTS. \<exists>x. check_activation (fst (views k)) bid org = Inr x
           \<and> d' = set_active bid now (retire_prior (fst (views k)) x now (snd (views k)))"
proof -
  from attempt_cases [OF assms [unfolded activate_binding_def]] obtain k where k: "k < MAX_ACTIVATION_ATTEMPTS"
      "activate_binding_attempt (fst (views k)) bid org now (snd (views k)) = Inr (Some (d', b))" by auto
  from k(2) obtain x where x: "check_activation (fst (views k)) bid org = Inr x"
      "d' = set_active bid now (retire_prior (fst (views k)) x now (snd (views k)))" "single_active d'" "get_binding d' bid org = Inr b"
    by (rule activate_attemptD)
  note g = get_bindingD [OF x(4)]
  then show m: "b \<in> set (enforcement_bindings d')" "eb_id b = bid" by simp_all
  let ?f = "\<lambda>y. y\<lparr>eb_status := BindActive, eb_activated_at := Some now\<rparr>"
  obtain z where z: "b = (if eb_id z = bid then ?f z else z)"
    using m(1) unfolding x(2) set_active_def update_tables set_db_update by blast
  show "eb_status b = BindActive"
  proof (cases "eb_id z = bid")
    case True
    with z show ?thesis by simp
  next
    case False
    with z m(2) show ?thesis by simp
  qed
  show "single_active d'" by (rule x(3))
  from k(1) x(1,2) show "\<exists>k < MAX_ACTIVATION_ATTEMPTS. \<exists>x. check_activation (fst (views k)) bid org = Inr x
      \<and> d' = set_active bid now (retire_prior (fst (views k)) x now (snd (views k)))" by blast
qed

lemma activation_conflict:
  assumes "activate_binding bid org now views = Inl (ConcurrentActivationConflictError bid)" "k < MAX_ACTIVATION_ATTEMPTS"
  shows "activate_binding_attempt (fst (views k)) bid org now (snd (views k)) = Inr None"
  using attempt_cases [OF assms(1) [unfolded activate_binding_def]] attempt_no_conflict_error assms(2) by auto

lemma activation_sequential:
  assumes "integration_ok C d" "is_ok (check_activation d bid org)"
  shows "is_ok (activate_binding bid org now (\<lambda>_. (d, d)))"
proof -
  from assms(2) obtain x where x: "check_activation d bid org = Inr x" by (cases "check_activation d bid org") auto
  let ?d = "set_active bid now (retire_prior d x now d)"
  have s: "single_active ?d" using sequential_no_collision [OF assms(1) x] .
  note c = check_activationD [OF x]
  have "x \<in> set (enforcement_bindings (retire_prior d x now d))" using retire_prior_ok [OF assms(1)] c by blast
  then have "x\<lparr>eb_status := BindActive, eb_activated_at := Some now\<rparr> \<in> set (enforcement_bindings ?d)"
    using c by (force simp: set_active_def set_db_update)
  then obtain y where "get_binding ?d bid org = Inr y"
    using db_find_mem [of "x\<lparr>eb_status := BindActive, eb_activated_at := Some now\<rparr>" "enforcement_bindings ?d"
      "\<lambda>b. eb_id b = bid \<and> eb_organization_id b = org"] c by (auto simp: get_binding_def)
  then have "activate_binding_attempt d bid org now d = Inr (Some (?d, y))"
    using x s by (simp add: activate_binding_attempt_def binding_returning_def)
  then show ?thesis by (simp add: activate_binding_def MAX_ACTIVATION_ATTEMPTS_def upt_rec)
qed

lemma trusted_activates: "is_ok (activate_binding ''b1'' ''o1'' 7 (\<lambda>_. (trusted_db, trusted_db)))"
  by (rule activation_sequential [OF trusted_ok]) (simp add: trusted_activation)

text \<open>C38: activation under concurrency. Whatever other transactions commit between what an attempt reads and
  what it commits to, an activation that returns leaves at most one active binding per scope, the
  requested binding is active, and the attempt that succeeded had read every prerequisite (a draft
  binding of an active identity on an approved contract version with allowed agents, all active); a
  conflict is reported only after every attempt was refused by the index; and with nobody else
  writing, an activation whose prerequisites hold always succeeds.\<close>

theorem activation_under_concurrency:
  "(activate_binding bid org now views = Inr (d', b) \<longrightarrow>
      single_active d' \<and> b \<in> set (enforcement_bindings d') \<and> eb_id b = bid \<and> eb_status b = BindActive
      \<and> (\<exists>k < MAX_ACTIVATION_ATTEMPTS. \<exists>x. check_activation (fst (views k)) bid org = Inr x
           \<and> d' = set_active bid now (retire_prior (fst (views k)) x now (snd (views k)))))
   \<and> (activate_binding bid org now views = Inl (ConcurrentActivationConflictError bid) \<longrightarrow>
      (\<forall>k < MAX_ACTIVATION_ATTEMPTS. activate_binding_attempt (fst (views k)) bid org now (snd (views k)) = Inr None))
   \<and> (integration_ok C d \<and> is_ok (check_activation d bid org) \<longrightarrow> is_ok (activate_binding bid org now (\<lambda>_. (d, d))))"
  using activation_result [of bid org now views d' b] activation_conflict [of bid org now views] activation_sequential [of C d bid org now] by blast

theorem activation_under_concurrency_witness:
  "is_ok (activate_binding ''b1'' ''o1'' 7 (\<lambda>_. (trusted_db, trusted_db)))"
  using activation_under_concurrency [THEN conjunct2, THEN conjunct2, THEN mp, of plain_crypto trusted_db "''b1''" "''o1''" 7]
    trusted_ok trusted_activation by simp

section \<open>Configuration along a run\<close>



text \<open>C12: approved configuration does not change. Past draft, a contract version keeps its content, its
  content hash and its number in every later state, and its status only moves on to approved and
  retired; an activated binding keeps its scope, its contract version and its allowed agents, and is
  at most retired. And the content hash identifies the content: two such versions with the same hash
  have the same content up to the order of keys, or exhibit a collision of SHA-256.\<close>

theorem approved_configuration_frozen:
  assumes "(integration_step C)\<^sup>*\<^sup>* d d'" and "integration_ok C d"
  shows "(\<forall>r \<in> set (integration_contract_versions d). cv_status r \<noteq> ConDraft \<longrightarrow>
       (\<exists>r' \<in> set (integration_contract_versions d'). cv_id r' = cv_id r \<and> row_semantics r' = row_semantics r
          \<and> cv_content_hash r' = cv_content_hash r \<and> version_key r' = version_key r \<and> contract_may\<^sup>*\<^sup>* (cv_status r) (cv_status r')))
    \<and> (\<forall>b \<in> set (enforcement_bindings d). eb_status b \<noteq> BindDraft \<longrightarrow>
       (\<exists>b' \<in> set (enforcement_bindings d'). eb_id b' = eb_id b \<and> binding_scope b' = binding_scope b
          \<and> eb_integration_contract_version_id b' = eb_integration_contract_version_id b
          \<and> (\<forall>aid. is_agent_allowed d' (eb_id b) aid = is_agent_allowed d (eb_id b) aid) \<and> binding_may\<^sup>*\<^sup>* (eb_status b) (eb_status b')))
    \<and> (\<forall>r \<in> set (integration_contract_versions d). \<forall>s \<in> set (integration_contract_versions d').
         cv_status r \<noteq> ConDraft \<and> cv_status s \<noteq> ConDraft \<and> cv_content_hash r = cv_content_hash s
         \<and> plain_json (row_semantics r) \<and> plain_json (row_semantics s)
         \<longrightarrow> sort_keys (row_semantics r) = sort_keys (row_semantics s) \<or> sha_collision C (row_semantics r) (row_semantics s))"
proof (intro conjI ballI impI)
  note ok' = integration_run_ok [OF assms] and run = run_from_ok [OF assms]
  {
    fix r assume r: "r \<in> set (integration_contract_versions d)" "cv_status r \<noteq> ConDraft"
    obtain r' where r': "r' \<in> set (integration_contract_versions d')" "cv_id r' = cv_id r" "row_semantics r' = row_semantics r"
        "cv_content_hash r' = cv_content_hash r" "version_key r' = version_key r"
      using run_contract_frozen [OF assms r] by blast
    have "contract_status d (cv_id r) = Some (cv_status r)" "contract_status d' (cv_id r) = Some (cv_status r')"
      using contract_row_iff [OF assms(2), of "cv_id r" r] contract_row_iff [OF ok', of "cv_id r" r'] r r' by (simp_all add: contract_status_def)
    with contract_lifecycle.run_status [OF run] have "contract_may\<^sup>*\<^sup>* (cv_status r) (cv_status r')" by fastforce
    with r' show "\<exists>r' \<in> set (integration_contract_versions d'). cv_id r' = cv_id r \<and> row_semantics r' = row_semantics r
        \<and> cv_content_hash r' = cv_content_hash r \<and> version_key r' = version_key r \<and> contract_may\<^sup>*\<^sup>* (cv_status r) (cv_status r')" by blast
  next
    fix b assume b: "b \<in> set (enforcement_bindings d)" "eb_status b \<noteq> BindDraft"
    obtain b' where b': "b' \<in> set (enforcement_bindings d')" "eb_id b' = eb_id b" "binding_scope b' = binding_scope b"
        "eb_integration_contract_version_id b' = eb_integration_contract_version_id b"
        "\<forall>aid. is_agent_allowed d' (eb_id b) aid = is_agent_allowed d (eb_id b) aid"
      using run_binding_frozen [OF assms b] by blast
    have "binding_status d (eb_id b) = Some (eb_status b)" "binding_status d' (eb_id b) = Some (eb_status b')"
      using binding_row_iff [OF assms(2), of "eb_id b" b] binding_row_iff [OF ok', of "eb_id b" b'] b b' by (simp_all add: binding_status_def)
    with binding_lifecycle.run_status [OF run] have "binding_may\<^sup>*\<^sup>* (eb_status b) (eb_status b')" by fastforce
    with b' show "\<exists>b' \<in> set (enforcement_bindings d'). eb_id b' = eb_id b \<and> binding_scope b' = binding_scope b
          \<and> eb_integration_contract_version_id b' = eb_integration_contract_version_id b
          \<and> (\<forall>aid. is_agent_allowed d' (eb_id b) aid = is_agent_allowed d (eb_id b) aid) \<and> binding_may\<^sup>*\<^sup>* (eb_status b) (eb_status b')" by blast
  next
    fix r s assume rs: "r \<in> set (integration_contract_versions d)" "s \<in> set (integration_contract_versions d')"
      "cv_status r \<noteq> ConDraft \<and> cv_status s \<noteq> ConDraft \<and> cv_content_hash r = cv_content_hash s
         \<and> plain_json (row_semantics r) \<and> plain_json (row_semantics s)"
    then have "compute_content_hash C (row_semantics r) = compute_content_hash C (row_semantics s)"
      using integration_okD(5) [OF assms(2) rs(1)] integration_okD(5) [OF ok' rs(2)] by (simp add: frozen_ok_def)
    then show "sort_keys (row_semantics r) = sort_keys (row_semantics s) \<or> sha_collision C (row_semantics r) (row_semantics s)"
      using rs(3) payload_hash_eqD by (simp add: compute_content_hash_def)
  }
qed

theorem approved_configuration_frozen_witness:
  "\<exists>d. (integration_step plain_crypto)\<^sup>*\<^sup>* trusted_db d
     \<and> (\<exists>b \<in> set (enforcement_bindings d). eb_id b = ''b0'' \<and> binding_scope b = (''ii1'', ''g1'', ''pay'', ''prod'') \<and> binding_may\<^sup>*\<^sup>* BindActive (eb_status b))"
proof -
  obtain d b where a: "activate_binding ''b1'' ''o1'' 7 (\<lambda>_. (trusted_db, trusted_db)) = Inr (d, b)"
    using trusted_activates by (cases "activate_binding ''b1'' ''o1'' 7 (\<lambda>_. (trusted_db, trusted_db))") auto
  then have s: "(integration_step plain_crypto)\<^sup>*\<^sup>* trusted_db d"
    using integration_step.activate_binding [of "''b1''" "''o1''" 7 trusted_db d b plain_crypto] by blast
  have "demo_binding ''b0'' BindActive \<in> set (enforcement_bindings trusted_db)" "eb_status (demo_binding ''b0'' BindActive) \<noteq> BindDraft"
    by (simp_all add: trusted_simps)
  with approved_configuration_frozen [OF s trusted_ok, THEN conjunct2, THEN conjunct1]
  obtain b where "b \<in> set (enforcement_bindings d)" "eb_id b = ''b0''" "binding_scope b = binding_scope (demo_binding ''b0'' BindActive)"
      "binding_may\<^sup>*\<^sup>* (eb_status (demo_binding ''b0'' BindActive)) (eb_status b)" by (fastforce simp: demo_binding_def)
  with s show ?thesis by (auto simp: demo_binding_def binding_scope_def)
qed

end
