(* ===== verification/Binding_Scope.thy ===== *)
theory Binding_Scope
  imports Attested_Authority
begin

text \<open>
  Two limits of the scope of a binding, each shown by a concrete run.

  A binding copies the source operation of its contract version when it is drafted, and nothing
  refreshes the copy when the draft contract is edited afterwards, so the index on active scopes
  compares operations that the contract no longer has. And activation reads the status of the contract
  version without locking it, so a retirement that commits in between goes unnoticed.
\<close>

section \<open>A renamed operation\<close>

definition draft_db :: db where
  "draft_db = trusted_db\<lparr>integration_contract_versions := [demo_contract\<lparr>cv_status := ConDraft, cv_content_hash := None\<rparr>],
     enforcement_bindings := [demo_binding ''b0'' BindDraft],
     enforcement_binding_agents := [\<lparr>ba_id = ''m0'', ba_enforcement_binding_id = ''b0'', ba_agent_id = ''a1'', ba_created_at = 0\<rparr>]\<rparr>"

definition rename_operation :: ContractEdit where
  "rename_operation = \<lparr>ce_source_operation = Some ''payout'', ce_canonical_action = None, ce_resource_path = None, ce_fact_subject_path = None,
     ce_amount_path = None, ce_currency_path = None, ce_context_bindings = None, ce_source_schema_fingerprint = None\<rparr>"

definition renamed :: "ContractStatus \<Rightarrow> string option \<Rightarrow> datetime option \<Rightarrow> string option \<Rightarrow> datetime option \<Rightarrow> IntegrationContractVersion" where
  "renamed st h v who a = (new_contract_version ''cv1'' ''g1'' ''o1'' ''payout'' 1 ''vendor_payment'' None None None None (JObj []) None None 0)
     \<lparr>cv_status := st, cv_content_hash := h, cv_validated_at := v, cv_approved_by := who, cv_approved_at := a\<rparr>"

abbreviation renamed_hash :: "string option" where
  "renamed_hash \<equiv> Some (compute_content_hash plain_crypto (contract_semantics ''payout'' ''vendor_payment'' None None None None (JObj [])))"

lemma renamed_edit:
  "\<exists>r. edit_draft_contract_version ''cv1'' ''o1'' rename_operation draft_db = Inr (draft_db\<lparr>integration_contract_versions := [renamed ConDraft None None None None]\<rparr>, r)"
  by (simp add: edit_draft_contract_version_def get_contract_version_def contract_returning_def update_contract_def draft_db_def trusted_simps
      renamed_def apply_edit_def rename_operation_def or_keep_def validate_row_def validate_semantic_fields_def Let_def
      is_blank_def is_space_def is_valid_action_def GENERIC_VOCABULARY_def KNOWN_SCOPES_def versions_unique_def)

lemma renamed_validate:
  "\<exists>r. validate_contract_version plain_crypto ''cv1'' ''o1'' 1 (draft_db\<lparr>integration_contract_versions := [renamed ConDraft None None None None]\<rparr>)
     = Inr (draft_db\<lparr>integration_contract_versions := [renamed ConValidated renamed_hash (Some 1) None None]\<rparr>, r)"
  by (simp add: validate_contract_version_def get_contract_version_def contract_returning_def update_contract_def draft_db_def trusted_simps
      renamed_def validate_row_def validate_semantic_fields_def row_semantics_def
      is_blank_def is_space_def is_valid_action_def GENERIC_VOCABULARY_def KNOWN_SCOPES_def)

lemma renamed_approve:
  "\<exists>r. approve_contract_version ''cv1'' ''o1'' ''cfo'' 2 (draft_db\<lparr>integration_contract_versions := [renamed ConValidated renamed_hash (Some 1) None None]\<rparr>)
     = Inr (draft_db\<lparr>integration_contract_versions := [renamed ConApproved renamed_hash (Some 1) (Some ''cfo'') (Some 2)]\<rparr>, r)"
  by (simp add: approve_contract_version_def get_contract_version_def contract_returning_def update_contract_def draft_db_def trusted_simps renamed_def)

definition stale_contract :: IntegrationContractVersion where
  "stale_contract = renamed ConApproved renamed_hash (Some 1) (Some ''cfo'') (Some 2)"

definition stale_db :: "EnforcementBinding list \<Rightarrow> EnforcementBindingAgent list \<Rightarrow> db" where
  "stale_db bs ms = draft_db\<lparr>integration_contract_versions := [stale_contract], enforcement_bindings := bs, enforcement_binding_agents := ms\<rparr>"

lemmas activation_defs = activate_binding_def MAX_ACTIVATION_ATTEMPTS_def upt_rec activate_binding_attempt_def check_activation_def
  get_binding_def get_integration_identity_def get_contract_version_def list_allowed_agents_def allowed_agents_def List.map_filter_def
  get_agent_row_def retire_prior_def find_prior_active_def set_active_def update_binding_def binding_returning_def single_active_def binding_scope_def

abbreviation m0 :: EnforcementBindingAgent where "m0 \<equiv> \<lparr>ba_id = ''m0'', ba_enforcement_binding_id = ''b0'', ba_agent_id = ''a1'', ba_created_at = 0\<rparr>"
abbreviation m1 :: EnforcementBindingAgent where "m1 \<equiv> \<lparr>ba_id = ''m1'', ba_enforcement_binding_id = ''b1'', ba_agent_id = ''a1'', ba_created_at = 4\<rparr>"

definition stale_b0 :: EnforcementBinding where
  "stale_b0 = (demo_binding ''b0'' BindActive)\<lparr>eb_activated_at := Some 3\<rparr>"

definition fresh_b1 :: EnforcementBinding where
  "fresh_b1 = (demo_binding ''b1'' BindDraft)\<lparr>eb_source_operation := ''payout'', eb_created_at := 4\<rparr>"

lemma stale_activate: "\<exists>r. activate_binding ''b0'' ''o1'' 3 (\<lambda>_. (stale_db [demo_binding ''b0'' BindDraft] [m0], stale_db [demo_binding ''b0'' BindDraft] [m0]))
    = Inr (stale_db [stale_b0] [m0], r)"
  by (simp add: activation_defs stale_db_def stale_contract_def stale_b0_def draft_db_def trusted_simps renamed_def allow_db_def demo_agent_def new_agent_def Let_def)

lemma fresh_create: "create_draft_binding ''o1'' ''ii1'' ''cv1'' ''prod'' [(''a1'', ''m1'')] None ''b1'' 4 (stale_db [stale_b0] [m0])
    = Inr (stale_db [stale_b0, fresh_b1] [m0, m1], fresh_b1)"
  by (simp add: create_draft_binding_def get_integration_identity_def get_contract_version_def add_allowed_agent_row_def get_agent_row_def get_principal_row_def
      membership_def stale_db_def stale_contract_def stale_b0_def fresh_b1_def draft_db_def trusted_simps renamed_def allow_db_def demo_agent_def demo_principal_def new_agent_def
      is_blank_def is_space_def Let_def)

lemma fresh_activate: "\<exists>r. activate_binding ''b1'' ''o1'' 5 (\<lambda>_. (stale_db [stale_b0, fresh_b1] [m0, m1], stale_db [stale_b0, fresh_b1] [m0, m1]))
    = Inr (stale_db [stale_b0, fresh_b1\<lparr>eb_status := BindActive, eb_activated_at := Some 5\<rparr>] [m0, m1], r)"
  by (simp add: activation_defs stale_db_def stale_contract_def stale_b0_def fresh_b1_def draft_db_def trusted_simps renamed_def allow_db_def demo_agent_def new_agent_def Let_def)

theorem renamed_operation_two_active:
  "integration_ok plain_crypto draft_db \<and> (\<exists>d b b' r. (integration_step plain_crypto)\<^sup>*\<^sup>* draft_db d
     \<and> b \<in> set (enforcement_bindings d) \<and> b' \<in> set (enforcement_bindings d) \<and> b \<noteq> b' \<and> eb_status b = BindActive \<and> eb_status b' = BindActive
     \<and> eb_integration_identity_id b = eb_integration_identity_id b' \<and> eb_environment b = eb_environment b'
     \<and> eb_integration_contract_version_id b = cv_id r \<and> eb_integration_contract_version_id b' = cv_id r
     \<and> r \<in> set (integration_contract_versions d) \<and> eb_source_operation b \<noteq> cv_source_operation r)"
proof
  show "integration_ok plain_crypto draft_db"
    by (simp add: integration_ok_def versions_unique_def single_active_def frozen_ok_def binding_ok_def draft_db_def trusted_simps)
  have "draft_db\<lparr>integration_contract_versions := [stale_contract]\<rparr> = stale_db [demo_binding ''b0'' BindDraft] [m0]"
    by (simp add: stale_db_def draft_db_def)
  then have approved: "draft_db\<lparr>integration_contract_versions := [renamed ConApproved renamed_hash (Some 1) (Some ''cfo'') (Some 2)]\<rparr>
      = stale_db [demo_binding ''b0'' BindDraft] [m0]" by (simp add: stale_contract_def)
  obtain r1 r2 r3 where r: "edit_draft_contract_version ''cv1'' ''o1'' rename_operation draft_db
      = Inr (draft_db\<lparr>integration_contract_versions := [renamed ConDraft None None None None]\<rparr>, r1)"
    "validate_contract_version plain_crypto ''cv1'' ''o1'' 1 (draft_db\<lparr>integration_contract_versions := [renamed ConDraft None None None None]\<rparr>)
      = Inr (draft_db\<lparr>integration_contract_versions := [renamed ConValidated renamed_hash (Some 1) None None]\<rparr>, r2)"
    "approve_contract_version ''cv1'' ''o1'' ''cfo'' 2 (draft_db\<lparr>integration_contract_versions := [renamed ConValidated renamed_hash (Some 1) None None]\<rparr>)
      = Inr (stale_db [demo_binding ''b0'' BindDraft] [m0], r3)"
    using renamed_edit renamed_validate renamed_approve unfolding approved by blast
  have "(integration_step plain_crypto)\<^sup>*\<^sup>* draft_db (stale_db [demo_binding ''b0'' BindDraft] [m0])"
    by (rule rtranclp.rtrancl_into_rtrancl [OF rtranclp.rtrancl_into_rtrancl [OF r_into_rtranclp]])
      (rule integration_step.edit_version [OF r(1)] integration_step.validate_version [OF r(2)] integration_step.approve_version [OF r(3)])+
  moreover have "integration_step plain_crypto (stale_db [demo_binding ''b0'' BindDraft] [m0]) (stale_db [stale_b0] [m0])"
    using stale_activate integration_step.activate_binding by blast
  moreover have "''b1'' \<notin> eb_id ` set (enforcement_bindings (stale_db [stale_b0] [m0]))"
    by (simp add: stale_db_def stale_b0_def demo_binding_def)
  then have "integration_step plain_crypto (stale_db [stale_b0] [m0]) (stale_db [stale_b0, fresh_b1] [m0, m1])"
    by (rule integration_step.create_binding [OF fresh_create])
  moreover have "integration_step plain_crypto (stale_db [stale_b0, fresh_b1] [m0, m1])
      (stale_db [stale_b0, fresh_b1\<lparr>eb_status := BindActive, eb_activated_at := Some 5\<rparr>] [m0, m1])"
    using fresh_activate integration_step.activate_binding by blast
  ultimately have "(integration_step plain_crypto)\<^sup>*\<^sup>* draft_db (stale_db [stale_b0, fresh_b1\<lparr>eb_status := BindActive, eb_activated_at := Some 5\<rparr>] [m0, m1])"
    by (meson rtranclp.rtrancl_into_rtrancl)
  then show "\<exists>d b b' r. (integration_step plain_crypto)\<^sup>*\<^sup>* draft_db d
     \<and> b \<in> set (enforcement_bindings d) \<and> b' \<in> set (enforcement_bindings d) \<and> b \<noteq> b' \<and> eb_status b = BindActive \<and> eb_status b' = BindActive
     \<and> eb_integration_identity_id b = eb_integration_identity_id b' \<and> eb_environment b = eb_environment b'
     \<and> eb_integration_contract_version_id b = cv_id r \<and> eb_integration_contract_version_id b' = cv_id r
     \<and> r \<in> set (integration_contract_versions d) \<and> eb_source_operation b \<noteq> cv_source_operation r"
    by (intro exI [of _ "stale_db [stale_b0, fresh_b1\<lparr>eb_status := BindActive, eb_activated_at := Some 5\<rparr>] [m0, m1]"] exI [of _ stale_b0]
        exI [of _ "fresh_b1\<lparr>eb_status := BindActive, eb_activated_at := Some 5\<rparr>"] exI [of _ stale_contract])
      (simp add: stale_db_def stale_b0_def fresh_b1_def stale_contract_def renamed_def demo_binding_def new_contract_version_def)
qed

section \<open>Activation and retirement interleaved\<close>

theorem activation_misses_retirement:
  "\<exists>d r d' b. retire_contract_version ''cv1'' ''o1'' 3 (stale_db [demo_binding ''b0'' BindDraft] [m0]) = Inr (d, r)
     \<and> activate_binding ''b0'' ''o1'' 3 (\<lambda>_. (stale_db [demo_binding ''b0'' BindDraft] [m0], d)) = Inr (d', b)
     \<and> eb_status b = BindActive \<and> contract_status d' (eb_integration_contract_version_id b) = Some ConRetired"
  by (simp add: retire_contract_version_def has_active_binding_for_contract_version_def contract_returning_def update_contract_def
      contract_status_def get_contract_row_def activation_defs stale_db_def stale_contract_def draft_db_def trusted_simps renamed_def
      allow_db_def demo_agent_def new_agent_def Let_def)

end
