(* ===== verification/Attested_Submission.thy ===== *)
theory Attested_Submission
  imports Attested_Authority
begin

text \<open>
  The properties of \<^verbatim>\<open>integration_runtime_service.submit_attested_intent\<close>: what an accepted
  submission rests on, and that a business operation is decided once.
\<close>

section \<open>Inversion\<close>

lemma check_structural_field_ok [simp]: "check_structural_field nm p v = Inr u \<longleftrightarrow> (p \<noteq> None \<longleftrightarrow> v)"
  by (auto simp: check_structural_field_def)

lemma resolve_active_binding_ok:
  "resolve_active_binding d bid org iid = Inr b \<Longrightarrow>
   get_binding d bid org = Inr b \<and> eb_integration_identity_id b = iid \<and> eb_status b = BindActive"
  by (auto simp: resolve_active_binding_def split: sum.splits if_splits)

lemma resolve_origin_agent_ok:
  "resolve_origin_agent d aid org bid = Inr a \<Longrightarrow> get_agent_row d aid = Some a \<and> ag_status a = AgActive \<and> is_agent_allowed d bid aid
     \<and> Option.bind (get_principal_row d (ag_acting_for_principal_id a)) pr_organization_id = Some org"
  by (auto simp: resolve_origin_agent_def split: option.splits if_splits)

lemma check_context_ok:
  assumes "check_context bs ctx = Inr u"
  shows "set (map fst ctx) = set (case bs of JObj ps \<Rightarrow> map fst ps | _ \<Rightarrow> []) \<and> ''environment'' \<notin> set (map fst ctx)"
proof -
  define s where "s = map fst ctx"
  define t where "t = (case bs of JObj ps \<Rightarrow> map fst ps | _ \<Rightarrow> [])"
  have "\<forall>k \<in> set s. k \<in> set t" "\<forall>k \<in> set t. k \<in> set s" "''environment'' \<notin> set s"
    using assms unfolding check_context_def s_def [symmetric] t_def [symmetric] Let_def
    by (auto simp: RESERVED_CONTEXT_KEYS_def filter_empty_conv split: if_splits)
  then show ?thesis unfolding s_def t_def by blast
qed

lemma check_organization_ok:
  "check_organization d org = Inr u \<Longrightarrow> get_organization_row d org = Some r \<Longrightarrow> org_status r = OrgActive"
  by (auto simp: check_organization_def ensure_active_def split: if_splits)

text \<open>What the checks establish of the identity, the binding, the agent and the contract version they resolve.\<close>

definition trusted_request ::
  "db \<Rightarrow> IntegrationIdentity \<Rightarrow> AttestedRequest \<Rightarrow> EnforcementBinding \<Rightarrow> Agent \<Rightarrow> IntegrationContractVersion \<Rightarrow> bool" where
  "trusted_request d ident r b a cv =
    (ii_status ident = AgActive \<and> (\<forall>o'. get_organization_row d (ii_organization_id ident) = Some o' \<longrightarrow> org_status o' = OrgActive)
    \<and> get_binding d (ar_enforcement_binding_id r) (ii_organization_id ident) = Inr b \<and> eb_integration_identity_id b = ii_id ident
    \<and> eb_status b = BindActive
    \<and> get_agent_row d (ar_origin_agent_id r) = Some a \<and> ag_status a = AgActive \<and> is_agent_allowed d (eb_id b) (ar_origin_agent_id r)
    \<and> Option.bind (get_principal_row d (ag_acting_for_principal_id a)) pr_organization_id = Some (ii_organization_id ident)
    \<and> get_contract_row d (eb_integration_contract_version_id b) = Some cv \<and> cv_organization_id cv = ii_organization_id ident
    \<and> ar_source_operation r = cv_source_operation cv \<and> ar_action r = cv_canonical_action cv
    \<and> (ar_resource r = None \<longleftrightarrow> cv_resource_path cv = None) \<and> (ar_amount r = None \<longleftrightarrow> cv_amount_path cv = None)
    \<and> (ar_currency r = None \<longleftrightarrow> cv_currency_path cv = None) \<and> (ar_counterparty r = None \<longleftrightarrow> cv_fact_subject_path cv = None)
    \<and> set (map fst (ar_context r)) = set (case cv_context_bindings cv of JObj ps \<Rightarrow> map fst ps | _ \<Rightarrow> [])
    \<and> ''environment'' \<notin> set (map fst (ar_context r)))"

lemma check_attestedD:
  assumes "check_attested d ident r = Inr (b, a, cv)"
  shows "trusted_request d ident r b a cv"
proof -
  from assms have c: "ii_status ident = AgActive" "check_organization d (ii_organization_id ident) = Inr ()"
      "resolve_active_binding d (ar_enforcement_binding_id r) (ii_organization_id ident) (ii_id ident) = Inr b"
      "resolve_origin_agent d (ar_origin_agent_id r) (ii_organization_id ident) (eb_id b) = Inr a"
      "get_contract_row d (eb_integration_contract_version_id b) = Some cv" "cv_organization_id cv = ii_organization_id ident"
      "ar_source_operation r = cv_source_operation cv" "ar_action r = cv_canonical_action cv"
      "cv_resource_path cv \<noteq> None \<longleftrightarrow> ar_resource r \<noteq> None" "cv_amount_path cv \<noteq> None \<longleftrightarrow> ar_amount r \<noteq> None"
      "cv_currency_path cv \<noteq> None \<longleftrightarrow> ar_currency r \<noteq> None" "cv_fact_subject_path cv \<noteq> None \<longleftrightarrow> ar_counterparty r \<noteq> None"
      "check_context (cv_context_bindings cv) (ar_context r) = Inr ()"
    by (auto simp: check_attested_def split: option.splits if_splits)
  show ?thesis
    unfolding trusted_request_def
    using c(1,5-12) check_organization_ok [OF c(2)] resolve_active_binding_ok [OF c(3)] resolve_origin_agent_ok [OF c(4)] check_context_ok [OF c(13)]
    by blast
qed

lemma resolve_existing_ok:
  "resolve_existing_or_conflict d x fp ext = Inr (it, de, ev) \<longleftrightarrow>
   x = it \<and> it_canonical_operation_fingerprint it = Some fp \<and> db_find (\<lambda>y. de_intent_id y = it_id it) (decisions d) = Some de
   \<and> ev = get_earliest_evidence_for_decision d (de_id de)"
  by (auto simp: resolve_existing_or_conflict_def load_operation_result_def split: option.splits)

text \<open>An accepted submission either found the operation, before or after a refused insert, or recorded it.\<close>

definition found_operation ::
  "db \<Rightarrow> AttestedRequest \<Rightarrow> EnforcementBinding \<Rightarrow> IntegrationContractVersion \<Rightarrow> string \<Rightarrow> Intent \<Rightarrow> Decision \<Rightarrow> Evidence option \<Rightarrow> bool" where
  "found_operation s r b cv fp it de ev =
     (find_existing_operation s (cv_integration_id cv) (eb_environment b) (ar_external_operation_id r) = Some it
      \<and> it_canonical_operation_fingerprint it = Some fp \<and> db_find (\<lambda>y. de_intent_id y = it_id it) (decisions s) = Some de
      \<and> ev = get_earliest_evidence_for_decision s (de_id de))"

lemma submit_attestedD:
  assumes "submit_attested_intent E ids ident r now seen d = Inr (d', it, de, ev)"
  obtains (found) b a cv fp s where "check_attested seen ident r = Inr (b, a, cv)" "request_fingerprint (env_crypto E) a cv r = Inr fp"
    "s = seen \<or> s = d" "found_operation s r b cv fp it de ev" "d' = d"
  | (new) b a cv fp ver digest stored ctx e where "check_attested seen ident r = Inr (b, a, cv)" "request_fingerprint (env_crypto E) a cv r = Inr fp"
    "find_existing_operation seen (cv_integration_id cv) (eb_environment b) (ar_external_operation_id r) = None"
    "ctx = AList.update ''environment'' (JStr (eb_environment b)) (ar_context r)"
    "it = attested_intent (id_intent ids) ident r b a cv fp ver digest stored ctx now" "\<not> list_ex (intent_collides it) (intents d)"
    "evaluate_and_record E (attested_provenance ident r b cv fp ver digest) ids it a (ar_action r)
       (ar_amount r) (ar_currency r) (ar_counterparty r) (ar_resource r) ctx (ar_requested_at r) now (d\<lparr>intents := intents d @ [it]\<rparr>) = Inr (d', de, e)"
    "ev = Some e"
proof -
  obtain b a cv where c: "check_attested seen ident r = Inr (b, a, cv)"
    using assms unfolding submit_attested_intent_def by (cases "check_attested seen ident r") auto
  obtain fp where fp: "request_fingerprint (env_crypto E) a cv r = Inr fp"
    using assms c unfolding submit_attested_intent_def by (cases "request_fingerprint (env_crypto E) a cv r") auto
  show thesis
  proof (cases "find_existing_operation seen (cv_integration_id cv) (eb_environment b) (ar_external_operation_id r)")
    case (Some x)
    with assms c fp have "resolve_existing_or_conflict seen x fp (ar_external_operation_id r) = Inr (it, de, ev)" "d' = d"
      by (auto simp: submit_attested_intent_def)
    with Some c fp show thesis by (intro found [of b a cv fp seen]) (auto simp: resolve_existing_ok found_operation_def)
  next
    case None
    let ?ctx = "AList.update ''environment'' (JStr (eb_environment b)) (ar_context r)"
    obtain ver digest stored where n: "insert_and_evaluate E ids ident r b a cv fp (attested_provenance ident r b cv fp ver digest) ?ctx
        (attested_intent (id_intent ids) ident r b a cv fp ver digest stored ?ctx now) now d = Inr (d', it, de, ev)"
      using assms c fp None unfolding submit_attested_intent_def by (auto simp: Let_def split: sum.splits)
    let ?it = "attested_intent (id_intent ids) ident r b a cv fp ver digest stored ?ctx now"
    show thesis
    proof (cases "list_ex (intent_collides ?it) (intents d)")
      case True
      with n show thesis using c fp by (intro found [of b a cv fp d]) (auto simp: insert_and_evaluate_def resolve_existing_ok found_operation_def split: option.splits)
    next
      case False
      from n [unfolded insert_and_evaluate_def if_not_P [OF False]] obtain e where e: "evaluate_and_record E (attested_provenance ident r b cv fp ver digest) ids ?it a (ar_action r)
               (ar_amount r) (ar_currency r) (ar_counterparty r) (ar_resource r) ?ctx (ar_requested_at r) now (d\<lparr>intents := intents d @ [?it]\<rparr>) = Inr (d', de, e)"
          "it = ?it" "ev = Some e" by (auto split: sum.splits)
      show thesis by (rule new [OF c fp None refl e(2) _ _ e(3)]) (use False e in simp_all)
    qed
  qed
qed

section \<open>Operations\<close>

definition has_operation :: "Intent \<Rightarrow> bool" where
  "has_operation i = (it_integration_id i \<noteq> None \<and> it_environment i \<noteq> None \<and> it_external_operation_id i \<noteq> None)"

definition operation_key :: "Intent \<Rightarrow> uuid option \<times> string option \<times> string option" where
  "operation_key i = (it_integration_id i, it_environment i, it_external_operation_id i)"

definition operations_unique :: "db \<Rightarrow> bool" where
  "operations_unique d = distinct (map operation_key (filter has_operation (intents d)))"

lemma attested_intent_simps [simp]:
  "it_id (attested_intent i ident r b a cv fp ver dg st ctx now) = i"
  "it_agent_id (attested_intent i ident r b a cv fp ver dg st ctx now) = ag_id a"
  "it_nonce (attested_intent i ident r b a cv fp ver dg st ctx now) = ar_nonce r"
  "it_action (attested_intent i ident r b a cv fp ver dg st ctx now) = ar_action r"
  "it_integration_id (attested_intent i ident r b a cv fp ver dg st ctx now) = Some (cv_integration_id cv)"
  "it_environment (attested_intent i ident r b a cv fp ver dg st ctx now) = Some (eb_environment b)"
  "it_external_operation_id (attested_intent i ident r b a cv fp ver dg st ctx now) = Some (ar_external_operation_id r)"
  "it_canonical_operation_fingerprint (attested_intent i ident r b a cv fp ver dg st ctx now) = Some fp"
  "it_integration_identity_id (attested_intent i ident r b a cv fp ver dg st ctx now) = Some (ii_id ident)"
  "it_enforcement_binding_id (attested_intent i ident r b a cv fp ver dg st ctx now) = Some (eb_id b)"
  "it_integration_contract_version_id (attested_intent i ident r b a cv fp ver dg st ctx now) = Some (cv_id cv)"
  "it_context (attested_intent i ident r b a cv fp ver dg st ctx now) = JObj ctx"
  by (simp_all add: attested_intent_def new_intent_def)

text \<open>What a submission leaves: the operation's intent, its decision and that decision's first Evidence.\<close>

definition operation_result :: "db \<Rightarrow> Intent \<Rightarrow> Decision \<Rightarrow> Evidence option \<Rightarrow> bool" where
  "operation_result d it de ev = (\<exists>gid envt ext. it_integration_id it = Some gid \<and> it_environment it = Some envt \<and> it_external_operation_id it = Some ext
     \<and> find_existing_operation d gid envt ext = Some it
     \<and> db_find (\<lambda>y. de_intent_id y = it_id it) (decisions d) = Some de \<and> ev = get_earliest_evidence_for_decision d (de_id de))"

lemma found_result: "found_operation d r b cv fp it de ev \<Longrightarrow> operation_result d it de ev"
  using db_find_Some by (fastforce simp: found_operation_def operation_result_def find_existing_operation_def)

lemma recorded_result:
  assumes rec: "recorded (d\<lparr>intents := intents d @ [it]\<rparr>) it de e d'"
    and none: "find_existing_operation d gid envt ext = None"
    and key: "it_integration_id it = Some gid" "it_environment it = Some envt" "it_external_operation_id it = Some ext"
    and fresh: "it_id it \<notin> de_intent_id ` set (decisions d)" "de_id de \<notin> ev_decision_id ` set (evidence d)"
  shows "operation_result d' it de (Some e)"
proof -
  have d': "d' = d\<lparr>intents := intents d @ [it], decisions := decisions d @ [de], evidence := evidence d @ [e]\<rparr>"
      "de_intent_id de = it_id it" "ev_decision_id e = de_id de" using rec by (simp_all add: recorded_def)
  have "find_existing_operation d' gid envt ext = Some it"
    using none key d'(1) by (simp add: find_existing_operation_def row_simps)
  moreover have "db_find (\<lambda>y. de_intent_id y = it_id it) (decisions d) = None" using fresh(1) unfolding db_find_None_iff by (metis imageI)
  then have "db_find (\<lambda>y. de_intent_id y = it_id it) (decisions d') = Some de" using d' by (simp add: row_simps)
  moreover have "filter (\<lambda>x. ev_decision_id x = de_id de) (evidence d) = []" unfolding filter_empty_conv using fresh(2) by (metis imageI)
  then have "get_earliest_evidence_for_decision d' (de_id de) = Some e" using d' by (simp add: get_earliest_evidence_for_decision_def)
  ultimately show ?thesis using key by (auto simp: operation_result_def)
qed

lemma submission_result:
  assumes "submit_attested_intent E ids ident r now seen d = Inr (d', it, de, ev)" and "operations_unique d"
    and fresh: "id_intent ids \<notin> de_intent_id ` set (decisions d)" "id_decision ids \<notin> ev_decision_id ` set (evidence d)"
  shows "operations_unique d'
    \<and> (d' = d \<or> (\<exists>e. ev = Some e \<and> recorded (d\<lparr>intents := intents d @ [it]\<rparr>) it de e d'
         \<and> d' = d\<lparr>intents := intents d @ [it], decisions := decisions d @ [de], evidence := evidence d @ [e]\<rparr>))
    \<and> (seen = d \<longrightarrow> operation_result d' it de ev)"
  using assms(1)
proof (cases rule: submit_attestedD)
  case (found b a cv fp s)
  then show ?thesis using assms(2) found_result by blast
next
  case (new b a cv fp ver digest stored ctx e)
  let ?d = "d\<lparr>intents := intents d @ [it]\<rparr>"
  have ia: "it_agent_id it = ag_id a" "it_id it = id_intent ids" using new(5) by simp_all
  from new(7) have rec: "recorded ?d it de e d'" and did: "de_id de = id_decision ids"
    by (auto elim: evaluate_and_recordD [OF _ ia(1)])
  then have d': "d' = d\<lparr>intents := intents d @ [it], decisions := decisions d @ [de], evidence := evidence d @ [e]\<rparr>" by (simp add: recorded_def)
  have "operation_key i \<noteq> operation_key it" if "i \<in> set (intents d)" for i
    using new(5,6) that by (auto simp: list_ex_iff intent_collides_def operation_key_def)
  then have "operation_key it \<notin> operation_key ` {i \<in> set (intents d). has_operation i}" by fastforce
  then have "operations_unique d'" using assms(2) d' by (simp add: operations_unique_def)
  moreover have "operation_result d' it de ev" if "seen = d"
    unfolding new(8) by (rule recorded_result [OF rec new(3) [unfolded that]]) (use new(5) ia did fresh in simp_all)
  ultimately show ?thesis using d' new(8) rec by blast
qed

lemma resubmission:
  assumes "operation_result d it de ev" "check_attested d ident r = Inr (b, a, cv)" "request_fingerprint (env_crypto E) a cv r = Inr fp"
    "Some (cv_integration_id cv) = it_integration_id it" "Some (eb_environment b) = it_environment it"
    "Some (ar_external_operation_id r) = it_external_operation_id it"
  shows "submit_attested_intent E ids ident r now d d = (if it_canonical_operation_fingerprint it = Some fp then Inr (d, it, de, ev)
     else Inl (ExternalOperationConflictError (ar_external_operation_id r)))"
  using assms by (auto simp: submit_attested_intent_def operation_result_def resolve_existing_or_conflict_def load_operation_result_def Let_def)

section \<open>A submission\<close>

definition demo_request :: AttestedRequest where
  "demo_request = \<lparr>ar_enforcement_binding_id = ''b0'', ar_origin_agent_id = ''a1'', ar_source_operation = ''pay'', ar_action = ''vendor_payment'',
     ar_resource = None, ar_amount = None, ar_currency = None, ar_counterparty = None, ar_context = [], ar_requested_at = 0,
     ar_nonce = ''n7'', ar_correlation_id = None, ar_external_operation_id = ''op1''\<rparr>"

lemma demo_rows:
  "ag_id demo_agent = ''a1''" "ag_status demo_agent = AgActive" "intents trusted_db = []" "decisions trusted_db = []" "evidence trusted_db = []"
  by (simp_all add: trusted_db_def allow_db_def keyed_db_def one_agent_db_def empty_db_def demo_agent_def new_agent_def)

lemma demo_checks: "check_attested trusted_db demo_identity demo_request = Inr (demo_binding ''b0'' BindActive, demo_agent, demo_contract)"
  by (simp add: check_attested_def validate_external_operation_id_def is_blank_def is_space_def MAX_EXTERNAL_OPERATION_ID_LENGTH_def demo_request_def
      check_organization_def get_organization_row_def new_organization_def ensure_active_def resolve_active_binding_def get_binding_def
      resolve_origin_agent_def get_agent_row_def get_principal_row_def is_agent_allowed_def membership_def get_contract_row_def
      check_structural_field_def check_context_def RESERVED_CONTEXT_KEYS_def trusted_simps allow_db_def demo_agent_def demo_principal_def new_agent_def)

lemma demo_engine:
  "\<exists>ed. run_engine demo_env (trusted_db\<lparr>intents := [i]\<rparr>) demo_agent ''vendor_payment'' None None None None [(''environment'', JStr ''prod'')] 0 0 = Inr ed
     \<and> ed_outcome ed = OutAllow \<and> ed_evaluated_mandates ed = []"
  by (simp add: run_engine_def engine_input_def Let_def evaluate_def get_active_def resolve_def demo_env_def opa_query_def trusted_db_def
      allow_db_def demo_principal_def get_principal_row_def demo_agent_def new_agent_def decide_def py_get_or_def py_get_def is_True_def pinned_def)

lemma demo_attested:
  "\<exists>d' it de ev. submit_attested_intent demo_env demo_ids demo_identity demo_request 0 trusted_db trusted_db = Inr (d', it, de, ev)
     \<and> de_outcome de = OutAllow \<and> d' \<noteq> trusted_db \<and> it_integration_id it = Some ''g1'' \<and> it_environment it = Some ''prod''
     \<and> it_external_operation_id it = Some ''op1''
     \<and> (\<exists>fp. request_fingerprint (env_crypto demo_env) demo_agent demo_contract demo_request = Inr fp \<and> it_canonical_operation_fingerprint it = Some fp)"
proof -
  let ?b = "demo_binding ''b0'' BindActive" and ?ctx = "[(''environment'', JStr ''prod'')]"
  have e: "eb_environment ?b = ''prod''" "cv_integration_id demo_contract = ''g1''" "cv_content_hash demo_contract \<noteq> None"
      "ar_context demo_request = []" "ar_external_operation_id demo_request = ''op1''" "ar_amount demo_request = None" "ar_requested_at demo_request = 0"
      "ar_action demo_request = ''vendor_payment''" "ar_resource demo_request = None" "ar_currency demo_request = None" "ar_counterparty demo_request = None"
    by (simp_all add: demo_binding_def demo_contract_def new_contract_version_def demo_request_def)
  obtain fp where fp: "request_fingerprint (env_crypto demo_env) demo_agent demo_contract demo_request = Inr fp"
    by (simp add: request_fingerprint_def compute_canonical_operation_fingerprint_def normalize_amount_def e)
  obtain h where h: "cv_content_hash demo_contract = Some h" "\<not> is_blank h"
    by (simp add: demo_contract_def compute_content_hash_def payload_hash_def hexlify_def plain_crypto_def canonicalize_def dumps_def
        contract_semantics_def is_blank_def is_space_def hex_char_def)
  obtain ca where ca: "build_canonical_action (ii_organization_id demo_identity) (ag_id demo_agent) (ar_action demo_request) (ii_id demo_identity)
      (cv_id demo_contract) (cv_content_hash demo_contract) (eb_environment ?b) (ar_external_operation_id demo_request) (ar_requested_at demo_request)
      CANONICAL_ACTION_SCHEMA_VERSION None (ar_resource demo_request) (ar_amount demo_request) (ar_currency demo_request) None None = Inr ca" "ca_amount ca = None"
    using h by (simp add: build_canonical_action_def SUPPORTED_SCHEMA_VERSIONS_def CANONICAL_ACTION_SCHEMA_VERSION_def e is_blank_def is_space_def)
  obtain dg where dg: "canonical_digest (env_crypto demo_env) ca = Inr dg"
    using ca(2) by (simp add: canonical_digest_def material_fields_def normalize_amount_def)
  let ?it = "attested_intent (id_intent demo_ids) demo_identity demo_request ?b demo_agent demo_contract fp (ca_schema_version ca) dg None ?ctx 0"
  let ?d = "trusted_db\<lparr>intents := [?it]\<rparr>" and ?prov = "attested_provenance demo_identity demo_request ?b demo_contract fp (ca_schema_version ca) dg"
  obtain ed where ed: "run_engine demo_env ?d demo_agent ''vendor_payment'' None None None None ?ctx 0 0 = Inr ed"
      "ed_outcome ed = OutAllow" "ed_evaluated_mandates ed = []" using demo_engine by blast
  have fv: "final_verdict ?d ed 0 = (OutAllow, ed_reason ed)"
    using ed by (simp add: final_verdict_def find_expired_high_risk_authority_def matched_records_def List.map_filter_def)
  have "\<exists>d' de ev. evaluate_and_record demo_env ?prov demo_ids ?it demo_agent ''vendor_payment'' None None None None ?ctx 0 0 ?d = Inr (d', de, ev)
      \<and> de_outcome de = OutAllow"
    by (rule evaluate_and_record_returns [OF ed(1) fv]) (simp add: demo_env_def demo_appends)
  then obtain d' de ev where er: "evaluate_and_record demo_env ?prov demo_ids ?it demo_agent ''vendor_payment'' None None None None ?ctx 0 0 ?d = Inr (d', de, ev)"
      "de_outcome de = OutAllow" by blast
  then have "decisions d' \<noteq> []" by (auto elim!: evaluate_and_recordD simp: recorded_def)
  then have ne: "d' \<noteq> trusted_db" using demo_rows by auto
  have "submit_attested_intent demo_env demo_ids demo_identity demo_request 0 trusted_db trusted_db = Inr (d', ?it, de, Some ev)"
    unfolding submit_attested_intent_def demo_checks rbind_simps prod.case Let_def fp sum.case
    using er(1) by (simp add: e fp find_existing_operation_def demo_rows ca [unfolded e demo_rows(1)] dg insert_and_evaluate_def)
  with er(2) ne fp show ?thesis by (simp add: e)
qed

section \<open>Claims\<close>



text \<open>C10: a business operation is decided once. A submission either changes nothing and returns an operation already
  recorded, or appends one intent, one decision and one Evidence record; no two intents ever have the
  same integration, environment and external operation, whatever was committed between its reads and
  its insert. And once an operation is recorded, resubmitting it (by any adapter or agent that passes
  the checks) evaluates nothing and changes nothing: the same decision and Evidence come back if the
  fingerprint is the same, a conflict is raised if it differs.\<close>

theorem operation_decided_once:
  assumes "submit_attested_intent E ids ident r now seen d = Inr (d', it, de, ev)" and "operations_unique d"
    and "id_intent ids \<notin> de_intent_id ` set (decisions d)" and "id_decision ids \<notin> ev_decision_id ` set (evidence d)"
  shows "operations_unique d'
    \<and> (d' = d \<or> (\<exists>e. ev = Some e \<and> d' = d\<lparr>intents := intents d @ [it], decisions := decisions d @ [de], evidence := evidence d @ [e]\<rparr>))
    \<and> (seen = d \<longrightarrow> (\<forall>E' ids' ident' r' now' b a cv fp. check_attested d' ident' r' = Inr (b, a, cv)
         \<and> request_fingerprint (env_crypto E') a cv r' = Inr fp \<and> Some (cv_integration_id cv) = it_integration_id it
         \<and> Some (eb_environment b) = it_environment it \<and> Some (ar_external_operation_id r') = it_external_operation_id it
       \<longrightarrow> submit_attested_intent E' ids' ident' r' now' d' d' =
             (if it_canonical_operation_fingerprint it = Some fp then Inr (d', it, de, ev)
              else Inl (ExternalOperationConflictError (ar_external_operation_id r')))))"
  using submission_result [OF assms] resubmission [of d' it de ev] by blast

lemma check_frames:
  "check_organization (d\<lparr>intents := x, decisions := y, evidence := z\<rparr>) = check_organization d"
  "resolve_active_binding (d\<lparr>intents := x, decisions := y, evidence := z\<rparr>) = resolve_active_binding d"
  "resolve_origin_agent (d\<lparr>intents := x, decisions := y, evidence := z\<rparr>) = resolve_origin_agent d"
  "get_contract_row (d\<lparr>intents := x, decisions := y, evidence := z\<rparr>) = get_contract_row d"
  by (simp_all add: fun_eq_iff check_organization_def get_organization_row_def resolve_active_binding_def get_binding_def resolve_origin_agent_def
      get_agent_row_def get_principal_row_def is_agent_allowed_def membership_def get_contract_row_def split: option.split)

lemma check_attested_frame:
  "check_attested (d\<lparr>intents := x, decisions := y, evidence := z\<rparr>) ident r = check_attested d ident r"
  unfolding check_attested_def check_frames by (rule refl)

theorem operation_decided_once_witness:
  "\<exists>d' it de ev. submit_attested_intent demo_env demo_ids demo_identity demo_request 0 trusted_db trusted_db = Inr (d', it, de, ev)
     \<and> d' \<noteq> trusted_db \<and> operations_unique d'
     \<and> submit_attested_intent demo_env demo_ids demo_identity demo_request 9 d' d' = Inr (d', it, de, ev)"
proof -
  obtain d' it de ev fp where s: "submit_attested_intent demo_env demo_ids demo_identity demo_request 0 trusted_db trusted_db = Inr (d', it, de, ev)"
      "d' \<noteq> trusted_db" "it_integration_id it = Some ''g1''" "it_environment it = Some ''prod''" "it_external_operation_id it = Some ''op1''"
      "request_fingerprint (env_crypto demo_env) demo_agent demo_contract demo_request = Inr fp" "it_canonical_operation_fingerprint it = Some fp"
    using demo_attested by blast
  have u: "operations_unique trusted_db" by (simp add: operations_unique_def demo_rows)
  have f: "id_intent demo_ids \<notin> de_intent_id ` set (decisions trusted_db)" "id_decision demo_ids \<notin> ev_decision_id ` set (evidence trusted_db)"
    by (simp_all add: demo_rows)
  have k: "Some (cv_integration_id demo_contract) = it_integration_id it" "Some (eb_environment (demo_binding ''b0'' BindActive)) = it_environment it"
      "Some (ar_external_operation_id demo_request) = it_external_operation_id it"
    using s by (simp_all add: demo_binding_def demo_contract_def new_contract_version_def demo_request_def)
  note o = operation_decided_once [OF s(1) u f]
  obtain x y z where "d' = trusted_db\<lparr>intents := x, decisions := y, evidence := z\<rparr>" using o s(2) by blast
  then have "check_attested d' demo_identity demo_request = Inr (demo_binding ''b0'' BindActive, demo_agent, demo_contract)"
    using demo_checks by (simp add: check_attested_frame)
  with o s(6,7) k have "submit_attested_intent demo_env demo_ids demo_identity demo_request 9 d' d' = Inr (d', it, de, ev)" by simp
  with s(1,2) o show ?thesis by blast
qed

section \<open>A nonce used by the agent\<close>

text \<open>The unique constraint on agent and nonce holds for both paths, so a nonce that the agent used itself makes an
  adapter's first submission with it a replay of the adapter.\<close>

theorem agent_nonce_is_adapter_replay:
  assumes "check_attested d ident r = Inr (b, a, cv)" and "request_fingerprint (env_crypto E) a cv r = Inr fp"
    and "find_existing_operation d (cv_integration_id cv) (eb_environment b) (ar_external_operation_id r) = None"
    and "i \<in> set (intents d)" "it_agent_id i = ag_id a" "it_nonce i = ar_nonce r"
  shows "\<not> is_ok (submit_attested_intent E ids ident r now d d)"
proof
  assume "is_ok (submit_attested_intent E ids ident r now d d)"
  then obtain d' it de ev where s: "submit_attested_intent E ids ident r now d d = Inr (d', it, de, ev)"
    by (cases "submit_attested_intent E ids ident r now d d") auto
  then show False
  proof (cases rule: submit_attestedD)
    case (found b' a' cv' fp' s)
    with assms(1,3) show False by (auto simp: found_operation_def)
  next
    case (new b' a' cv' fp' ver digest stored ctx e)
    with assms(1,4-6) show False by (auto simp: list_ex_iff intent_collides_def)
  qed
qed

end
