(* ===== verification/Policy_Store.thy ===== *)
theory Policy_Store
  imports Policy_Lookup
begin

text \<open>
  The write side of \<^verbatim>\<open>server/app/services/runtime_policy_service.py\<close>: drafts, review, compilation
  and deployment of stored policies, with \<^verbatim>\<open>runtime_policy_lifecycle_events.py\<close>.

  Deployment writes two stores: the database and OPA, which keeps one module per policy id
  (\<open>opa_store\<close>). A deployment can fail between them, so its result is an outcome together with both
  stores after the call. \<open>OpaCall\<close> says what becomes of one call to OPA: done, answered with an error
  and not carried out, or carried out with the answer lost. An attempt reads the state \<open>seen\<close> and
  commits to the state \<open>d\<close>, which a concurrent transaction may have changed in between.

  \<open>ActiveSetNotCompilable\<close> is the \<open>CompilationRequiredError\<close> that reconciliation raises, \<open>PolicyIntegrityError\<close>
  a unique index refusing a commit, \<open>OpaFailure\<close> an exception of the HTTP client and \<open>CommitFailed\<close> any
  other failure of a commit.
\<close>

datatype PolicyError =
    RuntimePolicyNotFoundError string
  | PolicyInvalidTransitionError string string
  | CompilationRequiredError string
  | ActiveSetNotCompilable "uuid option"
  | BundleChangedSinceCompileError "string option" string
  | UnexpectedActiveWriterError uuid string
  | ConcurrentDeploymentConflictError uuid
  | PolicyLimitExceededError string int
  | RejectionReasonRequired
  | PolicyIntegrityError
  | PolicyPython py_error
  | PackageRetargetError
  | OpaFailure
  | CommitFailed

definition policy_lift :: "py_error + 'a \<Rightarrow> PolicyError + 'a" where
  "policy_lift x = (case x of Inl e \<Rightarrow> Inl (PolicyPython e) | Inr y \<Rightarrow> Inr y)"

lemma policy_lift_simps [simp]: "policy_lift (Inl e) = Inl (PolicyPython e)" "policy_lift (Inr y) = Inr y"
  by (simp_all add: policy_lift_def)

lemma policy_lift_Inr_iff [simp]: "policy_lift x = Inr y \<longleftrightarrow> x = Inr y"
  by (simp add: policy_lift_def split: sum.split)

section \<open>Lifecycle events\<close>

definition record_lifecycle_event ::
  "crypto \<Rightarrow> uuid \<Rightarrow> uuid \<Rightarrow> int \<Rightarrow> string \<Rightarrow> string option \<Rightarrow> string option \<Rightarrow> json \<Rightarrow> uuid option \<Rightarrow> datetime \<Rightarrow> db \<Rightarrow> db" where
  "record_lifecycle_event C eid key ver event_type actor reason payload org now d =
     (let event_payload = py_or payload (JObj []);
          event_hash = payload_hash C (JObj [(''policy_key'', JStr key), (''version'', JInt ver), (''event_type'', JStr event_type),
            (''actor'', opt_str actor), (''reason'', opt_str reason), (''payload'', event_payload), (''occurred_at'', JStr (isoformat now))])
      in d\<lparr>runtime_policy_lifecycle_events := runtime_policy_lifecycle_events d @
           [\<lparr>le_id = eid, le_policy_key = key, le_version = ver, le_event_type = event_type, le_actor = actor, le_reason = reason,
             le_payload = event_payload, le_event_hash = event_hash, le_occurred_at = now, le_organization_id = org\<rparr>]\<rparr>)"

section \<open>Versions\<close>

definition get_latest :: "db \<Rightarrow> uuid \<Rightarrow> uuid option \<Rightarrow> PolicyError + RuntimePolicyRecord" where
  "get_latest d key org = get_or_raise (latest_version_row d key org) (RuntimePolicyNotFoundError key)"

definition list_versions :: "db \<Rightarrow> uuid \<Rightarrow> uuid option \<Rightarrow> PolicyError + RuntimePolicyRecord list" where
  "list_versions d key org =
     (let rows = sort_key (\<lambda>r. - rr_version r) (filter (\<lambda>r. rr_policy_key r = key \<and> rr_organization_id r = org) (runtime_policy_records d))
      in if rows = [] then Inl (RuntimePolicyNotFoundError key) else Inr rows)"

definition get_version :: "db \<Rightarrow> uuid \<Rightarrow> int \<Rightarrow> uuid option \<Rightarrow> PolicyError + RuntimePolicyRecord" where
  "get_version d key ver org = get_or_raise
     (db_find (\<lambda>r. rr_policy_key r = key \<and> rr_version r = ver \<and> rr_organization_id r = org) (runtime_policy_records d))
     (RuntimePolicyNotFoundError (key @ '' v'' @ show_int ver))"

definition row_to_policy :: "RuntimePolicyRecord \<Rightarrow> PolicyError + RuntimePolicy" where
  "row_to_policy r = policy_lift (from_dict (rr_content r))"

definition list_policies_compiled_from_approval :: "db \<Rightarrow> uuid \<Rightarrow> RuntimePolicyRecord list" where
  "list_policies_compiled_from_approval d aid =
     sort_key rr_created_at (filter (\<lambda>r. rr_source_graph_approval_id r = Some aid) (runtime_policy_records d))"

definition list_policies_for_principal :: "db \<Rightarrow> uuid option \<Rightarrow> string \<Rightarrow> uuid option \<Rightarrow> RuntimePolicyRecord list" where
  "list_policies_for_principal d org name aid = filter (\<lambda>r.
     sub_get (rr_content r) ''scope'' ''principal'' = JStr name
     \<and> (aid = None \<or> sub_get (rr_content r) ''scope'' ''agent'' \<in> {JNull, opt_str aid})) (list_latest_policies d org None)"

definition freshness_summary_for_matched_policies :: "db \<Rightarrow> string list \<Rightarrow> RuntimePolicyRecord option" where
  "freshness_summary_for_matched_policies d keys = (case matched_records d keys of [] \<Rightarrow> None | r # _ \<Rightarrow> Some r)"

definition update_record :: "uuid \<Rightarrow> (RuntimePolicyRecord \<Rightarrow> RuntimePolicyRecord) \<Rightarrow> db \<Rightarrow> db" where
  "update_record rid f d = d\<lparr>runtime_policy_records := db_update (\<lambda>r. rr_id r = rid) f (runtime_policy_records d)\<rparr>"

definition get_record_row :: "db \<Rightarrow> uuid \<Rightarrow> RuntimePolicyRecord option" where
  "get_record_row d rid = db_find (\<lambda>r. rr_id r = rid) (runtime_policy_records d)"

definition record_returning :: "uuid \<Rightarrow> db \<Rightarrow> PolicyError + db \<times> RuntimePolicyRecord" where
  "record_returning rid d = get_or_raise (map_option (Pair d) (get_record_row d rid)) CommitFailed"

text \<open>The unique index on key and version.\<close>

definition record_keys_unique :: "db \<Rightarrow> bool" where
  "record_keys_unique d = distinct (map (\<lambda>r. (rr_policy_key r, rr_version r)) (runtime_policy_records d))"

definition new_policy_record :: "uuid \<Rightarrow> uuid \<Rightarrow> int \<Rightarrow> json \<Rightarrow> uuid option \<Rightarrow> uuid option \<Rightarrow> datetime \<Rightarrow> RuntimePolicyRecord" where
  "new_policy_record rid key ver content org approval now = \<lparr>rr_id = rid, rr_policy_key = key, rr_version = ver, rr_status = DRAFT,
     rr_content = content, rr_bundle_id = None, rr_bundle_hash = None, rr_created_at = now, rr_activated_by = None,
     rr_activated_at = None, rr_activation_reason = None, rr_effective_from = None, rr_effective_until = None,
     rr_deprecated_at = None, rr_deprecation_reason = None, rr_rollback_of_version = None, rr_organization_id = org,
     rr_last_attested_at = None, rr_next_review_at = None, rr_review_cadence_days = None, rr_authority_expires_at = None,
     rr_source_graph_approval_id = approval\<rparr>"

section \<open>Drafts and review\<close>

definition MAX_POLICIES_PER_SANDBOX :: int where "MAX_POLICIES_PER_SANDBOX = 10"

definition organization_policy_keys :: "db \<Rightarrow> uuid option \<Rightarrow> uuid list" where
  "organization_policy_keys d org = remdups (map rr_policy_key (filter (\<lambda>r. rr_organization_id r = org) (runtime_policy_records d)))"

definition insert_record :: "RuntimePolicyRecord \<Rightarrow> db \<Rightarrow> PolicyError + db" where
  "insert_record r d = (let d' = d\<lparr>runtime_policy_records := runtime_policy_records d @ [r]\<rparr>
     in if record_keys_unique d' then Inr d' else Inl PolicyIntegrityError)"

text \<open>\<open>fresh\<close> is the key \<^verbatim>\<open>uuid4()\<close> would give, \<open>rid\<close> and \<open>eid\<close> those of the row and of its event.\<close>

definition create_policy ::
  "crypto \<Rightarrow> RuntimePolicy \<Rightarrow> uuid option \<Rightarrow> uuid option \<Rightarrow> uuid \<Rightarrow> uuid \<Rightarrow> uuid \<Rightarrow> datetime \<Rightarrow> db \<Rightarrow> PolicyError + db \<times> RuntimePolicyRecord" where
  "create_policy C policy org approval fresh rid eid now d =
     rbind (raise_if (is_sandbox_organization d org \<and> int (length (organization_policy_keys d org)) \<ge> MAX_POLICIES_PER_SANDBOX)
              (PolicyLimitExceededError ''policies'' MAX_POLICIES_PER_SANDBOX)) (\<lambda>_.
       let key = (case parse_uuid (rp_id policy) of Some k \<Rightarrow> k | None \<Rightarrow> fresh);
           r = new_policy_record rid key 1 (to_dict policy) org approval now
       in rmap (\<lambda>d'. (record_lifecycle_event C eid key 1 ''created'' (created_by (metadata policy)) None JNull None now d', r)) (insert_record r d))"

definition edit_policy ::
  "crypto \<Rightarrow> uuid \<Rightarrow> uuid option \<Rightarrow> RuntimePolicy \<Rightarrow> uuid \<Rightarrow> uuid \<Rightarrow> datetime \<Rightarrow> db \<Rightarrow> PolicyError + db \<times> RuntimePolicyRecord" where
  "edit_policy C key org updated rid eid now d =
     rbind (get_latest d key org) (\<lambda>latest.
     rbind (raise_if (rr_status latest = ARCHIVED) (PolicyInvalidTransitionError (PolicyStatus_value (rr_status latest)) ''edit'')) (\<lambda>_.
       let ver = rr_version latest + 1; r = new_policy_record rid key ver (to_dict updated) (rr_organization_id latest) None now
       in rmap (\<lambda>d'. (record_lifecycle_event C eid key ver ''edited'' (created_by (metadata updated)) None JNull None now d', r)) (insert_record r d)))"

text \<open>A transition of the newest version: the guard on its status, the change, the event.\<close>

definition transition ::
  "uuid \<Rightarrow> uuid option \<Rightarrow> (PolicyStatus \<Rightarrow> bool) \<Rightarrow> string \<Rightarrow> (RuntimePolicyRecord \<Rightarrow> RuntimePolicyRecord) \<Rightarrow> (RuntimePolicyRecord \<Rightarrow> db \<Rightarrow> db)
     \<Rightarrow> db \<Rightarrow> PolicyError + db \<times> RuntimePolicyRecord" where
  "transition key org allowed what f event d =
     rbind (get_latest d key org) (\<lambda>r.
     rbind (raise_if (\<not> allowed (rr_status r)) (PolicyInvalidTransitionError (PolicyStatus_value (rr_status r)) what)) (\<lambda>_.
       record_returning (rr_id r) (event r (update_record (rr_id r) f d))))"

definition submit_for_review :: "crypto \<Rightarrow> uuid \<Rightarrow> uuid option \<Rightarrow> uuid \<Rightarrow> datetime \<Rightarrow> db \<Rightarrow> PolicyError + db \<times> RuntimePolicyRecord" where
  "submit_for_review C key org eid now =
     transition key org (\<lambda>s. s = DRAFT) ''submit for review'' (\<lambda>r. r\<lparr>rr_status := PENDING_REVIEW\<rparr>)
       (\<lambda>r. record_lifecycle_event C eid key (rr_version r) ''submitted'' None None JNull None now)"

text \<open>\<^verbatim>\<open>dict(content)\<close> with entries of one of its objects assigned.\<close>

definition object_of :: "json \<Rightarrow> string \<Rightarrow> (string \<times> json) list" where
  "object_of content k = (case obj_get content k of Some (JObj ps) \<Rightarrow> ps | _ \<Rightarrow> [])"

definition set_object :: "string \<Rightarrow> (string \<times> json) list \<Rightarrow> json \<Rightarrow> json" where
  "set_object k ps content = (case content of JObj qs \<Rightarrow> JObj (AList.update k (JObj ps) qs) | j \<Rightarrow> j)"

definition with_audit :: "(string \<times> json) list \<Rightarrow> json \<Rightarrow> json" where
  "with_audit kvs content = set_object ''audit'' (fold (\<lambda>(k, v). AList.update k v) kvs (object_of content ''audit'')) content"

definition approve ::
  "crypto \<Rightarrow> uuid \<Rightarrow> uuid option \<Rightarrow> string \<Rightarrow> uuid option \<Rightarrow> uuid \<Rightarrow> datetime \<Rightarrow> db \<Rightarrow> PolicyError + db \<times> RuntimePolicyRecord" where
  "approve C key org approver approver_user eid now =
     transition key org (\<lambda>s. s = PENDING_REVIEW) ''approve''
       (\<lambda>r. r\<lparr>rr_content := with_audit [(''approved'', JStr (isoformat now)), (''approved_by'', JStr approver),
              (''approved_by_user_id'', opt_str approver_user)] (rr_content r), rr_status := APPROVED\<rparr>)
       (\<lambda>r. record_lifecycle_event C eid key (rr_version r) ''approved'' (Some approver) None JNull None now)"

definition reject ::
  "crypto \<Rightarrow> uuid \<Rightarrow> uuid option \<Rightarrow> string \<Rightarrow> string \<Rightarrow> uuid option \<Rightarrow> uuid \<Rightarrow> datetime \<Rightarrow> db \<Rightarrow> PolicyError + db \<times> RuntimePolicyRecord" where
  "reject C key org reviewer reason reviewer_user eid now d =
     rbind (get_latest d key org) (\<lambda>r.
     rbind (raise_if (rr_status r \<noteq> PENDING_REVIEW) (PolicyInvalidTransitionError (PolicyStatus_value (rr_status r)) ''reject'')) (\<lambda>_.
     rbind (raise_if (is_blank reason) RejectionReasonRequired) (\<lambda>_.
       transition key org (\<lambda>s. s = PENDING_REVIEW) ''reject''
         (\<lambda>r. r\<lparr>rr_content := with_audit [(''rejected'', JStr (isoformat now)), (''rejected_by'', JStr reviewer),
                (''rejected_by_user_id'', opt_str reviewer_user), (''rejection_reason'', JStr reason)] (rr_content r), rr_status := REJECTED\<rparr>)
         (\<lambda>r. record_lifecycle_event C eid key (rr_version r) ''rejected'' (Some reviewer) (Some reason) JNull None now) d)))"

section \<open>Compilation\<close>

definition bundle_id_for :: "uuid \<Rightarrow> int \<Rightarrow> string" where
  "bundle_id_for key ver = ''bundle_'' @ uuid_hex key @ ''_'' @ show_int ver"

definition active_rows :: "db \<Rightarrow> uuid option \<Rightarrow> RuntimePolicyRecord list" where
  "active_rows d org = sort_key rr_policy_key (filter (\<lambda>r. rr_status r = ACTIVE \<and> rr_organization_id r = org) (runtime_policy_records d))"

definition other_active_policies :: "db \<Rightarrow> uuid \<Rightarrow> uuid option \<Rightarrow> PolicyError + RuntimePolicy list" where
  "other_active_policies d key org = rmapM row_to_policy (filter (\<lambda>r. rr_policy_key r \<noteq> key) (active_rows d org))"

definition compile_with_active ::
  "crypto \<Rightarrow> set_order \<Rightarrow> uuid option \<Rightarrow> RuntimePolicyRecord \<Rightarrow> datetime \<Rightarrow> db \<Rightarrow> PolicyError + CompileResult" where
  "compile_with_active C ord org r now d =
     rbind (row_to_policy r) (\<lambda>this.
     rbind (other_active_policies d (rr_policy_key r) org) (\<lambda>others.
       policy_lift (compile_bundle C ord GENERIC_VOCABULARY (this # others) (bundle_id_for (rr_policy_key r) (rr_version r)) (rr_version r) now)))"

record CompileOutcome =
  co_record :: RuntimePolicyRecord
  co_diagnostics :: "CompilerError list"
  co_bundle_id :: "string option"
  co_bundle_hash :: "string option"

definition co_ok :: "CompileOutcome \<Rightarrow> bool" where
  "co_ok x = (co_diagnostics x = [])"

definition compile_policy ::
  "crypto \<Rightarrow> set_order \<Rightarrow> uuid \<Rightarrow> uuid option \<Rightarrow> uuid \<Rightarrow> datetime \<Rightarrow> db \<Rightarrow> PolicyError + db \<times> CompileOutcome" where
  "compile_policy C ord key org eid now d =
     rbind (get_latest d key org) (\<lambda>r.
     rbind (raise_if (rr_status r \<noteq> APPROVED) (PolicyInvalidTransitionError (PolicyStatus_value (rr_status r)) ''compile'')) (\<lambda>_.
     rbind (compile_with_active C ord org r now d) (\<lambda>result.
       case (if compile_ok result then cr_bundle result else None) of
         None \<Rightarrow> Inr (d, \<lparr>co_record = r, co_diagnostics = diagnostics result, co_bundle_id = None, co_bundle_hash = None\<rparr>)
       | Some b \<Rightarrow>
           let d' = update_record (rr_id r) (\<lambda>r. r\<lparr>rr_status := COMPILED, rr_bundle_id := Some (bundle_id b), rr_bundle_hash := Some (bundle_hash b)\<rparr>) d
           in rmap (\<lambda>(d'', r'). (d'', \<lparr>co_record = r', co_diagnostics = [], co_bundle_id = rr_bundle_id r', co_bundle_hash = rr_bundle_hash r'\<rparr>))
                (record_returning (rr_id r) (record_lifecycle_event C eid key (rr_version r) ''compiled'' None None
                   (JObj [(''bundle_hash'', JStr (bundle_hash b))]) None now d')))))"

section \<open>OPA\<close>

type_synonym opa_store = "string \<rightharpoonup> string"

datatype OpaCall = OpaDone | OpaRefused | OpaAnswerLost

definition opa_put :: "OpaCall \<Rightarrow> string \<Rightarrow> string option \<Rightarrow> opa_store \<Rightarrow> (PolicyError + unit) \<times> opa_store" where
  "opa_put call pid m opa = (if call = OpaDone then Inr () else Inl OpaFailure, if call = OpaRefused then opa else opa(pid := m))"

definition opa_package_and_policy_id :: "uuid option \<Rightarrow> string \<times> string" where
  "opa_package_and_policy_id org = (case org of None \<Rightarrow> (''payreality.authorization'', ''authorization'')
     | Some i \<Rightarrow> (org_package_path i, org_policy_id i))"

definition organization_rego :: "uuid option \<Rightarrow> string \<Rightarrow> PolicyError + string" where
  "organization_rego org rego = (case org of None \<Rightarrow> Inr rego
     | Some i \<Rightarrow> get_or_raise (retarget_package rego (fst (opa_package_and_policy_id org))) PackageRetargetError)"

text \<open>What reconciliation pushes for an organization: nothing, or the module of its active policies.\<close>

definition reconciled_module :: "crypto \<Rightarrow> set_order \<Rightarrow> uuid option \<Rightarrow> string \<Rightarrow> datetime \<Rightarrow> db \<Rightarrow> PolicyError + string option" where
  "reconciled_module C ord org bid now d =
     (if active_rows d org = [] then Inr None else
      rbind (rmapM row_to_policy (active_rows d org)) (\<lambda>ps.
      rbind (policy_lift (compile_bundle C ord GENERIC_VOCABULARY ps bid 1 now)) (\<lambda>result.
        case (if compile_ok result then cr_bundle result else None) of
          None \<Rightarrow> Inl (ActiveSetNotCompilable org)
        | Some b \<Rightarrow> rmap Some (organization_rego org (rego_source b)))))"

definition reconcile_organization_opa_state ::
  "crypto \<Rightarrow> set_order \<Rightarrow> uuid option \<Rightarrow> OpaCall \<Rightarrow> datetime \<Rightarrow> db \<Rightarrow> opa_store \<Rightarrow> (PolicyError + unit) \<times> opa_store" where
  "reconcile_organization_opa_state C ord org call now d opa =
     (case reconciled_module C ord org ''reconcile'' now d of
        Inl e \<Rightarrow> (Inl e, opa)
      | Inr m \<Rightarrow> opa_put call (snd (opa_package_and_policy_id org)) m opa)"

text \<open>At startup: every organization with an active policy, in the order \<open>orgs\<close> of the query.\<close>

fun reconcile_each ::
  "crypto \<Rightarrow> set_order \<Rightarrow> (uuid option \<Rightarrow> OpaCall) \<Rightarrow> datetime \<Rightarrow> db \<Rightarrow> uuid option list \<Rightarrow> opa_store \<Rightarrow> (PolicyError + bool) \<times> opa_store" where
  "reconcile_each C ord calls now d [] opa = (Inr True, opa)"
| "reconcile_each C ord calls now d (org # orgs) opa =
     (case reconciled_module C ord org ''startup-reconcile'' now d of
        Inl e \<Rightarrow> (Inl e, opa)
      | Inr None \<Rightarrow> reconcile_each C ord calls now d orgs opa
      | Inr (Some m) \<Rightarrow> (case opa_put (calls org) (snd (opa_package_and_policy_id org)) (Some m) opa of
          (Inl e, opa') \<Rightarrow> (Inl e, opa')
        | (Inr _, opa') \<Rightarrow> reconcile_each C ord calls now d orgs opa'))"

definition reconcile_opa_with_active_policies ::
  "crypto \<Rightarrow> set_order \<Rightarrow> (uuid option \<Rightarrow> OpaCall) \<Rightarrow> datetime \<Rightarrow> db \<Rightarrow> opa_store \<Rightarrow> (PolicyError + bool) \<times> opa_store" where
  "reconcile_opa_with_active_policies C ord calls now d opa =
     (let orgs = remdups (map rr_organization_id (filter (\<lambda>r. rr_status r = ACTIVE) (runtime_policy_records d)))
      in if orgs = [] then (Inr False, opa) else reconcile_each C ord calls now d orgs opa)"

section \<open>Deployment\<close>

definition EXPECTED_BUNDLE_URI_PREFIX :: string where "EXPECTED_BUNDLE_URI_PREFIX = ''runtime_policy_studio:''"

definition is_unexpected_active_writer :: "Policy option \<Rightarrow> bool" where
  "is_unexpected_active_writer prior = (case prior of None \<Rightarrow> False | Some p \<Rightarrow> \<not> startswith (po_bundle_uri p) EXPECTED_BUNDLE_URI_PREFIX)"

definition DEFAULT_MANDATE_VALIDITY :: datetime where "DEFAULT_MANDATE_VALIDITY = 365 * 100 * us_per_day"

definition get_authority_row :: "db \<Rightarrow> uuid \<Rightarrow> Authority option" where
  "get_authority_row d i = db_find (\<lambda>r. au_id r = i) (authorities d)"

definition ensure_mandate :: "(string \<times> json) list \<Rightarrow> uuid \<Rightarrow> uuid \<Rightarrow> datetime \<Rightarrow> db \<Rightarrow> PolicyError + db \<times> (string \<times> json) list" where
  "ensure_mandate cons policy_row_id mid now d =
     (let get = (\<lambda>k. case map_of cons k of None \<Rightarrow> JNull | Some v \<Rightarrow> v) in
      if \<not> truthy (get ''authority_id'') \<or> truthy (get ''mandate_id'') then Inr (d, cons) else
      rbind (policy_lift (as_str (get ''authority_id''))) (\<lambda>aid.
      rbind (get_or_raise (parse_uuid aid) (PolicyPython ValueError)) (\<lambda>aid.
      case get_authority_row d aid of
        None \<Rightarrow> Inr (d, cons)
      | Some a \<Rightarrow>
          rbind (if truthy (get ''expires'') then policy_lift (rmap (\<lambda>t. case t of None \<Rightarrow> now | Some t \<Rightarrow> t) (dt_from_str (get ''expires'')))
                 else Inr (now + DEFAULT_MANDATE_VALIDITY)) (\<lambda>valid_to.
            Inr (d\<lparr>mandates := mandates d @ [\<lparr>ma_id = mid, ma_policy_id = policy_row_id, ma_authority_id = au_id a,
                     ma_principal_id = au_principal_id a, ma_scope = au_scope a, ma_max_amount = au_limit_amount a,
                     ma_currency = au_currency a, ma_review_threshold = None, ma_valid_from = now, ma_valid_to = valid_to\<rparr>]\<rparr>,
                 AList.update ''mandate_id'' (JStr mid) cons)))))"

definition MAX_DEPLOY_ATTEMPTS :: nat where "MAX_DEPLOY_ATTEMPTS = 3"

record DeployOutcome =
  do_policy_row_id :: uuid
  do_bundle_id :: string
  do_bundle_hash :: string
  do_deployed_at :: datetime
  do_authority_id :: json
  do_mandate_id :: json

text \<open>The unique index on \<open>Policy.version\<close> and the one on active policies per organization.\<close>

definition policy_rows_unique :: "db \<Rightarrow> bool" where
  "policy_rows_unique d = (distinct (map po_version (policies d))
     \<and> distinct (map po_organization_id (filter (\<lambda>p. po_status p = PolActive) (policies d))))"

definition prior_active_policy :: "db \<Rightarrow> uuid option \<Rightarrow> Policy option" where
  "prior_active_policy d org = db_find (\<lambda>p. po_status p = PolActive \<and> po_organization_id p = org) (policies d)"

definition next_policy_version :: "db \<Rightarrow> int" where
  "next_policy_version d = (case policies d of [] \<Rightarrow> 0 | p # ps \<Rightarrow> fold max (map po_version ps) (po_version p)) + 1"

definition new_policy_row :: "uuid \<Rightarrow> int \<Rightarrow> RuntimePolicyRecord \<Rightarrow> uuid option \<Rightarrow> PolicyBundle \<Rightarrow> datetime \<Rightarrow> Policy" where
  "new_policy_row pid ver r org b now = \<lparr>po_id = pid, po_version = ver, po_status = PolActive, po_bundle_hash = bundle_hash b,
     po_bundle_uri = EXPECTED_BUNDLE_URI_PREFIX @ rr_policy_key r @ '':'' @ show_int (rr_version r), po_compiled_at = Some now,
     po_activated_at = Some now, po_retired_at = None, po_bundle_manifest = Some (manifest b), po_organization_id = org\<rparr>"

text \<open>The checks of an attempt, on what it reads.\<close>

definition check_deployment ::
  "crypto \<Rightarrow> set_order \<Rightarrow> uuid \<Rightarrow> uuid option \<Rightarrow> datetime \<Rightarrow> db \<Rightarrow> PolicyError + RuntimePolicyRecord \<times> PolicyBundle" where
  "check_deployment C ord key org now d =
     rbind (get_latest d key org) (\<lambda>r.
     rbind (raise_if (rr_status r \<noteq> COMPILED) (PolicyInvalidTransitionError (PolicyStatus_value (rr_status r)) ''deploy'')) (\<lambda>_.
     rbind (compile_with_active C ord org r now d) (\<lambda>result.
     rbind (get_or_raise (if compile_ok result then cr_bundle result else None)
              (CompilationRequiredError (key @ '' failed to recompile at deploy time''))) (\<lambda>b.
     rbind (raise_if (Some (bundle_hash b) \<noteq> rr_bundle_hash r) (BundleChangedSinceCompileError (rr_bundle_hash r) (bundle_hash b))) (\<lambda>_.
     rbind (case prior_active_policy d org of
              Some p \<Rightarrow> raise_if (is_unexpected_active_writer (Some p)) (UnexpectedActiveWriterError (po_id p) (po_bundle_uri p))
            | None \<Rightarrow> Inr ()) (\<lambda>_.
       Inr (r, b)))))))"

text \<open>The flush that reserves the version and the active slot.\<close>

definition reserve_policy_row :: "db \<Rightarrow> uuid \<Rightarrow> RuntimePolicyRecord \<Rightarrow> uuid option \<Rightarrow> PolicyBundle \<Rightarrow> datetime \<Rightarrow> db \<Rightarrow> PolicyError + db" where
  "reserve_policy_row seen pid r org b now d =
     (let d1 = (case prior_active_policy seen org of None \<Rightarrow> d
              | Some p \<Rightarrow> d\<lparr>policies := db_update (\<lambda>x. po_id x = po_id p) (\<lambda>x. x\<lparr>po_status := PolRetired, po_retired_at := Some now\<rparr>) (policies d)\<rparr>);
          d2 = d1\<lparr>policies := policies d1 @ [new_policy_row pid (next_policy_version seen) r org b now]\<rparr>
      in if policy_rows_unique d2 then Inr d2 else Inl PolicyIntegrityError)"

text \<open>The writes after the push: the version of the key that was active is retired, this one becomes active.\<close>

definition activate_record ::
  "uuid \<Rightarrow> uuid option \<Rightarrow> uuid \<Rightarrow> uuid \<Rightarrow> datetime \<Rightarrow> RuntimePolicyRecord \<Rightarrow> db \<Rightarrow> PolicyError + db \<times> (string \<times> json) list" where
  "activate_record key org pid mid now r d =
     (let prior = db_find (\<lambda>x. rr_policy_key x = key \<and> rr_status x = ACTIVE \<and> rr_organization_id x = org) (runtime_policy_records d);
          d1 = (case prior of Some x \<Rightarrow> if rr_id x \<noteq> rr_id r then update_record (rr_id x) (\<lambda>x. x\<lparr>rr_status := RETIRED\<rparr>) d else d | None \<Rightarrow> d)
      in rmap (\<lambda>(d2, cons). (update_record (rr_id r) (\<lambda>x. x\<lparr>
             rr_content := with_audit [(''deployed'', JStr (isoformat now))] (set_object ''constraints'' cons (rr_content r)),
             rr_status := ACTIVE\<rparr>) d2, cons))
           (ensure_mandate (object_of (rr_content r) ''constraints'') pid mid now d1))"

text \<open>What may go wrong outside of the database's indexes during one attempt.\<close>

record Weather =
  w_upload :: OpaCall
  w_commit :: bool
  w_reconcile :: OpaCall

definition roll_back ::
  "crypto \<Rightarrow> set_order \<Rightarrow> uuid option \<Rightarrow> Weather \<Rightarrow> datetime \<Rightarrow> db \<Rightarrow> opa_store \<Rightarrow> PolicyError \<Rightarrow> (PolicyError + 'a) \<times> db \<times> opa_store" where
  "roll_back C ord org w now d opa e = (case reconcile_organization_opa_state C ord org (w_reconcile w) now d opa of
     (Inl e', opa') \<Rightarrow> (Inl e', d, opa') | (Inr _, opa') \<Rightarrow> (Inl e, d, opa'))"

definition deploy_policy_attempt ::
  "crypto \<Rightarrow> set_order \<Rightarrow> uuid \<Rightarrow> uuid option \<Rightarrow> uuid \<Rightarrow> uuid \<Rightarrow> datetime \<Rightarrow> Weather \<Rightarrow> db \<Rightarrow> db \<Rightarrow> opa_store
     \<Rightarrow> (PolicyError + DeployOutcome) \<times> db \<times> opa_store" where
  "deploy_policy_attempt C ord key org pid mid now w seen d opa =
     (case check_deployment C ord key org now seen of
        Inl e \<Rightarrow> (Inl e, d, opa)
      | Inr (r, b) \<Rightarrow> (case reserve_policy_row seen pid r org b now d of
          Inl e \<Rightarrow> (Inl e, d, opa)
        | Inr d1 \<Rightarrow> (case organization_rego org (rego_source b) of
            Inl e \<Rightarrow> roll_back C ord org w now d opa e
          | Inr rego \<Rightarrow> (case opa_put (w_upload w) (snd (opa_package_and_policy_id org)) (Some rego) opa of
              (Inl e, opa1) \<Rightarrow> roll_back C ord org w now d opa1 e
            | (Inr _, opa1) \<Rightarrow> (case activate_record key org pid mid now r d1 of
                Inl e \<Rightarrow> roll_back C ord org w now d opa1 e
              | Inr (d2, cons) \<Rightarrow>
                  if \<not> w_commit w then roll_back C ord org w now d opa1 CommitFailed
                  else (Inr \<lparr>do_policy_row_id = pid, do_bundle_id = bundle_id b, do_bundle_hash = bundle_hash b, do_deployed_at = now,
                          do_authority_id = (case map_of cons ''authority_id'' of None \<Rightarrow> JNull | Some v \<Rightarrow> v),
                          do_mandate_id = (case map_of cons ''mandate_id'' of None \<Rightarrow> JNull | Some v \<Rightarrow> v)\<rparr>, d2, opa1))))))"

text \<open>\<open>views\<close> lists what the attempts read and what they commit to; without concurrency all are the current state.\<close>

fun deploy_attempts ::
  "crypto \<Rightarrow> set_order \<Rightarrow> uuid \<Rightarrow> uuid option \<Rightarrow> uuid \<Rightarrow> uuid \<Rightarrow> datetime \<Rightarrow> Weather \<Rightarrow> (db \<times> db \<times> opa_store) list \<Rightarrow> db \<Rightarrow> opa_store
     \<Rightarrow> (PolicyError + DeployOutcome) \<times> db \<times> opa_store" where
  "deploy_attempts C ord key org pid mid now w [] d opa =
     roll_back C ord org w now d opa (ConcurrentDeploymentConflictError key)"
| "deploy_attempts C ord key org pid mid now w ((seen, d, opa) # views) d' opa' =
     (case deploy_policy_attempt C ord key org pid mid now w seen d opa of
        (Inl PolicyIntegrityError, d1, opa1) \<Rightarrow> deploy_attempts C ord key org pid mid now w views d1 opa1
      | x \<Rightarrow> x)"

definition deploy_policy ::
  "crypto \<Rightarrow> set_order \<Rightarrow> uuid \<Rightarrow> uuid option \<Rightarrow> uuid \<Rightarrow> uuid \<Rightarrow> datetime \<Rightarrow> Weather \<Rightarrow> (nat \<Rightarrow> db \<times> db \<times> opa_store) \<Rightarrow> db \<Rightarrow> opa_store
     \<Rightarrow> (PolicyError + DeployOutcome) \<times> db \<times> opa_store" where
  "deploy_policy C ord key org pid mid now w views = deploy_attempts C ord key org pid mid now w (map views [0..<MAX_DEPLOY_ATTEMPTS])"

end
