(* ===== verification/Policy_Safety.thy ===== *)
theory Policy_Safety
  imports Policy_Store
begin

text \<open>
  \<^verbatim>\<open>server/app/services/runtime_policy_safety_checks.py\<close>: the checks a policy must pass before it is
  activated, and \<open>detect_circular_delegations\<close> of \<^verbatim>\<open>ai_authority_builder_service.py\<close>, the cycle search
  they reuse.

  The search follows every path from every source of an edge. \<open>ord\<close> is the order in which Python
  iterates over a set of names. It ends because a node is expanded only while it is not on the path.
\<close>

section \<open>Text\<close>

definition py_lower :: "string \<Rightarrow> string" where
  "py_lower = map lower_char"

definition py_strip :: "string \<Rightarrow> string" where
  "py_strip s = rev (dropWhile is_space (rev (dropWhile is_space s)))"

text \<open>\<^verbatim>\<open>ILIKE\<close>: a percent sign matches any text, an underscore any character, a backslash escapes
  (PostgreSQL refuses a pattern that ends in one; here it matches nothing).\<close>

fun like :: "string \<Rightarrow> string \<Rightarrow> bool" where
  "like [] s = (s = [])"
| "like (p # ps) s =
     (if p = CHR ''%'' then (case s of [] \<Rightarrow> like ps [] | c # cs \<Rightarrow> like ps s \<or> like (p # ps) cs)
      else case s of [] \<Rightarrow> False
        | c # cs \<Rightarrow> if p = CHR ''_'' then like ps cs
            else if p = char_of (92 :: nat) then (case ps of [] \<Rightarrow> False | q # qs \<Rightarrow> q = c \<and> like qs cs)
            else p = c \<and> like ps cs)"

definition ilike :: "string \<Rightarrow> string \<Rightarrow> bool" where
  "ilike s pattern = like (py_lower pattern) (py_lower s)"

section \<open>Circular delegations\<close>

record CandidateRelationship =
  cr_kind :: string
  cr_from_principal :: string
  cr_to_principal :: string

type_synonym graph = "(string \<times> string list) list"

definition name_key :: "string \<Rightarrow> string" where
  "name_key s = py_lower (py_strip s)"

fun add_edge :: "CandidateRelationship \<Rightarrow> graph \<Rightarrow> graph" where
  "add_edge r g = (if cr_kind r \<noteq> ''delegation'' then g else
     AList.map_default (name_key (cr_from_principal r)) [name_key (cr_to_principal r)]
       (\<lambda>ns. if name_key (cr_to_principal r) \<in> set ns then ns else ns @ [name_key (cr_to_principal r)]) g)"

definition delegation_edges :: "CandidateRelationship list \<Rightarrow> graph" where
  "delegation_edges rels = fold add_edge rels []"

definition neighbours :: "set_order \<Rightarrow> graph \<Rightarrow> string \<Rightarrow> string list" where
  "neighbours ord g node = (case map_of g node of None \<Rightarrow> [] | Some ns \<Rightarrow> ord ns)"

definition report_cycle :: "string list \<Rightarrow> string list list \<Rightarrow> string list list" where
  "report_cycle cycle found = (if list_ex (\<lambda>c. set c = set cycle) found then found else found @ [cycle])"

function (sequential) dfs :: "set_order \<Rightarrow> graph \<Rightarrow> string \<Rightarrow> string list \<Rightarrow> string list \<Rightarrow> string list list \<Rightarrow> string list list"
  and dfs_each :: "set_order \<Rightarrow> graph \<Rightarrow> string list \<Rightarrow> string list \<Rightarrow> string list \<Rightarrow> string list list \<Rightarrow> string list list" where
  "dfs ord g node path visiting found =
     (if node \<in> set visiting then report_cycle (dropWhile (\<lambda>x. x \<noteq> node) path) found
      else dfs_each ord g (neighbours ord g node) path (node # visiting) found)"
| "dfs_each ord g [] path visiting found = found"
| "dfs_each ord g (n # ns) path visiting found = dfs_each ord g ns path visiting (dfs ord g n (path @ [n]) visiting found)"
  by pat_completeness auto

termination
proof (relation "measures [\<lambda>x. case x of Inl (ord, g, node, path, visiting, found) \<Rightarrow> card (set (map fst g) - set visiting)
      | Inr (ord, g, ns, path, visiting, found) \<Rightarrow> card (set (map fst g) - set visiting),
    \<lambda>x. case x of Inl _ \<Rightarrow> 1 | Inr (ord, g, ns, path, visiting, found) \<Rightarrow> 2 * length ns]", goal_cases)
  case (2 ord g node path visiting found)
  show ?case
  proof (cases "node \<in> set (map fst g)")
    case True
    have "set (map fst g) - set (node # visiting) \<subset> set (map fst g) - set visiting" using True 2 by auto
    then have "card (set (map fst g) - set (node # visiting)) < card (set (map fst g) - set visiting)"
      by (intro psubset_card_mono) simp_all
    then show ?thesis by simp
  next
    case False
    then have "neighbours ord g node = []" by (simp add: neighbours_def map_of_eq_None_iff [THEN iffD2])
    moreover have "set (map fst g) - set (node # visiting) = set (map fst g) - set visiting" using False by auto
    ultimately show ?thesis by simp
  qed
qed simp_all

declare dfs.simps [simp del]

record CandidateConflict =
  cc_description :: string
  cc_conflict_type :: string

definition detect_cycles :: "set_order \<Rightarrow> graph \<Rightarrow> string list list" where
  "detect_cycles ord g = fold (\<lambda>start. dfs ord g start [start] []) (map fst g) []"

definition detect_circular_delegations :: "set_order \<Rightarrow> CandidateRelationship list \<Rightarrow> CandidateConflict list" where
  "detect_circular_delegations ord rels = map (\<lambda>cycle. \<lparr>cc_description = ''Circular delegation detected: '' @ join '' -> '' cycle @ ''.'',
     cc_conflict_type = ''circular_delegation''\<rparr>) (detect_cycles ord (delegation_edges rels))"

section \<open>The checks\<close>

record SafetyViolation =
  sv_check :: string
  sv_message :: string
  sv_details :: json

definition condition_signature :: "RuntimePolicy \<Rightarrow> (string \<times> string \<times> string) list" where
  "condition_signature p = sort (map (\<lambda>c. (field c, Operator_value (operator c), py_repr (cvalue c))) (all_of (conditions p)))"

definition authority_signature :: "RuntimePolicy \<Rightarrow> string \<times> string \<times> string option \<times> string option \<times> string \<times> (string \<times> string \<times> string) list" where
  "authority_signature p = (principal (scope p), action (scope p), agent (scope p), resource (scope p), Effect_value (effect p), condition_signature p)"

definition check_duplicate_authority :: "RuntimePolicy \<Rightarrow> (uuid \<times> RuntimePolicy) list \<Rightarrow> SafetyViolation list" where
  "check_duplicate_authority candidate others =
     map (\<lambda>(key, _). \<lparr>sv_check = ''duplicate_authority'',
         sv_message = ''An identical authority (same principal, action, resource, effect, and conditions) is already active under a different policy (''
           @ key @ '').'',
         sv_details = JObj [(''conflicting_policy_key'', JStr key)]\<rparr>)
       (filter (\<lambda>(_, p). authority_signature p = authority_signature candidate) others)"

definition known_principal_names :: "RuntimePolicy list \<Rightarrow> string list" where
  "known_principal_names ps = map (\<lambda>p. name_key (principal (scope p))) (filter (\<lambda>p. principal (scope p) \<noteq> []) ps)"

definition own_principal :: "db \<Rightarrow> uuid option \<Rightarrow> uuid \<Rightarrow> bool" where
  "own_principal d org i = (case get_principal_row d i of None \<Rightarrow> False | Some p \<Rightarrow> pr_organization_id p = org)"

definition check_broken_inheritance :: "db \<Rightarrow> RuntimePolicy \<Rightarrow> RuntimePolicy list \<Rightarrow> uuid option \<Rightarrow> SafetyViolation list" where
  "check_broken_inheritance d candidate ps org =
     (case delegated_by (constraints candidate) of None \<Rightarrow> [] | Some by \<Rightarrow>
        if by = [] \<or> name_key by \<in> set (known_principal_names ps)
          \<or> (case parse_uuid by of Some i \<Rightarrow> own_principal d org i
             | None \<Rightarrow> db_find (\<lambda>p. ilike (pr_name p) (py_strip by) \<and> pr_organization_id p = org) (principals d) \<noteq> None)
        then []
        else [\<lparr>sv_check = ''broken_inheritance'',
               sv_message = ''This policy delegates from '' @ sq @ by @ sq @ '', which is not scoped by any other active policy and does not ''
                 @ ''resolve to a known Principal in this organization -- the delegation chain would be broken if this policy activates.'',
               sv_details = JObj [(''delegated_by'', JStr by)]\<rparr>])"

definition check_missing_principal :: "db \<Rightarrow> RuntimePolicy \<Rightarrow> uuid option \<Rightarrow> SafetyViolation list" where
  "check_missing_principal d candidate org =
     (let prin = principal (scope candidate) in
      case parse_uuid prin of None \<Rightarrow> []
      | Some i \<Rightarrow> if own_principal d org i then [] else
          [\<lparr>sv_check = ''missing_principal'',
            sv_message = ''scope.principal '' @ sq @ prin @ sq @ '' does not resolve to any existing Principal in this organization.'',
            sv_details = JObj [(''principal'', JStr prin)]\<rparr>])"

definition policy_delegation :: "RuntimePolicy \<Rightarrow> CandidateRelationship list" where
  "policy_delegation p = (case delegated_by (constraints p) of None \<Rightarrow> [] | Some by \<Rightarrow>
     if by = [] \<or> principal (scope p) = [] then []
     else [\<lparr>cr_kind = ''delegation'', cr_from_principal = by, cr_to_principal = principal (scope p)\<rparr>])"

definition check_circular_delegation :: "set_order \<Rightarrow> RuntimePolicy list \<Rightarrow> SafetyViolation list" where
  "check_circular_delegation ord ps = map (\<lambda>c. \<lparr>sv_check = ''circular_delegation'', sv_message = cc_description c, sv_details = JObj []\<rparr>)
     (detect_circular_delegations ord (concat (map policy_delegation ps)))"

definition check_invalid_thresholds :: "RuntimePolicy \<Rightarrow> SafetyViolation list" where
  "check_invalid_thresholds candidate = map (\<lambda>e. \<lparr>
     sv_check = (if ve_code e = ''OPERATOR_VALUE_MISMATCH'' then ''invalid_threshold'' else ''invalid_policy_structure''),
     sv_message = ve_message e, sv_details = JObj [(''field'', JStr (ve_field e)), (''code'', JStr (ve_code e))]\<rparr>) (validate candidate)"

definition other_active_runtime_policies :: "db \<Rightarrow> uuid \<Rightarrow> uuid option \<Rightarrow> RuntimePolicyRecord list" where
  "other_active_runtime_policies d key org = filter (\<lambda>r. rr_status r = ACTIVE \<and> rr_policy_key r \<noteq> key \<and> rr_organization_id r = org)
     (runtime_policy_records d)"

definition run_safety_checks :: "set_order \<Rightarrow> db \<Rightarrow> uuid \<Rightarrow> RuntimePolicyRecord \<Rightarrow> uuid option \<Rightarrow> PolicyError + SafetyViolation list" where
  "run_safety_checks ord d key candidate_row org =
     rbind (row_to_policy candidate_row) (\<lambda>candidate.
     rmap (\<lambda>others. let ps = candidate # map snd others in
         check_invalid_thresholds candidate @ check_duplicate_authority candidate others
         @ check_broken_inheritance d candidate ps org @ check_missing_principal d candidate org @ check_circular_delegation ord ps)
       (rmapM (\<lambda>r. rmap (Pair (rr_policy_key r)) (row_to_policy r)) (other_active_runtime_policies d key org)))"

section \<open>The cycle search is exact\<close>

definition edge :: "graph \<Rightarrow> string \<Rightarrow> string \<Rightarrow> bool" where
  "edge g a b = (\<exists>ns. map_of g a = Some ns \<and> b \<in> set ns)"

definition closed_walk :: "graph \<Rightarrow> string list \<Rightarrow> bool" where
  "closed_walk g c = (2 \<le> length c \<and> hd c = last c \<and> successively (edge g) c)"

definition simple_cycle :: "graph \<Rightarrow> string list \<Rightarrow> bool" where
  "simple_cycle g c = (closed_walk g c \<and> distinct (butlast c))"

lemma neighbours_edge: "(\<And>xs. set (ord xs) = set xs) \<Longrightarrow> n \<in> set (neighbours ord g a) \<longleftrightarrow> edge g a n"
  by (cases "map_of g a") (simp_all add: neighbours_def edge_def)

lemma report_cycle_mono: "found \<noteq> [] \<Longrightarrow> report_cycle c found \<noteq> []"
  by (simp add: report_cycle_def)

lemma set_report_cycle: "set (report_cycle c found) \<subseteq> insert c (set found)"
  by (auto simp: report_cycle_def)

lemma successively_suffix: "successively R (xs @ ys) \<Longrightarrow> successively R ys"
  by (simp add: successively_append_iff)

lemma back_edge_closed:
  assumes "node \<in> set visiting" and "successively (edge g) (rev visiting @ [node])" and "distinct visiting"
  shows "simple_cycle g (dropWhile (\<lambda>x. x \<noteq> node) (rev visiting @ [node]))"
proof -
  obtain ys zs where v: "rev visiting = ys @ node # zs" "node \<notin> set ys"
    using assms(1) split_list_first [of node "rev visiting"] by auto
  then have "dropWhile (\<lambda>x. x \<noteq> node) (rev visiting @ [node]) = node # zs @ [node]" by (simp add: dropWhile_append)
  moreover have "successively (edge g) (node # zs @ [node])"
    using assms(2) v successively_suffix [of "edge g" ys] by simp
  moreover have "distinct (node # zs)" using assms(3) v by (metis distinct_append distinct_rev)
  ultimately show ?thesis by (simp add: simple_cycle_def closed_walk_def butlast_append)
qed

lemma dfs_sound:
  assumes "\<And>xs. set (ord xs) = set xs"
  shows "successively (edge g) (rev visiting @ [node]) \<Longrightarrow> distinct visiting \<Longrightarrow> path = rev visiting @ [node]
      \<Longrightarrow> \<forall>c \<in> set found. simple_cycle g c \<Longrightarrow> \<forall>c \<in> set (dfs ord g node path visiting found). simple_cycle g c"
    and "successively (edge g) path \<Longrightarrow> distinct visiting \<Longrightarrow> path = rev visiting \<Longrightarrow> path \<noteq> [] \<Longrightarrow> \<forall>n \<in> set ns. edge g (last path) n
      \<Longrightarrow> \<forall>c \<in> set found. simple_cycle g c \<Longrightarrow> \<forall>c \<in> set (dfs_each ord g ns path visiting found). simple_cycle g c"
  using assms
proof (induction ord g node path visiting found and ord g ns path visiting found rule: dfs_dfs_each.induct)
  case (1 ord g node path visiting found)
  show ?case
  proof (cases "node \<in> set visiting")
    case True
    have "simple_cycle g (dropWhile (\<lambda>x. x \<noteq> node) path)" using back_edge_closed [OF True 1(2,3)] 1(4) by simp
    moreover have "dfs ord g node path visiting found = report_cycle (dropWhile (\<lambda>x. x \<noteq> node) path) found"
      using True by (simp add: dfs.simps)
    ultimately show ?thesis using 1(5) set_report_cycle [of "dropWhile (\<lambda>x. x \<noteq> node) path" found] by auto
  next
    case False
    have "\<forall>n \<in> set (neighbours ord g node). edge g (last path) n" using 1(4) by (simp add: neighbours_edge [OF 1(6)])
    then have "\<forall>c \<in> set (dfs_each ord g (neighbours ord g node) path (node # visiting) found). simple_cycle g c"
      using 1(1) [OF False] 1(2-6) False by simp
    then show ?thesis using False by (simp add: dfs.simps)
  qed
next
  case (3 ord g n ns path visiting found)
  note p = 3(3) 3(4) 3(5) 3(6) 3(7)
  have w: "successively (edge g) (rev visiting @ [n])" "path @ [n] = rev visiting @ [n]"
    using p by (simp_all add: successively_append_iff)
  have "\<forall>c \<in> set (dfs ord g n (path @ [n]) visiting found). simple_cycle g c"
    by (rule 3(1) [OF w(1) p(2) w(2) 3(8,9)])
  from 3(2) [OF p(1-4) _ this 3(9)] p(5) show ?case by simp
qed simp

lemma dfs_mono:
  "found \<noteq> [] \<Longrightarrow> dfs ord g node path visiting found \<noteq> []"
  "found \<noteq> [] \<Longrightarrow> dfs_each ord g ns path visiting found \<noteq> []"
  by (induction ord g node path visiting found and ord g ns path visiting found rule: dfs_dfs_each.induct)
    (simp_all add: report_cycle_mono dfs.simps)

lemma dfs_each_quiet:
  "dfs_each ord g ns path visiting found = [] \<Longrightarrow> found = [] \<and> (\<forall>n \<in> set ns. dfs ord g n (path @ [n]) visiting [] = [])"
proof (induction ns arbitrary: found)
  case (Cons n ns)
  from Cons.IH [of "dfs ord g n (path @ [n]) visiting found"] Cons.prems
  have d: "dfs ord g n (path @ [n]) visiting found = []" and r: "\<forall>n \<in> set ns. dfs ord g n (path @ [n]) visiting [] = []" by simp_all
  from d dfs_mono(1) have "found = []" by blast
  with d r show ?case by simp
qed simp

lemma dfs_quiet:
  assumes "dfs ord g node path visiting [] = []"
  shows "node \<notin> set visiting \<and> (\<forall>n \<in> set (neighbours ord g node). dfs ord g n (path @ [n]) (node # visiting) [] = [])"
  using assms dfs_each_quiet [of ord g "neighbours ord g node" path "node # visiting" "[]"]
  by (auto simp: report_cycle_def dfs.simps split: if_splits)

lemma quiet_walk:
  assumes "\<And>xs. set (ord xs) = set xs" and "dfs ord g node path visiting [] = []" and "successively (edge g) (node # xs)"
  shows "last (node # xs) \<notin> set visiting \<union> set (butlast (node # xs))"
  using assms(2,3)
proof (induction xs arbitrary: node path visiting)
  case (Cons n xs)
  from Cons.prems(2) have e: "edge g node n" "successively (edge g) (n # xs)" by simp_all
  from dfs_quiet [OF Cons.prems(1)] e have "dfs ord g n (path @ [n]) (node # visiting) [] = []"
    by (simp add: neighbours_edge assms(1))
  from Cons.IH [OF this e(2)] show ?case by auto
qed (use dfs_quiet in simp)

lemma detect_cycles_quiet:
  "fold (\<lambda>start. dfs ord g start [start] []) xs found = [] \<Longrightarrow> found = [] \<and> (\<forall>a \<in> set xs. dfs ord g a [a] [] [] = [])"
proof (induction xs arbitrary: found)
  case (Cons x xs)
  from Cons.IH [of "dfs ord g x [x] [] found"] Cons.prems
  have d: "dfs ord g x [x] [] found = []" and r: "\<forall>a \<in> set xs. dfs ord g a [a] [] [] = []" by simp_all
  from d dfs_mono(1) have "found = []" by blast
  with d r show ?case by simp
qed simp

lemma detect_cycles_sound:
  assumes "\<And>xs. set (ord xs) = set xs"
  shows "\<forall>c \<in> set (detect_cycles ord g). simple_cycle g c"
proof -
  have "\<forall>c \<in> set (fold (\<lambda>start. dfs ord g start [start] []) xs found). simple_cycle g c" if "\<forall>c \<in> set found. simple_cycle g c" for xs found
    using that
  proof (induction xs arbitrary: found)
    case (Cons x xs)
    have "\<forall>c \<in> set (dfs ord g x [x] [] found). simple_cycle g c"
      by (rule dfs_sound(1) [OF assms _ _ _ Cons.prems]) simp_all
    from Cons.IH [OF this] show ?case by simp
  qed simp
  from this [of "[]" "map fst g"] show ?thesis by (simp add: detect_cycles_def)
qed

lemma detect_cycles_complete:
  assumes "\<And>xs. set (ord xs) = set xs" and "closed_walk g c"
  shows "detect_cycles ord g \<noteq> []"
proof
  assume none: "detect_cycles ord g = []"
  from assms(2) obtain a xs where c: "c = a # xs" "xs \<noteq> []" "last xs = a" "successively (edge g) (a # xs)"
    by (cases c) (auto simp: closed_walk_def split: if_splits)
  then obtain b where "edge g a b" by (cases xs) auto
  then have "a \<in> set (map fst g)" by (force simp: edge_def dest: map_of_SomeD)
  with none detect_cycles_quiet [of ord g "map fst g" "[]"] have "dfs ord g a [a] [] [] = []" by (auto simp: detect_cycles_def)
  from quiet_walk [OF assms(1) this c(4)] c(2,3) show False by simp
qed

text \<open>The edges of the graph are the delegations, by normalized name.\<close>

lemma add_edge_edge:
  "edge (add_edge r g) a b \<longleftrightarrow>
     edge g a b \<or> cr_kind r = ''delegation'' \<and> a = name_key (cr_from_principal r) \<and> b = name_key (cr_to_principal r)"
  by (auto simp: edge_def map_of_map_default split: option.splits)

lemma delegation_edge:
  "edge (delegation_edges rels) a b \<longleftrightarrow>
     (\<exists>r \<in> set rels. cr_kind r = ''delegation'' \<and> a = name_key (cr_from_principal r) \<and> b = name_key (cr_to_principal r))"
proof -
  have "edge (fold add_edge rels g) a b \<longleftrightarrow> edge g a b \<or>
     (\<exists>r \<in> set rels. cr_kind r = ''delegation'' \<and> a = name_key (cr_from_principal r) \<and> b = name_key (cr_to_principal r))" for g
    by (induction rels arbitrary: g) (auto simp: add_edge_edge simp del: add_edge.simps)
  then show ?thesis by (simp add: delegation_edges_def edge_def)
qed

lemma tranclp_closed_walk: "(edge g)\<^sup>+\<^sup>+ a a \<Longrightarrow> \<exists>c. closed_walk g c"
proof -
  have "\<exists>xs. successively (edge g) (a # xs @ [b])" if "(edge g)\<^sup>+\<^sup>+ a b" for b
    using that
  proof (induction rule: tranclp_induct)
    case (base y)
    then show ?case by (intro exI [of _ "[]"]) simp
  next
    case (step y z)
    then obtain xs where "successively (edge g) ((a # xs) @ [y])" by auto
    with step show ?case by (intro exI [of _ "xs @ [y]"]) (auto simp: successively_append_iff simp del: append_Cons simp flip: append_Cons)
  qed
  moreover assume "(edge g)\<^sup>+\<^sup>+ a a"
  ultimately obtain xs where "successively (edge g) (a # xs @ [a])" by blast
  then show ?thesis by (intro exI [of _ "a # xs @ [a]"]) (simp add: closed_walk_def)
qed

lemma walk_tranclp: "successively R (a # xs @ [b]) \<Longrightarrow> R\<^sup>+\<^sup>+ a b"
  by (induction xs arbitrary: a) (auto intro: tranclp_into_tranclp2)

lemma closed_walk_tranclp: "closed_walk g c \<Longrightarrow> \<exists>a. (edge g)\<^sup>+\<^sup>+ a a"
proof -
  assume "closed_walk g c"
  then obtain a xs where "c = a # xs @ [a]" "successively (edge g) (a # xs @ [a])"
    by (cases c rule: rev_cases; cases "butlast c") (auto simp: closed_walk_def)
  then show ?thesis using walk_tranclp [of "edge g" a xs a] by blast
qed

section \<open>Delegation from a wildcard\<close>

lemma like_percent: "like ''%'' s"
  by (induction s) simp_all

text \<open>\<open>delegated_by\<close> is matched as a pattern: a percent sign stands for any principal of the organization.\<close>

theorem wildcard_delegation_accepted:
  assumes "delegated_by (constraints candidate) = Some ''%''" and "p \<in> set (principals d)" and "pr_organization_id p = org"
  shows "check_broken_inheritance d candidate ps org = []"
proof -
  have "py_lower ''%'' = ''%''" by code_simp
  then have w: "py_strip ''%'' = ''%''" "parse_uuid ''%'' = None" "ilike n ''%''" for n
    by (simp_all add: py_strip_def is_space_def parse_uuid_def strip_braces_def startswith_def Let_def ilike_def like_percent del: like.simps)
  obtain q where "db_find (\<lambda>p. ilike (pr_name p) ''%'' \<and> pr_organization_id p = org) (principals d) = Some q"
    using db_find_mem [OF assms(2), of "\<lambda>p. ilike (pr_name p) ''%'' \<and> pr_organization_id p = org"] assms(3) w(3) by auto
  then show ?thesis using w assms(1) by (simp add: check_broken_inheritance_def)
qed

section \<open>Claims\<close>

definition delegates :: "RuntimePolicy list \<Rightarrow> string \<Rightarrow> string \<Rightarrow> bool" where
  "delegates ps a b = (\<exists>p \<in> set ps. \<exists>by. delegated_by (constraints p) = Some by \<and> by \<noteq> [] \<and> principal (scope p) \<noteq> []
     \<and> a = name_key by \<and> b = name_key (principal (scope p)))"

lemma policy_delegation_iff:
  "r \<in> set (policy_delegation p) \<longleftrightarrow> (\<exists>by. delegated_by (constraints p) = Some by \<and> by \<noteq> [] \<and> principal (scope p) \<noteq> []
     \<and> r = \<lparr>cr_kind = ''delegation'', cr_from_principal = by, cr_to_principal = principal (scope p)\<rparr>)"
  by (cases "delegated_by (constraints p)") (auto simp: policy_delegation_def)

lemma policy_delegations_edge: "edge (delegation_edges (concat (map policy_delegation ps))) = delegates ps"
proof (intro ext iffI)
  fix a b
  assume "edge (delegation_edges (concat (map policy_delegation ps))) a b"
  then obtain p r where "p \<in> set ps" "r \<in> set (policy_delegation p)" "a = name_key (cr_from_principal r)" "b = name_key (cr_to_principal r)"
    by (auto simp: delegation_edge)
  then show "delegates ps a b" unfolding delegates_def policy_delegation_iff by (intro bexI [of _ p]) auto
next
  fix a b
  assume "delegates ps a b"
  then obtain p f where p: "p \<in> set ps" and r: "\<lparr>cr_kind = ''delegation'', cr_from_principal = f, cr_to_principal = principal (scope p)\<rparr> \<in> set (policy_delegation p)"
    and "a = name_key f" "b = name_key (principal (scope p))" unfolding delegates_def policy_delegation_iff by auto
  then show "edge (delegation_edges (concat (map policy_delegation ps))) a b"
    unfolding delegation_edge by (intro bexI [of _ "\<lparr>cr_kind = ''delegation'', cr_from_principal = f, cr_to_principal = principal (scope p)\<rparr>"]) auto
qed

text \<open>C35: the delegation check is exact. Activation reports a circular delegation if and only if the policies
  that would be active delegate in a circle, by trimmed name without regard to case; in whatever order
  Python iterates over its sets the search ends, and every circle it reports is a walk along
  delegations that returns to its first principal and visits no other principal twice.\<close>

theorem circular_delegation_exact:
  assumes "\<And>xs. set (ord xs) = set xs"
  shows "(check_circular_delegation ord ps \<noteq> [] \<longleftrightarrow> (\<exists>a. (delegates ps)\<^sup>+\<^sup>+ a a))
    \<and> (\<forall>c \<in> set (detect_cycles ord (delegation_edges (concat (map policy_delegation ps)))).
         2 \<le> length c \<and> hd c = last c \<and> distinct (butlast c) \<and> successively (delegates ps) c)"
proof -
  let ?g = "delegation_edges (concat (map policy_delegation ps))"
  have "check_circular_delegation ord ps \<noteq> [] \<longleftrightarrow> detect_cycles ord ?g \<noteq> []"
    by (simp add: check_circular_delegation_def detect_circular_delegations_def)
  also have "\<dots> \<longleftrightarrow> (\<exists>c. closed_walk ?g c)"
    using detect_cycles_sound [OF assms, where g = ?g] detect_cycles_complete [OF assms, where g = ?g]
    by (metis list.set_intros(1) neq_Nil_conv simple_cycle_def)
  also have "\<dots> \<longleftrightarrow> (\<exists>a. (edge ?g)\<^sup>+\<^sup>+ a a)" using tranclp_closed_walk closed_walk_tranclp by blast
  finally show ?thesis
    using detect_cycles_sound [OF assms, where g = ?g] by (simp add: policy_delegations_edge simple_cycle_def closed_walk_def)
qed

definition delegated_policy :: "string \<Rightarrow> string \<Rightarrow> RuntimePolicy" where
  "delegated_policy by to = demo_policy\<lparr>scope := (scope demo_policy)\<lparr>principal := to\<rparr>,
     constraints := (constraints demo_policy)\<lparr>delegated_by := Some by\<rparr>\<rparr>"

theorem circular_delegation_exact_witness:
  "check_circular_delegation id [delegated_policy ''CFO'' ''Clerk'', delegated_policy '' clerk'' ''cfo''] \<noteq> []"
proof -
  have "name_key ''CFO'' = ''cfo''" "name_key ''cfo'' = ''cfo''" "name_key ''Clerk'' = ''clerk''" "name_key '' clerk'' = ''clerk''"
    by code_simp+
  then have "delegates [delegated_policy ''CFO'' ''Clerk'', delegated_policy '' clerk'' ''cfo''] ''cfo'' ''clerk''"
    "delegates [delegated_policy ''CFO'' ''Clerk'', delegated_policy '' clerk'' ''cfo''] ''clerk'' ''cfo''"
    by (simp_all add: delegates_def delegated_policy_def)
  then have "(delegates [delegated_policy ''CFO'' ''Clerk'', delegated_policy '' clerk'' ''cfo''])\<^sup>+\<^sup>+ ''cfo'' ''cfo''" by auto
  then show ?thesis using circular_delegation_exact [of id] by auto
qed

end
