(* ===== verification/Policy_Diff.thy ===== *)
theory Policy_Diff
  imports Policy_Store
begin

text \<open>
  The version comparison of \<^verbatim>\<open>server/app/services/runtime_policy_service.py\<close>:
  \<open>compute_condition_diff\<close> and \<open>diff_versions\<close>. A condition is identified by its field and operator; of
  several conditions with one identity the dictionary keeps the last.
\<close>

datatype DiffKind = Added | Removed | Modified | Unchanged

record ConditionDiffEntry =
  cd_kind :: DiffKind
  cd_field :: string
  cd_operator :: Operator
  cd_old_value :: "json option"
  cd_new_value :: "json option"

datatype RiskImpact = RiskIncreased | RiskDecreased | RiskMixed | RiskUnchanged

record PolicyDiff =
  pd_conditions :: "ConditionDiffEntry list"
  pd_scope_changed :: bool
  pd_effect_changed :: bool
  pd_constraints_changed :: bool
  pd_affected_agents :: "(uuid \<times> string) list"
  pd_affected_policies :: "(uuid \<times> string \<times> int \<times> PolicyStatus \<times> bool) list"
  pd_risk_impact :: RiskImpact
  pd_risk_reason :: string

definition condition_key :: "Condition \<Rightarrow> string \<times> string" where
  "condition_key c = (field c, Operator_value (operator c))"

definition by_key :: "RuntimePolicy \<Rightarrow> (string \<times> string) \<Rightarrow> Condition option" where
  "by_key p k = db_find (\<lambda>c. condition_key c = k) (rev (all_of (conditions p)))"

definition diff_keys :: "RuntimePolicy \<Rightarrow> RuntimePolicy \<Rightarrow> (string \<times> string) list" where
  "diff_keys p q = sort (remdups (map condition_key (all_of (conditions p)) @ map condition_key (all_of (conditions q))))"

text \<open>The change of a numeric limit: (raised risk, lowered risk). The second comparison of the code is
  evaluated only when the first is false.\<close>

definition limit_change :: "Operator \<Rightarrow> json \<Rightarrow> json \<Rightarrow> py_error + bool \<times> bool" where
  "limit_change op old new =
     (if op \<in> {LTE, LT} then
        rbind (py_lt old new) (\<lambda>up. if up then Inr (True, False) else rmap (\<lambda>down. (False, down)) (py_lt new old))
      else if op \<in> {GTE, GT} then
        rbind (py_lt new old) (\<lambda>down. if down then Inr (True, False) else rmap (\<lambda>up. (False, up)) (py_lt old new))
      else Inr (False, False))"

definition diff_entry :: "RuntimePolicy \<Rightarrow> RuntimePolicy \<Rightarrow> (string \<times> string) \<Rightarrow> py_error + (ConditionDiffEntry \<times> bool \<times> bool) list" where
  "diff_entry p q k = (case (by_key p k, by_key q k) of
     (None, None) \<Rightarrow> Inr []
   | (Some old, None) \<Rightarrow> Inr [(\<lparr>cd_kind = Removed, cd_field = fst k, cd_operator = operator old, cd_old_value = Some (cvalue old), cd_new_value = None\<rparr>, True, False)]
   | (None, Some new) \<Rightarrow> Inr [(\<lparr>cd_kind = Added, cd_field = fst k, cd_operator = operator new, cd_old_value = None, cd_new_value = Some (cvalue new)\<rparr>, False, True)]
   | (Some old, Some new) \<Rightarrow>
       let e = (\<lambda>kind. \<lparr>cd_kind = kind, cd_field = fst k, cd_operator = operator old, cd_old_value = Some (cvalue old), cd_new_value = Some (cvalue new)\<rparr>)
       in if py_eq (cvalue old) (cvalue new) then Inr [(e Unchanged, False, False)]
          else rmap (\<lambda>risk. [(e Modified, risk)]) (limit_change (operator old) (cvalue old) (cvalue new)))"

definition risk_summary :: "bool \<Rightarrow> bool \<Rightarrow> RiskImpact \<times> string" where
  "risk_summary up down =
     (if up \<and> \<not> down then (RiskIncreased, ''a numeric limit was raised or a condition was removed: this version allows strictly more than the version it replaces, for at least one possible input'')
      else if down \<and> \<not> up then (RiskDecreased, ''a numeric limit was lowered or a condition was added: this version allows strictly less than the version it replaces'')
      else if up \<and> down then (RiskMixed, ''some conditions became more permissive and others more restrictive; review the condition-level diff above rather than this summary alone'')
      else (RiskUnchanged, ''no condition, scope, or effect change was detected''))"

definition compute_condition_diff :: "RuntimePolicy \<Rightarrow> RuntimePolicy \<Rightarrow> py_error + ConditionDiffEntry list \<times> RiskImpact \<times> string" where
  "compute_condition_diff p q = rmap (\<lambda>ess. let es = concat ess in
     (map fst es, risk_summary (list_ex (\<lambda>e. fst (snd e)) es) (list_ex (\<lambda>e. snd (snd e)) es))) (rmapM (diff_entry p q) (diff_keys p q))"

definition affected_agents :: "db \<Rightarrow> RuntimePolicy \<Rightarrow> (uuid \<times> string) list" where
  "affected_agents d q = (case parse_uuid (principal (scope q)) of None \<Rightarrow> []
     | Some i \<Rightarrow> map (\<lambda>a. (ag_id a, ag_name a)) (filter (\<lambda>a. ag_acting_for_principal_id a = i) (agents d)))"

definition affected_policies :: "db \<Rightarrow> uuid \<Rightarrow> uuid option \<Rightarrow> RuntimePolicy \<Rightarrow> PolicyError + (uuid \<times> string \<times> int \<times> PolicyStatus \<times> bool) list" where
  "affected_policies d key org q = rmap concat (rmapM (\<lambda>r. rmap (\<lambda>p.
       if principal (scope p) = principal (scope q)
       then [(rr_policy_key r, rp_name p, rr_version r, rr_status r, action (scope p) = action (scope q))] else []) (row_to_policy r))
     (filter (\<lambda>r. rr_policy_key r \<noteq> key) (list_latest_policies d org None)))"

definition diff_versions :: "db \<Rightarrow> uuid \<Rightarrow> int \<Rightarrow> int \<Rightarrow> uuid option \<Rightarrow> PolicyError + PolicyDiff" where
  "diff_versions d key from_version to_version org =
     rbind (get_version d key from_version org) (\<lambda>from_row.
     rbind (get_version d key to_version org) (\<lambda>to_row.
     rbind (row_to_policy from_row) (\<lambda>p.
     rbind (row_to_policy to_row) (\<lambda>q.
     rbind (policy_lift (compute_condition_diff p q)) (\<lambda>(entries, impact, why).
     rmap (\<lambda>ps. \<lparr>pd_conditions = entries, pd_scope_changed = (scope_to_dict (scope p) \<noteq> scope_to_dict (scope q)),
           pd_effect_changed = (effect p \<noteq> effect q), pd_constraints_changed = (constraints_to_dict (constraints p) \<noteq> constraints_to_dict (constraints q)),
           pd_affected_agents = affected_agents d q, pd_affected_policies = ps, pd_risk_impact = impact, pd_risk_reason = why\<rparr>)
       (affected_policies d key org q))))))"

section \<open>The risk label\<close>

lemma by_key_Some: "by_key p k = Some c \<Longrightarrow> c \<in> set (all_of (conditions p)) \<and> condition_key c = k"
  by (auto simp: by_key_def dest: db_find_Some)

lemma by_key_mem: "c \<in> set (all_of (conditions p)) \<Longrightarrow> \<exists>c'. by_key p (condition_key c) = Some c'"
  unfolding by_key_def by (rule db_find_mem) auto

lemma by_key_unique:
  "distinct (map condition_key (all_of (conditions p))) \<Longrightarrow> c \<in> set (all_of (conditions p)) \<Longrightarrow> by_key p (condition_key c) = Some c"
  unfolding by_key_def by (rule db_find_unique) (simp_all add: rev_map [symmetric])

lemma condition_key_op: "condition_key c = condition_key c' \<Longrightarrow> field c = field c' \<and> operator c = operator c'"
  by (auto simp: condition_key_def operator_enum.value_inject)

lemma holds_key_cong:
  assumes "alike b c" and "alike b c'" and "rego_key c = rego_key c'"
  shows "holds op c v = holds op c' v"
  using assms by (cases op; cases c; cases c') (auto simp: alike_def rego_eq_def split: if_splits)

text \<open>A limit whose change did not raise the risk admits no more than the old one.\<close>

lemma limit_change_sound:
  assumes "limit_change op old new = Inr (False, down)" and "op \<in> {LTE, LT, GTE, GT}" and "alike b old" "alike b new" and "holds op new v"
  shows "holds op old v"
proof -
  consider "op \<in> {LTE, LT}" "py_lt old new = Inr False" | "op \<in> {GTE, GT}" "py_lt new old = Inr False"
    using assms(1,2) by (auto simp: limit_change_def split: if_splits)
  then show ?thesis
  proof cases
    case 1
    then have "rego_key new \<le> rego_key old" using py_lt_alike [OF assms(3,4)] by (metis not_less)
    then show ?thesis using 1(1) assms(5) by auto
  next
    case 2
    then have "rego_key old \<le> rego_key new" using py_lt_alike [OF assms(4,3)] by (metis not_less)
    then show ?thesis using 2(1) assms(5) by auto
  qed
qed

lemma rmapM_mem: "rmapM f xs = Inr ys \<Longrightarrow> x \<in> set xs \<Longrightarrow> \<exists>y. f x = Inr y \<and> y \<in> set ys"
  by (induction xs arbitrary: ys) auto

lemma diff_key_mem: "c \<in> set (all_of (conditions p)) \<Longrightarrow> condition_key c \<in> set (diff_keys p q)"
  by (auto simp: diff_keys_def)

text \<open>Two values that Python finds equal and Rego compares alike.\<close>

definition comparable_change :: "RuntimePolicy \<Rightarrow> RuntimePolicy \<Rightarrow> bool" where
  "comparable_change p q = (\<forall>c \<in> set (all_of (conditions p)). \<forall>c' \<in> set (all_of (conditions q)). condition_key c = condition_key c'
     \<longrightarrow> cvalue c = cvalue c' \<or> (\<exists>b. alike b (cvalue c) \<and> alike b (cvalue c')))"

lemma comparable_changeD:
  "comparable_change p q \<Longrightarrow> c \<in> set (all_of (conditions p)) \<Longrightarrow> c' \<in> set (all_of (conditions q)) \<Longrightarrow> condition_key c = condition_key c'
    \<Longrightarrow> cvalue c = cvalue c' \<or> (\<exists>b. alike b (cvalue c) \<and> alike b (cvalue c'))"
  unfolding comparable_change_def by (drule (1) bspec, drule (1) bspec) simp

text \<open>The risk label of a version comparison is sound in one direction. When the comparison of two
  versions with one scope says that the risk is not increased, not mixed, and every modified condition is a numeric limit, then every
  input that matches the new version matches the old one: nothing new is allowed. Each version has one condition per field and
  operator, and the two values of a condition are of one kind.\<close>

theorem risk_label_sound:
  assumes "compute_condition_diff p q = Inr (es, impact, why)" and "impact \<in> {RiskDecreased, RiskUnchanged}"
    and "scope p = scope q" and "\<forall>e \<in> set es. cd_kind e = Modified \<longrightarrow> cd_operator e \<in> {LTE, LT, GTE, GT}"
    and "distinct (map condition_key (all_of (conditions p)))" and "comparable_change p q" and "policy_matches input q"
  shows "policy_matches input p"
proof -
  obtain ess where ess: "rmapM (diff_entry p q) (diff_keys p q) = Inr ess" and es: "es = map fst (concat ess)"
    and impact: "impact = fst (risk_summary (list_ex (\<lambda>e. fst (snd e)) (concat ess)) (list_ex (\<lambda>e. snd (snd e)) (concat ess)))"
    using assms(1) by (auto simp: compute_condition_diff_def Let_def) (metis fst_conv)
  have calm: "\<not> fst (snd e)" if "e \<in> set l" "l \<in> set ess" for e l
    using assms(2) that unfolding impact risk_summary_def by (auto simp: list_ex_iff split: if_splits)
  have "condition_holds c (field_value input (field c))" if c: "c \<in> set (all_of (conditions p))" for c
  proof -
    let ?k = "condition_key c"
    have old: "by_key p ?k = Some c" by (rule by_key_unique [OF assms(5) c])
    obtain l where l: "diff_entry p q ?k = Inr l" "l \<in> set ess" using rmapM_mem [OF ess diff_key_mem [OF c]] by blast
    have "by_key q ?k \<noteq> None"
    proof
      assume "by_key q ?k = None"
      then have "l = [(\<lparr>cd_kind = Removed, cd_field = fst ?k, cd_operator = operator c, cd_old_value = Some (cvalue c), cd_new_value = None\<rparr>, True, False)]"
        using l(1) by (simp add: diff_entry_def old)
      then show False using calm [OF _ l(2)] by auto
    qed
    then obtain new where new: "by_key q ?k = Some new" by blast
    note n = by_key_Some [OF new]
    have same: "cvalue c = cvalue new \<or> (\<exists>b. alike b (cvalue c) \<and> alike b (cvalue new))"
      by (rule comparable_changeD [OF assms(6) c n [THEN conjunct1] n [THEN conjunct2, symmetric]])
    have op: "field new = field c" "operator new = operator c" using condition_key_op [OF n [THEN conjunct2]] by simp_all
    have "condition_holds new (field_value input (field c))" using assms(7) n op(1) by (auto simp: policy_matches_def)
    moreover have "holds (operator c) (cvalue new) v \<Longrightarrow> holds (operator c) (cvalue c) v" for v
    proof (cases "cvalue c = cvalue new")
      case False
      then obtain b where b: "alike b (cvalue c)" "alike b (cvalue new)" 
        using assms(6) [unfolded comparable_change_def, rule_format, OF c, of new] n by auto
      assume h: "holds (operator c) (cvalue new) v"
      show "holds (operator c) (cvalue c) v"
      proof (cases "py_eq (cvalue c) (cvalue new)")
        case True
        then show ?thesis using h holds_key_cong [OF b] py_eq_alike [OF b] by blast
      next
        case neq: False
        obtain risk where risk: "limit_change (operator c) (cvalue c) (cvalue new) = Inr risk"
          and e: "(\<lparr>cd_kind = Modified, cd_field = fst ?k, cd_operator = operator c, cd_old_value = Some (cvalue c), cd_new_value = Some (cvalue new)\<rparr>, risk) \<in> set l"
          using l(1) neq by (auto simp: diff_entry_def old new Let_def)
        have "operator c \<in> {LTE, LT, GTE, GT}" using assms(4) e l(2) unfolding es by force
        moreover have "\<not> fst risk" using calm [OF e l(2)] by simp
        ultimately show ?thesis using limit_change_sound [of "operator c" "cvalue c" "cvalue new" "snd risk" b v] risk b h by (cases risk) auto
      qed
    qed simp
    moreover have "operator c = EXISTS \<Longrightarrow> cvalue new = JBool False \<Longrightarrow> cvalue c = JBool False"
    proof -
      assume x: "operator c = EXISTS" "cvalue new = JBool False"
      have "holds EXISTS (cvalue new) JNull" using x(2) by simp
      then have "holds EXISTS (cvalue c) JNull" using calculation(2) x(1) by simp
      then show "cvalue c = JBool False" by (auto split: json.splits)
    qed
    ultimately show ?thesis using op by (auto simp: condition_holds_def split: option.splits)
  qed
  then show ?thesis using assms(3,7) by (simp add: policy_matches_def)
qed

definition lowered_policy :: RuntimePolicy where
  "lowered_policy = demo_policy\<lparr>conditions := \<lparr>all_of = [\<lparr>field = ''amount'', operator = LTE, cvalue = JInt 400\<rparr>]\<rparr>\<rparr>"

definition amount_input :: "int \<Rightarrow> json" where
  "amount_input n = JObj [(''intent'', JObj [(''action'', JStr ''vendor_payment''), (''amount'', JInt n)]),
     (''agent'', JObj [(''acting_for_principal_id'', JStr ''cfo'')])]"

theorem risk_label_sound_witness:
  "policy_matches (amount_input 300) lowered_policy \<and> policy_matches (amount_input 300) demo_policy"
proof -
  have m: "policy_matches (amount_input 300) lowered_policy"
    by (simp add: policy_matches_def scope_matches_def lowered_policy_def demo_policy_def amount_input_def condition_holds_def field_value_def
        field_path_def startswith_def)
  obtain es why where d: "compute_condition_diff demo_policy lowered_policy = Inr (es, RiskDecreased, why)"
      "\<forall>e \<in> set es. cd_kind e = Modified \<longrightarrow> cd_operator e \<in> {LTE, LT, GTE, GT}"
    by (simp add: compute_condition_diff_def diff_keys_def condition_key_def diff_entry_def by_key_def lowered_policy_def demo_policy_def
        limit_change_def risk_summary_def py_eq.simps)
  have "policy_matches (amount_input 300) demo_policy"
    by (rule risk_label_sound [OF d(1) _ _ d(2) _ _ m])
      (simp_all add: lowered_policy_def demo_policy_def comparable_change_def alike_def exI [of _ False])
  with m show ?thesis by blast
qed

text \<open>A changed value of an operator that is no numeric limit leaves the label at "no change was detected".\<close>

definition currency_policy :: "string \<Rightarrow> RuntimePolicy" where
  "currency_policy c = demo_policy\<lparr>conditions := \<lparr>all_of = [\<lparr>field = ''currency'', operator = EQ, cvalue = JStr c\<rparr>]\<rparr>\<rparr>"

theorem equality_change_unlabelled:
  "\<exists>es input. compute_condition_diff (currency_policy ''EUR'') (currency_policy ''USD'')
      = Inr (es, RiskUnchanged, ''no condition, scope, or effect change was detected'')
    \<and> policy_matches input (currency_policy ''USD'') \<and> \<not> policy_matches input (currency_policy ''EUR'')"
proof (intro exI conjI)
  let ?i = "JObj [(''intent'', JObj [(''action'', JStr ''vendor_payment''), (''currency'', JStr ''USD'')]),
     (''agent'', JObj [(''acting_for_principal_id'', JStr ''cfo'')])]"
  show "policy_matches ?i (currency_policy ''USD'')" "\<not> policy_matches ?i (currency_policy ''EUR'')"
    by (simp_all add: policy_matches_def scope_matches_def currency_policy_def demo_policy_def condition_holds_def field_value_def
        field_path_def startswith_def rego_eq_def)
qed (simp add: compute_condition_diff_def diff_keys_def condition_key_def diff_entry_def by_key_def currency_policy_def demo_policy_def
      limit_change_def risk_summary_def py_eq.simps)

end
