(* ===== verification/Policy_Lifecycle.thy ===== *)
theory Policy_Lifecycle
  imports Policy_Safety Policy_Diff
begin

text \<open>
  \<^verbatim>\<open>server/app/services/runtime_policy_lifecycle_service.py\<close>: activation behind the safety checks,
  schedules, retirement, deprecation, attestation, archiving and rollback of stored policies, and the
  listings of the lifecycle pages.

  An activation commits in stages (the blocked event, the compilation, the deployment), so its outcome
  is again paired with both stores. \<open>Ids\<close> holds the keys of the rows that one call may insert.
\<close>

datatype LifecycleError =
    PolicyFailed PolicyError
  | ActivationBlockedError "SafetyViolation list"
  | ScheduleNotFoundError uuid

record Ids =
  new_policy_id :: uuid
  new_mandate_id :: uuid
  new_record_id :: uuid
  new_schedule_id :: uuid
  new_event_id :: uuid
  new_event_id2 :: uuid

type_synonym stores = "db \<times> opa_store"

definition lifecycle_lift :: "PolicyError + 'a \<Rightarrow> LifecycleError + 'a" where
  "lifecycle_lift x = (case x of Inl e \<Rightarrow> Inl (PolicyFailed e) | Inr y \<Rightarrow> Inr y)"

definition bad_status :: "string \<Rightarrow> string \<Rightarrow> LifecycleError" where
  "bad_status st what = PolicyFailed (PolicyInvalidTransitionError st what)"

definition violations_payload :: "SafetyViolation list \<Rightarrow> json" where
  "violations_payload vs = JObj [(''violations'', JList (map (\<lambda>v. JObj [(''check'', JStr (sv_check v)), (''message'', JStr (sv_message v)),
     (''details'', sv_details v)]) vs))]"

definition record_blocked :: "crypto \<Rightarrow> uuid \<Rightarrow> uuid \<Rightarrow> int \<Rightarrow> string option \<Rightarrow> SafetyViolation list \<Rightarrow> uuid option \<Rightarrow> datetime \<Rightarrow> db \<Rightarrow> db" where
  "record_blocked C eid key ver actor vs org now = record_lifecycle_event C eid key ver ''activation_blocked'' actor None (violations_payload vs) org now"

definition ACTIVATABLE_STATUSES :: "PolicyStatus list" where "ACTIVATABLE_STATUSES = [APPROVED, COMPILED]"

section \<open>Activation\<close>

definition deploy_now :: "crypto \<Rightarrow> set_order \<Rightarrow> uuid \<Rightarrow> uuid option \<Rightarrow> Ids \<Rightarrow> datetime \<Rightarrow> Weather \<Rightarrow> stores \<Rightarrow> (PolicyError + DeployOutcome) \<times> stores" where
  "deploy_now C ord key org ids now w s =
     deploy_policy C ord key org (new_policy_id ids) (new_mandate_id ids) now w (\<lambda>_. (fst s, fst s, snd s)) (fst s) (snd s)"

text \<open>The compilation inside an activation, when the version is not compiled yet.\<close>

definition compile_for_activation ::
  "crypto \<Rightarrow> set_order \<Rightarrow> uuid \<Rightarrow> uuid option \<Rightarrow> RuntimePolicyRecord \<Rightarrow> uuid \<Rightarrow> datetime \<Rightarrow> db \<Rightarrow> PolicyError + db" where
  "compile_for_activation C ord key org r eid now d =
     (if rr_status r = APPROVED
      then rbind (compile_policy C ord key org eid now d) (\<lambda>(d', out). if co_ok out then Inr d'
           else Inl (CompilationRequiredError (key @ '' v'' @ show_int (rr_version r) @ '' failed to compile: ''
             @ join ''; '' (map ce_message (co_diagnostics out)))))
      else Inr d)"

definition mark_activated ::
  "crypto \<Rightarrow> uuid \<Rightarrow> uuid option \<Rightarrow> string \<Rightarrow> string option \<Rightarrow> uuid \<Rightarrow> datetime \<Rightarrow> db \<Rightarrow> PolicyError + db \<times> RuntimePolicyRecord" where
  "mark_activated C key org actor why eid now d =
     transition key org (\<lambda>_. True) ''activate''
       (\<lambda>r. r\<lparr>rr_activated_by := Some actor, rr_activated_at := Some now, rr_activation_reason := why\<rparr>)
       (\<lambda>r. record_lifecycle_event C eid key (rr_version r) ''activated'' (Some actor) why (JObj [(''bundle_hash'', opt_str (rr_bundle_hash r))]) org now) d"

definition activate_policy ::
  "crypto \<Rightarrow> set_order \<Rightarrow> uuid \<Rightarrow> uuid option \<Rightarrow> string \<Rightarrow> string option \<Rightarrow> Ids \<Rightarrow> datetime \<Rightarrow> Weather \<Rightarrow> stores
     \<Rightarrow> (LifecycleError + RuntimePolicyRecord) \<times> stores" where
  "activate_policy C ord key org actor why ids now w s =
     (case get_latest (fst s) key org of
        Inl e \<Rightarrow> (Inl (PolicyFailed e), s)
      | Inr r \<Rightarrow>
        if rr_status r \<notin> set ACTIVATABLE_STATUSES then (Inl (bad_status (PolicyStatus_value (rr_status r)) ''activate''), s) else
        (case run_safety_checks ord (fst s) key r org of
           Inl e \<Rightarrow> (Inl (PolicyFailed e), s)
         | Inr vs \<Rightarrow>
           if vs \<noteq> [] then (Inl (ActivationBlockedError vs), record_blocked C (new_event_id ids) key (rr_version r) (Some actor) vs org now (fst s), snd s) else
           (case compile_for_activation C ord key org r (new_event_id ids) now (fst s) of
              Inl e \<Rightarrow> (Inl (PolicyFailed e), s)
            | Inr d1 \<Rightarrow> (case deploy_now C ord key org ids now w (d1, snd s) of
                (Inl e, s2) \<Rightarrow> (Inl (PolicyFailed e), s2)
              | (Inr _, d2, opa2) \<Rightarrow> (case mark_activated C key org actor why (new_event_id2 ids) now d2 of
                  Inl e \<Rightarrow> (Inl (PolicyFailed e), d2, opa2)
                | Inr (d3, r') \<Rightarrow> (Inr r', d3, opa2))))))"

section \<open>Retirement and the other transitions\<close>

definition retire_policy ::
  "crypto \<Rightarrow> set_order \<Rightarrow> uuid \<Rightarrow> uuid option \<Rightarrow> string \<Rightarrow> string option \<Rightarrow> uuid \<Rightarrow> datetime \<Rightarrow> OpaCall \<Rightarrow> stores
     \<Rightarrow> (LifecycleError + RuntimePolicyRecord) \<times> stores" where
  "retire_policy C ord key org actor why eid now call s =
     (case transition key org (\<lambda>st. st = ACTIVE) ''retire'' (\<lambda>r. r\<lparr>rr_status := RETIRED\<rparr>) (\<lambda>r d. d) (fst s) of
        Inl e \<Rightarrow> (Inl (PolicyFailed e), s)
      | Inr (d1, r) \<Rightarrow> (case reconcile_organization_opa_state C ord org call now d1 (snd s) of
          (Inl e, opa1) \<Rightarrow> (Inl (PolicyFailed e), d1, opa1)
        | (Inr _, opa1) \<Rightarrow>
            (Inr r, record_lifecycle_event C eid key (rr_version r) ''retired'' (Some actor) why JNull org now d1, opa1)))"

definition deprecate_policy ::
  "crypto \<Rightarrow> uuid \<Rightarrow> uuid option \<Rightarrow> string \<Rightarrow> string option \<Rightarrow> uuid \<Rightarrow> datetime \<Rightarrow> db \<Rightarrow> PolicyError + db \<times> RuntimePolicyRecord" where
  "deprecate_policy C key org actor why eid now =
     transition key org (\<lambda>st. st = ACTIVE) ''deprecate'' (\<lambda>r. r\<lparr>rr_deprecated_at := Some now, rr_deprecation_reason := why\<rparr>)
       (\<lambda>r. record_lifecycle_event C eid key (rr_version r) ''deprecated'' (Some actor) why JNull org now)"

definition DEFAULT_REVIEW_CADENCE_DAYS :: int where "DEFAULT_REVIEW_CADENCE_DAYS = 90"

definition review_cadence :: "int option \<Rightarrow> RuntimePolicyRecord \<Rightarrow> int" where
  "review_cadence days r = (case days of Some n \<Rightarrow> n
     | None \<Rightarrow> (case rr_review_cadence_days r of None \<Rightarrow> DEFAULT_REVIEW_CADENCE_DAYS
                | Some n \<Rightarrow> if n = 0 then DEFAULT_REVIEW_CADENCE_DAYS else n))"

definition attest_policy ::
  "crypto \<Rightarrow> uuid \<Rightarrow> uuid option \<Rightarrow> string \<Rightarrow> string option \<Rightarrow> int option \<Rightarrow> uuid \<Rightarrow> datetime \<Rightarrow> db \<Rightarrow> PolicyError + db \<times> RuntimePolicyRecord" where
  "attest_policy C key org actor why days eid now =
     transition key org (\<lambda>st. st = ACTIVE) ''attest''
       (\<lambda>r. r\<lparr>rr_last_attested_at := Some now, rr_review_cadence_days := Some (review_cadence days r),
              rr_next_review_at := Some (now + review_cadence days r * us_per_day)\<rparr>)
       (\<lambda>r. record_lifecycle_event C eid key (rr_version r) ''attested'' (Some actor) why
          (JObj [(''review_cadence_days'', JInt (review_cadence days r)),
                 (''next_review_at'', JStr (isoformat (now + review_cadence days r * us_per_day)))]) org now)"

definition list_due_for_reattestation :: "db \<Rightarrow> uuid option \<Rightarrow> datetime \<Rightarrow> RuntimePolicyRecord list" where
  "list_due_for_reattestation d org now =
     filter (\<lambda>r. case rr_next_review_at r of None \<Rightarrow> False | Some t \<Rightarrow> t \<le> now) (list_latest_policies d org (Some ACTIVE))"

definition list_authority_expired :: "db \<Rightarrow> uuid option \<Rightarrow> datetime \<Rightarrow> RuntimePolicyRecord list" where
  "list_authority_expired d org now =
     filter (\<lambda>r. case rr_authority_expires_at r of None \<Rightarrow> False | Some t \<Rightarrow> t \<le> now) (list_latest_policies d org (Some ACTIVE))"

definition archive_policy ::
  "crypto \<Rightarrow> uuid \<Rightarrow> uuid option \<Rightarrow> string \<Rightarrow> string option \<Rightarrow> uuid \<Rightarrow> datetime \<Rightarrow> db \<Rightarrow> PolicyError + db \<times> RuntimePolicyRecord" where
  "archive_policy C key org actor why eid now d =
     rbind (get_latest d key org) (\<lambda>r.
     rbind (raise_if (rr_status r = ACTIVE) (PolicyInvalidTransitionError ''active'' ''archive (retire it first)'')) (\<lambda>_.
       transition key org (\<lambda>st. st \<noteq> ARCHIVED) ''archive'' (\<lambda>r. r\<lparr>rr_status := ARCHIVED\<rparr>)
         (\<lambda>r. record_lifecycle_event C eid key (rr_version r) ''archived'' (Some actor) why JNull org now) d))"

definition rollback_policy ::
  "crypto \<Rightarrow> uuid \<Rightarrow> uuid option \<Rightarrow> int \<Rightarrow> string \<Rightarrow> string option \<Rightarrow> Ids \<Rightarrow> datetime \<Rightarrow> db \<Rightarrow> PolicyError + db \<times> RuntimePolicyRecord" where
  "rollback_policy C key org target actor why ids now d =
     rbind (get_version d key target org) (\<lambda>target_row.
     rbind (raise_if (rr_activated_at target_row = None \<and> rr_status target_row \<noteq> ACTIVE)
       (PolicyInvalidTransitionError (PolicyStatus_value (rr_status target_row)) ''rollback to a version that was never activated'')) (\<lambda>_.
     rbind (get_latest d key org) (\<lambda>latest.
     rbind (raise_if (rr_status latest = ARCHIVED) (PolicyInvalidTransitionError (PolicyStatus_value (rr_status latest)) ''rollback'')) (\<lambda>_.
     rbind (row_to_policy target_row) (\<lambda>p.
     let trail = \<lparr>created = (case audit p of None \<Rightarrow> now | Some a \<Rightarrow> created a), modified = Some now, approved = None, deployed = None,
               modified_by = None, approved_by = None, deployed_by = None\<rparr>;
         reverted = p\<lparr>version := rr_version latest + 1, status := DRAFT, audit := Some trail\<rparr>
     in rbind (edit_policy C key org reverted (new_record_id ids) (new_event_id ids) now d) (\<lambda>(d1, r).
          record_returning (rr_id r) (record_lifecycle_event C (new_event_id2 ids) key (rr_version r) ''rolled_back'' (Some actor) why
            (JObj [(''target_version'', JInt target)]) org now
            (update_record (rr_id r) (\<lambda>x. x\<lparr>rr_rollback_of_version := Some target\<rparr>) d1))))))))"

section \<open>Schedules\<close>

definition new_schedule :: "uuid \<Rightarrow> RuntimePolicyRecord \<Rightarrow> ScheduleAction \<Rightarrow> datetime \<Rightarrow> string option \<Rightarrow> string \<Rightarrow> uuid option \<Rightarrow> datetime \<Rightarrow> PolicyActivationSchedule" where
  "new_schedule sid r act effective why actor org now = \<lparr>sh_id = sid, sh_policy_key = rr_policy_key r, sh_version = rr_version r, sh_action = act,
     sh_effective_at = effective, sh_reason = why, sh_status = SchPending, sh_created_by = Some actor, sh_created_at = now,
     sh_executed_at = None, sh_execution_error = None, sh_organization_id = org\<rparr>"

definition insert_schedule ::
  "crypto \<Rightarrow> uuid \<Rightarrow> uuid option \<Rightarrow> ScheduleAction \<Rightarrow> datetime \<Rightarrow> string \<Rightarrow> string option \<Rightarrow> Ids \<Rightarrow> RuntimePolicyRecord \<Rightarrow> datetime \<Rightarrow> db
     \<Rightarrow> db \<times> PolicyActivationSchedule" where
  "insert_schedule C key org act effective actor why ids r now d =
     (let sch = new_schedule (new_schedule_id ids) r act effective why actor org now
      in (record_lifecycle_event C (new_event_id ids) key (rr_version r) ''scheduled'' (Some actor) why
            (JObj [(''action'', JStr (ScheduleAction_value act)), (''effective_at'', JStr (isoformat effective)), (''schedule_id'', JStr (sh_id sch))]) org now
            (d\<lparr>policy_activation_schedules := policy_activation_schedules d @ [sch]\<rparr>), sch))"

definition schedule_activation ::
  "crypto \<Rightarrow> set_order \<Rightarrow> uuid \<Rightarrow> uuid option \<Rightarrow> datetime \<Rightarrow> string \<Rightarrow> string option \<Rightarrow> Ids \<Rightarrow> datetime \<Rightarrow> db
     \<Rightarrow> (LifecycleError + PolicyActivationSchedule) \<times> db" where
  "schedule_activation C ord key org effective actor why ids now d =
     (case get_latest d key org of
        Inl e \<Rightarrow> (Inl (PolicyFailed e), d)
      | Inr r \<Rightarrow>
        if rr_status r \<notin> set ACTIVATABLE_STATUSES then (Inl (bad_status (PolicyStatus_value (rr_status r)) ''schedule activation''), d) else
        (case run_safety_checks ord d key r org of
           Inl e \<Rightarrow> (Inl (PolicyFailed e), d)
         | Inr vs \<Rightarrow> if vs \<noteq> [] then (Inl (ActivationBlockedError vs), record_blocked C (new_event_id ids) key (rr_version r) (Some actor) vs org now d)
             else (let (d', sch) = insert_schedule C key org SchActivate effective actor why ids r now d in (Inr sch, d'))))"

definition schedule_retirement ::
  "crypto \<Rightarrow> uuid \<Rightarrow> uuid option \<Rightarrow> datetime \<Rightarrow> string \<Rightarrow> string option \<Rightarrow> Ids \<Rightarrow> datetime \<Rightarrow> db \<Rightarrow> PolicyError + db \<times> PolicyActivationSchedule" where
  "schedule_retirement C key org effective actor why ids now d =
     rbind (get_latest d key org) (\<lambda>r.
     rbind (raise_if (rr_status r \<noteq> ACTIVE) (PolicyInvalidTransitionError (PolicyStatus_value (rr_status r)) ''schedule retirement'')) (\<lambda>_.
       Inr (insert_schedule C key org SchRetire effective actor why ids r now d)))"

definition get_schedule_row :: "db \<Rightarrow> uuid \<Rightarrow> PolicyActivationSchedule option" where
  "get_schedule_row d sid = db_find (\<lambda>r. sh_id r = sid) (policy_activation_schedules d)"

definition update_schedule :: "uuid \<Rightarrow> (PolicyActivationSchedule \<Rightarrow> PolicyActivationSchedule) \<Rightarrow> db \<Rightarrow> db" where
  "update_schedule sid f d = d\<lparr>policy_activation_schedules := db_update (\<lambda>r. sh_id r = sid) f (policy_activation_schedules d)\<rparr>"

definition cancel_schedule ::
  "crypto \<Rightarrow> uuid \<Rightarrow> uuid option \<Rightarrow> string \<Rightarrow> string option \<Rightarrow> uuid \<Rightarrow> datetime \<Rightarrow> db \<Rightarrow> LifecycleError + db \<times> PolicyActivationSchedule" where
  "cancel_schedule C sid org actor why eid now d =
     (case get_schedule_row d sid of
        None \<Rightarrow> Inl (ScheduleNotFoundError sid)
      | Some sch \<Rightarrow>
          if sh_organization_id sch \<noteq> org then Inl (ScheduleNotFoundError sid)
          else if sh_status sch \<noteq> SchPending then Inl (bad_status (ScheduleStatus_value (sh_status sch)) ''cancel'')
          else Inr (record_lifecycle_event C eid (sh_policy_key sch) (sh_version sch) ''schedule_cancelled'' (Some actor) why
                      (JObj [(''schedule_id'', JStr sid), (''action'', JStr (ScheduleAction_value (sh_action sch)))]) org now
                      (update_schedule sid (\<lambda>x. x\<lparr>sh_status := SchCancelled\<rparr>) d),
                    sch\<lparr>sh_status := SchCancelled\<rparr>))"

record ScheduleExecutionResult =
  se_schedule_id :: uuid
  se_policy_key :: uuid
  se_action :: ScheduleAction
  se_ok :: bool
  se_error :: "string option"

definition due_schedules :: "db \<Rightarrow> datetime \<Rightarrow> PolicyActivationSchedule list" where
  "due_schedules d now = sort_key sh_effective_at
     (filter (\<lambda>r. sh_status r = SchPending \<and> sh_effective_at r \<le> now) (policy_activation_schedules d))"

text \<open>\<open>msg\<close> is the text of an exception; \<open>ids\<close> and \<open>w\<close> give each schedule its keys and its weather.\<close>

definition execute_schedule ::
  "crypto \<Rightarrow> set_order \<Rightarrow> (LifecycleError \<Rightarrow> string) \<Rightarrow> (uuid \<Rightarrow> Ids) \<Rightarrow> (uuid \<Rightarrow> Weather) \<Rightarrow> datetime \<Rightarrow> PolicyActivationSchedule \<Rightarrow> stores
     \<Rightarrow> ScheduleExecutionResult \<times> stores" where
  "execute_schedule C ord msg ids w now sch s =
     (let actor = (case sh_created_by sch of None \<Rightarrow> ''scheduled-execution'' | Some a \<Rightarrow> if a = [] then ''scheduled-execution'' else a);
          key = sh_policy_key sch; org = sh_organization_id sch; sid = sh_id sch;
          out = (case sh_action sch of
             SchActivate \<Rightarrow> activate_policy C ord key org actor (sh_reason sch) (ids sid) now (w sid) s
           | SchRetire \<Rightarrow> retire_policy C ord key org actor (sh_reason sch) (new_event_id (ids sid)) now (w_reconcile (w sid)) s)
      in case out of
           (Inr _, d, opa) \<Rightarrow> (\<lparr>se_schedule_id = sid, se_policy_key = key, se_action = sh_action sch, se_ok = True, se_error = None\<rparr>,
              update_schedule sid (\<lambda>x. x\<lparr>sh_status := SchExecuted, sh_executed_at := Some now\<rparr>) d, opa)
         | (Inl e, d, opa) \<Rightarrow> (\<lparr>se_schedule_id = sid, se_policy_key = key, se_action = sh_action sch, se_ok = False, se_error = Some (msg e)\<rparr>,
              update_schedule sid (\<lambda>x. x\<lparr>sh_status := SchFailed, sh_execution_error := Some (msg e)\<rparr>) d, opa))"

fun execute_all ::
  "crypto \<Rightarrow> set_order \<Rightarrow> (LifecycleError \<Rightarrow> string) \<Rightarrow> (uuid \<Rightarrow> Ids) \<Rightarrow> (uuid \<Rightarrow> Weather) \<Rightarrow> datetime \<Rightarrow> PolicyActivationSchedule list \<Rightarrow> stores
     \<Rightarrow> ScheduleExecutionResult list \<times> stores" where
  "execute_all C ord msg ids w now [] s = ([], s)"
| "execute_all C ord msg ids w now (sch # schs) s =
     (let (x, s1) = execute_schedule C ord msg ids w now sch s; (xs, s2) = execute_all C ord msg ids w now schs s1 in (x # xs, s2))"

definition process_due_schedules ::
  "crypto \<Rightarrow> set_order \<Rightarrow> (LifecycleError \<Rightarrow> string) \<Rightarrow> (uuid \<Rightarrow> Ids) \<Rightarrow> (uuid \<Rightarrow> Weather) \<Rightarrow> datetime \<Rightarrow> stores
     \<Rightarrow> ScheduleExecutionResult list \<times> stores" where
  "process_due_schedules C ord msg ids w now s = execute_all C ord msg ids w now (due_schedules (fst s) now) s"

section \<open>Listings\<close>

record ActivationImpactPreview =
  im_candidate_version :: int
  im_current_active_version :: "int option"
  im_diff :: "PolicyDiff option"
  im_safety :: "SafetyViolation list"

definition preview_activation_impact :: "set_order \<Rightarrow> db \<Rightarrow> uuid \<Rightarrow> uuid option \<Rightarrow> PolicyError + ActivationImpactPreview" where
  "preview_activation_impact ord d key org =
     rbind (get_latest d key org) (\<lambda>candidate.
     rbind (run_safety_checks ord d key candidate org) (\<lambda>vs.
     let current = db_find (\<lambda>r. rr_policy_key r = key \<and> rr_status r = ACTIVE \<and> rr_organization_id r = org) (runtime_policy_records d)
     in rmap (\<lambda>df. \<lparr>im_candidate_version = rr_version candidate, im_current_active_version = map_option rr_version current, im_diff = df, im_safety = vs\<rparr>)
          (case current of
             Some c \<Rightarrow> if rr_version c \<noteq> rr_version candidate then rmap Some (diff_versions d key (rr_version c) (rr_version candidate) org) else Inr None
           | None \<Rightarrow> Inr None)))"

definition get_timeline :: "db \<Rightarrow> uuid \<Rightarrow> uuid option \<Rightarrow> PolicyError + RuntimePolicyLifecycleEvent list" where
  "get_timeline d key org = rmap (\<lambda>_. sort_key le_occurred_at (filter (\<lambda>e. le_policy_key e = key) (runtime_policy_lifecycle_events d))) (get_latest d key org)"

definition list_schedules :: "db \<Rightarrow> uuid option \<Rightarrow> uuid option \<Rightarrow> ScheduleStatus option \<Rightarrow> PolicyActivationSchedule list" where
  "list_schedules d org key st = sort_key sh_effective_at (filter (\<lambda>r. sh_organization_id r = org
     \<and> (key = None \<or> key = Some (sh_policy_key r)) \<and> (st = None \<or> st = Some (sh_status r))) (policy_activation_schedules d))"

definition effective_status :: "db \<Rightarrow> RuntimePolicyRecord \<Rightarrow> string" where
  "effective_status d r =
     (if rr_status r \<noteq> RETIRED then PolicyStatus_value (rr_status r)
      else if db_find (\<lambda>x. rr_policy_key x = rr_policy_key r \<and> rr_status x = ACTIVE \<and> rr_version x > rr_version r) (runtime_policy_records d) \<noteq> None
      then ''superseded'' else ''retired'')"

record PolicySearchFilters =
  pf_principal :: "string option"
  pf_resource :: "string option"
  pf_action :: "string option"
  pf_state :: "string option"
  pf_version :: "int option"
  pf_reviewer :: "string option"
  pf_created_after :: "datetime option"
  pf_created_before :: "datetime option"

text \<open>\<^verbatim>\<open>needle.lower() in (x or "").lower()\<close>; an absent or empty needle filters nothing.\<close>

definition contains_text :: "string option \<Rightarrow> string \<Rightarrow> bool" where
  "contains_text needle hay = (case needle of None \<Rightarrow> True | Some n \<Rightarrow> sublist (py_lower n) (py_lower hay))"

definition text_of :: "json \<Rightarrow> string" where
  "text_of j = (case j of JStr s \<Rightarrow> s | _ \<Rightarrow> [])"

definition search_matches :: "db \<Rightarrow> PolicySearchFilters \<Rightarrow> RuntimePolicyRecord \<Rightarrow> bool" where
  "search_matches d f r =
     (contains_text (pf_principal f) (text_of (sub_get (rr_content r) ''scope'' ''principal''))
      \<and> contains_text (pf_resource f) (text_of (sub_get (rr_content r) ''scope'' ''resource''))
      \<and> contains_text (pf_action f) (text_of (sub_get (rr_content r) ''scope'' ''action''))
      \<and> (case pf_state f of None \<Rightarrow> True | Some st \<Rightarrow> st = [] \<or> effective_status d r = st)
      \<and> contains_text (pf_reviewer f) (join '' '' (filter (\<lambda>x. x \<noteq> []) [text_of (sub_get (rr_content r) ''audit'' ''approved_by''),
            text_of (sub_get (rr_content r) ''audit'' ''rejected_by'')]))
      \<and> (case pf_created_after f of None \<Rightarrow> True | Some t \<Rightarrow> t \<le> rr_created_at r)
      \<and> (case pf_created_before f of None \<Rightarrow> True | Some t \<Rightarrow> rr_created_at r \<le> t))"

definition search_policies :: "db \<Rightarrow> uuid option \<Rightarrow> PolicySearchFilters \<Rightarrow> RuntimePolicyRecord list" where
  "search_policies d org f = filter (search_matches d f) (filter (\<lambda>r. pf_version f = None \<or> pf_version f = Some (rr_version r))
     (sort_key (\<lambda>r. (rr_policy_key r, rr_version r)) (filter (\<lambda>r. rr_organization_id r = org) (runtime_policy_records d))))"

record DashboardSummary =
  ds_counts_by_state :: "(string \<times> nat) list"
  ds_pending_approvals :: "RuntimePolicyRecord list"
  ds_upcoming_activations :: "PolicyActivationSchedule list"
  ds_upcoming_expirations :: "RuntimePolicyRecord list"
  ds_upcoming_retirement_schedules :: "PolicyActivationSchedule list"
  ds_recently_activated :: "RuntimePolicyRecord list"
  ds_deprecated_policies :: "RuntimePolicyRecord list"
  ds_rollback_history :: "RuntimePolicyRecord list"
  ds_conflict_alerts :: "(uuid \<times> int \<times> SafetyViolation list) list"
  ds_due_for_reattestation :: "RuntimePolicyRecord list"

definition conflict_alerts :: "set_order \<Rightarrow> db \<Rightarrow> uuid option \<Rightarrow> RuntimePolicyRecord list \<Rightarrow> PolicyError + (uuid \<times> int \<times> SafetyViolation list) list" where
  "conflict_alerts ord d org rows = rmap concat (rmapM (\<lambda>r.
     rmap (\<lambda>vs. if vs = [] then [] else [(rr_policy_key r, rr_version r, vs)]) (run_safety_checks ord d (rr_policy_key r) r org))
     (filter (\<lambda>r. rr_status r \<in> {APPROVED, COMPILED}) rows))"

definition get_dashboard :: "set_order \<Rightarrow> db \<Rightarrow> uuid option \<Rightarrow> datetime \<Rightarrow> PolicyError + DashboardSummary" where
  "get_dashboard ord d org now =
     (let rows = list_latest_policies d org None; pending = list_schedules d org None (Some SchPending)
      in rmap (\<lambda>alerts. \<lparr>ds_counts_by_state = foldl (\<lambda>m r. AList.map_default (effective_status d r) 1 (\<lambda>n. n + 1) m) [] rows,
           ds_pending_approvals = filter (\<lambda>r. rr_status r = PENDING_REVIEW) rows,
           ds_upcoming_activations = filter (\<lambda>x. sh_action x = SchActivate) pending,
           ds_upcoming_expirations = filter (\<lambda>r. rr_status r = ACTIVE \<and> rr_effective_until r \<noteq> None) rows,
           ds_upcoming_retirement_schedules = filter (\<lambda>x. sh_action x = SchRetire) pending,
           ds_recently_activated = take 10 (sort_key (\<lambda>r. - the (rr_activated_at r)) (filter (\<lambda>r. rr_activated_at r \<noteq> None) rows)),
           ds_deprecated_policies = filter (\<lambda>r. rr_status r = ACTIVE \<and> rr_deprecated_at r \<noteq> None) rows,
           ds_rollback_history = filter (\<lambda>r. rr_rollback_of_version r \<noteq> None) (filter (\<lambda>r. rr_organization_id r = org) (runtime_policy_records d)),
           ds_conflict_alerts = alerts, ds_due_for_reattestation = list_due_for_reattestation d org now\<rparr>) (conflict_alerts ord d org rows))"

end
