(* ===== verification/Policy_Deployment.thy ===== *)
theory Policy_Deployment
  imports Policy_Lifecycle
begin

text \<open>
  What the policy operations keep, together: the statuses of a version, the rule that was reviewed, and
  the agreement of the database with OPA.

  \<open>evolves\<close> is what one operation may do to the stored versions: move statuses along a table, insert one
  draft, and leave of every version all but its audit and constraints. Every operation is shown to be an
  instance of it, so the lifecycle contract applies to versions of policies, and one lemma carries the
  agreement with OPA over all operations that do not deploy or retire.
\<close>

section \<open>The rule of a version\<close>

definition rule_part :: "json \<Rightarrow> json" where
  "rule_part j = (case j of JObj ps \<Rightarrow> JObj (filter (\<lambda>(k, _). k \<notin> {''audit'', ''constraints''}) ps) | _ \<Rightarrow> j)"

definition enforced :: "RuntimePolicyRecord \<Rightarrow> uuid \<times> uuid \<times> int \<times> uuid option \<times> json" where
  "enforced r = (rr_id r, rr_policy_key r, rr_version r, rr_organization_id r, rule_part (rr_content r))"

lemma filter_other_key: "\<not> P k \<Longrightarrow> filter (\<lambda>(a, _). P a) (AList.update k v ps) = filter (\<lambda>(a, _). P a) ps"
  by (induction ps) auto

lemma rule_part_set_object: "k \<in> {''audit'', ''constraints''} \<Longrightarrow> rule_part (set_object k ps j) = rule_part j"
  by (cases j) (auto simp: rule_part_def set_object_def filter_other_key)

lemma rule_part_with_audit [simp]: "rule_part (with_audit kvs j) = rule_part j"
  by (simp add: with_audit_def rule_part_set_object)

lemma enforced_Pair: "enforced r = enforced r' \<Longrightarrow> rr_id r = rr_id r' \<and> rr_policy_key r = rr_policy_key r'
    \<and> rr_version r = rr_version r' \<and> rr_organization_id r = rr_organization_id r'"
  by (simp add: enforced_def)

section \<open>The statuses of a version\<close>

fun policy_move :: "PolicyStatus \<Rightarrow> PolicyStatus \<Rightarrow> bool" where
  "policy_move DRAFT t = (t \<in> {PENDING_REVIEW, ARCHIVED})"
| "policy_move PENDING_REVIEW t = (t \<in> {APPROVED, REJECTED, ARCHIVED})"
| "policy_move APPROVED t = (t \<in> {COMPILED, ARCHIVED})"
| "policy_move COMPILED t = (t \<in> {ACTIVE, ARCHIVED})"
| "policy_move ACTIVE t = (t = RETIRED)"
| "policy_move ARCHIVED t = False"
| "policy_move s t = (t = ARCHIVED)"

definition quiet_move :: "PolicyStatus \<Rightarrow> PolicyStatus \<Rightarrow> bool" where
  "quiet_move s t = (policy_move s t \<and> s \<noteq> ACTIVE \<and> t \<noteq> ACTIVE)"

definition deploy_move :: "PolicyStatus \<Rightarrow> PolicyStatus \<Rightarrow> bool" where
  "deploy_move s t = (s = COMPILED \<and> t = ACTIVE \<or> s = ACTIVE \<and> t = RETIRED)"

lemma moves: "quiet_move s t \<Longrightarrow> policy_move s t" "deploy_move s t \<Longrightarrow> policy_move s t"
  "s \<noteq> ACTIVE \<Longrightarrow> s \<noteq> ARCHIVED \<Longrightarrow> quiet_move s ARCHIVED"
  by (auto simp: quiet_move_def deploy_move_def) (cases s; simp)

definition evolves :: "(PolicyStatus \<Rightarrow> PolicyStatus \<Rightarrow> bool) \<Rightarrow> db \<Rightarrow> db \<Rightarrow> bool" where
  "evolves mv d d' = (\<exists>f new. runtime_policy_records d' = map f (runtime_policy_records d) @ new
     \<and> (\<forall>r \<in> set (runtime_policy_records d). enforced (f r) = enforced r \<and> (rr_status (f r) = rr_status r \<or> mv (rr_status r) (rr_status (f r))))
     \<and> (\<forall>r \<in> set new. rr_status r = DRAFT \<and> get_record_row d (rr_id r) = None) \<and> distinct (map rr_id new)
     \<and> (record_keys_unique d \<longrightarrow> record_keys_unique d'))"

definition ids_unique :: "db \<Rightarrow> bool" where
  "ids_unique d = distinct (map rr_id (runtime_policy_records d))"

definition one_active :: "db \<Rightarrow> bool" where
  "one_active d = (\<forall>r \<in> set (runtime_policy_records d). \<forall>r' \<in> set (runtime_policy_records d).
     rr_status r = ACTIVE \<and> rr_status r' = ACTIVE \<and> rr_policy_key r = rr_policy_key r' \<and> rr_organization_id r = rr_organization_id r'
     \<longrightarrow> rr_id r = rr_id r')"

definition policies_ok :: "db \<Rightarrow> bool" where
  "policies_ok d = (ids_unique d \<and> record_keys_unique d \<and> one_active d)"

lemma ids_unique_eq: "ids_unique d \<Longrightarrow> r \<in> set (runtime_policy_records d) \<Longrightarrow> r' \<in> set (runtime_policy_records d)
    \<Longrightarrow> rr_id r = rr_id r' \<Longrightarrow> r = r'"
  unfolding ids_unique_def by (meson distinct_map inj_onD)

lemma one_activeD: "one_active d \<Longrightarrow> r \<in> set (runtime_policy_records d) \<Longrightarrow> r' \<in> set (runtime_policy_records d) \<Longrightarrow> rr_status r = ACTIVE
    \<Longrightarrow> rr_status r' = ACTIVE \<Longrightarrow> rr_policy_key r = rr_policy_key r' \<Longrightarrow> rr_organization_id r = rr_organization_id r' \<Longrightarrow> rr_id r = rr_id r'"
  unfolding one_active_def by (drule (1) bspec, drule (1) bspec) simp

lemma get_record_row_mem: "get_record_row d i = Some r \<Longrightarrow> r \<in> set (runtime_policy_records d) \<and> rr_id r = i"
  unfolding get_record_row_def by (auto dest: db_find_Some)

lemma get_record_row_ids: "ids_unique d \<Longrightarrow> r \<in> set (runtime_policy_records d) \<Longrightarrow> get_record_row d (rr_id r) = Some r"
  unfolding get_record_row_def ids_unique_def by (rule db_find_unique)

lemma sort_head_mem: "(case sort_key k xs of [] \<Rightarrow> None | r # _ \<Rightarrow> Some r) = Some r \<Longrightarrow> r \<in> set xs"
  by (metis list.set_intros(1) list.case_eq_if option.sel option.distinct(1) hd_Cons_tl set_sort list.set_sel(1))

lemma latest_mem:
  "latest_version_row d key org = Some r \<Longrightarrow>
     r \<in> set (runtime_policy_records d) \<and> rr_policy_key r = key \<and> rr_organization_id r = org"
  unfolding latest_version_row_def
  by (drule sort_head_mem) auto

lemma active_rows_mem: "r \<in> set (active_rows d org) \<longleftrightarrow>
    r \<in> set (runtime_policy_records d) \<and> rr_status r = ACTIVE \<and> rr_organization_id r = org"
  by (auto simp: active_rows_def)

subsection \<open>Consequences of \<open>evolves\<close>\<close>

lemma evolvesE:
  assumes "evolves mv d d'"
  obtains f new where "runtime_policy_records d' = map f (runtime_policy_records d) @ new"
    and "\<And>r. r \<in> set (runtime_policy_records d) \<Longrightarrow> enforced (f r) = enforced r"
    and "\<And>r. r \<in> set (runtime_policy_records d) \<Longrightarrow> rr_status (f r) = rr_status r \<or> mv (rr_status r) (rr_status (f r))"
    and "\<And>r. r \<in> set new \<Longrightarrow> rr_status r = DRAFT \<and> get_record_row d (rr_id r) = None"
    and "distinct (map rr_id new)" and "record_keys_unique d \<Longrightarrow> record_keys_unique d'"
  using assms unfolding evolves_def by blast

lemma evolves_row:
  assumes "evolves mv d d'" and "get_record_row d i = Some r"
  shows "\<exists>r'. get_record_row d' i = Some r' \<and> enforced r' = enforced r \<and> (rr_status r' = rr_status r \<or> mv (rr_status r) (rr_status r'))"
proof -
  obtain f new where f: "runtime_policy_records d' = map f (runtime_policy_records d) @ new"
    and enf: "\<And>r. r \<in> set (runtime_policy_records d) \<Longrightarrow> enforced (f r) = enforced r"
    and st: "\<And>r. r \<in> set (runtime_policy_records d) \<Longrightarrow> rr_status (f r) = rr_status r \<or> mv (rr_status r) (rr_status (f r))"
    using evolvesE [OF assms(1)] by metis
  have "\<forall>r \<in> set R. rr_id (f r) = rr_id r \<Longrightarrow> db_find (\<lambda>r. rr_id r = i) R = Some r
      \<Longrightarrow> db_find (\<lambda>r. rr_id r = i) (map f R) = Some (f r)" for R
    by (induction R) (auto split: if_splits)
  moreover have "\<forall>r \<in> set (runtime_policy_records d). rr_id (f r) = rr_id r" using enf enforced_Pair by blast
  ultimately have "get_record_row d' i = Some (f r)"
    using assms(2) unfolding get_record_row_def f by (simp add: row_simps)
  moreover have "r \<in> set (runtime_policy_records d)" using get_record_row_mem [OF assms(2)] by simp
  ultimately show ?thesis using enf st by blast
qed

lemma evolves_ids:
  assumes "evolves mv d d'" and "ids_unique d"
  shows "ids_unique d'"
proof -
  obtain f new where f: "runtime_policy_records d' = map f (runtime_policy_records d) @ new"
    and enf: "\<And>r. r \<in> set (runtime_policy_records d) \<Longrightarrow> enforced (f r) = enforced r"
    and new: "\<And>r. r \<in> set new \<Longrightarrow> rr_status r = DRAFT \<and> get_record_row d (rr_id r) = None" and dist: "distinct (map rr_id new)"
    by (rule evolvesE [OF assms(1)]) blast
  have same: "map rr_id (map f (runtime_policy_records d)) = map rr_id (runtime_policy_records d)"
    unfolding map_map o_def by (rule map_cong [OF refl]) (use enf enforced_Pair in blast)
  have "rr_id ` set (runtime_policy_records d) \<inter> rr_id ` set new = {}"
    using new unfolding get_record_row_def by (force simp: db_find_None_iff)
  then have "distinct (map rr_id (runtime_policy_records d) @ map rr_id new)"
    using assms(2) dist unfolding ids_unique_def distinct_append set_map by simp
  then show ?thesis unfolding ids_unique_def f map_append same .
qed

lemma evolves_active:
  assumes "evolves quiet_move d d'"
  shows "enforced ` set (active_rows d' org) = enforced ` set (active_rows d org)"
proof -
  obtain f new where f: "runtime_policy_records d' = map f (runtime_policy_records d) @ new"
    and enf: "\<And>r. r \<in> set (runtime_policy_records d) \<Longrightarrow> enforced (f r) = enforced r"
    and st: "\<And>r. r \<in> set (runtime_policy_records d) \<Longrightarrow> rr_status (f r) = rr_status r \<or> quiet_move (rr_status r) (rr_status (f r))"
    and new: "\<And>r. r \<in> set new \<Longrightarrow> rr_status r = DRAFT \<and> get_record_row d (rr_id r) = None"
    by (rule evolvesE [OF assms]) blast
  have "set (active_rows d' org) = f ` set (active_rows d org)"
    unfolding active_rows_def set_sort f using st enf [THEN enforced_Pair] new
    by (auto simp: quiet_move_def image_iff) (metis quiet_move_def)+
  then show ?thesis using enf by (auto simp: active_rows_mem image_iff) (metis active_rows_mem)+
qed

lemma active_by_enforced:
  "one_active d \<longleftrightarrow> (\<forall>org. \<forall>x \<in> enforced ` set (active_rows d org). \<forall>y \<in> enforced ` set (active_rows d org).
     fst (snd x) = fst (snd y) \<longrightarrow> fst x = fst y)"
proof
  assume one: "one_active d"
  show "\<forall>org. \<forall>x \<in> enforced ` set (active_rows d org). \<forall>y \<in> enforced ` set (active_rows d org). fst (snd x) = fst (snd y) \<longrightarrow> fst x = fst y"
  proof (intro allI ballI impI)
    fix org x y assume "x \<in> enforced ` set (active_rows d org)" "y \<in> enforced ` set (active_rows d org)" and same: "fst (snd x) = fst (snd y)"
    then obtain r r' where "x = enforced r" "r \<in> set (active_rows d org)" "y = enforced r'" "r' \<in> set (active_rows d org)" by blast
    then show "fst x = fst y" using one same unfolding one_active_def active_rows_mem enforced_def by simp
  qed
next
  assume all: "\<forall>org. \<forall>x \<in> enforced ` set (active_rows d org). \<forall>y \<in> enforced ` set (active_rows d org). fst (snd x) = fst (snd y) \<longrightarrow> fst x = fst y"
  show "one_active d" unfolding one_active_def
  proof (intro ballI impI)
    fix r r' assume "r \<in> set (runtime_policy_records d)" "r' \<in> set (runtime_policy_records d)"
      and "rr_status r = ACTIVE \<and> rr_status r' = ACTIVE \<and> rr_policy_key r = rr_policy_key r' \<and> rr_organization_id r = rr_organization_id r'"
    then have "enforced r \<in> enforced ` set (active_rows d (rr_organization_id r))" "enforced r' \<in> enforced ` set (active_rows d (rr_organization_id r))"
      "fst (snd (enforced r)) = fst (snd (enforced r'))" by (auto simp: active_rows_mem enforced_def)
    then have "fst (enforced r) = fst (enforced r')" using all by blast
    then show "rr_id r = rr_id r'" by (simp add: enforced_def)
  qed
qed

lemma evolves_ok:
  assumes "evolves quiet_move d d'" and "policies_ok d"
  shows "policies_ok d'"
proof -
  have "record_keys_unique d'" using assms by (auto simp: policies_ok_def elim: evolvesE)
  moreover have "one_active d'" unfolding active_by_enforced evolves_active [OF assms(1)]
    unfolding active_by_enforced [symmetric] using assms(2) by (simp add: policies_ok_def)
  moreover have "ids_unique d'" using assms(2) evolves_ids [OF assms(1)] by (simp add: policies_ok_def)
  ultimately show ?thesis by (simp add: policies_ok_def)
qed

lemma evolves_mono: "evolves mv d d' \<Longrightarrow> (\<And>s t. mv s t \<Longrightarrow> mv' s t) \<Longrightarrow> evolves mv' d d'"
  unfolding evolves_def by blast

interpretation policy_versions: lifecycle "\<lambda>d i. map_option rr_status (get_record_row d i)" "evolves policy_move" policy_move
  by unfold_locales (auto dest!: evolves_row)

lemma filter_update_irrelevant:
  assumes "\<And>x. x \<in> set xs \<Longrightarrow> P x \<Longrightarrow> \<not> Q x \<and> \<not> Q (f x)"
  shows "filter Q (db_update P f xs) = filter Q xs"
  using assms by (induction xs) auto

section \<open>Every operation evolves the versions\<close>

text \<open>Operations that touch other tables, or the columns of a version outside of its status and rule.\<close>

lemma record_lifecycle_event_frame [simp]:
  "runtime_policy_records (record_lifecycle_event C eid key ver ty actor why pl org now d) = runtime_policy_records d"
  "policies (record_lifecycle_event C eid key ver ty actor why pl org now d) = policies d"
  "policy_activation_schedules (record_lifecycle_event C eid key ver ty actor why pl org now d) = policy_activation_schedules d"
  by (simp_all add: record_lifecycle_event_def Let_def)

lemma update_record_frame [simp]:
  "runtime_policy_records (update_record rid f d) = db_update (\<lambda>r. rr_id r = rid) f (runtime_policy_records d)"
  "policies (update_record rid f d) = policies d"
  "policy_activation_schedules (update_record rid f d) = policy_activation_schedules d"
  by (simp_all add: update_record_def)

lemma evolves_same: "runtime_policy_records d' = runtime_policy_records d \<Longrightarrow> evolves mv d d'"
  unfolding evolves_def by (rule exI [of _ id], rule exI [of _ "[]"]) (simp add: record_keys_unique_def)

lemma evolves_cong: "runtime_policy_records e = runtime_policy_records d' \<Longrightarrow> evolves mv d d' \<Longrightarrow> evolves mv d e"
  unfolding evolves_def record_keys_unique_def by simp

lemma evolves_update:
  assumes "ids_unique d" and "r \<in> set (runtime_policy_records d)"
    and "enforced (f r) = enforced r" and "rr_status (f r) = rr_status r \<or> mv (rr_status r) (rr_status (f r))"
  shows "evolves mv d (update_record (rr_id r) f d)"
proof -
  have f: "\<forall>x \<in> set (runtime_policy_records d). rr_id x = rr_id r \<longrightarrow> x = r"
    using assms(1,2) ids_unique_eq by blast
  then have enf: "\<forall>x \<in> set (runtime_policy_records d). enforced (if rr_id x = rr_id r then f x else x) = enforced x" using assms(3) by auto
  have "\<forall>x \<in> set (runtime_policy_records d). rr_status (if rr_id x = rr_id r then f x else x) = rr_status x
      \<or> mv (rr_status x) (rr_status (if rr_id x = rr_id r then f x else x))" using f assms(4) by auto
  moreover have keys: "map (\<lambda>x. (rr_policy_key x, rr_version x)) (db_update (\<lambda>x. rr_id x = rr_id r) f (runtime_policy_records d))
      = map (\<lambda>x. (rr_policy_key x, rr_version x)) (runtime_policy_records d)"
    unfolding db_update_def map_map o_def by (rule map_cong [OF refl]) (use enf enforced_Pair in metis)
  moreover have "record_keys_unique d \<longrightarrow> record_keys_unique (update_record (rr_id r) f d)"
    unfolding record_keys_unique_def update_record_frame keys by simp
  ultimately show ?thesis using enf unfolding evolves_def update_record_frame
    by (intro exI [of _ "\<lambda>x. if rr_id x = rr_id r then f x else x"] exI [of _ "[]"]) (simp add: db_update_def)
qed

lemma evolves_insert:
  assumes "insert_record r d = Inr d'" and "rr_status r = DRAFT" and "get_record_row d (rr_id r) = None"
  shows "evolves mv d d'"
  using assms unfolding evolves_def insert_record_def Let_def
  by (intro exI [of _ id] exI [of _ "[r]"]) (auto split: if_splits)

lemma get_latest_Inr [simp]: "get_latest d key org = Inr r \<longleftrightarrow> latest_version_row d key org = Some r"
  by (simp add: get_latest_def)

lemma record_returning_Inr [simp]: "record_returning rid d = Inr (d', r) \<longleftrightarrow> d' = d \<and> get_record_row d rid = Some r"
  by (auto simp: record_returning_def)

lemma transition_Inr:
  "transition key org ok what f ev d = Inr (d', r') \<longleftrightarrow>
     (\<exists>r. latest_version_row d key org = Some r \<and> ok (rr_status r) \<and> d' = ev r (update_record (rr_id r) f d)
        \<and> get_record_row d' (rr_id r) = Some r')"
  by (auto simp: transition_def)

lemma transition_evolves:
  assumes "transition key org ok what f ev d = Inr (d', r')" and "ids_unique d"
    and "\<And>r x. runtime_policy_records (ev r x) = runtime_policy_records x" and "\<And>r. enforced (f r) = enforced r"
    and "\<And>r. ok (rr_status r) \<Longrightarrow> rr_status (f r) = rr_status r \<or> mv (rr_status r) (rr_status (f r))"
  shows "evolves mv d d'"
proof -
  obtain r where r: "latest_version_row d key org = Some r" "ok (rr_status r)" "d' = ev r (update_record (rr_id r) f d)"
    using assms(1) by (auto simp: transition_Inr)
  show ?thesis unfolding r(3)
    by (rule evolves_cong [OF assms(3)], rule evolves_update) (use assms(2,4,5) r(2) latest_mem [OF r(1)] in auto)
qed

lemma create_policy_evolves:
  "create_policy C p org ap fresh rid eid now d = Inr (d', r) \<Longrightarrow> get_record_row d rid = None \<Longrightarrow> evolves mv d d'"
  by (auto simp: create_policy_def Let_def new_policy_record_def
      intro!: evolves_cong [OF record_lifecycle_event_frame(1)] elim!: evolves_insert)

lemma edit_policy_evolves:
  "edit_policy C key org p rid eid now d = Inr (d', r) \<Longrightarrow> get_record_row d rid = None \<Longrightarrow> evolves mv d d'"
  by (auto simp: edit_policy_def Let_def new_policy_record_def
      intro!: evolves_cong [OF record_lifecycle_event_frame(1)] elim!: evolves_insert)

lemma submit_evolves: "submit_for_review C key org eid now d = Inr (d', r) \<Longrightarrow> ids_unique d \<Longrightarrow> mv DRAFT PENDING_REVIEW \<Longrightarrow> evolves mv d d'"
  unfolding submit_for_review_def by (erule transition_evolves) (simp_all add: enforced_def)

lemma approve_evolves: "approve C key org ap au eid now d = Inr (d', r) \<Longrightarrow> ids_unique d \<Longrightarrow> mv PENDING_REVIEW APPROVED \<Longrightarrow> evolves mv d d'"
  unfolding approve_def by (erule transition_evolves) (simp_all add: enforced_def)

lemma reject_evolves: "reject C key org rv why ru eid now d = Inr (d', r) \<Longrightarrow> ids_unique d \<Longrightarrow> mv PENDING_REVIEW REJECTED \<Longrightarrow> evolves mv d d'"
  unfolding reject_def by (clarsimp simp del: split_paired_Ex) (erule transition_evolves; simp add: enforced_def)

lemma deprecate_evolves: "deprecate_policy C key org ac why eid now d = Inr (d', r) \<Longrightarrow> ids_unique d \<Longrightarrow> evolves mv d d'"
  unfolding deprecate_policy_def by (erule transition_evolves) (simp_all add: enforced_def)

lemma attest_evolves: "attest_policy C key org ac why days eid now d = Inr (d', r) \<Longrightarrow> ids_unique d \<Longrightarrow> evolves mv d d'"
  unfolding attest_policy_def by (erule transition_evolves) (simp_all add: enforced_def)

lemma mark_activated_evolves: "mark_activated C key org ac why eid now d = Inr (d', r) \<Longrightarrow> ids_unique d \<Longrightarrow> evolves mv d d'"
  unfolding mark_activated_def by (erule transition_evolves) (simp_all add: enforced_def)

lemma archive_evolves:
  assumes "archive_policy C key org ac why eid now d = Inr (d', r)" and "ids_unique d"
    and "\<And>s. s \<noteq> ACTIVE \<Longrightarrow> s \<noteq> ARCHIVED \<Longrightarrow> mv s ARCHIVED"
  shows "evolves mv d d'"
proof -
  obtain l where l: "latest_version_row d key org = Some l" "rr_status l \<noteq> ACTIVE" "rr_status l \<noteq> ARCHIVED"
    "d' = record_lifecycle_event C eid key (rr_version l) ''archived'' (Some ac) why JNull org now
       (update_record (rr_id l) (\<lambda>r. r\<lparr>rr_status := ARCHIVED\<rparr>) d)"
    using assms(1) by (auto simp: archive_policy_def transition_Inr)
  have "mv (rr_status l) ARCHIVED" by (rule assms(3) [OF l(2,3)])
  then show ?thesis unfolding l(4)
    by (intro evolves_cong [OF record_lifecycle_event_frame(1)] evolves_update) (use assms(2) latest_mem [OF l(1)] in \<open>auto simp: enforced_def\<close>)
qed


lemma compile_evolves:
  assumes "compile_policy C ord key org eid now d = Inr (d', out)" and "ids_unique d" and "mv APPROVED COMPILED"
  shows "evolves mv d d'"
  using assms by (auto simp: compile_policy_def Let_def evolves_same enforced_def dest: latest_mem
    split: option.splits if_splits intro!: evolves_cong [OF record_lifecycle_event_frame(1)] evolves_update)

lemma db_update_fresh: "get_record_row d rid = None \<Longrightarrow> db_update (\<lambda>r. rr_id r = rid) f (runtime_policy_records d) = runtime_policy_records d"
  unfolding get_record_row_def by (rule db_update_id) (auto simp: db_find_None_iff)

lemma rollback_evolves:
  assumes "rollback_policy C key org v ac why ids now d = Inr (d', r)" and "get_record_row d (new_record_id ids) = None"
  shows "evolves mv d d'"
proof -
  obtain p d1 x where p: "edit_policy C key org p (new_record_id ids) (new_event_id ids) now d = Inr (d1, x)"
    and d': "runtime_policy_records d' = runtime_policy_records (update_record (rr_id x) (\<lambda>x. x\<lparr>rr_rollback_of_version := Some v\<rparr>) d1)"
    using assms(1) by (auto simp: rollback_policy_def Let_def)
  obtain d2 where y: "insert_record x d = Inr d2" "runtime_policy_records d1 = runtime_policy_records d2" "rr_id x = new_record_id ids"
      "rr_status x = DRAFT"
    using p by (auto simp: edit_policy_def Let_def new_policy_record_def)
  let ?x = "x\<lparr>rr_rollback_of_version := Some v\<rparr>"
  have 1: "runtime_policy_records d' = runtime_policy_records (d\<lparr>runtime_policy_records := runtime_policy_records d @ [?x]\<rparr>)"
    using y(1,2,3) assms(2) unfolding d' by (auto simp: insert_record_def Let_def db_update_fresh split: if_splits)
  have 2: "insert_record ?x d = Inr (d\<lparr>runtime_policy_records := runtime_policy_records d @ [?x]\<rparr>)"
    using y(1) by (auto simp: insert_record_def Let_def record_keys_unique_def split: if_splits)
  show ?thesis by (rule evolves_cong [OF 1 evolves_insert [OF 2]]) (use y(3,4) assms(2) in simp_all)
qed

section \<open>Deployment\<close>

lemma check_deployment_Inr:
  assumes "check_deployment C ord key org now d = Inr (r, b)"
  shows "latest_version_row d key org = Some r" and "rr_status r = COMPILED"
    and "\<exists>result. compile_with_active C ord org r now d = Inr result \<and> compile_ok result \<and> cr_bundle result = Some b"
  using assms by (auto simp: check_deployment_def split: if_splits)

lemma reserve_frame:
  assumes "reserve_policy_row seen pid r org b now d = Inr d1"
  shows "runtime_policy_records d1 = runtime_policy_records d" and "policy_activation_schedules d1 = policy_activation_schedules d"
  using assms by (auto simp: reserve_policy_row_def Let_def split: if_splits option.splits)

lemma ensure_mandate_frame:
  assumes "ensure_mandate cons pid mid now d = Inr (d', cons')"
  shows "runtime_policy_records d' = runtime_policy_records d" and "policy_activation_schedules d' = policy_activation_schedules d"
  using assms by (auto simp: ensure_mandate_def Let_def split: if_splits option.splits)

definition activated :: "uuid \<Rightarrow> uuid option \<Rightarrow> RuntimePolicyRecord \<Rightarrow> (string \<times> json) list \<Rightarrow> datetime \<Rightarrow> RuntimePolicyRecord \<Rightarrow> RuntimePolicyRecord" where
  "activated key org r cons now x =
     (if rr_id x = rr_id r then x\<lparr>rr_content := with_audit [(''deployed'', JStr (isoformat now))] (set_object ''constraints'' cons (rr_content r)), rr_status := ACTIVE\<rparr>
      else if rr_policy_key x = key \<and> rr_status x = ACTIVE \<and> rr_organization_id x = org then x\<lparr>rr_status := RETIRED\<rparr> else x)"

lemma activate_record_frame:
  "activate_record key org pid mid now r d = Inr (d2, cons) \<Longrightarrow> policy_activation_schedules d2 = policy_activation_schedules d"
  by (auto simp: activate_record_def Let_def dest: ensure_mandate_frame split: option.splits if_splits)

lemma activate_record_rows:
  assumes "activate_record key org pid mid now r d = Inr (d2, cons)" and "ids_unique d" "one_active d"
    and "r \<in> set (runtime_policy_records d)" "rr_status r = COMPILED"
  shows "runtime_policy_records d2 = map (activated key org r cons now) (runtime_policy_records d)"
proof -
  let ?P = "\<lambda>x. rr_policy_key x = key \<and> rr_status x = ACTIVE \<and> rr_organization_id x = org"
  let ?g = "\<lambda>x. x\<lparr>rr_content := with_audit [(''deployed'', JStr (isoformat now))] (set_object ''constraints'' cons (rr_content r)), rr_status := ACTIVE\<rparr>"
  have r: "rr_id x = rr_id r \<longleftrightarrow> x = r" if "x \<in> set (runtime_policy_records d)" for x
    using ids_unique_eq [OF assms(2)] assms(4) that by blast
  show ?thesis
  proof (cases "db_find ?P (runtime_policy_records d)")
    case None
    then have none: "\<not> ?P x" if "x \<in> set (runtime_policy_records d)" for x using that by (auto simp: db_find_None_iff)
    have "runtime_policy_records d2 = db_update (\<lambda>x. rr_id x = rr_id r) ?g (runtime_policy_records d)"
      using assms(1) None by (auto simp: activate_record_def Let_def dest!: ensure_mandate_frame(1))
    then show ?thesis using none by (auto simp: db_update_def activated_def)
  next
    case (Some p)
    note p = db_find_Some [OF Some]
    have ne: "rr_id p \<noteq> rr_id r" using r [of p] p assms(5) by auto
    have only: "?P x \<longleftrightarrow> rr_id x = rr_id p" if "x \<in> set (runtime_policy_records d)" for x
    proof
      assume "?P x" then show "rr_id x = rr_id p" using one_activeD [OF assms(3) that, of p] p by simp
    next
      assume "rr_id x = rr_id p" then show "?P x" using ids_unique_eq [OF assms(2) that, of p] p by blast
    qed
    obtain cs d3 where d3: "ensure_mandate cs pid mid now (update_record (rr_id p) (\<lambda>x. x\<lparr>rr_status := RETIRED\<rparr>) d) = Inr (d3, cons)"
        "d2 = update_record (rr_id r) ?g d3"
      using assms(1) Some ne by (simp add: activate_record_def) blast
    have "runtime_policy_records d2 = db_update (\<lambda>x. rr_id x = rr_id r) ?g
        (db_update (\<lambda>x. rr_id x = rr_id p) (\<lambda>x. x\<lparr>rr_status := RETIRED\<rparr>) (runtime_policy_records d))"
      using ensure_mandate_frame(1) [OF d3(1)] d3(2) by simp
    also have "\<dots> = map (activated key org r cons now) (runtime_policy_records d)"
      unfolding db_update_def map_map o_def by (rule map_cong [OF refl]) (use only ne in \<open>simp add: activated_def\<close>)
    finally show ?thesis .
  qed
qed

text \<open>The active versions after a deployment: the deployed one, and those of the other keys.\<close>

lemma activate_record_evolves:
  assumes "activate_record key org pid mid now r d = Inr (d2, cons)" and "policies_ok d"
    and "r \<in> set (runtime_policy_records d)" "rr_status r = COMPILED" and "rr_policy_key r = key" "rr_organization_id r = org"
  shows "evolves deploy_move d d2"
    and "enforced ` set (active_rows d2 org') =
      (if org' = org then insert (enforced r) (enforced ` {x \<in> set (active_rows d org). rr_policy_key x \<noteq> key})
       else enforced ` set (active_rows d org'))"
proof -
  let ?f = "activated key org r cons now"
  have ids: "ids_unique d" and one: "one_active d" and keys: "record_keys_unique d" using assms(2) by (simp_all add: policies_ok_def)
  have rows: "runtime_policy_records d2 = map ?f (runtime_policy_records d)"
    by (rule activate_record_rows [OF assms(1) ids one assms(3,4)])
  have r: "rr_id x = rr_id r \<longleftrightarrow> x = r" if "x \<in> set (runtime_policy_records d)" for x
    using ids_unique_eq [OF ids] assms(3) that by blast
  have enf: "enforced (?f x) = enforced x" if "x \<in> set (runtime_policy_records d)" for x
    using r [OF that] by (simp add: activated_def enforced_def rule_part_set_object)
  have st: "rr_status (?f x) = rr_status x \<or> deploy_move (rr_status x) (rr_status (?f x))" if "x \<in> set (runtime_policy_records d)" for x
    using r [OF that] assms(4) by (auto simp: activated_def deploy_move_def)
  have same: "map (\<lambda>x. (rr_policy_key x, rr_version x)) (map ?f (runtime_policy_records d)) = map (\<lambda>x. (rr_policy_key x, rr_version x)) (runtime_policy_records d)"
    unfolding map_map o_def by (rule map_cong [OF refl]) (use enf enforced_Pair in metis)
  have "record_keys_unique d2" using keys unfolding record_keys_unique_def rows same .
  then show "evolves deploy_move d d2" unfolding evolves_def using rows enf st by (intro exI [of _ ?f] exI [of _ "[]"]) simp
  have act: "?f x \<in> set (active_rows d2 org') \<longleftrightarrow> (if x = r then org' = org else x \<in> set (active_rows d org') \<and> (org' = org \<longrightarrow> rr_policy_key x \<noteq> key))"
    if "x \<in> set (runtime_policy_records d)" for x
    using r [OF that] that assms(5,6) by (auto simp: active_rows_mem rows activated_def)
  have "set (active_rows d2 org') = ?f ` {x \<in> set (runtime_policy_records d). ?f x \<in> set (active_rows d2 org')}"
    by (auto simp: active_rows_mem rows)
  then have "enforced ` set (active_rows d2 org') = (\<lambda>x. enforced (?f x)) ` {x \<in> set (runtime_policy_records d). ?f x \<in> set (active_rows d2 org')}"
    by (metis image_image)
  also have "\<dots> = enforced ` {x \<in> set (runtime_policy_records d). ?f x \<in> set (active_rows d2 org')}"
    by (rule image_cong [OF refl]) (use enf in blast)
  also have "{x \<in> set (runtime_policy_records d). ?f x \<in> set (active_rows d2 org')} = {x \<in> set (runtime_policy_records d).
      if x = r then org' = org else x \<in> set (active_rows d org') \<and> (org' = org \<longrightarrow> rr_policy_key x \<noteq> key)}"
    using act by (intro Collect_cong conj_cong refl)
  also have "\<dots> =
      (if org' = org then insert r {x \<in> set (active_rows d org). rr_policy_key x \<noteq> key} else set (active_rows d org'))"
    using assms(3,4,5,6) by (auto simp: active_rows_mem)
  finally show "enforced ` set (active_rows d2 org') =
      (if org' = org then insert (enforced r) (enforced ` {x \<in> set (active_rows d org). rr_policy_key x \<noteq> key})
       else enforced ` set (active_rows d org'))" by simp
qed

section \<open>The agreement with OPA\<close>

definition opa_policy_id :: "uuid option \<Rightarrow> string" where
  "opa_policy_id org = snd (opa_package_and_policy_id org)"

text \<open>\<open>m\<close> is the module compiled from these rows and named as the organization's.\<close>

definition module_of :: "crypto \<Rightarrow> uuid option \<Rightarrow> RuntimePolicyRecord list \<Rightarrow> string \<Rightarrow> bool" where
  "module_of C org rows m = (\<exists>ord bid ver now ps result b. rmapM row_to_policy rows = Inr ps
     \<and> compile_bundle C ord GENERIC_VOCABULARY ps bid ver now = Inr result \<and> compile_ok result \<and> cr_bundle result = Some b
     \<and> organization_rego org (rego_source b) = Inr m)"

text \<open>OPA decides by the active versions: their rules, each once, or no module when there are none.\<close>

definition opa_current :: "crypto \<Rightarrow> uuid option \<Rightarrow> db \<Rightarrow> opa_store \<Rightarrow> bool" where
  "opa_current C org d opa = (case opa (opa_policy_id org) of
     None \<Rightarrow> active_rows d org = []
   | Some m \<Rightarrow> \<exists>rows. distinct (map rr_id rows) \<and> enforced ` set rows = enforced ` set (active_rows d org) \<and> module_of C org rows m)"

lemma enforced_empty: "enforced ` set (active_rows d org) = enforced ` set (active_rows d' org) \<Longrightarrow> active_rows d org = [] \<longleftrightarrow> active_rows d' org = []"
  by (metis image_is_empty set_empty)

lemma opa_current_cong:
  assumes "opa_current C org d opa" and "enforced ` set (active_rows d' org) = enforced ` set (active_rows d org)"
    and "opa' (opa_policy_id org) = opa (opa_policy_id org)"
  shows "opa_current C org d' opa'"
  using assms(1) enforced_empty [OF assms(2)] unfolding opa_current_def assms(2,3) by (simp split: option.splits)

lemma active_rows_cong: "runtime_policy_records d' = runtime_policy_records d \<Longrightarrow> active_rows d' org = active_rows d org"
  by (simp add: active_rows_def)

lemma ids_cong: "runtime_policy_records d' = runtime_policy_records d \<Longrightarrow> policies_ok d' = policies_ok d"
  unfolding policies_ok_def ids_unique_def record_keys_unique_def one_active_def by simp

lemma opa_put_Done [simp]: "opa_put OpaDone pid m opa = (Inr (), opa(pid := m))"
  by (simp add: opa_put_def)

lemma active_ids_distinct: "ids_unique d \<Longrightarrow> distinct (map rr_id (active_rows d org))"
proof -
  assume "ids_unique d"
  then show ?thesis unfolding active_rows_def ids_unique_def distinct_map by (auto intro: inj_on_subset)
qed

lemma reconciled_module_current:
  assumes "reconciled_module C ord org bid now d = Inr m" and "ids_unique d"
  shows "opa_current C org d (opa(opa_policy_id org := m))"
proof (cases "active_rows d org = []")
  case True
  then show ?thesis using assms(1) by (simp add: reconciled_module_def opa_current_def)
next
  case False
  then obtain ps result b rego where "rmapM row_to_policy (active_rows d org) = Inr ps"
    "compile_bundle C ord GENERIC_VOCABULARY ps bid 1 now = Inr result" "compile_ok result" "cr_bundle result = Some b"
    "organization_rego org (rego_source b) = Inr rego" "m = Some rego"
    using assms(1) by (auto simp: reconciled_module_def split: option.splits if_splits)
  then have "module_of C org (active_rows d org) rego" "m = Some rego" unfolding module_of_def by blast+
  then show ?thesis using active_ids_distinct [OF assms(2)] by (auto simp: opa_current_def)
qed

lemma reconcile_current:
  assumes "ids_unique d" and "is_ok (reconciled_module C ord org ''reconcile'' now d)"
    and "reconcile_organization_opa_state C ord org OpaDone now d opa = (x, opa')"
  shows "opa_current C org d opa'" and "\<And>p. p \<noteq> opa_policy_id org \<Longrightarrow> opa' p = opa p" and "x = Inr ()"
proof -
  obtain m where m: "reconciled_module C ord org ''reconcile'' now d = Inr m"
    using assms(2) by (cases "reconciled_module C ord org ''reconcile'' now d") auto
  then have o: "opa' = opa(opa_policy_id org := m)" "x = Inr ()" using assms(3) by (auto simp: reconcile_organization_opa_state_def opa_policy_id_def)
  show "opa_current C org d opa'" unfolding o by (rule reconciled_module_current [OF m assms(1)])
  show "\<And>p. p \<noteq> opa_policy_id org \<Longrightarrow> opa' p = opa p" "x = Inr ()" using o by simp_all
qed

text \<open>One attempt, and the retries, when nothing else runs: the deployment, or the state as it was.\<close>

definition deployed_from :: "crypto \<Rightarrow> uuid \<Rightarrow> uuid option \<Rightarrow> db \<Rightarrow> opa_store \<Rightarrow> db \<Rightarrow> opa_store \<Rightarrow> bool" where
  "deployed_from C key org d opa d' opa' = (evolves deploy_move d d' \<and> one_active d' \<and> opa_current C org d' opa'
     \<and> (\<exists>r r'. latest_version_row d key org = Some r \<and> rr_status r = COMPILED \<and> get_record_row d' (rr_id r) = Some r'
         \<and> rr_status r' = ACTIVE \<and> enforced r' = enforced r)
     \<and> (\<forall>org'. org' \<noteq> org \<longrightarrow> enforced ` set (active_rows d' org') = enforced ` set (active_rows d org'))
     \<and> (\<forall>p. p \<noteq> opa_policy_id org \<longrightarrow> opa' p = opa p) \<and> policy_activation_schedules d' = policy_activation_schedules d)"

definition undone :: "crypto \<Rightarrow> uuid option \<Rightarrow> db \<Rightarrow> opa_store \<Rightarrow> db \<Rightarrow> opa_store \<Rightarrow> bool" where
  "undone C org d opa d' opa' = (d' = d \<and> (opa' = opa \<or> opa_current C org d opa' \<and> (\<forall>p. p \<noteq> opa_policy_id org \<longrightarrow> opa' p = opa p)))"

lemma roll_back_undone:
  assumes "roll_back C ord org w now d opa1 e = (x, d', opa')" and "ids_unique d" and "w_reconcile w = OpaDone"
    and "is_ok (reconciled_module C ord org ''reconcile'' now d)" and "\<And>p. p \<noteq> opa_policy_id org \<Longrightarrow> opa1 p = opa p"
  shows "x = Inl e" and "undone C org d opa d' opa'"
proof -
  obtain y opa2 where r: "reconcile_organization_opa_state C ord org OpaDone now d opa1 = (y, opa2)"
    by (rule prod.exhaust)
  note c = reconcile_current [OF assms(2,4) r]
  have "x = Inl e" "d' = d" "opa' = opa2" using assms(1,3) r c(3) by (auto simp: roll_back_def)
  then show "x = Inl e" and "undone C org d opa d' opa'" using c(1,2) assms(5) by (auto simp: undone_def)
qed

lemma opa_put_frame: "opa_put call pid m opa = (x, opa') \<Longrightarrow> p \<noteq> pid \<Longrightarrow> opa' p = opa p"
  by (auto simp: opa_put_def split: if_splits)

lemma opa_put_Inr: "opa_put call pid m opa = (Inr u, opa') \<Longrightarrow> opa' = opa(pid := m)"
  by (auto simp: opa_put_def split: if_splits)

lemma deployed_current:
  assumes "check_deployment C ord key org now d = Inr (r, b)" and "policies_ok d" and "organization_rego org (rego_source b) = Inr rego"
    and same: "runtime_policy_records d1 = runtime_policy_records d" "policy_activation_schedules d1 = policy_activation_schedules d"
    and act: "activate_record key org pid mid now r d1 = Inr (d2, cons)"
  shows "deployed_from C key org d opa d2 (opa(opa_policy_id org := Some rego))"
proof -
  note c = check_deployment_Inr [OF assms(1)]
  note r = latest_mem [OF c(1)]
  have ids: "ids_unique d" and one: "one_active d" using assms(2) by (simp_all add: policies_ok_def)
  note ev = activate_record_evolves [OF act assms(2) [folded ids_cong [OF same(1)]] _ c(2), unfolded same(1) active_rows_cong [OF same(1)]]
  have mem: "r \<in> set (runtime_policy_records d)" "rr_policy_key r = key" "rr_organization_id r = org" using r by simp_all
  let ?rows = "r # filter (\<lambda>x. rr_policy_key x \<noteq> key) (active_rows d org)"
  obtain result p ps where res: "row_to_policy r = Inr p" "rmapM row_to_policy (filter (\<lambda>x. rr_policy_key x \<noteq> key) (active_rows d org)) = Inr ps"
    "compile_bundle C ord GENERIC_VOCABULARY (p # ps) (bundle_id_for key (rr_version r)) (rr_version r) now = Inr result"
    "compile_ok result" "cr_bundle result = Some b"
    using c(3) mem(2) by (auto simp: compile_with_active_def other_active_policies_def)
  have "rmapM row_to_policy ?rows = Inr (p # ps)" using res(1,2) by simp
  then have "module_of C org ?rows rego" unfolding module_of_def using res(3,4,5) assms(3) by blast
  moreover have "enforced ` set ?rows = enforced ` set (active_rows d2 org)"
    unfolding ev(2) [OF mem] by simp
  moreover have "distinct (map rr_id ?rows)"
  proof -
    have "rr_id r \<notin> rr_id ` set (active_rows d org)" using c(2) ids_unique_eq [OF ids mem(1)] by (auto simp: active_rows_mem)
    then show ?thesis using active_ids_distinct [OF ids, of org] by (auto simp: distinct_map_filter)
  qed
  ultimately have "opa_current C org d2 (opa(opa_policy_id org := Some rego))"
    unfolding opa_current_def fun_upd_same option.case by (intro exI [of _ ?rows]) simp
  moreover have "one_active d2" unfolding active_by_enforced
  proof (intro allI ballI impI)
    fix org' x y assume "x \<in> enforced ` set (active_rows d2 org')" "y \<in> enforced ` set (active_rows d2 org')" and eq: "fst (snd x) = fst (snd y)"
    moreover have "x \<in> enforced ` set (active_rows d org') \<Longrightarrow> y \<in> enforced ` set (active_rows d org') \<Longrightarrow> fst x = fst y"
      using one eq unfolding active_by_enforced by blast
    ultimately show "fst x = fst y" unfolding ev(2) [OF mem] using mem(2) by (auto simp: enforced_def split: if_splits)
  qed
  moreover have "\<exists>r'. get_record_row d2 (rr_id r) = Some r' \<and> rr_status r' = ACTIVE \<and> enforced r' = enforced r"
  proof -
    have "enforced r \<in> enforced ` set (active_rows d2 org)" unfolding ev(2) [OF mem] by simp
    then obtain r' where r': "r' \<in> set (active_rows d2 org)" "enforced r' = enforced r" by auto
    have "ids_unique d1" using ids same(1) by (simp add: ids_unique_def)
    with evolves_ids [OF activate_record_evolves(1) [OF act assms(2) [folded ids_cong [OF same(1)]] _ c(2)]] mem same(1)
    have "ids_unique d2" by simp
    then have "get_record_row d2 (rr_id r') = Some r'" using r'(1) by (intro get_record_row_ids) (simp_all add: active_rows_mem)
    then show ?thesis using r' enforced_Pair [OF r'(2)] by (auto simp: active_rows_mem)
  qed
  moreover have "evolves deploy_move d d2" using ev(1) [OF mem] same(1) by (simp add: evolves_def get_record_row_def record_keys_unique_def)
  ultimately show ?thesis using ev(2) [OF mem] activate_record_frame [OF act] same(2) c(1,2) by (simp add: deployed_from_def)
qed

definition settles :: "crypto \<Rightarrow> uuid \<Rightarrow> uuid option \<Rightarrow> db \<Rightarrow> opa_store \<Rightarrow> (PolicyError + DeployOutcome) \<times> db \<times> opa_store \<Rightarrow> bool" where
  "settles C key org d opa r = (case r of (Inl _, d', opa') \<Rightarrow> undone C org d opa d' opa' | (Inr _, d', opa') \<Rightarrow> deployed_from C key org d opa d' opa')"

lemma roll_back_settles:
  assumes "ids_unique d" and "w_reconcile w = OpaDone" and "is_ok (reconciled_module C ord org ''reconcile'' now d)"
    and "\<And>p. p \<noteq> opa_policy_id org \<Longrightarrow> opa1 p = opa p"
  shows "settles C key org d opa (roll_back C ord org w now d opa1 e)"
proof -
  obtain x :: "PolicyError + DeployOutcome" and d' opa' where r: "roll_back C ord org w now d opa1 e = (x, d', opa')" by (rule prod_cases3)
  show ?thesis using roll_back_undone [OF r assms] unfolding r settles_def by simp
qed

lemma attempt_settles:
  assumes "policies_ok d" and "w_reconcile w = OpaDone" and "is_ok (reconciled_module C ord org ''reconcile'' now d)"
  shows "settles C key org d opa (deploy_policy_attempt C ord key org pid mid now w d d opa)"
proof (cases "check_deployment C ord key org now d")
  case (Inl e)
  then show ?thesis by (simp add: deploy_policy_attempt_def settles_def undone_def)
next
  case (Inr rb)
  then obtain r b where c: "check_deployment C ord key org now d = Inr (r, b)" by (cases rb) auto
  have ids: "ids_unique d" using assms(1) by (simp add: policies_ok_def)
  note rolled = roll_back_settles [OF ids assms(2,3)]
  show ?thesis
  proof (cases "reserve_policy_row d pid r org b now d")
    case (Inl e)
    then show ?thesis by (simp add: deploy_policy_attempt_def c settles_def undone_def)
  next
    case (Inr d1)
    note d1 = reserve_frame [OF Inr]
    show ?thesis
    proof (cases "organization_rego org (rego_source b)")
      case (Inl e)
      then show ?thesis using rolled by (simp add: deploy_policy_attempt_def c Inr)
    next
      case rego: (Inr rego)
      obtain u opa1 where put: "opa_put (w_upload w) (opa_policy_id org) (Some rego) opa = (u, opa1)" by (rule prod.exhaust)
      note frame = opa_put_frame [OF put]
      show ?thesis
      proof (cases u)
        case (Inl e)
        then show ?thesis using rolled [OF frame] put by (simp add: deploy_policy_attempt_def c Inr rego opa_policy_id_def)
      next
        case u: (Inr v)
        then have opa1: "opa1 = opa(opa_policy_id org := Some rego)" using opa_put_Inr put by blast
        show ?thesis
        proof (cases "activate_record key org pid mid now r d1")
          case (Inl e)
          then show ?thesis using rolled [OF frame] put u by (simp add: deploy_policy_attempt_def c Inr rego opa_policy_id_def)
        next
          case act: (Inr dc)
          then obtain d2 cons where act: "activate_record key org pid mid now r d1 = Inr (d2, cons)" by (cases dc) auto
          have "settles C key org d opa (Inr x, d2, opa1)" for x
            using deployed_current [OF c assms(1) rego d1 act] unfolding settles_def opa1 by simp
          then show ?thesis using rolled [OF frame] put u act by (simp add: deploy_policy_attempt_def c Inr rego opa_policy_id_def)
        qed
      qed
    qed
  qed
qed

text \<open>With nothing else running, every attempt does what the first did.\<close>

lemma deploy_attempts_settle:
  assumes "policies_ok d" and "w_reconcile w = OpaDone" and "is_ok (reconciled_module C ord org ''reconcile'' now d)"
    and "undone C org d opa d' opa'"
  shows "settles C key org d opa (deploy_attempts C ord key org pid mid now w (replicate n (d, d, opa)) d' opa')"
  using assms(4)
proof (induction n arbitrary: d' opa')
  case 0
  then have "d' = d" "\<And>p. p \<noteq> opa_policy_id org \<Longrightarrow> opa' p = opa p" by (auto simp: undone_def)
  then show ?case using roll_back_settles [OF _ assms(2,3)] assms(1) by (simp add: policies_ok_def)
next
  case (Suc n)
  let ?a = "deploy_policy_attempt C ord key org pid mid now w d d opa"
  have a: "settles C key org d opa ?a" by (rule attempt_settles [OF assms(1,2,3)])
  obtain x d1 opa1 where x: "?a = (x, d1, opa1)" by (rule prod_cases3)
  show ?case
  proof (cases "x = Inl PolicyIntegrityError")
    case True
    then show ?thesis using Suc.IH [of d1 opa1] a x by (simp add: settles_def)
  next
    case False
    then have "deploy_attempts C ord key org pid mid now w (replicate (Suc n) (d, d, opa)) d' opa' = ?a"
      using x by (auto split: sum.splits PolicyError.splits)
    then show ?thesis using a by simp
  qed
qed

lemma deploy_now_settles:
  assumes "policies_ok d" and "w_reconcile w = OpaDone" and "is_ok (reconciled_module C ord org ''reconcile'' now d)"
  shows "settles C key org d opa (deploy_now C ord key org ids now w (d, opa))"
  using deploy_attempts_settle [OF assms, of opa d opa key "new_policy_id ids" "new_mandate_id ids" MAX_DEPLOY_ATTEMPTS]
  by (simp add: deploy_now_def deploy_policy_def undone_def map_replicate_const)

section \<open>Retirement\<close>

lemma retired_rows:
  assumes "policies_ok d" and "r \<in> set (runtime_policy_records d)" and "rr_status r = ACTIVE"
  defines "d1 \<equiv> update_record (rr_id r) (\<lambda>x. x\<lparr>rr_status := RETIRED\<rparr>) d"
  shows "evolves deploy_move d d1" and "set (active_rows d1 org) = {x \<in> set (active_rows d org). rr_id x \<noteq> rr_id r}"
proof -
  show "evolves deploy_move d d1" unfolding d1_def
    by (rule evolves_update) (use assms in \<open>simp_all add: policies_ok_def enforced_def deploy_move_def\<close>)
  show "set (active_rows d1 org) = {x \<in> set (active_rows d org). rr_id x \<noteq> rr_id r}"
    by (auto simp: active_rows_mem d1_def set_db_update)
qed

lemma one_active_subset:
  assumes "one_active d" and "\<And>org. set (active_rows d1 org) \<subseteq> set (active_rows d org)"
  shows "one_active d1"
proof -
  have "enforced ` set (active_rows d1 org) \<subseteq> enforced ` set (active_rows d org)" for org by (rule image_mono [OF assms(2)])
  then show ?thesis using assms(1) unfolding active_by_enforced by (meson subsetD)
qed

lemma evolves_ok_one: "evolves mv d d' \<Longrightarrow> policies_ok d \<Longrightarrow> one_active d' \<Longrightarrow> policies_ok d'"
  using evolves_ids [of mv d d'] by (auto simp: policies_ok_def elim: evolvesE)

lemma retire_settles:
  assumes "retire_policy C ord key org actor why eid now OpaDone (d, opa) = (x, d', opa')" and "policies_ok d"
    and "is_ok (reconciled_module C ord org ''reconcile'' now d')"
  shows "(d', opa') = (d, opa) \<or> (evolves deploy_move d d' \<and> one_active d' \<and> opa_current C org d' opa'
     \<and> (\<forall>org'. org' \<noteq> org \<longrightarrow> active_rows d' org' = active_rows d org') \<and> (\<forall>p. p \<noteq> opa_policy_id org \<longrightarrow> opa' p = opa p))"
proof (cases "transition key org (\<lambda>st. st = ACTIVE) ''retire'' (\<lambda>r. r\<lparr>rr_status := RETIRED\<rparr>) (\<lambda>r d. d) d")
  case (Inl e)
  then show ?thesis using assms(1) by (simp add: retire_policy_def)
next
  case (Inr dr)
  then obtain d1 r' where "transition key org (\<lambda>st. st = ACTIVE) ''retire'' (\<lambda>r. r\<lparr>rr_status := RETIRED\<rparr>) (\<lambda>r d. d) d = Inr (d1, r')"
    by (cases dr) auto
  note tr = this
  then obtain r where r: "latest_version_row d key org = Some r" "rr_status r = ACTIVE"
    and d1: "d1 = update_record (rr_id r) (\<lambda>x. x\<lparr>rr_status := RETIRED\<rparr>) d" by (auto simp: transition_Inr)
  note mem = latest_mem [OF r(1)]
  note rows = retired_rows [OF assms(2) _ r(2), folded d1]
  obtain y opa1 where rec: "reconcile_organization_opa_state C ord org OpaDone now d1 opa = (y, opa1)" by (rule prod.exhaust)
  have same: "runtime_policy_records d' = runtime_policy_records d1"
    using assms(1) tr rec by (auto simp: retire_policy_def split: sum.splits)
  have ids: "ids_unique d1" using evolves_ids [OF rows(1)] mem assms(2) by (simp add: policies_ok_def)
  have "reconciled_module C ord org ''reconcile'' now d' = reconciled_module C ord org ''reconcile'' now d1"
    by (simp add: reconciled_module_def active_rows_cong [OF same])
  then have ok: "is_ok (reconciled_module C ord org ''reconcile'' now d1)" using assms(3) by simp
  note c = reconcile_current [OF ids ok rec]
  have opa': "opa' = opa1" using assms(1) tr rec c(3) by (auto simp: retire_policy_def)
  have "set (active_rows d1 org') \<subseteq> set (active_rows d org')" for org' using rows(2) mem by auto
  then have "one_active d1" using assms(2) one_active_subset unfolding policies_ok_def by blast
  then have "one_active d'" unfolding one_active_def same .
  moreover have "evolves deploy_move d d'" using evolves_cong [OF same rows(1)] mem by simp
  moreover have "opa_current C org d' opa'" unfolding opa' by (rule opa_current_cong [OF c(1)]) (simp_all add: active_rows_cong [OF same])
  moreover have "active_rows d' org' = active_rows d org'" if "org' \<noteq> org" for org'
  proof -
    have "filter (\<lambda>x. rr_status x = ACTIVE \<and> rr_organization_id x = org') (runtime_policy_records d1)
        = filter (\<lambda>x. rr_status x = ACTIVE \<and> rr_organization_id x = org') (runtime_policy_records d)"
      unfolding d1 update_record_frame
    proof (rule filter_update_irrelevant)
      fix x assume "x \<in> set (runtime_policy_records d)" "rr_id x = rr_id r"
      then have "x = r" using ids_unique_eq assms(2) mem unfolding policies_ok_def by blast
      then show "\<not> (rr_status x = ACTIVE \<and> rr_organization_id x = org') \<and>
          \<not> (rr_status (x\<lparr>rr_status := RETIRED\<rparr>) = ACTIVE \<and> rr_organization_id (x\<lparr>rr_status := RETIRED\<rparr>) = org')" using mem that by simp
    qed
    then show ?thesis by (simp add: active_rows_def same)
  qed
  ultimately show ?thesis using c(2) by (simp add: opa')
qed

section \<open>Runs\<close>

text \<open>
  One step of the system, as the stored versions and OPA see it. A deployment or a retirement belongs to
  an organization of \<open>orgs\<close> and is one whose reconciliation, where it comes to one, gets through: the
  active set compiles and OPA answers. Failed uploads, lost answers and failed commits are steps. The last
  rule is any other code: it leaves the versions and the modules of the organizations alone.
\<close>

inductive policy_step :: "crypto \<Rightarrow> uuid option set \<Rightarrow> stores \<Rightarrow> stores \<Rightarrow> bool" for C orgs where
  create: "create_policy C p org ap fresh rid eid now d = Inr (d', r) \<Longrightarrow> get_record_row d rid = None \<Longrightarrow> policy_step C orgs (d, opa) (d', opa)"
| edit: "edit_policy C key org p rid eid now d = Inr (d', r) \<Longrightarrow> get_record_row d rid = None \<Longrightarrow> policy_step C orgs (d, opa) (d', opa)"
| rollback: "rollback_policy C key org v ac why ids now d = Inr (d', r) \<Longrightarrow> get_record_row d (new_record_id ids) = None
    \<Longrightarrow> policy_step C orgs (d, opa) (d', opa)"
| submit: "submit_for_review C key org eid now d = Inr (d', r) \<Longrightarrow> policy_step C orgs (d, opa) (d', opa)"
| approve: "approve C key org apr au eid now d = Inr (d', r) \<Longrightarrow> policy_step C orgs (d, opa) (d', opa)"
| reject: "reject C key org rv why ru eid now d = Inr (d', r) \<Longrightarrow> policy_step C orgs (d, opa) (d', opa)"
| compile: "compile_policy C ord key org eid now d = Inr (d', out) \<Longrightarrow> policy_step C orgs (d, opa) (d', opa)"
| mark: "mark_activated C key org ac why eid now d = Inr (d', r) \<Longrightarrow> policy_step C orgs (d, opa) (d', opa)"
| deprecate: "deprecate_policy C key org ac why eid now d = Inr (d', r) \<Longrightarrow> policy_step C orgs (d, opa) (d', opa)"
| attest: "attest_policy C key org ac why days eid now d = Inr (d', r) \<Longrightarrow> policy_step C orgs (d, opa) (d', opa)"
| archive: "archive_policy C key org ac why eid now d = Inr (d', r) \<Longrightarrow> policy_step C orgs (d, opa) (d', opa)"
| deploy: "deploy_now C ord key org ids now w (d, opa) = (x, d', opa') \<Longrightarrow> org \<in> orgs \<Longrightarrow> w_reconcile w = OpaDone
    \<Longrightarrow> is_ok (reconciled_module C ord org ''reconcile'' now d) \<Longrightarrow> policy_step C orgs (d, opa) (d', opa')"
| retire: "retire_policy C ord key org ac why eid now OpaDone (d, opa) = (y, d', opa') \<Longrightarrow> org \<in> orgs
    \<Longrightarrow> is_ok (reconciled_module C ord org ''reconcile'' now d') \<Longrightarrow> policy_step C orgs (d, opa) (d', opa')"
| other: "runtime_policy_records d' = runtime_policy_records d \<Longrightarrow> (\<And>org. org \<in> orgs \<Longrightarrow> opa' (opa_policy_id org) = opa (opa_policy_id org))
    \<Longrightarrow> policy_step C orgs (d, opa) (d', opa')"

text \<open>What a step does: nothing to the active versions, or all of it to one organization.\<close>

lemma policy_step_cases:
  assumes "policy_step C orgs s s'" and "policies_ok (fst s)"
  shows "evolves quiet_move (fst s) (fst s') \<and> (\<forall>org \<in> orgs. snd s' (opa_policy_id org) = snd s (opa_policy_id org))
    \<or> (\<exists>org \<in> orgs. evolves deploy_move (fst s) (fst s') \<and> one_active (fst s') \<and> opa_current C org (fst s') (snd s')
        \<and> (\<forall>org'. org' \<noteq> org \<longrightarrow> enforced ` set (active_rows (fst s') org') = enforced ` set (active_rows (fst s) org'))
        \<and> (\<forall>p. p \<noteq> opa_policy_id org \<longrightarrow> snd s' p = snd s p))"
    (is "?quiet \<or> ?loud")
proof -
  have ids: "ids_unique (fst s)" using assms(2) by (simp add: policies_ok_def)
  from assms(1) show ?thesis
  proof cases
    case (deploy ord key org ids now w d opa x d' opa')
    have s: "settles C key org d opa (x, d', opa')"
      using deploy_now_settles [OF _ deploy(5,6), of key opa ids] assms(2) deploy(1,3) by simp
    show ?thesis
    proof (cases x)
      case (Inl e)
      then have "undone C org d opa d' opa'" using s by (simp add: settles_def)
      then consider "d' = d" "opa' = opa" | "d' = d" "opa_current C org d' opa'" "\<forall>p. p \<noteq> opa_policy_id org \<longrightarrow> opa' p = opa p"
        by (auto simp: undone_def)
      then show ?thesis
      proof cases
        case 1
        then show ?thesis using deploy(1,2) by (simp add: evolves_same)
      next
        case 2
        have "one_active d" using assms(2) deploy(1) by (simp add: policies_ok_def)
        then have ?loud using 2 deploy(1,2,4) by (intro bexI [of _ org]) (simp_all add: evolves_same)
        then show ?thesis ..
      qed
    next
      case (Inr y)
      then have "?loud" using s deploy(1,2,4) by (intro bexI [of _ org]) (auto simp: settles_def deployed_from_def)
      then show ?thesis ..
    qed
  next
    case (retire ord key org ac why eid now d opa y d' opa')
    have "policies_ok d" using assms(2) retire(1) by simp
    from retire_settles [OF retire(3) this retire(5)] show ?thesis
    proof
      assume "(d', opa') = (d, opa)"
      then show ?thesis using retire(1,2) by (simp add: evolves_same)
    next
      assume "evolves deploy_move d d' \<and> one_active d' \<and> opa_current C org d' opa'
        \<and> (\<forall>org'. org' \<noteq> org \<longrightarrow> active_rows d' org' = active_rows d org') \<and> (\<forall>p. p \<noteq> opa_policy_id org \<longrightarrow> opa' p = opa p)"
      then have ?loud using retire(1,2,4) by (intro bexI [of _ org]) simp_all
      then show ?thesis ..
    qed
  next
    case other
    then show ?thesis by (simp add: evolves_same)
  qed (use ids in \<open>auto intro: create_policy_evolves edit_policy_evolves rollback_evolves submit_evolves approve_evolves reject_evolves
        compile_evolves mark_activated_evolves deprecate_evolves attest_evolves archive_evolves moves(3) simp: quiet_move_def\<close>)
qed

lemma policy_step_evolves: "policy_step C orgs s s' \<Longrightarrow> policies_ok (fst s) \<Longrightarrow> evolves policy_move (fst s) (fst s')"
  using policy_step_cases [of C orgs s s'] evolves_mono [of quiet_move "fst s" "fst s'" policy_move]
    evolves_mono [of deploy_move "fst s" "fst s'" policy_move] moves(1,2) by blast

lemma policy_step_ok: "policy_step C orgs s s' \<Longrightarrow> policies_ok (fst s) \<Longrightarrow> policies_ok (fst s')"
  using policy_step_cases [of C orgs s s'] by (auto intro: evolves_ok evolves_ok_one)

lemma policy_step_current:
  assumes "policy_step C orgs s s'" and "policies_ok (fst s)" and "inj_on opa_policy_id orgs" and "org \<in> orgs"
    and "opa_current C org (fst s) (snd s)"
  shows "opa_current C org (fst s') (snd s')"
  using policy_step_cases [OF assms(1,2)]
proof
  assume quiet: "evolves quiet_move (fst s) (fst s') \<and> (\<forall>org \<in> orgs. snd s' (opa_policy_id org) = snd s (opa_policy_id org))"
  show ?thesis by (rule opa_current_cong [OF assms(5) evolves_active]) (use quiet assms(4) in simp_all)
next
  assume "\<exists>org \<in> orgs. evolves deploy_move (fst s) (fst s') \<and> one_active (fst s') \<and> opa_current C org (fst s') (snd s')
        \<and> (\<forall>org'. org' \<noteq> org \<longrightarrow> enforced ` set (active_rows (fst s') org') = enforced ` set (active_rows (fst s) org'))
        \<and> (\<forall>p. p \<noteq> opa_policy_id org \<longrightarrow> snd s' p = snd s p)"
  then obtain o1 where o1: "o1 \<in> orgs" "opa_current C o1 (fst s') (snd s')"
    "\<And>org'. org' \<noteq> o1 \<Longrightarrow> enforced ` set (active_rows (fst s') org') = enforced ` set (active_rows (fst s) org')"
    "\<And>p. p \<noteq> opa_policy_id o1 \<Longrightarrow> snd s' p = snd s p" by blast
  show ?thesis
  proof (cases "org = o1")
    case False
    then have "opa_policy_id org \<noteq> opa_policy_id o1" using assms(3,4) o1(1) by (auto dest: inj_onD)
    then show ?thesis using opa_current_cong [OF assms(5) o1(3) [OF False]] o1(4) by simp
  qed (use o1(2) in simp)
qed

lemma policy_run_ok: "(policy_step C orgs)\<^sup>*\<^sup>* s s' \<Longrightarrow> policies_ok (fst s) \<Longrightarrow> policies_ok (fst s')"
  by (induction rule: rtranclp_induct) (auto intro: policy_step_ok)

lemma policy_run_evolves: "(policy_step C orgs)\<^sup>*\<^sup>* s s' \<Longrightarrow> policies_ok (fst s) \<Longrightarrow> (evolves policy_move)\<^sup>*\<^sup>* (fst s) (fst s')"
  by (induction rule: rtranclp_induct) (auto intro: policy_step_evolves policy_run_ok rtranclp.rtrancl_into_rtrancl)

lemma policy_run_current:
  assumes "(policy_step C orgs)\<^sup>*\<^sup>* s s'" and "policies_ok (fst s)" and "inj_on opa_policy_id orgs"
    and "\<forall>org \<in> orgs. opa_current C org (fst s) (snd s)"
  shows "\<forall>org \<in> orgs. opa_current C org (fst s') (snd s')"
  using assms(1,4) by (induction rule: rtranclp_induct) (use assms(2,3) policy_run_ok policy_step_current in blast)+

end
