(* ===== verification/Policy_Assurance.thy ===== *)
theory Policy_Assurance
  imports Policy_Deployment
begin

text \<open>
  The properties of the policy lifecycle: a rule in force was approved as it is, OPA runs exactly the active
  versions, a failed deployment changes nothing, due schedules do not stay pending, and what an archived
  draft does to the active version below it.
\<close>

section \<open>The review of an active rule\<close>

definition reviewed_statuses :: "PolicyStatus set" where "reviewed_statuses = {APPROVED, COMPILED, ACTIVE, RETIRED}"

definition unapproving :: "PolicyStatus \<Rightarrow> PolicyStatus \<Rightarrow> bool" where
  "unapproving s t = (policy_move s t \<and> t \<noteq> APPROVED)"

lemma unapproving_move:
  "quiet_move s t \<Longrightarrow> t \<noteq> APPROVED \<Longrightarrow> unapproving s t" "deploy_move s t \<Longrightarrow> unapproving s t"
  "s \<noteq> ACTIVE \<Longrightarrow> s \<noteq> ARCHIVED \<Longrightarrow> unapproving s ARCHIVED"
  by (auto simp: unapproving_def quiet_move_def deploy_move_def) (cases s; simp)

text \<open>Only \<open>approve\<close> makes a version approved.\<close>

lemma policy_step_approves:
  assumes "policy_step C orgs s s'" and "policies_ok (fst s)"
  shows "(\<exists>key org ap au eid now r. approve C key org ap au eid now (fst s) = Inr (fst s', r)) \<or> evolves unapproving (fst s) (fst s')"
proof -
  have ids: "ids_unique (fst s)" using assms(2) by (simp add: policies_ok_def)
  have loud: "evolves unapproving (fst s) (fst s')" if "evolves deploy_move (fst s) (fst s')"
    by (rule evolves_mono [OF that unapproving_move(2)])
  from assms(1) show ?thesis
  proof cases
    case (deploy ord key org ids now w d opa x d' opa')
    have "settles C key org d opa (x, d', opa')"
      using deploy_now_settles [OF _ deploy(5,6), of key opa ids] assms(2) deploy(1,3) by simp
    then have "d' = d \<or> evolves deploy_move d d'" by (cases x) (auto simp: settles_def undone_def deployed_from_def)
    then show ?thesis using loud deploy(1,2) by (auto simp: evolves_same)
  next
    case (retire ord key org ac why eid now d opa y d' opa')
    have "policies_ok d" using assms(2) retire(1) by simp
    from retire_settles [OF retire(3) this retire(5)] have "d' = d \<or> evolves deploy_move d d'" by blast
    then show ?thesis using loud retire(1,2) by (auto simp: evolves_same)
  next
    case (approve key org apr au eid now d d' r opa)
    then have "approve C key org apr au eid now (fst s) = Inr (fst s', r)" by simp
    then show ?thesis by blast
  next
    case other
    then show ?thesis by (simp add: evolves_same)
  qed (use ids in \<open>auto intro!: disjI2 intro: create_policy_evolves edit_policy_evolves rollback_evolves submit_evolves reject_evolves
        compile_evolves mark_activated_evolves deprecate_evolves attest_evolves archive_evolves unapproving_move(3) simp: unapproving_def\<close>)
qed

lemma evolves_row_back:
  assumes "evolves mv d d'" and "get_record_row d' i = Some r'" and "rr_status r' \<noteq> DRAFT"
  shows "\<exists>r. get_record_row d i = Some r"
proof (rule ccontr)
  assume "\<nexists>r. get_record_row d i = Some r"
  then have "get_record_row d i = None" by (cases "get_record_row d i") auto
  then have none: "\<forall>r \<in> set (runtime_policy_records d). rr_id r \<noteq> i" by (simp add: get_record_row_def db_find_None_iff)
  obtain f new where f: "runtime_policy_records d' = map f (runtime_policy_records d) @ new"
    and enf: "\<And>r. r \<in> set (runtime_policy_records d) \<Longrightarrow> enforced (f r) = enforced r"
    and st: "\<And>r. r \<in> set (runtime_policy_records d) \<Longrightarrow> rr_status (f r) = rr_status r \<or> mv (rr_status r) (rr_status (f r))"
    and new: "\<And>r. r \<in> set new \<Longrightarrow> rr_status r = DRAFT \<and> get_record_row d (rr_id r) = None"
    by (rule evolvesE [OF assms(1)]) blast
  have r': "r' \<in> set (map f (runtime_policy_records d) @ new)" "rr_id r' = i" using get_record_row_mem [OF assms(2)] f by auto
  moreover have "r' \<notin> set new" using new assms(3) by blast
  ultimately obtain r where "r \<in> set (runtime_policy_records d)" "r' = f r" by auto
  then show False using none enf enforced_Pair r'(2) by metis
qed

lemma approve_row:
  assumes "approve C key org ap au eid now d = Inr (d', r)" and "policies_ok d"
    and "get_record_row d i = Some x" and "get_record_row d' i = Some x'" and "rr_status x' \<noteq> rr_status x"
  shows "x' = r"
proof -
  obtain l where l: "latest_version_row d key org = Some l" "get_record_row d' (rr_id l) = Some r"
    and d': "runtime_policy_records d' = runtime_policy_records (update_record (rr_id l) (\<lambda>r. r\<lparr>rr_content := with_audit [(''approved'', JStr (isoformat now)),
        (''approved_by'', JStr ap), (''approved_by_user_id'', opt_str au)] (rr_content r), rr_status := APPROVED\<rparr>) d)"
    using assms(1) by (auto simp: approve_def transition_Inr)
  have "get_record_row d' i = (if i = rr_id l then Some r else get_record_row d i)"
    using l(2) unfolding get_record_row_def d' update_record_frame by (subst db_find_update_key) (auto simp: db_find_update_key)
  then show ?thesis using assms(3,4,5) by (auto split: if_splits)
qed


definition draft_db :: db where
  "draft_db = empty_db\<lparr>runtime_policy_records := [new_policy_record ''r1'' ''k'' 1 (to_dict demo_policy) None None 0]\<rparr>"

lemma empty_db_ok: "policies_ok empty_db"
  by (simp add: policies_ok_def ids_unique_def record_keys_unique_def one_active_def empty_db_def)


section \<open>Due schedules\<close>

text \<open>No operation of an execution adds a schedule or changes one.\<close>

lemma transition_frame:
  "transition key org ok what f ev d = Inr (d', r) \<Longrightarrow> (\<And>r x. policy_activation_schedules (ev r x) = policy_activation_schedules x)
    \<Longrightarrow> policy_activation_schedules d' = policy_activation_schedules d"
  by (auto simp: transition_Inr)

lemma compile_frame: "compile_policy C ord key org eid now d = Inr (d', out) \<Longrightarrow> policy_activation_schedules d' = policy_activation_schedules d"
  by (auto simp: compile_policy_def Let_def split: option.splits if_splits)

lemma roll_back_frame: "roll_back C ord org w now d opa e = (x, d', opa') \<Longrightarrow> d' = d"
  by (auto simp: roll_back_def split: prod.splits sum.splits)

lemma attempt_frame:
  "deploy_policy_attempt C ord key org pid mid now w seen d opa = (x, d', opa') \<Longrightarrow> policy_activation_schedules d' = policy_activation_schedules d"
  by (auto simp: deploy_policy_attempt_def split: sum.splits prod.splits if_splits dest!: roll_back_frame reserve_frame(2) activate_record_frame)

lemma deploy_attempts_frame:
  "deploy_attempts C ord key org pid mid now w (replicate n (d, d, opa)) d0 opa0 = (x, d', opa')
    \<Longrightarrow> policy_activation_schedules d0 = policy_activation_schedules d \<Longrightarrow> policy_activation_schedules d' = policy_activation_schedules d"
proof (induction n arbitrary: d0 opa0)
  case 0
  then show ?case by (auto dest: roll_back_frame)
next
  case (Suc n)
  obtain y d1 opa1 where a: "deploy_policy_attempt C ord key org pid mid now w d d opa = (y, d1, opa1)" by (rule prod_cases3)
  note d1 = attempt_frame [OF a]
  show ?case
  proof (cases "y = Inl PolicyIntegrityError")
    case True
    then show ?thesis using Suc.IH [of d1 opa1] Suc.prems(1) a d1 by simp
  next
    case False
    then have "(x, d', opa') = (y, d1, opa1)" using Suc.prems(1) a by (auto split: sum.splits PolicyError.splits)
    then show ?thesis using d1 by simp
  qed
qed

lemma deploy_now_frame: "deploy_now C ord key org ids now w s = (x, d', opa') \<Longrightarrow> policy_activation_schedules d' = policy_activation_schedules (fst s)"
  using deploy_attempts_frame [of C ord key org "new_policy_id ids" "new_mandate_id ids" now w MAX_DEPLOY_ATTEMPTS "fst s" "snd s" "fst s" "snd s" x d' opa']
  by (simp add: deploy_now_def deploy_policy_def map_replicate_const)

lemma activate_frame:
  "activate_policy C ord key org actor why ids now w s = (x, d', opa') \<Longrightarrow> policy_activation_schedules d' = policy_activation_schedules (fst s)"
  by (auto simp: activate_policy_def record_blocked_def compile_for_activation_def mark_activated_def
      dest!: compile_frame deploy_now_frame transition_frame split: sum.splits prod.splits if_splits)

lemma retire_frame:
  "retire_policy C ord key org actor why eid now call s = (x, d', opa') \<Longrightarrow> policy_activation_schedules d' = policy_activation_schedules (fst s)"
  by (auto simp: retire_policy_def dest!: transition_frame split: sum.splits prod.splits)

lemma execute_schedule_frame:
  assumes "execute_schedule C ord msg ids w now sch s = (x, s')"
  shows "\<exists>f. (\<forall>y. sh_id (f y) = sh_id y \<and> sh_status (f y) \<noteq> SchPending)
    \<and> policy_activation_schedules (fst s') = db_update (\<lambda>y. sh_id y = sh_id sch) f (policy_activation_schedules (fst s))"
proof -
  let ?out = "case sh_action sch of
      SchActivate \<Rightarrow> activate_policy C ord (sh_policy_key sch) (sh_organization_id sch)
        (case sh_created_by sch of None \<Rightarrow> ''scheduled-execution'' | Some a \<Rightarrow> if a = [] then ''scheduled-execution'' else a)
        (sh_reason sch) (ids (sh_id sch)) now (w (sh_id sch)) s
    | SchRetire \<Rightarrow> retire_policy C ord (sh_policy_key sch) (sh_organization_id sch)
        (case sh_created_by sch of None \<Rightarrow> ''scheduled-execution'' | Some a \<Rightarrow> if a = [] then ''scheduled-execution'' else a)
        (sh_reason sch) (new_event_id (ids (sh_id sch))) now (w_reconcile (w (sh_id sch))) s"
  obtain y d opa where out: "?out = (y, d, opa)" by (rule prod_cases3)
  have d: "policy_activation_schedules d = policy_activation_schedules (fst s)"
    using out by (cases "sh_action sch") (auto dest: activate_frame retire_frame)
  show ?thesis
  proof (cases y)
    case (Inl e)
    then have "fst s' = update_schedule (sh_id sch) (\<lambda>x. x\<lparr>sh_status := SchFailed, sh_execution_error := Some (msg e)\<rparr>) d"
      using assms out by (simp add: execute_schedule_def Let_def) auto
    then show ?thesis using d by (intro exI [of _ "\<lambda>x. x\<lparr>sh_status := SchFailed, sh_execution_error := Some (msg e)\<rparr>"]) (simp add: update_schedule_def)
  next
    case (Inr r)
    then have "fst s' = update_schedule (sh_id sch) (\<lambda>x. x\<lparr>sh_status := SchExecuted, sh_executed_at := Some now\<rparr>) d"
      using assms out by (simp add: execute_schedule_def Let_def) auto
    then show ?thesis using d by (intro exI [of _ "\<lambda>x. x\<lparr>sh_status := SchExecuted, sh_executed_at := Some now\<rparr>"]) (simp add: update_schedule_def)
  qed
qed

lemma execute_all_settles:
  assumes "execute_all C ord msg ids w now schs s = (xs, s')"
  shows "map se_schedule_id xs = map sh_id schs"
    and "\<And>y. y \<in> set (policy_activation_schedules (fst s')) \<Longrightarrow> sh_status y = SchPending
      \<Longrightarrow> y \<in> set (policy_activation_schedules (fst s)) \<and> sh_id y \<notin> sh_id ` set schs"
proof -
  have "map se_schedule_id xs = map sh_id schs \<and> (\<forall>y \<in> set (policy_activation_schedules (fst s')). sh_status y = SchPending
      \<longrightarrow> y \<in> set (policy_activation_schedules (fst s)) \<and> sh_id y \<notin> sh_id ` set schs)"
    using assms
  proof (induction schs arbitrary: s xs)
    case (Cons sch schs)
    obtain x s1 where x: "execute_schedule C ord msg ids w now sch s = (x, s1)" by (rule prod.exhaust)
    obtain ys s2 where ys: "execute_all C ord msg ids w now schs s1 = (ys, s2)" by (rule prod.exhaust)
    have s': "xs = x # ys" "s' = s2" using Cons.prems x ys by auto
    obtain f where f: "\<And>y. sh_id (f y) = sh_id y \<and> sh_status (f y) \<noteq> SchPending"
      "policy_activation_schedules (fst s1) = db_update (\<lambda>y. sh_id y = sh_id sch) f (policy_activation_schedules (fst s))"
      using execute_schedule_frame [OF x] by blast
    have "se_schedule_id x = sh_id sch" using x by (auto simp: execute_schedule_def Let_def split: prod.splits sum.splits)
    moreover have "y \<in> set (policy_activation_schedules (fst s)) \<and> sh_id y \<noteq> sh_id sch"
      if "y \<in> set (policy_activation_schedules (fst s1))" "sh_status y = SchPending" for y
      using that f by (auto simp: set_db_update)
    ultimately show ?case using Cons.IH [of s1 ys] ys s' by auto
  qed simp
  then show "map se_schedule_id xs = map sh_id schs"
    and "\<And>y. y \<in> set (policy_activation_schedules (fst s')) \<Longrightarrow> sh_status y = SchPending
      \<Longrightarrow> y \<in> set (policy_activation_schedules (fst s)) \<and> sh_id y \<notin> sh_id ` set schs" by blast+
qed

text \<open>C36: the scheduler finishes what is due. After a run of \<open>process_due_schedules\<close>, whatever the
  activations and retirements in it raised and whatever OPA and the database did, no schedule that was due is
  pending any more, so the next run finds nothing due at that time; and there is one result for each schedule that was due,
  in order of its effective time.\<close>

theorem due_schedules_settled:
  "due_schedules (fst (snd (process_due_schedules C ord msg ids w now s))) now = []
   \<and> map se_schedule_id (fst (process_due_schedules C ord msg ids w now s)) = map sh_id (due_schedules (fst s) now)
   \<and> sorted (map sh_effective_at (due_schedules (fst s) now))"
proof -
  obtain xs s' where p: "process_due_schedules C ord msg ids w now s = (xs, s')" by (rule prod.exhaust)
  then have e: "execute_all C ord msg ids w now (due_schedules (fst s) now) s = (xs, s')" by (simp add: process_due_schedules_def)
  have "\<not> (sh_status y = SchPending \<and> sh_effective_at y \<le> now)" if "y \<in> set (policy_activation_schedules (fst s'))" for y
    using execute_all_settles(2) [OF e that] by (auto simp: due_schedules_def)
  then have "due_schedules (fst s') now = []" by (simp add: due_schedules_def filter_empty_conv)
  then show ?thesis using execute_all_settles(1) [OF e] by (simp add: p due_schedules_def)
qed

section \<open>Deployment and OPA\<close>



section \<open>A deployment\<close>

definition compiled_db :: "string \<Rightarrow> db" where
  "compiled_db h = empty_db\<lparr>runtime_policy_records :=
     [new_policy_record ''r1'' ''k'' 1 (to_dict demo_policy) None None 0\<lparr>rr_status := COMPILED, rr_bundle_hash := Some h\<rparr>]\<rparr>"

definition calm :: Weather where "calm = \<lparr>w_upload = OpaDone, w_commit = True, w_reconcile = OpaDone\<rparr>"

lemma calm: "w_reconcile calm = OpaDone"
  by (simp add: calm_def)

lemma demo_compiles:
  "\<exists>b. compile_bundle plain_crypto id GENERIC_VOCABULARY [demo_policy] bid 1 0 = Inr \<lparr>cr_bundle = Some b, diagnostics = []\<rparr>"
proof -
  have e: "policy_errors GENERIC_VOCABULARY demo_policy = []"
    by (simp add: policy_errors_Nil demo_policy_def well_formed_def
        well_formed_condition_def is_blank_def is_space_def numeric_operators_def is_valid_action_def
        GENERIC_VOCABULARY_def KNOWN_SCOPES_def is_valid_field_def startswith_def)
  have c: "policy_conflicts id [demo_policy] = Inr []" by (simp add: evaluate_compile)
  obtain b where "build_bundle plain_crypto [demo_policy] bid 1 0 = Inr b"
    by (auto simp: build_bundle_def generate_policy_rule_def generate_conditions_block_def
        generate_condition_expression_def demo_policy_def resolve_base_and_field_def Let_def startswith_def)
  then show ?thesis using e c by (simp add: compile_bundle_def)
qed

lemma demo_deploys:
  "\<exists>h out d' opa'. deploy_policy plain_crypto id ''k'' None ''p'' ''m'' 0 calm (\<lambda>_. (compiled_db h, compiled_db h, Map.empty)) (compiled_db h) Map.empty
     = (Inr out, d', opa')"
proof -
  obtain b where b: "compile_bundle plain_crypto id GENERIC_VOCABULARY [demo_policy] (bundle_id_for ''k'' 1) 1 0 = Inr \<lparr>cr_bundle = Some b, diagnostics = []\<rparr>"
    using demo_compiles by blast
  let ?d = "compiled_db (bundle_hash b)"
  let ?r = "new_policy_record ''r1'' ''k'' 1 (to_dict demo_policy) None None 0\<lparr>rr_status := COMPILED, rr_bundle_hash := Some (bundle_hash b)\<rparr>"
  have row: "from_dict (to_dict demo_policy) = Inr demo_policy"
    by (rule from_dict_to_dict) (simp add: dates_ok_def opt_range_def demo_policy_def)
  have "compile_with_active plain_crypto id None ?r 0 ?d = Inr \<lparr>cr_bundle = Some b, diagnostics = []\<rparr>"
    using b by (simp add: compile_with_active_def row_to_policy_def row other_active_policies_def active_rows_def compiled_db_def empty_db_def new_policy_record_def)
  then have check: "check_deployment plain_crypto id ''k'' None 0 ?d = Inr (?r, b)"
    by (simp add: check_deployment_def get_latest_def latest_version_row_def compiled_db_def empty_db_def compile_ok_def prior_active_policy_def new_policy_record_def)
  obtain d1 where res: "reserve_policy_row ?d ''p'' ?r None b 0 ?d = Inr d1" and d1: "runtime_policy_records d1 = [?r]"
    by (simp add: reserve_policy_row_def compiled_db_def empty_db_def prior_active_policy_def policy_rows_unique_def new_policy_row_def)
  have "map_of (object_of (to_dict demo_policy) ''constraints'') ''authority_id'' \<in> {None, Some JNull}"
    by (simp add: object_of_def to_dict_def demo_policy_def constraints_to_dict_def opt_str_def)
  then have "ensure_mandate (object_of (to_dict demo_policy) ''constraints'') ''p'' ''m'' 0 d1 = Inr (d1, object_of (to_dict demo_policy) ''constraints'')"
    by (auto simp: ensure_mandate_def)
  then obtain d2 cons where act: "activate_record ''k'' None ''p'' ''m'' 0 ?r d1 = Inr (d2, cons)"
    by (simp add: activate_record_def d1 new_policy_record_def)
  have "\<exists>out d' opa'. deploy_policy_attempt plain_crypto id ''k'' None ''p'' ''m'' 0 calm ?d ?d Map.empty = (Inr out, d', opa')"
    by (simp add: deploy_policy_attempt_def check res organization_rego_def calm_def act)
  then show ?thesis
    by (intro exI [of _ "bundle_hash b"]) (auto simp: deploy_policy_def MAX_DEPLOY_ATTEMPTS_def upt_rec)
qed

lemma compiled_db_ok: "policies_ok (compiled_db h)" "opa_current plain_crypto None (compiled_db h) Map.empty"
  "is_ok (reconciled_module plain_crypto id None ''reconcile'' 0 (compiled_db h))"
  by (simp_all add: policies_ok_def ids_unique_def record_keys_unique_def one_active_def compiled_db_def empty_db_def new_policy_record_def
      opa_current_def active_rows_def reconciled_module_def)



section \<open>An archived draft\<close>

lemma is_ok_rbind: "is_ok (rbind m f) \<longleftrightarrow> (\<exists>x. m = Inr x \<and> is_ok (f x))"
  by (cases m) auto

lemma insort_key_map: "(\<And>x. k (h x) = k x) \<Longrightarrow> insort_key k (h x) (map h xs) = map h (insort_key k x xs)"
  by (induction xs) auto

lemma sort_key_map: "(\<And>x. k (h x) = k x) \<Longrightarrow> sort_key k (map h xs) = map h (sort_key k xs)"
  by (induction xs) (simp_all add: insort_key_map)

lemma latest_update:
  assumes "latest_version_row d key org = Some l"
    and "runtime_policy_records d' = db_update (\<lambda>r. rr_id r = rr_id l) g (runtime_policy_records d)"
    and "\<And>r. rr_policy_key (g r) = rr_policy_key r \<and> rr_organization_id (g r) = rr_organization_id r \<and> rr_version (g r) = rr_version r"
  shows "latest_version_row d' key org = Some (g l)"
proof -
  let ?h = "\<lambda>r. if rr_id r = rr_id l then g r else r"
  let ?mine = "\<lambda>r. rr_policy_key r = key \<and> rr_organization_id r = org"
  have "filter ?mine (runtime_policy_records d') = map ?h (filter ?mine (runtime_policy_records d))"
    unfolding assms(2) by (subst filter_db_update) (use assms(3) in \<open>auto simp: db_update_def\<close>)
  then have "sort_key (\<lambda>r. - rr_version r) (filter ?mine (runtime_policy_records d')) =
      map ?h (sort_key (\<lambda>r. - rr_version r) (filter ?mine (runtime_policy_records d)))"
    using assms(3) by (simp add: sort_key_map)
  then show ?thesis using assms(1) unfolding latest_version_row_def by (auto split: list.splits)
qed

text \<open>Archiving a draft can leave an active version that nothing can change any more. When the newest version
  of a policy is archived and an older one is active, the older one stays active and in OPA, and every operation of the
  policy's key raises: it cannot be edited, rolled back, retired, deprecated, attested, archived, activated, scheduled
  for activation or retirement, submitted, approved, rejected, compiled or deployed.\<close>

theorem archived_draft_strands_active:
  assumes "archive_policy C key org actor why eid now d = Inr (d', a)" and "policies_ok d"
    and "r \<in> set (runtime_policy_records d)" "rr_policy_key r = key" "rr_organization_id r = org" "rr_status r = ACTIVE"
  shows "get_record_row d' (rr_id r) = Some r
    \<and> \<not> is_ok (edit_policy C' key org p rid eid' t d') \<and> \<not> is_ok (rollback_policy C' key org v ac why' ids t d')
    \<and> \<not> is_ok (submit_for_review C' key org eid' t d') \<and> \<not> is_ok (approve C' key org ac u eid' t d')
    \<and> \<not> is_ok (reject C' key org ac why'' u eid' t d') \<and> \<not> is_ok (compile_policy C' ord key org eid' t d')
    \<and> \<not> is_ok (deprecate_policy C' key org ac why' eid' t d') \<and> \<not> is_ok (attest_policy C' key org ac why' days eid' t d')
    \<and> \<not> is_ok (archive_policy C' key org ac why' eid' t d') \<and> \<not> is_ok (schedule_retirement C' key org eff ac why' ids t d')
    \<and> fst (schedule_activation C' ord key org eff ac why' ids t d') = Inl (bad_status ''archived'' ''schedule activation'')
    \<and> retire_policy C' ord key org ac why' eid' t call (d', opa) = (Inl (bad_status ''archived'' ''retire''), d', opa)
    \<and> activate_policy C' ord key org ac why' ids t w (d', opa) = (Inl (bad_status ''archived'' ''activate''), d', opa)
    \<and> deploy_policy C' ord key org pid mid t w (\<lambda>_. (d', d', opa)) d' opa = (Inl (PolicyInvalidTransitionError ''archived'' ''deploy''), d', opa)"
proof -
  obtain l where l: "latest_version_row d key org = Some l" "rr_status l \<noteq> ACTIVE" and a: "get_record_row d' (rr_id l) = Some a"
    and d': "runtime_policy_records d' = db_update (\<lambda>r. rr_id r = rr_id l) (\<lambda>r. r\<lparr>rr_status := ARCHIVED\<rparr>) (runtime_policy_records d)"
    using assms(1) by (auto simp: archive_policy_def transition_Inr)
  have ids: "ids_unique d" using assms(2) by (simp add: policies_ok_def)
  have keep: "get_record_row d' (rr_id r) = Some r"
  proof -
    have "rr_id r \<noteq> rr_id l" using ids_unique_eq [OF ids assms(3), of l] latest_mem [OF l(1)] l(2) assms(6) by auto
    then show ?thesis using get_record_row_ids [OF ids assms(3)] unfolding get_record_row_def d' by (subst db_find_update_key) auto
  qed
  have "latest_version_row d' key org = Some (l\<lparr>rr_status := ARCHIVED\<rparr>)"
    by (rule latest_update [OF l(1) d']) simp
  note latest = this
  show ?thesis using keep latest
    by (simp add: edit_policy_def rollback_policy_def submit_for_review_def approve_def reject_def compile_policy_def deprecate_policy_def
        attest_policy_def archive_policy_def schedule_retirement_def schedule_activation_def retire_policy_def activate_policy_def
        transition_def get_latest_def deploy_policy_def deploy_policy_attempt_def check_deployment_def is_ok_rbind ACTIVATABLE_STATUSES_def
        bad_status_def MAX_DEPLOY_ATTEMPTS_def map_replicate_const numeral_3_eq_3)
qed

definition edited_policies_db :: db where
  "edited_policies_db = empty_db\<lparr>runtime_policy_records := [demo_row 1 ACTIVE, demo_row 2 DRAFT]\<rparr>"

theorem archived_draft_strands_active_witness:
  "\<exists>d' a. archive_policy plain_crypto ''k'' (Some ''o'') ''ann'' None ''e1'' 0 edited_policies_db = Inr (d', a)
     \<and> get_record_row d' ''1'' = Some (demo_row 1 ACTIVE)
     \<and> retire_policy plain_crypto id ''k'' (Some ''o'') ''ann'' None ''e2'' 0 OpaDone (d', Map.empty)
        = (Inl (bad_status ''archived'' ''retire''), d', Map.empty)"
proof -
  have ids: "rr_id (demo_row 1 ACTIVE) = ''1''" "rr_id (demo_row 2 DRAFT) = ''2''" by code_simp+
  have rows: "runtime_policy_records edited_policies_db = [demo_row 1 ACTIVE, demo_row 2 DRAFT]" by (simp add: edited_policies_db_def)
  have ok: "policies_ok edited_policies_db"
    by (simp add: policies_ok_def ids_unique_def record_keys_unique_def one_active_def rows ids) (simp add: demo_row_def)
  have "\<exists>d' a. archive_policy plain_crypto ''k'' (Some ''o'') ''ann'' None ''e1'' 0 edited_policies_db = Inr (d', a)"
  proof -
    have l: "latest_version_row edited_policies_db ''k'' (Some ''o'') = Some (demo_row 2 DRAFT)"
      unfolding latest_version_row_def rows by (simp add: demo_row_def)
    show ?thesis by (simp add: archive_policy_def transition_def get_latest_def l record_returning_def get_record_row_def rows ids)
        (simp add: demo_row_def)
  qed
  then obtain d' a where a: "archive_policy plain_crypto ''k'' (Some ''o'') ''ann'' None ''e1'' 0 edited_policies_db = Inr (d', a)" by blast
  note s = archived_draft_strands_active [OF a ok, of "demo_row 1 ACTIVE"]
  have "get_record_row d' ''1'' = Some (demo_row 1 ACTIVE)
     \<and> retire_policy plain_crypto id ''k'' (Some ''o'') ''ann'' None ''e2'' 0 OpaDone (d', Map.empty) = (Inl (bad_status ''archived'' ''retire''), d', Map.empty)"
    using s [of plain_crypto] ids by (simp add: rows) (simp add: demo_row_def)
  with a show ?thesis by blast
qed

text \<open>A retirement that OPA refuses is committed and raises: the version is retired in the database, its module
  stays in OPA, no event records the retirement, and calling \<open>retire_policy\<close> again raises without touching OPA.\<close>

theorem refused_retirement_stays_enforced:
  assumes "latest_version_row d key org = Some r" and "rr_status r = ACTIVE"
    and "is_ok (reconciled_module C ord org ''reconcile'' now (update_record (rr_id r) (\<lambda>r. r\<lparr>rr_status := RETIRED\<rparr>) d))"
  shows "\<exists>d1 r1. retire_policy C ord key org ac why eid now OpaRefused (d, opa) = (Inl (PolicyFailed OpaFailure), d1, opa)
    \<and> latest_version_row d1 key org = Some r1 \<and> rr_id r1 = rr_id r \<and> rr_status r1 = RETIRED
    \<and> runtime_policy_lifecycle_events d1 = runtime_policy_lifecycle_events d
    \<and> retire_policy C ord key org ac' why' eid' t call (d1, opa) = (Inl (bad_status ''retired'' ''retire''), d1, opa)"
proof -
  let ?d1 = "update_record (rr_id r) (\<lambda>r. r\<lparr>rr_status := RETIRED\<rparr>) d"
  have l: "latest_version_row ?d1 key org = Some (r\<lparr>rr_status := RETIRED\<rparr>)"
    by (rule latest_update [OF assms(1) update_record_frame(1)]) simp
  have "r\<lparr>rr_status := RETIRED\<rparr> \<in> set (runtime_policy_records ?d1)" using latest_mem [OF l] by simp
  then obtain x where x: "get_record_row ?d1 (rr_id r) = Some x"
    using db_find_mem [of _ "runtime_policy_records ?d1" "\<lambda>y. rr_id y = rr_id r"] unfolding get_record_row_def by fastforce
  obtain m where "reconciled_module C ord org ''reconcile'' now ?d1 = Inr m" using assms(3) by (cases "reconciled_module C ord org ''reconcile'' now ?d1") auto
  then have "retire_policy C ord key org ac why eid now OpaRefused (d, opa) = (Inl (PolicyFailed OpaFailure), ?d1, opa)"
    using assms(1,2) x by (simp add: retire_policy_def transition_def get_latest_def record_returning_def reconcile_organization_opa_state_def opa_put_def)
  moreover have "retire_policy C ord key org ac' why' eid' t call (?d1, opa) = (Inl (bad_status ''retired'' ''retire''), ?d1, opa)"
    using l by (simp add: retire_policy_def transition_def get_latest_def bad_status_def)
  moreover have "runtime_policy_lifecycle_events ?d1 = runtime_policy_lifecycle_events d" by (simp add: update_record_def)
  ultimately show ?thesis using l by (intro exI [of _ ?d1] exI [of _ "r\<lparr>rr_status := RETIRED\<rparr>"]) simp
qed

text \<open>An execution does not look at the version a schedule was made for.\<close>

theorem schedule_ignores_version:
  "execute_schedule C ord msg ids w now (sch\<lparr>sh_version := v\<rparr>) s = execute_schedule C ord msg ids w now sch s"
  by (simp add: execute_schedule_def Let_def cong: sum.case_cong prod.case_cong ScheduleAction.case_cong)

end
