(* ===== verification/Execution_Receipts.thy ===== *)
theory Execution_Receipts
  imports Integration_Runtime
begin

text \<open>
  What an adapter reports after an execution, and its comparison with what was authorized:
  \<^verbatim>\<open>server/app/domain/execution_receipt.py\<close>, \<^verbatim>\<open>services/execution_receipt_service.py\<close> and
  \<^verbatim>\<open>services/execution_reconciliation_service.py\<close>.

  A submission of a receipt reads the state \<open>seen\<close> and inserts into the state \<open>d\<close>, which a concurrent
  submission may have changed in between; without concurrency they are the same. The Evidence record and the
  receipt are committed together, so a refused insert leaves \<open>d\<close> as it was.
\<close>

section \<open>Receipts\<close>

definition EXECUTION_RECEIPT_SCHEMA_VERSION :: int where "EXECUTION_RECEIPT_SCHEMA_VERSION = 1"

definition SUPPORTED_RECEIPT_SCHEMA_VERSIONS :: "int list" where "SUPPORTED_RECEIPT_SCHEMA_VERSIONS = [1]"

definition EXECUTION_RECEIPT_STATUSES :: "ReceiptStatus list" where
  "EXECUTION_RECEIPT_STATUSES = [RcpAccepted, RcpSucceeded, RcpFailed, RcpPartiallySucceeded, RcpUnknown]"

interpretation receipt_status_enum: str_enum EXECUTION_RECEIPT_STATUSES ReceiptStatus_value
proof
  show "x \<in> set EXECUTION_RECEIPT_STATUSES" for x by (cases x) (simp_all add: EXECUTION_RECEIPT_STATUSES_def)
  show "distinct (map ReceiptStatus_value EXECUTION_RECEIPT_STATUSES)" by (simp add: EXECUTION_RECEIPT_STATUSES_def)
qed

datatype ReceiptError =
    ExecutionReceiptRejectionError string
  | ExecutionReceiptConflictError string string
  | UnsupportedExecutionReceiptSchemaVersionError int
  | InvalidExecutionReceiptStatusError string
  | MissingRequiredExecutionReceiptFieldError string
  | ReceiptEvidenceError EvidenceError
  | ReceiptPython IntentError
  | ReceiptIntegrityError

record ExecutionReceipt =
  xe_schema_version :: int
  xe_organization_id :: uuid
  xe_integration_identity_id :: uuid
  xe_enforcement_binding_id :: uuid
  xe_decision_id :: uuid
  xe_canonical_action_digest :: string
  xe_external_operation_id :: string
  xe_destination :: string
  xe_status :: ReceiptStatus
  xe_submitted_at :: datetime
  xe_capability_id :: "uuid option"
  xe_occurred_at :: "datetime option"
  xe_detail :: "string option"

definition receipt_material_fields :: "ExecutionReceipt \<Rightarrow> json" where
  "receipt_material_fields x = JObj [(''schema_version'', JInt (xe_schema_version x)), (''organization_id'', JStr (xe_organization_id x)),
     (''integration_identity_id'', JStr (xe_integration_identity_id x)), (''enforcement_binding_id'', JStr (xe_enforcement_binding_id x)),
     (''decision_id'', JStr (xe_decision_id x)), (''capability_id'', opt_str (xe_capability_id x)),
     (''canonical_action_digest'', JStr (xe_canonical_action_digest x)), (''external_operation_id'', JStr (xe_external_operation_id x)),
     (''destination'', JStr (xe_destination x)), (''status'', JStr (ReceiptStatus_value (xe_status x)))]"

definition receipt_digest :: "crypto \<Rightarrow> ExecutionReceipt \<Rightarrow> string" where
  "receipt_digest C x = payload_hash C (receipt_material_fields x)"

text \<open>The arguments of \<open>submit_execution_receipt\<close>.\<close>

record ReceiptRequest =
  rq_enforcement_binding_id :: uuid
  rq_decision_id :: uuid
  rq_canonical_action_digest :: string
  rq_external_operation_id :: string
  rq_destination :: string
  rq_status :: string
  rq_capability_id :: "uuid option"
  rq_occurred_at :: "datetime option"
  rq_detail :: "string option"

definition build_execution_receipt ::
  "int \<Rightarrow> uuid \<Rightarrow> uuid \<Rightarrow> ReceiptRequest \<Rightarrow> uuid option \<Rightarrow> datetime \<Rightarrow> ReceiptError + ExecutionReceipt" where
  "build_execution_receipt schema_version org iid q cap submitted_at =
     rbind (raise_if (schema_version \<notin> set SUPPORTED_RECEIPT_SCHEMA_VERSIONS) (UnsupportedExecutionReceiptSchemaVersionError schema_version)) (\<lambda>_.
     rbind (get_or_raise (enum_of EXECUTION_RECEIPT_STATUSES ReceiptStatus_value (rq_status q)) (InvalidExecutionReceiptStatusError (rq_status q))) (\<lambda>st.
     rbind (raise_if (is_blank (rq_canonical_action_digest q)) (MissingRequiredExecutionReceiptFieldError ''canonical_action_digest'')) (\<lambda>_.
     rbind (raise_if (is_blank (rq_external_operation_id q)) (MissingRequiredExecutionReceiptFieldError ''external_operation_id'')) (\<lambda>_.
     rbind (raise_if (is_blank (rq_destination q)) (MissingRequiredExecutionReceiptFieldError ''destination'')) (\<lambda>_.
       Inr \<lparr>xe_schema_version = schema_version, xe_organization_id = org, xe_integration_identity_id = iid,
         xe_enforcement_binding_id = rq_enforcement_binding_id q, xe_decision_id = rq_decision_id q,
         xe_canonical_action_digest = rq_canonical_action_digest q, xe_external_operation_id = rq_external_operation_id q,
         xe_destination = rq_destination q, xe_status = st, xe_submitted_at = submitted_at, xe_capability_id = cap,
         xe_occurred_at = rq_occurred_at q, xe_detail = rq_detail q\<rparr>)))))"

section \<open>Submission\<close>

definition resolve_owned_binding :: "db \<Rightarrow> uuid \<Rightarrow> uuid \<Rightarrow> uuid \<Rightarrow> ReceiptError + EnforcementBinding" where
  "resolve_owned_binding d bid org iid = (case get_binding d bid org of
     Inl _ \<Rightarrow> Inl (ExecutionReceiptRejectionError ''enforcement_binding_not_found'')
   | Inr b \<Rightarrow> if eb_integration_identity_id b \<noteq> iid then Inl (ExecutionReceiptRejectionError ''enforcement_binding_not_found'') else Inr b)"

definition resolve_capability_linkage :: "db \<Rightarrow> EnforcementBinding \<Rightarrow> uuid \<Rightarrow> uuid \<Rightarrow> uuid option \<Rightarrow> ReceiptError + uuid option" where
  "resolve_capability_linkage d b did bid cap = (case cap of
     None \<Rightarrow> if eb_enforcement_assurance b = ''CAPABILITY_REQUIRED'' then Inl (ExecutionReceiptRejectionError ''capability_required_but_not_supplied'') else Inr None
   | Some i \<Rightarrow> (case db_find (\<lambda>c. cap_id c = i) (capability_tokens d) of
       None \<Rightarrow> Inl (ExecutionReceiptRejectionError ''capability_not_found_for_decision'')
     | Some c \<Rightarrow>
         if cap_decision_id c \<noteq> did then Inl (ExecutionReceiptRejectionError ''capability_not_found_for_decision'')
         else if cap_enforcement_binding_id c \<noteq> Some bid then Inl (ExecutionReceiptRejectionError ''capability_enforcement_binding_mismatch'')
         else if cap_consumed_at c = None then Inl (ExecutionReceiptRejectionError ''capability_not_consumed'')
         else Inr (Some (cap_id c))))"

text \<open>The receipts of one external operation. A column that is never null is compared with a value that may be.\<close>

definition of_operation :: "uuid option \<Rightarrow> string option \<Rightarrow> string \<Rightarrow> ExecutionReceiptRecord \<Rightarrow> bool" where
  "of_operation integ env opid x = (Some (xr_integration_id x) = integ \<and> Some (xr_environment x) = env \<and> xr_external_operation_id x = opid)"

definition check_destination_consistency :: "db \<Rightarrow> uuid option \<Rightarrow> string option \<Rightarrow> string \<Rightarrow> string \<Rightarrow> ReceiptError + unit" where
  "check_destination_consistency d integ env opid destination =
     (case sort_key xr_submitted_at (filter (of_operation integ env opid) (execution_receipts d)) of
        [] \<Rightarrow> Inr ()
      | x # _ \<Rightarrow> raise_if (xr_destination x \<noteq> destination) (ExecutionReceiptRejectionError ''destination_mismatch''))"

definition existing_receipt_or_none :: "db \<Rightarrow> uuid option \<Rightarrow> string option \<Rightarrow> string \<Rightarrow> ReceiptStatus \<Rightarrow> ExecutionReceiptRecord option" where
  "existing_receipt_or_none d integ env opid st = db_find (\<lambda>x. of_operation integ env opid x \<and> xr_status x = st) (execution_receipts d)"

definition resolve_existing_receipt :: "ExecutionReceiptRecord \<Rightarrow> string \<Rightarrow> string \<Rightarrow> string \<Rightarrow> ReceiptError + ExecutionReceiptRecord" where
  "resolve_existing_receipt x digest opid st =
     (if xr_receipt_digest x = digest then Inr x else Inl (ExecutionReceiptConflictError opid st))"

definition operation_status :: "ExecutionReceiptRecord \<Rightarrow> uuid \<times> string \<times> string \<times> ReceiptStatus" where
  "operation_status x = (xr_integration_id x, xr_environment x, xr_external_operation_id x, xr_status x)"

definition receipts_unique :: "db \<Rightarrow> bool" where
  "receipts_unique d = distinct (map operation_status (execution_receipts d))"

text \<open>The decision, if the organization may see it; both ways of not seeing it are one error.\<close>

definition visible_decision :: "db \<Rightarrow> uuid \<Rightarrow> uuid \<Rightarrow> 'e \<Rightarrow> (IntentError \<Rightarrow> 'e) \<Rightarrow> 'e + Decision" where
  "visible_decision d did org not_found other = (case get_decision_for_organization d did (Some org) of
     Inr de \<Rightarrow> Inr de
   | Inl e \<Rightarrow> Inl (case e of DecisionNotFoundError _ \<Rightarrow> not_found | CrossOrganizationAccessError _ \<Rightarrow> not_found | _ \<Rightarrow> other e))"

lemma visible_decision_Inr [simp]: "visible_decision d did org e f = Inr de \<longleftrightarrow> get_decision_for_organization d did (Some org) = Inr de"
  by (simp add: visible_decision_def split: sum.split)

text \<open>The checks, on what the submission reads: the intent, the receipt.\<close>

definition check_receipt ::
  "IntegrationIdentity \<Rightarrow> ReceiptRequest \<Rightarrow> datetime \<Rightarrow> db \<Rightarrow> ReceiptError + Intent \<times> ExecutionReceipt" where
  "check_receipt ii q now d =
     (let org = ii_organization_id ii; iid = ii_id ii; bid = rq_enforcement_binding_id q in
     rbind (raise_if (ii_status ii \<noteq> AgActive) (ExecutionReceiptRejectionError (''integration_identity_not_active:'' @ AgentStatus_value (ii_status ii)))) (\<lambda>_.
     rbind (case get_organization_row d org of None \<Rightarrow> Inr ()
       | Some r \<Rightarrow> raise_if (org_status r \<noteq> OrgActive) (ExecutionReceiptRejectionError (''organization_not_active:'' @ OrganizationStatus_value (org_status r)))) (\<lambda>_.
     rbind (resolve_owned_binding d bid org iid) (\<lambda>b.
     rbind (visible_decision d (rq_decision_id q) org (ExecutionReceiptRejectionError ''decision_not_found'') ReceiptPython) (\<lambda>de.
     rbind (get_or_raise (get_intent_row d (de_intent_id de)) (ReceiptPython (EngineRaised AttributeError))) (\<lambda>it.
     rbind (raise_if (it_integration_identity_id it \<noteq> Some iid) (ExecutionReceiptRejectionError ''identity_not_bound_to_decision'')) (\<lambda>_.
     rbind (raise_if (it_enforcement_binding_id it \<noteq> Some bid) (ExecutionReceiptRejectionError ''enforcement_binding_not_bound_to_decision'')) (\<lambda>_.
     rbind (raise_if (it_canonical_action_digest it \<noteq> Some (rq_canonical_action_digest q)) (ExecutionReceiptRejectionError ''canonical_action_digest_mismatch'')) (\<lambda>_.
     rbind (raise_if (it_external_operation_id it \<noteq> Some (rq_external_operation_id q)) (ExecutionReceiptRejectionError ''external_operation_id_mismatch'')) (\<lambda>_.
     rbind (resolve_capability_linkage d b (rq_decision_id q) bid (rq_capability_id q)) (\<lambda>cap.
     rbind (check_destination_consistency d (it_integration_id it) (it_environment it) (rq_external_operation_id q) (rq_destination q)) (\<lambda>_.
     rbind (build_execution_receipt EXECUTION_RECEIPT_SCHEMA_VERSION org iid q cap now) (\<lambda>x.
       Inr (it, x))))))))))))))"

definition receipt_event :: "crypto \<Rightarrow> ExecutionReceipt \<Rightarrow> (string \<times> json) list" where
  "receipt_event C x = [(''integration_identity_id'', JStr (xe_integration_identity_id x)), (''enforcement_binding_id'', JStr (xe_enforcement_binding_id x)),
     (''capability_id'', opt_str (xe_capability_id x)), (''canonical_action_digest'', JStr (xe_canonical_action_digest x)),
     (''external_operation_id'', JStr (xe_external_operation_id x)), (''destination'', JStr (xe_destination x)),
     (''status'', JStr (ReceiptStatus_value (xe_status x))), (''receipt_digest'', JStr (receipt_digest C x))]"

definition receipt_row :: "crypto \<Rightarrow> uuid \<Rightarrow> uuid \<Rightarrow> string \<Rightarrow> ExecutionReceipt \<Rightarrow> uuid \<Rightarrow> ExecutionReceiptRecord" where
  "receipt_row C rid integ env x eid = \<lparr>xr_id = rid, xr_organization_id = xe_organization_id x, xr_integration_identity_id = xe_integration_identity_id x,
     xr_enforcement_binding_id = xe_enforcement_binding_id x, xr_integration_id = integ, xr_environment = env, xr_decision_id = xe_decision_id x,
     xr_capability_id = xe_capability_id x, xr_canonical_action_digest = xe_canonical_action_digest x,
     xr_external_operation_id = xe_external_operation_id x, xr_destination = xe_destination x, xr_status = xe_status x,
     xr_receipt_digest = receipt_digest C x, xr_occurred_at = xe_occurred_at x, xr_detail = xe_detail x, xr_submitted_at = xe_submitted_at x,
     xr_evidence_id = Some eid\<rparr>"

definition submit_execution_receipt ::
  "crypto \<Rightarrow> Settings \<Rightarrow> IntegrationIdentity \<Rightarrow> ReceiptRequest \<Rightarrow> uuid \<Rightarrow> uuid \<Rightarrow> datetime \<Rightarrow> db \<Rightarrow> db
     \<Rightarrow> ReceiptError + db \<times> ExecutionReceiptRecord" where
  "submit_execution_receipt C S ii q rid eid now seen d =
     rbind (check_receipt ii q now seen) (\<lambda>(it, x).
     let opid = rq_external_operation_id q; digest = receipt_digest C x;
         existing = (\<lambda>s. existing_receipt_or_none s (it_integration_id it) (it_environment it) opid (xe_status x)) in
     case existing seen of
       Some r \<Rightarrow> rmap (Pair d) (resolve_existing_receipt r digest opid (rq_status q))
     | None \<Rightarrow>
         (case append_generic_evidence_event C S (Some (xe_organization_id x)) (xe_decision_id x) ''EXECUTION_RECEIPT_ACCEPTED''
                 (receipt_event C x) EvVerified eid now d of
            Inl e \<Rightarrow> Inl (ReceiptEvidenceError e)
          | Inr (d1, ev) \<Rightarrow> (case (it_integration_id it, it_environment it) of
              (Some integ, Some env) \<Rightarrow>
                let row = receipt_row C rid integ env x (ev_id ev); d2 = d1\<lparr>execution_receipts := execution_receipts d1 @ [row]\<rparr>
                in if receipts_unique d2 then Inr (d2, row)
                   else (case existing d of Some r \<Rightarrow> rmap (Pair d) (resolve_existing_receipt r digest opid (rq_status q))
                         | None \<Rightarrow> Inl ReceiptIntegrityError)
            | _ \<Rightarrow> Inl ReceiptIntegrityError)))"

section \<open>Reconciliation\<close>

definition TERMINAL_PRECEDENCE :: "ReceiptStatus list" where
  "TERMINAL_PRECEDENCE = [RcpSucceeded, RcpPartiallySucceeded, RcpFailed, RcpUnknown, RcpAccepted]"

fun STATUS_TO_OUTCOME :: "ReceiptStatus \<Rightarrow> ReconciliationOutcome" where
  "STATUS_TO_OUTCOME RcpSucceeded = RecMatched"
| "STATUS_TO_OUTCOME RcpPartiallySucceeded = RecPartial"
| "STATUS_TO_OUTCOME RcpFailed = RecExecutionFailed"
| "STATUS_TO_OUTCOME RcpUnknown = RecIndeterminate"
| "STATUS_TO_OUTCOME RcpAccepted = RecIndeterminate"

datatype ReconciliationError = ReconciliationNotApplicableError string | ReconciliationPython IntentError | ReconciliationEvidence EvidenceError

definition decision_is_authorized :: "db \<Rightarrow> Decision \<Rightarrow> bool" where
  "decision_is_authorized d de =
     (de_outcome de = OutAllow
      \<or> de_outcome de = OutHumanReview \<and> (case db_find (\<lambda>r. dr_decision_id r = de_id de) (decision_resolutions d) of
          None \<Rightarrow> False | Some r \<Rightarrow> dr_resolution r = ResApproved))"

definition result_digest :: "crypto \<Rightarrow> uuid \<Rightarrow> uuid \<Rightarrow> ReconciliationOutcome \<Rightarrow> uuid option \<Rightarrow> uuid option \<Rightarrow> string" where
  "result_digest C org did outc cap receipt = payload_hash C (JObj [(''organization_id'', JStr org), (''decision_id'', JStr did),
     (''outcome'', JStr (ReconciliationOutcome_value outc)), (''capability_id'', opt_str cap), (''latest_execution_receipt_id'', opt_str receipt)])"

definition latest_existing_result :: "db \<Rightarrow> uuid \<Rightarrow> ReconciliationResultRecord option" where
  "latest_existing_result d did = (case sort_key (\<lambda>r. - rc_computed_at r) (filter (\<lambda>r. rc_decision_id r = did) (reconciliation_results d)) of
     [] \<Rightarrow> None | r # _ \<Rightarrow> Some r)"

definition persist_result ::
  "crypto \<Rightarrow> Settings \<Rightarrow> uuid \<Rightarrow> uuid \<Rightarrow> ReconciliationOutcome \<Rightarrow> uuid option \<Rightarrow> uuid option \<Rightarrow> string option \<Rightarrow> string option
     \<Rightarrow> uuid \<Rightarrow> uuid \<Rightarrow> datetime \<Rightarrow> db \<Rightarrow> ReconciliationError + db \<times> ReconciliationResultRecord" where
  "persist_result C S org did outc cap receipt digest detail rid eid now d =
     (let fresh = (case append_generic_evidence_event C S (Some org) did ''RECONCILIATION_OUTCOME''
            [(''outcome'', JStr (ReconciliationOutcome_value outc)), (''capability_id'', opt_str cap), (''latest_execution_receipt_id'', opt_str receipt),
             (''canonical_action_digest'', opt_str digest), (''detail'', opt_str detail)] EvVerified eid now d of
          Inl e \<Rightarrow> Inl (ReconciliationEvidence e)
        | Inr (d1, ev) \<Rightarrow>
            let row = \<lparr>rc_id = rid, rc_organization_id = org, rc_decision_id = did, rc_capability_id = cap, rc_latest_execution_receipt_id = receipt,
                  rc_canonical_action_digest = digest, rc_outcome = outc, rc_result_digest = result_digest C org did outc cap receipt,
                  rc_detail = detail, rc_evidence_id = Some (ev_id ev), rc_computed_at = now\<rparr>
            in Inr (d1\<lparr>reconciliation_results := reconciliation_results d1 @ [row]\<rparr>, row))
      in case latest_existing_result d did of
           Some r \<Rightarrow> if rc_result_digest r = result_digest C org did outc cap receipt then Inr (d, r) else fresh
         | None \<Rightarrow> fresh)"

text \<open>\<^verbatim>\<open>{r.status: r for r in receipts}\<close>: the last receipt of a status.\<close>

definition by_status :: "ExecutionReceiptRecord list \<Rightarrow> ReceiptStatus \<Rightarrow> ExecutionReceiptRecord option" where
  "by_status rs st = db_find (\<lambda>r. xr_status r = st) (rev rs)"

definition receipts_of :: "db \<Rightarrow> uuid \<Rightarrow> ExecutionReceiptRecord list" where
  "receipts_of d did = sort_key xr_submitted_at (filter (\<lambda>r. xr_decision_id r = did) (execution_receipts d))"

definition chosen_receipt :: "ExecutionReceiptRecord list \<Rightarrow> ExecutionReceiptRecord option" where
  "chosen_receipt rs = (case List.map_filter (by_status rs) TERMINAL_PRECEDENCE of [] \<Rightarrow> None | r # _ \<Rightarrow> Some r)"

text \<open>What the records say: the outcome, the receipt it rests on and the detail.\<close>

definition reconciled_outcome ::
  "EnforcementBinding option \<Rightarrow> CapabilityToken option \<Rightarrow> string option \<Rightarrow> ExecutionReceiptRecord list
     \<Rightarrow> ReconciliationOutcome \<times> uuid option \<times> string option" where
  "reconciled_outcome binding cap digest receipts =
     (if (case binding of None \<Rightarrow> False | Some b \<Rightarrow> eb_enforcement_assurance b = ''CAPABILITY_REQUIRED'')
         \<and> (case cap of None \<Rightarrow> True | Some c \<Rightarrow> cap_consumed_at c = None)
      then (RecMismatched, None, Some ''capability_required_but_not_consumed'')
      else (case chosen_receipt receipts of
          None \<Rightarrow> (RecReceiptMissing, None, Some ''no_execution_receipt_recorded_yet'')
        | Some r \<Rightarrow>
            if Some (xr_canonical_action_digest r) \<noteq> digest
            then (RecMismatched, Some (xr_id r), Some ''canonical_action_digest_mismatch_on_reverification'')
            else (STATUS_TO_OUTCOME (xr_status r), Some (xr_id r), None)))"

definition reconcile_decision ::
  "crypto \<Rightarrow> Settings \<Rightarrow> uuid \<Rightarrow> uuid \<Rightarrow> uuid \<Rightarrow> uuid \<Rightarrow> datetime \<Rightarrow> db \<Rightarrow> ReconciliationError + db \<times> ReconciliationResultRecord" where
  "reconcile_decision C S org did rid eid now d =
     rbind (visible_decision d did org (ReconciliationNotApplicableError ''decision_not_found'') ReconciliationPython) (\<lambda>de.
     rbind (raise_if (\<not> decision_is_authorized d de) (ReconciliationNotApplicableError ''decision_not_authorized'')) (\<lambda>_.
     rbind (get_or_raise (get_intent_row d (de_intent_id de)) (ReconciliationPython (EngineRaised AttributeError))) (\<lambda>it.
     case it_enforcement_binding_id it of
       None \<Rightarrow> Inl (ReconciliationNotApplicableError ''agent_direct_intent_not_applicable'')
     | Some bid \<Rightarrow>
         let binding = get_binding_row d bid; cap = db_find (\<lambda>c. cap_decision_id c = did) (capability_tokens d);
             (outc, receipt, detail) = reconciled_outcome binding cap (it_canonical_action_digest it) (receipts_of d did)
         in persist_result C S org did outc (map_option cap_id cap) receipt (it_canonical_action_digest it) detail rid eid now d)))"

section \<open>What the services keep\<close>

lemma build_Inr:
  "build_execution_receipt v org iid q c now = Inr x \<Longrightarrow>
     xe_organization_id x = org \<and> xe_integration_identity_id x = iid \<and> xe_enforcement_binding_id x = rq_enforcement_binding_id q
     \<and> xe_decision_id x = rq_decision_id q \<and> xe_canonical_action_digest x = rq_canonical_action_digest q
     \<and> xe_external_operation_id x = rq_external_operation_id q \<and> xe_destination x = rq_destination q \<and> xe_capability_id x = c
     \<and> xe_submitted_at x = now \<and> rq_status q = ReceiptStatus_value (xe_status x)"
  by (auto simp: build_execution_receipt_def enum_of_def find_Some_iff)

lemma resolve_owned_Inr: "resolve_owned_binding d bid org iid = Inr b \<longleftrightarrow> get_binding d bid org = Inr b \<and> eb_integration_identity_id b = iid"
  by (auto simp: resolve_owned_binding_def split: sum.splits)

lemma check_receipt_Inr:
  assumes "check_receipt ii q now d = Inr (it, x)"
  obtains b de where "get_binding d (rq_enforcement_binding_id q) (ii_organization_id ii) = Inr b" "eb_integration_identity_id b = ii_id ii"
    "get_decision_for_organization d (rq_decision_id q) (Some (ii_organization_id ii)) = Inr de" "get_intent_row d (de_intent_id de) = Some it"
    "it_integration_identity_id it = Some (ii_id ii)" "it_enforcement_binding_id it = Some (rq_enforcement_binding_id q)"
    "it_canonical_action_digest it = Some (rq_canonical_action_digest q)" "it_external_operation_id it = Some (rq_external_operation_id q)"
    "resolve_capability_linkage d b (rq_decision_id q) (rq_enforcement_binding_id q) (rq_capability_id q) = Inr (xe_capability_id x)"
    "check_destination_consistency d (it_integration_id it) (it_environment it) (rq_external_operation_id q) (rq_destination q) = Inr ()"
    "build_execution_receipt EXECUTION_RECEIPT_SCHEMA_VERSION (ii_organization_id ii) (ii_id ii) q (xe_capability_id x) now = Inr x"
    "ii_status ii = AgActive"
proof -
  from assms [unfolded check_receipt_def Let_def rbind_Inr_iff raise_if_Inr_iff get_or_raise_Inr_iff visible_decision_Inr resolve_owned_Inr]
  obtain b de cap where f: "get_binding d (rq_enforcement_binding_id q) (ii_organization_id ii) = Inr b" "eb_integration_identity_id b = ii_id ii"
    "get_decision_for_organization d (rq_decision_id q) (Some (ii_organization_id ii)) = Inr de" "get_intent_row d (de_intent_id de) = Some it"
    "\<not> it_integration_identity_id it \<noteq> Some (ii_id ii)" "\<not> it_enforcement_binding_id it \<noteq> Some (rq_enforcement_binding_id q)"
    "\<not> it_canonical_action_digest it \<noteq> Some (rq_canonical_action_digest q)" "\<not> it_external_operation_id it \<noteq> Some (rq_external_operation_id q)"
    "resolve_capability_linkage d b (rq_decision_id q) (rq_enforcement_binding_id q) (rq_capability_id q) = Inr cap"
    "check_destination_consistency d (it_integration_id it) (it_environment it) (rq_external_operation_id q) (rq_destination q) = Inr ()"
    "build_execution_receipt EXECUTION_RECEIPT_SCHEMA_VERSION (ii_organization_id ii) (ii_id ii) q cap now = Inr x"
    "\<not> ii_status ii \<noteq> AgActive" by auto
  have "xe_capability_id x = cap" using build_Inr [OF f(11)] by simp
  then show thesis using that f by simp
qed

text \<open>What an accepted submission is: the recorded receipt again, or a new one with its Evidence record.\<close>

lemma generic_event_frame:
  assumes "append_generic_evidence_event C S org did ty ps st eid now d = Inr (d1, e)"
  shows "d1 = d\<lparr>evidence := evidence d @ [e]\<rparr>" and "ev_id e = eid" "ev_decision_id e = did" "ev_organization_id e = org"
    and "ev_payload e = JObj (dict_updates ps [(''payload_version'', JInt 2), (''event_type'', JStr ty), (''decision_id'', JStr did),
      (''recorded_at'', JStr (isoformat now)), (''previous_hash'', str_or_null (previous_chain_hash C d org))])"
  using assms by (auto simp: append_generic_evidence_event_def sign_and_add_def Let_def split: option.splits)

lemma resolve_existing_Inr: "resolve_existing_receipt r digest opid st = Inr x \<longleftrightarrow> x = r \<and> xr_receipt_digest r = digest"
  by (auto simp: resolve_existing_receipt_def)

lemma submit_receipt_cases:
  assumes "submit_execution_receipt C S ii q rid eid now seen d = Inr (d', row)" and "check_receipt ii q now seen = Inr (it, x)"
  shows "(\<exists>s \<in> {seen, d}. d' = d \<and> row \<in> set (execution_receipts s) \<and> xr_receipt_digest row = receipt_digest C x)
    \<or> (\<exists>integ env e. it_integration_id it = Some integ \<and> it_environment it = Some env \<and> row = receipt_row C rid integ env x eid
        \<and> append_generic_evidence_event C S (Some (xe_organization_id x)) (xe_decision_id x) ''EXECUTION_RECEIPT_ACCEPTED'' (receipt_event C x) EvVerified eid now d
          = Inr (d\<lparr>evidence := evidence d @ [e]\<rparr>, e)
        \<and> d' = d\<lparr>evidence := evidence d @ [e], execution_receipts := execution_receipts d @ [row]\<rparr> \<and> receipts_unique d')"
proof -
  have mem: "existing_receipt_or_none s i v o' st = Some r \<Longrightarrow> r \<in> set (execution_receipts s)" for s i v o' st r
    unfolding existing_receipt_or_none_def by (auto dest: db_find_Some)
  let ?ex = "\<lambda>s. existing_receipt_or_none s (it_integration_id it) (it_environment it) (rq_external_operation_id q) (xe_status x)"
  show ?thesis
  proof (cases "?ex seen")
    case (Some r)
    then have "d' = d" "row = r" "xr_receipt_digest r = receipt_digest C x"
      using assms by (auto simp: submit_execution_receipt_def resolve_existing_Inr)
    then show ?thesis using mem [OF Some] by blast
  next
    case None
    obtain d1 e where a: "append_generic_evidence_event C S (Some (xe_organization_id x)) (xe_decision_id x) ''EXECUTION_RECEIPT_ACCEPTED''
        (receipt_event C x) EvVerified eid now d = Inr (d1, e)"
      using assms None by (auto simp: submit_execution_receipt_def Let_def split: sum.splits)
    obtain integ env where ie: "it_integration_id it = Some integ" "it_environment it = Some env"
      using assms None a by (auto simp: submit_execution_receipt_def Let_def split: option.splits)
    note fr = generic_event_frame [OF a]
    let ?row = "receipt_row C rid integ env x eid"
    let ?d2 = "d\<lparr>evidence := evidence d @ [e], execution_receipts := execution_receipts d @ [?row]\<rparr>"
    have s: "submit_execution_receipt C S ii q rid eid now seen d = (if receipts_unique ?d2 then Inr (?d2, ?row)
        else (case ?ex d of Some r \<Rightarrow> rmap (Pair d) (resolve_existing_receipt r (receipt_digest C x) (rq_external_operation_id q) (rq_status q))
              | None \<Rightarrow> Inl ReceiptIntegrityError))"
      using None a fr(1,2) ie by (simp add: submit_execution_receipt_def assms(2) Let_def)
    show ?thesis
    proof (cases "receipts_unique ?d2")
      case True
      then show ?thesis using s assms(1) a fr(1) ie by auto
    next
      case False
      then obtain r where "?ex d = Some r" "d' = d" "row = r" "xr_receipt_digest r = receipt_digest C x"
        using assms(1) [unfolded s] by (auto simp: resolve_existing_Inr split: option.splits)
      then show ?thesis using mem by blast
    qed
  qed
qed

lemma submit_receipt_checked: "submit_execution_receipt C S ii q rid eid now seen d = Inr (d', row) \<Longrightarrow> \<exists>it x. check_receipt ii q now seen = Inr (it, x)"
  by (auto simp: submit_execution_receipt_def)

lemma linkage_consumed:
  assumes "resolve_capability_linkage d b did bid cap = Inr c" and "eb_enforcement_assurance b = ''CAPABILITY_REQUIRED''"
  shows "\<exists>k \<in> set (capability_tokens d). cap_decision_id k = did \<and> cap_enforcement_binding_id k = Some bid \<and> cap_consumed_at k \<noteq> None \<and> c = Some (cap_id k)"
  using assms by (auto simp: resolve_capability_linkage_def split: option.splits if_splits dest!: db_find_Some)

section \<open>Reconciliation\<close>

lemma by_status_set:
  assumes "distinct (map xr_status rs)"
  shows "by_status rs st = Some r \<longleftrightarrow> r \<in> set rs \<and> xr_status r = st"
proof
  assume "by_status rs st = Some r"
  then show "r \<in> set rs \<and> xr_status r = st" unfolding by_status_def by (auto dest: db_find_Some)
next
  assume "r \<in> set rs \<and> xr_status r = st"
  then show "by_status rs st = Some r"
    using db_find_unique [of xr_status "rev rs" r] assms by (auto simp: by_status_def rev_map [symmetric])
qed

lemma by_status_cong:
  assumes "distinct (map xr_status rs)" "distinct (map xr_status rs')" "set rs = set rs'"
  shows "by_status rs = by_status rs'"
proof
  fix st
  show "by_status rs st = by_status rs' st"
  proof (cases "by_status rs st")
    case None
    then have "\<forall>r. by_status rs' st \<noteq> Some r"
      using by_status_set [OF assms(1), of st] by_status_set [OF assms(2), of st] assms(3) by simp
    then show ?thesis using None by simp
  next
    case (Some r)
    then show ?thesis using by_status_set [OF assms(1), of st r] by_status_set [OF assms(2), of st r] assms(3) by simp
  qed
qed

lemma chosen_Succeeded:
  assumes "distinct (map xr_status rs)"
  shows "chosen_receipt rs = Some r \<and> xr_status r = RcpSucceeded \<longleftrightarrow> r \<in> set rs \<and> xr_status r = RcpSucceeded"
proof -
  have "by_status rs st = Some x \<Longrightarrow> xr_status x = st" for st x using by_status_set [OF assms] by blast
  then show ?thesis using by_status_set [OF assms, of RcpSucceeded r]
    by (auto simp: chosen_receipt_def TERMINAL_PRECEDENCE_def List.map_filter_simps split: option.splits)
qed

lemma chosen_None: "distinct (map xr_status rs) \<Longrightarrow> chosen_receipt rs = None \<longleftrightarrow> rs = []"
proof -
  assume d: "distinct (map xr_status rs)"
  show ?thesis
  proof (cases rs)
    case (Cons r rs')
    then have "by_status rs (xr_status r) = Some r" using by_status_set [OF d] by simp
    then show ?thesis using Cons by (cases "xr_status r") (auto simp: chosen_receipt_def TERMINAL_PRECEDENCE_def List.map_filter_simps split: option.splits)
  qed (simp add: chosen_receipt_def by_status_def TERMINAL_PRECEDENCE_def List.map_filter_simps)
qed

end
