(* ===== verification/Execution_Truth.thy ===== *)
theory Execution_Truth
  imports Execution_Receipts
begin

text \<open>
  What receipts and reconciliations are worth: which receipt is recorded, that it is evidenced, and what an
  outcome says about the receipts it was computed from.
\<close>

text \<open>C17: a receipt reports on an action that was decided. When a submission is answered, its adapter is active
  and owns the enforcement binding, and the decision's own intent names this adapter, this binding, this canonical action and
  this external operation; where the binding requires a capability, one of this decision and binding has been consumed and
  is the one the receipt names. The answer is a receipt with the digest of the submitted one: either the one already
  recorded, and nothing is written, or a new row, committed with one Evidence record about it, and then no other
  receipt has the same operation and status.\<close>

theorem receipt_reports_decided_action:
  assumes "submit_execution_receipt C S ii q rid eid now seen d = Inr (d', row)"
  shows "\<exists>b de it x. ii_status ii = AgActive
    \<and> get_binding seen (rq_enforcement_binding_id q) (ii_organization_id ii) = Inr b \<and> eb_integration_identity_id b = ii_id ii
    \<and> get_decision_for_organization seen (rq_decision_id q) (Some (ii_organization_id ii)) = Inr de \<and> get_intent_row seen (de_intent_id de) = Some it
    \<and> it_integration_identity_id it = Some (ii_id ii) \<and> it_enforcement_binding_id it = Some (rq_enforcement_binding_id q)
    \<and> it_canonical_action_digest it = Some (rq_canonical_action_digest q) \<and> it_external_operation_id it = Some (rq_external_operation_id q)
    \<and> (eb_enforcement_assurance b = ''CAPABILITY_REQUIRED'' \<longrightarrow> (\<exists>k \<in> set (capability_tokens seen). cap_decision_id k = rq_decision_id q
         \<and> cap_enforcement_binding_id k = Some (rq_enforcement_binding_id q) \<and> cap_consumed_at k \<noteq> None \<and> xe_capability_id x = Some (cap_id k)))
    \<and> xe_decision_id x = rq_decision_id q \<and> xe_canonical_action_digest x = rq_canonical_action_digest q \<and> xe_destination x = rq_destination q
    \<and> rq_status q = ReceiptStatus_value (xe_status x) \<and> xr_receipt_digest row = receipt_digest C x
    \<and> (d' = d \<and> row \<in> set (execution_receipts seen) \<union> set (execution_receipts d)
       \<or> (\<exists>e. d' = d\<lparr>evidence := evidence d @ [e], execution_receipts := execution_receipts d @ [row]\<rparr> \<and> receipts_unique d'
            \<and> xr_evidence_id row = Some (ev_id e) \<and> ev_decision_id e = xr_decision_id row
            \<and> xr_decision_id row = rq_decision_id q \<and> xr_destination row = rq_destination q \<and> xr_status row = xe_status x))"
proof -
  obtain it x where c: "check_receipt ii q now seen = Inr (it, x)" using submit_receipt_checked [OF assms] by blast
  from c obtain b de where f: "get_binding seen (rq_enforcement_binding_id q) (ii_organization_id ii) = Inr b" "eb_integration_identity_id b = ii_id ii"
    "get_decision_for_organization seen (rq_decision_id q) (Some (ii_organization_id ii)) = Inr de" "get_intent_row seen (de_intent_id de) = Some it"
    "it_integration_identity_id it = Some (ii_id ii)" "it_enforcement_binding_id it = Some (rq_enforcement_binding_id q)"
    "it_canonical_action_digest it = Some (rq_canonical_action_digest q)" "it_external_operation_id it = Some (rq_external_operation_id q)"
    "resolve_capability_linkage seen b (rq_decision_id q) (rq_enforcement_binding_id q) (rq_capability_id q) = Inr (xe_capability_id x)"
    "build_execution_receipt EXECUTION_RECEIPT_SCHEMA_VERSION (ii_organization_id ii) (ii_id ii) q (xe_capability_id x) now = Inr x"
    "ii_status ii = AgActive"
    by (rule check_receipt_Inr) blast
  note bx = build_Inr [OF f(10)]
  have cases: "xr_receipt_digest row = receipt_digest C x \<and> (d' = d \<and> row \<in> set (execution_receipts seen) \<union> set (execution_receipts d)
       \<or> (\<exists>e. d' = d\<lparr>evidence := evidence d @ [e], execution_receipts := execution_receipts d @ [row]\<rparr> \<and> receipts_unique d'
            \<and> xr_evidence_id row = Some (ev_id e) \<and> ev_decision_id e = xr_decision_id row
            \<and> xr_decision_id row = rq_decision_id q \<and> xr_destination row = rq_destination q \<and> xr_status row = xe_status x))"
    using submit_receipt_cases [OF assms c]
  proof (elim disjE exE conjE)
    fix integ env e assume row: "row = receipt_row C rid integ env x eid" and u: "receipts_unique d'"
      and a: "append_generic_evidence_event C S (Some (xe_organization_id x)) (xe_decision_id x) ''EXECUTION_RECEIPT_ACCEPTED'' (receipt_event C x) EvVerified eid now d
          = Inr (d\<lparr>evidence := evidence d @ [e]\<rparr>, e)"
      and d': "d' = d\<lparr>evidence := evidence d @ [e], execution_receipts := execution_receipts d @ [row]\<rparr>"
    show ?thesis using generic_event_frame(2,3) [OF a] bx u d' by (intro conjI disjI2 exI [of _ e]) (simp_all add: row receipt_row_def)
  qed auto
  have cap: "eb_enforcement_assurance b = ''CAPABILITY_REQUIRED'' \<longrightarrow> (\<exists>k \<in> set (capability_tokens seen). cap_decision_id k = rq_decision_id q
         \<and> cap_enforcement_binding_id k = Some (rq_enforcement_binding_id q) \<and> cap_consumed_at k \<noteq> None \<and> xe_capability_id x = Some (cap_id k))"
    using linkage_consumed [OF f(9)] by blast
  show ?thesis
    by (rule exI [of _ b], rule exI [of _ de], rule exI [of _ it], rule exI [of _ x]) (use f bx cap cases in \<open>simp only: simp_thms\<close>)
qed

section \<open>Reconciliation\<close>

definition checkpoint_passed :: "EnforcementBinding option \<Rightarrow> CapabilityToken option \<Rightarrow> bool" where
  "checkpoint_passed binding cap = (\<forall>b. binding = Some b \<and> eb_enforcement_assurance b = ''CAPABILITY_REQUIRED''
     \<longrightarrow> (\<exists>c. cap = Some c \<and> cap_consumed_at c \<noteq> None))"

lemma reconciled_checkpoint: "\<not> checkpoint_passed binding cap \<Longrightarrow> reconciled_outcome binding cap dg rs = (RecMismatched, None, Some ''capability_required_but_not_consumed'')"
  by (auto simp: reconciled_outcome_def checkpoint_passed_def split: option.splits)

lemma reconciled_passed:
  "checkpoint_passed binding cap \<Longrightarrow> reconciled_outcome binding cap dg rs =
     (case chosen_receipt rs of None \<Rightarrow> (RecReceiptMissing, None, Some ''no_execution_receipt_recorded_yet'')
      | Some r \<Rightarrow> if Some (xr_canonical_action_digest r) \<noteq> dg then (RecMismatched, Some (xr_id r), Some ''canonical_action_digest_mismatch_on_reverification'')
                  else (STATUS_TO_OUTCOME (xr_status r), Some (xr_id r), None))"
  by (auto simp: reconciled_outcome_def checkpoint_passed_def split: option.splits)

lemma matched_status: "STATUS_TO_OUTCOME st = RecMatched \<longleftrightarrow> st = RcpSucceeded" "STATUS_TO_OUTCOME st \<noteq> RecReceiptMissing" "STATUS_TO_OUTCOME st \<noteq> RecMismatched"
  by (cases st; simp)+

text \<open>C18: the outcome of a reconciliation is what the receipts say. A decision is MATCHED exactly when the
  checkpoint its binding declares was passed and a receipt reports SUCCEEDED for the decided action, and RECEIPT_MISSING
  exactly when the checkpoint was passed and there is no receipt; and the outcome depends on the set of
  receipts only, not on the order in which they arrived. The receipts of a decision have different statuses.\<close>

theorem reconciliation_outcome_exact:
  assumes "distinct (map xr_status rs)"
  shows "(fst (reconciled_outcome binding cap dg rs) = RecMatched \<longleftrightarrow>
        checkpoint_passed binding cap \<and> (\<exists>r \<in> set rs. xr_status r = RcpSucceeded \<and> Some (xr_canonical_action_digest r) = dg))
    \<and> (fst (reconciled_outcome binding cap dg rs) = RecReceiptMissing \<longleftrightarrow> checkpoint_passed binding cap \<and> rs = [])
    \<and> (\<forall>rs'. set rs' = set rs \<and> distinct (map xr_status rs') \<longrightarrow> reconciled_outcome binding cap dg rs' = reconciled_outcome binding cap dg rs)"
proof (intro conjI)
  show "fst (reconciled_outcome binding cap dg rs) = RecMatched \<longleftrightarrow>
        checkpoint_passed binding cap \<and> (\<exists>r \<in> set rs. xr_status r = RcpSucceeded \<and> Some (xr_canonical_action_digest r) = dg)"
  proof (cases "checkpoint_passed binding cap")
    case True
    have "fst (reconciled_outcome binding cap dg rs) = RecMatched \<longleftrightarrow>
        (\<exists>r. chosen_receipt rs = Some r \<and> xr_status r = RcpSucceeded \<and> Some (xr_canonical_action_digest r) = dg)"
      by (auto simp: reconciled_passed [OF True] matched_status split: option.splits)
    also have "\<dots> \<longleftrightarrow> (\<exists>r \<in> set rs. xr_status r = RcpSucceeded \<and> Some (xr_canonical_action_digest r) = dg)"
      using chosen_Succeeded [OF assms] by blast
    finally show ?thesis using True by simp
  qed (simp add: reconciled_checkpoint)
  show "fst (reconciled_outcome binding cap dg rs) = RecReceiptMissing \<longleftrightarrow> checkpoint_passed binding cap \<and> rs = []"
  proof (cases "checkpoint_passed binding cap")
    case True
    have "fst (reconciled_outcome binding cap dg rs) = RecReceiptMissing \<longleftrightarrow> chosen_receipt rs = None"
      by (auto simp: reconciled_passed [OF True] matched_status split: option.splits)
    then show ?thesis using True chosen_None [OF assms] by simp
  qed (simp add: reconciled_checkpoint)
  show "\<forall>rs'. set rs' = set rs \<and> distinct (map xr_status rs') \<longrightarrow> reconciled_outcome binding cap dg rs' = reconciled_outcome binding cap dg rs"
    using by_status_cong [OF _ assms] by (auto simp: reconciled_outcome_def chosen_receipt_def)
qed

definition demo_receipt :: "uuid \<Rightarrow> ReceiptStatus \<Rightarrow> ExecutionReceiptRecord" where
  "demo_receipt i st = \<lparr>xr_id = i, xr_organization_id = ''o1'', xr_integration_identity_id = ''ii1'', xr_enforcement_binding_id = ''b0'',
     xr_integration_id = ''int1'', xr_environment = ''prod'', xr_decision_id = ''d1'', xr_capability_id = None, xr_canonical_action_digest = ''dg'',
     xr_external_operation_id = ''op1'', xr_destination = ''bank'', xr_status = st, xr_receipt_digest = i, xr_occurred_at = None, xr_detail = None,
     xr_submitted_at = 0, xr_evidence_id = None\<rparr>"

theorem reconciliation_outcome_exact_witness:
  "fst (reconciled_outcome None None (Some ''dg'') [demo_receipt ''r1'' RcpFailed, demo_receipt ''r2'' RcpSucceeded]) = RecMatched
   \<and> reconciled_outcome None None (Some ''dg'') [demo_receipt ''r2'' RcpSucceeded, demo_receipt ''r1'' RcpFailed]
     = reconciled_outcome None None (Some ''dg'') [demo_receipt ''r1'' RcpFailed, demo_receipt ''r2'' RcpSucceeded]"
proof -
  have d: "distinct (map xr_status [demo_receipt ''r1'' RcpFailed, demo_receipt ''r2'' RcpSucceeded])" by (simp add: demo_receipt_def)
  note e = reconciliation_outcome_exact [OF d, of None None "Some ''dg''"]
  have "checkpoint_passed None None" by (simp add: checkpoint_passed_def)
  then have "fst (reconciled_outcome None None (Some ''dg'') [demo_receipt ''r1'' RcpFailed, demo_receipt ''r2'' RcpSucceeded]) = RecMatched"
    using e [THEN conjunct1] by (simp add: demo_receipt_def)
  moreover have "reconciled_outcome None None (Some ''dg'') [demo_receipt ''r2'' RcpSucceeded, demo_receipt ''r1'' RcpFailed]
     = reconciled_outcome None None (Some ''dg'') [demo_receipt ''r1'' RcpFailed, demo_receipt ''r2'' RcpSucceeded]"
    by (rule e [THEN conjunct2, THEN conjunct2, rule_format]) (auto simp: demo_receipt_def)
  ultimately show ?thesis ..
qed

text \<open>The newest result after an insertion at a later time.\<close>

lemma sort_key_snoc_least:
  assumes "\<And>x. x \<in> set xs \<Longrightarrow> k y < k x"
  shows "sort_key k (xs @ [y]) = y # sort_key k xs"
proof -
  have "insort_key k x (y # zs) = y # insort_key k x zs" if "k y < k x" for x zs using that by (auto dest: leD)
  then show ?thesis using assms by (induction xs) auto
qed

lemma latest_inserted:
  assumes "reconciliation_results d' = reconciliation_results d @ [row]" and "rc_decision_id row = did"
    and "\<And>r. r \<in> set (reconciliation_results d) \<Longrightarrow> rc_computed_at r < rc_computed_at row"
  shows "latest_existing_result d' did = Some row"
  using sort_key_snoc_least [of "filter (\<lambda>r. rc_decision_id r = did) (reconciliation_results d)" "\<lambda>r. - rc_computed_at r" row] assms
  by (simp add: latest_existing_result_def)

lemma persist_result_cases:
  assumes "persist_result C S org did outc cap receipt dg detail rid eid now d = Inr (d', row)"
  shows "d' = d \<and> latest_existing_result d did = Some row \<and> rc_result_digest row = result_digest C org did outc cap receipt
    \<or> (\<exists>e. d' = d\<lparr>evidence := evidence d @ [e], reconciliation_results := reconciliation_results d @ [row]\<rparr> \<and> rc_decision_id row = did
        \<and> rc_outcome row = outc \<and> rc_computed_at row = now \<and> rc_result_digest row = result_digest C org did outc cap receipt \<and> rc_evidence_id row = Some (ev_id e))"
  using assms by (auto simp: persist_result_def Let_def dest!: generic_event_frame(1) split: option.splits sum.splits if_splits)

text \<open>Results and Evidence records are not read by the rest of a reconciliation.\<close>

lemma reconcile_reads:
  assumes "d1 = d\<lparr>evidence := es, reconciliation_results := rs\<rparr>"
  shows "visible_decision d1 did org a b = visible_decision d did org a b" "decision_is_authorized d1 de = decision_is_authorized d de"
    "get_intent_row d1 i = get_intent_row d i" "get_binding_row d1 i = get_binding_row d i" "capability_tokens d1 = capability_tokens d"
    "receipts_of d1 did = receipts_of d did"
proof -
  have rows: "get_decision_row d1 = get_decision_row d" "get_intent_row d1 = get_intent_row d"
    by (simp_all add: assms get_decision_row_def get_intent_row_def fun_eq_iff)
  have scope: "resolve_chain_scope d1 = resolve_chain_scope d"
    by (simp add: assms resolve_chain_scope_def get_agent_row_def get_principal_row_def fun_eq_iff split: option.split)
  show "visible_decision d1 did org a b = visible_decision d did org a b"
    unfolding visible_decision_def get_decision_for_organization_def rows scope by (rule refl)
qed (simp_all add: assms get_intent_row_def decision_is_authorized_def get_binding_row_def receipts_of_def)

text \<open>C19: reconciling again is a no-op. When \<open>reconcile_decision\<close> has answered and nothing else has been written
  since, calling it again at any time answers with the same row and writes nothing. The results on record are older
  than the first call.\<close>

theorem reconciliation_idempotent:
  assumes "reconcile_decision C S org did rid eid now d = Inr (d', row)" and "\<forall>r \<in> set (reconciliation_results d). rc_computed_at r < now"
  shows "reconcile_decision C S org did rid' eid' now' d' = Inr (d', row)"
proof -
  obtain de it bid where v: "get_decision_for_organization d did (Some org) = Inr de" "decision_is_authorized d de" "get_intent_row d (de_intent_id de) = Some it"
    "it_enforcement_binding_id it = Some bid"
    using assms(1) by (auto simp: reconcile_decision_def split: option.splits)
  let ?cap = "db_find (\<lambda>c. cap_decision_id c = did) (capability_tokens d)"
  obtain outc receipt detail where o: "reconciled_outcome (get_binding_row d bid) ?cap (it_canonical_action_digest it) (receipts_of d did) = (outc, receipt, detail)"
    by (rule prod_cases3)
  have p: "persist_result C S org did outc (map_option cap_id ?cap) receipt (it_canonical_action_digest it) detail rid eid now d = Inr (d', row)"
    using assms(1) v o by (simp add: reconcile_decision_def Let_def)
  obtain es rs where d': "d' = d\<lparr>evidence := es, reconciliation_results := rs\<rparr>"
    using persist_result_cases [OF p]
  proof (elim disjE exE conjE)
    assume "d' = d"
    then have "d' = d\<lparr>evidence := evidence d, reconciliation_results := reconciliation_results d\<rparr>" by simp
    then show thesis by (rule that)
  next
    fix e assume "d' = d\<lparr>evidence := evidence d @ [e], reconciliation_results := reconciliation_results d @ [row]\<rparr>"
    then show thesis by (rule that)
  qed
  have "latest_existing_result d' did = Some row \<and> rc_result_digest row = result_digest C org did outc (map_option cap_id ?cap) receipt"
    using persist_result_cases [OF p]
  proof (elim disjE exE conjE)
    fix e assume x: "d' = d\<lparr>evidence := evidence d @ [e], reconciliation_results := reconciliation_results d @ [row]\<rparr>" "rc_decision_id row = did"
      "rc_computed_at row = now" "rc_result_digest row = result_digest C org did outc (map_option cap_id ?cap) receipt"
    have "latest_existing_result d' did = Some row" by (rule latest_inserted [of d' d]) (use x assms(2) in auto)
    then show ?thesis using x(4) by simp
  qed simp
  then have "persist_result C S org did outc (map_option cap_id ?cap) receipt (it_canonical_action_digest it) detail rid' eid' now' d' = Inr (d', row)"
    by (simp add: persist_result_def Let_def)
  moreover have "visible_decision d did org a b = Inr de" for a b using v(1) by (simp add: visible_decision_def)
  ultimately show ?thesis using v(2-4) o unfolding reconcile_decision_def
    by (simp add: reconcile_reads [OF d'] Let_def)
qed

section \<open>An operation and its receipts\<close>

definition reporting_identity :: IntegrationIdentity where
  "reporting_identity = \<lparr>ii_id = ''ii1'', ii_organization_id = ''o1'', ii_name = ''erp'', ii_status = AgActive, ii_created_by = None, ii_created_at = 0\<rparr>"

definition executed_db :: db where
  "executed_db = exec_db\<lparr>intents := [exec_intent\<lparr>it_integration_identity_id := Some ''ii1'', it_enforcement_binding_id := Some ''b0'',
       it_canonical_action_digest := Some ''dg'', it_external_operation_id := Some ''op1'', it_integration_id := Some ''int1'', it_environment := Some ''prod''\<rparr>],
     enforcement_bindings := [\<lparr>eb_id = ''b0'', eb_organization_id = ''o1'', eb_integration_identity_id = ''ii1'',
       eb_integration_contract_version_id = ''cv1'', eb_integration_id = ''int1'', eb_source_operation = ''pay'', eb_environment = ''prod'',
       eb_status = BindActive, eb_created_by = None, eb_created_at = 0, eb_activated_at = None, eb_retired_at = None,
       eb_enforcement_assurance = ''ADVISORY''\<rparr>]\<rparr>"

definition report :: "string \<Rightarrow> string \<Rightarrow> ReceiptRequest" where
  "report destination st = \<lparr>rq_enforcement_binding_id = ''b0'', rq_decision_id = ''d1'', rq_canonical_action_digest = ''dg'', rq_external_operation_id = ''op1'',
     rq_destination = destination, rq_status = st, rq_capability_id = None, rq_occurred_at = None, rq_detail = None\<rparr>"

lemma executed_rows:
  "get_organization_row executed_db ''o1'' = Some (new_organization ''o1'' ''Acme'' ''production'' 0)" "org_status (new_organization ''o1'' ''Acme'' ''production'' 0) = OrgActive"
  "get_decision_for_organization executed_db ''d1'' (Some ''o1'') = Inr exec_decision"
  "get_intent_row executed_db (de_intent_id exec_decision) = Some (hd (intents executed_db))"
  "get_binding executed_db ''b0'' ''o1'' = Inr (hd (enforcement_bindings executed_db))"
  "execution_receipts executed_db = []" "reconciliation_results executed_db = []"
  by (simp_all add: executed_db_def exec_rows get_decision_for_organization_def resolve_chain_scope_def get_binding_def)

lemma demo_check:
  assumes "\<not> is_blank destination"
  obtains x where "check_receipt reporting_identity (report destination (ReceiptStatus_value st)) 0 executed_db = Inr (hd (intents executed_db), x)"
    "xe_status x = st" "xe_destination x = destination" "xe_external_operation_id x = ''op1''"
proof -
  have i: "it_integration_identity_id (hd (intents executed_db)) = Some ''ii1''" "it_enforcement_binding_id (hd (intents executed_db)) = Some ''b0''"
    "it_canonical_action_digest (hd (intents executed_db)) = Some ''dg''" "it_external_operation_id (hd (intents executed_db)) = Some ''op1''"
    "eb_integration_identity_id (hd (enforcement_bindings executed_db)) = ''ii1''" "eb_enforcement_assurance (hd (enforcement_bindings executed_db)) = ''ADVISORY''"
    by (simp_all add: executed_db_def)
  have e: "enum_of EXECUTION_RECEIPT_STATUSES ReceiptStatus_value (ReceiptStatus_value st) = Some st" by (rule receipt_status_enum.enum_of_value)
  have b: "\<not> is_blank ''dg''" "\<not> is_blank ''op1''" by code_simp+
  obtain x where x: "build_execution_receipt EXECUTION_RECEIPT_SCHEMA_VERSION ''o1'' ''ii1'' (report destination (ReceiptStatus_value st)) None 0 = Inr x"
      "xe_status x = st"
    using assms b e by (simp add: build_execution_receipt_def EXECUTION_RECEIPT_SCHEMA_VERSION_def SUPPORTED_RECEIPT_SCHEMA_VERSIONS_def report_def)
  have "check_receipt reporting_identity (report destination (ReceiptStatus_value st)) 0 executed_db = Inr (hd (intents executed_db), x)"
    using x(1) i by (simp add: check_receipt_def reporting_identity_def report_def executed_rows resolve_owned_binding_def visible_decision_def
        resolve_capability_linkage_def check_destination_consistency_def)
  then show thesis using that x(2) build_Inr [OF x(1)] by (simp add: report_def)
qed

lemma demo_submit:
  assumes "\<not> is_blank destination" and "receipts_unique d" and "\<forall>r \<in> set (execution_receipts d). xr_status r \<noteq> st"
  obtains d' row where "submit_execution_receipt plain_crypto demo_settings reporting_identity (report destination (ReceiptStatus_value st)) rid eid 0 executed_db d = Inr (d', row)"
    "execution_receipts d' = execution_receipts d @ [row]" "xr_destination row = destination" "xr_status row = st" "xr_external_operation_id row = ''op1''"
    "xr_integration_id row = ''int1''" "xr_environment row = ''prod''"
proof -
  obtain x where x: "check_receipt reporting_identity (report destination (ReceiptStatus_value st)) 0 executed_db = Inr (hd (intents executed_db), x)"
    "xe_status x = st" "xe_destination x = destination" "xe_external_operation_id x = ''op1''" by (rule demo_check [OF assms(1)])
  obtain d1 e where a: "append_generic_evidence_event plain_crypto demo_settings (Some (xe_organization_id x)) (xe_decision_id x) ''EXECUTION_RECEIPT_ACCEPTED''
      (receipt_event plain_crypto x) EvVerified eid 0 d = Inr (d1, e)" using demo_append by blast
  note fr = generic_event_frame [OF a]
  have i: "it_integration_id (hd (intents executed_db)) = Some ''int1''" "it_environment (hd (intents executed_db)) = Some ''prod''"
    by (simp_all add: executed_db_def)
  let ?row = "receipt_row plain_crypto rid ''int1'' ''prod'' x eid"
  have "receipts_unique (d\<lparr>evidence := evidence d @ [e], execution_receipts := execution_receipts d @ [?row]\<rparr>)"
    using assms(2,3) x(2) by (auto simp: receipts_unique_def operation_status_def receipt_row_def)
  then have "submit_execution_receipt plain_crypto demo_settings reporting_identity (report destination (ReceiptStatus_value st)) rid eid 0 executed_db d
      = Inr (d\<lparr>evidence := evidence d @ [e], execution_receipts := execution_receipts d @ [?row]\<rparr>, ?row)"
    using x(1) a fr(1,2) i by (simp add: submit_execution_receipt_def existing_receipt_or_none_def executed_rows Let_def)
  then show thesis by (rule that) (simp_all add: receipt_row_def x)
qed

theorem receipt_reports_decided_action_witness:
  "\<exists>d' row. submit_execution_receipt plain_crypto demo_settings reporting_identity (report ''bank'' ''SUCCEEDED'') ''x1'' ''e9'' 0 executed_db executed_db = Inr (d', row)
     \<and> (\<exists>b. get_binding executed_db ''b0'' ''o1'' = Inr b \<and> eb_integration_identity_id b = ''ii1'')"
proof -
  have u: "receipts_unique executed_db" "\<forall>r \<in> set (execution_receipts executed_db). xr_status r \<noteq> RcpSucceeded"
    by (simp_all add: receipts_unique_def executed_rows)
  have "\<not> is_blank ''bank''" by code_simp
  then obtain d' row where s: "submit_execution_receipt plain_crypto demo_settings reporting_identity (report ''bank'' (ReceiptStatus_value RcpSucceeded)) ''x1'' ''e9'' 0 executed_db executed_db = Inr (d', row)"
    using demo_submit [OF _ u] by metis
  from receipt_reports_decided_action [OF s] have "\<exists>b. get_binding executed_db ''b0'' ''o1'' = Inr b \<and> eb_integration_identity_id b = ''ii1''"
    by (auto simp: report_def reporting_identity_def)
  with s show ?thesis by auto
qed

text \<open>Two submissions that run at the same time can record two destinations for one operation: the check reads
  before either has committed, and no index covers the destination.\<close>

theorem concurrent_destinations:
  "\<exists>d1 d2 r1 r2. submit_execution_receipt plain_crypto demo_settings reporting_identity (report ''bank'' ''ACCEPTED'') ''x1'' ''e8'' 0 executed_db executed_db = Inr (d1, r1)
     \<and> submit_execution_receipt plain_crypto demo_settings reporting_identity (report ''safe'' ''SUCCEEDED'') ''x2'' ''e9'' 0 executed_db d1 = Inr (d2, r2)
     \<and> execution_receipts d2 = [r1, r2] \<and> xr_external_operation_id r1 = xr_external_operation_id r2 \<and> xr_destination r1 \<noteq> xr_destination r2"
proof -
  have u: "receipts_unique executed_db" "\<forall>r \<in> set (execution_receipts executed_db). xr_status r \<noteq> RcpAccepted"
    by (simp_all add: receipts_unique_def executed_rows)
  have b: "\<not> is_blank ''bank''" "\<not> is_blank ''safe''" by code_simp+
  obtain d1 r1 where 1: "submit_execution_receipt plain_crypto demo_settings reporting_identity (report ''bank'' (ReceiptStatus_value RcpAccepted)) ''x1'' ''e8'' 0 executed_db executed_db = Inr (d1, r1)"
    "execution_receipts d1 = execution_receipts executed_db @ [r1]" "xr_destination r1 = ''bank''" "xr_status r1 = RcpAccepted" "xr_external_operation_id r1 = ''op1''"
    by (rule demo_submit [OF b(1) u])
  have u1: "receipts_unique d1" "\<forall>r \<in> set (execution_receipts d1). xr_status r \<noteq> RcpSucceeded"
    using 1(2,4) by (simp_all add: receipts_unique_def executed_rows)
  obtain d2 r2 where 2: "submit_execution_receipt plain_crypto demo_settings reporting_identity (report ''safe'' (ReceiptStatus_value RcpSucceeded)) ''x2'' ''e9'' 0 executed_db d1 = Inr (d2, r2)"
    "execution_receipts d2 = execution_receipts d1 @ [r2]" "xr_destination r2 = ''safe''" "xr_external_operation_id r2 = ''op1''"
    by (rule demo_submit [OF b(2) u1])
  show ?thesis using 1 2 by (intro exI [of _ d1] exI [of _ d2] exI [of _ r1] exI [of _ r2]) (simp add: executed_rows)
qed

lemma executed_authorized: "decision_is_authorized executed_db exec_decision"
  by (simp add: decision_is_authorized_def exec_rows)

theorem reconciliation_idempotent_witness:
  "\<exists>d' row. reconcile_decision plain_crypto demo_settings ''o1'' ''d1'' ''rc1'' ''e7'' 5 executed_db = Inr (d', row)
     \<and> rc_outcome row = RecReceiptMissing \<and> reconcile_decision plain_crypto demo_settings ''o1'' ''d1'' ''rc2'' ''e8'' 9 d' = Inr (d', row)"
proof -
  have b: "it_enforcement_binding_id (hd (intents executed_db)) = Some ''b0''" by (simp add: executed_db_def)
  have bi: "get_binding_row executed_db ''b0'' = Some (hd (enforcement_bindings executed_db))" "receipts_of executed_db ''d1'' = []"
    "eb_enforcement_assurance (hd (enforcement_bindings executed_db)) = ''ADVISORY''"
    by (simp_all add: executed_db_def get_binding_row_def receipts_of_def exec_rows)
  obtain d1 e where a: "append_generic_evidence_event plain_crypto demo_settings (Some ''o1'') ''d1'' ''RECONCILIATION_OUTCOME''
      [(''outcome'', JStr (ReconciliationOutcome_value RecReceiptMissing)),
       (''capability_id'', opt_str (map_option cap_id (db_find (\<lambda>c. cap_decision_id c = ''d1'') (capability_tokens executed_db)))), (''latest_execution_receipt_id'', opt_str None),
       (''canonical_action_digest'', opt_str (it_canonical_action_digest (hd (intents executed_db)))), (''detail'', opt_str (Some ''no_execution_receipt_recorded_yet''))] EvVerified ''e7'' 5 executed_db = Inr (d1, e)"
    using demo_append by blast
  have "chosen_receipt [] = None" by (rule chosen_None [THEN iffD2]) simp_all
  then have o: "reconciled_outcome (Some (hd (enforcement_bindings executed_db))) c g [] = (RecReceiptMissing, None, Some ''no_execution_receipt_recorded_yet'')" for c g
    by (simp add: reconciled_outcome_def bi(3))
  have "\<exists>d' row. reconcile_decision plain_crypto demo_settings ''o1'' ''d1'' ''rc1'' ''e7'' 5 executed_db = Inr (d', row) \<and> rc_outcome row = RecReceiptMissing"
    using a by (simp add: reconcile_decision_def visible_decision_def executed_rows executed_authorized b bi o Let_def persist_result_def latest_existing_result_def)
  then obtain d' row where r: "reconcile_decision plain_crypto demo_settings ''o1'' ''d1'' ''rc1'' ''e7'' 5 executed_db = Inr (d', row)" "rc_outcome row = RecReceiptMissing" by blast
  from reconciliation_idempotent [OF r(1), of "''rc2''" "''e8''" 9] r show ?thesis by (simp add: executed_rows)
qed

end
