(* ===== verification/Policy_Explainer.thy ===== *)
theory Policy_Explainer
  imports Policy_Store
begin

text \<open>
  \<^verbatim>\<open>server/app/domain/policy_simulation/explainer.py\<close> and \<^verbatim>\<open>authority_trace.py\<close>: the rule-by-rule explanation
  that accompanies a simulated decision. It evaluates the conditions of a policy a second time, in Python, next to
  the Rego that OPA evaluates; the lemmas compare the two.
\<close>

section \<open>Python's \<open>in\<close> and \<open><=\<close>\<close>

text \<open>Without NaN, \<open>x <= y\<close> raises exactly when \<open>y < x\<close> does and is its negation.\<close>

definition py_le :: "json \<Rightarrow> json \<Rightarrow> py_error + bool" where
  "py_le x y = rmap Not (py_lt y x)"

fun py_contains :: "json \<Rightarrow> json \<Rightarrow> py_error + bool" where
  "py_contains (JStr s) x = (case x of JStr t \<Rightarrow> Inr (sublist t s) | _ \<Rightarrow> Inl TypeError)"
| "py_contains (JList xs) x = Inr (py_mem x xs)"
| "py_contains (JObj ps) x = (if hashable x then Inr (\<exists>k \<in> fst ` set ps. x = JStr k) else Inl TypeError)"
| "py_contains _ x = Inl TypeError"

section \<open>explainer.py\<close>

text \<open>The loop over the parts of a path; \<open>JNull\<close> is \<open>None\<close>.\<close>

fun walk :: "json \<Rightarrow> string list \<Rightarrow> json" where
  "walk base [] = base"
| "walk base (part # ps) = (case base of
     JObj m \<Rightarrow> (case map_of m part of None \<Rightarrow> JNull | Some v \<Rightarrow> walk v ps)
   | _ \<Rightarrow> JNull)"

definition resolve_value :: "string \<Rightarrow> json \<Rightarrow> json \<Rightarrow> json" where
  "resolve_value f intent ctx =
     (if startswith f ''context.'' then walk ctx (split_on CHR ''.'' (drop 8 f)) else walk intent (split_on CHR ''.'' f))"

definition compare_values :: "Operator \<Rightarrow> json \<Rightarrow> json \<Rightarrow> py_error + bool" where
  "compare_values op actual expected = (case op of
     LTE \<Rightarrow> py_le actual expected
   | GTE \<Rightarrow> py_le expected actual
   | EQ \<Rightarrow> Inr (py_eq actual expected)
   | NEQ \<Rightarrow> Inr (\<not> py_eq actual expected)
   | LT \<Rightarrow> py_lt actual expected
   | GT \<Rightarrow> py_lt expected actual
   | IN \<Rightarrow> py_contains expected actual
   | CONTAINS \<Rightarrow> py_contains actual expected
   | EXISTS \<Rightarrow> Inl ValueError)"

definition condition_passes :: "Operator \<Rightarrow> json \<Rightarrow> json \<Rightarrow> bool" where
  "condition_passes op actual expected =
     (if op = EXISTS then (actual \<noteq> JNull) = truthy expected
      else if actual = JNull then False
      else (case compare_values op actual expected of Inl _ \<Rightarrow> False | Inr b \<Rightarrow> b))"

record ConditionEvaluation =
  ce_field :: string
  ce_operator :: string
  ce_expected_value :: json
  ce_actual_value :: json
  ce_passed :: bool

record RuleEvaluation =
  re_policy_id :: string
  re_policy_name :: string
  re_principal :: string
  re_action :: string
  re_effect :: string
  re_scope_matched :: bool
  re_conditions :: "ConditionEvaluation list"
  re_matched :: bool
  re_summary :: string

definition intent_get :: "json \<Rightarrow> string \<Rightarrow> json" where
  "intent_get intent k = (case obj_get intent k of None \<Rightarrow> JNull | Some v \<Rightarrow> v)"

definition explainer_scope_matches :: "RuntimePolicy \<Rightarrow> json \<Rightarrow> bool" where
  "explainer_scope_matches p intent =
     (if intent_get intent ''action'' \<noteq> JStr (action (scope p)) then False
      else if resource (scope p) \<noteq> None \<and> intent_get intent ''resource'' \<noteq> opt_str (resource (scope p)) then False
      else True)"

definition evaluate_condition :: "Condition \<Rightarrow> json \<Rightarrow> json \<Rightarrow> ConditionEvaluation" where
  "evaluate_condition c intent ctx =
     (let actual = resolve_value (field c) intent ctx
      in \<lparr>ce_field = field c, ce_operator = Operator_value (operator c), ce_expected_value = cvalue c, ce_actual_value = actual,
          ce_passed = condition_passes (operator c) actual (cvalue c)\<rparr>)"

definition rule_summary :: "RuntimePolicy \<Rightarrow> string \<Rightarrow> bool \<Rightarrow> ConditionEvaluation list \<Rightarrow> string" where
  "rule_summary p acting_for scope_matched cs =
     (if acting_for \<noteq> principal (scope p) then
        ''Does not apply: policy is scoped to '' @ repr_str (principal (scope p)) @ '', not '' @ repr_str acting_for @ ''.''
      else if \<not> scope_matched then ''Does not apply: action or resource does not match this policy's scope.''
      else (case filter (\<lambda>c. \<not> ce_passed c) cs of
          [] \<Rightarrow> ''Matched -- effect: '' @ Effect_value (effect p) @ ''.''
        | c # _ \<Rightarrow> ''Failed: '' @ ce_field c @ '' '' @ ce_operator c @ '' '' @ py_repr (ce_expected_value c)
                    @ '' (actual: '' @ py_repr (ce_actual_value c) @ '').''))"

definition evaluate_rule :: "RuntimePolicy \<Rightarrow> json \<Rightarrow> json \<Rightarrow> string \<Rightarrow> string list \<Rightarrow> RuleEvaluation" where
  "evaluate_rule p intent ctx acting_for matched =
     (let scope_matched = (acting_for = principal (scope p) \<and> explainer_scope_matches p intent);
          cs = map (\<lambda>c. evaluate_condition c intent ctx) (all_of (conditions p))
      in \<lparr>re_policy_id = rp_id p, re_policy_name = rp_name p, re_principal = principal (scope p), re_action = action (scope p),
          re_effect = Effect_value (effect p), re_scope_matched = scope_matched, re_conditions = cs,
          re_matched = (rp_id p \<in> set matched), re_summary = rule_summary p acting_for scope_matched cs\<rparr>)"

definition build_rule_evaluations :: "RuntimePolicy list \<Rightarrow> json \<Rightarrow> json \<Rightarrow> string \<Rightarrow> string list \<Rightarrow> RuleEvaluation list" where
  "build_rule_evaluations ps intent ctx acting_for ms = map (\<lambda>p. evaluate_rule p intent ctx acting_for ms) ps"

section \<open>authority\_trace.py\<close>

record AuthorityTraceStep =
  ts_label :: string
  ts_detail :: "string option"

definition outcome_label :: "string \<Rightarrow> string" where
  "outcome_label out = (if out = ''ALLOW'' then ''Approved'' else if out = ''DENY'' then ''Denied''
     else if out = ''HUMAN_REVIEW'' then ''Escalation Required'' else out)"

definition build_authority_trace :: "string \<Rightarrow> string \<Rightarrow> string \<Rightarrow> int \<Rightarrow> string option \<Rightarrow> string \<Rightarrow> AuthorityTraceStep list" where
  "build_authority_trace agent_name acting_as pname pversion matched out =
     [\<lparr>ts_label = agent_name, ts_detail = Some ''Acting agent''\<rparr>,
      \<lparr>ts_label = acting_as, ts_detail = Some ''Acting as''\<rparr>,
      \<lparr>ts_label = pname @ '' v'' @ show_int pversion, ts_detail = Some ''Policy under simulation''\<rparr>]
     @ (case matched of None \<Rightarrow> []
        | Some m \<Rightarrow> if m \<noteq> [] \<and> m \<noteq> pname then [\<lparr>ts_label = m, ts_detail = Some ''Rule that decided the outcome''\<rparr>] else [])
     @ [\<lparr>ts_label = outcome_label out, ts_detail = Some ''Result''\<rparr>]"

section \<open>Agreement with the compiled rules\<close>

text \<open>Two scalars that Python and Rego compare alike: strings, numbers, or booleans.\<close>

fun same_kind :: "json \<Rightarrow> json \<Rightarrow> bool" where
  "same_kind (JStr s) (JStr t) = True"
| "same_kind (JBool a) (JBool b) = True"
| "same_kind x y = (is_number x \<and> is_number y)"

definition comparable :: "Operator \<Rightarrow> json \<Rightarrow> json \<Rightarrow> bool" where
  "comparable op expected v = (case op of
     EXISTS \<Rightarrow> is_bool expected
   | IN \<Rightarrow> (case expected of JList xs \<Rightarrow> list_all (same_kind v) xs \<and> v \<noteq> JNull | _ \<Rightarrow> False)
   | CONTAINS \<Rightarrow> (case (expected, v) of (JStr s, JStr t) \<Rightarrow> True | _ \<Rightarrow> False)
   | _ \<Rightarrow> same_kind expected v)"

lemma same_kind_alike: "same_kind x y \<Longrightarrow> \<exists>b. alike b x \<and> alike b y"
  by (cases x; cases y) (auto simp: alike_def)

lemma same_kind_sym: "same_kind x y \<Longrightarrow> same_kind y x"
  by (cases x; cases y) auto

lemma same_kind_lt: "same_kind x y \<Longrightarrow> py_lt x y = Inr (rego_key x < rego_key y)"
  by (cases x; cases y) (auto simp: py_lt.simps)

lemma same_kind_le: "same_kind x y \<Longrightarrow> py_le x y = Inr (rego_key x \<le> rego_key y)"
  using same_kind_lt [OF same_kind_sym] by (auto simp: py_le_def)

lemma same_kind_eq: "same_kind x y \<Longrightarrow> py_eq x y \<longleftrightarrow> rego_eq x y"
  using same_kind_alike py_eq_alike rego_eq_scalar alike_scalar by blast

lemma same_kind_eq': "same_kind x y \<Longrightarrow> py_eq y x \<longleftrightarrow> rego_eq x y"
  using same_kind_alike [of x y] py_eq_alike [of _ y x] by (auto simp: rego_eq_scalar alike_scalar)

lemma same_kind_not_null: "same_kind x y \<Longrightarrow> x \<noteq> JNull \<and> y \<noteq> JNull"
  by (cases x; cases y) auto

lemma walk_path_get: "walk j ks = (case path_get j ks of None \<Rightarrow> JNull | Some v \<Rightarrow> v)"
  by (induction j ks rule: walk.induct) (auto split: json.splits option.splits)

text \<open>A present value is judged as Rego judges it, and so is a missing one.\<close>

lemma condition_passes_present:
  assumes "comparable op expected v"
  shows "condition_passes op v expected \<longleftrightarrow> holds op expected v"
proof (cases "op \<in> {IN, EXISTS, CONTAINS}")
  case False
  then have k: "same_kind expected v" using assms by (cases op) (auto simp: comparable_def)
  then have k': "same_kind v expected" by (rule same_kind_sym)
  show ?thesis using False same_kind_not_null [OF k]
    by (cases op) (simp_all add: condition_passes_def compare_values_def same_kind_le [OF k] same_kind_le [OF k']
        same_kind_lt [OF k] same_kind_lt [OF k'] same_kind_eq' [OF k])
next
  case True
  then consider "op = IN" | "op = EXISTS" | "op = CONTAINS" by blast
  then show ?thesis
  proof cases
    case 1
    then obtain xs where xs: "expected = JList xs" "list_all (same_kind v) xs" "v \<noteq> JNull"
      using assms by (auto simp: comparable_def split: json.splits)
    have "py_eq v e \<longleftrightarrow> rego_eq e v" if "e \<in> set xs" for e
    proof -
      have "same_kind e v" using xs(2) that by (auto simp: list_all_iff intro: same_kind_sym)
      then show ?thesis by (rule same_kind_eq')
    qed
    then show ?thesis using 1 xs by (auto simp: condition_passes_def compare_values_def py_mem_def list_ex_iff)
  next
    case 2
    then show ?thesis using assms by (cases expected) (auto simp: comparable_def condition_passes_def)
  next
    case 3
    then show ?thesis using assms
      by (cases expected; cases v) (auto simp: comparable_def condition_passes_def compare_values_def)
  qed
qed

definition shown_value :: "string \<Rightarrow> json \<Rightarrow> json \<Rightarrow> json option" where
  "shown_value f intent ctx =
     (if startswith f ''context.'' then path_get ctx (split_on CHR ''.'' (drop 8 f)) else path_get intent (split_on CHR ''.'' f))"

definition explainable :: "json \<Rightarrow> json \<Rightarrow> Condition \<Rightarrow> bool" where
  "explainable intent ctx c = (\<not> startswith (field c) ''enterprise_knowledge.'' \<and>
     (case shown_value (field c) intent ctx of
        None \<Rightarrow> operator c = EXISTS \<longrightarrow> is_bool (cvalue c)
      | Some v \<Rightarrow> comparable (operator c) (cvalue c) v))"

lemma resolve_shown: "resolve_value f intent ctx = (case shown_value f intent ctx of None \<Rightarrow> JNull | Some v \<Rightarrow> v)"
  by (simp add: resolve_value_def shown_value_def walk_path_get)

lemma shown_field_value:
  "\<not> startswith f ''enterprise_knowledge.'' \<Longrightarrow> field_value (build_opa_input intent ctx acting pv ag ek) f = shown_value f intent ctx"
  by (simp add: field_value_def field_path_def shown_value_def build_opa_input_def)

lemma condition_agrees:
  assumes "explainable intent ctx c"
  shows "ce_passed (evaluate_condition c intent ctx) \<longleftrightarrow>
    condition_holds c (field_value (build_opa_input intent ctx acting pv ag ek) (field c))"
proof (cases "shown_value (field c) intent ctx")
  case None
  then show ?thesis using assms shown_field_value [of "field c"]
    by (cases "cvalue c") (auto simp: explainable_def evaluate_condition_def resolve_shown condition_passes_def condition_holds_def)
next
  case (Some v)
  then show ?thesis using assms shown_field_value [of "field c"] condition_passes_present [of "operator c" "cvalue c" v]
    by (simp add: explainable_def evaluate_condition_def resolve_shown condition_holds_def)
qed

lemma scope_agrees:
  "agent (scope p) = None \<Longrightarrow>
   acting_for = principal (scope p) \<and> explainer_scope_matches p intent \<longleftrightarrow>
     scope_matches (build_opa_input intent ctx (JStr acting_for) pv ag ek) (scope p)"
  by (auto simp: explainer_scope_matches_def scope_matches_def build_opa_input_def intent_get_def opt_str_def split: option.splits)

lemma rule_agrees:
  assumes "agent (scope p) = None" and "\<forall>c \<in> set (all_of (conditions p)). explainable intent ctx c"
  shows "re_scope_matched (evaluate_rule p intent ctx acting_for ms) \<and> (\<forall>c \<in> set (re_conditions (evaluate_rule p intent ctx acting_for ms)). ce_passed c)
    \<longleftrightarrow> policy_matches (build_opa_input intent ctx (JStr acting_for) pv ag ek) p"
proof -
  have "(\<forall>c \<in> set (all_of (conditions p)). ce_passed (evaluate_condition c intent ctx)) \<longleftrightarrow>
      (\<forall>c \<in> set (all_of (conditions p)). condition_holds c (field_value (build_opa_input intent ctx (JStr acting_for) pv ag ek) (field c)))"
    using assms(2) condition_agrees by blast
  then show ?thesis using scope_agrees [OF assms(1), of acting_for intent ctx pv ag ek]
    by (simp add: evaluate_rule_def Let_def policy_matches_def)
qed

lemma summary_says_matched:
  "startswith (re_summary r) ''Matched'' \<longleftrightarrow> re_scope_matched r \<and> (\<forall>c \<in> set (re_conditions r). ce_passed c)"
  if "r = evaluate_rule p intent ctx acting_for ms"
proof -
  let ?cs = "map (\<lambda>c. evaluate_condition c intent ctx) (all_of (conditions p))"
  show ?thesis
  proof (cases "filter (\<lambda>c. \<not> ce_passed c) ?cs")
    case Nil
    then show ?thesis by (auto simp: that evaluate_rule_def rule_summary_def Let_def startswith_def filter_empty_conv)
  next
    case (Cons a as)
    then have "a \<in> set (filter (\<lambda>c. \<not> ce_passed c) ?cs)" by simp
    then have "\<exists>c \<in> set (all_of (conditions p)). \<not> ce_passed (evaluate_condition c intent ctx)" by auto
    then show ?thesis using Cons by (auto simp: that evaluate_rule_def rule_summary_def Let_def startswith_def)
  qed
qed

end
