(* ===== verification/Policy_Simulation.thy ===== *)
theory Policy_Simulation
  imports Policy_Explainer Policy_Deployment Capability_Service
begin

text \<open>
  \<^verbatim>\<open>server/app/services/policy_simulation_service.py\<close> with \<^verbatim>\<open>domain/compiler_v2/dry_run.py\<close>,
  \<^verbatim>\<open>domain/policy_simulation/batch_evaluator.py\<close> and \<^verbatim>\<open>runtime_policy_service.dry_run_policy\<close>: what a policy
  would decide, evaluated by the same OPA under a throwaway package.

  OPA is a function from the modules it holds (\<open>opa_store\<close>) to its replies. An upload or a deletion may be carried
  out or not (\<open>OpaCall\<close>). \<open>hex\<close> is the text of the \<open>uuid4\<close> that names the package. The functions read the
  database and return the modules of OPA after the call; only a scenario is ever stored. An error stands for its message.
\<close>

type_synonym opa_server = "opa_store \<Rightarrow> opa"

datatype SimError =
    SimPolicy PolicyError
  | DryRunError
  | ScenarioNotFoundError uuid
  | ScenarioIntegrityError
  | SimPython py_error

definition sim_py :: "py_error + 'a \<Rightarrow> SimError + 'a" where
  "sim_py x = (case x of Inl e \<Rightarrow> Inl (SimPython e) | Inr y \<Rightarrow> Inr y)"

definition sim_policy :: "PolicyError + 'a \<Rightarrow> SimError + 'a" where
  "sim_policy x = (case x of Inl e \<Rightarrow> Inl (SimPolicy e) | Inr y \<Rightarrow> Inr y)"

lemma sim_lift_Inr [simp]: "sim_py x = Inr y \<longleftrightarrow> x = Inr y" "sim_policy z = Inr w \<longleftrightarrow> z = Inr w"
  by (simp_all add: sim_py_def sim_policy_def split: sum.split)

lemma sim_lift_simps [simp]: "sim_py (Inr y) = Inr y" "sim_policy (Inr w) = Inr w" "sim_py (Inl e) = Inl (SimPython e)"
  by (simp_all add: sim_py_def sim_policy_def)

section \<open>dry\_run.py\<close>

record DryRunResult =
  dr_allow :: json
  dr_deny :: json
  dr_requires_review :: json
  dr_evaluated_mandates :: "string list"
  dr_review_reason :: "string option"
  dr_deny_reason :: "string option"

definition data_path_of :: "string \<Rightarrow> string" where
  "data_path_of package_path = map (\<lambda>c. if c = CHR ''.'' then CHR ''/'' else c) package_path"

text \<open>\<^verbatim>\<open>httpx.post\<close>, \<open>raise_for_status\<close> and \<^verbatim>\<open>json().get("result", {})\<close>.\<close>

definition post_data :: "opa \<Rightarrow> string \<Rightarrow> json \<Rightarrow> SimError + json" where
  "post_data srv data_path input_doc = (case srv (''/v1/data/'' @ data_path) input_doc of
     TimedOut \<Rightarrow> Inl DryRunError
   | HttpError \<Rightarrow> Inl DryRunError
   | Response code body \<Rightarrow>
       if code < 200 \<or> 300 \<le> code then Inl DryRunError
       else (case body of None \<Rightarrow> Inl (SimPython ValueError) | Some b \<Rightarrow> sim_py (py_get_or b ''result'' (JObj []))))"

definition read_dry_run :: "json \<Rightarrow> py_error + DryRunResult" where
  "read_dry_run r =
     rbind (py_get_or r ''allow'' (JBool False)) (\<lambda>al.
     rbind (py_get_or r ''deny'' (JBool False)) (\<lambda>de.
     rbind (py_get_or r ''requires_review'' (JBool False)) (\<lambda>rr.
     rbind (rbind (rbind (py_get_or r ''evaluated_mandates'' (JList [])) as_list) (rmapM as_str)) (\<lambda>ms.
     rbind (rbind (py_get r ''review_reason'') as_opt_str) (\<lambda>why.
     rbind (rbind (py_get r ''deny_reason'') as_opt_str) (\<lambda>why'.
       Inr \<lparr>dr_allow = al, dr_deny = de, dr_requires_review = rr, dr_evaluated_mandates = ms,
         dr_review_reason = why, dr_deny_reason = why'\<rparr>))))))"

definition dry_run :: "opa_server \<Rightarrow> PolicyBundle \<Rightarrow> json \<Rightarrow> string \<Rightarrow> OpaCall \<Rightarrow> OpaCall \<Rightarrow> opa_store \<Rightarrow> (SimError + DryRunResult) \<times> opa_store" where
  "dry_run srv b sample hex put del opa =
     (let token = CHR ''t'' # hex; package_path = ''payreality.dryrun.'' @ token; pid = ''dryrun-'' @ token in
      case retarget_package (rego_source b) package_path of
        None \<Rightarrow> (Inl DryRunError, opa)
      | Some rego \<Rightarrow>
          let (up, opa1) = opa_put put pid (Some rego) opa
          in ((case up of Inl _ \<Rightarrow> Inl DryRunError
               | Inr _ \<Rightarrow> rbind (post_data (srv opa1) (data_path_of package_path) sample) (\<lambda>r. sim_py (read_dry_run r))),
              snd (opa_put del pid None opa1)))"

section \<open>batch\_evaluator.py\<close>

text \<open>\<open>loaded_bundle\<close> runs its block between the upload and the deletion; the block sees the loaded modules and the data path.\<close>

definition loaded_bundle ::
  "PolicyBundle \<Rightarrow> string \<Rightarrow> OpaCall \<Rightarrow> OpaCall \<Rightarrow> opa_store \<Rightarrow> (opa_store \<Rightarrow> string \<Rightarrow> SimError + 'a) \<Rightarrow> (SimError + 'a) \<times> opa_store" where
  "loaded_bundle b hex put del opa block =
     (let token = CHR ''t'' # hex; package_path = ''payreality.batch.'' @ token; pid = ''batch-'' @ token in
      case retarget_package (rego_source b) package_path of
        None \<Rightarrow> (Inl DryRunError, opa)
      | Some rego \<Rightarrow> (case opa_put put pid (Some rego) opa of
          (Inl _, opa1) \<Rightarrow> (Inl DryRunError, opa1)
        | (Inr _, opa1) \<Rightarrow> (block opa1 (data_path_of package_path), snd (opa_put del pid None opa1))))"

definition query_loaded_bundle :: "opa \<Rightarrow> string \<Rightarrow> json \<Rightarrow> SimError + json" where
  "query_loaded_bundle srv data_path input_doc = post_data srv data_path input_doc"

section \<open>Inputs and results\<close>

text \<open>\<open>JNull\<close> is an absent amount; a stored amount is a JSON number.\<close>

record SimulationInput =
  si_principal :: string
  si_action :: string
  si_resource :: "string option"
  si_amount :: json
  si_currency :: "string option"
  si_agent_name :: string
  si_context :: json
  si_counterparty :: "string option"

definition to_intent :: "SimulationInput \<Rightarrow> json" where
  "to_intent si = JObj ([(''action'', JStr (si_action si))]
     @ (case si_resource si of None \<Rightarrow> [] | Some r \<Rightarrow> [(''resource'', JStr r)])
     @ (if si_amount si = JNull then [] else [(''amount'', si_amount si)])
     @ (case si_currency si of None \<Rightarrow> [] | Some c \<Rightarrow> [(''currency'', JStr c)]))"

definition input_to_dict :: "SimulationInput \<Rightarrow> json" where
  "input_to_dict si = JObj [(''principal'', JStr (si_principal si)), (''action'', JStr (si_action si)), (''resource'', opt_str (si_resource si)),
     (''amount'', si_amount si), (''currency'', opt_str (si_currency si)), (''agent_name'', JStr (si_agent_name si)),
     (''context'', si_context si), (''counterparty'', opt_str (si_counterparty si))]"

definition input_from_dict :: "json \<Rightarrow> py_error + SimulationInput" where
  "input_from_dict j =
     rbind (rbind (py_getitem j ''principal'') as_str) (\<lambda>p.
     rbind (rbind (py_getitem j ''action'') as_str) (\<lambda>a.
     rbind (rbind (py_get j ''resource'') as_opt_str) (\<lambda>res.
     rbind (py_get j ''amount'') (\<lambda>am.
     rbind (rbind (py_get j ''currency'') as_opt_str) (\<lambda>cur.
     rbind (rbind (py_get_or j ''agent_name'' (JStr ''Simulated Agent'')) as_str) (\<lambda>nm.
     rbind (py_get j ''context'') (\<lambda>ctx.
     rbind (rbind (py_get j ''counterparty'') as_opt_str) (\<lambda>cp.
       Inr \<lparr>si_principal = p, si_action = a, si_resource = res, si_amount = am, si_currency = cur, si_agent_name = nm,
         si_context = py_or ctx (JObj []), si_counterparty = cp\<rparr>))))))))"

record EvidencePreview =
  pv_decision :: string
  pv_policy_version :: int
  pv_policy_bundle_hash :: string
  pv_principal :: string
  pv_action :: string
  pv_resource :: "string option"
  pv_evaluated_at :: string
  pv_receipt_hash :: string
  pv_preview :: bool

record SimulationResult =
  sr_decision :: string
  sr_policy_key :: string
  sr_policy_name :: string
  sr_policy_version :: int
  sr_policy_bundle_hash :: string
  sr_generated_at :: string
  sr_review_reason :: "string option"
  sr_deny_reason :: "string option"
  sr_rules :: "RuleEvaluation list"
  sr_authority_trace :: "AuthorityTraceStep list"
  sr_evidence_preview :: EvidencePreview
  sr_facts_evaluated :: "(string \<times> json) list"
  sr_warnings :: "string list"

definition decision_from_flags :: "json \<Rightarrow> json \<Rightarrow> json \<Rightarrow> string" where
  "decision_from_flags al de rr =
     (if truthy rr then ''HUMAN_REVIEW''
      else if truthy al \<and> \<not> truthy de then ''ALLOW''
      else if truthy de then ''DENY''
      else ''HUMAN_REVIEW'')"

section \<open>One simulation\<close>

text \<open>The policy under test with every other active policy, compiled.\<close>

definition compile_for_simulation ::
  "crypto \<Rightarrow> set_order \<Rightarrow> uuid \<Rightarrow> uuid option \<Rightarrow> datetime \<Rightarrow> db
     \<Rightarrow> SimError + RuntimePolicyRecord \<times> RuntimePolicy \<times> RuntimePolicy list \<times> CompileResult" where
  "compile_for_simulation C ord key org now d =
     rbind (sim_policy (get_latest d key org)) (\<lambda>r.
     rbind (sim_policy (row_to_policy r)) (\<lambda>this.
     rbind (sim_policy (other_active_policies d key org)) (\<lambda>others.
     rbind (sim_py (compile_bundle C ord GENERIC_VOCABULARY (this # others) (''simulation-'' @ uuid_hex key) (rr_version r) now)) (\<lambda>result.
       Inr (r, this, this # others, result)))))"

text \<open>The bundle of a compilation without errors.\<close>

definition compiled_or_error :: "CompileResult \<Rightarrow> string \<Rightarrow> SimError + PolicyBundle" where
  "compiled_or_error result msg =
     get_or_raise (if compile_ok result then cr_bundle result else None) (SimPolicy (CompilationRequiredError msg))"

definition enterprise_knowledge_keys_referenced :: "RuntimePolicy list \<Rightarrow> string list" where
  "enterprise_knowledge_keys_referenced ps =
     sort (remdups (concat (map (\<lambda>p. concat (map (\<lambda>c.
       if startswith (field c) ''enterprise_knowledge.'' then [drop 21 (field c)] else []) (all_of (conditions p)))) ps)))"

definition no_counterparty_warning :: "string list \<Rightarrow> string" where
  "no_counterparty_warning keys =
     ''This policy set references enterprise_knowledge fact(s) ('' @ join '', '' keys
     @ ''), but no counterparty was given to simulate against -- these facts are being evaluated as unresolved (fail-closed, the same way a genuinely missing fact behaves in production), not silently ignored.''"

text \<open>The facts of a subject; a conflict between two sources resolves none.\<close>

definition facts_for :: "db \<Rightarrow> uuid option \<Rightarrow> string option \<Rightarrow> string list \<Rightarrow> datetime \<Rightarrow> (string \<times> json) list" where
  "facts_for d org subject keys now = (case org of
     None \<Rightarrow> []
   | Some i \<Rightarrow> (case resolve_facts d i (map (Pair subject) keys) now of
       Inl _ \<Rightarrow> [] | Inr fs \<Rightarrow> dict_updates [] (map (\<lambda>f. (fa_key f, fa_value f)) fs)))"

definition simulated_facts :: "db \<Rightarrow> uuid option \<Rightarrow> string option \<Rightarrow> string list \<Rightarrow> datetime \<Rightarrow> (string \<times> json) list \<times> string list" where
  "simulated_facts d org counterparty keys now =
     (if keys = [] then ([], [])
      else case counterparty of
        None \<Rightarrow> ([], [no_counterparty_warning keys])
      | Some cp \<Rightarrow> (facts_for d org (Some cp) keys now, []))"

definition evidence_preview :: "crypto \<Rightarrow> string \<Rightarrow> PolicyBundle \<Rightarrow> SimulationInput \<Rightarrow> datetime \<Rightarrow> EvidencePreview" where
  "evidence_preview C decision b si now =
     \<lparr>pv_decision = decision, pv_policy_version = bundle_version b, pv_policy_bundle_hash = bundle_hash b, pv_principal = si_principal si,
       pv_action = si_action si, pv_resource = si_resource si, pv_evaluated_at = isoformat now,
       pv_receipt_hash = payload_hash C (JObj [(''decision'', JStr decision), (''policy_version'', JInt (bundle_version b)),
         (''policy_bundle_hash'', JStr (bundle_hash b)), (''principal'', JStr (si_principal si)), (''action'', JStr (si_action si)),
         (''resource'', opt_str (si_resource si)), (''evaluated_at'', JStr (isoformat now))]),
       pv_preview = True\<rparr>"

text \<open>What the simulation makes of OPA's answer.\<close>

definition simulation_result ::
  "crypto \<Rightarrow> uuid \<Rightarrow> SimulationInput \<Rightarrow> RuntimePolicy \<Rightarrow> RuntimePolicy list \<Rightarrow> PolicyBundle \<Rightarrow> (string \<times> json) list \<Rightarrow> string list
     \<Rightarrow> datetime \<Rightarrow> DryRunResult \<Rightarrow> SimulationResult" where
  "simulation_result C key si this ps b facts warnings now x =
     (let decision = decision_from_flags (dr_allow x) (dr_deny x) (dr_requires_review x);
          rules = build_rule_evaluations ps (to_intent si) (si_context si) (si_principal si) (dr_evaluated_mandates x)
      in \<lparr>sr_decision = decision, sr_policy_key = key, sr_policy_name = rp_name this, sr_policy_version = bundle_version b,
          sr_policy_bundle_hash = bundle_hash b, sr_generated_at = isoformat now, sr_review_reason = dr_review_reason x,
          sr_deny_reason = dr_deny_reason x, sr_rules = rules,
          sr_authority_trace = build_authority_trace (si_agent_name si) (si_principal si) (rp_name this) (version this)
            (map_option re_policy_name (List.find re_matched rules)) decision,
          sr_evidence_preview = evidence_preview C decision b si now, sr_facts_evaluated = facts, sr_warnings = warnings\<rparr>)"

definition simulate ::
  "crypto \<Rightarrow> set_order \<Rightarrow> opa_server \<Rightarrow> uuid \<Rightarrow> SimulationInput \<Rightarrow> uuid option \<Rightarrow> string \<Rightarrow> OpaCall \<Rightarrow> OpaCall \<Rightarrow> datetime \<Rightarrow> db \<Rightarrow> opa_store
     \<Rightarrow> (SimError + SimulationResult) \<times> opa_store" where
  "simulate C ord srv key si org hex put del now d opa =
     (case rbind (compile_for_simulation C ord key org now d) (\<lambda>(r, this, ps, result).
             rmap (\<lambda>b. (this, ps, b))
               (compiled_or_error result (key @ '' does not currently compile cleanly -- fix the errors before simulating''))) of
        Inl e \<Rightarrow> (Inl e, opa)
      | Inr (this, ps, b) \<Rightarrow>
          let (facts, warnings) = simulated_facts d org (si_counterparty si) (enterprise_knowledge_keys_referenced ps) now;
              input = build_opa_input (to_intent si) (si_context si) (JStr (si_principal si)) (bundle_version b) None (JObj facts);
              (answer, opa') = dry_run srv b input hex put del opa
          in (rmap (simulation_result C key si this ps b facts warnings now) answer, opa'))"

definition dry_run_policy ::
  "crypto \<Rightarrow> set_order \<Rightarrow> opa_server \<Rightarrow> uuid \<Rightarrow> json \<Rightarrow> uuid option \<Rightarrow> string \<Rightarrow> OpaCall \<Rightarrow> OpaCall \<Rightarrow> datetime \<Rightarrow> db \<Rightarrow> opa_store
     \<Rightarrow> (SimError + DryRunResult) \<times> opa_store" where
  "dry_run_policy C ord srv key sample org hex put del now d opa =
     (case rbind (sim_policy (get_latest d key org)) (\<lambda>r.
           rbind (raise_if (rr_status r \<notin> {COMPILED, ACTIVE}) (SimPolicy (CompilationRequiredError key))) (\<lambda>_.
           rbind (sim_policy (compile_with_active C ord org r now d)) (\<lambda>result.
             compiled_or_error result (key @ '' no longer compiles cleanly (recompile before dry-running again)'')))) of
        Inl e \<Rightarrow> (Inl e, opa)
      | Inr b \<Rightarrow> dry_run srv b sample hex put del opa)"

section \<open>Saved scenarios\<close>

definition create_scenario ::
  "uuid \<Rightarrow> string \<Rightarrow> SimulationInput \<Rightarrow> string \<Rightarrow> uuid option \<Rightarrow> string option \<Rightarrow> uuid \<Rightarrow> datetime \<Rightarrow> db \<Rightarrow> SimError + db \<times> SimulationScenario" where
  "create_scenario key nm si expected org creator sid now d =
     rbind (sim_policy (get_latest d key org)) (\<lambda>_.
     rbind (get_or_raise (enum_of [OutAllow, OutDeny, OutHumanReview] Outcome_value expected) ScenarioIntegrityError) (\<lambda>out.
       let s = \<lparr>sc_id = sid, sc_policy_key = key, sc_name = nm, sc_input = input_to_dict si, sc_expected_outcome = out,
             sc_created_by = creator, sc_created_at = now, sc_organization_id = org\<rparr>
       in Inr (d\<lparr>simulation_scenarios := simulation_scenarios d @ [s]\<rparr>, s)))"

definition list_scenarios :: "db \<Rightarrow> uuid \<Rightarrow> uuid option \<Rightarrow> SimError + SimulationScenario list" where
  "list_scenarios d key org =
     rmap (\<lambda>_. sort_key (\<lambda>s. - sc_created_at s)
       (filter (\<lambda>s. sc_policy_key s = key \<and> sc_organization_id s = org) (simulation_scenarios d))) (sim_policy (get_latest d key org))"

definition get_scenario :: "db \<Rightarrow> uuid \<Rightarrow> uuid option \<Rightarrow> SimError + SimulationScenario" where
  "get_scenario d sid org = (case db_find (\<lambda>s. sc_id s = sid) (simulation_scenarios d) of
     None \<Rightarrow> Inl (ScenarioNotFoundError sid)
   | Some s \<Rightarrow> if sc_organization_id s \<noteq> org then Inl (ScenarioNotFoundError sid) else Inr s)"

record ScenarioRunResult =
  rn_scenario_id :: string
  rn_scenario_name :: string
  rn_expected_outcome :: string
  rn_actual_outcome :: string
  rn_passed :: bool
  rn_result :: SimulationResult

definition run_scenario ::
  "crypto \<Rightarrow> set_order \<Rightarrow> opa_server \<Rightarrow> uuid \<Rightarrow> uuid option \<Rightarrow> string \<Rightarrow> OpaCall \<Rightarrow> OpaCall \<Rightarrow> datetime \<Rightarrow> db \<Rightarrow> opa_store
     \<Rightarrow> (SimError + ScenarioRunResult) \<times> opa_store" where
  "run_scenario C ord srv sid org hex put del now d opa =
     (case rbind (get_scenario d sid org) (\<lambda>s. rmap (Pair s) (sim_py (input_from_dict (sc_input s)))) of
        Inl e \<Rightarrow> (Inl e, opa)
      | Inr (s, si) \<Rightarrow>
          let (res, opa') = simulate C ord srv (sc_policy_key s) si org hex put del now d opa
          in (rmap (\<lambda>x. \<lparr>rn_scenario_id = sc_id s, rn_scenario_name = sc_name s,
                rn_expected_outcome = Outcome_value (sc_expected_outcome s), rn_actual_outcome = sr_decision x,
                rn_passed = (sr_decision x = Outcome_value (sc_expected_outcome s)), rn_result = x\<rparr>) res, opa'))"

section \<open>Batches\<close>

text \<open>\<^verbatim>\<open>float(x)\<close>: numbers, booleans, and texts that hold a decimal literal. The texts \<open>inf\<close> and \<open>nan\<close>, which are
  floats without a JSON form, are refused as other texts are.\<close>

fun underscores_ok :: "bool \<Rightarrow> string \<Rightarrow> bool" where
  "underscores_ok digit_before [] = True"
| "underscores_ok digit_before (c # s) =
     (if c = CHR ''_'' then digit_before \<and> (case s of [] \<Rightarrow> False | x # _ \<Rightarrow> is_digit x) \<and> underscores_ok False s
      else underscores_ok (is_digit c) s)"

definition float_text :: "string \<Rightarrow> json option" where
  "float_text text =
     (let s = py_strip text; s1 = filter (\<lambda>c. c \<noteq> CHR ''_'') s;
          neg = (case s1 of c # _ \<Rightarrow> c = CHR ''-'' | _ \<Rightarrow> False);
          s2 = (case s1 of c # r \<Rightarrow> if c = CHR ''-'' \<or> c = CHR ''+'' then r else s1 | _ \<Rightarrow> s1);
          ds = takeWhile is_digit s2; s3 = dropWhile is_digit s2;
          fs = (case s3 of c # r \<Rightarrow> if c = CHR ''.'' then takeWhile is_digit r else [] | _ \<Rightarrow> []);
          s4 = (case s3 of c # r \<Rightarrow> if c = CHR ''.'' then dropWhile is_digit r else s3 | _ \<Rightarrow> s3);
          (ex, s5) = read_exp s4; n = int (read_nat (ds @ fs));
          (m, e) = norm_dec (if neg then - n else n) ((case ex of None \<Rightarrow> 0 | Some x \<Rightarrow> x) - int (length fs))
      in if underscores_ok False s \<and> ds @ fs \<noteq> [] \<and> s5 = [] then Some (JFloat m e) else None)"

definition py_float :: "json \<Rightarrow> py_error + json" where
  "py_float x = (case x of
     JFloat m e \<Rightarrow> Inr x
   | JInt i \<Rightarrow> Inr (let (m, e) = norm_dec i 0 in JFloat m e)
   | JBool b \<Rightarrow> Inr (JFloat (if b then 1 else 0) 0)
   | JStr s \<Rightarrow> get_or_raise (float_text s) ValueError
   | _ \<Rightarrow> Inl TypeError)"

text \<open>A cell of a row; \<open>JNull\<close> is an absent one.\<close>

type_synonym raw_row = "(string \<times> json) list"

definition cell :: "raw_row \<Rightarrow> string \<Rightarrow> json" where
  "cell raw k = (case map_of raw k of None \<Rightarrow> JNull | Some v \<Rightarrow> v)"

definition cell_text :: "raw_row \<Rightarrow> string \<Rightarrow> string" where
  "cell_text raw k = py_strip (case map_of raw k of None \<Rightarrow> [] | Some v \<Rightarrow> py_str v)"

definition row_counterparty :: "raw_row \<Rightarrow> string option" where
  "row_counterparty raw =
     (let s = py_strip (py_str (py_or (py_or (cell raw ''counterparty'') (cell raw ''vendor'')) (JStr [])))
      in if s = [] then None else Some s)"

definition given_cell :: "json \<Rightarrow> bool" where
  "given_cell v = (v \<noteq> JNull \<and> v \<noteq> JStr [])"

definition row_intent :: "raw_row \<Rightarrow> string \<Rightarrow> py_error + json" where
  "row_intent raw act =
     rmap (\<lambda>amount. JObj ([(''action'', JStr act)]
         @ (if truthy (cell raw ''resource'') then [(''resource'', cell raw ''resource'')] else [])
         @ amount
         @ (if truthy (cell raw ''currency'') then [(''currency'', cell raw ''currency'')] else [])))
       (if given_cell (cell raw ''amount'') then rmap (\<lambda>x. [(''amount'', x)]) (py_float (cell raw ''amount'')) else Inr [])"

definition CORE_COLUMNS :: "string list" where
  "CORE_COLUMNS = [''principal'', ''action'', ''resource'', ''amount'', ''currency'', ''counterparty'', ''vendor'']"

definition row_context :: "raw_row \<Rightarrow> json" where
  "row_context raw = JObj (filter (\<lambda>(k, v). k \<notin> set CORE_COLUMNS \<and> given_cell v) raw)"

text \<open>What becomes of a row. \<open>RowError\<close> is what the handler of the loop catches: a malformed row or a failed query.\<close>

datatype RowOutcome = RowDecision string | RowLimitation "string list" | RowError SimError

record BatchRow =
  bt_row_number :: nat
  bt_principal :: string
  bt_action :: string
  bt_outcome :: RowOutcome

definition row_input :: "db \<Rightarrow> uuid option \<Rightarrow> PolicyBundle \<Rightarrow> string list \<Rightarrow> raw_row \<Rightarrow> datetime \<Rightarrow> py_error + json" where
  "row_input d org b keys raw now =
     rmap (\<lambda>intent. build_opa_input intent (row_context raw) (JStr (cell_text raw ''principal'')) (bundle_version b) None
             (JObj (if keys = [] then [] else facts_for d org (row_counterparty raw) keys now)))
       (row_intent raw (cell_text raw ''action''))"

definition query_decision :: "json \<Rightarrow> py_error + string" where
  "query_decision r =
     rbind (py_get_or r ''allow'' (JBool False)) (\<lambda>al.
     rbind (py_get_or r ''deny'' (JBool False)) (\<lambda>de.
     rbind (py_get_or r ''requires_review'' (JBool False)) (\<lambda>rr. Inr (decision_from_flags al de rr))))"

definition caught :: "SimError \<Rightarrow> bool" where
  "caught e = (e = DryRunError \<or> e = SimPython ValueError)"

definition run_row ::
  "opa \<Rightarrow> string \<Rightarrow> db \<Rightarrow> uuid option \<Rightarrow> PolicyBundle \<Rightarrow> string list \<Rightarrow> datetime \<Rightarrow> raw_row \<Rightarrow> SimError + RowOutcome" where
  "run_row srv data_path d org b keys now raw =
     (if cell_text raw ''principal'' = [] \<or> cell_text raw ''action'' = [] then Inr (RowError (SimPython ValueError))
      else if keys \<noteq> [] \<and> row_counterparty raw = None then Inr (RowLimitation keys)
      else (case rbind (sim_py (row_input d org b keys raw now)) (\<lambda>input.
                 rbind (query_loaded_bundle srv data_path input) (\<lambda>r. sim_py (query_decision r))) of
          Inr s \<Rightarrow> Inr (RowDecision s)
        | Inl e \<Rightarrow> if caught e then Inr (RowError e) else Inl e))"

definition BATCH_SAMPLE_LIMIT :: nat where "BATCH_SAMPLE_LIMIT = 50"

record BatchSimulationResult =
  bs_total :: nat
  bs_allowed :: nat
  bs_denied :: nat
  bs_escalated :: nat
  bs_errors :: nat
  bs_sample_rows :: "BatchRow list"
  bs_sample_truncated :: bool
  bs_policy_version :: int
  bs_policy_bundle_hash :: string
  bs_cannot_simulate :: nat

definition name_or_mark :: "string \<Rightarrow> string" where
  "name_or_mark s = (if s = [] then ''?'' else s)"

text \<open>One pass of the loop: the counter of the outcome, and the sample while it is short.\<close>

definition count_row :: "nat \<Rightarrow> raw_row \<Rightarrow> RowOutcome \<Rightarrow> BatchSimulationResult \<Rightarrow> BatchSimulationResult" where
  "count_row i raw out x =
     (let p = cell_text raw ''principal''; a = cell_text raw ''action'';
          mark = (case out of RowError _ \<Rightarrow> name_or_mark | _ \<Rightarrow> (\<lambda>s. s));
          y = (case out of
             RowDecision s \<Rightarrow> (if s = ''ALLOW'' then x\<lparr>bs_allowed := Suc (bs_allowed x)\<rparr>
                else if s = ''DENY'' then x\<lparr>bs_denied := Suc (bs_denied x)\<rparr> else x\<lparr>bs_escalated := Suc (bs_escalated x)\<rparr>)
           | RowLimitation _ \<Rightarrow> x\<lparr>bs_cannot_simulate := Suc (bs_cannot_simulate x)\<rparr>
           | RowError _ \<Rightarrow> x\<lparr>bs_errors := Suc (bs_errors x)\<rparr>)
      in if length (bs_sample_rows y) < BATCH_SAMPLE_LIMIT
         then y\<lparr>bs_sample_rows := bs_sample_rows y @ [\<lparr>bt_row_number = i, bt_principal = mark p, bt_action = mark a, bt_outcome = out\<rparr>]\<rparr>
         else y)"

fun run_rows :: "(raw_row \<Rightarrow> SimError + RowOutcome) \<Rightarrow> nat \<Rightarrow> raw_row list \<Rightarrow> BatchSimulationResult \<Rightarrow> SimError + BatchSimulationResult" where
  "run_rows f i [] x = Inr x"
| "run_rows f i (raw # rows) x = rbind (f raw) (\<lambda>out. run_rows f (Suc i) rows (count_row i raw out x))"

definition empty_batch :: "nat \<Rightarrow> PolicyBundle \<Rightarrow> BatchSimulationResult" where
  "empty_batch n b = \<lparr>bs_total = n, bs_allowed = 0, bs_denied = 0, bs_escalated = 0, bs_errors = 0, bs_sample_rows = [],
     bs_sample_truncated = (n > BATCH_SAMPLE_LIMIT), bs_policy_version = bundle_version b, bs_policy_bundle_hash = bundle_hash b,
     bs_cannot_simulate = 0\<rparr>"

definition run_batch ::
  "crypto \<Rightarrow> set_order \<Rightarrow> opa_server \<Rightarrow> uuid \<Rightarrow> raw_row list \<Rightarrow> uuid option \<Rightarrow> string \<Rightarrow> OpaCall \<Rightarrow> OpaCall \<Rightarrow> datetime \<Rightarrow> db \<Rightarrow> opa_store
     \<Rightarrow> (SimError + BatchSimulationResult) \<times> opa_store" where
  "run_batch C ord srv key rows org hex put del now d opa =
     (case rbind (compile_for_simulation C ord key org now d) (\<lambda>(r, this, ps, result).
             rmap (Pair ps) (compiled_or_error result (key @ '' does not currently compile cleanly''))) of
        Inl e \<Rightarrow> (Inl e, opa)
      | Inr (ps, b) \<Rightarrow> loaded_bundle b hex put del opa (\<lambda>opa1 data_path.
          run_rows (run_row (srv opa1) data_path d org b (enterprise_knowledge_keys_referenced ps) now) 1 rows
            (empty_batch (length rows) b)))"

end
