(* ===== verification/Simulation_Truth.thy ===== *)
theory Simulation_Truth
  imports Policy_Simulation Policy_Assurance
begin

text \<open>
  What a simulation is worth: it decides as the server would, its explanation agrees with the rules that were
  evaluated, a batch accounts for every row, and none of it touches what decisions are made from.
\<close>

section \<open>The answer of OPA\<close>

text \<open>OPA, holding the module \<open>m\<close> under \<open>pid\<close>, answers at the data path as the policies of the module say.\<close>

definition evaluates :: "opa_server \<Rightarrow> string \<Rightarrow> string \<Rightarrow> string \<Rightarrow> RuntimePolicy list \<Rightarrow> bool" where
  "evaluates srv pid m data_path ps = (\<forall>opa input. opa pid = Some m \<longrightarrow>
     srv opa (''/v1/data/'' @ data_path) input = Response 200 (Some (JObj [(''result'', bundle_result ps input)])))"

lemma read_bundle_result:
  assumes "fired input ps = filter (policy_matches input) ps" and "length (filter (policy_matches input) ps) \<le> 1"
    and "verdict ps input = (out, why, ms)"
  shows "\<exists>x. read_dry_run (bundle_result ps input) = Inr x \<and> dr_evaluated_mandates x = ms
      \<and> decision_from_flags (dr_allow x) (dr_deny x) (dr_requires_review x) = Outcome_value out"
proof (cases "filter (policy_matches input) ps")
  case Nil
  with assms show ?thesis
    by (simp add: read_dry_run_def bundle_result_def verdict_def reason_of_def py_get_def py_get_or_def Let_def decision_from_flags_def)
next
  case (Cons p qs)
  with assms(2) have f: "filter (policy_matches input) ps = [p]" by simp
  with assms(1,3) show ?thesis
    by (cases "effect p")
      (auto simp: read_dry_run_def bundle_result_def verdict_def reason_of_def py_get_def py_get_or_def Let_def decision_from_flags_def)
qed

text \<open>What a compiled simulation says of its policies: at most one matches an input, and each has a rule of its own.\<close>

definition simulable :: "set_order \<Rightarrow> RuntimePolicy list \<Rightarrow> bool" where
  "simulable ord ps = ((\<forall>xs. set (ord xs) = set xs) \<and> kinds_agree ps
     \<and> (\<forall>p \<in> set ps. list_all uuid_char (rp_id p)) \<and> distinct (map rp_id ps))"

lemma compiled_exclusive:
  assumes "compile_bundle C ord V ps bid bv now = Inr result" and "compile_ok result" and "simulable ord ps"
  shows "length (filter (policy_matches input) ps) \<le> 1" and "fired input ps = filter (policy_matches input) ps"
proof -
  have "\<forall>p \<in> set ps. well_formed p" and "policy_conflicts ord ps = Inr []"
    using compile_ok_checks [OF assms(1,2)] by (auto simp: policy_errors_Nil)
  then show "length (filter (policy_matches input) ps) \<le> 1"
    using no_conflict_exclusive [of ord ps input] assms(3) by (simp add: simulable_def)
  show "fired input ps = filter (policy_matches input) ps"
    using uuid_rules_fired assms(3) by (simp add: simulable_def)
qed

lemma simulate_Inr:
  assumes "simulate C ord srv key si org hex put del now d opa = (Inr res, opa')"
  obtains r this ps result b m x where
    "compile_for_simulation C ord key org now d = Inr (r, this, ps, result)" "compile_ok result" "cr_bundle result = Some b"
    "compile_bundle C ord GENERIC_VOCABULARY ps (''simulation-'' @ uuid_hex key) (rr_version r) now = Inr result"
    "retarget_package (rego_source b) (''payreality.dryrun.t'' @ hex) = Some m" "put = OpaDone"
    "post_data (srv (opa((''dryrun-t'' @ hex) \<mapsto> m))) (data_path_of (''payreality.dryrun.t'' @ hex))
       (build_opa_input (to_intent si) (si_context si) (JStr (si_principal si)) (bundle_version b) None
         (JObj (fst (simulated_facts d org (si_counterparty si) (enterprise_knowledge_keys_referenced ps) now)))) = Inr x"
    "rmap (simulation_result C key si this ps b (fst (simulated_facts d org (si_counterparty si) (enterprise_knowledge_keys_referenced ps) now))
        (snd (simulated_facts d org (si_counterparty si) (enterprise_knowledge_keys_referenced ps) now)) now) (sim_py (read_dry_run x)) = Inr res"
proof -
  from assms obtain r this ps result b where c: "compile_for_simulation C ord key org now d = Inr (r, this, ps, result)"
      and b: "compile_ok result" "cr_bundle result = Some b"
    by (auto simp: simulate_def compiled_or_error_def split: sum.splits if_splits)
  obtain facts warnings where fw: "simulated_facts d org (si_counterparty si) (enterprise_knowledge_keys_referenced ps) now = (facts, warnings)"
    by (rule prod.exhaust)
  let ?input = "build_opa_input (to_intent si) (si_context si) (JStr (si_principal si)) (bundle_version b) None (JObj facts)"
  obtain answer where a: "dry_run srv b ?input hex put del opa = (answer, opa')"
      and res: "rmap (simulation_result C key si this ps b facts warnings now) answer = Inr res"
    using assms by (auto simp: simulate_def c b compiled_or_error_def fw split: prod.splits)
  from a res obtain m where m: "retarget_package (rego_source b) (''payreality.dryrun.t'' @ hex) = Some m"
    by (auto simp: dry_run_def Let_def split: option.splits)
  have put: "put = OpaDone" and ans: "answer = rbind (post_data (srv (opa((''dryrun-t'' @ hex) \<mapsto> m)))
      (data_path_of (''payreality.dryrun.t'' @ hex)) ?input) (\<lambda>r. sim_py (read_dry_run r))"
    using a res m by (auto simp: dry_run_def Let_def opa_put_def split: if_splits)
  from ans res obtain x where x: "post_data (srv (opa((''dryrun-t'' @ hex) \<mapsto> m))) (data_path_of (''payreality.dryrun.t'' @ hex)) ?input = Inr x"
      "rmap (simulation_result C key si this ps b facts warnings now) (sim_py (read_dry_run x)) = Inr res"
    by auto
  have "compile_bundle C ord GENERIC_VOCABULARY ps (''simulation-'' @ uuid_hex key) (rr_version r) now = Inr result"
    using c by (auto simp: compile_for_simulation_def)
  then show thesis using that [OF c b _ m put, of x] x fw by simp
qed

text \<open>The whole of a simulation: its decision, its mandates and its rules are those of the one policy that matches.\<close>

lemma simulation_verdict:
  assumes sim: "simulate C ord srv key si org hex put del now d opa = (Inr res, opa')"
    and comp: "compile_for_simulation C ord key org now d = Inr (r, this, ps, result)"
    and ok: "simulable ord ps"
    and ev: "\<And>m. evaluates srv (''dryrun-t'' @ hex) m (data_path_of (''payreality.dryrun.t'' @ hex)) ps"
    and v: "verdict ps (build_opa_input (to_intent si) (si_context si) (JStr (si_principal si)) (rr_version r) None (JObj (sr_facts_evaluated res))) = (out, why, ms)"
  shows "sr_decision res = Outcome_value out"
    and "sr_rules res = build_rule_evaluations ps (to_intent si) (si_context si) (si_principal si) ms"
    and "\<And>input. length (filter (policy_matches input) ps) \<le> 1"
    and "\<And>input. fired input ps = filter (policy_matches input) ps"
proof -
  obtain b m x where f: "compile_ok result" "cr_bundle result = Some b"
    "compile_bundle C ord GENERIC_VOCABULARY ps (''simulation-'' @ uuid_hex key) (rr_version r) now = Inr result"
    "post_data (srv (opa((''dryrun-t'' @ hex) \<mapsto> m))) (data_path_of (''payreality.dryrun.t'' @ hex))
       (build_opa_input (to_intent si) (si_context si) (JStr (si_principal si)) (bundle_version b) None
         (JObj (fst (simulated_facts d org (si_counterparty si) (enterprise_knowledge_keys_referenced ps) now)))) = Inr x"
    "rmap (simulation_result C key si this ps b (fst (simulated_facts d org (si_counterparty si) (enterprise_knowledge_keys_referenced ps) now))
        (snd (simulated_facts d org (si_counterparty si) (enterprise_knowledge_keys_referenced ps) now)) now) (sim_py (read_dry_run x)) = Inr res"
    by (rule simulate_Inr [OF sim]) (use comp in auto)
  let ?facts = "fst (simulated_facts d org (si_counterparty si) (enterprise_knowledge_keys_referenced ps) now)"
  have facts: "sr_facts_evaluated res = ?facts" using f(5) by (auto simp: simulation_result_def Let_def)
  have bv: "bundle_version b = rr_version r"
    using f(1-3) compile_ok_checks [OF f(3,1)] by (auto simp: build_bundle_def Let_def)
  let ?input = "build_opa_input (to_intent si) (si_context si) (JStr (si_principal si)) (rr_version r) None (JObj ?facts)"
  have x: "x = bundle_result ps ?input"
    using f(4) ev [of m] unfolding evaluates_def post_data_def bv by (auto simp: py_get_or_def)
  note ex = compiled_exclusive [OF f(3,1) ok]
  obtain y where y: "read_dry_run x = Inr y" "dr_evaluated_mandates y = ms"
      "decision_from_flags (dr_allow y) (dr_deny y) (dr_requires_review y) = Outcome_value out"
    using read_bundle_result [OF ex(2,1) v [unfolded facts]] x by blast
  show "sr_decision res = Outcome_value out"
    and "sr_rules res = build_rule_evaluations ps (to_intent si) (si_context si) (si_principal si) ms"
    using f(5) y by (auto simp: simulation_result_def Let_def)
  show "\<And>input. length (filter (policy_matches input) ps) \<le> 1" "\<And>input. fired input ps = filter (policy_matches input) ps"
    using ex by auto
qed

section \<open>A simulation and the server\<close>

text \<open>The documents that the server and a simulation build for one question, key by key.\<close>

definition same_question :: "json \<Rightarrow> json \<Rightarrow> bool" where
  "same_question i j = (\<forall>k. obj_get i k = obj_get j k)"

lemma path_get_same: "same_question i j \<Longrightarrow> ks \<noteq> [] \<Longrightarrow> path_get i ks = path_get j ks"
  by (cases ks) (simp_all add: same_question_def)

lemma field_value_same:
  assumes "same_question i i'" and "same_question c c'" and "same_question k k'" and "truthy k = truthy k'"
  shows "field_value (build_opa_input i c acting pv ag k) f = field_value (build_opa_input i' c' acting pv' ag' k') f"
proof -
  have "path_get (py_or k (JObj [])) ks = path_get (py_or k' (JObj [])) ks" if "ks \<noteq> []" for ks
    using path_get_same [OF assms(3) that] assms(4) by (simp add: py_or_def)
  then show ?thesis using path_get_same [OF assms(1)] path_get_same [OF assms(2)]
    by (simp add: field_value_def field_path_def build_opa_input_def)
qed

lemma policy_matches_same:
  assumes "same_question i i'" and "same_question c c'" and "same_question k k'" and "truthy k = truthy k'" and "agent (scope p) = None"
  shows "policy_matches (build_opa_input i c acting pv ag k) p = policy_matches (build_opa_input i' c' acting pv' ag' k') p"
proof -
  have "scope_matches (build_opa_input i c acting pv ag k) (scope p) = scope_matches (build_opa_input i' c' acting pv' ag' k') (scope p)"
    using assms(1,5) by (auto simp: scope_matches_def build_opa_input_def same_question_def split: option.splits)
  then show ?thesis using field_value_same [OF assms(1-4), of acting pv ag] by (simp add: policy_matches_def)
qed

text \<open>The verdict depends on the set of policies, not on their order.\<close>

lemma filter_at_most_one:
  assumes "length (filter P ps) \<le> 1" and "set qs = set ps" and "distinct qs" and "\<And>p. p \<in> set ps \<Longrightarrow> Q p = P p"
  shows "filter Q qs = filter P ps"
proof -
  have s: "set (filter Q qs) = set (filter P ps)" using assms(2,4) by auto
  have d: "distinct (filter Q qs)" using assms(3) by simp
  show ?thesis
  proof (cases "filter P ps")
    case Nil
    then show ?thesis using s by simp
  next
    case (Cons p r)
    with assms(1) have f: "filter P ps = [p]" by simp
    then have "set (filter Q qs) = {p}" using s by simp
    then show ?thesis using d f by (cases "filter Q qs") (auto simp: subset_singleton_iff)
  qed
qed

lemma distinct_filter_one: "distinct xs \<Longrightarrow> x \<in> set xs \<Longrightarrow> filter (\<lambda>y. y = x) xs = [x]"
  by (induction xs) (auto simp: filter_empty_conv)

lemma verdict_cong: "filter (policy_matches i) ps = filter (policy_matches j) qs \<Longrightarrow> verdict ps i = verdict qs j"
  by (simp add: verdict_def)


section \<open>A small example\<close>

definition trial_policy :: RuntimePolicy where
  "trial_policy = demo_policy\<lparr>rp_id := ''a-1''\<rparr>"

definition trial_db :: db where
  "trial_db = empty_db\<lparr>runtime_policy_records := [new_policy_record ''r1'' ''k'' 1 (to_dict trial_policy) None None 0]\<rparr>"

definition payment_question :: SimulationInput where
  "payment_question = \<lparr>si_principal = ''cfo'', si_action = ''vendor_payment'', si_resource = None, si_amount = JFloat 4 2, si_currency = None,
     si_agent_name = ''Simulated Agent'', si_context = JObj [], si_counterparty = None\<rparr>"

definition demo_server :: "RuntimePolicy list \<Rightarrow> opa_server" where
  "demo_server ps = (\<lambda>opa path input. Response 200 (Some (JObj [(''result'', bundle_result ps input)])))"

lemma demo_server_evaluates: "evaluates (demo_server ps) pid m path ps"
  by (simp add: evaluates_def demo_server_def)

lemma payment_compiles:
  "\<exists>b. build_bundle plain_crypto [trial_policy] bid 1 0 = Inr b
     \<and> compile_bundle plain_crypto id GENERIC_VOCABULARY [trial_policy] bid 1 0 = Inr \<lparr>cr_bundle = Some b, diagnostics = []\<rparr>"
proof -
  have e: "policy_errors GENERIC_VOCABULARY trial_policy = []"
    by (simp add: policy_errors_Nil demo_policy_def trial_policy_def well_formed_def
        well_formed_condition_def is_blank_def is_space_def numeric_operators_def is_valid_action_def
        GENERIC_VOCABULARY_def KNOWN_SCOPES_def is_valid_field_def startswith_def)
  have c: "policy_conflicts id [trial_policy] = Inr []" by (simp add: evaluate_compile)
  obtain b where "build_bundle plain_crypto [trial_policy] bid 1 0 = Inr b"
    by (auto simp: build_bundle_def generate_policy_rule_def generate_conditions_block_def trial_policy_def
        generate_condition_expression_def demo_policy_def resolve_base_and_field_def Let_def startswith_def)
  then show ?thesis using e c by (simp add: compile_bundle_def)
qed

lemma payment_simulable: "simulable id [trial_policy]"
  by (auto simp: simulable_def kinds_agree_def trial_policy_def demo_policy_def uuid_char_def alike_def)

lemma payment_row: "from_dict (to_dict trial_policy) = Inr trial_policy"
  by (rule from_dict_to_dict) (simp add: dates_ok_def opt_range_def demo_policy_def trial_policy_def)

lemma payment_verdict:
  "verdict [trial_policy] (build_opa_input (to_intent payment_question) (JObj []) (JStr ''cfo'') v None (JObj [])) = (OutAllow, None, [''a-1''])"
  by (simp add: verdict_def policy_matches_def scope_matches_def condition_holds_def trial_policy_def demo_policy_def build_opa_input_def
      to_intent_def payment_question_def field_value_def field_path_def startswith_def dec_val_def py_or_def)

lemma payment_simulation:
  obtains r b res where
    "compile_for_simulation plain_crypto id ''k'' None 0 trial_db = Inr (r, trial_policy, [trial_policy], \<lparr>cr_bundle = Some b, diagnostics = []\<rparr>)"
    "simulate plain_crypto id (demo_server [trial_policy]) ''k'' payment_question None ''0'' OpaDone OpaDone 0 trial_db Map.empty = (Inr res, Map.empty)"
    "sr_facts_evaluated res = []"
proof -
  obtain b where b: "build_bundle plain_crypto [trial_policy] (''simulation-'' @ uuid_hex ''k'') 1 0 = Inr b"
      "compile_bundle plain_crypto id GENERIC_VOCABULARY [trial_policy] (''simulation-'' @ uuid_hex ''k'') 1 0 = Inr \<lparr>cr_bundle = Some b, diagnostics = []\<rparr>"
    using payment_compiles by blast
  let ?r = "new_policy_record ''r1'' ''k'' 1 (to_dict trial_policy) None None 0"
  have c: "compile_for_simulation plain_crypto id ''k'' None 0 trial_db = Inr (?r, trial_policy, [trial_policy], \<lparr>cr_bundle = Some b, diagnostics = []\<rparr>)"
    using b by (simp add: compile_for_simulation_def get_latest_def latest_version_row_def trial_db_def empty_db_def new_policy_record_def
        row_to_policy_def payment_row other_active_policies_def active_rows_def)
  have keys: "enterprise_knowledge_keys_referenced [trial_policy] = []"
    by (simp add: enterprise_knowledge_keys_referenced_def trial_policy_def demo_policy_def startswith_def)
  have "package_name ''payreality.dryrun.t0''" by (simp add: package_name_def is_space_def)
  from retarget_isolates_package [OF b(1) this] obtain m where m: "retarget_package (rego_source b) ''payreality.dryrun.t0'' = Some m" by auto
  let ?in = "build_opa_input (to_intent payment_question) (JObj []) (JStr ''cfo'') (bundle_version b) None (JObj [])"
  note ex = compiled_exclusive [OF b(2) _ payment_simulable]
  obtain x where x: "read_dry_run (bundle_result [trial_policy] ?in) = Inr x"
    using read_bundle_result [OF ex(2,1) payment_verdict] by (auto simp: compile_ok_def)
  have q: "si_principal payment_question = ''cfo''" "si_context payment_question = JObj []" by (simp_all add: payment_question_def)
  have "dry_run (demo_server [trial_policy]) b ?in ''0'' OpaDone OpaDone Map.empty = (Inr x, Map.empty)"
    using m x by (simp add: dry_run_def Let_def demo_server_def post_data_def py_get_or_def)
  then show thesis using that [OF c] q
    by (simp add: simulate_def c compiled_or_error_def compile_ok_def keys simulated_facts_def simulation_result_def Let_def)
qed


section \<open>The explanation\<close>

lemma verdict_mandates:
  assumes "length (filter (policy_matches input) ps) \<le> 1" and "distinct (map rp_id ps)" and "p \<in> set ps" and "verdict ps input = (out, why, ms)"
  shows "rp_id p \<in> set ms \<longleftrightarrow> policy_matches input p"
proof (cases "filter (policy_matches input) ps")
  case Nil
  then show ?thesis using assms(3,4) by (auto simp: verdict_def filter_empty_conv)
next
  case (Cons q tl)
  with assms(1) have f: "filter (policy_matches input) ps = [q]" by simp
  then have ms: "ms = [rp_id q]" using assms(4) by (auto simp: verdict_def split: Effect.splits)
  have "set (filter (policy_matches input) ps) = {q}" using f by simp
  then have m: "policy_matches input p \<longleftrightarrow> p = q" "q \<in> set ps" using assms(3) by auto
  show ?thesis using m assms(2,3) by (auto simp: ms distinct_map dest: inj_onD)
qed



text \<open>A condition on a trusted fact is read from the intent, where it is missing: the rule that OPA matched is
  explained as failed.\<close>

definition rating_policy :: RuntimePolicy where
  "rating_policy = trial_policy\<lparr>conditions := \<lparr>all_of = [\<lparr>field = ''enterprise_knowledge.rating'', operator = EQ, cvalue = JStr ''AA''\<rparr>]\<rparr>\<rparr>"

theorem knowledge_rule_explained_failed:
  "policy_matches (build_opa_input (to_intent payment_question) (JObj []) (JStr ''cfo'') 1 None (JObj [(''rating'', JStr ''AA'')])) rating_policy
   \<and> re_matched (evaluate_rule rating_policy (to_intent payment_question) (JObj []) ''cfo'' [''a-1''])
   \<and> startswith (re_summary (evaluate_rule rating_policy (to_intent payment_question) (JObj []) ''cfo'' [''a-1''])) ''Failed''"
  by (simp add: policy_matches_def scope_matches_def condition_holds_def rating_policy_def trial_policy_def demo_policy_def build_opa_input_def
      to_intent_def payment_question_def field_value_def field_path_def startswith_def rego_eq_def py_or_def
      evaluate_rule_def rule_summary_def explainer_scope_matches_def intent_get_def evaluate_condition_def resolve_value_def condition_passes_def Let_def)

text \<open>Two values of different kinds are ordered in Rego and raise \<open>TypeError\<close> in Python, which the explanation reads as not met.\<close>

theorem mixed_kinds_explained_failed:
  "condition_holds \<lparr>field = ''context.level'', operator = GTE, cvalue = JInt 3\<rparr> (Some (JStr ''high''))
   \<and> \<not> condition_passes GTE (JStr ''high'') (JInt 3)"
  by (simp add: condition_holds_def condition_passes_def compare_values_def py_le_def py_lt.simps)

text \<open>A submission without an amount sends the key with \<open>null\<close>, which is below every number; a simulation leaves the
  key out. The upper limit of a payment holds in the first case and not in the second.\<close>

theorem absent_amount_diverges:
  "policy_matches (build_opa_input (JObj [(''action'', JStr ''vendor_payment''), (''amount'', amount_json None), (''currency'', opt_str None),
       (''resource'', opt_str None)]) (JObj []) (JStr ''cfo'') 1 None (JObj [])) trial_policy
   \<and> \<not> policy_matches (build_opa_input (to_intent (payment_question\<lparr>si_amount := JNull\<rparr>)) (JObj []) (JStr ''cfo'') 1 None (JObj [])) trial_policy"
  by (simp add: policy_matches_def scope_matches_def condition_holds_def trial_policy_def demo_policy_def build_opa_input_def
      to_intent_def payment_question_def field_value_def field_path_def startswith_def py_or_def amount_json_def opt_str_def)

section \<open>Isolation\<close>

lemma opa_put_elsewhere: "snd (opa_put call pid m opa) p = (if p = pid then snd (opa_put call pid m opa) p else opa p)"
  by (simp add: opa_put_def)

lemma dry_run_isolated:
  assumes "dry_run srv b sample hex put del opa = (x, opa')"
  shows "p \<noteq> ''dryrun-t'' @ hex \<Longrightarrow> opa' p = opa p"
    and "del \<noteq> OpaRefused \<Longrightarrow> opa (''dryrun-t'' @ hex) = None \<Longrightarrow> opa' = opa"
  using assms by (auto simp: dry_run_def opa_put_def Let_def split: option.splits if_splits)

lemma loaded_bundle_isolated:
  assumes "loaded_bundle b hex put del opa block = (x, opa')"
  shows "p \<noteq> ''batch-t'' @ hex \<Longrightarrow> opa' p = opa p"
    and "del \<noteq> OpaRefused \<Longrightarrow> put \<noteq> OpaAnswerLost \<Longrightarrow> opa (''batch-t'' @ hex) = None \<Longrightarrow> opa' = opa"
  using assms by (cases put; auto simp: loaded_bundle_def opa_put_def Let_def split: option.splits if_splits)+

lemma simulate_opa:
  assumes "simulate C ord srv key si org hex put del now d opa = (x, opa')"
  shows "opa' = opa \<or> (\<exists>b sample y. dry_run srv b sample hex put del opa = (y, opa'))"
  using assms by (auto simp: simulate_def split: sum.splits prod.splits)

lemma run_batch_opa:
  assumes "run_batch C ord srv key rows org hex put del now d opa = (x, opa')"
  shows "opa' = opa \<or> (\<exists>b block. loaded_bundle b hex put del opa block = (x, opa'))"
  using assms by (auto simp: run_batch_def split: sum.splits)

lemma not_organization_module: "opa_policy_id org \<noteq> ''dryrun-t'' @ hex" "opa_policy_id org \<noteq> ''batch-t'' @ hex"
  by (simp_all add: opa_policy_id_def opa_package_and_policy_id_def org_policy_id_def split: option.split)

text \<open>C28: simulations are isolated. A simulation and a batch, whatever their calls to OPA run into, change no module of
  OPA but the throwaway one they name, and none at all when that name was free and the deletion was carried out (for a
  batch: unless the answer to the upload was lost); so OPA keeps deciding by the active versions of every organization.\<close>

theorem simulation_isolated:
  assumes "simulate C ord srv key si org hex put del now d opa = (x, opa1)"
    and "run_batch C ord srv key rows org hex put' del' now d opa1 = (y, opa2)"
    and "opa (''dryrun-t'' @ hex) = None" and "opa (''batch-t'' @ hex) = None"
  shows "(\<forall>p. p \<noteq> ''dryrun-t'' @ hex \<and> p \<noteq> ''batch-t'' @ hex \<longrightarrow> opa2 p = opa p)
    \<and> (del \<noteq> OpaRefused \<and> del' \<noteq> OpaRefused \<and> put' \<noteq> OpaAnswerLost \<longrightarrow> opa2 = opa)
    \<and> (\<forall>C' org'. opa_current C' org' d opa \<longrightarrow> opa_current C' org' d opa2)"
proof -
  have f1: "opa1 p = opa p" if "p \<noteq> ''dryrun-t'' @ hex" for p using simulate_opa [OF assms(1)] dry_run_isolated(1) that by blast
  have f2: "opa2 p = opa1 p" if "p \<noteq> ''batch-t'' @ hex" for p using run_batch_opa [OF assms(2)] loaded_bundle_isolated(1) that by blast
  have e1: "opa1 = opa" if "del \<noteq> OpaRefused" using simulate_opa [OF assms(1)] dry_run_isolated(2) that assms(3) by blast
  have b: "opa1 (''batch-t'' @ hex) = None" using f1 [of "''batch-t'' @ hex"] assms(4) by simp
  have e2: "opa2 = opa1" if "del' \<noteq> OpaRefused" "put' \<noteq> OpaAnswerLost" using run_batch_opa [OF assms(2)] loaded_bundle_isolated(2) that b by blast
  have "opa_current C' org' d opa2" if "opa_current C' org' d opa" for C' org'
    by (rule opa_current_cong [OF that refl]) (use f1 f2 not_organization_module in metis)
  then show ?thesis using f1 f2 e1 e2 by auto
qed

theorem simulation_isolated_witness:
  "\<exists>x opa1 y opa2. simulate plain_crypto id (demo_server [trial_policy]) ''k'' payment_question None ''0'' OpaDone OpaDone 0 trial_db [''live'' \<mapsto> ''m''] = (x, opa1)
     \<and> run_batch plain_crypto id (demo_server [trial_policy]) ''k'' [] None ''0'' OpaDone OpaDone 0 trial_db opa1 = (y, opa2) \<and> opa2 = [''live'' \<mapsto> ''m'']"
proof -
  obtain x opa1 where s: "simulate plain_crypto id (demo_server [trial_policy]) ''k'' payment_question None ''0'' OpaDone OpaDone 0 trial_db [''live'' \<mapsto> ''m''] = (x, opa1)"
    by (rule prod.exhaust)
  obtain y opa2 where b: "run_batch plain_crypto id (demo_server [trial_policy]) ''k'' [] None ''0'' OpaDone OpaDone 0 trial_db opa1 = (y, opa2)"
    by (rule prod.exhaust)
  from simulation_isolated [OF s b] have "opa2 = [''live'' \<mapsto> ''m'']" by simp
  with s b show ?thesis by blast
qed

text \<open>The upload of a batch whose answer is lost leaves its module in OPA: the deletion guards the queries only.\<close>

theorem lost_upload_leaves_module:
  assumes "retarget_package (rego_source b) (''payreality.batch.t'' @ hex) = Some m"
  shows "loaded_bundle b hex OpaAnswerLost OpaDone opa block = (Inl DryRunError, opa((''batch-t'' @ hex) \<mapsto> m))"
  using assms by (simp add: loaded_bundle_def opa_put_def Let_def)

section \<open>Batches\<close>

lemma count_row_counts:
  "bs_total (count_row i raw out x) = bs_total x"
  "bs_allowed (count_row i raw out x) = bs_allowed x + (if out = RowDecision ''ALLOW'' then 1 else 0)"
  "bs_denied (count_row i raw out x) = bs_denied x + (if out = RowDecision ''DENY'' then 1 else 0)"
  "bs_escalated (count_row i raw out x) = bs_escalated x + (if \<exists>s. out = RowDecision s \<and> s \<notin> {''ALLOW'', ''DENY''} then 1 else 0)"
  "bs_cannot_simulate (count_row i raw out x) = bs_cannot_simulate x + (if \<exists>ks. out = RowLimitation ks then 1 else 0)"
  "bs_errors (count_row i raw out x) = bs_errors x + (if \<exists>e. out = RowError e then 1 else 0)"
  "bs_sample_truncated (count_row i raw out x) = bs_sample_truncated x"
  "map bt_outcome (bs_sample_rows (count_row i raw out x)) = map bt_outcome (bs_sample_rows x) @ (if length (bs_sample_rows x) < BATCH_SAMPLE_LIMIT then [out] else [])"
  "map bt_row_number (bs_sample_rows (count_row i raw out x)) = map bt_row_number (bs_sample_rows x) @ (if length (bs_sample_rows x) < BATCH_SAMPLE_LIMIT then [i] else [])"
  by (cases out; simp add: count_row_def Let_def)+

definition tally :: "(RowOutcome \<Rightarrow> bool) \<Rightarrow> RowOutcome list \<Rightarrow> nat" where
  "tally P outs = length (filter P outs)"

lemma run_rows_tally:
  assumes "run_rows f i rows x = Inr y" and "length (bs_sample_rows x) \<le> BATCH_SAMPLE_LIMIT"
  shows "\<exists>outs. rmapM f rows = Inr outs \<and> bs_total y = bs_total x \<and> bs_sample_truncated y = bs_sample_truncated x
    \<and> bs_allowed y = bs_allowed x + tally (\<lambda>out. out = RowDecision ''ALLOW'') outs
    \<and> bs_denied y = bs_denied x + tally (\<lambda>out. out = RowDecision ''DENY'') outs
    \<and> bs_escalated y = bs_escalated x + tally (\<lambda>out. \<exists>s. out = RowDecision s \<and> s \<notin> {''ALLOW'', ''DENY''}) outs
    \<and> bs_cannot_simulate y = bs_cannot_simulate x + tally (\<lambda>out. \<exists>ks. out = RowLimitation ks) outs
    \<and> bs_errors y = bs_errors x + tally (\<lambda>out. \<exists>e. out = RowError e) outs
    \<and> map bt_outcome (bs_sample_rows y) = map bt_outcome (bs_sample_rows x) @ take (BATCH_SAMPLE_LIMIT - length (bs_sample_rows x)) outs"
  using assms
proof (induction rows arbitrary: i x)
  case (Cons raw rows)
  from Cons.prems(1) obtain out where o': "f raw = Inr out" and r: "run_rows f (Suc i) rows (count_row i raw out x) = Inr y" by auto
  let ?x = "count_row i raw out x"
  have len: "length (bs_sample_rows ?x) = length (bs_sample_rows x) + (if length (bs_sample_rows x) < BATCH_SAMPLE_LIMIT then 1 else 0)"
    using arg_cong [OF count_row_counts(8) [of i raw out x], of length] by simp
  then have "length (bs_sample_rows ?x) \<le> BATCH_SAMPLE_LIMIT" using Cons.prems(2) by simp
  from Cons.IH [OF r this] obtain outs where outs: "rmapM f rows = Inr outs" "bs_total y = bs_total ?x" "bs_sample_truncated y = bs_sample_truncated ?x"
    "bs_allowed y = bs_allowed ?x + tally (\<lambda>out. out = RowDecision ''ALLOW'') outs"
    "bs_denied y = bs_denied ?x + tally (\<lambda>out. out = RowDecision ''DENY'') outs"
    "bs_escalated y = bs_escalated ?x + tally (\<lambda>out. \<exists>s. out = RowDecision s \<and> s \<notin> {''ALLOW'', ''DENY''}) outs"
    "bs_cannot_simulate y = bs_cannot_simulate ?x + tally (\<lambda>out. \<exists>ks. out = RowLimitation ks) outs"
    "bs_errors y = bs_errors ?x + tally (\<lambda>out. \<exists>e. out = RowError e) outs"
    "map bt_outcome (bs_sample_rows y) = map bt_outcome (bs_sample_rows ?x) @ take (BATCH_SAMPLE_LIMIT - length (bs_sample_rows ?x)) outs"
    by blast
  have t: "take (BATCH_SAMPLE_LIMIT - length (bs_sample_rows x)) (out # outs) =
      (if length (bs_sample_rows x) < BATCH_SAMPLE_LIMIT then [out] else []) @ take (BATCH_SAMPLE_LIMIT - length (bs_sample_rows ?x)) outs"
    using Cons.prems(2) len by (auto simp: take_Cons' diff_Suc split: nat.split)
  have "map bt_outcome (bs_sample_rows y) = map bt_outcome (bs_sample_rows x) @ take (BATCH_SAMPLE_LIMIT - length (bs_sample_rows x)) (out # outs)"
    unfolding t outs(9) count_row_counts(8) by simp
  moreover have "rmapM f (raw # rows) = Inr (out # outs)" using o' outs(1) by simp
  moreover have "tally P (out # outs) = tally P outs + (if P out then 1 else 0)" for P by (simp add: tally_def)
  ultimately show ?case unfolding outs(2-8) count_row_counts(1-7) by (intro exI [of _ "out # outs"]) simp
qed (simp add: tally_def)

lemma tally_total:
  "tally (\<lambda>out. out = RowDecision ''ALLOW'') outs + tally (\<lambda>out. out = RowDecision ''DENY'') outs
   + tally (\<lambda>out. \<exists>s. out = RowDecision s \<and> s \<notin> {''ALLOW'', ''DENY''}) outs + tally (\<lambda>out. \<exists>e. out = RowError e) outs
   + tally (\<lambda>out. \<exists>ks. out = RowLimitation ks) outs = length outs"
proof (induction outs)
  case (Cons x outs)
  then show ?case by (cases x) (auto simp: tally_def)
qed (simp add: tally_def)

lemma rmapM_length: "rmapM f xs = Inr ys \<Longrightarrow> length ys = length xs"
  by (induction xs arbitrary: ys) auto

lemma rmapM_nth: "rmapM f xs = Inr ys \<Longrightarrow> i < length xs \<Longrightarrow> f (xs ! i) = Inr (ys ! i)"
  by (induction xs arbitrary: ys i) (auto simp: nth_Cons split: nat.splits)

text \<open>A batch accounts for every row. Each row is counted once, as allowed, denied, escalated, malformed or impossible
  to simulate; the sample holds the first fifty outcomes in order; a row without the subject of a trusted fact the policies
  need is never counted as decided; and a decided row has the effect of the one policy that matches its input, when
  OPA answers as the loaded module says.\<close>

theorem batch_accounts_for_rows:
  assumes "run_batch C ord srv key rows org hex put del now d opa = (Inr res, opa')"
    and "compile_for_simulation C ord key org now d = Inr (r, this, ps, result)" and "simulable ord ps"
    and "\<And>m. evaluates srv (''batch-t'' @ hex) m (data_path_of (''payreality.batch.t'' @ hex)) ps"
  shows "bs_total res = length rows
    \<and> bs_allowed res + bs_denied res + bs_escalated res + bs_errors res + bs_cannot_simulate res = length rows
    \<and> (\<exists>b outs. length outs = length rows \<and> map bt_outcome (bs_sample_rows res) = take 50 outs
        \<and> bs_allowed res = tally (\<lambda>out. out = RowDecision ''ALLOW'') outs \<and> bs_denied res = tally (\<lambda>out. out = RowDecision ''DENY'') outs
        \<and> bs_cannot_simulate res = tally (\<lambda>out. \<exists>ks. out = RowLimitation ks) outs
        \<and> (\<forall>i < length rows. \<forall>s. outs ! i = RowDecision s \<longrightarrow>
             (enterprise_knowledge_keys_referenced ps \<noteq> [] \<longrightarrow> row_counterparty (rows ! i) \<noteq> None)
             \<and> (\<exists>input. row_input d org b (enterprise_knowledge_keys_referenced ps) (rows ! i) now = Inr input
                  \<and> s = Outcome_value (fst (verdict ps input)))))"
proof -
  let ?keys = "enterprise_knowledge_keys_referenced ps"
  obtain b where b: "compile_ok result" "cr_bundle result = Some b" and l: "loaded_bundle b hex put del opa
      (\<lambda>opa1 data_path. run_rows (run_row (srv opa1) data_path d org b ?keys now) 1 rows (empty_batch (length rows) b)) = (Inr res, opa')"
    using assms(1,2) by (cases "compile_ok result"; cases "cr_bundle result") (auto simp: run_batch_def compiled_or_error_def)
  then obtain m where m: "retarget_package (rego_source b) (''payreality.batch.t'' @ hex) = Some m"
      and run: "run_rows (run_row (srv (opa((''batch-t'' @ hex) \<mapsto> m))) (data_path_of (''payreality.batch.t'' @ hex)) d org b ?keys now) 1 rows
        (empty_batch (length rows) b) = Inr res"
    by (auto simp: loaded_bundle_def opa_put_def Let_def split: option.splits if_splits)
  let ?f = "run_row (srv (opa((''batch-t'' @ hex) \<mapsto> m))) (data_path_of (''payreality.batch.t'' @ hex)) d org b ?keys now"
  have e: "length (bs_sample_rows (empty_batch (length rows) b)) \<le> BATCH_SAMPLE_LIMIT" by (simp add: empty_batch_def)
  from run_rows_tally [OF run e] obtain outs where outs: "rmapM ?f rows = Inr outs" "bs_total res = length rows"
    "bs_allowed res = tally (\<lambda>out. out = RowDecision ''ALLOW'') outs" "bs_denied res = tally (\<lambda>out. out = RowDecision ''DENY'') outs"
    "bs_escalated res = tally (\<lambda>out. \<exists>s. out = RowDecision s \<and> s \<notin> {''ALLOW'', ''DENY''}) outs"
    "bs_cannot_simulate res = tally (\<lambda>out. \<exists>ks. out = RowLimitation ks) outs"
    "bs_errors res = tally (\<lambda>out. \<exists>e. out = RowError e) outs" "map bt_outcome (bs_sample_rows res) = take 50 outs"
    unfolding empty_batch_def BATCH_SAMPLE_LIMIT_def by auto
  have cb: "compile_bundle C ord GENERIC_VOCABULARY ps (''simulation-'' @ uuid_hex key) (rr_version r) now = Inr result"
    using assms(2) by (auto simp: compile_for_simulation_def)
  note ex = compiled_exclusive [OF cb b(1) assms(3)]
  have decided: "(?keys \<noteq> [] \<longrightarrow> row_counterparty raw \<noteq> None) \<and> (\<exists>input. row_input d org b ?keys raw now = Inr input \<and> s = Outcome_value (fst (verdict ps input)))"
    if "?f raw = Inr (RowDecision s)" for raw s
  proof -
    from that obtain input q where i: "row_input d org b ?keys raw now = Inr input" "?keys \<noteq> [] \<longrightarrow> row_counterparty raw \<noteq> None"
        "query_loaded_bundle (srv (opa((''batch-t'' @ hex) \<mapsto> m))) (data_path_of (''payreality.batch.t'' @ hex)) input = Inr q" "query_decision q = Inr s"
      by (auto simp: run_row_def split: if_splits sum.splits)
    have q: "q = bundle_result ps input"
      using i(3) assms(4) [of m] unfolding evaluates_def query_loaded_bundle_def post_data_def by (auto simp: py_get_or_def)
    obtain out why ms where v: "verdict ps input = (out, why, ms)" by (rule prod_cases3)
    have "s = Outcome_value out"
      using read_bundle_result [OF ex(2,1) v] i(4) unfolding q by (auto simp: query_decision_def read_dry_run_def)
    then show ?thesis using i(1,2) v by simp
  qed
  have "bs_allowed res + bs_denied res + bs_escalated res + bs_errors res + bs_cannot_simulate res = length rows"
    using tally_total [of outs] outs(3-7) rmapM_length [OF outs(1)] by simp
  moreover have "\<forall>i < length rows. \<forall>s. outs ! i = RowDecision s \<longrightarrow>
             (?keys \<noteq> [] \<longrightarrow> row_counterparty (rows ! i) \<noteq> None)
             \<and> (\<exists>input. row_input d org b ?keys (rows ! i) now = Inr input \<and> s = Outcome_value (fst (verdict ps input)))"
    using rmapM_nth [OF outs(1)] decided by (intro allI impI) simp
  ultimately show ?thesis
    by (intro conjI exI [of _ b] exI [of _ outs]) (use outs rmapM_length [OF outs(1)] in simp_all)
qed

definition payment_row_cells :: raw_row where
  "payment_row_cells = [(''principal'', JStr ''cfo''), (''action'', JStr '' vendor_payment''), (''amount'', JStr ''4_00.0''), (''note'', JStr [])]"

lemma payment_row_input:
  "cell_text payment_row_cells ''principal'' = ''cfo''" "cell_text payment_row_cells ''action'' = ''vendor_payment''"
  "row_intent payment_row_cells ''vendor_payment'' = Inr (to_intent payment_question)" "row_context payment_row_cells = JObj []"
  by code_simp+

theorem batch_accounts_for_rows_witness:
  "\<exists>res. run_batch plain_crypto id (demo_server [trial_policy]) ''k'' [payment_row_cells, []] None ''0'' OpaDone OpaDone 0 trial_db Map.empty = (Inr res, Map.empty)
     \<and> bs_total res = 2 \<and> bs_allowed res + bs_denied res + bs_escalated res + bs_errors res + bs_cannot_simulate res = 2"
proof -
  obtain r b res0 where c: "compile_for_simulation plain_crypto id ''k'' None 0 trial_db = Inr (r, trial_policy, [trial_policy], \<lparr>cr_bundle = Some b, diagnostics = []\<rparr>)"
    by (rule payment_simulation)
  then have "compile_bundle plain_crypto id GENERIC_VOCABULARY [trial_policy] (''simulation-'' @ uuid_hex ''k'') (rr_version r) 0 = Inr \<lparr>cr_bundle = Some b, diagnostics = []\<rparr>"
    by (auto simp: compile_for_simulation_def)
  from compile_ok_checks [OF this] have bb: "build_bundle plain_crypto [trial_policy] (''simulation-'' @ uuid_hex ''k'') (rr_version r) 0 = Inr b"
    by (simp add: compile_ok_def)
  have "package_name ''payreality.batch.t0''" by (simp add: package_name_def is_space_def)
  from retarget_isolates_package [OF bb this] obtain m where m: "retarget_package (rego_source b) ''payreality.batch.t0'' = Some m" by auto
  have keys: "enterprise_knowledge_keys_referenced [trial_policy] = []"
    by (simp add: enterprise_knowledge_keys_referenced_def trial_policy_def demo_policy_def startswith_def)
  let ?in = "build_opa_input (to_intent payment_question) (JObj []) (JStr ''cfo'') (bundle_version b) None (JObj [])"
  have i: "row_input trial_db None b [] payment_row_cells 0 = Inr ?in" by (simp add: row_input_def payment_row_input)
  have q: "\<exists>s. query_decision (bundle_result [trial_policy] ?in) = Inr s"
    by (simp add: query_decision_def bundle_result_def py_get_or_def Let_def)
  have e: "cell_text [] ''principal'' = []" by code_simp
  have "\<exists>s. run_row (demo_server [trial_policy] opa) path trial_db None b [] 0 payment_row_cells = Inr (RowDecision s)" for opa path
    using q by (auto simp: run_row_def payment_row_input i query_loaded_bundle_def post_data_def demo_server_def py_get_or_def)
  moreover have "run_row srv path trial_db None b [] 0 [] = Inr (RowError (SimPython ValueError))" for srv path by (simp add: run_row_def e)
  ultimately have "\<exists>res. run_rows (run_row (demo_server [trial_policy] opa) path trial_db None b [] 0) 1 [payment_row_cells, []] x = Inr res" for opa path x
    by (metis rbind_simps(2) run_rows.simps)
  from this [of "[''batch-t0'' \<mapsto> m]" "data_path_of ''payreality.batch.t0''" "empty_batch 2 b"]
  obtain res where rows: "run_rows (run_row (demo_server [trial_policy] [''batch-t0'' \<mapsto> m]) (data_path_of ''payreality.batch.t0'') trial_db None b [] 0) 1
      [payment_row_cells, []] (empty_batch 2 b) = Inr res" by blast
  have run: "run_batch plain_crypto id (demo_server [trial_policy]) ''k'' [payment_row_cells, []] None ''0'' OpaDone OpaDone 0 trial_db Map.empty
      = (Inr res, Map.empty)"
    using m rows by (simp add: numeral_2_eq_2 run_batch_def c compiled_or_error_def compile_ok_def keys loaded_bundle_def opa_put_def Let_def
        del: run_rows.simps)
  from batch_accounts_for_rows [OF run c payment_simulable demo_server_evaluates] run show ?thesis by auto
qed

end
