(* ===== verification/Auth_Service.thy ===== *)
theory Auth_Service
  imports Org_Lifecycle Evidence_Chain Policy_Safety Rbac
begin

text \<open>
  Accounts: \<^verbatim>\<open>server/app/services/auth_service.py\<close> (passwords, sessions, API keys),
  \<^verbatim>\<open>services/organization_service.py\<close> (settings and the first owner) and the handlers of
  \<^verbatim>\<open>routers/auth.py\<close>, \<^verbatim>\<open>routers/users.py\<close>, \<^verbatim>\<open>routers/organization.py\<close> and
  \<^verbatim>\<open>routers/organization_lifecycle.py\<close> behind their guards.

  bcrypt is the pair of parameters \<open>hash_password\<close> and \<open>checkpw\<close>; generated identifiers and secrets are arguments;
  \<open>ord\<close> is the order in which PostgreSQL returns rows that no ORDER BY sorts. A handler returns the state and a
  response, or the exception that ends it: an \<open>HTTPException\<close> with its status and detail, or one that the
  middleware turns into a 500.
\<close>

datatype HttpError = HTTPException int string | Unhandled py_error | DateOverflow | StoreRefused

section \<open>Roles\<close>

fun Role_value :: "Role \<Rightarrow> string" where
  "Role_value OWNER = ''owner''"
| "Role_value GOVERNANCE_ADMIN = ''governance_admin''"
| "Role_value AGENT_ADMIN = ''agent_admin''"
| "Role_value REVIEWER = ''reviewer''"
| "Role_value AUDITOR = ''auditor''"
| "Role_value EXECUTIVE = ''executive''"

definition all_roles :: "Role list" where
  "all_roles = [OWNER, GOVERNANCE_ADMIN, AGENT_ADMIN, REVIEWER, AUDITOR, EXECUTIVE]"

definition Role_of :: "string \<Rightarrow> Role option" where
  "Role_of = enum_of all_roles Role_value"

interpretation role_enum: str_enum all_roles Role_value
proof unfold_locales
  show "r \<in> set all_roles" for r by (cases r) (simp_all add: all_roles_def)
  show "distinct (map Role_value all_roles)" by (simp add: all_roles_def)
qed

text \<open>The constraint of the tables and the enumeration of the code admit the same roles.\<close>

lemma role_admitted: "rl \<in> set ROLE_VALUES \<longleftrightarrow> Role_of rl \<noteq> None"
proof
  assume "rl \<in> set ROLE_VALUES"
  then have "rl \<in> Role_value ` set all_roles" by (auto simp: ROLE_VALUES_def all_roles_def)
  then show "Role_of rl \<noteq> None" using role_enum.enum_of_value by (auto simp: Role_of_def)
next
  assume "Role_of rl \<noteq> None"
  then obtain r where "Role_value r = rl" using role_enum.enum_of_Some by (auto simp: Role_of_def)
  then show "rl \<in> set ROLE_VALUES" by (cases r) (auto simp: ROLE_VALUES_def)
qed

section \<open>auth\_service.py\<close>

definition DEFAULT_SESSION_TIMEOUT_MINUTES :: int where "DEFAULT_SESSION_TIMEOUT_MINUTES = 480"

definition API_KEY_PREFIX :: string where "API_KEY_PREFIX = ''pr_live_''"

text \<open>A malformed stored hash is a failed login.\<close>

definition verify_password :: "(string \<Rightarrow> string \<Rightarrow> py_error + bool) \<Rightarrow> string \<Rightarrow> string \<Rightarrow> py_error + bool" where
  "verify_password checkpw password password_hash =
     (case checkpw password password_hash of Inl ValueError \<Rightarrow> Inr False | r \<Rightarrow> r)"

definition user_by_email :: "(User list \<Rightarrow> User list) \<Rightarrow> db \<Rightarrow> string \<Rightarrow> User option" where
  "user_by_email ord d email = db_find (\<lambda>u. us_email u = email) (ord (users d))"

definition authenticate ::
  "(User list \<Rightarrow> User list) \<Rightarrow> (string \<Rightarrow> string \<Rightarrow> py_error + bool) \<Rightarrow> string \<Rightarrow> string \<Rightarrow> db \<Rightarrow> py_error + User option" where
  "authenticate ord checkpw email password d =
     (case user_by_email ord d email of
        None \<Rightarrow> Inr None
      | Some u \<Rightarrow> if us_status u \<noteq> UserActive then Inr None
          else rmap (\<lambda>ok. if ok then Some u else None) (verify_password checkpw password (us_password_hash u)))"

text \<open>\<^verbatim>\<open>timedelta(minutes=t)\<close> in microseconds; \<open>tm\<close> is its floating-point arithmetic.\<close>

definition minutes_delta :: "(amount \<Rightarrow> int) \<Rightarrow> json \<Rightarrow> py_error + int" where
  "minutes_delta tm t = (case t of
     JInt n \<Rightarrow> Inr (n * 60000000)
   | JBool b \<Rightarrow> Inr (if b then 60000000 else 0)
   | JFloat m e \<Rightarrow> Inr (tm (m, e))
   | _ \<Rightarrow> Inl TypeError)"

definition session_timeout_minutes :: "Organization option \<Rightarrow> py_error + json" where
  "session_timeout_minutes org = (case org of
     None \<Rightarrow> Inr (JInt DEFAULT_SESSION_TIMEOUT_MINUTES)
   | Some r \<Rightarrow> py_get_or (org_settings r) ''session_timeout_minutes'' (JInt DEFAULT_SESSION_TIMEOUT_MINUTES))"

text \<open>An UPDATE is sent for the rows whose values change; it stamps \<open>updated_at\<close>.\<close>

definition update_user :: "uuid \<Rightarrow> datetime \<Rightarrow> (User \<Rightarrow> User) \<Rightarrow> db \<Rightarrow> db" where
  "update_user uid now f d = d\<lparr>users := db_update (\<lambda>u. us_id u = uid)
     (\<lambda>u. if f u = u then u else (f u)\<lparr>us_updated_at := now\<rparr>) (users d)\<rparr>"

definition http_py :: "py_error + 'a \<Rightarrow> HttpError + 'a" where
  "http_py r = (case r of Inl e \<Rightarrow> Inl (Unhandled e) | Inr x \<Rightarrow> Inr x)"

lemma http_py_simps [simp]: "http_py (Inl e) = Inl (Unhandled e)" "http_py (Inr x) = Inr x"
  by (simp_all add: http_py_def)

lemma http_py_Inr_iff [simp]: "http_py r = Inr x \<longleftrightarrow> r = Inr x"
  by (cases r) auto

definition create_session ::
  "(amount \<Rightarrow> int) \<Rightarrow> User \<Rightarrow> Organization option \<Rightarrow> uuid \<Rightarrow> datetime \<Rightarrow> db \<Rightarrow> HttpError + db \<times> UserSession" where
  "create_session tm u org sid now d =
     rbind (http_py (session_timeout_minutes org)) (\<lambda>t.
     rbind (http_py (minutes_delta tm t)) (\<lambda>delta.
     rbind (raise_if (\<not> datetime_range (now + delta)) DateOverflow) (\<lambda>_.
       let s = \<lparr>se_id = sid, se_user_id = us_id u, se_created_at = now, se_expires_at = now + delta, se_revoked_at = None\<rparr>
       in Inr (update_user (us_id u) now (\<lambda>x. x\<lparr>us_last_login_at := Some now\<rparr>) (d\<lparr>user_sessions := user_sessions d @ [s]\<rparr>), s))))"

definition get_session_row :: "db \<Rightarrow> uuid \<Rightarrow> UserSession option" where
  "get_session_row d sid = db_find (\<lambda>s. se_id s = sid) (user_sessions d)"

definition get_user_row :: "db \<Rightarrow> uuid \<Rightarrow> User option" where
  "get_user_row d uid = db_find (\<lambda>u. us_id u = uid) (users d)"

definition revoke_session :: "uuid \<Rightarrow> datetime \<Rightarrow> db \<Rightarrow> db" where
  "revoke_session sid now d = (case get_session_row d sid of
     None \<Rightarrow> d
   | Some s \<Rightarrow> if se_revoked_at s = None
       then d\<lparr>user_sessions := db_update (\<lambda>s. se_id s = sid \<and> se_revoked_at s = None) (\<lambda>s. s\<lparr>se_revoked_at := Some now\<rparr>) (user_sessions d)\<rparr>
       else d)"

definition revoke_session_for_token :: "string \<Rightarrow> datetime \<Rightarrow> db \<Rightarrow> db" where
  "revoke_session_for_token token now d = (case parse_uuid token of None \<Rightarrow> d | Some sid \<Rightarrow> revoke_session sid now d)"

definition resolve_user_for_session_token :: "db \<Rightarrow> string \<Rightarrow> datetime \<Rightarrow> User option" where
  "resolve_user_for_session_token d token now =
     Option.bind (parse_uuid token) (\<lambda>sid.
     Option.bind (get_session_row d sid) (\<lambda>s.
       if se_revoked_at s \<noteq> None \<or> se_expires_at s \<le> now then None
       else Option.bind (get_user_row d (se_user_id s)) (\<lambda>u. if us_status u \<noteq> UserActive then None else Some u)))"

definition api_key_of_token :: "crypto \<Rightarrow> db \<Rightarrow> string \<Rightarrow> ApiKey option" where
  "api_key_of_token C d token = db_find (\<lambda>k. ak_key_hash k = hash_api_key C token) (api_keys d)"

definition resolve_organization_id_for_token :: "crypto \<Rightarrow> db \<Rightarrow> string \<Rightarrow> datetime \<Rightarrow> uuid option" where
  "resolve_organization_id_for_token C d token now = (case resolve_user_for_session_token d token now of
     Some u \<Rightarrow> Some (us_organization_id u)
   | None \<Rightarrow> (case api_key_of_token C d token of
       Some k \<Rightarrow> if ak_revoked_at k = None then Some (ak_organization_id k) else None
     | None \<Rightarrow> None))"

definition generate_api_key :: "crypto \<Rightarrow> string \<Rightarrow> string \<times> string \<times> string" where
  "generate_api_key C secret =
     (let raw_key = API_KEY_PREFIX @ secret in (raw_key, hash_api_key C raw_key, take (length API_KEY_PREFIX + 8) raw_key))"

text \<open>The lookup records the use of the key and commits, before the role is read.\<close>

definition touch_api_key :: "uuid \<Rightarrow> datetime \<Rightarrow> db \<Rightarrow> db" where
  "touch_api_key kid now d = d\<lparr>api_keys := db_update (\<lambda>k. ak_id k = kid) (\<lambda>k. k\<lparr>ak_last_used_at := Some now\<rparr>) (api_keys d)\<rparr>"

definition resolve_role_for_api_key :: "crypto \<Rightarrow> string \<Rightarrow> datetime \<Rightarrow> db \<Rightarrow> db \<times> Role option" where
  "resolve_role_for_api_key C token now d = (case api_key_of_token C d token of
     None \<Rightarrow> (d, None)
   | Some k \<Rightarrow> if ak_revoked_at k \<noteq> None then (d, None) else (touch_api_key (ak_id k) now d, Role_of (ak_role k)))"

definition resolve_role_for_token :: "crypto \<Rightarrow> string \<Rightarrow> datetime \<Rightarrow> db \<Rightarrow> db \<times> Role option" where
  "resolve_role_for_token C token now d = (case resolve_user_for_session_token d token now of
     Some u \<Rightarrow> (d, Role_of (us_role u))
   | None \<Rightarrow> resolve_role_for_api_key C token now d)"

section \<open>routers/auth.py\<close>

definition bearer_token :: "string option \<Rightarrow> string option" where
  "bearer_token authorization = (case authorization of
     None \<Rightarrow> None
   | Some a \<Rightarrow> if a = [] \<or> \<not> startswith (py_lower a) ''bearer '' then None
       else (let token = py_strip (drop 7 a) in if token = [] then None else Some token))"

definition permissions_for :: "User \<Rightarrow> string list" where
  "permissions_for u = (case Role_of (us_role u) of None \<Rightarrow> [] | Some r \<Rightarrow> permissions_for_role r)"

record LoginResponse =
  lo_token :: string
  lo_expires_at :: datetime
  lo_user :: User
  lo_permissions :: "string list"

definition login ::
  "(User list \<Rightarrow> User list) \<Rightarrow> (string \<Rightarrow> string \<Rightarrow> py_error + bool) \<Rightarrow> (amount \<Rightarrow> int) \<Rightarrow> string \<Rightarrow> string \<Rightarrow> uuid \<Rightarrow> datetime \<Rightarrow> db
     \<Rightarrow> HttpError + db \<times> LoginResponse" where
  "login ord checkpw tm email password sid now d =
     rbind (http_py (authenticate ord checkpw email password d)) (\<lambda>found.
     rbind (get_or_raise found (HTTPException 401 ''invalid_credentials'')) (\<lambda>u.
     rmap (\<lambda>(d', s). (d', \<lparr>lo_token = se_id s, lo_expires_at = se_expires_at s, lo_user = u\<lparr>us_last_login_at := Some now\<rparr>,
             lo_permissions = permissions_for u\<rparr>))
       (create_session tm u (get_organization_row d (us_organization_id u)) sid now d)))"

definition logout :: "string option \<Rightarrow> datetime \<Rightarrow> db \<Rightarrow> db" where
  "logout authorization now d = (case bearer_token authorization of
     None \<Rightarrow> d | Some token \<Rightarrow> revoke_session_for_token token now d)"

definition setup_owner ::
  "(User list \<Rightarrow> User list) \<Rightarrow> (string \<Rightarrow> string) \<Rightarrow> string \<Rightarrow> string \<Rightarrow> Organization \<Rightarrow> datetime \<Rightarrow> db \<Rightarrow> HttpError + db \<times> User" where
  "setup_owner ord hash_password email password org now d =
     rbind (raise_if (length password < 8) (HTTPException 422 ''password_too_short'')) (\<lambda>_.
     rbind (get_or_raise (db_find (\<lambda>u. us_organization_id u = org_id org \<and> us_role u = ''owner'') (ord (users d)))
         (HTTPException 404 ''owner_not_found'')) (\<lambda>ow.
     rbind (raise_if (\<exists>u \<in> set (users d). us_organization_id u = org_id org \<and> us_email u = email \<and> us_id u \<noteq> us_id ow)
         (HTTPException 409 ''email_already_exists'')) (\<lambda>_.
       let d' = update_user (us_id ow) now (\<lambda>u. u\<lparr>us_email := email, us_password_hash := hash_password password,
                   us_must_reset_password := False\<rparr>) d
       in rmap (Pair d') (get_or_raise (get_user_row d' (us_id ow)) StoreRefused))))"

text \<open>\<open>accept_invitation\<close>: the detail of a refusal is the text of the exception.\<close>

definition quoted :: "string \<Rightarrow> string" where "quoted s = CHR 0x27 # s @ [CHR 0x27]"

definition accept_refusal :: "OrgError \<Rightarrow> HttpError" where
  "accept_refusal e = (case e of
     InvitationNotFoundError _ \<Rightarrow> HTTPException 404 ''invitation_not_found''
   | InvitationNotPendingError st \<Rightarrow> HTTPException 409 (''invitation is already '' @ quoted (InvitationStatus_value st))
   | InvitationExpiredError i \<Rightarrow> HTTPException 409 i
   | EmailAlreadyRegisteredError email \<Rightarrow> HTTPException 409 email
   | _ \<Rightarrow> StoreRefused)"

definition accept_invitation_handler ::
  "crypto \<Rightarrow> (string \<Rightarrow> string) \<Rightarrow> string \<Rightarrow> string \<Rightarrow> string \<Rightarrow> uuid \<Rightarrow> datetime \<Rightarrow> db \<Rightarrow> db \<times> (HttpError + User)" where
  "accept_invitation_handler C hash_password raw nm password uid now d =
     (if length password < 8 then (d, Inl (HTTPException 422 ''password_too_short''))
      else (case accept_invitation C hash_password raw nm password uid now d of
          (d', Inl e) \<Rightarrow> (d', Inl (accept_refusal e))
        | (d', Inr u) \<Rightarrow> (d', Inr u)))"

section \<open>routers/users.py\<close>

definition list_users :: "Organization \<Rightarrow> db \<Rightarrow> User list" where
  "list_users org d = sort_key us_created_at (filter (\<lambda>u. us_organization_id u = org_id org) (users d))"

definition create_user ::
  "(string \<Rightarrow> string) \<Rightarrow> string \<Rightarrow> string \<Rightarrow> string \<Rightarrow> string \<Rightarrow> Organization \<Rightarrow> uuid \<Rightarrow> datetime \<Rightarrow> db
     \<Rightarrow> HttpError + db \<times> User \<times> string" where
  "create_user hash_password email nm rl temporary_password org uid now d =
     rbind (raise_if (Role_of rl = None) (HTTPException 422 ''invalid_role'')) (\<lambda>_.
     rbind (raise_if (find_user d (org_id org) email \<noteq> None) (HTTPException 409 ''email_already_exists'')) (\<lambda>_.
       let u = new_user uid (org_id org) email nm (hash_password temporary_password) rl True now
       in Inr (d\<lparr>users := users d @ [u]\<rparr>, u, temporary_password)))"

definition get_org_user :: "db \<Rightarrow> Organization \<Rightarrow> uuid \<Rightarrow> HttpError + User" where
  "get_org_user d org uid = (case get_user_row d uid of
     None \<Rightarrow> Inl (HTTPException 404 ''user_not_found'')
   | Some u \<Rightarrow> if us_organization_id u \<noteq> org_id org then Inl (HTTPException 404 ''user_not_found'') else Inr u)"

definition change_org_user ::
  "uuid \<Rightarrow> (User \<Rightarrow> User) \<Rightarrow> Organization \<Rightarrow> datetime \<Rightarrow> db \<Rightarrow> HttpError + db \<times> User" where
  "change_org_user uid f org now d =
     rbind (get_org_user d org uid) (\<lambda>_.
       let d' = update_user uid now f d in rmap (Pair d') (get_or_raise (get_user_row d' uid) StoreRefused))"

definition update_user_role :: "uuid \<Rightarrow> string \<Rightarrow> Organization \<Rightarrow> datetime \<Rightarrow> db \<Rightarrow> HttpError + db \<times> User" where
  "update_user_role uid rl org now d =
     rbind (raise_if (Role_of rl = None) (HTTPException 422 ''invalid_role'')) (\<lambda>_.
       change_org_user uid (\<lambda>u. u\<lparr>us_role := rl\<rparr>) org now d)"

definition update_user_status :: "uuid \<Rightarrow> string \<Rightarrow> Organization \<Rightarrow> datetime \<Rightarrow> db \<Rightarrow> HttpError + db \<times> User" where
  "update_user_status uid st org now d =
     (if st = ''active'' then change_org_user uid (\<lambda>u. u\<lparr>us_status := UserActive\<rparr>) org now d
      else if st = ''disabled'' then change_org_user uid (\<lambda>u. u\<lparr>us_status := UserDisabled\<rparr>) org now d
      else Inl (HTTPException 422 ''invalid_status''))"

section \<open>API keys, members and settings of an organization\<close>

definition list_api_keys :: "Organization \<Rightarrow> db \<Rightarrow> ApiKey list" where
  "list_api_keys org d = sort_key ak_created_at (filter (\<lambda>k. ak_organization_id k = org_id org) (api_keys d))"

text \<open>The digest is unique in the table.\<close>

definition create_api_key ::
  "crypto \<Rightarrow> string \<Rightarrow> string \<Rightarrow> string \<Rightarrow> Organization \<Rightarrow> uuid \<Rightarrow> datetime \<Rightarrow> db \<Rightarrow> HttpError + db \<times> ApiKey \<times> string" where
  "create_api_key C nm rl secret org kid now d =
     rbind (raise_if (Role_of rl = None) (HTTPException 422 ''invalid_role'')) (\<lambda>_.
       let (raw_key, key_hash, key_prefix) = generate_api_key C secret;
           k = \<lparr>ak_id = kid, ak_organization_id = org_id org, ak_name = nm, ak_key_hash = key_hash, ak_key_prefix = key_prefix,
                ak_role = rl, ak_created_by_user_id = None, ak_created_at = now, ak_last_used_at = None, ak_revoked_at = None\<rparr>
       in rbind (raise_if (\<exists>j \<in> set (api_keys d). ak_key_hash j = key_hash) StoreRefused) (\<lambda>_.
            Inr (d\<lparr>api_keys := api_keys d @ [k]\<rparr>, k, raw_key)))"

definition get_api_key_row :: "db \<Rightarrow> uuid \<Rightarrow> ApiKey option" where
  "get_api_key_row d kid = db_find (\<lambda>k. ak_id k = kid) (api_keys d)"

definition revoke_api_key :: "uuid \<Rightarrow> Organization \<Rightarrow> datetime \<Rightarrow> db \<Rightarrow> HttpError + db" where
  "revoke_api_key kid org now d = (case get_api_key_row d kid of
     None \<Rightarrow> Inl (HTTPException 404 ''api_key_not_found'')
   | Some k \<Rightarrow> if ak_organization_id k \<noteq> org_id org then Inl (HTTPException 404 ''api_key_not_found'')
       else if ak_revoked_at k = None
         then Inr (d\<lparr>api_keys := db_update (\<lambda>k. ak_id k = kid \<and> ak_revoked_at k = None) (\<lambda>k. k\<lparr>ak_revoked_at := Some now\<rparr>) (api_keys d)\<rparr>)
         else Inr d)"

definition invite_member_handler ::
  "crypto \<Rightarrow> string \<Rightarrow> string \<Rightarrow> string \<Rightarrow> Organization \<Rightarrow> uuid \<Rightarrow> datetime \<Rightarrow> db \<Rightarrow> HttpError + db \<times> OrganizationInvitation \<times> string" where
  "invite_member_handler C email rl secret org iid now d =
     rbind (raise_if (Role_of rl = None) (HTTPException 422 ''invalid_role'')) (\<lambda>_.
       (case invite_member C (org_id org) email rl None secret iid now d of
          Inl (EmailAlreadyRegisteredError _) \<Rightarrow> Inl (HTTPException 409 ''email_already_exists'')
        | Inl _ \<Rightarrow> Inl StoreRefused
        | Inr x \<Rightarrow> Inr x))"

definition revoke_invitation_handler :: "uuid \<Rightarrow> Organization \<Rightarrow> db \<Rightarrow> HttpError + db \<times> OrganizationInvitation" where
  "revoke_invitation_handler iid org d = (case revoke_invitation iid (org_id org) d of
     Inl (InvitationNotFoundError _) \<Rightarrow> Inl (HTTPException 404 ''invitation_not_found'')
   | Inl (InvitationNotPendingError st) \<Rightarrow>
       Inl (HTTPException 409 (''cannot revoke an invitation in status '' @ quoted (InvitationStatus_value st)))
   | Inl _ \<Rightarrow> Inl StoreRefused
   | Inr x \<Rightarrow> Inr x)"

text \<open>\<open>setattr\<close> on a text column; the database refuses a value of another type and \<open>NULL\<close> where the column forbids it. The currency
  has three characters: more are refused unless they are blanks, which are cut off.\<close>

definition text_value :: "json \<Rightarrow> HttpError + string" where
  "text_value v = (case v of JStr s \<Rightarrow> Inr s | _ \<Rightarrow> Inl StoreRefused)"

definition ORGANIZATION_COLUMNS :: "string list" where
  "ORGANIZATION_COLUMNS = [''name'', ''logo_url'', ''timezone'', ''default_currency'', ''default_language'']"

definition set_org_column :: "string \<Rightarrow> json \<Rightarrow> Organization \<Rightarrow> HttpError + Organization" where
  "set_org_column k v r =
     (if k = ''logo_url'' \<and> v = JNull then Inr (r\<lparr>org_logo_url := None\<rparr>)
      else rmap (\<lambda>s. if k = ''name'' then r\<lparr>org_name := s\<rparr>
             else if k = ''logo_url'' then r\<lparr>org_logo_url := Some s\<rparr>
             else if k = ''timezone'' then r\<lparr>org_timezone := s\<rparr>
             else if k = ''default_currency'' then r\<lparr>org_default_currency := take 3 s\<rparr>
             else r\<lparr>org_default_language := s\<rparr>) 
             (rbind (text_value v) (\<lambda>s. if k = ''default_currency'' \<and> \<not> list_all (\<lambda>c. c = CHR '' '') (drop 3 s)
                then Inl StoreRefused else Inr s)))"

fun apply_settings :: "(string \<times> json) list \<Rightarrow> Organization \<times> (string \<times> json) list \<Rightarrow> HttpError + Organization \<times> (string \<times> json) list" where
  "apply_settings [] x = Inr x"
| "apply_settings ((k, v) # kvs) (r, extra) =
     (if k \<in> set ORGANIZATION_COLUMNS then rbind (set_org_column k v r) (\<lambda>r'. apply_settings kvs (r', extra))
      else apply_settings kvs (r, dict_updates extra [(k, v)]))"

text \<open>The column holds an object.\<close>

definition settings_dict :: "json \<Rightarrow> py_error + (string \<times> json) list" where
  "settings_dict j = (case j of JObj ps \<Rightarrow> Inr ps | _ \<Rightarrow> Inl IllTyped)"

definition update_settings ::
  "Organization \<Rightarrow> (string \<times> json) list \<Rightarrow> datetime \<Rightarrow> db \<Rightarrow> HttpError + db \<times> Organization" where
  "update_settings org updates now d =
     rbind (http_py (settings_dict (org_settings org))) (\<lambda>old.
     rmap (\<lambda>(r, extra). let r' = r\<lparr>org_settings := JObj extra, org_updated_at := now\<rparr>
             in (d\<lparr>organizations := db_update (\<lambda>x. org_id x = org_id org) (\<lambda>_. r') (organizations d)\<rparr>, r'))
       (apply_settings updates (org, old)))"

definition get_settings :: "Organization \<Rightarrow> py_error + (string \<times> json) list" where
  "get_settings org = rmap (dict_updates [(''name'', JStr (org_name org)), (''logo_url'', opt_str (org_logo_url org)),
       (''timezone'', JStr (org_timezone org)), (''default_currency'', JStr (org_default_currency org)),
       (''default_language'', JStr (org_default_language org)), (''environment'', JStr (org_environment org))])
     (settings_dict (org_settings org))"

text \<open>The request and the response: pydantic refuses a field that is missing or not a text with a \<open>ValueError\<close>.\<close>

definition settings_updates :: "(string \<times> json) list \<Rightarrow> (string \<times> json) list option \<Rightarrow> (string \<times> json) list" where
  "settings_updates given extra = dict_updates given (case extra of None \<Rightarrow> [] | Some kvs \<Rightarrow> kvs)"

record OrganizationSettingsResponse =
  os_name :: string
  os_logo_url :: "string option"
  os_timezone :: string
  os_default_currency :: string
  os_default_language :: string
  os_settings :: json
  os_environment :: string

definition str_field :: "(string \<times> json) list \<Rightarrow> string \<Rightarrow> py_error + string" where
  "str_field kvs k = (case map_of kvs k of Some (JStr s) \<Rightarrow> Inr s | _ \<Rightarrow> Inl ValueError)"

definition opt_str_field :: "(string \<times> json) list \<Rightarrow> string \<Rightarrow> py_error + string option" where
  "opt_str_field kvs k = (case map_of kvs k of Some (JStr s) \<Rightarrow> Inr (Some s) | Some JNull \<Rightarrow> Inr None | _ \<Rightarrow> Inl ValueError)"

definition settings_response :: "json \<Rightarrow> (string \<times> json) list \<Rightarrow> py_error + OrganizationSettingsResponse" where
  "settings_response settings kvs =
     rbind (str_field kvs ''name'') (\<lambda>nm.
     rbind (opt_str_field kvs ''logo_url'') (\<lambda>logo.
     rbind (str_field kvs ''timezone'') (\<lambda>tz.
     rbind (str_field kvs ''default_currency'') (\<lambda>cur.
     rbind (str_field kvs ''default_language'') (\<lambda>lang.
     rbind (str_field kvs ''environment'') (\<lambda>env.
       Inr \<lparr>os_name = nm, os_logo_url = logo, os_timezone = tz, os_default_currency = cur, os_default_language = lang,
            os_settings = settings, os_environment = env\<rparr>))))))"

definition get_settings_handler :: "Organization \<Rightarrow> HttpError + OrganizationSettingsResponse" where
  "get_settings_handler org = http_py (rbind (get_settings org) (settings_response (org_settings org)))"

definition update_settings_handler ::
  "(string \<times> json) list \<Rightarrow> (string \<times> json) list option \<Rightarrow> Organization \<Rightarrow> datetime \<Rightarrow> db \<Rightarrow> db \<times> (HttpError + OrganizationSettingsResponse)" where
  "update_settings_handler given extra org now d = (case update_settings org (settings_updates given extra) now d of
     Inl e \<Rightarrow> (d, Inl e)
   | Inr (d', r) \<Rightarrow> (d', get_settings_handler r))"

text \<open>\<open>update_organization\<close> of \<^verbatim>\<open>routers/organization_lifecycle.py\<close> builds its response without the environment.\<close>

definition update_organization_handler ::
  "uuid \<Rightarrow> (string \<times> json) list \<Rightarrow> (string \<times> json) list option \<Rightarrow> datetime \<Rightarrow> db \<Rightarrow> db \<times> (HttpError + OrganizationSettingsResponse)" where
  "update_organization_handler oid given extra now d = (case get_organization d oid of
     Inl _ \<Rightarrow> (d, Inl (HTTPException 404 ''organization_not_found''))
   | Inr org \<Rightarrow> (case update_settings org (settings_updates given extra) now d of
       Inl e \<Rightarrow> (d, Inl e)
     | Inr (d', r) \<Rightarrow> (d', http_py (rbind (get_settings r) (\<lambda>kvs.
           settings_response (org_settings r) (filter (\<lambda>kv. fst kv \<noteq> ''environment'') kvs))))))"

definition ensure_owner_bootstrapped ::
  "(string \<Rightarrow> string) \<Rightarrow> string \<Rightarrow> string \<Rightarrow> string \<Rightarrow> uuid \<Rightarrow> uuid \<Rightarrow> datetime \<Rightarrow> db \<Rightarrow> db" where
  "ensure_owner_bootstrapped hash_password nm owner_email secret oid uid now d =
     (if organizations d \<noteq> [] then d
      else d\<lparr>organizations := [new_organization oid nm ''production'' now],
             users := users d @ [new_user uid oid owner_email ''Organisation Owner'' (hash_password secret) ''owner'' True now]\<rparr>)"

section \<open>The operations on accounts\<close>

inductive account_step :: "db \<Rightarrow> db \<Rightarrow> bool" where
  login: "login ord checkpw tm email password sid now d = Inr (d', lr) \<Longrightarrow> account_step d d'"
| logout: "account_step d (logout authorization now d)"
| owner: "setup_owner ord H email password org now d = Inr (d', u) \<Longrightarrow> account_step d d'"
| accept: "accept_invitation_handler C H raw nm password uid now d = (d', r) \<Longrightarrow> account_step d d'"
| add_user: "create_user H email nm rl pw org uid now d = Inr (d', x) \<Longrightarrow> account_step d d'"
| change_role: "update_user_role uid rl org now d = Inr (d', u) \<Longrightarrow> account_step d d'"
| change_status: "update_user_status uid st org now d = Inr (d', u) \<Longrightarrow> account_step d d'"
| add_key: "create_api_key C nm rl secret org kid now d = Inr (d', y) \<Longrightarrow> account_step d d'"
| revoke_key: "revoke_api_key kid org now d = Inr d' \<Longrightarrow> account_step d d'"
| resolve: "resolve_role_for_token C token now d = (d', role) \<Longrightarrow> account_step d d'"
| invite: "invite_member_handler C email rl secret org iid now d = Inr (d', z) \<Longrightarrow> account_step d d'"
| revoke_invite: "revoke_invitation_handler iid org d = Inr (d', i) \<Longrightarrow> account_step d d'"
| settings: "update_settings_handler given extra org now d = (d', s) \<Longrightarrow> account_step d d'"
| platform_settings: "update_organization_handler oid given extra now d = (d', s) \<Longrightarrow> account_step d d'"
| bootstrap: "account_step d (ensure_owner_bootstrapped H nm email secret oid uid now d)"
| organization: "org_step d d' \<Longrightarrow> account_step d d'"

section \<open>Ended credentials\<close>

text \<open>The two credential tables as instances of the lifecycle contract: what a row grants never changes, except that it is
  revoked once.\<close>

type_synonym grant = "uuid \<times> string \<times> datetime option \<times> datetime option"

definition session_grant :: "db \<Rightarrow> uuid \<Rightarrow> grant option" where
  "session_grant d sid = map_option (\<lambda>s. (se_user_id s, [], Some (se_expires_at s), se_revoked_at s)) (get_session_row d sid)"

definition api_key_grant :: "db \<Rightarrow> string \<Rightarrow> grant option" where
  "api_key_grant d h = map_option (\<lambda>k. (ak_organization_id k, ak_role k, None, ak_revoked_at k))
     (db_find (\<lambda>k. ak_key_hash k = h) (api_keys d))"

fun may_revoke :: "grant \<Rightarrow> grant \<Rightarrow> bool" where
  "may_revoke (i, rl, ex, None) g = (\<exists>t. g = (i, rl, ex, Some t))"
| "may_revoke (i, rl, ex, Some t) g = False"

lemma db_find_update_same:
  assumes "\<And>r. P (f r) = P r"
  shows "db_find P (db_update Q f t) = map_option (\<lambda>r. if Q r then f r else r) (db_find P t)"
  using assms by (induction t) auto

lemma org_step_credentials:
  assumes "org_step d d'"
  shows "user_sessions d' = user_sessions d \<and> api_keys d' = api_keys d"
  using assms
proof cases
  case (accept C H raw nm pw uid now res)
  then show ?thesis
    by (auto simp: accept_invitation_def set_invitation_def Let_def split: option.splits if_splits)
qed (auto simp: create_organization_def deactivate_organization_def reactivate_organization_def archive_organization_def invite_member_def
    revoke_invitation_def set_organization_def set_invitation_def get_organization_def Let_def split: option.splits if_splits)

lemma update_user_frame [simp]:
  "user_sessions (update_user uid now f d) = user_sessions d" "api_keys (update_user uid now f d) = api_keys d"
  by (simp_all add: update_user_def)

lemma update_settings_frame:
  "update_settings org kvs now d = Inr (d', r) \<Longrightarrow> user_sessions d' = user_sessions d \<and> api_keys d' = api_keys d"
  by (auto simp: update_settings_def Let_def)

lemma settings_frames:
  "update_settings_handler given extra org now d = (d', s) \<Longrightarrow> user_sessions d' = user_sessions d \<and> api_keys d' = api_keys d"
  "update_organization_handler oid given extra now d = (d', s) \<Longrightarrow> user_sessions d' = user_sessions d \<and> api_keys d' = api_keys d"
  by (auto simp: update_settings_handler_def update_organization_handler_def split: sum.splits dest!: update_settings_frame)

lemma user_frames:
  "setup_owner ord H email password org now d = Inr (d', u) \<Longrightarrow> user_sessions d' = user_sessions d \<and> api_keys d' = api_keys d"
  "change_org_user uid f org now d = Inr (d', u) \<Longrightarrow> user_sessions d' = user_sessions d \<and> api_keys d' = api_keys d"
  "create_user H email nm rl pw org uid now d = Inr (d', x) \<Longrightarrow> user_sessions d' = user_sessions d \<and> api_keys d' = api_keys d"
  by (auto simp: setup_owner_def change_org_user_def create_user_def Let_def)

lemma role_status_frames:
  "update_user_role uid rl org now d = Inr (d', u) \<Longrightarrow> user_sessions d' = user_sessions d \<and> api_keys d' = api_keys d"
  "update_user_status uid st org now d = Inr (d', u) \<Longrightarrow> user_sessions d' = user_sessions d \<and> api_keys d' = api_keys d"
  by (auto simp: update_user_role_def update_user_status_def user_frames(2) split: if_splits)

lemma invitation_frames:
  "invite_member_handler C email rl secret org iid now d = Inr (d', z) \<Longrightarrow> org_step d d' \<or> user_sessions d' = user_sessions d \<and> api_keys d' = api_keys d"
  "revoke_invitation_handler iid org d = Inr (d', i) \<Longrightarrow> org_step d d'"
  by (auto simp: invite_member_handler_def invite_member_def revoke_invitation_handler_def Let_def
      split: sum.splits OrgError.splits option.splits if_splits intro: org_step.revoke)

lemma accept_handler_step:
  "accept_invitation_handler C H raw nm password uid now d = (d', r) \<Longrightarrow> d' = d \<or> org_step d d'"
  by (auto simp: accept_invitation_handler_def split: if_splits prod.splits sum.splits intro: org_step.accept)

text \<open>What a step does to the two tables: insert a row, revoke rows, note a use.\<close>

definition credential_change :: "db \<Rightarrow> db \<Rightarrow> bool" where
  "credential_change d d' =
     ((user_sessions d' = user_sessions d \<or> (\<exists>s. user_sessions d' = user_sessions d @ [s])
        \<or> (\<exists>Q t. user_sessions d' = db_update (\<lambda>s. Q s \<and> se_revoked_at s = None) (\<lambda>s. s\<lparr>se_revoked_at := Some t\<rparr>) (user_sessions d)))
      \<and> (api_keys d' = api_keys d \<or> (\<exists>k. api_keys d' = api_keys d @ [k])
        \<or> (\<exists>Q t. api_keys d' = db_update (\<lambda>k. Q k \<and> ak_revoked_at k = None) (\<lambda>k. k\<lparr>ak_revoked_at := Some t\<rparr>) (api_keys d))
        \<or> (\<exists>Q t. api_keys d' = db_update Q (\<lambda>k. k\<lparr>ak_last_used_at := Some t\<rparr>) (api_keys d))))"

lemma credential_same: "user_sessions d' = user_sessions d \<and> api_keys d' = api_keys d \<Longrightarrow> credential_change d d'"
  by (simp add: credential_change_def)

lemma key_credential_change:
  assumes "user_sessions d' = user_sessions d"
  shows "api_keys d' = api_keys d @ [k] \<Longrightarrow> credential_change d d'"
    and "api_keys d' = db_update (\<lambda>k. Q k \<and> ak_revoked_at k = None) (\<lambda>k. k\<lparr>ak_revoked_at := Some t\<rparr>) (api_keys d) \<Longrightarrow> credential_change d d'"
    and "api_keys d' = db_update Q (\<lambda>k. k\<lparr>ak_last_used_at := Some t\<rparr>) (api_keys d) \<Longrightarrow> credential_change d d'"
  using assms unfolding credential_change_def by blast+

lemma logout_change: "credential_change d (logout authorization now d)"
proof -
  have "credential_change d (revoke_session sid now d)" for sid
    unfolding credential_change_def revoke_session_def by (auto split: option.splits)
  then show ?thesis by (auto simp: logout_def revoke_session_for_token_def credential_same split: option.splits)
qed

lemma touch_change: "resolve_role_for_token C token now d = (d', rl) \<Longrightarrow> credential_change d d'"
  unfolding resolve_role_for_token_def resolve_role_for_api_key_def touch_api_key_def
  by (auto split: option.splits if_splits intro: credential_same key_credential_change(3))

lemma key_changes:
  "create_api_key C nm rl secret org kid now d = Inr (d', y) \<Longrightarrow> credential_change d d'"
  "revoke_api_key kid org now d = Inr d' \<Longrightarrow> credential_change d d'"
  unfolding create_api_key_def generate_api_key_def revoke_api_key_def
  by (auto simp: Let_def split: option.splits if_splits intro: credential_same key_credential_change(1,2))

lemma login_change: "login ord checkpw tm email password sid now d = Inr (d', lr) \<Longrightarrow> credential_change d d'"
  by (auto simp: login_def create_session_def credential_change_def Let_def)

lemma account_step_change: "account_step d d' \<Longrightarrow> credential_change d d'"
proof (induction rule: account_step.induct)
  case login then show ?case by (rule login_change)
next
  case logout show ?case by (rule logout_change)
next
  case owner then show ?case by (rule credential_same [OF user_frames(1)])
next
  case (accept C H raw nm password uid now d d' r)
  from accept_handler_step [OF this] show ?case using credential_same org_step_credentials by blast
next
  case add_user then show ?case by (rule credential_same [OF user_frames(3)])
next
  case change_role then show ?case by (rule credential_same [OF role_status_frames(1)])
next
  case change_status then show ?case by (rule credential_same [OF role_status_frames(2)])
next
  case add_key then show ?case by (rule key_changes(1))
next
  case revoke_key then show ?case by (rule key_changes(2))
next
  case resolve then show ?case by (rule touch_change)
next
  case (invite C email rl secret org iid now d d' z)
  from invitation_frames(1) [OF this] show ?case using credential_same org_step_credentials by blast
next
  case revoke_invite then show ?case by (rule credential_same [OF org_step_credentials [OF invitation_frames(2)]])
next
  case settings then show ?case by (rule credential_same [OF settings_frames(1)])
next
  case platform_settings then show ?case by (rule credential_same [OF settings_frames(2)])
next
  case bootstrap show ?case by (simp add: credential_same ensure_owner_bootstrapped_def)
next
  case organization then show ?case by (rule credential_same [OF org_step_credentials])
qed

lemma session_step:
  assumes "credential_change d d'" and "session_grant d sid = Some g"
  shows "\<exists>g'. session_grant d' sid = Some g' \<and> (g' = g \<or> may_revoke g g')"
proof -
  obtain s where s: "get_session_row d sid = Some s" and g: "g = (se_user_id s, [], Some (se_expires_at s), se_revoked_at s)"
    using assms(2) by (auto simp: session_grant_def)
  consider "user_sessions d' = user_sessions d" | x where "user_sessions d' = user_sessions d @ [x]"
    | Q t where "user_sessions d' = db_update (\<lambda>s. Q s \<and> se_revoked_at s = None) (\<lambda>s. s\<lparr>se_revoked_at := Some t\<rparr>) (user_sessions d)"
    using assms(1) by (auto simp: credential_change_def)
  then show ?thesis
  proof cases
    case 3
    then have "get_session_row d' sid = Some (if Q s \<and> se_revoked_at s = None then s\<lparr>se_revoked_at := Some t\<rparr> else s)"
      using s by (simp add: get_session_row_def db_find_update_same)
    then show ?thesis by (auto simp: session_grant_def g)
  qed (use s in \<open>auto simp: session_grant_def get_session_row_def g db_find_insert\<close>)
qed

lemma api_key_step:
  assumes "credential_change d d'" and "api_key_grant d h = Some g"
  shows "\<exists>g'. api_key_grant d' h = Some g' \<and> (g' = g \<or> may_revoke g g')"
proof -
  let ?P = "\<lambda>k. ak_key_hash k = h"
  obtain k where k: "db_find ?P (api_keys d) = Some k" and g: "g = (ak_organization_id k, ak_role k, None, ak_revoked_at k)"
    using assms(2) by (auto simp: api_key_grant_def)
  consider "api_keys d' = api_keys d" | x where "api_keys d' = api_keys d @ [x]"
    | Q t where "api_keys d' = db_update (\<lambda>k. Q k \<and> ak_revoked_at k = None) (\<lambda>k. k\<lparr>ak_revoked_at := Some t\<rparr>) (api_keys d)"
    | Q t where "api_keys d' = db_update Q (\<lambda>k. k\<lparr>ak_last_used_at := Some t\<rparr>) (api_keys d)"
    using assms(1) by (auto simp: credential_change_def)
  then show ?thesis
  proof cases
    case 3
    then have "db_find ?P (api_keys d') = Some (if Q k \<and> ak_revoked_at k = None then k\<lparr>ak_revoked_at := Some t\<rparr> else k)"
      using k by (simp add: db_find_update_same)
    then show ?thesis by (auto simp: api_key_grant_def g)
  next
    case 4
    then have "db_find ?P (api_keys d') = Some (if Q k then k\<lparr>ak_last_used_at := Some t\<rparr> else k)"
      using k by (simp add: db_find_update_same)
    then show ?thesis by (auto simp: api_key_grant_def g)
  qed (use k in \<open>auto simp: api_key_grant_def g db_find_insert\<close>)
qed

interpretation session_grants: lifecycle session_grant account_step may_revoke
  by unfold_locales (rule session_step [OF account_step_change])

interpretation api_key_grants: lifecycle api_key_grant account_step may_revoke
  by unfold_locales (rule api_key_step [OF account_step_change])

lemma revoked_path: "may_revoke\<^sup>*\<^sup>* (i, rl, ex, Some t) g \<Longrightarrow> g = (i, rl, ex, Some t)"
  by (induction rule: rtranclp_induct) auto

lemma granted_path:
  assumes "may_revoke\<^sup>*\<^sup>* g g'" and "g = (i, rl, ex, r)"
  shows "\<exists>r'. g' = (i, rl, ex, r')"
  using assms(1)
proof (induction rule: rtranclp_induct)
  case (step y z)
  then obtain r' where "y = (i, rl, ex, r')" by blast
  with step.hyps(2) show ?case by (cases r') auto
qed (simp add: assms(2))

lemma revoked_session_final:
  assumes "account_step\<^sup>*\<^sup>* d d'" and "get_session_row d sid = Some s" and "parse_uuid token = Some sid"
    and "se_revoked_at s \<noteq> None \<or> se_expires_at s \<le> now" and "now \<le> t"
  shows "resolve_user_for_session_token d' token t = None"
proof -
  have g: "session_grant d sid = Some (se_user_id s, [], Some (se_expires_at s), se_revoked_at s)" by (simp add: session_grant_def assms(2))
  obtain g' where g': "session_grant d' sid = Some g'" "may_revoke\<^sup>*\<^sup>* (se_user_id s, [], Some (se_expires_at s), se_revoked_at s) g'"
    using session_grants.run_status [OF assms(1) g] by blast
  obtain s' where s': "get_session_row d' sid = Some s'" "g' = (se_user_id s', [], Some (se_expires_at s'), se_revoked_at s')"
    using g'(1) by (auto simp: session_grant_def)
  have "se_expires_at s' = se_expires_at s" using granted_path [OF g'(2) refl] s'(2) by auto
  moreover have "se_revoked_at s' \<noteq> None" if "se_revoked_at s \<noteq> None"
  proof -
    from \<open>se_revoked_at s \<noteq> None\<close> obtain r where "se_revoked_at s = Some r" by auto
    have "may_revoke\<^sup>*\<^sup>* (se_user_id s, [], Some (se_expires_at s), Some r) g'" using g'(2) \<open>se_revoked_at s = Some r\<close> by simp
    from revoked_path [OF this] s'(2) show ?thesis by simp
  qed
  ultimately show ?thesis using assms(3,4,5) s'(1) by (auto simp: resolve_user_for_session_token_def)
qed

lemma revoked_key_final:
  assumes "account_step\<^sup>*\<^sup>* d d'" and "api_key_of_token C d token = Some k" and "ak_revoked_at k \<noteq> None"
  shows "\<exists>k'. api_key_of_token C d' token = Some k' \<and> ak_revoked_at k' \<noteq> None"
proof -
  let ?h = "hash_api_key C token"
  obtain r where r: "ak_revoked_at k = Some r" using assms(3) by blast
  have g: "api_key_grant d ?h = Some (ak_organization_id k, ak_role k, None, Some r)"
    using assms(2) r by (simp add: api_key_grant_def api_key_of_token_def)
  obtain g' where g': "api_key_grant d' ?h = Some g'" "may_revoke\<^sup>*\<^sup>* (ak_organization_id k, ak_role k, None, Some r) g'"
    using api_key_grants.run_status [OF assms(1) g] by blast
  with revoked_path [OF g'(2)] show ?thesis by (auto simp: api_key_grant_def api_key_of_token_def)
qed

section \<open>What goes wrong\<close>

text \<open>The settings blob is laid over the columns: a member of a sandbox who may manage it sets an \<open>environment\<close> of his own,
  which the API then reports, though the sandbox limits keep reading the column.\<close>

definition sandbox_org :: Organization where
  "sandbox_org = new_organization ''o1'' ''Trial'' ''sandbox'' 0"

theorem sandbox_reports_production:
  "\<exists>d' s. update_settings_handler [] (Some [(''environment'', JStr ''production'')]) sandbox_org 5 (empty_db\<lparr>organizations := [sandbox_org]\<rparr>)
       = (d', Inr s)
     \<and> os_environment s = ''production'' \<and> map org_environment (organizations d') = [''sandbox'']"
  by (simp add: update_settings_handler_def update_settings_def settings_updates_def sandbox_org_def new_organization_def settings_dict_def
      dict_updates_def ORGANIZATION_COLUMNS_def Let_def get_settings_handler_def get_settings_def settings_response_def str_field_def
      opt_str_field_def opt_str_def)

text \<open>The platform's own update of an organization commits and then fails to build its response.\<close>

theorem platform_update_always_fails:
  "\<exists>e. snd (update_organization_handler oid given extra now d) = Inl e"
proof -
  have incomplete: "settings_response j (filter (\<lambda>kv. fst kv \<noteq> ''environment'') kvs) \<noteq> Inr r" for j kvs r
  proof -
    have "map_of (filter (\<lambda>kv. fst kv \<noteq> ''environment'') kvs) ''environment'' = None" by (auto simp: map_of_eq_None_iff)
    then show ?thesis by (simp add: settings_response_def str_field_def)
  qed
  then have "snd (update_organization_handler oid given extra now d) \<noteq> Inr x" for x
    by (auto simp: update_organization_handler_def split: sum.splits prod.splits)
  then show ?thesis by (cases "snd (update_organization_handler oid given extra now d)") auto
qed

text \<open>A timeout that is no number ends every login of the organization with a 500.\<close>

theorem timeout_text_ends_logins:
  assumes "authenticate ord checkpw email password d = Inr (Some u)" and "get_organization_row d (us_organization_id u) = Some r"
    and "org_settings r = JObj [(''session_timeout_minutes'', JStr s)]"
  shows "login ord checkpw tm email password sid now d = Inl (Unhandled TypeError)"
  using assms by (simp add: login_def create_session_def session_timeout_minutes_def py_get_or_def minutes_delta_def)

text \<open>E-mails are unique within an organization; a login looks for the e-mail alone. Of two users of two organizations with
  the same e-mail, one never gets in, whatever the password and whatever the order of the rows.\<close>

theorem same_email_locked_out:
  assumes "us_email u1 = email" and "us_email u2 = email" and "u1 \<noteq> u2"
  shows "\<exists>u \<in> {u1, u2}. \<forall>checkpw password. authenticate ord checkpw email password d \<noteq> Inr (Some u)"
proof (rule ccontr)
  assume "\<not> ?thesis"
  then obtain c1 p1 c2 p2 where "authenticate ord c1 email p1 d = Inr (Some u1)" "authenticate ord c2 email p2 d = Inr (Some u2)" by blast
  then have "user_by_email ord d email = Some u1" "user_by_email ord d email = Some u2"
    by (auto simp: authenticate_def split: option.splits if_splits)
  with assms(3) show False by simp
qed

end
