(* ===== verification/Access_Control.thy ===== *)
theory Access_Control
  imports Auth_Service Authority_Server Attested_Submission
begin

text \<open>
  Who gets in: \<^verbatim>\<open>server/app/security.py\<close> (operator key, rate limit, middleware),
  \<^verbatim>\<open>server/app/dependencies.py\<close> (the guards of the routes), and the handlers of
  \<^verbatim>\<open>routers/intents.py\<close> and \<^verbatim>\<open>routers/integration_runtime.py\<close> that submit and resolve, each composed
  with its guards in the order in which FastAPI runs them: the guards of the route decorator first, then those of
  the parameters from left to right.

  Reading a request body is pydantic's: \<open>parse\<close> is a parameter from the raw text to the request. Header texts are
  decoded as Latin-1, one character per byte. The clock of the rate limit is an integer; \<open>deque\<close>s are lists.
\<close>

section \<open>security.py\<close>

text \<open>\<^verbatim>\<open>hmac.compare_digest\<close> compares two texts of ASCII characters.\<close>

definition is_ascii :: "string \<Rightarrow> bool" where
  "is_ascii s = list_all (\<lambda>c. (of_char c :: nat) < 128) s"

definition compare_digest :: "string \<Rightarrow> string \<Rightarrow> HttpError + bool" where
  "compare_digest a b = (if is_ascii a \<and> is_ascii b then Inr (a = b) else Inl (Unhandled TypeError))"

definition verify_operator_key :: "string \<Rightarrow> string \<Rightarrow> HttpError + unit" where
  "verify_operator_key admin_api_key given =
     rbind (raise_if (admin_api_key = []) (HTTPException 503 ''operator_auth_not_configured'')) (\<lambda>_.
     rbind (compare_digest given admin_api_key) (\<lambda>same.
       raise_if (\<not> same) (HTTPException 401 ''invalid_operator_key'')))"

definition client_key :: "string option \<Rightarrow> string option \<Rightarrow> string" where
  "client_key forwarded host = (case forwarded of
     Some f \<Rightarrow> if f \<noteq> [] then py_strip (hd (split_on CHR '','' f)) else (case host of Some h \<Rightarrow> h | None \<Rightarrow> ''unknown'')
   | None \<Rightarrow> (case host of Some h \<Rightarrow> h | None \<Rightarrow> ''unknown''))"

type_synonym log_store = "string \<Rightarrow> int list"

fun drop_old :: "int \<Rightarrow> int \<Rightarrow> int list \<Rightarrow> int list" where
  "drop_old now window [] = []"
| "drop_old now window (t # ts) = (if now - t > window then drop_old now window ts else t # ts)"

definition check_rate_limit :: "string \<Rightarrow> int \<Rightarrow> nat \<Rightarrow> int \<Rightarrow> log_store \<Rightarrow> bool \<times> log_store" where
  "check_rate_limit key window_seconds max_requests now store =
     (let ts = drop_old now window_seconds (store key)
      in if length ts \<ge> max_requests then (False, store(key := ts)) else (True, store(key := ts @ [now])))"

record Request =
  rq_forwarded :: "string option"
  rq_host :: "string option"
  rq_request_id :: "string option"

record Response =
  rs_status :: int
  rs_detail :: string
  rs_headers :: "(string \<times> string) list"

definition RATE_LIMIT_WINDOW_SECONDS :: int where "RATE_LIMIT_WINDOW_SECONDS = 60"

definition RATE_LIMIT_MAX_REQUESTS :: nat where "RATE_LIMIT_MAX_REQUESTS = 120"

text \<open>\<open>call_next\<close> answers with a response or an exception that no handler below caught; \<open>second\<close> is a second on the clock.\<close>

definition security_headers :: "string \<Rightarrow> string \<Rightarrow> (string \<times> string) list" where
  "security_headers environment request_id =
     [(''X-Request-ID'', request_id), (''X-Content-Type-Options'', ''nosniff''), (''X-Frame-Options'', ''DENY''),
      (''Referrer-Policy'', ''no-referrer''), (''Permissions-Policy'', ''geolocation=(), microphone=(), camera=()'')]
     @ (if environment = ''production'' then [(''Strict-Transport-Security'', ''max-age=63072000; includeSubDomains'')] else [])"

definition observability_middleware ::
  "string \<Rightarrow> int \<Rightarrow> string \<Rightarrow> (Request \<Rightarrow> 's \<Rightarrow> 's \<times> ('e + Response)) \<Rightarrow> Request \<Rightarrow> int \<Rightarrow> log_store \<Rightarrow> 's \<Rightarrow> log_store \<times> 's \<times> Response" where
  "observability_middleware environment second fresh_id call_next r now store s =
     (case check_rate_limit (client_key (rq_forwarded r) (rq_host r)) (RATE_LIMIT_WINDOW_SECONDS * second) RATE_LIMIT_MAX_REQUESTS now store of
        (False, store') \<Rightarrow> (store', s, \<lparr>rs_status = 429, rs_detail = ''rate_limit_exceeded'', rs_headers = []\<rparr>)
      | (True, store') \<Rightarrow>
          (let request_id = (case rq_request_id r of Some i \<Rightarrow> if i = [] then fresh_id else i | None \<Rightarrow> fresh_id);
               (s', result) = call_next r s;
               response = (case result of Inr x \<Rightarrow> x
                 | Inl _ \<Rightarrow> \<lparr>rs_status = 500, rs_detail = ''internal_error'', rs_headers = []\<rparr>)
           in (store', s', response\<lparr>rs_headers := foldl (\<lambda>a kv. AList.update (fst kv) (snd kv) a) (rs_headers response)
                 (security_headers environment request_id)\<rparr>)))"

section \<open>dependencies.py\<close>

record Headers =
  hd_operator_key :: "string option"
  hd_organization_id :: "string option"
  hd_authorization :: "string option"

definition verify_agent_signature :: "crypto \<Rightarrow> string \<Rightarrow> string \<Rightarrow> string \<Rightarrow> db \<Rightarrow> HttpError + Agent" where
  "verify_agent_signature C body key_id signature d =
     rbind (get_or_raise (parse_uuid key_id) (HTTPException 401 ''invalid_key_id'')) (\<lambda>cid.
     rbind (get_or_raise (get_active_certificate d cid) (HTTPException 401 ''unknown_or_inactive_certificate'')) (\<lambda>c.
     rbind (raise_if (\<not> verify_request_signature C body signature (ct_public_key c)) (HTTPException 401 ''invalid_signature'')) (\<lambda>_.
       get_or_raise (get_agent_row d (ct_agent_id c)) (HTTPException 401 ''agent_not_found''))))"

definition verify_integration_identity_signature :: "crypto \<Rightarrow> string \<Rightarrow> string \<Rightarrow> string \<Rightarrow> db \<Rightarrow> HttpError + IntegrationIdentity" where
  "verify_integration_identity_signature C body key_id signature d =
     rbind (get_or_raise (parse_uuid key_id) (HTTPException 401 ''invalid_key_id'')) (\<lambda>cid.
     rbind (get_or_raise (get_active_identity_certificate d cid) (HTTPException 401 ''unknown_or_inactive_certificate'')) (\<lambda>c.
     rbind (raise_if (\<not> verify_request_signature C body signature (ic_public_key c)) (HTTPException 401 ''invalid_signature'')) (\<lambda>_.
       get_or_raise (db_find (\<lambda>i. ii_id i = ic_integration_identity_id c) (integration_identities d))
         (HTTPException 401 ''integration_identity_not_found''))))"

definition require_permission ::
  "crypto \<Rightarrow> string \<Rightarrow> Permission \<Rightarrow> Headers \<Rightarrow> datetime \<Rightarrow> db \<Rightarrow> db \<times> (HttpError + unit)" where
  "require_permission C admin_api_key permission h now d = (case hd_operator_key h of
     Some given \<Rightarrow> (d, verify_operator_key admin_api_key given)
   | None \<Rightarrow> (case bearer_token (hd_authorization h) of
       None \<Rightarrow> (d, Inl (HTTPException 401 ''authentication_required''))
     | Some token \<Rightarrow> (case resolve_role_for_token C token now d of
         (d', None) \<Rightarrow> (d', Inl (HTTPException 401 ''invalid_or_expired_credential''))
       | (d', Some rl) \<Rightarrow> (d', raise_if (\<not> has_permission rl permission) (HTTPException 403 ''permission_denied'')))))"

definition get_current_user_if_session :: "Headers \<Rightarrow> datetime \<Rightarrow> db \<Rightarrow> User option" where
  "get_current_user_if_session h now d =
     Option.bind (bearer_token (hd_authorization h)) (\<lambda>token. resolve_user_for_session_token d token now)"

definition get_current_user :: "Headers \<Rightarrow> datetime \<Rightarrow> db \<Rightarrow> HttpError + User" where
  "get_current_user h now d =
     rbind (get_or_raise (bearer_token (hd_authorization h)) (HTTPException 401 ''authentication_required'')) (\<lambda>token.
       get_or_raise (resolve_user_for_session_token d token now) (HTTPException 401 ''invalid_or_expired_session''))"

definition ensure_active_or_403 :: "Organization \<Rightarrow> HttpError + Organization" where
  "ensure_active_or_403 r = (case ensure_active r of
     Inl _ \<Rightarrow> Inl (HTTPException 403 ''organization_not_active'') | Inr x \<Rightarrow> Inr x)"

definition get_current_organization :: "crypto \<Rightarrow> string \<Rightarrow> Headers \<Rightarrow> datetime \<Rightarrow> db \<Rightarrow> HttpError + Organization" where
  "get_current_organization C admin_api_key h now d = (case hd_operator_key h of
     Some given \<Rightarrow>
       rbind (if admin_api_key = [] then Inr False else compare_digest given admin_api_key) (\<lambda>same.
       rbind (raise_if (\<not> same) (HTTPException 401 ''invalid_operator_key'')) (\<lambda>_.
       rbind (get_or_raise (hd_organization_id h) (HTTPException 400 ''organization_id_required_for_operator_key'')) (\<lambda>text.
       rbind (get_or_raise (parse_uuid text) (HTTPException 400 ''invalid_organization_id'')) (\<lambda>oid.
       rbind (get_or_raise (get_organization_row d oid) (HTTPException 404 ''organization_not_found'')) ensure_active_or_403))))
   | None \<Rightarrow>
       rbind (get_or_raise (bearer_token (hd_authorization h)) (HTTPException 401 ''authentication_required'')) (\<lambda>token.
       rbind (get_or_raise (resolve_organization_id_for_token C d token now) (HTTPException 401 ''invalid_or_expired_credential'')) (\<lambda>oid.
       rbind (get_or_raise (get_organization_row d oid) (HTTPException 404 ''organization_not_found'')) ensure_active_or_403)))"

text \<open>A route with a permission that acts for the caller's organization. The handler answers, or raises and leaves the
  state to the rollback.\<close>

definition guarded ::
  "crypto \<Rightarrow> string \<Rightarrow> Permission \<Rightarrow> Headers \<Rightarrow> datetime \<Rightarrow> (Organization \<Rightarrow> db \<Rightarrow> db \<times> (HttpError + 'a)) \<Rightarrow> db \<Rightarrow> db \<times> (HttpError + 'a)" where
  "guarded C admin_api_key permission h now handler d = (case require_permission C admin_api_key permission h now d of
     (d1, Inl e) \<Rightarrow> (d1, Inl e)
   | (d1, Inr _) \<Rightarrow> (case get_current_organization C admin_api_key h now d1 of
       Inl e \<Rightarrow> (d1, Inl e)
     | Inr org \<Rightarrow> handler org d1))"

section \<open>routers/intents.py\<close>

record SubmitIntentRequest =
  sq_agent_id :: uuid
  sq_action :: string
  sq_resource :: "string option"
  sq_amount :: "amount option"
  sq_currency :: "string option"
  sq_counterparty :: "string option"
  sq_context :: "(string \<times> json) list"
  sq_requested_at :: datetime
  sq_has_timezone :: bool
  sq_nonce :: string
  sq_correlation_id :: "string option"
  sq_source :: "string option"

record SubmitIntentResponse =
  sp_intent_id :: uuid
  sp_outcome :: Outcome
  sp_decision_id :: uuid
  sp_evaluated_mandates :: json
  sp_evaluated_mandate_ids :: json
  sp_enterprise_system_id :: "uuid option"
  sp_enterprise_system_name :: "string option"
  sp_reason :: "string option"
  sp_evidence_id :: uuid
  sp_pending :: bool
  sp_correlation_id :: "string option"

definition enterprise_system_name :: "db \<Rightarrow> uuid option \<Rightarrow> string option" where
  "enterprise_system_name d i = Option.bind i (\<lambda>i. map_option es_name (db_find (\<lambda>s. es_id s = i) (enterprise_systems d)))"

definition submit_response :: "db \<Rightarrow> Intent \<Rightarrow> Decision \<Rightarrow> Evidence \<Rightarrow> bool \<Rightarrow> SubmitIntentResponse" where
  "submit_response d it de ev pending = \<lparr>sp_intent_id = it_id it, sp_outcome = de_outcome de, sp_decision_id = de_id de,
     sp_evaluated_mandates = py_or (de_evaluated_mandates de) (JList []),
     sp_evaluated_mandate_ids = py_or (de_evaluated_mandate_ids de) (JList []),
     sp_enterprise_system_id = de_enterprise_system_id de,
     sp_enterprise_system_name = enterprise_system_name d (de_enterprise_system_id de), sp_reason = de_reason de,
     sp_evidence_id = ev_id ev, sp_pending = pending, sp_correlation_id = it_correlation_id it\<rparr>"

definition submit_refusal :: "IntentError \<Rightarrow> HttpError" where
  "submit_refusal e = (case e of
     AgentRevokedError _ \<Rightarrow> HTTPException 403 ''agent_revoked''
   | AgentRetiredError _ \<Rightarrow> HTTPException 403 ''agent_retired''
   | AgentNotOperationalError _ \<Rightarrow> HTTPException 403 ''agent_not_operational''
   | IntentOrganizationNotActiveError _ \<Rightarrow> HTTPException 403 ''organization_not_active''
   | ReplayDetectedError _ _ \<Rightarrow> HTTPException 409 ''replay_detected''
   | EngineRaised p \<Rightarrow> Unhandled p
   | _ \<Rightarrow> StoreRefused)"

text \<open>\<open>window\<close> is the setting \<^verbatim>\<open>intent_signature_window_seconds\<close>.\<close>

definition check_window :: "int \<Rightarrow> datetime \<Rightarrow> bool \<Rightarrow> datetime \<Rightarrow> HttpError + unit" where
  "check_window window requested_at has_timezone now =
     (case check_timestamp_window (if has_timezone then Some requested_at else None) window now of
        (True, _) \<Rightarrow> Inr ()
      | (False, why) \<Rightarrow> Inl (HTTPException 401 (case why of Some w \<Rightarrow> w | None \<Rightarrow> [])))"

definition submit_intent_handler ::
  "int \<Rightarrow> Env \<Rightarrow> IntentIds \<Rightarrow> SubmitIntentRequest \<Rightarrow> Agent \<Rightarrow> datetime \<Rightarrow> db \<Rightarrow> HttpError + db \<times> SubmitIntentResponse" where
  "submit_intent_handler window E ids body a now d =
     rbind (raise_if (sq_agent_id body \<noteq> ag_id a) (HTTPException 401 ''agent_id_does_not_match_signing_key'')) (\<lambda>_.
     rbind (check_window window (sq_requested_at body) (sq_has_timezone body) now) (\<lambda>_.
     rmap (\<lambda>(d', it, de, ev). (d', submit_response d' it de ev (de_outcome de = OutHumanReview)))
       (rlift submit_refusal (submit_intent E ids a (sq_action body) (sq_amount body) (sq_currency body) (sq_counterparty body)
          (sq_context body) (sq_requested_at body) (sq_nonce body) (sq_correlation_id body) (sq_resource body) (sq_source body) now d))))"

definition unprocessable :: HttpError where "unprocessable = HTTPException 422 ''unprocessable''"

definition post_intent ::
  "int \<Rightarrow> (string \<Rightarrow> SubmitIntentRequest option) \<Rightarrow> Env \<Rightarrow> IntentIds \<Rightarrow> string \<Rightarrow> string \<Rightarrow> string \<Rightarrow> datetime \<Rightarrow> db
     \<Rightarrow> HttpError + db \<times> SubmitIntentResponse" where
  "post_intent window parse E ids body key_id signature now d =
     rbind (verify_agent_signature (env_crypto E) body key_id signature d) (\<lambda>a.
     rbind (get_or_raise (parse body) unprocessable) (\<lambda>request. submit_intent_handler window E ids request a now d))"

section \<open>The adapter path\<close>

record AttestedIntentRequest =
  at_integration_identity_id :: uuid
  at_has_timezone :: bool
  at_request :: AttestedRequest

definition attested_refusal :: "AttestedError \<Rightarrow> HttpError" where
  "attested_refusal e = (case e of
     IntegrationRejectionError why \<Rightarrow> HTTPException 422 (''integration_rejection:'' @ why)
   | AdapterReplayDetectedError _ _ \<Rightarrow> HTTPException 409 ''replay_detected''
   | ExternalOperationConflictError _ \<Rightarrow> HTTPException 409 ''external_operation_conflict''
   | AttestedEvaluation (EngineRaised p) \<Rightarrow> Unhandled p
   | AttestedEvaluation _ \<Rightarrow> StoreRefused
   | _ \<Rightarrow> Unhandled ValueError)"

definition submit_attested_handler ::
  "int \<Rightarrow> Env \<Rightarrow> IntentIds \<Rightarrow> AttestedIntentRequest \<Rightarrow> IntegrationIdentity \<Rightarrow> datetime \<Rightarrow> db \<Rightarrow> db \<Rightarrow> HttpError + db \<times> SubmitIntentResponse" where
  "submit_attested_handler window E ids body ident now seen d =
     rbind (raise_if (at_integration_identity_id body \<noteq> ii_id ident)
         (HTTPException 401 ''integration_identity_id_does_not_match_signing_key'')) (\<lambda>_.
     rbind (check_window window (ar_requested_at (at_request body)) (at_has_timezone body) now) (\<lambda>_.
     rbind (rlift attested_refusal (submit_attested_intent E ids ident (at_request body) now seen d)) (\<lambda>(d', it, de, found).
     rbind (get_or_raise found (Unhandled AttributeError)) (\<lambda>ev.
       Inr (d', submit_response d' it de ev (de_outcome de = OutHumanReview \<and> resolution_of d' (de_id de) = None))))))"

definition post_attested_intent ::
  "int \<Rightarrow> (string \<Rightarrow> AttestedIntentRequest option) \<Rightarrow> Env \<Rightarrow> IntentIds \<Rightarrow> string \<Rightarrow> string \<Rightarrow> string \<Rightarrow> datetime \<Rightarrow> db \<Rightarrow> db
     \<Rightarrow> HttpError + db \<times> SubmitIntentResponse" where
  "post_attested_intent window parse E ids body key_id signature now seen d =
     rbind (verify_integration_identity_signature (env_crypto E) body key_id signature seen) (\<lambda>ident.
     rbind (get_or_raise (parse body) unprocessable) (\<lambda>request. submit_attested_handler window E ids request ident now seen d))"

section \<open>Resolving a review\<close>

definition resolve_refusal :: "ResolutionError \<Rightarrow> HttpError" where
  "resolve_refusal e = (case e of
     ResolutionDecisionNotFoundError _ \<Rightarrow> HTTPException 404 ''decision_not_found''
   | DecisionNotHumanReviewError out \<Rightarrow> HTTPException 409 (''decision_not_human_review:'' @ Outcome_value out)
   | DecisionAlreadyResolvedError _ \<Rightarrow> HTTPException 409 ''decision_already_resolved''
   | ResolutionRaised p \<Rightarrow> Unhandled p
   | ResolutionEvidenceRaised _ \<Rightarrow> StoreRefused)"

definition resolution_named :: "string \<Rightarrow> Resolution option" where
  "resolution_named s = (if s = ''approved'' then Some ResApproved else if s = ''denied'' then Some ResDenied else None)"

definition resolve_decision_handler ::
  "Env \<Rightarrow> (int \<Rightarrow> amount) \<Rightarrow> uuid \<Rightarrow> uuid \<Rightarrow> uuid \<Rightarrow> string \<Rightarrow> string \<Rightarrow> string option \<Rightarrow> User option \<Rightarrow> datetime \<Rightarrow> Organization \<Rightarrow> db
     \<Rightarrow> db \<times> (HttpError + DecisionResolution)" where
  "resolve_decision_handler E round_float rid eid did resolution resolved_by why session_user now org d =
     (case rbind (get_or_raise (resolution_named resolution) (HTTPException 422 ''invalid_resolution'')) (\<lambda>res.
         rlift resolve_refusal (resolve_decision E round_float rid eid did (Some (org_id org)) res resolved_by why
           (map_option us_id session_user) now d)) of
        Inl e \<Rightarrow> (d, Inl e)
      | Inr (d', row) \<Rightarrow> (d', Inr row))"

definition post_resolve ::
  "Env \<Rightarrow> (int \<Rightarrow> amount) \<Rightarrow> string \<Rightarrow> Headers \<Rightarrow> uuid \<Rightarrow> uuid \<Rightarrow> uuid \<Rightarrow> string \<Rightarrow> string \<Rightarrow> string option \<Rightarrow> datetime \<Rightarrow> db
     \<Rightarrow> db \<times> (HttpError + DecisionResolution)" where
  "post_resolve E round_float admin_api_key h rid eid did resolution resolved_by why now =
     guarded (env_crypto E) admin_api_key DECISIONS_RESOLVE h now (\<lambda>org d.
       resolve_decision_handler E round_float rid eid did resolution resolved_by why (get_current_user_if_session h now d) now org d)"

end
