(* ===== verification/Access_Truth.thy ===== *)
theory Access_Truth
  imports Access_Control
begin

text \<open>
  What the guards promise: which callers reach a handler and on whose behalf, what a signed submission was signed by
  and that it is accepted once, that an ended session or API key never comes back, and what the rate limit admits.
\<close>

section \<open>Guarded routes\<close>

text \<open>The callers a route admits for an organization: the operator, who names it; a live session of an active user whose
  role has the permission; an API key that is not revoked and whose role has it. The use of the key is recorded.\<close>

definition admitted :: "crypto \<Rightarrow> string \<Rightarrow> Permission \<Rightarrow> Headers \<Rightarrow> datetime \<Rightarrow> db \<Rightarrow> Organization \<Rightarrow> db \<Rightarrow> bool" where
  "admitted C admin_api_key perm h now d org d1 \<longleftrightarrow> org_status org = OrgActive \<and> (case hd_operator_key h of
     Some given \<Rightarrow> given = admin_api_key \<and> admin_api_key \<noteq> [] \<and> is_ascii admin_api_key \<and> d1 = d
       \<and> (\<exists>text oid. hd_organization_id h = Some text \<and> parse_uuid text = Some oid \<and> get_organization_row d oid = Some org)
   | None \<Rightarrow> (\<exists>token rl. bearer_token (hd_authorization h) = Some token \<and> has_permission rl perm
       \<and> ((\<exists>sid s u. parse_uuid token = Some sid \<and> get_session_row d sid = Some s \<and> se_revoked_at s = None \<and> now < se_expires_at s
              \<and> get_user_row d (se_user_id s) = Some u \<and> us_status u = UserActive \<and> Role_of (us_role u) = Some rl
              \<and> get_organization_row d (us_organization_id u) = Some org \<and> d1 = d)
          \<or> (resolve_user_for_session_token d token now = None
              \<and> (\<exists>k. api_key_of_token C d token = Some k \<and> ak_revoked_at k = None \<and> Role_of (ak_role k) = Some rl
                   \<and> get_organization_row d (ak_organization_id k) = Some org \<and> d1 = touch_api_key (ak_id k) now d)))))"

lemma resolve_user_iff:
  "resolve_user_for_session_token d token now = Some u \<longleftrightarrow> (\<exists>sid s. parse_uuid token = Some sid \<and> get_session_row d sid = Some s
     \<and> se_revoked_at s = None \<and> now < se_expires_at s \<and> get_user_row d (se_user_id s) = Some u \<and> us_status u = UserActive)"
  by (fastforce simp: resolve_user_for_session_token_def bind_eq_Some_conv split: if_splits)

lemma touch_frame [simp]:
  "resolve_user_for_session_token (touch_api_key kid now d) = resolve_user_for_session_token d"
  "get_organization_row (touch_api_key kid now d) = get_organization_row d"
  by (simp_all add: fun_eq_iff touch_api_key_def resolve_user_for_session_token_def get_session_row_def get_user_row_def get_organization_row_def
      cong: if_cong)

lemma touched_key:
  "api_key_of_token C (touch_api_key kid now d) token
     = map_option (\<lambda>k. if ak_id k = kid then k\<lparr>ak_last_used_at := Some now\<rparr> else k) (api_key_of_token C d token)"
  by (simp add: api_key_of_token_def touch_api_key_def db_find_update_same)

lemma ensure_active_iff: "ensure_active_or_403 r = Inr x \<longleftrightarrow> r = x \<and> org_status x = OrgActive"
  by (auto simp: ensure_active_or_403_def ensure_active_def)

lemma operator_passes:
  "verify_operator_key key given = Inr u \<longleftrightarrow> key \<noteq> [] \<and> given = key \<and> is_ascii key"
  by (auto simp: verify_operator_key_def compare_digest_def)

lemma passes_operator:
  assumes "hd_operator_key h = Some given"
  shows "(\<exists>u. require_permission C key perm h now d = (d1, Inr u) \<and> get_current_organization C key h now d1 = Inr org)
     \<longleftrightarrow> admitted C key perm h now d org d1"
  using assms by (auto simp: require_permission_def get_current_organization_def operator_passes admitted_def ensure_active_iff
      compare_digest_def split: if_splits)

lemma passes_session:
  assumes "hd_operator_key h = None" and "bearer_token (hd_authorization h) = Some token" and "resolve_user_for_session_token d token now = Some u"
  shows "(\<exists>x. require_permission C key perm h now d = (d1, Inr x) \<and> get_current_organization C key h now d1 = Inr org)
     \<longleftrightarrow> admitted C key perm h now d org d1"
proof -
  have "(\<exists>x. require_permission C key perm h now d = (d1, Inr x) \<and> get_current_organization C key h now d1 = Inr org)
      \<longleftrightarrow> d1 = d \<and> org_status org = OrgActive \<and> (\<exists>rl. Role_of (us_role u) = Some rl \<and> has_permission rl perm)
        \<and> get_organization_row d (us_organization_id u) = Some org"
    using assms by (auto simp: require_permission_def get_current_organization_def resolve_role_for_token_def ensure_active_iff
        resolve_organization_id_for_token_def split: option.splits)
  also have "\<dots> \<longleftrightarrow> admitted C key perm h now d org d1"
    using assms resolve_user_iff [of d token now u] by (auto simp: admitted_def)
  finally show ?thesis .
qed

lemma passes_key:
  assumes "hd_operator_key h = None" and "bearer_token (hd_authorization h) = Some token" and "resolve_user_for_session_token d token now = None"
  shows "(\<exists>x. require_permission C key perm h now d = (d1, Inr x) \<and> get_current_organization C key h now d1 = Inr org)
     \<longleftrightarrow> admitted C key perm h now d org d1"
proof -
  have "(\<exists>x. require_permission C key perm h now d = (d1, Inr x) \<and> get_current_organization C key h now d1 = Inr org)
      \<longleftrightarrow> (\<exists>k rl. api_key_of_token C d token = Some k \<and> ak_revoked_at k = None \<and> Role_of (ak_role k) = Some rl \<and> has_permission rl perm
        \<and> get_organization_row d (ak_organization_id k) = Some org \<and> org_status org = OrgActive \<and> d1 = touch_api_key (ak_id k) now d)"
    using assms by (auto simp: require_permission_def get_current_organization_def resolve_role_for_token_def resolve_role_for_api_key_def
        resolve_organization_id_for_token_def ensure_active_iff touched_key split: option.splits if_splits)
  also have "\<dots> \<longleftrightarrow> admitted C key perm h now d org d1"
  proof -
    have "\<not> (\<exists>sid s u. parse_uuid token = Some sid \<and> get_session_row d sid = Some s \<and> se_revoked_at s = None \<and> now < se_expires_at s
              \<and> get_user_row d (se_user_id s) = Some u \<and> us_status u = UserActive)"
      using assms(3) resolve_user_iff [of d token now] by (metis option.distinct(1))
    with assms show ?thesis unfolding admitted_def by auto
  qed
  finally show ?thesis .
qed

lemma passes_iff:
  "(\<exists>u. require_permission C key perm h now d = (d1, Inr u) \<and> get_current_organization C key h now d1 = Inr org)
     \<longleftrightarrow> admitted C key perm h now d org d1"
proof (cases "hd_operator_key h")
  case None
  show ?thesis
  proof (cases "bearer_token (hd_authorization h)")
    case (Some token)
    then show ?thesis using passes_session [OF None Some] passes_key [OF None Some] by (cases "resolve_user_for_session_token d token now") auto
  qed (simp add: require_permission_def admitted_def None)
qed (rule passes_operator)

lemma refusal_state:
  "require_permission C key perm h now d = (d1, r) \<Longrightarrow> d1 = d \<or> (\<exists>kid. d1 = touch_api_key kid now d)"
  by (auto simp: require_permission_def resolve_role_for_token_def resolve_role_for_api_key_def split: option.splits if_splits prod.splits)

text \<open>C22: guarded routes admit exactly these callers. The handler runs, for the organization and on the state of the
  definition, exactly when the caller is admitted; everyone else is refused with an error and without a change
  other than the record that an API key was used.\<close>

theorem guarded_request_authorized:
  "(admitted C key perm h now d org d1 \<longrightarrow> guarded C key perm h now handler d = handler org d1)
   \<and> ((\<nexists>org d1. admitted C key perm h now d org d1) \<longrightarrow>
        (\<exists>e d2. guarded C key perm h now handler d = (d2, Inl e) \<and> (d2 = d \<or> (\<exists>kid. d2 = touch_api_key kid now d))))"
proof (intro conjI impI)
  assume "admitted C key perm h now d org d1"
  then obtain u where "require_permission C key perm h now d = (d1, Inr u)" "get_current_organization C key h now d1 = Inr org"
    using passes_iff by blast
  then show "guarded C key perm h now handler d = handler org d1" by (simp add: guarded_def)
next
  assume none: "\<nexists>org d1. admitted C key perm h now d org d1"
  obtain d2 r where p: "require_permission C key perm h now d = (d2, r)" by (rule prod.exhaust)
  show "\<exists>e d2. guarded C key perm h now handler d = (d2, Inl e) \<and> (d2 = d \<or> (\<exists>kid. d2 = touch_api_key kid now d))"
  proof (cases r)
    case (Inr u)
    with none p passes_iff obtain e where "get_current_organization C key h now d2 = Inl e"
      by (cases "get_current_organization C key h now d2") blast+
    with p Inr refusal_state [OF p] show ?thesis by (auto simp: guarded_def)
  qed (use p refusal_state [OF p] in \<open>auto simp: guarded_def\<close>)
qed

definition demo_token :: string where
  "demo_token = ''00000000-0000-0000-0000-000000000000''"

lemma demo_token_uuid [simp]: "parse_uuid demo_token = Some demo_token"
  by code_simp

definition demo_bearer :: string where
  "demo_bearer = ''Bearer '' @ demo_token"

lemma demo_token_bearer [simp]: "bearer_token (Some demo_bearer) = Some demo_token"
  by code_simp

definition reviewer_headers :: Headers where
  "reviewer_headers = \<lparr>hd_operator_key = None, hd_organization_id = None, hd_authorization = Some demo_bearer\<rparr>"

definition session_db :: db where
  "session_db = allow_db\<lparr>users := [new_user ''u1'' ''o1'' ''a@b'' ''Ann'' ''h'' ''reviewer'' False 0],
     user_sessions := [\<lparr>se_id = demo_token, se_user_id = ''u1'', se_created_at = 0, se_expires_at = 10, se_revoked_at = None\<rparr>]\<rparr>"

lemma session_rows:
  "get_session_row session_db demo_token
     = Some \<lparr>se_id = demo_token, se_user_id = ''u1'', se_created_at = 0, se_expires_at = 10, se_revoked_at = None\<rparr>"
  "get_user_row session_db ''u1'' = Some (new_user ''u1'' ''o1'' ''a@b'' ''Ann'' ''h'' ''reviewer'' False 0)"
  "get_organization_row session_db ''o1'' = Some (new_organization ''o1'' ''Acme'' ''production'' 0)"
  by (simp_all add: get_session_row_def get_user_row_def get_organization_row_def session_db_def allow_db_def new_user_def new_organization_def)

lemma admitted_session:
  assumes "hd_operator_key h = None" and "bearer_token (hd_authorization h) = Some token" and "parse_uuid token = Some sid"
    and "get_session_row d sid = Some s" and "se_revoked_at s = None" and "now < se_expires_at s"
    and "get_user_row d (se_user_id s) = Some u" and "us_status u = UserActive" and "Role_of (us_role u) = Some rl"
    and "has_permission rl perm" and "get_organization_row d (us_organization_id u) = Some org" and "org_status org = OrgActive"
  shows "admitted C key perm h now d org d"
  using assms by (auto simp: admitted_def)

lemma reviewer_admitted:
  "admitted plain_crypto ''k'' DECISIONS_RESOLVE reviewer_headers 5 session_db (new_organization ''o1'' ''Acme'' ''production'' 0) session_db"
proof -
  have "Role_of ''reviewer'' = Some REVIEWER" using role_enum.enum_of_value [of REVIEWER] by (simp add: Role_of_def)
  moreover have "has_permission REVIEWER DECISIONS_RESOLVE" by (simp add: has_permission_def)
  ultimately show ?thesis
    by (intro admitted_session [where token = demo_token and sid = demo_token and u = "new_user ''u1'' ''o1'' ''a@b'' ''Ann'' ''h'' ''reviewer'' False 0", OF _ _ _ session_rows(1)])
      (simp_all add: reviewer_headers_def session_rows new_user_def new_organization_def)
qed

theorem guarded_request_authorized_witness:
  "\<exists>org. admitted plain_crypto ''k'' DECISIONS_RESOLVE reviewer_headers 5 session_db org session_db
     \<and> guarded plain_crypto ''k'' DECISIONS_RESOLVE reviewer_headers 5 (\<lambda>org d. (d, Inr (org_id org))) session_db = (session_db, Inr ''o1'')"
proof -
  note a = reviewer_admitted
  from guarded_request_authorized [THEN conjunct1, THEN mp, OF a, of "\<lambda>org d. (d, Inr (org_id org))"] a
  have "guarded plain_crypto ''k'' DECISIONS_RESOLVE reviewer_headers 5 (\<lambda>org d. (d, Inr (org_id org))) session_db = (session_db, Inr ''o1'')"
    by (simp add: new_organization_def)
  with a show ?thesis by blast
qed

section \<open>Ended credentials\<close>

lemma revoked_by_logout:
  assumes "parse_uuid token = Some sid" and "get_session_row d sid = Some s" and "bearer_token authorization = Some token"
  shows "\<exists>s'. get_session_row (logout authorization now d) sid = Some s' \<and> se_revoked_at s' \<noteq> None"
proof -
  have r: "db_find (\<lambda>s. se_id s = sid) (user_sessions d) = Some s" using assms(2) by (simp add: get_session_row_def)
  then show ?thesis using assms
    by (cases "se_revoked_at s")
      (auto simp: logout_def revoke_session_for_token_def revoke_session_def get_session_row_def db_find_update_same dest: db_find_Some)
qed

lemma revoked_by_call:
  assumes "revoke_api_key kid org now d = Inr d1" and "api_key_of_token C d token = Some k" and "get_api_key_row d kid = Some k"
  shows "\<exists>k'. api_key_of_token C d1 token = Some k' \<and> ak_revoked_at k' \<noteq> None"
proof -
  have i: "ak_id k = kid" using assms(3) unfolding get_api_key_row_def by (drule_tac db_find_Some) simp
  show ?thesis
  proof (cases "ak_revoked_at k")
    case None
    then have "d1 = d\<lparr>api_keys := db_update (\<lambda>k. ak_id k = kid \<and> ak_revoked_at k = None) (\<lambda>k. k\<lparr>ak_revoked_at := Some now\<rparr>) (api_keys d)\<rparr>"
      using assms(1,3) by (auto simp: revoke_api_key_def split: if_splits)
    then show ?thesis using assms(2) i by (auto simp: api_key_of_token_def db_find_update_same)
  next
    case (Some r)
    then have "d1 = d" using assms(1,3) by (auto simp: revoke_api_key_def split: if_splits)
    with Some assms(2) show ?thesis by simp
  qed
qed

lemma unresolved_refused:
  assumes "hd_operator_key h = None" and "bearer_token (hd_authorization h) = Some token"
    and "resolve_user_for_session_token d token t = None" and "\<forall>k. api_key_of_token C d token = Some k \<longrightarrow> ak_revoked_at k \<noteq> None"
  shows "guarded C key perm h t handler d = (d, Inl (HTTPException 401 ''invalid_or_expired_credential''))"
  using assms by (auto simp: guarded_def require_permission_def resolve_role_for_token_def resolve_role_for_api_key_def split: option.splits)

text \<open>An API key is no session identifier.\<close>

lemma dropWhile_keeps: "x \<in> set xs \<Longrightarrow> \<not> b x \<Longrightarrow> x \<in> set (dropWhile b xs)"
  by (induction xs) auto

lemma api_key_no_uuid: "parse_uuid (API_KEY_PREFIX @ s) = None"
proof -
  have "CHR ''p'' \<in> set (strip_braces (API_KEY_PREFIX @ s))"
    by (auto simp: strip_braces_def Let_def API_KEY_PREFIX_def intro!: dropWhile_keeps)
  then have "CHR ''p'' \<in> set (filter (\<lambda>c. c \<noteq> CHR ''-'') (strip_braces (API_KEY_PREFIX @ s)))" by simp
  moreover have "\<not> is_hex (CHR ''p'')" by code_simp
  moreover have "\<not> startswith (API_KEY_PREFIX @ s) ''urn:''" "\<not> startswith (API_KEY_PREFIX @ s) ''uuid:''"
    by (simp_all add: startswith_def API_KEY_PREFIX_def)
  ultimately show ?thesis unfolding parse_uuid_def Let_def list_all_iff by auto
qed

lemma dead_session_refused:
  assumes "account_step\<^sup>*\<^sup>* d1 d2" and "hd_operator_key h = None" and "bearer_token (hd_authorization h) = Some token"
    and "parse_uuid token = Some sid" and "get_session_row d sid = Some s"
    and "bearer_token authorization = Some token \<and> d1 = logout authorization now d \<or> d1 = d \<and> se_expires_at s \<le> t"
  shows "get_current_user h t d2 = Inl (HTTPException 401 ''invalid_or_expired_session'')"
    and "api_key_of_token C d2 token = None \<Longrightarrow>
      guarded C key perm h t handler d2 = (d2, Inl (HTTPException 401 ''invalid_or_expired_credential''))"
proof -
  obtain s1 where "get_session_row d1 sid = Some s1" "se_revoked_at s1 \<noteq> None \<or> se_expires_at s1 \<le> t"
    using assms(5,6) revoked_by_logout [OF assms(4,5)] by blast
  then have n: "resolve_user_for_session_token d2 token t = None" using revoked_session_final [OF assms(1) _ assms(4)] by blast
  then show "get_current_user h t d2 = Inl (HTTPException 401 ''invalid_or_expired_session'')" using assms(3) by (simp add: get_current_user_def)
  show "guarded C key perm h t handler d2 = (d2, Inl (HTTPException 401 ''invalid_or_expired_credential''))"
    if "api_key_of_token C d2 token = None"
    by (rule unresolved_refused [OF assms(2,3) n]) (simp add: that)
qed

lemma dead_key_refused:
  assumes "account_step\<^sup>*\<^sup>* d1 d2" and "hd_operator_key h = None" and "bearer_token (hd_authorization h) = Some (API_KEY_PREFIX @ secret)"
    and "get_api_key_row d kid = Some k" and "api_key_of_token C d (API_KEY_PREFIX @ secret) = Some k"
    and "revoke_api_key kid org now d = Inr d1"
  shows "guarded C key perm h t handler d2 = (d2, Inl (HTTPException 401 ''invalid_or_expired_credential''))"
proof -
  obtain k1 where "api_key_of_token C d1 (API_KEY_PREFIX @ secret) = Some k1" "ak_revoked_at k1 \<noteq> None"
    using revoked_by_call [OF assms(6,5,4)] by blast
  then obtain k2 where "api_key_of_token C d2 (API_KEY_PREFIX @ secret) = Some k2" "ak_revoked_at k2 \<noteq> None"
    using revoked_key_final [OF assms(1)] by blast
  moreover have "resolve_user_for_session_token d2 (API_KEY_PREFIX @ secret) t = None"
    using api_key_no_uuid by (simp add: resolve_user_for_session_token_def)
  ultimately show ?thesis by (intro unresolved_refused [OF assms(2,3)]) simp_all
qed

text \<open>C24: an ended credential stays dead. After a logout, from its expiry on, and after the revocation of an API key, no
  run of account operations brings the credential back: a session token resolves to no user, and a request that carries it or
  the key is refused on every guarded route (for a session token: unless it has the digest of an API key).\<close>

theorem ended_credential_stays_dead:
  assumes "account_step\<^sup>*\<^sup>* d1 d2" and "hd_operator_key h = None"
  shows "(\<forall>token sid s authorization now. bearer_token (hd_authorization h) = Some token \<and> parse_uuid token = Some sid
          \<and> get_session_row d sid = Some s
          \<and> (bearer_token authorization = Some token \<and> d1 = logout authorization now d \<or> d1 = d \<and> se_expires_at s \<le> t)
        \<longrightarrow> get_current_user h t d2 = Inl (HTTPException 401 ''invalid_or_expired_session'')
          \<and> (api_key_of_token C d2 token = None \<longrightarrow>
                guarded C key perm h t handler d2 = (d2, Inl (HTTPException 401 ''invalid_or_expired_credential''))))
    \<and> (\<forall>secret kid k org now. bearer_token (hd_authorization h) = Some (API_KEY_PREFIX @ secret) \<and> get_api_key_row d kid = Some k
          \<and> api_key_of_token C d (API_KEY_PREFIX @ secret) = Some k \<and> revoke_api_key kid org now d = Inr d1
        \<longrightarrow> guarded C key perm h t handler d2 = (d2, Inl (HTTPException 401 ''invalid_or_expired_credential'')))"
  using dead_session_refused(1) [OF assms, where t = t and d = d]
    dead_session_refused(2) [OF assms, where t = t and C = C and handler = handler and key = key and perm = perm and d = d]
    dead_key_refused [OF assms, where t = t and C = C and handler = handler and key = key and perm = perm and d = d]
  by blast

theorem ended_credential_stays_dead_witness:
  "\<exists>d. account_step\<^sup>*\<^sup>* session_db d \<and> guarded plain_crypto ''k'' DECISIONS_RESOLVE reviewer_headers 6 (\<lambda>org d. (d, Inr (org_id org))) d
       = (d, Inl (HTTPException 401 ''invalid_or_expired_credential''))"
proof -
  let ?d = "logout (Some demo_bearer) 5 session_db"
  have run: "account_step\<^sup>*\<^sup>* session_db ?d" by (rule r_into_rtranclp) (rule account_step.logout)
  have h: "hd_operator_key reviewer_headers = None" "bearer_token (hd_authorization reviewer_headers) = Some demo_token"
    by (simp_all add: reviewer_headers_def)
  have "api_keys ?d = []"
    by (auto simp: logout_def revoke_session_for_token_def revoke_session_def session_db_def allow_db_def keyed_db_def one_agent_db_def empty_db_def split: option.split)
  then have n: "api_key_of_token plain_crypto ?d demo_token = None" by (simp add: api_key_of_token_def)
  note dead = ended_credential_stays_dead [OF rtranclp.rtrancl_refl h(1), THEN conjunct1, rule_format, where authorization = "Some demo_bearer" and token = demo_token]
  have "guarded plain_crypto ''k'' DECISIONS_RESOLVE reviewer_headers 6 (\<lambda>org d. (d, Inr (org_id org))) ?d
       = (?d, Inl (HTTPException 401 ''invalid_or_expired_credential''))"
    by (rule dead [THEN conjunct2, rule_format, OF _ n]) (use h session_rows(1) demo_token_uuid demo_token_bearer in blast)
  with run show ?thesis by blast
qed

section \<open>Signed submissions\<close>

lemma check_window_iff:
  "check_window window requested_at tz now = Inr u \<longleftrightarrow> tz \<and> \<bar>now - requested_at\<bar> \<le> window * 1000000"
  by (auto simp: check_window_def check_timestamp_window_def)

lemma verified_agent:
  assumes "verify_agent_signature C body key_id signature d = Inr a"
  shows "\<exists>cid c. parse_uuid key_id = Some cid \<and> get_active_certificate d cid = Some c
    \<and> verify_request_signature C body signature (ct_public_key c) \<and> get_agent_row d (ct_agent_id c) = Some a"
  using assms by (auto simp: verify_agent_signature_def)

lemma active_certificateD: "get_active_certificate d cid = Some c \<Longrightarrow> c \<in> set (certificates d) \<and> ct_id c = cid \<and> ct_status c = CertActive"
  by (auto simp: get_active_certificate_def dest: db_find_Some split: option.splits if_splits)

lemma post_intentD:
  assumes "post_intent window parse E ids body key_id signature now d = Inr (d', resp)"
  obtains a request it de ev where "verify_agent_signature (env_crypto E) body key_id signature d = Inr a" "parse body = Some request"
    "sq_agent_id request = ag_id a" "sq_has_timezone request" "\<bar>now - sq_requested_at request\<bar> \<le> window * 1000000"
    "submit_intent E ids a (sq_action request) (sq_amount request) (sq_currency request) (sq_counterparty request) (sq_context request)
       (sq_requested_at request) (sq_nonce request) (sq_correlation_id request) (sq_resource request) (sq_source request) now d = Inr (d', it, de, ev)"
    "resp = submit_response d' it de ev (de_outcome de = OutHumanReview)"
  using assms by (auto simp: post_intent_def submit_intent_handler_def check_window_iff)

lemma intents_persist: "(server_step C)\<^sup>*\<^sup>* d d' \<Longrightarrow> set (intents d) \<subseteq> set (intents d')"
proof (induction rule: rtranclp_induct)
  case (step y z)
  from step.hyps(2) have "set (intents y) \<subseteq> set (intents z)" by (cases rule: server_step_cases) (auto simp: records_def)
  with step.IH show ?case by blast
qed simp

lemma replay_refused:
  assumes "it \<in> set (intents d)" and "it_agent_id it = sq_agent_id request" and "it_nonce it = sq_nonce request" and "parse body = Some request"
  shows "\<exists>e. post_intent window parse E ids body key_id signature now d = Inl e"
proof (rule ccontr)
  assume "\<not> ?thesis"
  then obtain d' resp where "post_intent window parse E ids body key_id signature now d = Inr (d', resp)"
    by (cases "post_intent window parse E ids body key_id signature now d") auto
  then show False using assms submission_effect by (elim post_intentD) fastforce
qed


definition demo_certificate :: Certificate where
  "demo_certificate = \<lparr>ct_id = demo_token, ct_agent_id = ''a1'', ct_public_key = ''QUJD'', ct_status = CertActive, ct_issued_at = 0,
     ct_activated_at = Some 0, ct_rotated_at = None, ct_expires_at = None, ct_revoked_at = None\<rparr>"

definition suspended_agent :: Agent where "suspended_agent = demo_agent\<lparr>ag_status := AgSuspended\<rparr>"

definition signed_db :: db where
  "signed_db = allow_db\<lparr>agents := [suspended_agent], certificates := [demo_certificate]\<rparr>"

definition demo_submission_request :: SubmitIntentRequest where
  "demo_submission_request = \<lparr>sq_agent_id = ''a1'', sq_action = ''vendor_payment'', sq_resource = None, sq_amount = None, sq_currency = None,
     sq_counterparty = None, sq_context = [], sq_requested_at = 0, sq_has_timezone = True, sq_nonce = ''n1'', sq_correlation_id = None,
     sq_source = None\<rparr>"

lemma signed_request_posted:
  "\<exists>d' resp. post_intent 300 (\<lambda>_. Some demo_submission_request) demo_env demo_ids ''{}'' demo_token (b64encode ''ABC{}'') 7 signed_db = Inr (d', resp)"
proof -
  have agent: "ag_id suspended_agent = ''a1''" "ag_status suspended_agent = AgSuspended" "ag_acting_for_principal_id suspended_agent = ''p1''"
    by (simp_all add: suspended_agent_def demo_agent_def new_agent_def)
  have "decode_public_key ''QUJD'' = Some ''ABC''" by code_simp
  then have v: "verify_agent_signature (env_crypto demo_env) ''{}'' demo_token (b64encode ''ABC{}'') signed_db = Inr suspended_agent"
    using agent by (simp add: verify_agent_signature_def signed_db_def get_active_certificate_def demo_certificate_def verify_request_signature_def
        demo_env_def plain_crypto_def get_agent_row_def del: b64encode.simps)
  have ob: "organization_blocks signed_db suspended_agent = None"
    using agent by (simp add: organization_blocks_def get_principal_row_def get_organization_row_def signed_db_def allow_db_def demo_principal_def
        new_organization_def ensure_active_def)
  have "intents signed_db = []" by (simp add: signed_db_def allow_db_def keyed_db_def one_agent_db_def empty_db_def)
  moreover have "\<exists>d' de ev. record_review demo_env demo_ids it suspended_agent act None None None ''AGENT_SUSPENDED'' 7 x = Inr (d', de, ev)" for it act x
  proof -
    have ok: "\<exists>d' e. append_evidence (env_crypto demo_env) (env_settings demo_env) A i n y = Inr (d', e)" for A i n y
      using demo_appends by (simp add: demo_env_def)
    have "\<exists>d' de ev. record_review demo_env demo_ids it suspended_agent act None None None ''AGENT_SUSPENDED'' 7 x = Inr (d', de, ev) \<and> True"
      unfolding record_review_def Let_def by (rule appended_returns [OF ok]) simp
    then show ?thesis by simp
  qed
  ultimately have "\<exists>d' it de ev. submit_intent demo_env demo_ids suspended_agent ''vendor_payment'' None None None [] 0 ''n1'' None None None 7 signed_db
      = Inr (d', it, de, ev)"
    using agent ob by (simp add: submit_intent_def Let_def)
  then show ?thesis using v agent
    by (auto simp: post_intent_def submit_intent_handler_def demo_submission_request_def check_window_iff)
qed


section \<open>The rate limit\<close>

text \<open>A run of requests, each a client key and a time, through the limiter; and the reference that remembers every admitted
  request and looks back one window.\<close>

fun rate_run :: "int \<Rightarrow> nat \<Rightarrow> (string \<times> int) list \<Rightarrow> log_store \<Rightarrow> bool list" where
  "rate_run w m [] store = []"
| "rate_run w m ((k, t) # rs) store = (let (ok, store') = check_rate_limit k w m t store in ok # rate_run w m rs store')"

definition recent :: "int \<Rightarrow> string \<Rightarrow> int \<Rightarrow> (string \<times> int) list \<Rightarrow> int list" where
  "recent w k t A = filter (\<lambda>x. t - x \<le> w) (map snd (filter (\<lambda>a. fst a = k) A))"

fun history_run :: "int \<Rightarrow> nat \<Rightarrow> (string \<times> int) list \<Rightarrow> (string \<times> int) list \<Rightarrow> bool list \<times> (string \<times> int) list" where
  "history_run w m [] A = ([], A)"
| "history_run w m ((k, t) # rs) A =
     (let ok = length (recent w k t A) < m; (oks, A') = history_run w m rs (if ok then A @ [(k, t)] else A) in (ok # oks, A'))"

text \<open>The log of a key holds the admitted requests of a window that ended at some earlier time.\<close>

definition log_inv :: "int \<Rightarrow> int \<Rightarrow> (string \<times> int) list \<Rightarrow> log_store \<Rightarrow> bool" where
  "log_inv w T A store \<longleftrightarrow> sorted (map snd A) \<and> (\<forall>a \<in> set A. snd a \<le> T) \<and> (\<forall>k. \<exists>c \<le> T. store k = recent w k c A)"

lemma drop_old_sorted: "sorted ts \<Longrightarrow> drop_old now w ts = filter (\<lambda>t. now - t \<le> w) ts"
proof (induction ts)
  case (Cons t ts)
  show ?case
  proof (cases "now - t > w")
    case False
    with Cons.prems have "filter (\<lambda>t. now - t \<le> w) ts = ts" by (intro filter_True) auto
    with False show ?thesis by simp
  qed (use Cons in simp)
qed simp

lemma sorted_recent: "sorted (map snd A) \<Longrightarrow> sorted (recent w k t A)"
  by (auto simp: recent_def intro!: sorted_filter sorted_wrt_filter)

lemma recent_later: "c \<le> t \<Longrightarrow> filter (\<lambda>x. t - x \<le> w) (recent w k c A) = recent w k t A"
  by (auto simp: recent_def intro: filter_cong)

lemma log_inv_step:
  assumes "log_inv w T A store" and "T \<le> t" and "check_rate_limit k w m t store = (ok, store')"
  shows "ok \<longleftrightarrow> length (recent w k t A) < m" and "0 \<le> w \<Longrightarrow> log_inv w t (if ok then A @ [(k, t)] else A) store'"
proof -
  obtain c where c: "c \<le> T" "store k = recent w k c A" and s: "sorted (map snd A)" and le: "\<forall>a \<in> set A. snd a \<le> T"
    using assms(1) by (auto simp: log_inv_def)
  have d: "drop_old t w (store k) = recent w k t A"
    using c s assms(2) by (simp add: drop_old_sorted sorted_recent recent_later)
  then show ok: "ok \<longleftrightarrow> length (recent w k t A) < m" using assms(3) by (auto simp: check_rate_limit_def Let_def split: if_splits)
  show "log_inv w t (if ok then A @ [(k, t)] else A) store'" if "0 \<le> w"
  proof -
    have grown: "recent w k' c' (A @ [(k, t)]) = recent w k' c' A @ (if k' = k \<and> c' - t \<le> w then [t] else [])" for k' c'
      by (auto simp: recent_def)
    have st: "store' = store(k := recent w k t A @ (if ok then [t] else []))"
      using assms(3) d by (auto simp: check_rate_limit_def Let_def split: if_splits)
    have "\<exists>c' \<le> t. store' k' = recent w k' c' (if ok then A @ [(k, t)] else A)" for k'
    proof (cases "k' = k")
      case True
      with st that show ?thesis by (intro exI [of _ t]) (simp add: grown)
    next
      case False
      obtain c' where "c' \<le> T" "store k' = recent w k' c' A" using assms(1) by (auto simp: log_inv_def)
      with False st assms(2) show ?thesis by (intro exI [of _ c']) (simp add: grown)
    qed
    moreover have "sorted (map snd (A @ [(k, t)]))" using s le assms(2) by (auto simp: sorted_append)
    ultimately show ?thesis using s le assms(2) by (fastforce simp: log_inv_def)
  qed
qed

lemma rate_run_history:
  assumes "log_inv w T A store" and "sorted (T # map snd reqs)" and "0 \<le> w"
  shows "rate_run w m reqs store = fst (history_run w m reqs A)"
  using assms
proof (induction reqs arbitrary: T A store)
  case (Cons r rs)
  obtain k t where r: "r = (k, t)" by (rule prod.exhaust)
  obtain ok store' where c: "check_rate_limit k w m t store = (ok, store')" by (rule prod.exhaust)
  have "T \<le> t" using Cons.prems(2) r by simp
  note st = log_inv_step [OF Cons.prems(1) this c]
  have "rate_run w m rs store' = fst (history_run w m rs (if ok then A @ [(k, t)] else A))"
    using Cons.prems r by (intro Cons.IH [OF st(2)]) auto
  with st(1) c r show ?case by (simp add: Let_def split: prod.split)
qed simp

lemma filter_length_mono: "(\<And>x. P x \<Longrightarrow> Q x) \<Longrightarrow> length (filter P xs) \<le> length (filter Q xs)"
  by (induction xs) (auto intro: le_SucI)

text \<open>No window of the admitted requests holds more than the limit: the last one in it was admitted when the others were
  recent.\<close>

definition in_window :: "int \<Rightarrow> string \<Rightarrow> int \<Rightarrow> (string \<times> int) list \<Rightarrow> (string \<times> int) list" where
  "in_window w k t0 A = filter (\<lambda>a. fst a = k \<and> t0 \<le> snd a \<and> snd a \<le> t0 + w) A"

lemma window_bound:
  assumes "\<forall>k t0. length (in_window w k t0 A) \<le> m" and "sorted (map snd A @ map snd reqs)"
  shows "\<forall>k t0. length (in_window w k t0 (snd (history_run w m reqs A))) \<le> m"
  using assms
proof (induction reqs arbitrary: A)
  case (Cons r rs)
  obtain k t where r: "r = (k, t)" by (rule prod.exhaust)
  let ?ok = "length (recent w k t A) < m"
  have "length (in_window w k' t0 (A @ [(k, t)])) \<le> m" if ?ok for k' t0
  proof (cases "k' = k \<and> t0 \<le> t \<and> t \<le> t0 + w")
    case True
    have "length (in_window w k t0 A) \<le> length (recent w k t A)"
    proof -
      have "length (filter (\<lambda>a. fst a = k \<and> t0 \<le> snd a \<and> snd a \<le> t0 + w) A) \<le> length (filter (\<lambda>a. fst a = k \<and> t - snd a \<le> w) A)"
        using True by (intro filter_length_mono) auto
      then show ?thesis by (simp add: in_window_def recent_def filter_map comp_def conj_commute)
    qed
    with that True show ?thesis by (simp add: in_window_def)
  next
    case False
    then show ?thesis using Cons.prems(1) by (auto simp: in_window_def)
  qed
  with Cons.prems have "\<forall>k' t0. length (in_window w k' t0 (if ?ok then A @ [(k, t)] else A)) \<le> m" by simp
  moreover have "sorted (map snd (if ?ok then A @ [(k, t)] else A) @ map snd rs)" using Cons.prems(2) r by (auto simp: sorted_append)
  moreover have "snd (history_run w m (r # rs) A) = snd (history_run w m rs (if ?ok then A @ [(k, t)] else A))" by (simp add: r Let_def split_def)
  ultimately show ?case using Cons.IH [of "if ?ok then A @ [(k, t)] else A"] by simp
qed simp

text \<open>C40: the rate limit is exact. On every run of requests in the order of time, the limiter answers like the reference that
  remembers every admitted request, which admits one exactly when fewer than the limit were admitted for its key in the
  window before it; so no window of that length ever sees more than the limit of any key.\<close>

theorem rate_limit_exact:
  assumes "sorted (map snd reqs)" and "0 \<le> w"
  shows "rate_run w m reqs (\<lambda>_. []) = fst (history_run w m reqs [])
    \<and> (\<forall>k t0. length (in_window w k t0 (snd (history_run w m reqs []))) \<le> m)"
proof
  show "rate_run w m reqs (\<lambda>_. []) = fst (history_run w m reqs [])"
  proof (cases reqs)
    case (Cons r rs)
    have "log_inv w (snd r) [] (\<lambda>_. [])" by (auto simp: log_inv_def recent_def)
    then show ?thesis using assms Cons by (intro rate_run_history [where T = "snd r"]) auto
  qed simp
  show "\<forall>k t0. length (in_window w k t0 (snd (history_run w m reqs []))) \<le> m"
    using assms(1) by (intro window_bound) (simp_all add: in_window_def)
qed

theorem rate_limit_exact_witness:
  "rate_run 60 2 [(''a'', 0), (''a'', 10), (''b'', 20), (''a'', 60), (''a'', 61)] (\<lambda>_. []) = [True, True, True, False, True]
   \<and> length (in_window 60 ''a'' 1 (snd (history_run 60 2 [(''a'', 0), (''a'', 10), (''b'', 20), (''a'', 60), (''a'', 61)] []))) \<le> 2"
proof -
  note e = rate_limit_exact [of "[(''a'', 0), (''a'', 10), (''b'', 20), (''a'', 60), (''a'', 61)]" 60 2]
  have "fst (history_run 60 2 [(''a'', 0), (''a'', 10), (''b'', 20), (''a'', 60), (''a'', 61)] []) = [True, True, True, False, True]" by code_simp
  with e show ?thesis by simp
qed

text \<open>The key is the first entry of a header that the client sends: with a new value each time, every request passes.\<close>

theorem forwarded_header_evades_limit:
  assumes "distinct (map (\<lambda>f. client_key (Some f) host) fs)" and "0 < m" and "\<forall>f \<in> set fs. store (client_key (Some f) host) = []"
  shows "rate_run w m (map (\<lambda>f. (client_key (Some f) host, t)) fs) store = map (\<lambda>_. True) fs"
  using assms
proof (induction fs arbitrary: store)
  case (Cons f fs)
  have "rate_run w m (map (\<lambda>f. (client_key (Some f) host, t)) fs) (store(client_key (Some f) host := [t])) = map (\<lambda>_. True) fs"
    using Cons.prems by (intro Cons.IH) (fastforce simp: image_iff)+
  with Cons.prems show ?case by (simp add: check_rate_limit_def Let_def)
qed simp

end
