(* ===== verification/Decision_Record.thy ===== *)
theory Decision_Record
  imports Access_Control Policy_Explainer
begin

text \<open>
  What an organization reads of a decision afterwards: \<^verbatim>\<open>server/app/services/authorization_receipt_service.py\<close> (the
  receipt), \<^verbatim>\<open>decision_explanation_service.py\<close> (which conditions of the policies in force then caused it) and
  the reading handlers of \<^verbatim>\<open>server/app/routers/intents.py\<close>. Nothing here writes.

  The response models of \<^verbatim>\<open>schemas/intent.py\<close> and \<^verbatim>\<open>schemas/authorization_receipt.py\<close> are records of their declared
  types. A stored value that is missing or of another type makes the model's constructor raise, here with the error
  of the access; coercions between types (a number written as text) are left out, since the server writes these values itself.
\<close>

datatype RecordError =
    RecordLookup IntentError
  | ReceiptNotAvailableError uuid
  | RecordUnverifiable EvidenceError
  | RecordPolicy PolicyError
  | RecordRaised py_error

definition read_text :: "json \<Rightarrow> string \<Rightarrow> RecordError + string option" where
  "read_text payload k = rlift RecordRaised (rbind (py_get payload k) as_opt_str)"

definition read_int :: "json \<Rightarrow> string \<Rightarrow> RecordError + int option" where
  "read_int payload k = rlift RecordRaised (rbind (py_get payload k) as_opt_int)"

fun as_dict :: "json \<Rightarrow> py_error + (string \<times> json) list" where
  "as_dict (JObj ps) = Inr ps"
| "as_dict _ = Inl IllTyped"

definition payload_or_empty :: "Evidence option \<Rightarrow> json" where
  "payload_or_empty e = (case e of None \<Rightarrow> JObj [] | Some ev \<Rightarrow> py_or (ev_payload ev) (JObj []))"

section \<open>Parts of a response\<close>

record PolicyManifestEntrySource =
  ms_type :: string
  ms_corpus_id :: string
  ms_graph_approval_id :: string
  ms_graph_version :: int
  ms_candidate_id :: string

record PolicyManifestEntry =
  me_id :: string
  me_name :: string
  me_version :: int
  me_effect :: string
  me_scope :: json
  me_source :: "PolicyManifestEntrySource option"

definition manifest_entry_source :: "json \<Rightarrow> py_error + PolicyManifestEntrySource" where
  "manifest_entry_source j =
     rbind (rbind (py_getitem j ''type'') as_str) (\<lambda>ty.
     rbind (rbind (py_getitem j ''corpus_id'') as_str) (\<lambda>corpus.
     rbind (rbind (py_getitem j ''graph_approval_id'') as_str) (\<lambda>approval.
     rbind (rbind (py_getitem j ''graph_version'') as_int) (\<lambda>ver.
     rbind (rbind (py_getitem j ''candidate_id'') as_str) (\<lambda>cand.
       Inr \<lparr>ms_type = ty, ms_corpus_id = corpus, ms_graph_approval_id = approval, ms_graph_version = ver, ms_candidate_id = cand\<rparr>)))))"

definition policy_manifest_entry :: "json \<Rightarrow> py_error + PolicyManifestEntry" where
  "policy_manifest_entry j =
     rbind (rbind (py_getitem j ''id'') as_str) (\<lambda>i.
     rbind (rbind (py_getitem j ''name'') as_str) (\<lambda>nm.
     rbind (rbind (py_getitem j ''version'') as_int) (\<lambda>ver.
     rbind (rbind (py_getitem j ''effect'') as_str) (\<lambda>eff.
     rbind (rbind (py_getitem j ''scope'') as_dict) (\<lambda>sc.
     rbind (py_get j ''source'') (\<lambda>src.
     rbind (if src = JNull then Inr None else rmap Some (manifest_entry_source src)) (\<lambda>src'.
       Inr \<lparr>me_id = i, me_name = nm, me_version = ver, me_effect = eff, me_scope = JObj sc, me_source = src'\<rparr>)))))))"

text \<open>\<^verbatim>\<open>[PolicyManifestEntry(**p) for p in manifest.get("policies", [])]\<close>\<close>

definition manifest_entries :: "Policy \<Rightarrow> RecordError + PolicyManifestEntry list" where
  "manifest_entries p = rlift RecordRaised
     (rbind (rbind (py_get_or (py_or (case po_bundle_manifest p of None \<Rightarrow> JNull | Some m \<Rightarrow> m) (JObj [])) ''policies'' (JList [])) as_list)
       (rmapM policy_manifest_entry))"

record CapabilitySummary =
  cy_issued :: bool
  cy_audience :: "string option"
  cy_resource :: "string option"
  cy_action :: "string option"
  cy_expires_at :: "datetime option"
  cy_consumed_at :: "datetime option"
  cy_environment :: "string option"
  cy_enforcement_binding_id :: "string option"

definition capability_summary :: "Intent \<Rightarrow> CapabilityToken \<Rightarrow> CapabilitySummary" where
  "capability_summary it c = \<lparr>cy_issued = True, cy_audience = Some (cap_audience c), cy_resource = it_resource it,
     cy_action = Some (it_action it), cy_expires_at = Some (cap_expires_at c), cy_consumed_at = cap_consumed_at c,
     cy_environment = cap_environment c, cy_enforcement_binding_id = cap_enforcement_binding_id c\<rparr>"

record ReceiptIntegrationSummary =
  ri_integration_identity_id :: "string option"
  ri_enforcement_binding_id :: "string option"
  ri_integration_contract_version_id :: "string option"
  ri_integration_contract_content_hash :: "string option"
  ri_integration_id :: "string option"
  ri_environment :: "string option"
  ri_source_operation :: "string option"
  ri_external_operation_id :: "string option"

definition build_receipt_integration_summary :: "json \<Rightarrow> RecordError + ReceiptIntegrationSummary option" where
  "build_receipt_integration_summary payload =
     rbind (rlift RecordRaised (py_get payload ''integration_identity_id'')) (\<lambda>marker.
     if marker = JNull then Inr None else
     rbind (read_text payload ''integration_identity_id'') (\<lambda>ident.
     rbind (read_text payload ''enforcement_binding_id'') (\<lambda>bind.
     rbind (read_text payload ''integration_contract_version_id'') (\<lambda>ver.
     rbind (read_text payload ''integration_contract_content_hash'') (\<lambda>hash.
     rbind (read_text payload ''integration_id'') (\<lambda>integration.
     rbind (read_text payload ''environment'') (\<lambda>env.
     rbind (read_text payload ''source_operation'') (\<lambda>source.
     rbind (read_text payload ''external_operation_id'') (\<lambda>external.
       Inr (Some \<lparr>ri_integration_identity_id = ident, ri_enforcement_binding_id = bind, ri_integration_contract_version_id = ver,
         ri_integration_contract_content_hash = hash, ri_integration_id = integration, ri_environment = env,
         ri_source_operation = source, ri_external_operation_id = external\<rparr>))))))))))"

section \<open>authorization\_receipt\_service.py\<close>

record ReceiptDecisionSummary =
  rd_decision_id :: uuid
  rd_outcome :: string
  rd_created_at :: datetime
  rd_source :: "string option"

record ReceiptActorSummary =
  ra_agent_id :: uuid
  ra_agent_name :: "string option"
  ra_principal_id :: "string option"
  ra_principal_name :: "string option"

record ReceiptRequestSummary =
  rq_action :: string
  rq_resource :: "string option"
  rq_amount :: "amount option"
  rq_currency :: "string option"
  rq_context :: "(string \<times> json) list"
  rq_correlation_id :: "string option"

record ReceiptAuthoritySummary =
  ry_policy_id :: "uuid option"
  ry_bundle_hash :: "string option"
  ry_bundle_version :: "int option"
  ry_compiled_at :: "datetime option"
  ry_activated_at :: "datetime option"
  ry_retired_at :: "datetime option"
  ry_authority_version :: "string option"
  ry_policies :: "PolicyManifestEntry list"

record ReceiptFactEntry =
  rf_key :: string
  rf_value :: json
  rf_subject :: "string option"
  rf_source_id :: "string option"
  rf_observed_at :: "string option"
  rf_expires_at :: "string option"

record ReceiptHumanReviewSummary =
  rh_resolution :: string
  rh_resolved_by :: string
  rh_reason :: "string option"
  rh_resolved_at :: datetime

record ReceiptEvidenceSummary =
  rv_evidence_id :: uuid
  rv_key_id :: string
  rv_signature :: string
  rv_previous_hash :: "string option"
  rv_payload_hash :: string
  rv_status :: string
  rv_created_at :: datetime

record ReceiptVerification =
  rw_signature_valid :: bool
  rw_key_id :: string
  rw_algorithm :: string
  rw_verified_at :: datetime

record AuthorizationReceiptResponse =
  rx_receipt_id :: uuid
  rx_evidence_id :: uuid
  rx_generated_at :: datetime
  rx_decision :: ReceiptDecisionSummary
  rx_actor :: ReceiptActorSummary
  rx_request :: ReceiptRequestSummary
  rx_authority :: ReceiptAuthoritySummary
  rx_facts :: "ReceiptFactEntry list"
  rx_human_review :: "ReceiptHumanReviewSummary option"
  rx_capability :: "CapabilitySummary option"
  rx_integration :: "ReceiptIntegrationSummary option"
  rx_evidence :: ReceiptEvidenceSummary
  rx_verification :: ReceiptVerification

definition get_policy_row :: "db \<Rightarrow> uuid option \<Rightarrow> Policy option" where
  "get_policy_row d i = Option.bind i (\<lambda>i. db_find (\<lambda>p. po_id p = i) (policies d))"

text \<open>The bundle row that governed the decision, or what the Evidence pinned when there is none.\<close>

definition receipt_authority :: "db \<Rightarrow> uuid option \<Rightarrow> json \<Rightarrow> RecordError + ReceiptAuthoritySummary" where
  "receipt_authority d pid payload = (case get_policy_row d pid of
     Some p \<Rightarrow>
       rbind (read_text payload ''authority_version'') (\<lambda>ver.
       rbind (manifest_entries p) (\<lambda>entries.
         Inr \<lparr>ry_policy_id = Some (po_id p), ry_bundle_hash = Some (po_bundle_hash p), ry_bundle_version = Some (po_version p),
           ry_compiled_at = po_compiled_at p, ry_activated_at = po_activated_at p, ry_retired_at = po_retired_at p,
           ry_authority_version = ver, ry_policies = entries\<rparr>))
   | None \<Rightarrow>
       rbind (read_text payload ''policy_bundle_hash'') (\<lambda>hash.
       rbind (read_int payload ''policy_version'') (\<lambda>bundle.
       rbind (read_text payload ''authority_version'') (\<lambda>ver.
         Inr \<lparr>ry_policy_id = None, ry_bundle_hash = hash, ry_bundle_version = bundle, ry_compiled_at = None,
           ry_activated_at = None, ry_retired_at = None, ry_authority_version = ver, ry_policies = []\<rparr>))))"

definition receipt_fact_entry :: "json \<Rightarrow> py_error + ReceiptFactEntry" where
  "receipt_fact_entry j =
     rbind (rbind (py_getitem j ''key'') as_str) (\<lambda>k.
     rbind (py_getitem j ''value'') (\<lambda>v.
     rbind (rbind (py_get j ''subject'') as_opt_str) (\<lambda>sub.
     rbind (rbind (py_get j ''source_id'') as_opt_str) (\<lambda>src.
     rbind (rbind (py_get j ''observed_at'') as_opt_str) (\<lambda>ob.
     rbind (rbind (py_get j ''expires_at'') as_opt_str) (\<lambda>ex.
       Inr \<lparr>rf_key = k, rf_value = v, rf_subject = sub, rf_source_id = src, rf_observed_at = ob, rf_expires_at = ex\<rparr>))))))"

definition receipt_facts :: "json \<Rightarrow> RecordError + ReceiptFactEntry list" where
  "receipt_facts payload = rlift RecordRaised
     (rbind (py_get payload ''facts_evaluated'') (\<lambda>x. rbind (as_list (py_or x (JList []))) (rmapM receipt_fact_entry)))"

definition review_summary :: "DecisionResolution \<Rightarrow> ReceiptHumanReviewSummary" where
  "review_summary r = \<lparr>rh_resolution = Resolution_value (dr_resolution r), rh_resolved_by = dr_resolved_by r, rh_reason = dr_reason r,
     rh_resolved_at = dr_created_at r\<rparr>"

definition get_authorization_receipt ::
  "crypto \<Rightarrow> Settings \<Rightarrow> (int \<Rightarrow> amount) \<Rightarrow> uuid \<Rightarrow> uuid option \<Rightarrow> datetime \<Rightarrow> db \<Rightarrow> RecordError + AuthorizationReceiptResponse" where
  "get_authorization_receipt C S round_float did org now d =
     rbind (rlift RecordLookup (get_decision_for_organization d did org)) (\<lambda>de.
     rbind (get_or_raise (get_earliest_evidence_for_decision d (de_id de)) (ReceiptNotAvailableError did)) (\<lambda>ev.
     rbind (get_or_raise (get_intent_row d (de_intent_id de)) (RecordRaised AttributeError)) (\<lambda>it.
     let payload = payload_or_empty (Some ev) in
     rbind (receipt_authority d (de_policy_id de) payload) (\<lambda>auth.
     rbind (build_receipt_integration_summary payload) (\<lambda>integration.
     rbind (rlift RecordUnverifiable (verify_evidence C S d (ev_id ev) org)) (\<lambda>(valid, key_id).
     rbind (read_text payload ''principal_id'') (\<lambda>pid.
     rbind (read_text payload ''principal_name'') (\<lambda>pname.
     rbind (rlift RecordRaised (as_dict (py_or (it_context it) (JObj [])))) (\<lambda>ctx.
     rbind (receipt_facts payload) (\<lambda>facts.
     rbind (read_text payload ''previous_hash'') (\<lambda>prev.
       Inr \<lparr>rx_receipt_id = ev_id ev, rx_evidence_id = ev_id ev, rx_generated_at = now,
         rx_decision = \<lparr>rd_decision_id = de_id de, rd_outcome = Outcome_value (de_outcome de), rd_created_at = de_created_at de,
           rd_source = it_source it\<rparr>,
         rx_actor = \<lparr>ra_agent_id = it_agent_id it, ra_agent_name = map_option ag_name (get_agent_row d (it_agent_id it)),
           ra_principal_id = pid, ra_principal_name = pname\<rparr>,
         rx_request = \<lparr>rq_action = it_action it, rq_resource = it_resource it,
           rq_amount = map_option (float_of_numeric round_float) (it_amount it), rq_currency = it_currency it, rq_context = ctx,
           rq_correlation_id = it_correlation_id it\<rparr>,
         rx_authority = auth, rx_facts = facts, rx_human_review = map_option review_summary (resolution_of d (de_id de)),
         rx_capability = map_option (capability_summary it) (get_latest_capability_for_decision d (de_id de)),
         rx_integration = integration,
         rx_evidence = \<lparr>rv_evidence_id = ev_id ev, rv_key_id = ev_key_id ev, rv_signature = ev_signature ev, rv_previous_hash = prev,
           rv_payload_hash = payload_hash C payload, rv_status = EvidenceStatus_value (ev_status ev), rv_created_at = ev_created_at ev\<rparr>,
         rx_verification = \<lparr>rw_signature_valid = valid, rw_key_id = key_id, rw_algorithm = ''ed25519'', rw_verified_at = now\<rparr>\<rparr>)))))))))))"

section \<open>decision\_explanation\_service.py\<close>

datatype ExplanationError =
    ExplainedNotFoundError uuid
  | ExplainedElsewhereError uuid
  | ExplanationRaised py_error
  | ExplanationPolicy PolicyError

record DecisionExplanation =
  dx_decision_id :: uuid
  dx_outcome :: string
  dx_reason :: "string option"
  dx_policy_id :: uuid
  dx_bundle_hash :: string
  dx_bundle_version :: int
  dx_compiled_at :: "datetime option"
  dx_activated_at :: "datetime option"
  dx_retired_at :: "datetime option"
  dx_evaluated_at :: datetime
  dx_rules :: "RuleEvaluation list"
  dx_causal_policy_id :: "string option"

datatype Explanation = ExplanationUnavailable uuid string | Explained DecisionExplanation

definition is_unevaluated_reason :: "string option \<Rightarrow> bool" where
  "is_unevaluated_reason reason = (case reason of None \<Rightarrow> False | Some r \<Rightarrow> r = ''opa_timeout'' \<or> startswith r ''opa_error:'')"

definition manifest_policies :: "Policy \<Rightarrow> py_error + json" where
  "manifest_policies p = rmap (\<lambda>x. py_or x (JList []))
     (py_get (py_or (case po_bundle_manifest p of None \<Rightarrow> JNull | Some m \<Rightarrow> m) (JObj [])) ''policies'')"

text \<open>The loop over the manifest: \<open>Inr None\<close> when a version is gone.\<close>

definition manifest_record :: "db \<Rightarrow> json \<Rightarrow> ExplanationError + RuntimePolicyRecord option" where
  "manifest_record d entry = rlift ExplanationRaised
     (rbind (rbind (py_getitem entry ''id'') as_str) (\<lambda>i.
      rbind (get_or_raise (parse_uuid i) ValueError) (\<lambda>key.
      rbind (rbind (py_getitem entry ''version'') as_int) (\<lambda>ver.
        Inr (db_find (\<lambda>r. rr_policy_key r = key \<and> rr_version r = ver) (runtime_policy_records d))))))"

fun reconstruct_policies :: "db \<Rightarrow> json list \<Rightarrow> ExplanationError + RuntimePolicy list option" where
  "reconstruct_policies d [] = Inr (Some [])"
| "reconstruct_policies d (entry # entries) =
     rbind (manifest_record d entry) (\<lambda>found.
     case found of
       None \<Rightarrow> Inr None
     | Some r \<Rightarrow> rbind (rlift ExplanationPolicy (row_to_policy r)) (\<lambda>p. rmap (map_option (Cons p)) (reconstruct_policies d entries)))"

text \<open>What is rebuilt of the question that OPA was asked.\<close>

definition reconstructed_intent :: "(int \<Rightarrow> amount) \<Rightarrow> Intent \<Rightarrow> json" where
  "reconstructed_intent round_float it = JObj ([(''action'', JStr (it_action it))]
     @ (case it_amount it of None \<Rightarrow> [] | Some n \<Rightarrow> [(''amount'', amount_json (Some (float_of_numeric round_float n)))])
     @ (case it_currency it of None \<Rightarrow> [] | Some s \<Rightarrow> [(''currency'', JStr s)])
     @ (case it_resource it of None \<Rightarrow> [] | Some s \<Rightarrow> [(''resource'', JStr s)]))"

definition reconstructed_context :: "Intent \<Rightarrow> json \<Rightarrow> py_error + json" where
  "reconstructed_context it payload =
     rbind (as_dict (py_or (it_context it) (JObj []))) (\<lambda>ctx.
     rbind (py_get payload ''authority_context'') (\<lambda>ac. Inr (JObj (dict_updates ctx [(''authority'', ac)]))))"

definition explain_with ::
  "(int \<Rightarrow> amount) \<Rightarrow> db \<Rightarrow> Decision \<Rightarrow> Policy \<Rightarrow> json \<Rightarrow> string \<Rightarrow> RuntimePolicy list \<Rightarrow> ExplanationError + Explanation" where
  "explain_with round_float d de p payload principal_name ps =
     rbind (get_or_raise (get_intent_row d (de_intent_id de)) (ExplanationRaised AttributeError)) (\<lambda>it.
     rbind (rlift ExplanationRaised (reconstructed_context it payload)) (\<lambda>ctx.
     rbind (rlift ExplanationRaised (str_list_or_empty (de_evaluated_mandates de))) (\<lambda>matched.
       let rules = build_rule_evaluations ps (reconstructed_intent round_float it) ctx principal_name matched
       in Inr (Explained \<lparr>dx_decision_id = de_id de, dx_outcome = Outcome_value (de_outcome de), dx_reason = de_reason de,
            dx_policy_id = po_id p, dx_bundle_hash = po_bundle_hash p, dx_bundle_version = po_version p, dx_compiled_at = po_compiled_at p,
            dx_activated_at = po_activated_at p, dx_retired_at = po_retired_at p, dx_evaluated_at = de_created_at de, dx_rules = rules,
            dx_causal_policy_id = map_option re_policy_id (db_find re_matched rules)\<rparr>))))"

definition get_decision_explanation ::
  "(int \<Rightarrow> amount) \<Rightarrow> uuid \<Rightarrow> uuid option \<Rightarrow> db \<Rightarrow> ExplanationError + Explanation" where
  "get_decision_explanation round_float did org d =
     rbind (get_or_raise (get_decision_row d did) (ExplainedNotFoundError did)) (\<lambda>de.
     if de_policy_id de = None then Inr (ExplanationUnavailable (de_id de) ''no_policy_evaluated'')
     else if is_unevaluated_reason (de_reason de) then Inr (ExplanationUnavailable (de_id de) ''evaluation_did_not_complete'')
     else (case get_policy_row d (de_policy_id de) of
       None \<Rightarrow> Inr (ExplanationUnavailable (de_id de) ''bundle_not_found'')
     | Some p \<Rightarrow>
         if po_organization_id p \<noteq> org then Inl (ExplainedElsewhereError did) else
         rbind (rlift ExplanationRaised (manifest_policies p)) (\<lambda>manifest.
         if \<not> truthy manifest then Inr (ExplanationUnavailable (de_id de) ''bundle_manifest_not_available'')
         else (case get_earliest_evidence_for_decision d (de_id de) of
           None \<Rightarrow> Inr (ExplanationUnavailable (de_id de) ''evidence_not_available'')
         | Some ev \<Rightarrow>
             rbind (rlift ExplanationRaised (py_get (ev_payload ev) ''principal_name'')) (\<lambda>pname.
             if \<not> truthy pname then Inr (ExplanationUnavailable (de_id de) ''principal_not_resolved'') else
             rbind (rlift ExplanationRaised (as_list manifest)) (\<lambda>entries.
             rbind (reconstruct_policies d entries) (\<lambda>found.
             case found of
               None \<Rightarrow> Inr (ExplanationUnavailable (de_id de) ''historical_policy_record_missing'')
             | Some ps \<Rightarrow> rbind (rlift ExplanationRaised (as_str pname)) (\<lambda>name. explain_with round_float d de p (ev_payload ev) name ps))))))))"

section \<open>routers/intents.py: reading\<close>

definition clamp_limit :: "int \<Rightarrow> nat" where "clamp_limit limit = nat (max 1 (min limit 500))"

definition clamp_offset :: "int \<Rightarrow> nat" where "clamp_offset offset = nat (max 0 offset)"

record ResolutionSummary =
  rs_resolution :: string
  rs_resolved_by :: string
  rs_reason :: "string option"
  rs_created_at :: datetime

record PolicyFreshnessSummary =
  pf_policy_key :: string
  pf_last_attested_at :: "datetime option"
  pf_next_review_at :: "datetime option"
  pf_authority_expires_at :: "datetime option"
  pf_status :: string

record GetDecisionResponse =
  gd_id :: uuid
  gd_status :: string
  gd_outcome :: string
  gd_reason :: "string option"
  gd_agent_id :: uuid
  gd_action :: string
  gd_resource :: "string option"
  gd_amount :: "amount option"
  gd_currency :: "string option"
  gd_created_at :: datetime
  gd_evaluated_mandates :: "string list"
  gd_evaluated_mandate_ids :: "string list"
  gd_enterprise_system_id :: "uuid option"
  gd_enterprise_system_name :: "string option"
  gd_policy_version :: "int option"
  gd_policy_bundle_hash :: "string option"
  gd_authority_version :: "string option"
  gd_resolution :: "ResolutionSummary option"
  gd_source :: "string option"
  gd_principal_name :: "string option"
  gd_evidence_id :: "uuid option"
  gd_correlation_id :: "string option"
  gd_facts_evaluated :: "json list option"
  gd_matched_policy_freshness :: "PolicyFreshnessSummary option"
  gd_capability :: "CapabilitySummary option"
  gd_integration :: "ReceiptIntegrationSummary option"

definition resolution_summary :: "DecisionResolution \<Rightarrow> ResolutionSummary" where
  "resolution_summary r = \<lparr>rs_resolution = Resolution_value (dr_resolution r), rs_resolved_by = dr_resolved_by r, rs_reason = dr_reason r,
     rs_created_at = dr_created_at r\<rparr>"

definition policy_freshness :: "db \<Rightarrow> string list \<Rightarrow> datetime \<Rightarrow> PolicyFreshnessSummary option" where
  "policy_freshness d matched now = map_option (\<lambda>r. \<lparr>pf_policy_key = rr_policy_key r, pf_last_attested_at = rr_last_attested_at r,
       pf_next_review_at = rr_next_review_at r, pf_authority_expires_at = rr_authority_expires_at r, pf_status = freshness_status r now\<rparr>)
     (freshness_summary_for_matched_policies d matched)"

definition facts_or_none :: "json \<Rightarrow> py_error + json list option" where
  "facts_or_none x = (if x = JNull then Inr None else rmap Some (rbind (as_list x) (rmapM (\<lambda>f. rmap JObj (as_dict f)))))"

definition build_decision_response ::
  "(int \<Rightarrow> amount) \<Rightarrow> datetime \<Rightarrow> db \<Rightarrow> Decision \<Rightarrow> RecordError + GetDecisionResponse" where
  "build_decision_response round_float now d de =
     (let ev = get_earliest_evidence_for_decision d (de_id de);
          payload = (case ev of None \<Rightarrow> JObj [] | Some e \<Rightarrow> ev_payload e);
          resolution = map_option resolution_summary (resolution_of d (de_id de))
      in
     rbind (rlift RecordRaised (str_list_or_empty (de_evaluated_mandates de))) (\<lambda>matched.
     rbind (rlift RecordRaised (str_list_or_empty (de_evaluated_mandate_ids de))) (\<lambda>mandate_ids.
     rbind (get_or_raise (get_intent_row d (de_intent_id de)) (RecordRaised AttributeError)) (\<lambda>it.
     rbind (read_int payload ''policy_version'') (\<lambda>ver.
     rbind (read_text payload ''policy_bundle_hash'') (\<lambda>hash.
     rbind (read_text payload ''authority_version'') (\<lambda>authority.
     rbind (read_text payload ''principal_name'') (\<lambda>pname.
     rbind (rlift RecordRaised (rbind (py_get payload ''facts_evaluated'') facts_or_none)) (\<lambda>facts.
     rbind (build_receipt_integration_summary payload) (\<lambda>integration.
       Inr \<lparr>gd_id = de_id de, gd_status = (if de_outcome de = OutHumanReview \<and> resolution = None then ''PENDING'' else ''RESOLVED''),
         gd_outcome = Outcome_value (de_outcome de), gd_reason = de_reason de, gd_agent_id = it_agent_id it, gd_action = it_action it,
         gd_resource = it_resource it, gd_amount = map_option (float_of_numeric round_float) (it_amount it), gd_currency = it_currency it,
         gd_created_at = de_created_at de, gd_evaluated_mandates = matched, gd_evaluated_mandate_ids = mandate_ids,
         gd_enterprise_system_id = de_enterprise_system_id de,
         gd_enterprise_system_name = enterprise_system_name d (de_enterprise_system_id de), gd_policy_version = ver,
         gd_policy_bundle_hash = hash, gd_authority_version = authority, gd_resolution = resolution, gd_source = it_source it,
         gd_principal_name = pname, gd_evidence_id = map_option ev_id ev, gd_correlation_id = it_correlation_id it,
         gd_facts_evaluated = facts, gd_matched_policy_freshness = policy_freshness d matched now,
         gd_capability = map_option (capability_summary it) (get_latest_capability_for_decision d (de_id de)),
         gd_integration = integration\<rparr>))))))))))"

text \<open>A response model or a row that does not fit is an unhandled exception, status 500.\<close>

definition record_refusal :: "RecordError \<Rightarrow> HttpError" where
  "record_refusal e = (case e of
     RecordLookup (DecisionNotFoundError _) \<Rightarrow> HTTPException 404 ''decision_not_found''
   | RecordLookup (CrossOrganizationAccessError _) \<Rightarrow> HTTPException 404 ''decision_not_found''
   | ReceiptNotAvailableError _ \<Rightarrow> HTTPException 404 ''receipt_not_available''
   | RecordRaised p \<Rightarrow> Unhandled p
   | _ \<Rightarrow> Unhandled ValueError)"

definition explanation_refusal :: "ExplanationError \<Rightarrow> HttpError" where
  "explanation_refusal e = (case e of
     ExplainedNotFoundError _ \<Rightarrow> HTTPException 404 ''decision_not_found''
   | ExplainedElsewhereError _ \<Rightarrow> HTTPException 404 ''decision_not_found''
   | ExplanationRaised p \<Rightarrow> Unhandled p
   | ExplanationPolicy _ \<Rightarrow> Unhandled ValueError)"

text \<open>A guarded handler that reads for the caller's organization.\<close>

definition reading :: "(Organization \<Rightarrow> db \<Rightarrow> HttpError + 'a) \<Rightarrow> Organization \<Rightarrow> db \<Rightarrow> db \<times> (HttpError + 'a)" where
  "reading f org d = (d, f org d)"

definition get_decision_handler ::
  "crypto \<Rightarrow> string \<Rightarrow> (int \<Rightarrow> amount) \<Rightarrow> Headers \<Rightarrow> uuid \<Rightarrow> datetime \<Rightarrow> db \<Rightarrow> db \<times> (HttpError + GetDecisionResponse)" where
  "get_decision_handler C admin_api_key round_float h did now =
     guarded C admin_api_key DECISIONS_VIEW h now (reading (\<lambda>org d. rlift record_refusal
       (rbind (rlift RecordLookup (get_decision_for_organization d did (Some (org_id org)))) (build_decision_response round_float now d))))"

record DecisionListResponse =
  dl_decisions :: "GetDecisionResponse list"
  dl_total :: nat
  dl_limit :: nat
  dl_offset :: nat

definition list_decisions_handler ::
  "crypto \<Rightarrow> string \<Rightarrow> (int \<Rightarrow> amount) \<Rightarrow> Headers \<Rightarrow> int \<Rightarrow> int \<Rightarrow> datetime \<Rightarrow> db \<Rightarrow> db \<times> (HttpError + DecisionListResponse)" where
  "list_decisions_handler C admin_api_key round_float h limit offset now =
     guarded C admin_api_key DECISIONS_VIEW h now (reading (\<lambda>org d.
       let (rows, total) = list_pending_decisions_for_organization d (Some (org_id org)) (clamp_limit limit) (clamp_offset offset)
       in rlift record_refusal (rmap (\<lambda>items. \<lparr>dl_decisions = items, dl_total = total, dl_limit = clamp_limit limit, dl_offset = clamp_offset offset\<rparr>)
            (rmapM (build_decision_response round_float now d) rows))))"

record DecisionHistoryItem =
  dh_id :: uuid
  dh_created_at :: datetime
  dh_agent_id :: uuid
  dh_agent_name :: "string option"
  dh_principal_name :: "string option"
  dh_action :: string
  dh_resource :: "string option"
  dh_outcome :: string
  dh_reason :: "string option"
  dh_matched_policy_name :: "string option"
  dh_source :: "string option"
  dh_has_evidence :: bool
  dh_human_review_state :: "string option"
  dh_correlation_id :: "string option"

text \<open>The newest version of the first matched key that has one; a key that is no identifier is skipped.\<close>

fun matched_policy_name :: "db \<Rightarrow> string list \<Rightarrow> py_error + string option" where
  "matched_policy_name d [] = Inr None"
| "matched_policy_name d (key # keys) = (case parse_uuid key of
     None \<Rightarrow> matched_policy_name d keys
   | Some k \<Rightarrow> (case sort_key (\<lambda>r. - rr_version r) (filter (\<lambda>r. rr_policy_key r = k) (runtime_policy_records d)) of
       [] \<Rightarrow> matched_policy_name d keys
     | r # _ \<Rightarrow> rbind (py_get (rr_content r) ''name'') as_opt_str))"

definition build_decision_history_item :: "db \<Rightarrow> Decision \<Rightarrow> RecordError + DecisionHistoryItem" where
  "build_decision_history_item d de =
     rbind (rlift RecordRaised (str_list_or_empty (de_evaluated_mandates de))) (\<lambda>keys.
     rbind (rlift RecordRaised (matched_policy_name d keys)) (\<lambda>pname.
     rbind (get_or_raise (get_intent_row d (de_intent_id de)) (RecordRaised AttributeError)) (\<lambda>it.
       let a = get_agent_row d (it_agent_id it)
       in Inr \<lparr>dh_id = de_id de, dh_created_at = de_created_at de, dh_agent_id = it_agent_id it, dh_agent_name = map_option ag_name a,
            dh_principal_name = map_option pr_name (Option.bind a (\<lambda>a. get_principal_row d (ag_acting_for_principal_id a))),
            dh_action = it_action it, dh_resource = it_resource it, dh_outcome = Outcome_value (de_outcome de), dh_reason = de_reason de,
            dh_matched_policy_name = pname, dh_source = it_source it,
            dh_has_evidence = list_ex (\<lambda>e. ev_decision_id e = de_id de) (evidence d),
            dh_human_review_state = (if de_outcome de = OutHumanReview
              then Some (if resolution_of d (de_id de) \<noteq> None then ''resolved'' else ''pending'') else None),
            dh_correlation_id = it_correlation_id it\<rparr>)))"

record DecisionHistoryResponse =
  hr_decisions :: "DecisionHistoryItem list"
  hr_total :: nat
  hr_limit :: nat
  hr_offset :: nat

text \<open>The filters of the request; an outcome that is none of the three selects nothing.\<close>

record HistoryFilters =
  hf_outcome :: "string option"
  hf_agent_id :: "uuid option"
  hf_action :: "string option"
  hf_resource :: "string option"
  hf_source :: "string option"

definition outcome_named :: "string \<Rightarrow> Outcome option" where
  "outcome_named s = enum_of [OutAllow, OutDeny, OutHumanReview] Outcome_value s"

definition history_rows :: "db \<Rightarrow> uuid \<Rightarrow> nat \<Rightarrow> nat \<Rightarrow> HistoryFilters \<Rightarrow> Decision list \<times> nat" where
  "history_rows d oid limit offset f = (case hf_outcome f of
     Some s \<Rightarrow> (case outcome_named s of
         None \<Rightarrow> ([], 0)
       | Some out \<Rightarrow> list_decision_history d (Some oid) limit offset (Some out) (hf_agent_id f) (hf_action f) (hf_resource f) (hf_source f) None None)
   | None \<Rightarrow> list_decision_history d (Some oid) limit offset None (hf_agent_id f) (hf_action f) (hf_resource f) (hf_source f) None None)"

definition list_decision_history_handler ::
  "crypto \<Rightarrow> string \<Rightarrow> Headers \<Rightarrow> int \<Rightarrow> int \<Rightarrow> HistoryFilters \<Rightarrow> datetime \<Rightarrow> db \<Rightarrow> db \<times> (HttpError + DecisionHistoryResponse)" where
  "list_decision_history_handler C admin_api_key h limit offset f now =
     guarded C admin_api_key DECISIONS_VIEW h now (reading (\<lambda>org d.
       let (rows, total) = history_rows d (org_id org) (clamp_limit limit) (clamp_offset offset) f
       in rlift record_refusal (rmap (\<lambda>items. \<lparr>hr_decisions = items, hr_total = total, hr_limit = clamp_limit limit, hr_offset = clamp_offset offset\<rparr>)
            (rmapM (build_decision_history_item d) rows))))"

record DecisionPolicyBindingResponse =
  db_decision_id :: uuid
  db_policy_id :: uuid
  db_bundle_hash :: string
  db_bundle_version :: int
  db_compiled_at :: "datetime option"
  db_activated_at :: "datetime option"
  db_retired_at :: "datetime option"
  db_policies :: "PolicyManifestEntry list"

definition decision_policy_binding :: "uuid \<Rightarrow> Organization \<Rightarrow> db \<Rightarrow> HttpError + DecisionPolicyBindingResponse" where
  "decision_policy_binding did org d =
     rbind (get_or_raise (get_decision_row d did) (HTTPException 404 ''decision_not_found'')) (\<lambda>de.
     rbind (raise_if (de_policy_id de = None) (HTTPException 404 ''no_policy_bound'')) (\<lambda>_.
     rbind (get_or_raise (get_policy_row d (de_policy_id de)) (HTTPException 404 ''decision_not_found'')) (\<lambda>p.
     rbind (raise_if (po_organization_id p \<noteq> Some (org_id org)) (HTTPException 404 ''decision_not_found'')) (\<lambda>_.
     rmap (\<lambda>entries. \<lparr>db_decision_id = de_id de, db_policy_id = po_id p, db_bundle_hash = po_bundle_hash p, db_bundle_version = po_version p,
         db_compiled_at = po_compiled_at p, db_activated_at = po_activated_at p, db_retired_at = po_retired_at p, db_policies = entries\<rparr>)
       (rlift record_refusal (manifest_entries p))))))"

definition get_decision_policy_binding ::
  "crypto \<Rightarrow> string \<Rightarrow> Headers \<Rightarrow> uuid \<Rightarrow> datetime \<Rightarrow> db \<Rightarrow> db \<times> (HttpError + DecisionPolicyBindingResponse)" where
  "get_decision_policy_binding C admin_api_key h did now =
     guarded C admin_api_key RUNTIME_POLICY_VIEW h now (reading (decision_policy_binding did))"

definition get_authorization_receipt_handler ::
  "crypto \<Rightarrow> Settings \<Rightarrow> string \<Rightarrow> (int \<Rightarrow> amount) \<Rightarrow> Headers \<Rightarrow> uuid \<Rightarrow> datetime \<Rightarrow> db \<Rightarrow> db \<times> (HttpError + AuthorizationReceiptResponse)" where
  "get_authorization_receipt_handler C S admin_api_key round_float h did now =
     guarded C admin_api_key EVIDENCE_VIEW h now (reading (\<lambda>org d.
       rlift record_refusal (get_authorization_receipt C S round_float did (Some (org_id org)) now d)))"

definition get_decision_explanation_handler ::
  "crypto \<Rightarrow> string \<Rightarrow> (int \<Rightarrow> amount) \<Rightarrow> Headers \<Rightarrow> uuid \<Rightarrow> datetime \<Rightarrow> db \<Rightarrow> db \<times> (HttpError + Explanation)" where
  "get_decision_explanation_handler C admin_api_key round_float h did now =
     guarded C admin_api_key RUNTIME_POLICY_VIEW h now (reading (\<lambda>org d.
       rlift explanation_refusal (get_decision_explanation round_float did (Some (org_id org)) d)))"

end
