(* ===== verification/Record_Truth.thy ===== *)
theory Record_Truth
  imports Decision_Record Access_Truth Simulation_Truth "HOL-Library.Sublist"
begin

text \<open>
  What the reading side promises: a receipt stays what it was while the server runs on, and the decisions an organization is shown
  are its own. The section of findings exhibits where the code falls short of its comments.
\<close>

section \<open>The server only adds to the records\<close>

definition face :: "Agent \<Rightarrow> uuid \<times> string \<times> uuid" where
  "face a = (ag_id a, ag_name a, ag_acting_for_principal_id a)"

definition faces :: "db \<Rightarrow> (uuid \<times> string \<times> uuid) list" where
  "faces d = map face (agents d)"

definition surroundings :: "db \<Rightarrow> (uuid \<times> string \<times> uuid) list \<times> Principal list \<times> Policy list" where
  "surroundings d = (faces d, principals d, policies d)"

lemma face_touch: "(\<And>a. face (f a) = face a) \<Longrightarrow> face (touch now f a) = face a"
  by (simp add: touch_def face_def)

lemma surroundings_update [simp]:
  "(\<And>a. face (f a) = face a) \<Longrightarrow> surroundings (update_agent aid now f d) = surroundings d"
  "surroundings (update_certificate cid g d) = surroundings d"
  "surroundings (update_found_certificate P g d) = surroundings d"
  "surroundings (d\<lparr>certificates := cs\<rparr>) = surroundings d"
  by (auto simp: surroundings_def faces_def update_agent_def update_certificate_def update_found_certificate_def db_update_def face_touch
      split: option.splits)

lemma append_audit_event_surroundings:
  "append_audit_event C S aid ty actor det eid now d = Inr d' \<Longrightarrow> surroundings d' = surroundings d"
  by (auto simp: append_audit_event_def Let_def surroundings_def faces_def split: option.splits)

lemma face_fields [simp]:
  "face (a\<lparr>ag_status := s\<rparr>) = face a" "face (a\<lparr>ag_owner := ow, ag_business_unit := bu\<rparr>) = face a"
  "face (a\<lparr>ag_rotation_requested_at := x\<rparr>) = face a"
  "face (set_field f a) = face a"
  by (simp_all add: face_def) (cases f; simp)

lemma face_metadata [simp]: "face (fold (\<lambda>f. case f of None \<Rightarrow> id | Some f \<Rightarrow> set_field f) fs a) = face a"
  by (induction fs arbitrary: a) (auto split: option.splits)

lemma face_heartbeat [simp]:
  "face (a\<lparr>ag_last_seen_at := t, ag_version := v, ag_sdk_version := s, ag_runtime := r\<rparr>) = face a"
  by (simp add: face_def)

text \<open>Tables of records grow at the end; what identifies an agent, a principal and a bundle stays.\<close>

definition keeps :: "db \<Rightarrow> db \<Rightarrow> bool" where
  "keeps d d' = (prefix (intents d) (intents d') \<and> prefix (decisions d) (decisions d') \<and> prefix (evidence d) (evidence d')
     \<and> prefix (decision_resolutions d) (decision_resolutions d') \<and> signing_keys d' = signing_keys d
     \<and> prefix (faces d) (faces d') \<and> prefix (principals d) (principals d') \<and> policies d' = policies d)"

lemma keeps_refl: "keeps d d" by (simp add: keeps_def)

lemma keeps_trans: "keeps d d' \<Longrightarrow> keeps d' d'' \<Longrightarrow> keeps d d''"
  by (auto simp: keeps_def intro: prefix_order.trans)

definition settled :: "db \<Rightarrow> db \<Rightarrow> bool" where
  "settled d d' = (prefix (faces d) (faces d') \<and> prefix (principals d) (principals d') \<and> policies d' = policies d)"

lemma surroundings_settled: "surroundings d' = surroundings d \<Longrightarrow> settled d d'"
  by (simp add: surroundings_def settled_def)

lemma agent_step_settled: "agent_step d d' \<Longrightarrow> settled d d'"
proof (induction rule: agent_step.induct)
  case (principal nm org rl bu dep tm pid now d d' p)
  then show ?case by (auto simp: settled_def faces_def create_principal_def Let_def)
next
  case (create C S nm pid org pk own descr aid cid eid now d d' r)
  then show ?case
    by (auto simp: settled_def faces_def create_agent_def append_audit_event_def Let_def split: option.splits if_splits)
qed (auto intro!: surroundings_settled
    simp: activate_agent_def suspend_agent_def retire_agent_def revoke_agent_def rotate_certificate_def request_certificate_rotation_def
      record_heartbeat_def transfer_owner_def update_agent_metadata_def Let_def
    dest!: append_audit_event_surroundings returning_Inr split: option.splits if_splits)

lemma org_step_settled: "org_step d d' \<Longrightarrow> settled d d'"
  by (cases rule: org_step.cases)
    (auto simp: create_organization_def deactivate_organization_def reactivate_organization_def archive_organization_def invite_member_def
      revoke_invitation_def set_organization_def set_invitation_def get_organization_def accept_invitation_def settled_def faces_def Let_def
      split: option.splits if_splits)

lemma fact_step_settled:
  "register_fact_source oid nm pk sid now d = (d', s) \<Longrightarrow> settled d d'"
  "revoke_fact_source oid sid now d = Inr (d', s) \<Longrightarrow> settled d d'"
  "ingest_fact C oid sid sub key val ob ex nonce sg fid now d = Inr (d', f) \<Longrightarrow> settled d d'"
  by (auto simp: register_fact_source_def revoke_fact_source_def ingest_fact_def settled_def faces_def Let_def split: option.splits if_splits)

lemma settled_keeps: "settled d d' \<Longrightarrow> records d' = records d \<Longrightarrow> keeps d d'"
  by (simp add: settled_def keeps_def records_def)

lemma server_step_keeps:
  assumes "server_step C d d'"
  shows "keeps d d'"
proof -
  have ag: "keeps d d'" if "agent_step d d'" using that agent_step_settled agent_step_records settled_keeps by blast
  have og: "keeps d d'" if "org_step d d'" using that org_step_settled org_step_records settled_keeps by blast
  from assms show ?thesis
  proof cases
    case (register_source oid nm pk sid now s)
    show ?thesis using fact_step_settled(1) [OF register_source] fact_records(1) [OF register_source] by (simp add: settled_keeps)
  next
    case (revoke_source oid sid now s)
    show ?thesis using fact_step_settled(2) [OF revoke_source] fact_records(2) [OF revoke_source] by (simp add: settled_keeps)
  next
    case (ingest oid sid sub key val ob ex nonce sg fid now f)
    show ?thesis using fact_step_settled(3) [OF ingest] fact_records(3) [OF ingest] by (simp add: settled_keeps)
  next
    case (submit E ids a act amt cur cp ctx ra nonce corr res src now it de ev)
    then show ?thesis using submission_effect [OF submit(1)] by (auto simp: keeps_def recorded_def faces_def)
  next
    case (resolve E rf rid eid did org res by_whom why uid now row)
    from resolve(1) show ?thesis by (rule resolve_decisionD) (simp add: keeps_def faces_def)
  next
    case (issue S cid nonce oid did audience issued_by ttl now ic)
    from issue(1) show ?thesis by (rule issue_for_decisionD) (auto dest!: issue_and_persist_row simp: keeps_def faces_def)
  next
    case (issue_reviewed S cid nonce oid did audience issued_by ttl now ic)
    from issue_reviewed(1) show ?thesis by (rule issue_for_reviewD) (auto dest!: issue_and_persist_row simp: keeps_def faces_def)
  next
    case (consume token X now cc)
    then show ?thesis by (rule consumeD) (simp add: keeps_def faces_def)
  qed (rule ag, assumption, rule og, assumption)
qed

lemma server_run_keeps: "(server_step C)\<^sup>*\<^sup>* d d' \<Longrightarrow> keeps d d'"
  by (induction rule: rtranclp_induct) (auto intro: keeps_refl keeps_trans server_step_keeps)

section \<open>Receipts\<close>

lemma db_find_prefix: "prefix xs ys \<Longrightarrow> db_find P xs = Some r \<Longrightarrow> db_find P ys = Some r"
  by (auto simp: prefix_def row_simps)

lemma db_find_face:
  "map_option face (db_find (\<lambda>a. ag_id a = i) xs) = db_find (\<lambda>f. fst f = i) (map face xs)"
  by (induction xs) (auto simp: face_def)

lemma agent_row_face:
  "keeps d d' \<Longrightarrow> get_agent_row d i = Some a \<Longrightarrow> \<exists>a'. get_agent_row d' i = Some a' \<and> face a' = face a"
proof -
  assume k: "keeps d d'" and a: "get_agent_row d i = Some a"
  have "db_find (\<lambda>f. fst f = i) (faces d) = Some (face a)" using a db_find_face [of i "agents d"] by (simp add: get_agent_row_def faces_def)
  then have "db_find (\<lambda>f. fst f = i) (faces d') = Some (face a)" using k db_find_prefix by (auto simp: keeps_def)
  then show ?thesis using db_find_face [of i "agents d'"] by (auto simp: get_agent_row_def faces_def)
qed

lemma scope_keeps:
  assumes "keeps d d'" and "resolve_chain_scope d i = Some oid"
  shows "resolve_chain_scope d' i = Some oid"
proof -
  from assms(2) obtain a p where a: "get_agent_row d i = Some a" "get_principal_row d (ag_acting_for_principal_id a) = Some p"
      "pr_organization_id p = Some oid" by (auto simp: resolve_chain_scope_def split: option.splits)
  obtain a' where a': "get_agent_row d' i = Some a'" "face a' = face a" using agent_row_face [OF assms(1) a(1)] by blast
  have "get_principal_row d' (ag_acting_for_principal_id a) = Some p"
    using a(2) assms(1) db_find_prefix by (auto simp: get_principal_row_def keeps_def)
  then show ?thesis using a' a(3) by (simp add: resolve_chain_scope_def face_def)
qed

text \<open>The first record of a decision stays the first one as long as the later ones carry later times.\<close>

lemma sort_key_least:
  assumes "e \<in> set xs" and "\<And>x. x \<in> set xs \<Longrightarrow> x = e \<or> k e < (k x :: 'k::linorder)"
  shows "\<exists>rest. sort_key k xs = e # rest"
proof (cases "sort_key k xs")
  case Nil
  then show ?thesis using assms(1) by (metis empty_iff list.set(1) set_sort)
next
  case (Cons y rest)
  then have y: "y \<in> set xs" "e \<in> set (y # rest)" using assms(1) by (metis list.set_intros(1) set_sort)+
  have "sorted (map k (y # rest))" using Cons by (metis sorted_sort_key)
  then have "k y \<le> k e" using y(2) by auto
  then show ?thesis using assms(2) [OF y(1)] Cons by auto
qed

lemma earliest_least:
  assumes "distinct (map ev_id (evidence d))" and "get_earliest_evidence_for_decision d did = Some e"
  shows "e \<in> set (evidence d) \<and> ev_decision_id e = did
    \<and> (\<forall>x \<in> set (evidence d). ev_decision_id x = did \<longrightarrow> x = e \<or> (ev_created_at e, ev_id e) < (ev_created_at x, ev_id x))"
proof -
  let ?k = "\<lambda>ev. (ev_created_at ev, ev_id ev)"
  let ?xs = "filter (\<lambda>ev. ev_decision_id ev = did) (evidence d)"
  obtain rest where s: "sort_key ?k ?xs = e # rest"
    using assms(2) by (auto simp: get_earliest_evidence_for_decision_def split: list.splits)
  then have xs: "set ?xs = set (e # rest)" by (metis set_sort)
  have "x = e \<or> ?k e < ?k x" if "x \<in> set ?xs" for x
  proof -
    have "sorted (map ?k (e # rest))" using s by (metis sorted_sort_key)
    then have "?k e \<le> ?k x" using that xs by auto
    moreover have "?k e = ?k x \<Longrightarrow> x = e" using assms(1) that xs by (auto simp: distinct_map dest: inj_onD)
    ultimately show ?thesis by (auto simp: order.order_iff_strict)
  qed
  moreover have "e \<in> set ?xs" using xs by simp
  ultimately show ?thesis by auto
qed

lemma earliest_keeps:
  assumes "distinct (map ev_id (evidence d))" and "get_earliest_evidence_for_decision d did = Some e" and "keeps d d'"
    and "\<And>x. \<lbrakk>x \<in> set (evidence d'); x \<notin> set (evidence d); ev_decision_id x = did\<rbrakk> \<Longrightarrow> ev_created_at e < ev_created_at x"
  shows "get_earliest_evidence_for_decision d' did = Some e"
proof -
  let ?xs = "filter (\<lambda>ev. ev_decision_id ev = did) (evidence d')"
  note l = earliest_least [OF assms(1,2)]
  have "e \<in> set ?xs" using l assms(3) set_mono_prefix by (auto simp: keeps_def)
  moreover have "x = e \<or> (ev_created_at e, ev_id e) < (ev_created_at x, ev_id x)" if "x \<in> set ?xs" for x
    using l assms(4) [of x] that by (cases "x \<in> set (evidence d)") auto
  ultimately obtain rest where "sort_key (\<lambda>ev. (ev_created_at ev, ev_id ev)) ?xs = e # rest"
    using sort_key_least [of e ?xs "\<lambda>ev. (ev_created_at ev, ev_id ev)"] by blast
  then show ?thesis by (simp add: get_earliest_evidence_for_decision_def)
qed

lemma verified_row:
  assumes "verify_evidence C S d i org = Inr v" and "get_evidence_row d i = Some e"
  shows "ev_organization_id e = org"
  using assms by (auto simp: verify_evidence_def get_evidence_def split: option.splits if_splits)

lemma decision_of_organization:
  assumes "get_decision_for_organization d did org = Inr de"
  obtains it where "get_decision_row d did = Some de" "de_id de = did" "get_intent_row d (de_intent_id de) = Some it"
    "resolve_chain_scope d (it_agent_id it) = org"
proof -
  from assms have "get_decision_row d did = Some de"
    by (auto simp: get_decision_for_organization_def split: option.splits if_splits)
  with assms that get_decision_rowD [OF this] show thesis
    by (auto simp: get_decision_for_organization_def split: option.splits if_splits)
qed

lemma scope_agent: "resolve_chain_scope d i = Some oid \<Longrightarrow> \<exists>a. get_agent_row d i = Some a"
  by (auto simp: resolve_chain_scope_def split: option.splits)

lemma decision_keeps:
  assumes "keeps d d'" and "get_decision_for_organization d did (Some oid) = Inr de"
  shows "get_decision_for_organization d' did (Some oid) = Inr de"
    and "get_intent_row d (de_intent_id de) = Some it \<Longrightarrow> get_intent_row d' (de_intent_id de) = Some it"
proof -
  from assms(2) obtain it where it: "get_decision_row d did = Some de" "get_intent_row d (de_intent_id de) = Some it"
      "resolve_chain_scope d (it_agent_id it) = Some oid"
    by (rule decision_of_organization)
  have "get_decision_row d' did = Some de" "get_intent_row d' (de_intent_id de) = Some it"
    using it assms(1) db_find_prefix by (auto simp: get_decision_row_def get_intent_row_def keeps_def)
  with scope_keeps [OF assms(1) it(3)] show "get_decision_for_organization d' did (Some oid) = Inr de"
    by (simp add: get_decision_for_organization_def)
  show "get_intent_row d (de_intent_id de) = Some it \<Longrightarrow> get_intent_row d' (de_intent_id de) = Some it" for it
    using assms(1) db_find_prefix by (auto simp: get_intent_row_def keeps_def)
qed

definition same_receipt :: "AuthorizationReceiptResponse \<Rightarrow> AuthorizationReceiptResponse \<Rightarrow> bool" where
  "same_receipt r r' = (rx_receipt_id r' = rx_receipt_id r \<and> rx_decision r' = rx_decision r \<and> rx_actor r' = rx_actor r
     \<and> rx_request r' = rx_request r \<and> rx_authority r' = rx_authority r \<and> rx_facts r' = rx_facts r
     \<and> rx_integration r' = rx_integration r \<and> rx_evidence r' = rx_evidence r
     \<and> (rx_human_review r \<noteq> None \<longrightarrow> rx_human_review r' = rx_human_review r))"


section \<open>Whose decisions are shown\<close>

definition owned :: "db \<Rightarrow> uuid \<Rightarrow> uuid \<Rightarrow> bool" where
  "owned d oid did = (\<exists>de \<in> set (decisions d). de_id de = did \<and> in_organization d (Some oid) de)"

lemma reading_admitted:
  assumes "guarded C key perm h now (reading f) d = (d1, Inr x)"
  obtains org where "admitted C key perm h now d org d1" "f org d1 = Inr x"
proof -
  from assms obtain u org where "require_permission C key perm h now d = (d1, Inr u)" "get_current_organization C key h now d1 = Inr org"
      "f org d1 = Inr x" by (auto simp: guarded_def reading_def split: prod.splits sum.splits)
  with that passes_iff show thesis by blast
qed

lemma lookup_owned:
  assumes "get_decision_for_organization d did (Some oid) = Inr de"
  shows "de_id de = did \<and> owned d oid did"
  using assms
proof (rule decision_of_organization)
  fix it
  assume s: "get_decision_row d did = Some de" "de_id de = did" "get_intent_row d (de_intent_id de) = Some it"
    "resolve_chain_scope d (it_agent_id it) = Some oid"
  then show ?thesis using get_decision_rowD [OF s(1)]
    by (auto simp: owned_def in_organization_def resolve_chain_scope_def split: option.splits)
qed

lemma response_id: "build_decision_response rf now d de = Inr r \<Longrightarrow> gd_id r = de_id de"
  by (auto simp: build_decision_response_def Let_def)

lemma history_item_id: "build_decision_history_item d de = Inr r \<Longrightarrow> dh_id r = de_id de"
  by (auto simp: build_decision_history_item_def Let_def)

lemma rmapM_source: "rmapM f xs = Inr ys \<Longrightarrow> y \<in> set ys \<Longrightarrow> \<exists>x \<in> set xs. f x = Inr y"
  by (induction xs arbitrary: ys) auto

lemma pending_owned:
  "list_pending_decisions_for_organization d (Some oid) n m = (rows, n') \<Longrightarrow> de \<in> set rows \<Longrightarrow> owned d oid (de_id de) \<and> length rows \<le> n"
  by (auto simp: list_pending_decisions_for_organization_def pending_decisions_def owned_def dest!: in_set_takeD in_set_dropD)

lemma history_owned:
  "history_rows d oid n m f = (rows, n') \<Longrightarrow> de \<in> set rows \<Longrightarrow> owned d oid (de_id de) \<and> length rows \<le> n"
  by (auto simp: history_rows_def list_decision_history_def Let_def owned_def dest!: in_set_takeD in_set_dropD split: option.splits)

lemma explained_from:
  assumes "get_decision_explanation rf did org d = Inr (Explained x)"
  obtains de p ev entries name ps where "get_decision_row d did = Some de" "get_policy_row d (de_policy_id de) = Some p"
    "po_organization_id p = org" "get_earliest_evidence_for_decision d (de_id de) = Some ev" "reconstruct_policies d entries = Inr (Some ps)"
    "manifest_policies p = Inr (JList entries)" "py_get (ev_payload ev) ''principal_name'' = Inr (JStr name)"
    "explain_with rf d de p (ev_payload ev) name ps = Inr (Explained x)"
proof -
  from assms obtain de where de: "get_decision_row d did = Some de" "de_policy_id de \<noteq> None" "\<not> is_unevaluated_reason (de_reason de)"
    by (auto simp: get_decision_explanation_def split: if_splits)
  note r = assms [unfolded get_decision_explanation_def, simplified, simplified de, simplified]
  obtain p where p: "get_policy_row d (de_policy_id de) = Some p" using r de by (auto split: option.splits)
  note r = r [simplified de p, simplified]
  have o: "po_organization_id p = org" using r de p by (auto split: if_splits)
  obtain manifest where m: "manifest_policies p = Inr manifest" "truthy manifest" using r de p o by (auto split: if_splits)
  obtain ev where ev: "get_earliest_evidence_for_decision d (de_id de) = Some ev" using r de p o m by (auto split: option.splits)
  obtain pname where n: "py_get (ev_payload ev) ''principal_name'' = Inr pname" "truthy pname" using r de p o m ev by (auto split: if_splits)
  obtain entries ps where e: "as_list manifest = Inr entries" "reconstruct_policies d entries = Inr (Some ps)"
    using r de p o m ev n by (auto split: option.splits)
  obtain name where a: "as_str pname = Inr name" "explain_with rf d de p (ev_payload ev) name ps = Inr (Explained x)"
    using r de p o m ev n e by auto
  have "manifest = JList entries" using e(1) by (cases manifest) auto
  moreover have "pname = JStr name" using a(1) by (cases pname) auto
  ultimately show thesis using that de p o ev e a m n by blast
qed

text \<open>C23: an organization is shown its own decisions only. Whatever a caller reads (one decision, the review queue, the history, a
  receipt), the caller was admitted for an organization with the permission of the route, and every decision
  shown was made for an agent of that organization; a policy binding and an explanation come from a bundle of that organization.\<close>

theorem decision_reads_scoped:
  shows "(get_decision_handler C key rf h did now d = (d1, Inr r) \<longrightarrow>
      (\<exists>org. admitted C key DECISIONS_VIEW h now d org d1 \<and> gd_id r = did \<and> owned d1 (org_id org) did))
    \<and> (list_decisions_handler C key rf h limit offset now d = (d1, Inr l) \<longrightarrow>
      (\<exists>org. admitted C key DECISIONS_VIEW h now d org d1 \<and> (\<forall>x \<in> set (dl_decisions l). owned d1 (org_id org) (gd_id x))))
    \<and> (list_decision_history_handler C key h limit offset f now d = (d1, Inr hs) \<longrightarrow>
      (\<exists>org. admitted C key DECISIONS_VIEW h now d org d1 \<and> (\<forall>x \<in> set (hr_decisions hs). owned d1 (org_id org) (dh_id x))))
    \<and> (get_authorization_receipt_handler C S key rf h did now d = (d1, Inr rc) \<longrightarrow>
      (\<exists>org. admitted C key EVIDENCE_VIEW h now d org d1 \<and> rd_decision_id (rx_decision rc) = did \<and> owned d1 (org_id org) did))
    \<and> (get_decision_policy_binding C key h did now d = (d1, Inr b) \<longrightarrow>
      (\<exists>org p. admitted C key RUNTIME_POLICY_VIEW h now d org d1 \<and> p \<in> set (policies d1) \<and> po_id p = db_policy_id b
         \<and> po_organization_id p = Some (org_id org)))
    \<and> (get_decision_explanation_handler C key rf h did now d = (d1, Inr (Explained x)) \<longrightarrow>
      (\<exists>org p. admitted C key RUNTIME_POLICY_VIEW h now d org d1 \<and> p \<in> set (policies d1) \<and> po_id p = dx_policy_id x
         \<and> po_organization_id p = Some (org_id org)))"
proof (intro conjI impI)
  assume "get_decision_handler C key rf h did now d = (d1, Inr r)"
  then show "\<exists>org. admitted C key DECISIONS_VIEW h now d org d1 \<and> gd_id r = did \<and> owned d1 (org_id org) did"
    unfolding get_decision_handler_def by (rule reading_admitted) (auto dest: lookup_owned response_id)
next
  assume "list_decisions_handler C key rf h limit offset now d = (d1, Inr l)"
  then show "\<exists>org. admitted C key DECISIONS_VIEW h now d org d1 \<and> (\<forall>x \<in> set (dl_decisions l). owned d1 (org_id org) (gd_id x))"
    unfolding list_decisions_handler_def
    by (rule reading_admitted) (force dest: pending_owned response_id rmapM_source split: prod.splits)
next
  assume "list_decision_history_handler C key h limit offset f now d = (d1, Inr hs)"
  then show "\<exists>org. admitted C key DECISIONS_VIEW h now d org d1 \<and> (\<forall>x \<in> set (hr_decisions hs). owned d1 (org_id org) (dh_id x))"
    unfolding list_decision_history_handler_def
    by (rule reading_admitted) (force dest: history_owned history_item_id rmapM_source split: prod.splits)
next
  assume "get_authorization_receipt_handler C S key rf h did now d = (d1, Inr rc)"
  then show "\<exists>org. admitted C key EVIDENCE_VIEW h now d org d1 \<and> rd_decision_id (rx_decision rc) = did \<and> owned d1 (org_id org) did"
    unfolding get_authorization_receipt_handler_def
    by (rule reading_admitted) (auto simp: get_authorization_receipt_def Let_def dest!: lookup_owned)
next
  assume "get_decision_policy_binding C key h did now d = (d1, Inr b)"
  then show "\<exists>org p. admitted C key RUNTIME_POLICY_VIEW h now d org d1 \<and> p \<in> set (policies d1) \<and> po_id p = db_policy_id b
       \<and> po_organization_id p = Some (org_id org)"
    unfolding get_decision_policy_binding_def
    by (rule reading_admitted) (auto simp: decision_policy_binding_def get_policy_row_def bind_eq_Some_conv dest!: db_find_Some; blast)
next
  assume "get_decision_explanation_handler C key rf h did now d = (d1, Inr (Explained x))"
  then show "\<exists>org p. admitted C key RUNTIME_POLICY_VIEW h now d org d1 \<and> p \<in> set (policies d1) \<and> po_id p = dx_policy_id x
       \<and> po_organization_id p = Some (org_id org)"
    unfolding get_decision_explanation_handler_def
  proof (rule reading_admitted)
    fix org
    assume a: "admitted C key RUNTIME_POLICY_VIEW h now d org d1"
      and "rlift explanation_refusal (get_decision_explanation rf did (Some (org_id org)) d1) = Inr (Explained x)"
    from this(2) have "get_decision_explanation rf did (Some (org_id org)) d1 = Inr (Explained x)" by simp
    then show ?thesis
    proof (rule explained_from)
      fix de p ev entries name ps
      assume p: "get_policy_row d1 (de_policy_id de) = Some p" "po_organization_id p = Some (org_id org)"
        and e: "explain_with rf d1 de p (ev_payload ev) name ps = Inr (Explained x)"
      have "dx_policy_id x = po_id p" using e by (auto simp: explain_with_def Let_def)
      moreover have "p \<in> set (policies d1)" using p(1) by (auto simp: get_policy_row_def bind_eq_Some_conv dest!: db_find_Some)
      ultimately show ?thesis using a p(2) by (intro exI [of _ org] exI [of _ p]) simp
    qed
  qed
qed

section \<open>A receipt that is read\<close>

lemma text_entries:
  "map_of (case x of None \<Rightarrow> [] | Some v \<Rightarrow> f v) k = (case x of None \<Rightarrow> None | Some v \<Rightarrow> map_of (f v) k)"
  by (cases x) simp_all

lemma text_none [simp]: "(case x of None \<Rightarrow> None | Some v \<Rightarrow> None) = None"
  by (cases x) simp_all

lemma map_of_opt_entry [simp]: "map_of (opt_entry k x) k' = (if k = k' then map_option JStr x else None)"
  by (simp add: opt_entry_def split: option.splits)

lemma map_of_list_entry [simp]: "map_of (list_entry k xs) k' = (if k = k' \<and> xs \<noteq> [] then Some (JList xs) else None)"
  by (simp add: list_entry_def)

lemma facts_read: "rmapM receipt_fact_entry (map fact_snapshot fs) = Inr (map (\<lambda>f. \<lparr>rf_key = fa_key f, rf_value = fa_value f,
    rf_subject = fa_subject f, rf_source_id = Some (fa_source_id f), rf_observed_at = Some (isoformat (fa_observed_at f)),
    rf_expires_at = Some (isoformat (fa_expires_at f))\<rparr>) fs)"
proof (induction fs)
  case (Cons f fs)
  then show ?case
    by (cases "fa_subject f") (simp_all add: receipt_fact_entry_def fact_snapshot_def py_get_def py_get_or_def opt_str_def)
qed simp

lemma payload_truthy: "payload_or_empty (Some e) = ev_payload e" if "ev_payload e = build_evidence_payload A risk prev aids sys now"
  using that by (simp add: payload_or_empty_def py_or_def build_evidence_payload_def Let_def)

lemma payload_reads:
  fixes A risk prev aids sys now
  defines "P \<equiv> build_evidence_payload A risk prev aids sys now"
  shows "is_ok (read_text P ''principal_id'')" "is_ok (read_text P ''principal_name'')" "is_ok (read_text P ''previous_hash'')"
    "is_ok (read_text P ''authority_version'')" "is_ok (read_text P ''policy_bundle_hash'')" "is_ok (read_int P ''policy_version'')"
    "is_ok (build_receipt_integration_summary P)"
    "ea_facts_evaluated A = map fact_snapshot fs \<Longrightarrow> is_ok (receipt_facts P)"
proof -
  have rd: "is_ok (read_text P k)" if "py_get P k = Inr (str_or_null x)" for k x
    using that by (cases x) (simp_all add: read_text_def str_or_null_def)
  have keys: "py_get P ''principal_id'' = Inr (str_or_null (ea_principal_id A))" "py_get P ''principal_name'' = Inr (str_or_null (ea_principal_name A))"
    "py_get P ''previous_hash'' = Inr (str_or_null prev)" "py_get P ''authority_version'' = Inr (str_or_null (ea_authority_version A))"
    "py_get P ''policy_bundle_hash'' = Inr (str_or_null (ea_policy_bundle_hash A))"
    "py_get P ''policy_version'' = Inr (case ea_policy_version A of None \<Rightarrow> JNull | Some v \<Rightarrow> JInt v)"
    unfolding P_def build_evidence_payload_def Let_def py_get_def py_get_or_def str_or_null_def
    by (simp_all add: map_add_def text_entries split: option.split)
  show "is_ok (read_text P ''principal_id'')" "is_ok (read_text P ''principal_name'')" "is_ok (read_text P ''previous_hash'')"
    "is_ok (read_text P ''authority_version'')" "is_ok (read_text P ''policy_bundle_hash'')" "is_ok (read_int P ''policy_version'')"
    using keys rd by (auto simp: read_int_def split: option.split)
  have ikeys: "py_get P ''integration_identity_id'' = Inr (str_or_null (ea_integration_identity_id A))"
    "py_get P ''enforcement_binding_id'' = Inr (str_or_null (ea_enforcement_binding_id A))"
    "py_get P ''integration_contract_version_id'' = Inr (str_or_null (ea_integration_contract_version_id A))"
    "py_get P ''integration_contract_content_hash'' = Inr (str_or_null (ea_integration_contract_content_hash A))"
    "py_get P ''integration_id'' = Inr (str_or_null (ea_integration_id A))" "py_get P ''environment'' = Inr (str_or_null (ea_environment A))"
    "py_get P ''source_operation'' = Inr (str_or_null (ea_source_operation A))"
    "py_get P ''external_operation_id'' = Inr (str_or_null (ea_external_operation_id A))"
    unfolding P_def build_evidence_payload_def Let_def py_get_def py_get_or_def str_or_null_def
    by (simp_all add: map_add_def text_entries split: option.split)
  show "is_ok (build_receipt_integration_summary P)"
    using rd [OF ikeys(1)] rd [OF ikeys(2)] rd [OF ikeys(3)] rd [OF ikeys(4)] rd [OF ikeys(5)] rd [OF ikeys(6)]
      rd [OF ikeys(7)] rd [OF ikeys(8)] ikeys(1)
    by (simp add: build_receipt_integration_summary_def is_ok_rbind) (auto simp: is_ok_iff)
  show "is_ok (receipt_facts P)" if "ea_facts_evaluated A = map fact_snapshot fs"
  proof -
    have "py_get P ''facts_evaluated'' = Inr (if fs = [] then JNull else JList (map fact_snapshot fs))"
      unfolding P_def build_evidence_payload_def Let_def py_get_def py_get_or_def using that
      by (simp add: map_add_def text_entries split: option.split)
    then show ?thesis using facts_read [of fs] by (simp add: receipt_facts_def py_or_def)
  qed
qed

lemma receipt_available:
  assumes "get_decision_for_organization d did (Some oid) = Inr de" and "get_earliest_evidence_for_decision d did = Some ev"
    and "ev_payload ev = build_evidence_payload A risk prev aids sys t" and "ea_facts_evaluated A = map fact_snapshot fs"
    and "get_intent_row d (de_intent_id de) = Some it" and "it_context it = JObj ctx"
    and "is_ok (verify_evidence C S d (ev_id ev) (Some oid))" and "\<And>p. get_policy_row d (de_policy_id de) = Some p \<Longrightarrow> is_ok (manifest_entries p)"
  obtains r where "get_authorization_receipt C S rf did (Some oid) now d = Inr r" "rd_outcome (rx_decision r) = Outcome_value (de_outcome de)"
    "rv_created_at (rx_evidence r) = ev_created_at ev"
proof -
  note p = payload_truthy [OF assms(3)]
  note rd = payload_reads [where A = A and risk = risk and prev = prev and aids = aids and sys = sys and now = t, folded assms(3)]
  have auth: "is_ok (receipt_authority d (de_policy_id de) (ev_payload ev))"
  proof (cases "get_policy_row d (de_policy_id de)")
    case None
    from rd(4) [THEN is_ok_iff [THEN iffD1]] obtain x where x: "read_text (ev_payload ev) ''authority_version'' = Inr x" ..
    from rd(5) [THEN is_ok_iff [THEN iffD1]] obtain y where y: "read_text (ev_payload ev) ''policy_bundle_hash'' = Inr y" ..
    from rd(6) [THEN is_ok_iff [THEN iffD1]] obtain z where z: "read_int (ev_payload ev) ''policy_version'' = Inr z" ..
    show ?thesis by (simp add: receipt_authority_def None x y z)
  next
    case (Some p)
    from rd(4) [THEN is_ok_iff [THEN iffD1]] obtain x where x: "read_text (ev_payload ev) ''authority_version'' = Inr x" ..
    from assms(8) [OF Some, THEN is_ok_iff [THEN iffD1]] obtain y where y: "manifest_entries p = Inr y" ..
    show ?thesis by (simp add: receipt_authority_def Some x y)
  qed
  have c: "as_dict (py_or (it_context it) (JObj [])) = Inr ctx" using assms(6) by (simp add: py_or_def)
  have did: "de_id de = did" using decision_of_organization [OF assms(1)] by blast
  from auth [THEN is_ok_iff [THEN iffD1]] obtain auth where "receipt_authority d (de_policy_id de) (ev_payload ev) = Inr auth" ..
  moreover from rd(7) [THEN is_ok_iff [THEN iffD1]] obtain integration where "build_receipt_integration_summary (ev_payload ev) = Inr integration" ..
  moreover from assms(7) [THEN is_ok_iff [THEN iffD1]] obtain v where "verify_evidence C S d (ev_id ev) (Some oid) = Inr v" ..
  moreover from rd(1) [THEN is_ok_iff [THEN iffD1]] obtain pid where "read_text (ev_payload ev) ''principal_id'' = Inr pid" ..
  moreover from rd(2) [THEN is_ok_iff [THEN iffD1]] obtain pname where "read_text (ev_payload ev) ''principal_name'' = Inr pname" ..
  moreover from rd(8) [OF assms(4), THEN is_ok_iff [THEN iffD1]] obtain facts where "receipt_facts (ev_payload ev) = Inr facts" ..
  moreover from rd(3) [THEN is_ok_iff [THEN iffD1]] obtain prv where "read_text (ev_payload ev) ''previous_hash'' = Inr prv" ..
  ultimately have "\<exists>r. get_authorization_receipt C S rf did (Some oid) now d = Inr r \<and> rd_outcome (rx_decision r) = Outcome_value (de_outcome de)
      \<and> rv_created_at (rx_evidence r) = ev_created_at ev"
    using assms(1,2,5) c by (cases v) (simp add: get_authorization_receipt_def Let_def did p)
  then show thesis using that by blast
qed

lemma submitted_payload:
  assumes "submit_intent E ids a act amt cur cp ctx ra nonce corr res src now d = Inr (d', it, de, ev)"
  shows "it_context it = JObj ctx \<and> (\<exists>A risk prev aids sys fs. ev_payload ev = build_evidence_payload A risk prev aids sys now
    \<and> ea_facts_evaluated A = map fact_snapshot fs)"
  using assms
proof (rule submit_intentD)
  fix stored d1 org
  assume s: "it = new_intent (id_intent ids) (ag_id a) corr act stored cur cp res src ctx nonce ra now"
    and r: "(if ag_status a = AgSuspended then record_review E ids it a act amt cur res ''AGENT_SUSPENDED'' now d1
       else if \<not> is_recognized_scope act (list_active_scope_actions d1 org)
         then record_review E ids it a act amt cur res ''unrecognized_action'' now d1
       else evaluate_and_record E no_provenance ids it a act amt cur cp res ctx ra now d1) = Inr (d', de, ev)"
  have "\<exists>A risk prev aids sys fs. ev_payload ev = build_evidence_payload A risk prev aids sys now \<and> ea_facts_evaluated A = map fact_snapshot fs"
    if "record_review E ids it a act amt cur res why now d1 = Inr (d', de, ev)" for why
  proof -
    from that obtain A risk prev aids sys where "ev_payload ev = build_evidence_payload A risk prev aids sys now" "ea_facts_evaluated A = []"
      by (auto simp: record_review_def Let_def evidence_args_def split: sum.splits dest!: append_evidenceD)
    then have "ea_facts_evaluated A = map fact_snapshot []" by simp
    with \<open>ev_payload ev = _\<close> show ?thesis by blast
  qed
  moreover have "\<exists>A risk prev aids sys fs. ev_payload ev = build_evidence_payload A risk prev aids sys now \<and> ea_facts_evaluated A = map fact_snapshot fs"
    if "evaluate_and_record E no_provenance ids it a act amt cur cp res ctx ra now d1 = Inr (d', de, ev)"
  proof -
    from that obtain A risk prev aids sys where "ev_payload ev = build_evidence_payload A risk prev aids sys now"
      "ea_facts_evaluated A = map fact_snapshot (needed_facts d1 (Option.bind (rf_principal (resolve d1 a amt now)) pr_organization_id) cp now)"
      by (auto simp: evaluate_and_record_def Let_def evidence_args_def split: sum.splits prod.splits dest!: append_evidenceD)
    then show ?thesis by blast
  qed
  ultimately show ?thesis using r s by (auto simp: new_intent_def split: if_splits)
qed


section \<open>Findings\<close>

text \<open>A decision without a bundle is explained before anybody asks whose it is, and the binding of another organization's
  decision is told apart from a missing one: both confirm to any organization that the decision exists.\<close>

theorem foreign_decision_confirmed:
  assumes "get_decision_row d did = Some de" and "de_policy_id de = None"
  shows "get_decision_explanation rf did org d = Inr (ExplanationUnavailable did ''no_policy_evaluated'')
    \<and> decision_policy_binding did o' d = Inl (HTTPException 404 ''no_policy_bound'')
    \<and> (get_decision_row d other = None \<longrightarrow> get_decision_explanation rf other org d = Inl (ExplainedNotFoundError other)
        \<and> decision_policy_binding other o' d = Inl (HTTPException 404 ''decision_not_found''))"
  using assms get_decision_rowD [OF assms(1)] by (simp add: get_decision_explanation_def decision_policy_binding_def)

text \<open>The receipt is said to report the same authority whenever it is read; the bundle row changes when the next bundle retires it.\<close>

theorem receipt_authority_changes:
  assumes "db_find (\<lambda>q. po_id q = po_id p) (policies d) = Some p" and "manifest_entries p = Inr es" and "po_retired_at p = None"
    and "read_text payload ''authority_version'' = Inr v"
    and "d' = d\<lparr>policies := db_update (\<lambda>q. po_id q = po_id p) (\<lambda>q. q\<lparr>po_status := PolRetired, po_retired_at := Some t\<rparr>) (policies d)\<rparr>"
  shows "\<exists>a a'. receipt_authority d (Some (po_id p)) payload = Inr a \<and> receipt_authority d' (Some (po_id p)) payload = Inr a'
    \<and> ry_retired_at a = None \<and> ry_retired_at a' = Some t"
proof -
  let ?r = "\<lambda>q. q\<lparr>po_status := PolRetired, po_retired_at := Some t\<rparr>"
  have "db_find (\<lambda>q. po_id q = po_id p) (policies d') = Some (?r p)"
    unfolding assms(5) using assms(1) by (simp add: db_find_update_key)
  moreover have "manifest_entries (?r p) = manifest_entries p" by (simp add: manifest_entries_def)
  ultimately show ?thesis using assms(1-4) by (simp add: receipt_authority_def get_policy_row_def)
qed

lemma guarded_runs: "admitted C key perm h now d org d1 \<Longrightarrow> guarded C key perm h now handler d = handler org d1"
  using passes_iff [of C key perm h now d d1 org] by (auto simp: guarded_def)

section \<open>A reviewer reads the history\<close>

definition asked_intent :: Intent where
  "asked_intent = new_intent ''i1'' ''a1'' None ''vendor_payment'' None None None None None [] ''n1'' 0 0"

definition asked_decision :: Decision where
  "asked_decision = \<lparr>de_id = ''d1'', de_intent_id = ''i1'', de_policy_id = None, de_outcome = OutHumanReview,
     de_reason = Some ''no_active_policy'', de_evaluated_mandates = JList [], de_created_at = 0, de_evaluated_mandate_ids = JList [],
     de_enterprise_system_id = None\<rparr>"

definition history_db :: db where
  "history_db = session_db\<lparr>intents := [asked_intent], decisions := [asked_decision]\<rparr>"

lemma history_admitted:
  "admitted plain_crypto ''k'' DECISIONS_VIEW reviewer_headers 5 history_db (new_organization ''o1'' ''Acme'' ''production'' 0) history_db"
proof -
  have rl: "Role_of ''reviewer'' = Some REVIEWER" using role_enum.enum_of_value [of REVIEWER] by (simp add: Role_of_def)
  have p: "has_permission REVIEWER DECISIONS_VIEW" by (simp add: has_permission_def)
  have "get_session_row history_db = get_session_row session_db" "get_user_row history_db = get_user_row session_db"
    "get_organization_row history_db = get_organization_row session_db"
    by (simp_all add: history_db_def get_session_row_def get_user_row_def get_organization_row_def fun_eq_iff)
  then show ?thesis
    by (intro admitted_session [where token = demo_token and sid = demo_token and u = "new_user ''u1'' ''o1'' ''a@b'' ''Ann'' ''h'' ''reviewer'' False 0"
          and s = "\<lparr>se_id = demo_token, se_user_id = ''u1'', se_created_at = 0, se_expires_at = 10, se_revoked_at = None\<rparr>"])
      (simp_all add: reviewer_headers_def session_rows new_user_def new_organization_def rl, rule p)
qed

definition no_filters :: HistoryFilters where
  "no_filters = \<lparr>hf_outcome = None, hf_agent_id = None, hf_action = None, hf_resource = None, hf_source = None\<rparr>"

lemma history_rows_demo: "history_rows history_db ''o1'' 50 0 no_filters = ([asked_decision], 1)"
proof -
  have "in_organization history_db (Some ''o1'') asked_decision"
    by (simp add: in_organization_def history_db_def session_db_def allow_db_def keyed_db_def one_agent_db_def asked_decision_def asked_intent_def
        new_intent_def get_intent_row_def get_agent_row_def get_principal_row_def demo_agent_def new_agent_def demo_principal_def)
  moreover have "history_matches history_db None None None None None None None asked_decision"
    by (simp add: history_matches_def get_intent_row_def history_db_def asked_decision_def asked_intent_def new_intent_def)
  ultimately show ?thesis
    by (simp add: history_rows_def no_filters_def list_decision_history_def history_db_def)
qed

theorem decision_reads_scoped_witness:
  "\<exists>hs x. list_decision_history_handler plain_crypto ''k'' reviewer_headers 50 0 no_filters 5 history_db = (history_db, Inr hs)
     \<and> hr_decisions hs = [x] \<and> dh_id x = ''d1'' \<and> owned history_db ''o1'' ''d1''"
proof -
  let ?o = "new_organization ''o1'' ''Acme'' ''production'' 0"
  have c: "clamp_limit 50 = 50" "clamp_offset 0 = 0" "org_id ?o = ''o1''" by (simp_all add: clamp_limit_def clamp_offset_def new_organization_def)
  obtain x where x: "build_decision_history_item history_db asked_decision = Inr x"
    by (simp add: build_decision_history_item_def asked_decision_def str_list_or_empty_def py_or_def get_intent_row_def history_db_def
        asked_intent_def new_intent_def Let_def)
  let ?hs = "\<lparr>hr_decisions = [x], hr_total = 1, hr_limit = 50, hr_offset = 0\<rparr>"
  have r: "list_decision_history_handler plain_crypto ''k'' reviewer_headers 50 0 no_filters 5 history_db = (history_db, Inr ?hs)"
    unfolding list_decision_history_handler_def
    by (subst guarded_runs [OF history_admitted])
      (simp add: reading_def c history_rows_demo x)
  have h: "\<exists>org. admitted plain_crypto ''k'' DECISIONS_VIEW reviewer_headers 5 history_db org history_db
      \<and> (\<forall>x \<in> set (hr_decisions ?hs). owned history_db (org_id org) (dh_id x))"
    by (rule decision_reads_scoped [THEN conjunct2, THEN conjunct2, THEN conjunct1, THEN mp, OF r])
  then obtain org where org: "admitted plain_crypto ''k'' DECISIONS_VIEW reviewer_headers 5 history_db org history_db"
      "owned history_db (org_id org) (dh_id x)" by auto
  have "guarded plain_crypto ''k'' DECISIONS_VIEW reviewer_headers 5 (\<lambda>o' d. (d, Inr (org_id o'))) history_db = (history_db, Inr (org_id org))"
    "guarded plain_crypto ''k'' DECISIONS_VIEW reviewer_headers 5 (\<lambda>o' d. (d, Inr (org_id o'))) history_db = (history_db, Inr ''o1'')"
    by (subst guarded_runs [OF org(1)], rule refl) (subst guarded_runs [OF history_admitted], simp only: c(3))
  then have "org_id org = ''o1''" by simp
  moreover have "dh_id x = ''d1''" using history_item_id [OF x] by (simp add: asked_decision_def)
  ultimately show ?thesis using r org(2) by (intro exI [of _ ?hs] exI [of _ x]) simp
qed

end
