(* ===== verification/Explanation_Truth.thy ===== *)
theory Explanation_Truth
  imports Record_Truth
begin

text \<open>
  The explanation of a recorded decision (\<^verbatim>\<open>server/app/services/decision_explanation_service.py\<close>) against what OPA
  decided: the question is rebuilt from the stored intent and the Evidence, the policies from the manifest of the bundle.
\<close>

section \<open>What is explained\<close>

lemma principal_in_payload:
  "py_get (build_evidence_payload A risk prev aids sys now) ''principal_name'' = Inr (case ea_principal_name A of None \<Rightarrow> JNull | Some s \<Rightarrow> JStr s)"
  "py_get (build_evidence_payload A risk prev aids sys now) ''authority_context'' = Inr (case ea_authority_context A of None \<Rightarrow> JNull | Some j \<Rightarrow> j)"
  by (simp_all add: build_evidence_payload_def py_get_def py_get_or_def Let_def map_add_def split: option.splits)

lemma evaluated_payload:
  assumes "evaluate_and_record E prov ids it a act amt cur cp res ctx ra now d = Inr (d', de, ev)"
  shows "py_get (ev_payload ev) ''principal_name'' = Inr (JStr (rf_principal_name (resolve d a amt now)))
    \<and> py_get (ev_payload ev) ''authority_context'' = Inr (rf_authority_context (resolve d a amt now))"
  using assms
  by (auto simp: evaluate_and_record_def Let_def evidence_args_def principal_in_payload split: sum.splits prod.splits dest!: append_evidenceD)

text \<open>The rebuilt question shows a condition what OPA was asked, except for the time of the request.\<close>

definition reads_timestamp :: "Condition \<Rightarrow> bool" where
  "reads_timestamp c = (startswith (field c) ''context.'' \<and> hd (split_on CHR ''.'' (drop 8 (field c))) = ''timestamp'')"

lemma walk_null [simp]: "walk JNull ks = JNull" by (cases ks) simp_all

lemma walk_obj: "ks \<noteq> [] \<Longrightarrow> walk (JObj m) ks = (case map_of m (hd ks) of None \<Rightarrow> JNull | Some v \<Rightarrow> walk v (tl ks))"
  by (cases ks) (auto split: option.splits)

lemma split_on_nonempty: "split_on c s \<noteq> []"
  by (induction c s rule: split_on.induct) (auto split: list.splits)

lemma intent_walk:
  assumes "map_option (float_of_numeric rf) (it_amount it) = amt" and "it_action it = act" and "it_currency it = cur" and "it_resource it = res" and "ks \<noteq> []"
  shows "walk (reconstructed_intent rf it) ks
    = walk (JObj [(''action'', JStr act), (''amount'', amount_json amt), (''currency'', opt_str cur), (''resource'', opt_str res)]) ks"
  using assms(1)[symmetric] assms(2-5)
  by (auto simp: walk_obj reconstructed_intent_def amount_json_def opt_str_def map_add_def split: option.splits)

lemma context_walk:
  assumes "ks \<noteq> []" and "hd ks \<noteq> ''timestamp''"
  shows "walk (JObj (dict_updates ctx [(''authority'', ac)])) ks = walk (JObj (dict_updates ctx [(''timestamp'', ts), (''authority'', ac)])) ks"
  using assms by (simp add: walk_obj dict_updates_def update_conv')

lemma rebuilt_rule:
  assumes "map_option (float_of_numeric rf) (it_amount it) = amt" and "it_action it = act" and "it_currency it = cur" and "it_resource it = res"
    and "\<forall>c \<in> set (all_of (conditions q)). \<not> reads_timestamp c"
  shows "evaluate_rule q (reconstructed_intent rf it) (JObj (dict_updates ctx [(''authority'', ac)])) name ms
    = evaluate_rule q (JObj [(''action'', JStr act), (''amount'', amount_json amt), (''currency'', opt_str cur), (''resource'', opt_str res)])
        (JObj (dict_updates ctx [(''timestamp'', ts), (''authority'', ac)])) name ms"
    (is "evaluate_rule q ?ri ?rc name ms = evaluate_rule q ?ei ?ec name ms")
proof -
  have v: "resolve_value (field c) ?ri ?rc = resolve_value (field c) ?ei ?ec" if "c \<in> set (all_of (conditions q))" for c
    using assms(5) that intent_walk [OF assms(1-4) split_on_nonempty] context_walk [OF split_on_nonempty]
    by (auto simp: resolve_value_def reads_timestamp_def)
  have m: "map (\<lambda>c. evaluate_condition c ?ri ?rc) (all_of (conditions q)) = map (\<lambda>c. evaluate_condition c ?ei ?ec) (all_of (conditions q))"
    using v by (simp add: evaluate_condition_def)
  have s: "explainer_scope_matches q ?ri = explainer_scope_matches q ?ei"
    using assms(1-4) by (auto simp: explainer_scope_matches_def intent_get_def reconstructed_intent_def opt_str_def map_add_def split: option.splits)
  show ?thesis unfolding evaluate_rule_def Let_def m s by (rule refl)
qed

lemma reconstruct_same: "runtime_policy_records d' = runtime_policy_records d \<Longrightarrow> reconstruct_policies d' es = reconstruct_policies d es"
  by (induction es) (simp_all add: manifest_record_def cong: option.case_cong)

text \<open>The rules of one decision: matched is what the policy does, and the words say so where the explainer can follow the rule.\<close>

definition explainable_rule :: "json \<Rightarrow> json \<Rightarrow> RuntimePolicy \<Rightarrow> bool" where
  "explainable_rule intent ctx q = (agent (scope q) = None
     \<and> (\<forall>c \<in> set (all_of (conditions q)). explainable intent ctx c \<and> \<not> reads_timestamp c))"

lemma rules_explained:
  assumes "verdict ps input = (out, why, ms)"
    and "length (filter (policy_matches input) ps) \<le> 1" and "distinct (map rp_id ps)"
    and "input = build_opa_input ei ec (JStr name) pv ag ek"
    and "\<And>q. q \<in> set ps \<Longrightarrow> explainable_rule ei ec q \<Longrightarrow> evaluate_rule q ri rc name ms = evaluate_rule q ei ec name ms"
  shows "\<forall>q \<in> set ps. \<exists>e \<in> set (build_rule_evaluations ps ri rc name ms). re_policy_id e = rp_id q \<and> (re_matched e \<longleftrightarrow> policy_matches input q)
      \<and> (explainable_rule ei ec q \<longrightarrow> (re_matched e \<longleftrightarrow> startswith (re_summary e) ''Matched''))"
    and "map_option re_policy_id (db_find re_matched (build_rule_evaluations ps ri rc name ms)) = map_option rp_id (db_find (policy_matches input) ps)"
proof -
  note vm = verdict_mandates [OF assms(2,3) _ assms(1)]
  show "\<forall>q \<in> set ps. \<exists>e \<in> set (build_rule_evaluations ps ri rc name ms). re_policy_id e = rp_id q \<and> (re_matched e \<longleftrightarrow> policy_matches input q)
      \<and> (explainable_rule ei ec q \<longrightarrow> (re_matched e \<longleftrightarrow> startswith (re_summary e) ''Matched''))"
  proof
    fix q
    assume q: "q \<in> set ps"
    let ?e = "evaluate_rule q ri rc name ms"
    have "?e \<in> set (build_rule_evaluations ps ri rc name ms)" using q by (simp add: build_rule_evaluations_def)
    moreover have "re_policy_id ?e = rp_id q" "re_matched ?e \<longleftrightarrow> policy_matches input q"
      using vm [OF q] by (simp_all add: evaluate_rule_def Let_def)
    moreover have "re_matched ?e \<longleftrightarrow> startswith (re_summary ?e) ''Matched''" if x: "explainable_rule ei ec q"
    proof -
      have e: "?e = evaluate_rule q ei ec name ms" by (rule assms(5) [OF q x])
      from x have "re_scope_matched ?e \<and> (\<forall>c \<in> set (re_conditions ?e). ce_passed c) \<longleftrightarrow> policy_matches input q"
        unfolding e assms(4) by (intro rule_agrees) (auto simp: explainable_rule_def)
      then show ?thesis using summary_says_matched [OF refl, of q ri rc name ms] vm [OF q]
        by (simp add: evaluate_rule_def Let_def)
    qed
    ultimately show "\<exists>e \<in> set (build_rule_evaluations ps ri rc name ms). re_policy_id e = rp_id q \<and> (re_matched e \<longleftrightarrow> policy_matches input q)
      \<and> (explainable_rule ei ec q \<longrightarrow> (re_matched e \<longleftrightarrow> startswith (re_summary e) ''Matched''))" by blast
  qed
  have "\<forall>q \<in> set ps. rp_id q \<in> set ms \<longleftrightarrow> policy_matches input q" using vm by blast
  then show "map_option re_policy_id (db_find re_matched (build_rule_evaluations ps ri rc name ms)) = map_option rp_id (db_find (policy_matches input) ps)"
    unfolding build_rule_evaluations_def by (induction ps) (simp_all add: evaluate_rule_def Let_def)
qed

lemma fresh_key: "k \<notin> f ` set xs \<Longrightarrow> db_find (\<lambda>r. f r = k) xs = None \<and> filter (\<lambda>r. f r = k) xs = []"
  by (induction xs) auto

text \<open>What a submission that consulted a policy leaves for the explanation.\<close>

lemma consulted_submission:
  assumes "submit_intent E ids a act amt cur cp ctx ra nonce corr res src now d = Inr (d', it, de, ev)" and "de_policy_id de \<noteq> None"
  obtains d1 ed stored where "d1 = d\<lparr>intents := intents d @ [it]\<rparr>" "run_engine E d1 a act amt cur cp res ctx ra now = Inr ed"
    "it = new_intent (id_intent ids) (ag_id a) corr act stored cur cp res src ctx nonce ra now"
    "d' = d1\<lparr>decisions := decisions d1 @ [de], evidence := evidence d1 @ [ev]\<rparr>" "de_id de = id_decision ids"
    "de_intent_id de = it_id it" "ev_decision_id ev = id_decision ids" "de_policy_id de = ed_policy_id ed"
    "de_evaluated_mandates de = JList (map JStr (ed_evaluated_mandates ed))" "(de_outcome de, de_reason de) = final_verdict d1 ed now"
    "py_get (ev_payload ev) ''principal_name'' = Inr (JStr (rf_principal_name (resolve d1 a amt now)))"
    "py_get (ev_payload ev) ''authority_context'' = Inr (rf_authority_context (resolve d1 a amt now))"
  using assms(1)
proof (rule submit_intentD)
  fix stored d1 org
  assume s: "it = new_intent (id_intent ids) (ag_id a) corr act stored cur cp res src ctx nonce ra now"
    "d1 = d\<lparr>intents := intents d @ [it]\<rparr>"
    "(if ag_status a = AgSuspended then record_review E ids it a act amt cur res ''AGENT_SUSPENDED'' now d1
       else if \<not> is_recognized_scope act (list_active_scope_actions d1 org)
         then record_review E ids it a act amt cur res ''unrecognized_action'' now d1
       else evaluate_and_record E no_provenance ids it a act amt cur cp res ctx ra now d1) = Inr (d', de, ev)"
  have ia: "it_agent_id it = ag_id a" using s(1) by (simp add: new_intent_def)
  have "de_policy_id de = None" if "record_review E ids it a act amt cur res why now d1 = Inr (d', de, ev)" for why
    using that by (auto simp: record_review_def Let_def split: sum.splits)
  with s(3) assms(2) have er: "evaluate_and_record E no_provenance ids it a act amt cur cp res ctx ra now d1 = Inr (d', de, ev)"
    by (auto split: if_splits)
  then show thesis
  proof (rule evaluate_and_recordD [OF _ ia])
    fix ed
    assume "run_engine E d1 a act amt cur cp res ctx ra now = Inr ed" "recorded d1 it de ev d'" "(de_outcome de, de_reason de) = final_verdict d1 ed now"
      "de_evaluated_mandates de = JList (map JStr (ed_evaluated_mandates ed))" "de_policy_id de = ed_policy_id ed" "de_id de = id_decision ids"
    then show thesis using that [of d1 ed stored] s(1,2) evaluated_payload [OF er] by (simp add: recorded_def)
  qed
qed

lemma engine_decides:
  assumes "run_engine E d a act amt cur cp res ctx ra now = Inr ed" and "ed_policy_id ed \<noteq> None"
    and "\<And>i. opa_query (env_opa E) (map_option org_data_path (Option.bind (get_principal_row d (ag_acting_for_principal_id a)) pr_organization_id)) i
          = Inr (bundle_result ps i)"
    and "\<And>input. fired input ps = filter (policy_matches input) ps" and "\<And>input. length (filter (policy_matches input) ps) \<le> 1"
  obtains ap input out why ms where
    "get_active d (Option.bind (get_principal_row d (ag_acting_for_principal_id a)) pr_organization_id) = Some ap"
    "input = (case engine_input d a act amt cur cp res ctx ra now of (ei, ec, acting, ek) \<Rightarrow> build_opa_input ei ec acting (ap_version ap) (Some (ag_id a)) ek)"
    "verdict ps input = (out, why, ms)" "ed = pinned ap out why ms"
proof -
  let ?org = "Option.bind (get_principal_row d (ag_acting_for_principal_id a)) pr_organization_id"
  have rf: "rf_principal (resolve d a amt now) = get_principal_row d (ag_acting_for_principal_id a)" by (simp add: resolve_def Let_def)
  obtain ei ec acting ek where i: "engine_input d a act amt cur cp res ctx ra now = (ei, ec, acting, ek)" by (rule prod_cases4)
  have e: "evaluate ei ec acting (get_active d ?org) (opa_query (env_opa E) (map_option org_data_path ?org)) (Some (ag_id a)) ek = Inr ed"
    using assms(1) by (simp add: run_engine_def rf i Let_def)
  obtain ap where ap: "get_active d ?org = Some ap" using e assms(2) by (cases "get_active d ?org") (auto simp: evaluate_def unpinned_def)
  let ?input = "build_opa_input ei ec acting (ap_version ap) (Some (ag_id a)) ek"
  obtain out why ms where v: "verdict ps ?input = (out, why, ms)" by (rule prod_cases3)
  have "decide ap (bundle_result ps ?input) = Inr (let (out, why, ev) = verdict ps ?input in pinned ap out why ev)"
    by (rule decide_bundle_result [OF assms(4,5)])
  then have "ed = pinned ap out why ms" using e ap v assms(3) by (simp add: evaluate_def)
  then show thesis using that [OF ap _ v] i by simp
qed

lemma bundle_reasons:
  assumes "verdict ps input = (out, why, ms)" and "(out', why') = final_verdict d (pinned ap out why ms) now"
  shows "\<not> is_unevaluated_reason why'"
proof -
  have "why = None \<or> why = Some ''no_policy_covers_scope'' \<or> (\<exists>i. why = Some (''policy_matched:'' @ i))"
    using assms(1) by (auto simp: verdict_def split: list.splits Effect.splits)
  moreover have "why' = why \<or> why' = Some ''authority_review_overdue''"
    using assms(2) by (auto simp: final_verdict_def pinned_def split: if_splits)
  ultimately show ?thesis by (auto simp: is_unevaluated_reason_def startswith_def)
qed


section \<open>A decision and its explanation\<close>

definition supplier_policy :: RuntimePolicy where
  "supplier_policy = demo_policy\<lparr>rp_id := demo_token, scope := \<lparr>principal = ''CFO'', action = ''vendor_payment'', agent = None, resource = None\<rparr>\<rparr>"

definition explained_db :: db where
  "explained_db = allow_db\<lparr>policies := [\<lparr>po_id = ''b1'', po_version = 1, po_status = PolActive, po_bundle_hash = ''h'', po_bundle_uri = ''u'',
       po_compiled_at = None, po_activated_at = None, po_retired_at = None,
       po_bundle_manifest = Some (JObj [(''policies'', JList [manifest_policy supplier_policy])]), po_organization_id = Some ''o1''\<rparr>],
     runtime_policy_records := [new_policy_record ''r1'' demo_token 1 (to_dict supplier_policy) (Some ''o1'') None 0]\<rparr>"

definition explained_env :: Env where
  "explained_env = \<lparr>env_crypto = plain_crypto, env_settings = demo_settings,
     env_opa = (\<lambda>path input. Response 200 (Some (JObj [(''result'', bundle_result [supplier_policy] input)]))),
     env_numeric = (\<lambda>_. Some 40000)\<rparr>"

lemma supplier_compiles:
  "\<exists>b. compile_bundle plain_crypto id GENERIC_VOCABULARY [supplier_policy] ''b'' 1 0 = Inr \<lparr>cr_bundle = Some b, diagnostics = []\<rparr>"
proof -
  have e: "policy_errors GENERIC_VOCABULARY supplier_policy = []"
    by (simp add: policy_errors_Nil demo_policy_def supplier_policy_def well_formed_def demo_token_def
        well_formed_condition_def is_blank_def is_space_def numeric_operators_def is_valid_action_def
        GENERIC_VOCABULARY_def KNOWN_SCOPES_def is_valid_field_def startswith_def)
  have c: "policy_conflicts id [supplier_policy] = Inr []" by (simp add: evaluate_compile)
  obtain b where "build_bundle plain_crypto [supplier_policy] ''b'' 1 0 = Inr b"
    by (auto simp: build_bundle_def generate_policy_rule_def generate_conditions_block_def supplier_policy_def
        generate_condition_expression_def demo_policy_def resolve_base_and_field_def Let_def startswith_def)
  then show ?thesis using e c by (simp add: compile_bundle_def)
qed

lemma supplier_simulable: "simulable id [supplier_policy]"
  by (auto simp: simulable_def kinds_agree_def supplier_policy_def demo_policy_def uuid_char_def alike_def demo_token_def)

lemma supplier_opa: "opa_query (env_opa explained_env) path i = Inr (bundle_result [supplier_policy] i)"
  by (simp add: opa_query_def explained_env_def py_get_def py_get_or_def bundle_result_def Let_def)

lemma supplier_row: "from_dict (to_dict supplier_policy) = Inr supplier_policy"
  by (rule from_dict_to_dict) (simp add: dates_ok_def opt_range_def demo_policy_def supplier_policy_def)

lemma supplier_reconstructed: "reconstruct_policies explained_db [manifest_policy supplier_policy] = Inr (Some [supplier_policy])"
proof -
  have "rp_id supplier_policy = demo_token" "version supplier_policy = 1" by (simp_all add: supplier_policy_def demo_policy_def)
  then show ?thesis
    by (simp add: manifest_record_def manifest_policy_def explained_db_def new_policy_record_def row_to_policy_def supplier_row)
qed

text \<open>Two ways in which the words of an explanation part from the decision: the amount is stored to the cent, so a payment just above
  a limit is explained as below it, and the time of the request, like the facts, is not rebuilt.\<close>

definition timed_policy :: RuntimePolicy where
  "timed_policy = supplier_policy\<lparr>conditions := \<lparr>all_of = [\<lparr>field = ''context.timestamp'', operator = EXISTS, cvalue = JBool True\<rparr>]\<rparr>\<rparr>"

definition stored_payment :: Intent where
  "stored_payment = new_intent ''i1'' ''a1'' None ''vendor_payment'' (Some 50000) None None None None [] ''n1'' 0 0"

theorem rounded_amount_explained_matched:
  "\<not> policy_matches (build_opa_input (JObj [(''action'', JStr ''vendor_payment''), (''amount'', JFloat 500004 (- 3))]) (JObj []) (JStr ''CFO'') 1 None (JObj [])) supplier_policy
   \<and> startswith (re_summary (evaluate_rule supplier_policy (reconstructed_intent rf stored_payment) (JObj []) ''CFO'' [])) ''Matched''"
proof -
  have "norm_dec 50000 (- 2) = (5, 2)" by (simp add: norm_dec.simps)
  then show ?thesis
  by (simp add: policy_matches_def condition_holds_def supplier_policy_def demo_policy_def build_opa_input_def
      field_value_def field_path_def startswith_def dec_val_def py_or_def stored_payment_def new_intent_def reconstructed_intent_def
      amount_json_def float_of_numeric_def evaluate_rule_def rule_summary_def explainer_scope_matches_def intent_get_def
      evaluate_condition_def resolve_value_def condition_passes_def compare_values_def py_le_def py_lt.simps Let_def)
qed

theorem timed_rule_explained_failed:
  "policy_matches (build_opa_input (JObj [(''action'', JStr ''vendor_payment'')]) (JObj [(''timestamp'', JStr ''2026-01-01'')]) (JStr ''CFO'') 1 None (JObj [])) timed_policy
   \<and> reconstructed_context stored_payment (JObj []) = Inr (JObj [(''authority'', JNull)])
   \<and> startswith (re_summary (evaluate_rule timed_policy (reconstructed_intent rf stored_payment) (JObj [(''authority'', JNull)]) ''CFO'' [demo_token])) ''Failed''"
  by (simp add: policy_matches_def scope_matches_def condition_holds_def timed_policy_def supplier_policy_def demo_policy_def build_opa_input_def
      field_value_def field_path_def startswith_def py_or_def stored_payment_def new_intent_def reconstructed_intent_def reconstructed_context_def
      py_get_def py_get_or_def dict_updates_def amount_json_def float_of_numeric_def evaluate_rule_def rule_summary_def explainer_scope_matches_def intent_get_def
      evaluate_condition_def resolve_value_def condition_passes_def Let_def)

lemma supplier_rows:
  "intents explained_db = []" "decisions explained_db = []" "evidence explained_db = []" "ag_status demo_agent = AgActive" "ag_id demo_agent = ''a1''"
  "Option.bind (get_principal_row explained_db (ag_acting_for_principal_id demo_agent)) pr_organization_id = Some ''o1''"
  "organization_blocks explained_db demo_agent = None"
  "map po_id (policies explained_db) = [''b1'']" "norm_dec 40000 (- 2) = (4, 2)"
  by (simp_all add: explained_db_def allow_db_def keyed_db_def one_agent_db_def empty_db_def demo_agent_def new_agent_def get_principal_row_def
      demo_principal_def organization_blocks_def get_organization_row_def new_organization_def ensure_active_def norm_dec.simps)

definition payment_intent :: Intent where
  "payment_intent = new_intent ''i1'' ''a1'' None ''vendor_payment'' (Some 40000) None None None None [] ''n1'' 0 0"

lemma supplier_question:
  obtains ei ec ek where
    "engine_input (explained_db\<lparr>intents := [payment_intent]\<rparr>) demo_agent ''vendor_payment'' (Some (4, 2)) None None None [] 0 0 = (ei, ec, JStr ''CFO'', ek)"
    "policy_matches (build_opa_input ei ec (JStr ''CFO'') 1 (Some ''a1'') ek) supplier_policy"
proof -
  have none: "needed_facts (explained_db\<lparr>intents := [payment_intent]\<rparr>) org None 0 = []" for org
    by (simp add: needed_facts_def list_enterprise_knowledge_keys_for_active_policies_def explained_db_def new_policy_record_def list_latest_policies_def Let_def split: option.split)
  let ?e = "engine_input (explained_db\<lparr>intents := [payment_intent]\<rparr>) demo_agent ''vendor_payment'' (Some (4, 2)) None None None [] 0 0"
  obtain ei ec acting ek where e: "?e = (ei, ec, acting, ek)" by (rule prod_cases4)
  then have d: "ei = JObj [(''action'', JStr ''vendor_payment''), (''amount'', JFloat 4 2), (''currency'', JNull), (''resource'', JNull)]" "acting = JStr ''CFO''"
    by (auto simp: engine_input_def Let_def amount_json_def opt_str_def resolve_def get_principal_row_def explained_db_def allow_db_def
        demo_principal_def demo_agent_def new_agent_def)
  have "policy_matches (build_opa_input ei ec (JStr ''CFO'') 1 (Some ''a1'') ek) supplier_policy"
    by (simp add: d policy_matches_def scope_matches_def condition_holds_def supplier_policy_def demo_policy_def build_opa_input_def
        field_value_def field_path_def startswith_def dec_val_def)
  with that e d show thesis by simp
qed

lemma supplier_decides:
  obtains d' it de ev where
    "submit_intent explained_env demo_ids demo_agent ''vendor_payment'' (Some (4, 2)) None None [] 0 ''n1'' None None None 0 explained_db = Inr (d', it, de, ev)"
    "de_outcome de = OutAllow" "it = payment_intent" "de_policy_id de = Some ''b1''"
proof -
  let ?d = "explained_db\<lparr>intents := [payment_intent]\<rparr>"
  obtain ei ec ek where q: "engine_input ?d demo_agent ''vendor_payment'' (Some (4, 2)) None None None [] 0 0 = (ei, ec, JStr ''CFO'', ek)"
    "policy_matches (build_opa_input ei ec (JStr ''CFO'') 1 (Some ''a1'') ek) supplier_policy" by (rule supplier_question)
  let ?ap = "\<lparr>ap_id = ''b1'', ap_version = 1, ap_bundle_hash = Some ''h''\<rparr>"
  have act: "get_active explained_db (Some ''o1'') = Some ?ap" by (simp add: get_active_def explained_db_def)
  have org: "Option.bind (rf_principal (resolve ?d demo_agent (Some (4, 2)) 0)) pr_organization_id = Some ''o1''"
    using supplier_rows(6) by (simp add: resolve_def Let_def)
  obtain b where b: "compile_bundle plain_crypto id GENERIC_VOCABULARY [supplier_policy] ''b'' 1 0 = Inr \<lparr>cr_bundle = Some b, diagnostics = []\<rparr>"
    using supplier_compiles by blast
  note ex = compiled_exclusive [OF b _ supplier_simulable]
  have "verdict [supplier_policy] (build_opa_input ei ec (JStr ''CFO'') 1 (Some ''a1'') ek) = (OutAllow, None, [demo_token])"
    using q(2) by (simp add: verdict_def) (simp add: supplier_policy_def demo_policy_def)
  then have ed: "run_engine explained_env ?d demo_agent ''vendor_payment'' (Some (4, 2)) None None None [] 0 0 = Inr (pinned ?ap OutAllow None [demo_token])"
    using decide_bundle_result [OF ex(2,1), of ?ap "build_opa_input ei ec (JStr ''CFO'') 1 (Some ''a1'') ek"]
    by (simp add: run_engine_def org q(1) act evaluate_def supplier_opa supplier_rows(5) compile_ok_def Let_def)
  have fv: "final_verdict ?d (pinned ?ap OutAllow None [demo_token]) 0 = (OutAllow, None)"
    by (simp add: final_verdict_def pinned_def find_expired_high_risk_authority_def matched_records_def active_record_def List.map_filter_def
        explained_db_def new_policy_record_def)
  obtain d' de ev where r: "evaluate_and_record explained_env no_provenance demo_ids payment_intent demo_agent ''vendor_payment'' (Some (4, 2)) None None None [] 0 0 ?d
      = Inr (d', de, ev)" "de_outcome de = OutAllow"
    using evaluate_and_record_returns [OF ed fv, of no_provenance demo_ids payment_intent] by (auto simp: explained_env_def demo_appends)
  have "it_agent_id payment_intent = ag_id demo_agent" by (simp add: payment_intent_def new_intent_def supplier_rows(5))
  from evaluate_and_recordD [OF r(1) this] ed have pid: "de_policy_id de = Some ''b1''" by (metis Inr_inject ActivePolicy.select_convs(1) decide_outcome pinned_def EngineDecision.select_convs(4))
  have "submit_intent explained_env demo_ids demo_agent ''vendor_payment'' (Some (4, 2)) None None [] 0 ''n1'' None None None 0 explained_db
      = Inr (d', payment_intent, de, ev)"
    using r(1) supplier_rows(1,4,5,7)
    by (simp add: submit_intent_def is_recognized_scope_def KNOWN_SCOPES_def demo_ids_def explained_env_def payment_intent_def Let_def)
  with that r(2) pid show thesis by blast
qed


end
