(* ===== verification/Spec2Isabelle.thy ===== *)
theory Spec2Isabelle
  imports Rbac Policy_Schema Compiler_V2 Decision_Engine Agent_Lifecycle Policy_Lookup Evidence_Chain
    Org_Lifecycle Fact_Service Runtime_Truth Intent_Service
    Authority_Server Binding_Scope Attested_Submission Policy_Assurance Execution_Truth Simulation_Truth Access_Truth
    Explanation_Truth
begin

text \<open>
  PayReality is a runtime authority server for software agents. An enterprise writes policies (who may do what, under
  which conditions, with which effect); the server compiles the policies in force to one Rego module for an Open Policy
  Agent (OPA); agents, directly or through a trusted adapter, submit intents; every intent is decided (ALLOW,
  DENY or HUMAN REVIEW) and leaves a signed record in a hash chain; an allowed action can be exchanged for a short-lived
  capability token that a downstream system verifies and consumes; the adapter reports the execution in a receipt, and the
  receipts are reconciled with the decision. This development models the Python code of \<^verbatim>\<open>src/server/app\<close> that does this.
  Its root theory imports the others; every definition keeps the name it has in the source where HOL allows it, and
  \<^verbatim>\<open>PROJECT.json\<close> maps it to its lines.

  \<^bold>\<open>Theories and sources.\<close> Paths are relative to \<^verbatim>\<open>server/app\<close>.

  Foundations:
  \<^item> \<^theory_text>\<open>Prelude\<close>: \<open>py_error + 'a\<close>, \<open>rbind\<close>, \<open>raise_if\<close> and the other result combinators, table operations
    (\<open>db_find\<close>, \<open>db_update\<close>), and the locale \<open>str_enum\<close> of enumerations with a text value.
  \<^item> \<^theory_text>\<open>Json\<close>, \<^theory_text>\<open>Base64\<close>, \<^theory_text>\<open>Py_Time\<close>, \<^theory_text>\<open>Py_Value\<close>: what the code uses of Python's standard library: \<open>json.dumps\<close>
    with sorted keys and \<open>json.loads\<close>, base64 with its error cases, aware UTC datetimes with \<open>isoformat\<close> and its
    inverse, truth value, \<open>repr\<close> and \<open>str\<close> of values that came from JSON.
  \<^item> \<^theory_text>\<open>Db_Models\<close>: \<^verbatim>\<open>db/models.py\<close>. A record per table, \<open>db\<close> is the list of rows of every table.

  Policies:
  \<^item> \<^theory_text>\<open>Runtime_Policy\<close>, \<^theory_text>\<open>Policy_Schema\<close>: \<^verbatim>\<open>domain/runtime_policy/\<close>, the policy value, its validators and its serialization.
  \<^item> \<^theory_text>\<open>Policy_Semantics\<close>: the specification of what a policy matches; \<^theory_text>\<open>Scope_Overlap\<close> and \<^theory_text>\<open>Compiler_V2\<close>: the analysis,
    conflict detection, Rego generation and bundles of \<^verbatim>\<open>domain/compiler_v2/\<close>, checked against that specification.
  \<^item> \<^theory_text>\<open>Policy_Lookup\<close>, \<^theory_text>\<open>Policy_Store\<close>, \<^theory_text>\<open>Policy_Diff\<close>: \<^verbatim>\<open>services/runtime_policy_service.py\<close>: listings, the versions of a
    policy from draft to deployment, and the comparison of two versions.
  \<^item> \<^theory_text>\<open>Policy_Safety\<close>, \<^theory_text>\<open>Policy_Lifecycle\<close>: \<^verbatim>\<open>services/runtime_policy_safety_checks.py\<close> and
    \<^verbatim>\<open>runtime_policy_lifecycle_service.py\<close>: checks before activation, schedules, retirement, rollback, archiving.
  \<^item> \<^theory_text>\<open>Policy_Deployment\<close>, \<^theory_text>\<open>Policy_Assurance\<close>: the invariants and the properties of all policy operations together.

  Decisions:
  \<^item> \<^theory_text>\<open>Decision_Engine\<close>: \<^verbatim>\<open>domain/decision/\<close>, the query part of \<^verbatim>\<open>opa_client.py\<close> and \<^verbatim>\<open>domain/auth/signature.py\<close>.
  \<^item> \<^theory_text>\<open>Runtime_Truth\<close>, \<^theory_text>\<open>Fact_Service\<close>: what a decision takes for true of the enterprise.
  \<^item> \<^theory_text>\<open>Evidence_Signing\<close>, \<^theory_text>\<open>Evidence_Chain\<close>: signing, appending and verifying the records of decisions.
  \<^item> \<^theory_text>\<open>Intent_Service\<close>, \<^theory_text>\<open>Resolution_Service\<close>: submission of an intent and resolution of a human review.
  \<^item> \<^theory_text>\<open>Capability_Token\<close>, \<^theory_text>\<open>Capability_Service\<close>: the token and its issuance, verification and single consumption.

  Who acts:
  \<^item> \<^theory_text>\<open>Rbac\<close>, \<^theory_text>\<open>Org_Lifecycle\<close>, \<^theory_text>\<open>Agent_Lifecycle\<close>, \<^theory_text>\<open>Credentials\<close>, \<^theory_text>\<open>Lifecycle\<close>: roles, organizations, agents; the two
    last hold the locales \<open>lifecycle\<close> (a status column and the moves allowed on it) and \<open>credentials\<close> (an owner and its
    certificates) that the services instantiate.
  \<^item> \<^theory_text>\<open>Authority_Server\<close>: the services above as one server, and the locale \<open>simulation\<close> by which it refines the abstract
    authorization of a decision.
  \<^item> \<^theory_text>\<open>Integration_Identity\<close>, \<^theory_text>\<open>Integration_Contract\<close>, \<^theory_text>\<open>Enforcement_Binding\<close>, \<^theory_text>\<open>Trusted_Integration\<close>,
    \<^theory_text>\<open>Operation_Identity\<close>, \<^theory_text>\<open>Integration_Runtime\<close>, \<^theory_text>\<open>Attested_Authority\<close>, \<^theory_text>\<open>Attested_Submission\<close>, \<^theory_text>\<open>Binding_Scope\<close>: adapters, their
    contracts and bindings, and the submission of an intent by an adapter.
  \<^item> \<^theory_text>\<open>Execution_Receipts\<close>, \<^theory_text>\<open>Execution_Truth\<close>: receipts of executions and their reconciliation.

  \<^item> \<^theory_text>\<open>Auth_Service\<close>, \<^theory_text>\<open>Access_Control\<close>, \<^theory_text>\<open>Access_Truth\<close>: \<^verbatim>\<open>services/auth_service.py\<close>,
    \<^verbatim>\<open>services/organization_service.py\<close>, \<^verbatim>\<open>security.py\<close>, \<^verbatim>\<open>dependencies.py\<close> and the handlers of \<^verbatim>\<open>routers/\<close> that sign in,
    administer accounts, submit intents and resolve reviews: passwords, sessions, API keys, the middleware, and what guards a route.

  What is read and tried out:
  \<^item> \<^theory_text>\<open>Policy_Explainer\<close>, \<^theory_text>\<open>Policy_Simulation\<close>, \<^theory_text>\<open>Simulation_Truth\<close>: \<^verbatim>\<open>domain/policy_simulation/\<close>,
    \<^verbatim>\<open>domain/compiler_v2/dry_run.py\<close> and \<^verbatim>\<open>services/policy_simulation_service.py\<close>: rule by rule explanations, simulations in a
    throwaway module of OPA, batches, and their agreement with the decision engine.
  \<^item> \<^theory_text>\<open>Decision_Record\<close>, \<^theory_text>\<open>Record_Truth\<close>, \<^theory_text>\<open>Explanation_Truth\<close>: \<^verbatim>\<open>services/authorization_receipt_service.py\<close>,
    \<^verbatim>\<open>services/decision_explanation_service.py\<close> and the reading handlers of \<^verbatim>\<open>routers/intents.py\<close>: receipts that stay what they
    were, whose decisions are shown to whom, and explanations that agree with what OPA decided.

  \<^bold>\<open>State and errors.\<close> A service function takes the database as a value and returns the new one. A function that raises
  returns \<open>Inl\<close> of its error and no database, since the request handler rolls the session back; where the code commits
  before it raises (policy deployment, retirement, schedules), the result is a pair of an outcome and the stores after
  it. Primary keys, secrets, nonces and the instant \<open>now\<close> are arguments. Tables are lists in insertion order; a query without
  an order returns rows in that order, a query with one is a stable sort.

  \<^bold>\<open>Parameters.\<close> Code that is not in the repository is an argument: the cryptography (\<open>crypto\<close>: SHA-256 and ED25519, with
  \<open>ed25519_correct\<close> the hypothesis that a signature verifies under its own key; collision freedom is never assumed, the
  theorems that need it conclude with a collision as the alternative), OPA (\<open>opa\<close>, from a data path and an
  input to an HTTP reply; the theorems that need to know what it answers have the hypothesis that it answers as
  the compiled module says), bcrypt and the reading of a request body, what becomes of one call to OPA or one commit (\<open>OpaCall\<close>, \<open>Weather\<close>), and the iteration
  order of a Python set (\<open>set_order\<close>, any permutation).

  \<^bold>\<open>Concurrency.\<close> Operations that read and then write under a unique index or an optimistic check take two databases: \<open>seen\<close>,
  what they read, and \<open>d\<close>, what they commit to, which other transactions may have changed in between. The
  remaining operations are single steps, and the runs of \<^theory_text>\<open>Authority_Server\<close>, \<^theory_text>\<open>Trusted_Integration\<close> and
  \<^theory_text>\<open>Policy_Deployment\<close> interleave them in any order.

  \<^bold>\<open>Fuel and termination.\<close> Loops of the code are structural recursions or have a termination proof, with two exceptions of
  form: the retry loops take the number of attempts the code gives them, and the JSON reader takes fuel, which the
  length of its text always suffices for (\<^theory_text>\<open>Json\<close>). The depth-first search for circular delegations ends because its visited
  list grows inside the finite graph.

  \<^bold>\<open>What the lemmas show.\<close> Each component theory proves what its operations return on every branch and the frame of what
  they write; the properties are in the theories of the components, and in \<^theory_text>\<open>Authority_Server\<close>, \<^theory_text>\<open>Attested_Authority\<close>,
  \<^theory_text>\<open>Attested_Submission\<close>, \<^theory_text>\<open>Policy_Assurance\<close>, \<^theory_text>\<open>Execution_Truth\<close>, \<^theory_text>\<open>Simulation_Truth\<close>, \<^theory_text>\<open>Access_Truth\<close>,
  \<^theory_text>\<open>Record_Truth\<close> and \<^theory_text>\<open>Explanation_Truth\<close> where they span several. A property is a theorem after a
  text block with its claim id; a theorem with hypotheses is followed by a witness, which applies it to concrete data. Some
  theorems record that the code does not do what its comments say; they exhibit a concrete run.

  \<^bold>\<open>Not modelled.\<close> HTTP routing and the parsing of requests (a handler takes the parsed body or the error of parsing it),
  and the handlers of the routers not named above, which pass their arguments on to the services; the AI-assisted
  builders, extraction pipelines and the authority graph, whose results come from a language model and never reach a decision
  without human approval (the circular-delegation search that lives among them is modelled, since policy activation uses it);
  editing the organization's structure, the catalogue of enterprise systems, and the listings and reports of the user
  interface; the SDK and the web client. Log lines have no effect on the state and are left out.
\<close>

end
